(* ===== verification/Prelude.thy ===== *)
theory Prelude
  imports Main "HOL-Library.Word" "HOL-Library.Multiset"
begin

text \<open>
  Shared vocabulary of the development: Go's machine integers and strings, the error values
  declared by the packages, the error-and-state calculus in which the application layer is
  written, and a small set of Hoare rules for it.

  A Go \<^verbatim>\<open>string\<close> is a sequence of bytes, which is what HOL's \<^typ>\<open>string\<close> is. A Go
  \<^verbatim>\<open>int\<close> is 64 bits wide on the deployed platform; its order is the signed one, so comparisons
  go through \<^const>\<open>sint\<close>. A \<^verbatim>\<open>time.Time\<close> is a number of nanoseconds. A nil-able pointer
  is an \<^typ>\<open>'a option\<close>.
\<close>

type_synonym goint = "64 word"
type_synonym time = int

named_theorems domain_defs "unfolding rules of the domain operations"
named_theorems effect_defs "unfolding rules of the calls into the environment"

subsection \<open>Error values\<close>

text \<open>
  One constructor per error variable of the source, in the order of the source, and
  \<open>ErrorString\<close> for the errors made on the spot with \<^verbatim>\<open>fmt.Errorf\<close> or returned by a library.
  \<open>NilPanic\<close> is not an error value of the source but the run-time panic of a nil dereference.
\<close>

datatype payment_error =
    ErrMissingAccessToken
  | ErrMissingWebhookSecret
  | ErrInvalidWebhookSignature
  | ErrMalformedWebhook
  | ErrPaymentURLNotAvailable
  | ErrOrderNotFound
  | ErrOrderCreationFailed
  | ErrOrderNotCancellable
  | ErrOrderNotRefundable

datatype error =
    ErrInvalidServiceOrderID
  | ErrInvalidCustomerID
  | ErrInvalidVehicleID
  | ErrVehicleDoesNotBelongToCustomer
  | ErrInvalidStatus
  | ErrInvalidStatusTransition
  | ErrServiceOrderNotFound
  | ErrServiceOrderDeleted
  | ErrNoNextStatus
  | ErrInvalidPaymentPreference
  | ErrInvalidPaymentID
  | ErrInvalidPaymentURL
  | ErrInvalidItemID
  | ErrInvalidItemType
  | ErrInvalidReferenceID
  | ErrInvalidItemName
  | ErrInvalidQuantity
  | ErrInvalidUnitPrice
  | ErrItemNotFound
  | ErrProductNotFound
  | ErrServiceNotFound
  | ErrCannotModifyClosedOrder
  | ErrCannotModifyItemsAfterPending
  | ErrInvalidHistoryID
  | ErrHistoryNotFound
  | ErrInvalidMetadata
  | ErrHistoryCreationFailed
  | ErrForbiddenAccess
  | ErrProductInventoryNotFound
  | ErrInsufficientReservedStock
  | ErrInventoryOperationFailed
  | ErrSagaNotImplemented
  | ErrInvalidSagaID
  | ErrSagaAlreadyInProgress
  | PaymentErr payment_error
  | ErrorString string
  | NilPanic

subsection \<open>Programs with errors and effects\<close>

text \<open>
  A Go function that may return an error and that talks to the outside is a function from the
  world to a result and the next world. \<open>bindE\<close> is the idiom
  \<^verbatim>\<open>x, err := f(); if err != nil { return nil, err }\<close>.
\<close>

type_synonym ('w, 'a) prog = "'w \<Rightarrow> (error + 'a) \<times> 'w"

definition returnE :: "'a \<Rightarrow> ('w, 'a) prog" where
  "returnE x = (\<lambda>w. (Inr x, w))"

definition throwE :: "error \<Rightarrow> ('w, 'a) prog" where
  "throwE e = (\<lambda>w. (Inl e, w))"

definition bindE :: "('w, 'a) prog \<Rightarrow> ('a \<Rightarrow> ('w, 'b) prog) \<Rightarrow> ('w, 'b) prog" where
  "bindE m f = (\<lambda>w. case m w of (Inl e, w') \<Rightarrow> (Inl e, w') | (Inr x, w') \<Rightarrow> f x w')"

text \<open>A pure fallible step inside a program.\<close>

definition liftE :: "error + 'a \<Rightarrow> ('w, 'a) prog" where
  "liftE r = (\<lambda>w. (r, w))"

text \<open>A call whose error the caller inspects instead of returning it.\<close>

definition attemptE :: "('w, 'a) prog \<Rightarrow> ('w, error + 'a) prog" where
  "attemptE m = (\<lambda>w. case m w of (r, w') \<Rightarrow> (Inr r, w'))"

text \<open>A loop over a slice that stops at the first error.\<close>

fun foreachE :: "'x list \<Rightarrow> ('x \<Rightarrow> ('w, unit) prog) \<Rightarrow> ('w, unit) prog" where
  "foreachE [] f = returnE ()"
| "foreachE (x # xs) f = bindE (f x) (\<lambda>_. foreachE xs f)"

text \<open>A loop over a slice that appends one output per element and stops at the first error.\<close>

fun mapE :: "('x \<Rightarrow> ('w, 'y) prog) \<Rightarrow> 'x list \<Rightarrow> ('w, 'y list) prog" where
  "mapE f [] = returnE []"
| "mapE f (x # xs) = bindE (f x) (\<lambda>y. bindE (mapE f xs) (\<lambda>ys. returnE (y # ys)))"

text \<open>A loop over a slice that updates a value and stops at the first error.\<close>

fun foldE :: "('x \<Rightarrow> 's \<Rightarrow> ('w, 's) prog) \<Rightarrow> 'x list \<Rightarrow> 's \<Rightarrow> ('w, 's) prog" where
  "foldE f [] s = returnE s"
| "foldE f (x # xs) s = bindE (f x s) (foldE f xs)"

lemma returnE_apply [simp]: "returnE x w = (Inr x, w)"
  by (simp add: returnE_def)

lemma throwE_apply [simp]: "throwE e w = (Inl e, w)"
  by (simp add: throwE_def)

lemma liftE_apply [simp]: "liftE r w = (r, w)"
  by (simp add: liftE_def)

lemma liftE_Inr [simp]: "liftE (Inr x) = returnE x"
  by (simp add: liftE_def returnE_def)

lemma liftE_Inl [simp]: "liftE (Inl e) = throwE e"
  by (simp add: liftE_def throwE_def)

lemma bindE_returnE [simp]: "bindE (returnE x) f = f x"
  by (simp add: bindE_def returnE_def)

lemma bindE_throwE [simp]: "bindE (throwE e) f = throwE e"
  by (simp add: bindE_def throwE_def)

lemma bindE_returnE_right [simp]: "bindE m returnE = m"
  by (rule ext) (simp add: bindE_def split: prod.split sum.split)

lemma bindE_return_unit: "bindE m (\<lambda>_. returnE ()) = (m :: ('w, unit) prog)"
proof -
  have "(\<lambda>_. returnE ()) = (returnE :: unit \<Rightarrow> ('w, unit) prog)" by (rule ext) simp
  then show ?thesis by (simp only: bindE_returnE_right)
qed

lemma bindE_assoc: "bindE (bindE m f) g = bindE m (\<lambda>x. bindE (f x) g)"
  by (rule ext) (simp add: bindE_def split: prod.split sum.split)

lemma bindE_Inr_iff:
  "bindE m f w = (Inr y, w') \<longleftrightarrow> (\<exists>x w1. m w = (Inr x, w1) \<and> f x w1 = (Inr y, w'))"
  by (auto simp: bindE_def split: prod.splits sum.splits)

lemma bindE_Inl_iff:
  "bindE m f w = (Inl e, w') \<longleftrightarrow>
     m w = (Inl e, w') \<or> (\<exists>x w1. m w = (Inr x, w1) \<and> f x w1 = (Inl e, w'))"
  by (auto simp: bindE_def split: prod.splits sum.splits)

lemma bindE_eval_Inr: "m w = (Inr x, w1) \<Longrightarrow> bindE m f w = f x w1"
  by (simp add: bindE_def)

lemma bindE_eval_Inl: "m w = (Inl e, w1) \<Longrightarrow> bindE m f w = (Inl e, w1)"
  by (simp add: bindE_def)

text \<open>A guard that returns an error was passed by a run that succeeds.\<close>

lemma throw_guard:
  "(if b then throwE e else m) w = (Inr x, w') \<longleftrightarrow> \<not> b \<and> m w = (Inr x, w')"
  by simp

lemma attemptE_iff: "attemptE m w = (Inr r, w') \<longleftrightarrow> m w = (r, w')"
  by (auto simp: attemptE_def split: prod.splits)

lemma attemptE_never_fails [simp]: "attemptE m w \<noteq> (Inl e, w')"
  by (simp add: attemptE_def split: prod.splits)

subsection \<open>Hoare triples\<close>

text \<open>
  \<open>hoare P m Q F\<close>: started in a world of \<open>P\<close>, the program \<open>m\<close> either returns an \<open>x\<close> in a world
  of \<open>Q x\<close> or fails in a world of \<open>F\<close>. Every program of the development returns (programs are
  total functions), so the triple is a statement of total correctness.
\<close>

definition hoare ::
  "('w \<Rightarrow> bool) \<Rightarrow> ('w, 'a) prog \<Rightarrow> ('a \<Rightarrow> 'w \<Rightarrow> bool) \<Rightarrow> ('w \<Rightarrow> bool) \<Rightarrow> bool" where
  "hoare P m Q F \<longleftrightarrow> (\<forall>w. P w \<longrightarrow> (case m w of (Inl e, w') \<Rightarrow> F w' | (Inr x, w') \<Rightarrow> Q x w'))"

lemma hoareI:
  assumes "\<And>w x w'. P w \<Longrightarrow> m w = (Inr x, w') \<Longrightarrow> Q x w'"
    and "\<And>w e w'. P w \<Longrightarrow> m w = (Inl e, w') \<Longrightarrow> F w'"
  shows "hoare P m Q F"
  using assms by (auto simp: hoare_def split: prod.split sum.split)

lemma hoare_InrD: "hoare P m Q F \<Longrightarrow> P w \<Longrightarrow> m w = (Inr x, w') \<Longrightarrow> Q x w'"
  by (auto simp: hoare_def dest!: spec [of _ w])

lemma hoare_InlD: "hoare P m Q F \<Longrightarrow> P w \<Longrightarrow> m w = (Inl e, w') \<Longrightarrow> F w'"
  by (auto simp: hoare_def dest!: spec [of _ w])

lemma hoare_same_world:
  "hoare P m (\<lambda>_. I) I \<Longrightarrow> P w \<Longrightarrow> m w = (r, w') \<Longrightarrow> I w'"
  by (cases r) (auto dest: hoare_InrD hoare_InlD)

lemma hoare_bindE:
  assumes "hoare P m R F" and "\<And>x. hoare (R x) (f x) Q F"
  shows "hoare P (bindE m f) Q F"
  using assms by (fastforce intro!: hoareI simp: bindE_Inr_iff bindE_Inl_iff
      dest: hoare_InrD hoare_InlD)

lemma hoare_returnE: "(\<And>w. P w \<Longrightarrow> Q x w) \<Longrightarrow> hoare P (returnE x) Q F"
  by (simp add: hoare_def)

lemma hoare_throwE: "(\<And>w. P w \<Longrightarrow> F w) \<Longrightarrow> hoare P (throwE e) Q F"
  by (simp add: hoare_def)

lemma hoare_liftE:
  "(\<And>w x. P w \<Longrightarrow> r = Inr x \<Longrightarrow> Q x w) \<Longrightarrow> (\<And>w. P w \<Longrightarrow> F w) \<Longrightarrow> hoare P (liftE r) Q F"
  by (cases r) (auto simp: hoare_def)

lemma hoare_attemptE:
  assumes "hoare P m (\<lambda>x. Q (Inr x)) (\<lambda>w. \<forall>e. Q (Inl e) w)"
  shows "hoare P (attemptE m) Q F"
proof (rule hoareI)
  fix w r w'
  assume "P w" and "attemptE m w = (Inr r, w')"
  then have "m w = (r, w')" by (simp add: attemptE_iff)
  with assms \<open>P w\<close> show "Q r w'"
    by (cases r) (auto dest: hoare_InrD hoare_InlD)
qed simp

lemma hoare_weaken:
  assumes "hoare P m Q F" and "\<And>w. P' w \<Longrightarrow> P w"
    and "\<And>x w. Q x w \<Longrightarrow> Q' x w" and "\<And>w. F w \<Longrightarrow> F' w"
  shows "hoare P' m Q' F'"
proof (rule hoareI)
  show "Q' x w'" if "P' w" "m w = (Inr x, w')" for w x w'
    using that assms(1-3) hoare_InrD [of P m Q F w x w'] by simp
  show "F' w'" if "P' w" "m w = (Inl e, w')" for w e w'
    using that assms(1,2,4) hoare_InlD [of P m Q F w e w'] by simp
qed

lemma hoare_if:
  "(b \<Longrightarrow> hoare P m Q F) \<Longrightarrow> (\<not> b \<Longrightarrow> hoare P n Q F) \<Longrightarrow> hoare P (if b then m else n) Q F"
  by simp

lemma hoare_foreachE:
  assumes "\<And>x. x \<in> set xs \<Longrightarrow> hoare I (f x) (\<lambda>_. I) I"
  shows "hoare I (foreachE xs f) (\<lambda>_. I) I"
  using assms
proof (induction xs)
  case Nil
  show ?case by (simp add: hoare_def)
next
  case (Cons x xs)
  then show ?case by (auto intro: hoare_bindE)
qed

lemma hoare_mapE:
  assumes "\<And>x. x \<in> set xs \<Longrightarrow> hoare I (f x) (\<lambda>_. I) I"
  shows "hoare I (mapE f xs) (\<lambda>_. I) I"
  using assms
proof (induction xs)
  case Nil
  show ?case by (simp add: hoare_def)
next
  case (Cons x xs)
  then show ?case by (auto intro!: hoare_bindE hoare_returnE)
qed

subsection \<open>Signed 64-bit arithmetic\<close>

lemma sint_goint_bounds: "- (2 ^ 63) \<le> sint (x :: goint)" "sint (x :: goint) < 2 ^ 63"
  using sint_ge [of x] sint_lt [of x] by simp_all

lemma sint_goint_eq_if_in_range:
  "- (2 ^ 63) \<le> i \<Longrightarrow> i < 2 ^ 63 \<Longrightarrow> sint (word_of_int i :: goint) = i"
  by (simp add: int_word_sint)

text \<open>
  Two's complement addition of two positive integers either is exact or has a negative result:
  it never wraps back to a positive number.
\<close>

lemma sint_add_positive:
  fixes a b :: goint
  assumes "0 < sint a" and "0 < sint b" and "0 < sint (a + b)"
  shows "sint (a + b) = sint a + sint b"
proof (cases "sint a + sint b < 2 ^ 63")
  case True
  have "a + b = word_of_int (sint a + sint b)" by simp
  with True assms show ?thesis by (metis sint_goint_eq_if_in_range add_pos_pos
        less_imp_le neg_le_0_iff_le order_trans zero_le_numeral zero_le_power)
next
  case False
  have "a + b = word_of_int (sint a + sint b - 2 ^ 64)"
    by (simp add: word_of_int_2p_len [where 'a=64, simplified])
  moreover have "- (2 ^ 63) \<le> sint a + sint b - 2 ^ 64" "sint a + sint b - 2 ^ 64 < 0"
    using False sint_goint_bounds [of a] sint_goint_bounds [of b] by simp_all
  ultimately have "sint (a + b) = sint a + sint b - 2 ^ 64"
    by (metis sint_goint_eq_if_in_range less_trans zero_less_numeral zero_less_power)
  with \<open>sint a + sint b - 2 ^ 64 < 0\<close> assms(3) show ?thesis by simp
qed

subsection \<open>Lists\<close>

lemma list_update_split:
  "i < length xs \<Longrightarrow> xs[i := y] = take i xs @ y # drop (Suc i) xs"
  by (rule upd_conv_take_nth_drop)

lemma filter_append_single: "filter P (xs @ [x]) = filter P xs @ (if P x then [x] else [])"
  by simp

end
