(* ===== verification/Order_Status.thy ===== *)
theory Order_Status
  imports Prelude
begin

text \<open>
  \<^verbatim>\<open>order_status.go\<close> and \<^verbatim>\<open>inventory_operation_type.go\<close>: the statuses of a service order, the
  transitions the code allows, the status that follows in the normal flow, and the stock
  operation that goes with a transition. The specification beside them is the relation
  \<open>workflow\<close>, the diagram of the README read edge by edge; the theorems relate the two.
\<close>

subsection \<open>Statuses\<close>

text \<open>
  \<^verbatim>\<open>OrderStatus\<close> is a named string type: the twelve constants of the source, and any other string a
  conversion may produce.
\<close>

datatype OrderStatus =
    StatusReceived
  | StatusDiagnosing
  | StatusPendingAuthorization
  | StatusAuthorized
  | StatusInProgress
  | StatusCompleted
  | StatusAwaitingPayment
  | StatusPaymentRejected
  | StatusPaid
  | StatusDelivered
  | StatusCanceled
  | StatusAuthorizationDenied
  | StatusOther string

text \<open>The method \<^verbatim>\<open>String()\<close>: the string the status is.\<close>

fun status_String :: "OrderStatus \<Rightarrow> string" where
  "status_String StatusReceived = ''RECEIVED''"
| "status_String StatusDiagnosing = ''DIAGNOSING''"
| "status_String StatusPendingAuthorization = ''PENDING_AUTHORIZATION''"
| "status_String StatusAuthorized = ''AUTHORIZED''"
| "status_String StatusInProgress = ''IN_PROGRESS''"
| "status_String StatusCompleted = ''COMPLETED''"
| "status_String StatusAwaitingPayment = ''AWAITING_PAYMENT''"
| "status_String StatusPaymentRejected = ''PAYMENT_REJECTED''"
| "status_String StatusPaid = ''PAID''"
| "status_String StatusDelivered = ''DELIVERED''"
| "status_String StatusCanceled = ''CANCELED''"
| "status_String StatusAuthorizationDenied = ''AUTHORIZATION_DENIED''"
| "status_String (StatusOther s) = s"

text \<open>The conversion \<^verbatim>\<open>OrderStatus(value)\<close>.\<close>

definition OrderStatus_of :: "string \<Rightarrow> OrderStatus" where
  "OrderStatus_of v =
     (if v = ''RECEIVED'' then StatusReceived
      else if v = ''DIAGNOSING'' then StatusDiagnosing
      else if v = ''PENDING_AUTHORIZATION'' then StatusPendingAuthorization
      else if v = ''AUTHORIZED'' then StatusAuthorized
      else if v = ''IN_PROGRESS'' then StatusInProgress
      else if v = ''COMPLETED'' then StatusCompleted
      else if v = ''AWAITING_PAYMENT'' then StatusAwaitingPayment
      else if v = ''PAYMENT_REJECTED'' then StatusPaymentRejected
      else if v = ''PAID'' then StatusPaid
      else if v = ''DELIVERED'' then StatusDelivered
      else if v = ''CANCELED'' then StatusCanceled
      else if v = ''AUTHORIZATION_DENIED'' then StatusAuthorizationDenied
      else StatusOther v)"

fun status_IsValid :: "OrderStatus \<Rightarrow> bool" where
  "status_IsValid (StatusOther _) = False"
| "status_IsValid _ = True"

definition NewOrderStatus :: "string \<Rightarrow> error + OrderStatus" where
  "NewOrderStatus value =
     (let status = OrderStatus_of value
      in if \<not> status_IsValid status then Inl ErrInvalidStatus else Inr status)"

subsection \<open>Transitions\<close>

text \<open>The map literal of \<^verbatim>\<open>CanTransitionTo\<close>, in its order; \<open>None\<close> where the key is missing.\<close>

fun validTransitions :: "OrderStatus \<Rightarrow> OrderStatus list option" where
  "validTransitions StatusReceived = Some [StatusDiagnosing]"
| "validTransitions StatusDiagnosing = Some [StatusPendingAuthorization]"
| "validTransitions StatusPendingAuthorization = Some [StatusAuthorized]"
| "validTransitions StatusAuthorized = Some [StatusInProgress]"
| "validTransitions StatusInProgress = Some [StatusCompleted]"
| "validTransitions StatusCompleted = Some [StatusAwaitingPayment]"
| "validTransitions StatusAwaitingPayment = Some [StatusPaid, StatusPaymentRejected]"
| "validTransitions StatusPaymentRejected = Some [StatusAwaitingPayment]"
| "validTransitions StatusPaid = Some [StatusDelivered]"
| "validTransitions StatusDelivered = Some []"
| "validTransitions _ = None"

definition CanTransitionTo :: "OrderStatus \<Rightarrow> OrderStatus \<Rightarrow> bool" where
  "CanTransitionTo s newStatus =
     (if newStatus = StatusCanceled
      then s \<noteq> StatusDelivered \<and> s \<noteq> StatusCanceled \<and> s \<noteq> StatusAuthorizationDenied
      else if s = StatusDelivered \<or> s = StatusCanceled \<or> s = StatusAuthorizationDenied then False
      else if newStatus = StatusAuthorizationDenied then s = StatusPendingAuthorization
      else (case validTransitions s of
              None \<Rightarrow> False
            | Some allowedTransitions \<Rightarrow> newStatus \<in> set allowedTransitions))"

fun NextStatus :: "OrderStatus \<Rightarrow> error + OrderStatus" where
  "NextStatus StatusReceived = Inr StatusDiagnosing"
| "NextStatus StatusDiagnosing = Inr StatusPendingAuthorization"
| "NextStatus StatusPendingAuthorization = Inr StatusAuthorized"
| "NextStatus StatusAuthorized = Inr StatusInProgress"
| "NextStatus StatusInProgress = Inr StatusCompleted"
| "NextStatus StatusCompleted = Inr StatusAwaitingPayment"
| "NextStatus StatusAwaitingPayment = Inr StatusPaid"
| "NextStatus StatusPaid = Inr StatusDelivered"
| "NextStatus StatusDelivered = Inl ErrNoNextStatus"
| "NextStatus StatusCanceled = Inl ErrNoNextStatus"
| "NextStatus StatusAuthorizationDenied = Inl ErrNoNextStatus"
| "NextStatus StatusPaymentRejected = Inl ErrNoNextStatus"
| "NextStatus (StatusOther _) = Inl ErrInvalidStatus"

subsection \<open>Stock operations\<close>

text \<open>
  \<^verbatim>\<open>dto.StockOperationType\<close> with the domain's own \<^verbatim>\<open>InventoryOpNone\<close>; a conversion from the
  string of an event may give any other value.
\<close>

datatype StockOperationType =
    StockOpReserve
  | StockOpReservedDecrease
  | StockOpCancelReserved
  | StockOpCancelConfirmed
  | StockOpAvailableDecrease
  | StockOpIncrease
  | InventoryOpNone
  | StockOpOther string

fun op_string :: "StockOperationType \<Rightarrow> string" where
  "op_string StockOpReserve = ''RESERVE''"
| "op_string StockOpReservedDecrease = ''RESERVED_DECREASE''"
| "op_string StockOpCancelReserved = ''CANCEL_RESERVED''"
| "op_string StockOpCancelConfirmed = ''CANCEL_CONFIRMED''"
| "op_string StockOpAvailableDecrease = ''AVAILABLE_DECREASE''"
| "op_string StockOpIncrease = ''INCREASE''"
| "op_string InventoryOpNone = ''NONE''"
| "op_string (StockOpOther s) = s"

text \<open>The conversion \<^verbatim>\<open>dto.StockOperationType(event.Operation)\<close>.\<close>

definition StockOperationType_of :: "string \<Rightarrow> StockOperationType" where
  "StockOperationType_of v =
     (if v = ''RESERVE'' then StockOpReserve
      else if v = ''RESERVED_DECREASE'' then StockOpReservedDecrease
      else if v = ''CANCEL_RESERVED'' then StockOpCancelReserved
      else if v = ''CANCEL_CONFIRMED'' then StockOpCancelConfirmed
      else if v = ''AVAILABLE_DECREASE'' then StockOpAvailableDecrease
      else if v = ''INCREASE'' then StockOpIncrease
      else if v = ''NONE'' then InventoryOpNone
      else StockOpOther v)"

fun cancel_operation_of :: "OrderStatus \<Rightarrow> StockOperationType option" where
  "cancel_operation_of StatusPendingAuthorization = Some StockOpCancelReserved"
| "cancel_operation_of StatusInProgress = Some StockOpCancelReserved"
| "cancel_operation_of StatusAuthorized = Some StockOpCancelReserved"
| "cancel_operation_of StatusDiagnosing = Some StockOpCancelReserved"
| "cancel_operation_of StatusReceived = Some StockOpCancelReserved"
| "cancel_operation_of StatusCompleted = Some StockOpCancelConfirmed"
| "cancel_operation_of StatusAwaitingPayment = Some StockOpCancelConfirmed"
| "cancel_operation_of StatusPaid = Some StockOpCancelConfirmed"
| "cancel_operation_of _ = None"

text \<open>
  The \<^verbatim>\<open>switch oldStatus\<close> inside the cancel branch is \<open>cancel_operation_of\<close>; where it has no case,
  control falls through to the remaining tests.
\<close>

definition DetermineInventoryOperation :: "OrderStatus \<Rightarrow> OrderStatus \<Rightarrow> StockOperationType" where
  "DetermineInventoryOperation oldStatus newStatus =
     (if newStatus = StatusPendingAuthorization then StockOpReserve
      else if newStatus = StatusCompleted then StockOpReservedDecrease
      else if newStatus = StatusCanceled \<and> cancel_operation_of oldStatus \<noteq> None
        then the (cancel_operation_of oldStatus)
      else if newStatus = StatusAuthorizationDenied then StockOpCancelReserved
      else InventoryOpNone)"

subsection \<open>The specification: the workflow diagram\<close>

definition final_status :: "OrderStatus \<Rightarrow> bool" where
  "final_status s \<longleftrightarrow> s \<in> {StatusDelivered, StatusCanceled, StatusAuthorizationDenied}"

inductive workflow :: "OrderStatus \<Rightarrow> OrderStatus \<Rightarrow> bool" where
  diagnose: "workflow StatusReceived StatusDiagnosing"
| submit: "workflow StatusDiagnosing StatusPendingAuthorization"
| approve: "workflow StatusPendingAuthorization StatusAuthorized"
| deny: "workflow StatusPendingAuthorization StatusAuthorizationDenied"
| begin_work: "workflow StatusAuthorized StatusInProgress"
| complete: "workflow StatusInProgress StatusCompleted"
| bill: "workflow StatusCompleted StatusAwaitingPayment"
| pay: "workflow StatusAwaitingPayment StatusPaid"
| reject: "workflow StatusAwaitingPayment StatusPaymentRejected"
| retry: "workflow StatusPaymentRejected StatusAwaitingPayment"
| deliver: "workflow StatusPaid StatusDelivered"
| cancel: "\<not> final_status s \<Longrightarrow> workflow s StatusCanceled"

inductive_cases workflowE: "workflow s t"
inductive_simps workflow_to_canceled: "workflow s StatusCanceled"
inductive_simps workflow_to_denied: "workflow s StatusAuthorizationDenied"

text \<open>How far along the workflow a status is; the retry of a payment is the one step back.\<close>

fun progress :: "OrderStatus \<Rightarrow> nat" where
  "progress StatusReceived = 1"
| "progress StatusDiagnosing = 2"
| "progress StatusPendingAuthorization = 3"
| "progress StatusAuthorized = 4"
| "progress StatusInProgress = 5"
| "progress StatusCompleted = 6"
| "progress StatusAwaitingPayment = 7"
| "progress StatusPaymentRejected = 8"
| "progress StatusPaid = 9"
| "progress StatusDelivered = 10"
| "progress StatusCanceled = 10"
| "progress StatusAuthorizationDenied = 10"
| "progress (StatusOther _) = 0"

text \<open>A run of statuses in which each follows from the one before by an allowed transition.\<close>

fun transition_path :: "OrderStatus list \<Rightarrow> bool" where
  "transition_path [] = True"
| "transition_path [s] = True"
| "transition_path (s # t # ss) = (CanTransitionTo s t \<and> transition_path (t # ss))"

fun retries :: "OrderStatus list \<Rightarrow> nat" where
  "retries (s # t # ss) =
     (if s = StatusPaymentRejected \<and> t = StatusAwaitingPayment then 1 else 0) + retries (t # ss)"
| "retries _ = 0"

text \<open>The statuses the advance operation would visit from \<open>s\<close>, at most \<open>n\<close> of them.\<close>

fun advance_path :: "nat \<Rightarrow> OrderStatus \<Rightarrow> OrderStatus list" where
  "advance_path 0 s = [s]"
| "advance_path (Suc n) s =
     s # (case NextStatus s of Inl _ \<Rightarrow> [] | Inr t \<Rightarrow> advance_path n t)"

subsection \<open>Lemmas\<close>

lemma status_IsValid_iff: "status_IsValid s \<longleftrightarrow> (\<nexists>v. s = StatusOther v)"
  by (cases s) simp_all

lemma OrderStatus_of_String: "status_IsValid s \<Longrightarrow> OrderStatus_of (status_String s) = s"
  by (cases s) (simp_all add: OrderStatus_of_def)

lemma status_String_of [simp]: "status_String (OrderStatus_of v) = v"
  by (simp add: OrderStatus_of_def)

lemma NewOrderStatus_String: "status_IsValid s \<Longrightarrow> NewOrderStatus (status_String s) = Inr s"
  by (simp add: NewOrderStatus_def OrderStatus_of_String)

lemma NewOrderStatus_Inr_iff:
  "NewOrderStatus v = Inr s \<longleftrightarrow> status_IsValid s \<and> status_String s = v"
proof
  assume "NewOrderStatus v = Inr s"
  then show "status_IsValid s \<and> status_String s = v"
    by (auto simp: NewOrderStatus_def Let_def split: if_splits)
next
  assume "status_IsValid s \<and> status_String s = v"
  then show "NewOrderStatus v = Inr s" using NewOrderStatus_String by blast
qed

lemma StockOperationType_of_string:
  "(\<And>v. p \<noteq> StockOpOther v) \<Longrightarrow> StockOperationType_of (op_string p) = p"
  by (cases p) (simp_all add: StockOperationType_of_def)

lemma CanTransitionTo_iff_workflow: "CanTransitionTo s t \<longleftrightarrow> workflow s t"
proof
  show "CanTransitionTo s t \<Longrightarrow> workflow s t"
    by (cases s) (auto simp: CanTransitionTo_def final_status_def intro: workflow.intros
        split: if_splits)
  show "workflow s t \<Longrightarrow> CanTransitionTo s t"
    by (erule workflowE) (auto simp: CanTransitionTo_def final_status_def)
qed

lemma CanTransitionTo_final: "final_status s \<Longrightarrow> \<not> CanTransitionTo s t"
  by (auto simp: CanTransitionTo_def final_status_def)

lemma CanTransitionTo_progress:
  "CanTransitionTo s t \<Longrightarrow> \<not> (s = StatusPaymentRejected \<and> t = StatusAwaitingPayment) \<Longrightarrow>
   progress s < progress t"
  unfolding CanTransitionTo_iff_workflow
  by (erule workflowE) (cases s; simp add: final_status_def)+

lemma CanTransitionTo_valid: "CanTransitionTo s t \<Longrightarrow> status_IsValid t"
  unfolding CanTransitionTo_iff_workflow by (erule workflowE) simp_all

lemma progress_le: "progress s \<le> 10"
  by (cases s) simp_all

lemma transition_path_length:
  "transition_path (s # ss) \<Longrightarrow> length ss + progress s \<le> 10 + 2 * retries (s # ss)"
proof (induction ss arbitrary: s)
  case Nil
  then show ?case by (simp add: progress_le)
next
  case (Cons t ss)
  then have ct: "CanTransitionTo s t" and ih: "length ss + progress t \<le> 10 + 2 * retries (t # ss)"
    by simp_all
  show ?case
  proof (cases "s = StatusPaymentRejected \<and> t = StatusAwaitingPayment")
    case True
    with ih show ?thesis by simp
  next
    case False
    with CanTransitionTo_progress [OF ct] have "progress s < progress t" by blast
    with ih show ?thesis by simp
  qed
qed

lemma NextStatus_CanTransitionTo: "NextStatus s = Inr t \<Longrightarrow> CanTransitionTo s t"
  by (cases s) (auto simp: CanTransitionTo_def)

lemma NextStatus_valid: "NextStatus s = Inr t \<Longrightarrow> status_IsValid t"
  by (cases s) auto

end
