(* ===== verification/Order_Item.thy ===== *)
theory Order_Item
  imports Prelude
begin

text \<open>
  \<^verbatim>\<open>service_order_item.go\<close>: the line of a service order, its constructor with the checks, its
  mutators, and the stock view of a list of lines. A method that mutates its receiver returns the
  new value; each reading of the clock is an argument, in the order the code reads it.
\<close>

datatype ItemType = ItemTypeProduct | ItemTypeService | ItemTypeOther string

fun itemType_string :: "ItemType \<Rightarrow> string" where
  "itemType_string ItemTypeProduct = ''PRODUCT''"
| "itemType_string ItemTypeService = ''SERVICE''"
| "itemType_string (ItemTypeOther s) = s"

text \<open>The conversion \<^verbatim>\<open>service_order.ItemType(value)\<close>.\<close>

definition ItemType_of :: "string \<Rightarrow> ItemType" where
  "ItemType_of v =
     (if v = ''PRODUCT'' then ItemTypeProduct
      else if v = ''SERVICE'' then ItemTypeService
      else ItemTypeOther v)"

definition itemType_IsValid :: "ItemType \<Rightarrow> bool" where
  "itemType_IsValid t \<longleftrightarrow> t = ItemTypeProduct \<or> t = ItemTypeService"

record ServiceOrderItem =
  item_id :: string
  item_serviceOrderID :: string
  item_historyID :: "string option"
  item_itemType :: ItemType
  item_referenceID :: string
  item_name :: string
  item_quantity :: goint
  item_unitPrice :: goint
  item_createdAt :: time
  item_updatedAt :: time
  item_deletedAt :: "time option"

definition NewServiceOrderItem ::
  "time \<Rightarrow> string \<Rightarrow> ItemType \<Rightarrow> string \<Rightarrow> string \<Rightarrow> goint \<Rightarrow> goint \<Rightarrow> error + ServiceOrderItem"
where
  "NewServiceOrderItem now serviceOrderID itemType referenceID name quantity unitPrice =
     (if \<not> itemType_IsValid itemType then Inl ErrInvalidItemType
      else if referenceID = '''' then Inl ErrInvalidReferenceID
      else if name = '''' then Inl ErrInvalidItemName
      else if sint quantity \<le> 0 then Inl ErrInvalidQuantity
      else if sint unitPrice \<le> 0 then Inl ErrInvalidUnitPrice
      else Inr \<lparr>item_id = '''', item_serviceOrderID = serviceOrderID, item_historyID = None,
                item_itemType = itemType, item_referenceID = referenceID, item_name = name,
                item_quantity = quantity, item_unitPrice = unitPrice,
                item_createdAt = now, item_updatedAt = now, item_deletedAt = None\<rparr>)"

definition ReconstructServiceOrderItem ::
  "string \<Rightarrow> string \<Rightarrow> string option \<Rightarrow> ItemType \<Rightarrow> string \<Rightarrow> string \<Rightarrow> goint \<Rightarrow> goint \<Rightarrow>
   time \<Rightarrow> time \<Rightarrow> time option \<Rightarrow> ServiceOrderItem"
where
  "ReconstructServiceOrderItem i serviceOrderID historyID itemType referenceID name quantity
     unitPrice createdAt updatedAt deletedAt =
     \<lparr>item_id = i, item_serviceOrderID = serviceOrderID, item_historyID = historyID,
      item_itemType = itemType, item_referenceID = referenceID, item_name = name,
      item_quantity = quantity, item_unitPrice = unitPrice,
      item_createdAt = createdAt, item_updatedAt = updatedAt, item_deletedAt = deletedAt\<rparr>"

definition UpdateQuantity :: "time \<Rightarrow> goint \<Rightarrow> ServiceOrderItem \<Rightarrow> error + ServiceOrderItem" where
  "UpdateQuantity now quantity i =
     (if sint quantity \<le> 0 then Inl ErrInvalidQuantity
      else Inr (i\<lparr>item_quantity := quantity, item_updatedAt := now\<rparr>))"

definition Subtotal :: "ServiceOrderItem \<Rightarrow> goint" where
  "Subtotal i = item_quantity i * item_unitPrice i"

definition item_MarkAsDeleted :: "time \<Rightarrow> ServiceOrderItem \<Rightarrow> ServiceOrderItem" where
  "item_MarkAsDeleted now i = i\<lparr>item_deletedAt := Some now, item_updatedAt := now\<rparr>"

definition item_IsDeleted :: "ServiceOrderItem \<Rightarrow> bool" where
  "item_IsDeleted i \<longleftrightarrow> item_deletedAt i \<noteq> None"

definition item_SetID :: "string \<Rightarrow> ServiceOrderItem \<Rightarrow> error + ServiceOrderItem" where
  "item_SetID s i = (if s = '''' then Inl ErrInvalidItemID else Inr (i\<lparr>item_id := s\<rparr>))"

definition SetServiceOrderID :: "string \<Rightarrow> ServiceOrderItem \<Rightarrow> error + ServiceOrderItem" where
  "SetServiceOrderID s i =
     (if s = '''' then Inl ErrInvalidServiceOrderID else Inr (i\<lparr>item_serviceOrderID := s\<rparr>))"

definition SetHistoryID :: "time \<Rightarrow> string \<Rightarrow> ServiceOrderItem \<Rightarrow> error + ServiceOrderItem" where
  "SetHistoryID now historyID i =
     (if historyID = '''' then Inl ErrInvalidHistoryID
      else Inr (i\<lparr>item_historyID := Some historyID, item_updatedAt := now\<rparr>))"

subsection \<open>What makes a line well formed\<close>

text \<open>The checks of the constructor, as an invariant of every line the code builds.\<close>

definition item_wf :: "ServiceOrderItem \<Rightarrow> bool" where
  "item_wf i \<longleftrightarrow> itemType_IsValid (item_itemType i) \<and> item_referenceID i \<noteq> '''' \<and>
     item_name i \<noteq> '''' \<and> 0 < sint (item_quantity i) \<and> 0 < sint (item_unitPrice i)"

text \<open>The product or service a line is about: what two lines must share to be merged.\<close>

definition item_key :: "ServiceOrderItem \<Rightarrow> string \<times> ItemType" where
  "item_key i = (item_referenceID i, item_itemType i)"

definition active :: "ServiceOrderItem list \<Rightarrow> ServiceOrderItem list" where
  "active items = filter (\<lambda>i. \<not> item_IsDeleted i) items"

text \<open>The amount of a list of lines as a mathematical integer, in cents.\<close>

definition amount :: "ServiceOrderItem list \<Rightarrow> int" where
  "amount items = (\<Sum>i\<leftarrow>active items. sint (item_quantity i) * sint (item_unitPrice i))"

lemma itemType_IsValid_iff: "itemType_IsValid t \<longleftrightarrow> (\<nexists>v. t = ItemTypeOther v)"
  by (cases t) (simp_all add: itemType_IsValid_def)

lemma ItemType_of_string: "itemType_IsValid t \<Longrightarrow> ItemType_of (itemType_string t) = t"
  by (cases t) (simp_all add: ItemType_of_def itemType_IsValid_def)

lemma itemType_string_of [simp]: "itemType_string (ItemType_of v) = v"
  by (simp add: ItemType_of_def)

lemma NewServiceOrderItem_Inr:
  assumes "NewServiceOrderItem now so t ref n q p = Inr i"
  shows "item_wf i" and "\<not> item_IsDeleted i" and "item_id i = ''''"
    and "item_serviceOrderID i = so" and "item_key i = (ref, t)" and "item_name i = n"
    and "item_quantity i = q" and "item_unitPrice i = p" and "item_historyID i = None"
    and "item_itemType i = t" and "item_referenceID i = ref"
  using assms by (auto simp: NewServiceOrderItem_def item_wf_def item_IsDeleted_def item_key_def
      split: if_splits)

lemma UpdateQuantity_Inr_iff:
  "UpdateQuantity now q i = Inr i' \<longleftrightarrow>
     0 < sint q \<and> i' = i\<lparr>item_quantity := q, item_updatedAt := now\<rparr>"
  by (auto simp: UpdateQuantity_def)

lemma active_simps [simp]:
  "active [] = []"
  "active (xs @ ys) = active xs @ active ys"
  "active (i # xs) = (if item_IsDeleted i then active xs else i # active xs)"
  by (simp_all add: active_def)

lemma set_active: "set (active xs) = {i \<in> set xs. \<not> item_IsDeleted i}"
  by (simp add: active_def)

lemma active_active [simp]: "active (active xs) = active xs"
  by (simp add: active_def)

lemma amount_simps [simp]:
  "amount [] = 0"
  "amount (xs @ ys) = amount xs + amount ys"
  "amount (i # xs) =
     (if item_IsDeleted i then 0 else sint (item_quantity i) * sint (item_unitPrice i)) + amount xs"
  by (simp_all add: amount_def)

lemma amount_nonneg: "\<forall>i \<in> set (active xs). item_wf i \<Longrightarrow> 0 \<le> amount xs"
  by (induction xs) (auto simp: item_wf_def)

lemma item_MarkAsDeleted_simps [simp]:
  "item_IsDeleted (item_MarkAsDeleted now i)"
  "item_id (item_MarkAsDeleted now i) = item_id i"
  "item_key (item_MarkAsDeleted now i) = item_key i"
  "item_historyID (item_MarkAsDeleted now i) = item_historyID i"
  by (simp_all add: item_MarkAsDeleted_def item_IsDeleted_def item_key_def)

end
