(* ===== verification/Service_Order.thy ===== *)
theory Service_Order
  imports Order_Status Order_Item
begin

text \<open>
  \<^verbatim>\<open>service_order.go\<close>: the aggregate. The record has the fields of the struct in its order; one
  definition per method that changes or decides something, in the order of the file. The saga state
  is the plain string it is in the source.
\<close>

record ServiceOrder =
  so_id :: string
  so_customerID :: string
  so_vehicleID :: string
  so_description :: string
  so_status :: OrderStatus
  so_sagaStatus :: string
  so_currentSagaID :: "string option"
  so_sagaTargetStatus :: "OrderStatus option"
  so_sagaNotes :: "string option"
  so_mpPreferenceID :: "string option"
  so_mpPaymentID :: "string option"
  so_paymentURL :: "string option"
  so_customerEmail :: string
  so_customerName :: string
  so_items :: "ServiceOrderItem list"
  so_closedAt :: "time option"
  so_createdAt :: time
  so_updatedAt :: time
  so_deletedAt :: "time option"

definition SagaStatusIdle :: string where
  "SagaStatusIdle = ''IDLE''"

definition SagaStatusAwaitingInventory :: string where
  "SagaStatusAwaitingInventory = ''AWAITING_INVENTORY''"

definition SagaStatusAwaitingPayment :: string where
  "SagaStatusAwaitingPayment = ''AWAITING_PAYMENT''"

definition SagaStatusFailed :: string where
  "SagaStatusFailed = ''FAILED''"

lemma saga_status_distinct [simp]:
  "SagaStatusIdle \<noteq> SagaStatusAwaitingInventory" "SagaStatusAwaitingInventory \<noteq> SagaStatusIdle"
  "SagaStatusIdle \<noteq> SagaStatusAwaitingPayment" "SagaStatusAwaitingPayment \<noteq> SagaStatusIdle"
  "SagaStatusIdle \<noteq> SagaStatusFailed" "SagaStatusFailed \<noteq> SagaStatusIdle"
  "SagaStatusAwaitingInventory \<noteq> SagaStatusAwaitingPayment"
  "SagaStatusAwaitingPayment \<noteq> SagaStatusAwaitingInventory"
  "SagaStatusAwaitingInventory \<noteq> SagaStatusFailed" "SagaStatusFailed \<noteq> SagaStatusAwaitingInventory"
  "SagaStatusAwaitingPayment \<noteq> SagaStatusFailed" "SagaStatusFailed \<noteq> SagaStatusAwaitingPayment"
  "SagaStatusIdle \<noteq> ''''" "SagaStatusAwaitingInventory \<noteq> ''''"
  "SagaStatusAwaitingPayment \<noteq> ''''" "SagaStatusFailed \<noteq> ''''"
  by (simp_all add: SagaStatusIdle_def SagaStatusAwaitingInventory_def
      SagaStatusAwaitingPayment_def SagaStatusFailed_def)

subsection \<open>Construction\<close>

definition NewServiceOrder :: "time \<Rightarrow> string \<Rightarrow> string \<Rightarrow> string \<Rightarrow> error + ServiceOrder" where
  "NewServiceOrder now customerID vehicleID description =
     (if customerID = '''' then Inl ErrInvalidCustomerID
      else if vehicleID = '''' then Inl ErrInvalidVehicleID
      else Inr \<lparr>so_id = '''', so_customerID = customerID, so_vehicleID = vehicleID,
                so_description = description, so_status = StatusReceived,
                so_sagaStatus = SagaStatusIdle, so_currentSagaID = None,
                so_sagaTargetStatus = None, so_sagaNotes = None, so_mpPreferenceID = None,
                so_mpPaymentID = None, so_paymentURL = None, so_customerEmail = '''',
                so_customerName = '''', so_items = [], so_closedAt = None,
                so_createdAt = now, so_updatedAt = now, so_deletedAt = None\<rparr>)"

text \<open>
  A \<^verbatim>\<open>nil\<close> slice and an empty one are the same list here, so the replacement of a nil \<^verbatim>\<open>items\<close> is
  the identity; an empty saga status becomes \<^verbatim>\<open>IDLE\<close>.
\<close>

definition ReconstructServiceOrder ::
  "string \<Rightarrow> string \<Rightarrow> string \<Rightarrow> string \<Rightarrow> OrderStatus \<Rightarrow> string \<Rightarrow> string option \<Rightarrow>
   OrderStatus option \<Rightarrow> string option \<Rightarrow> string option \<Rightarrow> string option \<Rightarrow> string option \<Rightarrow>
   ServiceOrderItem list \<Rightarrow> time option \<Rightarrow> time \<Rightarrow> time \<Rightarrow> time option \<Rightarrow> error + ServiceOrder"
where
  "ReconstructServiceOrder i customerID vehicleID description status sagaStatus currentSagaID
     sagaTargetStatus sagaNotes mpPreferenceID mpPaymentID paymentURL items closedAt createdAt
     updatedAt deletedAt =
     (if i = '''' then Inl ErrInvalidServiceOrderID
      else if customerID = '''' then Inl ErrInvalidCustomerID
      else if vehicleID = '''' then Inl ErrInvalidVehicleID
      else if \<not> status_IsValid status then Inl ErrInvalidStatus
      else Inr \<lparr>so_id = i, so_customerID = customerID, so_vehicleID = vehicleID,
                so_description = description, so_status = status,
                so_sagaStatus = (if sagaStatus = '''' then SagaStatusIdle else sagaStatus),
                so_currentSagaID = currentSagaID, so_sagaTargetStatus = sagaTargetStatus,
                so_sagaNotes = sagaNotes, so_mpPreferenceID = mpPreferenceID,
                so_mpPaymentID = mpPaymentID, so_paymentURL = paymentURL,
                so_customerEmail = '''', so_customerName = '''', so_items = items,
                so_closedAt = closedAt, so_createdAt = createdAt, so_updatedAt = updatedAt,
                so_deletedAt = deletedAt\<rparr>)"

subsection \<open>Status\<close>

text \<open>The statuses at which \<^verbatim>\<open>UpdateStatus\<close> records \<^verbatim>\<open>closedAt\<close>.\<close>

definition closing_status :: "OrderStatus \<Rightarrow> bool" where
  "closing_status s \<longleftrightarrow> s = StatusCompleted \<or> s = StatusPaid \<or> s = StatusDelivered \<or>
     s = StatusCanceled \<or> s = StatusAuthorizationDenied"

definition UpdateStatus ::
  "time \<Rightarrow> time \<Rightarrow> OrderStatus \<Rightarrow> ServiceOrder \<Rightarrow> error + ServiceOrder" where
  "UpdateStatus now1 now2 newStatus s =
     (if \<not> status_IsValid newStatus then Inl ErrInvalidStatus
      else if \<not> CanTransitionTo (so_status s) newStatus then Inl ErrInvalidStatusTransition
      else Inr (s\<lparr>so_status := newStatus, so_updatedAt := now1,
                  so_closedAt := (if closing_status newStatus \<and> so_closedAt s = None
                                  then Some now2 else so_closedAt s)\<rparr>))"

definition UpdateCustomer :: "time \<Rightarrow> string \<Rightarrow> ServiceOrder \<Rightarrow> error + ServiceOrder" where
  "UpdateCustomer now customerID s =
     (if customerID = '''' then Inl ErrInvalidCustomerID
      else Inr (s\<lparr>so_customerID := customerID, so_updatedAt := now\<rparr>))"

definition UpdateVehicle :: "time \<Rightarrow> string \<Rightarrow> ServiceOrder \<Rightarrow> error + ServiceOrder" where
  "UpdateVehicle now vehicleID s =
     (if vehicleID = '''' then Inl ErrInvalidVehicleID
      else Inr (s\<lparr>so_vehicleID := vehicleID, so_updatedAt := now\<rparr>))"

definition UpdateDescription :: "time \<Rightarrow> string \<Rightarrow> ServiceOrder \<Rightarrow> ServiceOrder" where
  "UpdateDescription now description s = s\<lparr>so_description := description, so_updatedAt := now\<rparr>"

definition GetProductItems :: "ServiceOrder \<Rightarrow> ServiceOrderItem list" where
  "GetProductItems s =
     filter (\<lambda>item. \<not> item_IsDeleted item \<and> item_itemType item = ItemTypeProduct) (so_items s)"

definition MarkAsDeleted :: "time \<Rightarrow> ServiceOrder \<Rightarrow> ServiceOrder" where
  "MarkAsDeleted now s = s\<lparr>so_deletedAt := Some now, so_updatedAt := now\<rparr>"

subsection \<open>Saga and payment\<close>

definition order_StartSaga ::
  "time \<Rightarrow> string \<Rightarrow> OrderStatus \<Rightarrow> string option \<Rightarrow> ServiceOrder \<Rightarrow> error + ServiceOrder" where
  "order_StartSaga now sagaID targetStatus notes s =
     (if sagaID = '''' then Inl ErrInvalidSagaID
      else if \<not> status_IsValid targetStatus then Inl ErrInvalidStatus
      else Inr (s\<lparr>so_sagaStatus := SagaStatusAwaitingInventory, so_currentSagaID := Some sagaID,
                  so_sagaTargetStatus := Some targetStatus, so_sagaNotes := notes,
                  so_updatedAt := now\<rparr>))"

definition CompleteSaga :: "time \<Rightarrow> ServiceOrder \<Rightarrow> ServiceOrder" where
  "CompleteSaga now s =
     s\<lparr>so_sagaStatus := SagaStatusIdle, so_currentSagaID := None, so_sagaTargetStatus := None,
       so_sagaNotes := None, so_updatedAt := now\<rparr>"

text \<open>The clock is read twice by the nested \<^verbatim>\<open>UpdateStatus\<close> and once after it.\<close>

definition AwaitPayment ::
  "time \<Rightarrow> time \<Rightarrow> time \<Rightarrow> string \<Rightarrow> string \<Rightarrow> ServiceOrder \<Rightarrow> error + ServiceOrder" where
  "AwaitPayment now1 now2 now3 preferenceID paymentURL s =
     (if preferenceID = '''' then Inl ErrInvalidPaymentPreference
      else if paymentURL = '''' then Inl ErrInvalidPaymentURL
      else case UpdateStatus now1 now2 StatusAwaitingPayment s of
        Inl e \<Rightarrow> Inl e
      | Inr s' \<Rightarrow>
          Inr (s'\<lparr>so_mpPreferenceID := Some preferenceID, so_paymentURL := Some paymentURL,
                  so_sagaStatus := SagaStatusAwaitingPayment, so_currentSagaID := None,
                  so_sagaTargetStatus := None, so_sagaNotes := None, so_updatedAt := now3\<rparr>))"

definition ConfirmPayment ::
  "time \<Rightarrow> time \<Rightarrow> time \<Rightarrow> string \<Rightarrow> ServiceOrder \<Rightarrow> error + ServiceOrder" where
  "ConfirmPayment now1 now2 now3 paymentID s =
     (if paymentID = '''' then Inl ErrInvalidPaymentID
      else case UpdateStatus now1 now2 StatusPaid s of
        Inl e \<Rightarrow> Inl e
      | Inr s' \<Rightarrow>
          Inr (s'\<lparr>so_mpPaymentID := Some paymentID, so_sagaStatus := SagaStatusIdle,
                  so_currentSagaID := None, so_sagaTargetStatus := None, so_sagaNotes := None,
                  so_updatedAt := now3\<rparr>))"

definition RejectPayment :: "time \<Rightarrow> time \<Rightarrow> time \<Rightarrow> ServiceOrder \<Rightarrow> error + ServiceOrder" where
  "RejectPayment now1 now2 now3 s =
     (case UpdateStatus now1 now2 StatusPaymentRejected s of
        Inl e \<Rightarrow> Inl e
      | Inr s' \<Rightarrow>
          Inr (s'\<lparr>so_sagaStatus := SagaStatusIdle, so_currentSagaID := None,
                  so_sagaTargetStatus := None, so_sagaNotes := None, so_updatedAt := now3\<rparr>))"

definition CancelAfterRefund :: "time \<Rightarrow> time \<Rightarrow> ServiceOrder \<Rightarrow> error + ServiceOrder" where
  "CancelAfterRefund now1 now2 s =
     (if so_status s \<noteq> StatusPaid then Inl ErrInvalidStatusTransition
      else UpdateStatus now1 now2 StatusCanceled s)"

definition FailSaga :: "time \<Rightarrow> ServiceOrder \<Rightarrow> ServiceOrder" where
  "FailSaga now s =
     s\<lparr>so_sagaStatus := SagaStatusFailed, so_currentSagaID := None, so_sagaTargetStatus := None,
       so_sagaNotes := None, so_updatedAt := now\<rparr>"

definition CanProcessSaga :: "string \<Rightarrow> ServiceOrder \<Rightarrow> bool" where
  "CanProcessSaga sagaID s \<longleftrightarrow>
     so_sagaStatus s = SagaStatusAwaitingInventory \<and> so_currentSagaID s = Some sagaID"

definition IsDeleted :: "ServiceOrder \<Rightarrow> bool" where
  "IsDeleted s \<longleftrightarrow> so_deletedAt s \<noteq> None"

definition IsClosed :: "ServiceOrder \<Rightarrow> bool" where
  "IsClosed s \<longleftrightarrow> so_status s = StatusPaid \<or> so_status s = StatusDelivered \<or>
     so_status s = StatusCanceled \<or> so_status s = StatusAuthorizationDenied"

definition CanModifyItems :: "ServiceOrder \<Rightarrow> bool" where
  "CanModifyItems s \<longleftrightarrow> so_status s = StatusReceived \<or> so_status s = StatusDiagnosing"

definition SetID :: "string \<Rightarrow> ServiceOrder \<Rightarrow> error + ServiceOrder" where
  "SetID i s = (if i = '''' then Inl ErrInvalidServiceOrderID else Inr (s\<lparr>so_id := i\<rparr>))"

subsection \<open>Items\<close>

text \<open>
  The scans of \<^verbatim>\<open>AddItem\<close>, \<^verbatim>\<open>RemoveItem\<close> and \<^verbatim>\<open>UpdateItemQuantity\<close> stop at the first item that
  matches; \<open>None\<close> is the loop falling through.
\<close>

fun merge_item ::
  "time \<Rightarrow> ServiceOrderItem \<Rightarrow> ServiceOrderItem list \<Rightarrow> (error + ServiceOrderItem list) option" where
  "merge_item now item [] = None"
| "merge_item now item (e # es) =
     (if \<not> item_IsDeleted e \<and> item_referenceID e = item_referenceID item \<and>
         item_itemType e = item_itemType item
      then Some (case UpdateQuantity now (item_quantity e + item_quantity item) e of
                   Inl err \<Rightarrow> Inl err
                 | Inr e' \<Rightarrow> Inr (e' # es))
      else map_option (map_sum id (\<lambda>es'. e # es')) (merge_item now item es))"

text \<open>A nil item is not a value of the model: no caller passes one.\<close>

definition AddItem :: "time \<Rightarrow> time \<Rightarrow> ServiceOrderItem \<Rightarrow> ServiceOrder \<Rightarrow> error + ServiceOrder" where
  "AddItem now1 now2 item s =
     (if IsClosed s then Inl ErrCannotModifyClosedOrder
      else if \<not> CanModifyItems s then Inl ErrCannotModifyItemsAfterPending
      else case merge_item now1 item (so_items s) of
        Some (Inl e) \<Rightarrow> Inl e
      | Some (Inr items) \<Rightarrow> Inr (s\<lparr>so_items := items, so_updatedAt := now2\<rparr>)
      | None \<Rightarrow> Inr (s\<lparr>so_items := so_items s @ [item], so_updatedAt := now2\<rparr>))"

fun remove_item ::
  "time \<Rightarrow> string \<Rightarrow> ServiceOrderItem list \<Rightarrow> ServiceOrderItem list option" where
  "remove_item now itemID [] = None"
| "remove_item now itemID (e # es) =
     (if item_id e = itemID \<and> \<not> item_IsDeleted e
      then Some (item_MarkAsDeleted now e # es)
      else map_option (\<lambda>es'. e # es') (remove_item now itemID es))"

definition RemoveItem :: "time \<Rightarrow> time \<Rightarrow> string \<Rightarrow> ServiceOrder \<Rightarrow> error + ServiceOrder" where
  "RemoveItem now1 now2 itemID s =
     (if itemID = '''' then Inl ErrInvalidItemID
      else if IsClosed s then Inl ErrCannotModifyClosedOrder
      else if \<not> CanModifyItems s then Inl ErrCannotModifyItemsAfterPending
      else case remove_item now1 itemID (so_items s) of
        Some items \<Rightarrow> Inr (s\<lparr>so_items := items, so_updatedAt := now2\<rparr>)
      | None \<Rightarrow> Inl ErrItemNotFound)"

fun requantify_item ::
  "time \<Rightarrow> string \<Rightarrow> goint \<Rightarrow> ServiceOrderItem list \<Rightarrow> (error + ServiceOrderItem list) option" where
  "requantify_item now itemID quantity [] = None"
| "requantify_item now itemID quantity (e # es) =
     (if item_id e = itemID \<and> \<not> item_IsDeleted e
      then Some (case UpdateQuantity now quantity e of
                   Inl err \<Rightarrow> Inl err
                 | Inr e' \<Rightarrow> Inr (e' # es))
      else map_option (map_sum id (\<lambda>es'. e # es')) (requantify_item now itemID quantity es))"

definition UpdateItemQuantity ::
  "time \<Rightarrow> time \<Rightarrow> string \<Rightarrow> goint \<Rightarrow> ServiceOrder \<Rightarrow> error + ServiceOrder" where
  "UpdateItemQuantity now1 now2 itemID quantity s =
     (if itemID = '''' then Inl ErrInvalidItemID
      else if IsClosed s then Inl ErrCannotModifyClosedOrder
      else if \<not> CanModifyItems s then Inl ErrCannotModifyItemsAfterPending
      else case requantify_item now1 itemID quantity (so_items s) of
        Some (Inl e) \<Rightarrow> Inl e
      | Some (Inr items) \<Rightarrow> Inr (s\<lparr>so_items := items, so_updatedAt := now2\<rparr>)
      | None \<Rightarrow> Inl ErrItemNotFound)"

definition TotalAmount :: "ServiceOrder \<Rightarrow> goint" where
  "TotalAmount s =
     foldl (\<lambda>total item. if item_IsDeleted item then total else total + Subtotal item) 0 (so_items s)"

definition ClearItems :: "time \<Rightarrow> ServiceOrder \<Rightarrow> ServiceOrder" where
  "ClearItems now s = s\<lparr>so_items := [], so_updatedAt := now\<rparr>"

definition SetCustomerSnapshot :: "time \<Rightarrow> string \<Rightarrow> string \<Rightarrow> ServiceOrder \<Rightarrow> ServiceOrder" where
  "SetCustomerSnapshot now email name s =
     s\<lparr>so_customerEmail := email, so_customerName := name, so_updatedAt := now\<rparr>"

end
