(* ===== verification/Order_Lines.thy ===== *)
theory Order_Lines
  imports Service_Order
begin

text \<open>
  What the item operations of \<^verbatim>\<open>service_order.go\<close> do to the lines of an order: the well-formedness
  of the lines as an invariant, the quantity held for each product or service, and the total in
  cents, exactly and modulo the 64 bits of a Go \<^verbatim>\<open>int\<close>.
\<close>

subsection \<open>Measures of a list of lines\<close>

definition lines_wf :: "ServiceOrderItem list \<Rightarrow> bool" where
  "lines_wf items \<longleftrightarrow>
     (\<forall>i \<in> set (active items). item_wf i) \<and> distinct (map item_key (active items))"

text \<open>How many units of the product or service \<open>k\<close> the active lines ask for.\<close>

definition quantity_of :: "string \<times> ItemType \<Rightarrow> ServiceOrderItem list \<Rightarrow> int" where
  "quantity_of k items =
     (\<Sum>i\<leftarrow>active items. if item_key i = k then sint (item_quantity i) else 0)"

text \<open>The line an added item is merged into: the first active one with its key.\<close>

definition merge_target :: "ServiceOrderItem \<Rightarrow> ServiceOrderItem list \<Rightarrow> ServiceOrderItem option" where
  "merge_target item items =
     List.find (\<lambda>e. \<not> item_IsDeleted e \<and> item_key e = item_key item) items"

lemma quantity_of_simps [simp]:
  "quantity_of k [] = 0"
  "quantity_of k (xs @ ys) = quantity_of k xs + quantity_of k ys"
  "quantity_of k (i # xs) =
     (if \<not> item_IsDeleted i \<and> item_key i = k then sint (item_quantity i) else 0) + quantity_of k xs"
  by (simp_all add: quantity_of_def)

subsection \<open>The scans\<close>

lemma merge_target_None_iff:
  "merge_target item es = None \<longleftrightarrow> item_key item \<notin> item_key ` set (active es)"
  unfolding merge_target_def find_None_iff set_active image_iff by auto

lemma merge_item_None_iff: "merge_item now item es = None \<longleftrightarrow> merge_target item es = None"
  by (induction es) (auto simp: merge_target_def item_key_def)

lemma merge_itemE:
  assumes "merge_item now item es = Some r"
  obtains pre e post where "es = pre @ e # post" and "\<not> item_IsDeleted e"
    and "item_key e = item_key item" and "merge_target item pre = None"
    and "merge_target item es = Some e"
    and "r = (case UpdateQuantity now (item_quantity e + item_quantity item) e of
                Inl err \<Rightarrow> Inl err | Inr e' \<Rightarrow> Inr (pre @ e' # post))"
proof -
  have "\<exists>pre e post. es = pre @ e # post \<and> \<not> item_IsDeleted e \<and> item_key e = item_key item \<and>
      merge_target item pre = None \<and> merge_target item es = Some e \<and>
      r = (case UpdateQuantity now (item_quantity e + item_quantity item) e of
             Inl err \<Rightarrow> Inl err | Inr e' \<Rightarrow> Inr (pre @ e' # post))"
    using assms
  proof (induction es arbitrary: r)
    case Nil
    then show ?case by simp
  next
    case (Cons d es)
    show ?case
    proof (cases "\<not> item_IsDeleted d \<and> item_key d = item_key item")
      case True
      with Cons.prems show ?thesis
        by (intro exI [of _ "[]"] exI [of _ d] exI [of _ es])
          (simp add: merge_target_def item_key_def cong: sum.case_cong)
    next
      case False
      with Cons.prems obtain r' where r': "merge_item now item es = Some r'"
        and r: "r = map_sum id (\<lambda>es'. d # es') r'"
        by (auto simp: item_key_def)
      from Cons.IH [OF r'] obtain pre e post where *: "es = pre @ e # post" "\<not> item_IsDeleted e"
        "item_key e = item_key item" "merge_target item pre = None" "merge_target item es = Some e"
        "r' = (case UpdateQuantity now (item_quantity e + item_quantity item) e of
                 Inl err \<Rightarrow> Inl err | Inr e' \<Rightarrow> Inr (pre @ e' # post))"
        by blast
      with False r show ?thesis
        by (intro exI [of _ "d # pre"] exI [of _ e] exI [of _ post])
          (auto simp: merge_target_def split: sum.splits)
    qed
  qed
  with that show thesis by blast
qed

lemma remove_itemE:
  assumes "remove_item now i es = Some es'"
  obtains pre e post where "es = pre @ e # post" and "\<not> item_IsDeleted e" and "item_id e = i"
    and "es' = pre @ item_MarkAsDeleted now e # post"
proof -
  have "\<exists>pre e post. es = pre @ e # post \<and> \<not> item_IsDeleted e \<and> item_id e = i \<and>
      es' = pre @ item_MarkAsDeleted now e # post"
    using assms
  proof (induction es arbitrary: es')
    case Nil
    then show ?case by simp
  next
    case (Cons d es)
    then show ?case
      by (cases "item_id d = i \<and> \<not> item_IsDeleted d")
        (auto, (metis append_Nil append_Cons)+)
  qed
  with that show thesis by blast
qed

lemma remove_item_None_iff:
  "remove_item now i es = None \<longleftrightarrow> (\<forall>e \<in> set (active es). item_id e \<noteq> i)"
  by (induction es) auto

lemma requantify_itemE:
  assumes "requantify_item now i q es = Some r"
  obtains pre e post where "es = pre @ e # post" and "\<not> item_IsDeleted e" and "item_id e = i"
    and "r = (case UpdateQuantity now q e of
                Inl err \<Rightarrow> Inl err | Inr e' \<Rightarrow> Inr (pre @ e' # post))"
proof -
  have "\<exists>pre e post. es = pre @ e # post \<and> \<not> item_IsDeleted e \<and> item_id e = i \<and>
      r = (case UpdateQuantity now q e of Inl err \<Rightarrow> Inl err | Inr e' \<Rightarrow> Inr (pre @ e' # post))"
    using assms
  proof (induction es arbitrary: r)
    case Nil
    then show ?case by simp
  next
    case (Cons d es)
    show ?case
    proof (cases "item_id d = i \<and> \<not> item_IsDeleted d")
      case True
      with Cons.prems show ?thesis
        by (intro exI [of _ "[]"] exI [of _ d] exI [of _ es]) (simp cong: sum.case_cong)
    next
      case False
      with Cons.prems obtain r' where r': "requantify_item now i q es = Some r'"
        and r: "r = map_sum id (\<lambda>es'. d # es') r'"
        by auto
      from Cons.IH [OF r'] obtain pre e post where "es = pre @ e # post" "\<not> item_IsDeleted e"
        "item_id e = i"
        "r' = (case UpdateQuantity now q e of Inl err \<Rightarrow> Inl err | Inr e' \<Rightarrow> Inr (pre @ e' # post))"
        by blast
      with r show ?thesis
        by (intro exI [of _ "d # pre"] exI [of _ e] exI [of _ post]) (auto split: sum.splits)
    qed
  qed
  with that show thesis by blast
qed

text \<open>Replacing one active line by another keeps every measure of the rest.\<close>

lemma lines_wf_replace:
  assumes "lines_wf (pre @ e # post)" and "\<not> item_IsDeleted e"
    and "item_wf e'" and "\<not> item_IsDeleted e'" and "item_key e' = item_key e"
  shows "lines_wf (pre @ e' # post)"
  using assms by (auto simp: lines_wf_def)

lemma lines_wf_drop:
  assumes "lines_wf (pre @ e # post)"
  shows "lines_wf (pre @ item_MarkAsDeleted now e # post)"
  using assms by (auto simp: lines_wf_def split: if_splits)

lemma requantified_simps [simp]:
  "item_IsDeleted (i\<lparr>item_quantity := q, item_updatedAt := t\<rparr>) = item_IsDeleted i"
  "item_key (i\<lparr>item_quantity := q, item_updatedAt := t\<rparr>) = item_key i"
  "item_wf (i\<lparr>item_quantity := q, item_updatedAt := t\<rparr>) \<longleftrightarrow>
     itemType_IsValid (item_itemType i) \<and> item_referenceID i \<noteq> '''' \<and> item_name i \<noteq> '''' \<and>
     0 < sint q \<and> 0 < sint (item_unitPrice i)"
  by (simp_all add: item_IsDeleted_def item_key_def item_wf_def)

subsection \<open>AddItem\<close>

lemma AddItem_Inr_status:
  "AddItem n1 n2 item s = Inr s' \<Longrightarrow> CanModifyItems s"
  by (auto simp: AddItem_def split: if_splits)

lemma AddItem_frame:
  assumes "AddItem n1 n2 item s = Inr s'"
  shows "s' = s\<lparr>so_items := so_items s', so_updatedAt := n2\<rparr>"
  using assms by (auto simp: AddItem_def split: if_splits option.splits sum.splits)

lemma AddItem_cases:
  assumes "AddItem n1 n2 item s = Inr s'"
  obtains (append) "merge_target item (so_items s) = None" "so_items s' = so_items s @ [item]"
  | (merge) pre e post where "so_items s = pre @ e # post" "\<not> item_IsDeleted e"
      "item_key e = item_key item" "merge_target item (so_items s) = Some e"
      "0 < sint (item_quantity e + item_quantity item)"
      "so_items s' = pre @ e\<lparr>item_quantity := item_quantity e + item_quantity item,
                              item_updatedAt := n1\<rparr> # post"
proof (cases "merge_item n1 item (so_items s)")
  case None
  then have "merge_target item (so_items s) = None" by (simp add: merge_item_None_iff)
  moreover from assms None have "so_items s' = so_items s @ [item]"
    by (auto simp: AddItem_def split: if_splits)
  ultimately show thesis by (rule append)
next
  case (Some r)
  then obtain pre e post where *: "so_items s = pre @ e # post" "\<not> item_IsDeleted e"
    "item_key e = item_key item" "merge_target item (so_items s) = Some e"
    "r = (case UpdateQuantity n1 (item_quantity e + item_quantity item) e of
            Inl err \<Rightarrow> Inl err | Inr e' \<Rightarrow> Inr (pre @ e' # post))"
    by (rule merge_itemE)
  from assms Some obtain items where "r = Inr items" and "so_items s' = items"
    by (auto simp: AddItem_def split: if_splits sum.splits)
  then have "UpdateQuantity n1 (item_quantity e + item_quantity item) e \<noteq> Inl err" for err
    using *(5) by auto
  from this [of ErrInvalidQuantity] have "0 < sint (item_quantity e + item_quantity item)"
    by (simp add: UpdateQuantity_def split: if_splits)
  moreover from this *(5) \<open>r = Inr items\<close> \<open>so_items s' = items\<close>
  have "so_items s' = pre @ e\<lparr>item_quantity := item_quantity e + item_quantity item,
                              item_updatedAt := n1\<rparr> # post"
    by (simp add: UpdateQuantity_def)
  ultimately show thesis using *(1-4) by (intro merge)
qed

lemma AddItem_lines_wf:
  assumes "AddItem n1 n2 item s = Inr s'" and "lines_wf (so_items s)"
    and "item_wf item" and "\<not> item_IsDeleted item"
  shows "lines_wf (so_items s')"
  using assms(1)
proof (cases rule: AddItem_cases)
  case append
  with assms(2-4) show ?thesis by (auto simp: lines_wf_def merge_target_None_iff)
next
  case (merge pre e post)
  have "item_wf e" using merge(1,2) assms(2) by (auto simp: lines_wf_def)
  with merge(5) have "item_wf (e\<lparr>item_quantity := item_quantity e + item_quantity item,
      item_updatedAt := n1\<rparr>)"
    by (simp add: item_wf_def)
  with merge(1,2,6) assms(2) show ?thesis by (simp add: lines_wf_replace)
qed

text \<open>The price at which an added quantity is charged: the one the order already holds, if any.\<close>

definition charged_price :: "ServiceOrderItem \<Rightarrow> ServiceOrderItem list \<Rightarrow> goint" where
  "charged_price item items =
     (case merge_target item items of None \<Rightarrow> item_unitPrice item | Some e \<Rightarrow> item_unitPrice e)"

lemma merged_quantity_exact:
  assumes "item_wf e" and "item_wf item" and "0 < sint (item_quantity e + item_quantity item)"
  shows "sint (item_quantity e + item_quantity item) = sint (item_quantity e) + sint (item_quantity item)"
  using assms by (intro sint_add_positive) (auto simp: item_wf_def)

lemma lines_wf_active_mem: "lines_wf (pre @ e # post) \<Longrightarrow> \<not> item_IsDeleted e \<Longrightarrow> item_wf e"
  by (auto simp: lines_wf_def)

lemma AddItem_quantity:
  assumes "AddItem n1 n2 item s = Inr s'" and "lines_wf (so_items s)"
    and "item_wf item" and "\<not> item_IsDeleted item"
  shows "quantity_of k (so_items s') =
           quantity_of k (so_items s) + (if k = item_key item then sint (item_quantity item) else 0)"
  using assms(1)
proof (cases rule: AddItem_cases)
  case append
  with assms(4) show ?thesis by simp
next
  case (merge pre e post)
  with assms(2,3) have "sint (item_quantity e + item_quantity item) =
      sint (item_quantity e) + sint (item_quantity item)"
    by (intro merged_quantity_exact lines_wf_active_mem [of pre e post]) simp_all
  with merge show ?thesis by simp
qed

lemma AddItem_amount:
  assumes "AddItem n1 n2 item s = Inr s'" and "lines_wf (so_items s)"
    and "item_wf item" and "\<not> item_IsDeleted item"
  shows "amount (so_items s') =
           amount (so_items s) +
           sint (item_quantity item) * sint (charged_price item (so_items s))"
  using assms(1)
proof (cases rule: AddItem_cases)
  case append
  with assms(4) show ?thesis by (simp add: charged_price_def)
next
  case (merge pre e post)
  with assms(2,3) have "sint (item_quantity e + item_quantity item) =
      sint (item_quantity e) + sint (item_quantity item)"
    by (intro merged_quantity_exact lines_wf_active_mem [of pre e post]) simp_all
  with merge show ?thesis
    by (simp add: charged_price_def item_IsDeleted_def algebra_simps)
qed

lemma AddItem_defined:
  assumes "CanModifyItems s"
    and "case merge_target item (so_items s) of None \<Rightarrow> True
         | Some e \<Rightarrow> 0 < sint (item_quantity e + item_quantity item)"
  shows "\<exists>s'. AddItem n1 n2 item s = Inr s'"
proof (cases "merge_item n1 item (so_items s)")
  case None
  with assms(1) show ?thesis by (auto simp: AddItem_def IsClosed_def CanModifyItems_def)
next
  case (Some r)
  then obtain pre e post where "merge_target item (so_items s) = Some e"
    and r: "r = (case UpdateQuantity n1 (item_quantity e + item_quantity item) e of
            Inl err \<Rightarrow> Inl err | Inr e' \<Rightarrow> Inr (pre @ e' # post))"
    by (rule merge_itemE)
  with assms(2) have "\<exists>items. r = Inr items" by (simp add: UpdateQuantity_def)
  with assms(1) Some show ?thesis by (auto simp: AddItem_def IsClosed_def CanModifyItems_def)
qed

subsection \<open>RemoveItem and UpdateItemQuantity\<close>

lemma RemoveItem_cases:
  assumes "RemoveItem n1 n2 i s = Inr s'"
  obtains pre e post where "so_items s = pre @ e # post" "\<not> item_IsDeleted e" "item_id e = i"
    "s' = s\<lparr>so_items := pre @ item_MarkAsDeleted n1 e # post, so_updatedAt := n2\<rparr>"
    "CanModifyItems s" "i \<noteq> ''''"
proof -
  from assms obtain items where r: "remove_item n1 i (so_items s) = Some items"
    and s': "s' = s\<lparr>so_items := items, so_updatedAt := n2\<rparr>" "CanModifyItems s" "i \<noteq> ''''"
    by (auto simp: RemoveItem_def split: if_splits option.splits)
  from r obtain pre e post where "so_items s = pre @ e # post" "\<not> item_IsDeleted e"
    "item_id e = i" "items = pre @ item_MarkAsDeleted n1 e # post"
    by (rule remove_itemE)
  with s' that show thesis by blast
qed

lemma RemoveItem_defined:
  assumes "CanModifyItems s" and "i \<noteq> ''''" and "e \<in> set (active (so_items s))" and "item_id e = i"
  shows "\<exists>s'. RemoveItem n1 n2 i s = Inr s'"
proof -
  have "remove_item n1 i (so_items s) \<noteq> None" using assms(3,4) by (auto simp: remove_item_None_iff)
  with assms(1,2) show ?thesis by (auto simp: RemoveItem_def IsClosed_def CanModifyItems_def)
qed

lemma UpdateItemQuantity_cases:
  assumes "UpdateItemQuantity n1 n2 i q s = Inr s'"
  obtains pre e post where "so_items s = pre @ e # post" "\<not> item_IsDeleted e" "item_id e = i"
    "0 < sint q" "CanModifyItems s"
    "s' = s\<lparr>so_items := pre @ e\<lparr>item_quantity := q, item_updatedAt := n1\<rparr> # post,
            so_updatedAt := n2\<rparr>"
proof -
  from assms obtain items where r: "requantify_item n1 i q (so_items s) = Some (Inr items)"
    and s': "s' = s\<lparr>so_items := items, so_updatedAt := n2\<rparr>" and cm: "CanModifyItems s"
    by (auto simp: UpdateItemQuantity_def split: if_splits option.splits sum.splits)
  from r obtain pre e post where *: "so_items s = pre @ e # post" "\<not> item_IsDeleted e"
    "item_id e = i"
    and "Inr items = (case UpdateQuantity n1 q e of Inl err \<Rightarrow> Inl err | Inr e' \<Rightarrow> Inr (pre @ e' # post))"
    by (rule requantify_itemE)
  then have "0 < sint q" "items = pre @ e\<lparr>item_quantity := q, item_updatedAt := n1\<rparr> # post"
    by (simp_all add: UpdateQuantity_def split: if_splits)
  with * s' cm show thesis by (intro that) simp_all
qed

subsection \<open>The total\<close>

lemma foldl_total:
  "foldl (\<lambda>total item. if item_IsDeleted item then total else total + Subtotal item) t items =
     t + word_of_int (amount items)"
  by (induction items arbitrary: t) (auto simp: Subtotal_def)

lemma TotalAmount_eq: "TotalAmount s = word_of_int (amount (so_items s))"
  by (simp add: TotalAmount_def foldl_total)

end
