(* ===== verification/Order_View.thy ===== *)
theory Order_View
  imports Order_Lines
begin

text \<open>
  The abstract specification of a service order. An \<open>order_view\<close> is what survives a trip to the
  database and back: everything of the aggregate but the clock readings, the soft-deleted lines and
  the order of the lines. \<open>order_step\<close> is the abstract machine: the moves an order may make, whatever
  handler makes them. Each method of the aggregate is shown to be one of these moves, and the
  invariants of an order are proved once, on the abstract machine.
\<close>

subsection \<open>Views\<close>

record item_view =
  iv_itemType :: ItemType
  iv_referenceID :: string
  iv_name :: string
  iv_quantity :: goint
  iv_unitPrice :: goint

record order_view =
  v_customerID :: string
  v_vehicleID :: string
  v_description :: string
  v_status :: OrderStatus
  v_sagaStatus :: string
  v_currentSagaID :: "string option"
  v_sagaTargetStatus :: "OrderStatus option"
  v_sagaNotes :: "string option"
  v_mpPreferenceID :: "string option"
  v_mpPaymentID :: "string option"
  v_paymentURL :: "string option"
  v_customerEmail :: string
  v_customerName :: string
  v_items :: "item_view multiset"
  v_line_ids :: "string set"
  v_closed :: bool

definition abs_item :: "ServiceOrderItem \<Rightarrow> item_view" where
  "abs_item i = \<lparr>iv_itemType = item_itemType i, iv_referenceID = item_referenceID i,
     iv_name = item_name i, iv_quantity = item_quantity i, iv_unitPrice = item_unitPrice i\<rparr>"

definition abs_items :: "ServiceOrderItem list \<Rightarrow> item_view multiset" where
  "abs_items items = image_mset abs_item (mset (active items))"

text \<open>The identifiers of an order's lines; a line that was never saved has none.\<close>

definition line_ids :: "ServiceOrderItem list \<Rightarrow> string list" where
  "line_ids items = filter (\<lambda>i. i \<noteq> '''') (map item_id items)"

definition abs_order :: "ServiceOrder \<Rightarrow> order_view" where
  "abs_order s = \<lparr>v_customerID = so_customerID s, v_vehicleID = so_vehicleID s,
     v_description = so_description s, v_status = so_status s, v_sagaStatus = so_sagaStatus s,
     v_currentSagaID = so_currentSagaID s, v_sagaTargetStatus = so_sagaTargetStatus s,
     v_sagaNotes = so_sagaNotes s, v_mpPreferenceID = so_mpPreferenceID s,
     v_mpPaymentID = so_mpPaymentID s, v_paymentURL = so_paymentURL s,
     v_customerEmail = so_customerEmail s, v_customerName = so_customerName s,
     v_items = abs_items (so_items s),
     v_line_ids = set (line_ids (active (so_items s))), v_closed = (so_closedAt s \<noteq> None)\<rparr>"

lemma abs_order_sel [simp]:
  "v_customerID (abs_order s) = so_customerID s"
  "v_vehicleID (abs_order s) = so_vehicleID s"
  "v_description (abs_order s) = so_description s"
  "v_status (abs_order s) = so_status s"
  "v_sagaStatus (abs_order s) = so_sagaStatus s"
  "v_currentSagaID (abs_order s) = so_currentSagaID s"
  "v_sagaTargetStatus (abs_order s) = so_sagaTargetStatus s"
  "v_sagaNotes (abs_order s) = so_sagaNotes s"
  "v_mpPreferenceID (abs_order s) = so_mpPreferenceID s"
  "v_mpPaymentID (abs_order s) = so_mpPaymentID s"
  "v_paymentURL (abs_order s) = so_paymentURL s"
  "v_customerEmail (abs_order s) = so_customerEmail s"
  "v_customerName (abs_order s) = so_customerName s"
  "v_items (abs_order s) = abs_items (so_items s)"
  "v_line_ids (abs_order s) = set (line_ids (active (so_items s)))"
  "v_closed (abs_order s) \<longleftrightarrow> so_closedAt s \<noteq> None"
  by (simp_all add: abs_order_def)

lemma abs_order_frame [simp]:
  "abs_order (s\<lparr>so_updatedAt := t\<rparr>) = abs_order s"
  "abs_order (s\<lparr>so_id := i\<rparr>) = abs_order s"
  "abs_order (s\<lparr>so_deletedAt := d\<rparr>) = abs_order s"
  by (simp_all add: abs_order_def)

lemma line_ids_simps [simp]:
  "line_ids [] = []"
  "line_ids (i # is) = (if item_id i = '''' then line_ids is else item_id i # line_ids is)"
  "line_ids (xs @ ys) = line_ids xs @ line_ids ys"
  by (simp_all add: line_ids_def)

lemma set_line_ids: "set (line_ids is) = item_id ` set is - {''''}"
  by (auto simp: line_ids_def)

lemma line_ids_active: "set (line_ids (active is)) \<subseteq> set (line_ids is)"
  by (auto simp: set_line_ids active_def)

text \<open>Lines that all have identifiers.\<close>

lemma line_ids_all: "'''' \<notin> item_id ` set is \<Longrightarrow> line_ids is = map item_id is"
  by (auto simp: line_ids_def intro!: filter_True)

lemma set_abs_items: "set_mset (abs_items items) = abs_item ` set (active items)"
  by (simp add: abs_items_def)

subsection \<open>The moves of an order\<close>

text \<open>The effect of a change of status on a view.\<close>

definition v_set_status :: "OrderStatus \<Rightarrow> order_view \<Rightarrow> order_view" where
  "v_set_status t v = v\<lparr>v_status := t, v_closed := v_closed v \<or> closing_status t\<rparr>"

definition v_set_saga ::
  "string \<Rightarrow> string option \<Rightarrow> OrderStatus option \<Rightarrow> string option \<Rightarrow> order_view \<Rightarrow> order_view" where
  "v_set_saga st sid target notes v =
     v\<lparr>v_sagaStatus := st, v_currentSagaID := sid, v_sagaTargetStatus := target,
       v_sagaNotes := notes\<rparr>"

text \<open>The statuses a saga may aim at: those whose transition needs a stock operation.\<close>

definition saga_target :: "OrderStatus \<Rightarrow> bool" where
  "saga_target t \<longleftrightarrow> t \<in> {StatusPendingAuthorization, StatusCompleted, StatusCanceled,
                          StatusAuthorizationDenied}"

definition item_view_wf :: "item_view \<Rightarrow> bool" where
  "item_view_wf i \<longleftrightarrow> itemType_IsValid (iv_itemType i) \<and> iv_referenceID i \<noteq> '''' \<and>
     iv_name i \<noteq> '''' \<and> 0 < sint (iv_quantity i) \<and> 0 < sint (iv_unitPrice i)"

inductive order_step :: "order_view \<Rightarrow> order_view \<Rightarrow> bool" where
  move: "CanTransitionTo (v_status v) t \<Longrightarrow> t \<noteq> StatusAwaitingPayment \<Longrightarrow>
    order_step v (v_set_status t v)"
| begin_saga: "v_sagaStatus v \<noteq> SagaStatusAwaitingInventory \<Longrightarrow> sid \<noteq> '''' \<Longrightarrow> saga_target t \<Longrightarrow>
    order_step v (v_set_saga SagaStatusAwaitingInventory (Some sid) (Some t) notes v)"
| end_saga: "order_step v (v_set_saga SagaStatusIdle None None None v)"
| fail_saga: "order_step v (v_set_saga SagaStatusFailed None None None v)"
| await_payment: "CanTransitionTo (v_status v) StatusAwaitingPayment \<Longrightarrow> pref \<noteq> '''' \<Longrightarrow> url \<noteq> '''' \<Longrightarrow>
    order_step v (v_set_saga SagaStatusAwaitingPayment None None None
      (v_set_status StatusAwaitingPayment
        (v\<lparr>v_mpPreferenceID := Some pref, v_paymentURL := Some url\<rparr>)))"
| record_payment: "pay \<noteq> '''' \<Longrightarrow> order_step v (v\<lparr>v_mpPaymentID := Some pay\<rparr>)"
| edit_details: "cust \<noteq> '''' \<Longrightarrow> veh \<noteq> '''' \<Longrightarrow>
    order_step v (v\<lparr>v_customerID := cust, v_vehicleID := veh, v_description := desc\<rparr>)"
| edit_items: "v_status v \<in> {StatusReceived, StatusDiagnosing} \<Longrightarrow>
    \<forall>i \<in># is. item_view_wf i \<Longrightarrow> order_step v (v\<lparr>v_items := is, v_line_ids := ids\<rparr>)"

inductive_cases order_stepE: "order_step v v'"

abbreviation order_steps :: "order_view \<Rightarrow> order_view \<Rightarrow> bool" where
  "order_steps \<equiv> order_step\<^sup>*\<^sup>*"

lemmas order_steps_trans = rtranclp_trans [of order_step]

lemma order_steps_into: "order_step v v' \<Longrightarrow> order_steps v v'"
  by (rule r_into_rtranclp)

lemma v_set_sel [simp]:
  "v_status (v_set_status t v) = t"
  "v_closed (v_set_status t v) \<longleftrightarrow> v_closed v \<or> closing_status t"
  "v_items (v_set_status t v) = v_items v"
  "v_line_ids (v_set_status t v) = v_line_ids v"
  "v_sagaStatus (v_set_status t v) = v_sagaStatus v"
  "v_currentSagaID (v_set_status t v) = v_currentSagaID v"
  "v_sagaTargetStatus (v_set_status t v) = v_sagaTargetStatus v"
  "v_mpPreferenceID (v_set_status t v) = v_mpPreferenceID v"
  "v_paymentURL (v_set_status t v) = v_paymentURL v"
  "v_mpPaymentID (v_set_status t v) = v_mpPaymentID v"
  "v_customerID (v_set_status t v) = v_customerID v"
  "v_vehicleID (v_set_status t v) = v_vehicleID v"
  "v_status (v_set_saga a b c d v) = v_status v"
  "v_closed (v_set_saga a b c d v) = v_closed v"
  "v_items (v_set_saga a b c d v) = v_items v"
  "v_line_ids (v_set_saga a b c d v) = v_line_ids v"
  "v_sagaStatus (v_set_saga a b c d v) = a"
  "v_currentSagaID (v_set_saga a b c d v) = b"
  "v_sagaTargetStatus (v_set_saga a b c d v) = c"
  "v_sagaNotes (v_set_saga a b c d v) = d"
  "v_mpPreferenceID (v_set_saga a b c d v) = v_mpPreferenceID v"
  "v_paymentURL (v_set_saga a b c d v) = v_paymentURL v"
  "v_mpPaymentID (v_set_saga a b c d v) = v_mpPaymentID v"
  "v_customerID (v_set_saga a b c d v) = v_customerID v"
  "v_vehicleID (v_set_saga a b c d v) = v_vehicleID v"
  by (simp_all add: v_set_status_def v_set_saga_def)

subsection \<open>The methods refine the moves\<close>

lemma UpdateStatus_Inr_iff:
  "UpdateStatus n1 n2 t s = Inr s' \<longleftrightarrow>
     CanTransitionTo (so_status s) t \<and>
     s' = s\<lparr>so_status := t, so_updatedAt := n1,
            so_closedAt := (if closing_status t \<and> so_closedAt s = None then Some n2
                            else so_closedAt s)\<rparr>"
  using CanTransitionTo_valid [of "so_status s" t] by (auto simp: UpdateStatus_def)

lemma UpdateStatus_Inl_iff:
  "UpdateStatus n1 n2 t s = Inl e \<longleftrightarrow>
     \<not> CanTransitionTo (so_status s) t \<and>
     e = (if status_IsValid t then ErrInvalidStatusTransition else ErrInvalidStatus)"
  using CanTransitionTo_valid [of "so_status s" t] by (auto simp: UpdateStatus_def)

lemma abs_UpdateStatus:
  "UpdateStatus n1 n2 t s = Inr s' \<Longrightarrow> abs_order s' = v_set_status t (abs_order s)"
  by (auto simp: UpdateStatus_Inr_iff abs_order_def v_set_status_def)

lemma UpdateStatus_frame:
  assumes "UpdateStatus n1 n2 t s = Inr s'"
  shows "so_id s' = so_id s" "so_status s' = t" "so_deletedAt s' = so_deletedAt s"
    "so_items s' = so_items s" "so_customerID s' = so_customerID s"
    "so_sagaStatus s' = so_sagaStatus s" "so_currentSagaID s' = so_currentSagaID s"
    "so_sagaTargetStatus s' = so_sagaTargetStatus s" "so_sagaNotes s' = so_sagaNotes s"
    "so_vehicleID s' = so_vehicleID s" "CanTransitionTo (so_status s) t"
    "so_mpPreferenceID s' = so_mpPreferenceID s" "so_mpPaymentID s' = so_mpPaymentID s"
    "so_paymentURL s' = so_paymentURL s"
  using assms by (simp_all add: UpdateStatus_Inr_iff)

lemma abs_order_StartSaga:
  "order_StartSaga n sid t notes s = Inr s' \<Longrightarrow>
   abs_order s' = v_set_saga SagaStatusAwaitingInventory (Some sid) (Some t) notes (abs_order s)"
  by (auto simp: order_StartSaga_def abs_order_def v_set_saga_def split: if_splits)

lemma order_StartSaga_Inr_iff:
  "order_StartSaga n sid t notes s = Inr s' \<longleftrightarrow>
     sid \<noteq> '''' \<and> status_IsValid t \<and>
     s' = s\<lparr>so_sagaStatus := SagaStatusAwaitingInventory, so_currentSagaID := Some sid,
            so_sagaTargetStatus := Some t, so_sagaNotes := notes, so_updatedAt := n\<rparr>"
  by (auto simp: order_StartSaga_def)

lemma abs_CompleteSaga [simp]:
  "abs_order (CompleteSaga n s) = v_set_saga SagaStatusIdle None None None (abs_order s)"
  by (simp add: CompleteSaga_def abs_order_def v_set_saga_def)

lemma abs_FailSaga [simp]:
  "abs_order (FailSaga n s) = v_set_saga SagaStatusFailed None None None (abs_order s)"
  by (simp add: FailSaga_def abs_order_def v_set_saga_def)

lemma saga_frame [simp]:
  "so_id (CompleteSaga n s) = so_id s" "so_id (FailSaga n s) = so_id s"
  "so_status (CompleteSaga n s) = so_status s" "so_status (FailSaga n s) = so_status s"
  "so_deletedAt (CompleteSaga n s) = so_deletedAt s" "so_deletedAt (FailSaga n s) = so_deletedAt s"
  "so_items (CompleteSaga n s) = so_items s" "so_items (FailSaga n s) = so_items s"
  "so_customerID (CompleteSaga n s) = so_customerID s" "so_customerID (FailSaga n s) = so_customerID s"
  "so_sagaStatus (CompleteSaga n s) = SagaStatusIdle" "so_sagaStatus (FailSaga n s) = SagaStatusFailed"
  "so_currentSagaID (CompleteSaga n s) = None" "so_currentSagaID (FailSaga n s) = None"
  "so_sagaTargetStatus (CompleteSaga n s) = None" "so_sagaTargetStatus (FailSaga n s) = None"
  by (simp_all add: CompleteSaga_def FailSaga_def)

lemma AwaitPayment_Inr:
  assumes "AwaitPayment n1 n2 n3 pref url s = Inr s'"
  shows "pref \<noteq> ''''" and "url \<noteq> ''''" and "CanTransitionTo (so_status s) StatusAwaitingPayment"
    and "abs_order s' = v_set_saga SagaStatusAwaitingPayment None None None
           (v_set_status StatusAwaitingPayment
             ((abs_order s)\<lparr>v_mpPreferenceID := Some pref, v_paymentURL := Some url\<rparr>))"
    and "so_id s' = so_id s" and "so_deletedAt s' = so_deletedAt s"
    and "so_status s' = StatusAwaitingPayment" and "so_items s' = so_items s"
    and "so_customerID s' = so_customerID s"
  using assms by (auto simp: AwaitPayment_def UpdateStatus_Inr_iff abs_order_def v_set_saga_def
      v_set_status_def split: if_splits sum.splits)

lemma ConfirmPayment_Inr:
  assumes "ConfirmPayment n1 n2 n3 pay s = Inr s'"
  shows "pay \<noteq> ''''" and "CanTransitionTo (so_status s) StatusPaid"
    and "abs_order s' = v_set_saga SagaStatusIdle None None None
           (v_set_status StatusPaid ((abs_order s)\<lparr>v_mpPaymentID := Some pay\<rparr>))"
    and "so_id s' = so_id s" and "so_deletedAt s' = so_deletedAt s"
    and "so_status s' = StatusPaid" and "so_items s' = so_items s"
    and "so_customerID s' = so_customerID s"
  using assms by (auto simp: ConfirmPayment_def UpdateStatus_Inr_iff abs_order_def v_set_saga_def
      v_set_status_def split: if_splits sum.splits)

lemma RejectPayment_Inr:
  assumes "RejectPayment n1 n2 n3 s = Inr s'"
  shows "CanTransitionTo (so_status s) StatusPaymentRejected"
    and "abs_order s' = v_set_saga SagaStatusIdle None None None
           (v_set_status StatusPaymentRejected (abs_order s))"
    and "so_id s' = so_id s" and "so_deletedAt s' = so_deletedAt s"
    and "so_status s' = StatusPaymentRejected" and "so_items s' = so_items s"
    and "so_customerID s' = so_customerID s"
  using assms by (auto simp: RejectPayment_def UpdateStatus_Inr_iff abs_order_def v_set_saga_def
      v_set_status_def split: if_splits sum.splits)

lemma CancelAfterRefund_Inr:
  assumes "CancelAfterRefund n1 n2 s = Inr s'"
  shows "so_status s = StatusPaid" and "UpdateStatus n1 n2 StatusCanceled s = Inr s'"
  using assms by (auto simp: CancelAfterRefund_def split: if_splits)

lemma order_steps_await_payment:
  assumes "AwaitPayment n1 n2 n3 pref url s = Inr s'"
  shows "order_steps (abs_order s) (abs_order s')"
  using order_step.await_payment [of "abs_order s" pref url] AwaitPayment_Inr [OF assms]
  by (intro order_steps_into) simp

lemma order_steps_saga_move:
  assumes "CanTransitionTo (v_status v) t" and "t \<noteq> StatusAwaitingPayment"
  shows "order_steps v (v_set_saga SagaStatusIdle None None None (v_set_status t v))"
  by (rule rtranclp.rtrancl_into_rtrancl [OF order_steps_into [OF order_step.move [OF assms]]
        order_step.end_saga])

lemma order_steps_confirm:
  assumes "ConfirmPayment n1 n2 n3 pay s = Inr s'"
  shows "order_steps (abs_order s) (abs_order s')"
proof -
  have "order_step (abs_order s) ((abs_order s)\<lparr>v_mpPaymentID := Some pay\<rparr>)"
    using ConfirmPayment_Inr(1) [OF assms] by (rule order_step.record_payment)
  moreover have "order_steps ((abs_order s)\<lparr>v_mpPaymentID := Some pay\<rparr>) (abs_order s')"
    using ConfirmPayment_Inr(2,3) [OF assms] order_steps_saga_move by simp
  ultimately show ?thesis by (rule converse_rtranclp_into_rtranclp)
qed

lemma order_steps_reject:
  "RejectPayment n1 n2 n3 s = Inr s' \<Longrightarrow> order_steps (abs_order s) (abs_order s')"
  using RejectPayment_Inr [of n1 n2 n3 s s'] order_steps_saga_move by simp

lemma order_steps_update_status:
  assumes "UpdateStatus n1 n2 t s = Inr s'" and "t \<noteq> StatusAwaitingPayment"
  shows "order_steps (abs_order s) (abs_order s')"
  using order_step.move [of "abs_order s" t] assms(2) abs_UpdateStatus [OF assms(1)]
    UpdateStatus_frame(11) [OF assms(1)]
  by (intro order_steps_into) simp

subsection \<open>Invariants of the abstract machine\<close>

text \<open>
  What is true of every stored order: its status is one of the twelve, its saga fields agree with
  each other, an order that waits for the stock service has a saga to wait for and a target the saga
  may have, an order at the payment stage has a payment link, a closed order has a closing time, its
  lines are well formed and it has a customer and a vehicle.
\<close>

definition view_wf :: "order_view \<Rightarrow> bool" where
  "view_wf v \<longleftrightarrow>
     status_IsValid (v_status v) \<and>
     v_sagaStatus v \<in> {SagaStatusIdle, SagaStatusAwaitingInventory, SagaStatusAwaitingPayment,
                        SagaStatusFailed} \<and>
     (v_sagaStatus v = SagaStatusAwaitingInventory \<longleftrightarrow> v_currentSagaID v \<noteq> None) \<and>
     (v_currentSagaID v \<noteq> None \<longleftrightarrow> v_sagaTargetStatus v \<noteq> None) \<and>
     v_currentSagaID v \<noteq> Some '''' \<and>
     (\<forall>t. v_sagaTargetStatus v = Some t \<longrightarrow> saga_target t) \<and>
     (v_sagaStatus v = SagaStatusAwaitingPayment \<or>
      v_status v \<in> {StatusAwaitingPayment, StatusPaymentRejected} \<longrightarrow>
        v_mpPreferenceID v \<noteq> None \<and> v_paymentURL v \<noteq> None) \<and>
     v_mpPreferenceID v \<noteq> Some '''' \<and> v_paymentURL v \<noteq> Some '''' \<and> v_mpPaymentID v \<noteq> Some '''' \<and>
     (closing_status (v_status v) \<longrightarrow> v_closed v) \<and>
     (\<forall>i \<in># v_items v. item_view_wf i) \<and>
     v_customerID v \<noteq> '''' \<and> v_vehicleID v \<noteq> ''''"

lemma saga_target_valid: "saga_target t \<Longrightarrow> status_IsValid t"
  by (auto simp: saga_target_def)

lemma CanTransitionTo_rejected: "CanTransitionTo s StatusPaymentRejected \<Longrightarrow> s = StatusAwaitingPayment"
  unfolding CanTransitionTo_iff_workflow by (erule workflowE) simp_all

lemma order_step_wf: "order_step v v' \<Longrightarrow> view_wf v \<Longrightarrow> view_wf v'"
proof (induction rule: order_step.induct)
  case (move v t)
  then show ?case
    using CanTransitionTo_valid [OF move(1)] CanTransitionTo_rejected [of "v_status v"]
    by (auto simp: view_wf_def)
next
  case (begin_saga v sid t nts)
  then show ?case by (auto simp: view_wf_def)
next
  case (end_saga v)
  then show ?case by (auto simp: view_wf_def)
next
  case (fail_saga v)
  then show ?case by (auto simp: view_wf_def)
next
  case (await_payment v pref url)
  then show ?case by (auto simp: view_wf_def closing_status_def)
next
  case (record_payment pay v)
  then show ?case by (auto simp: view_wf_def)
next
  case (edit_details cust veh v desc)
  then show ?case by (auto simp: view_wf_def)
next
  case (edit_items v "is" ids)
  then show ?case by (auto simp: view_wf_def)
qed

lemma order_steps_wf: "order_steps v v' \<Longrightarrow> view_wf v \<Longrightarrow> view_wf v'"
  by (induction rule: rtranclp_induct) (auto intro: order_step_wf)

lemma order_step_final: "order_step v v' \<Longrightarrow> final_status (v_status v) \<Longrightarrow> v_status v' = v_status v"
  by (erule order_stepE) (auto dest: CanTransitionTo_final)

lemma order_steps_final:
  "order_steps v v' \<Longrightarrow> final_status (v_status v) \<Longrightarrow> v_status v' = v_status v"
  by (induction rule: rtranclp_induct) (auto dest: order_step_final)

lemma order_step_reaches:
  "order_step v v' \<Longrightarrow> v_status v' = v_status v \<or> workflow (v_status v) (v_status v')"
  by (erule order_stepE) (auto simp: CanTransitionTo_iff_workflow)

lemma order_steps_reaches: "order_steps v v' \<Longrightarrow> workflow\<^sup>*\<^sup>* (v_status v) (v_status v')"
proof (induction rule: rtranclp_induct)
  case base
  then show ?case by simp
next
  case (step v' v'')
  then show ?case using order_step_reaches [OF step(2)]
    by (auto intro: rtranclp.rtrancl_into_rtrancl)
qed

text \<open>Past the diagnosis no move brings an order back to where its lines can be edited.\<close>

definition past_diagnosis :: "OrderStatus \<Rightarrow> bool" where
  "past_diagnosis s \<longleftrightarrow> s \<noteq> StatusReceived \<and> s \<noteq> StatusDiagnosing"

lemma workflow_past_diagnosis: "workflow s t \<Longrightarrow> past_diagnosis s \<Longrightarrow> past_diagnosis t"
  by (erule workflowE) (auto simp: past_diagnosis_def)

lemma order_step_items_frozen:
  "order_step v v' \<Longrightarrow> past_diagnosis (v_status v) \<Longrightarrow>
   v_items v' = v_items v \<and> past_diagnosis (v_status v')"
  by (erule order_stepE)
    (auto simp: CanTransitionTo_iff_workflow past_diagnosis_def dest: workflow_past_diagnosis)

lemma order_steps_items_frozen:
  "order_steps v v' \<Longrightarrow> past_diagnosis (v_status v) \<Longrightarrow>
   v_items v' = v_items v \<and> past_diagnosis (v_status v')"
  by (induction rule: rtranclp_induct) (auto dest: order_step_items_frozen)

end
