(* ===== verification/History.thy ===== *)
theory History
  imports Order_View
begin

text \<open>
  \<^verbatim>\<open>history.go\<close>: the record of a change, the metadata built for it, the comparison of the lines of
  two states of an order by content signatures, and the copy of an order taken before it is edited.
\<close>

subsection \<open>Metadata\<close>

text \<open>
  The values the code stores under a metadata key: a string, a pair of old and new strings, a flag, a
  moment, or the snapshot the saga takes of an order.
\<close>

record snapshot_item =
  sni_id :: string
  sni_item_type :: string
  sni_reference_id :: string
  sni_name :: string
  sni_quantity :: goint
  sni_unit_price :: goint
  sni_subtotal :: goint

record snapshot =
  sn_order_id :: string
  sn_customer_id :: string
  sn_vehicle_id :: string
  sn_status :: string
  sn_total_amount :: goint
  sn_items :: "snapshot_item list"
  sn_captured_at :: time

datatype meta =
    MetaString string
  | MetaChange string string
  | MetaBool bool
  | MetaTime time
  | MetaSnapshot snapshot

type_synonym metadata = "string \<rightharpoonup> meta"

record History =
  h_id :: string
  h_serviceOrderID :: string
  h_metadata :: metadata
  h_status :: OrderStatus
  h_createdAt :: time

definition NewHistory :: "time \<Rightarrow> string \<Rightarrow> metadata \<Rightarrow> OrderStatus \<Rightarrow> error + History" where
  "NewHistory now serviceOrderID metadata status =
     (if serviceOrderID = '''' then Inl ErrInvalidServiceOrderID
      else Inr \<lparr>h_id = '''', h_serviceOrderID = serviceOrderID, h_metadata = metadata,
                h_status = status, h_createdAt = now\<rparr>)"

definition ReconstructHistory ::
  "string \<Rightarrow> string \<Rightarrow> metadata \<Rightarrow> OrderStatus \<Rightarrow> time \<Rightarrow> History" where
  "ReconstructHistory i serviceOrderID metadata status createdAt =
     \<lparr>h_id = i, h_serviceOrderID = serviceOrderID, h_metadata = metadata,
      h_status = status, h_createdAt = createdAt\<rparr>"

definition history_SetID :: "string \<Rightarrow> History \<Rightarrow> error + History" where
  "history_SetID i h = (if i = '''' then Inl ErrInvalidHistoryID else Inr (h\<lparr>h_id := i\<rparr>))"

text \<open>Three comparisons, each adding a key when the field differs.\<close>

definition BuildHistoryMetadata :: "ServiceOrder \<Rightarrow> ServiceOrder \<Rightarrow> metadata" where
  "BuildHistoryMetadata oldOrder newOrder =
     (let c0 = Map.empty;
          c1 = (if so_customerID oldOrder \<noteq> so_customerID newOrder
                then c0(''customer_id'' \<mapsto>
                         MetaChange (so_customerID oldOrder) (so_customerID newOrder))
                else c0);
          c2 = (if so_vehicleID oldOrder \<noteq> so_vehicleID newOrder
                then c1(''vehicle_id'' \<mapsto>
                         MetaChange (so_vehicleID oldOrder) (so_vehicleID newOrder))
                else c1)
      in if so_status oldOrder \<noteq> so_status newOrder
         then c2(''status'' \<mapsto> MetaChange (status_String (so_status oldOrder))
                                        (status_String (so_status newOrder)))
         else c2)"

definition BuildStatusOnlyMetadata :: "OrderStatus \<Rightarrow> OrderStatus \<Rightarrow> metadata" where
  "BuildStatusOnlyMetadata oldStatus newStatus =
     [''status'' \<mapsto> MetaChange (status_String oldStatus) (status_String newStatus)]"

subsection \<open>Comparison of lines\<close>

text \<open>
  Go's \<^verbatim>\<open>string(rune(n))\<close>: the \<^verbatim>\<open>int\<close> is cut to 32 bits, and a value that is no Unicode scalar value
  is encoded as the replacement character \<^verbatim>\<open>U+FFFD\<close>.
\<close>

definition rune_of :: "goint \<Rightarrow> int" where
  "rune_of n = sint (ucast n :: 32 word)"

definition utf8_encode :: "nat \<Rightarrow> string" where
  "utf8_encode r =
     (if r < 0x80 then [char_of r]
      else if r < 0x800 then [char_of (0xC0 + r div 0x40), char_of (0x80 + r mod 0x40)]
      else if r < 0x10000
        then [char_of (0xE0 + r div 0x1000), char_of (0x80 + r div 0x40 mod 0x40),
              char_of (0x80 + r mod 0x40)]
      else [char_of (0xF0 + r div 0x40000), char_of (0x80 + r div 0x1000 mod 0x40),
            char_of (0x80 + r div 0x40 mod 0x40), char_of (0x80 + r mod 0x40)])"

definition rune_string :: "int \<Rightarrow> string" where
  "rune_string r =
     utf8_encode (if r < 0 \<or> 0x10FFFF < r \<or> (0xD800 \<le> r \<and> r \<le> 0xDFFF) then 0xFFFD else nat r)"

definition buildItemSignature :: "ServiceOrderItem \<Rightarrow> string" where
  "buildItemSignature item =
     itemType_string (item_itemType item) @ ''|'' @ item_referenceID item @ ''|'' @
     item_name item @ ''|'' @ rune_string (rune_of (item_quantity item)) @ ''|'' @
     rune_string (rune_of (item_unitPrice item))"

definition filterActiveItems :: "ServiceOrderItem list \<Rightarrow> ServiceOrderItem list" where
  "filterActiveItems items = filter (\<lambda>item. \<not> item_IsDeleted item) items"

text \<open>The map of old signatures to \<^verbatim>\<open>true\<close> is the set of its keys.\<close>

definition hasItemsChanged :: "ServiceOrderItem list \<Rightarrow> ServiceOrderItem list \<Rightarrow> bool" where
  "hasItemsChanged oldItems newItems =
     (let oldActiveItems = filterActiveItems oldItems;
          newActiveItems = filterActiveItems newItems
      in if length oldActiveItems \<noteq> length newActiveItems then True
         else (let oldSignatures = set (map buildItemSignature oldActiveItems)
               in list_ex (\<lambda>item. buildItemSignature item \<notin> oldSignatures) newActiveItems))"

definition BuildHistoryMetadataWithItems :: "ServiceOrder \<Rightarrow> ServiceOrder \<Rightarrow> metadata" where
  "BuildHistoryMetadataWithItems oldOrder newOrder =
     (let changes = BuildHistoryMetadata oldOrder newOrder
      in if hasItemsChanged (so_items oldOrder) (so_items newOrder)
         then changes(''items_changed'' \<mapsto> MetaBool True) else changes)"

subsection \<open>The copy of an order\<close>

text \<open>
  The error of \<^verbatim>\<open>ReconstructServiceOrder\<close> is dropped by the code; \<open>None\<close> is the nil pointer it then
  returns.
\<close>

definition CaptureOrderState :: "ServiceOrder \<Rightarrow> ServiceOrder option" where
  "CaptureOrderState order =
     (let itemsCopy = map (\<lambda>item. ReconstructServiceOrderItem (item_id item)
            (item_serviceOrderID item) (item_historyID item) (item_itemType item)
            (item_referenceID item) (item_name item) (item_quantity item) (item_unitPrice item)
            (item_createdAt item) (item_updatedAt item) (item_deletedAt item)) (so_items order)
      in case ReconstructServiceOrder (so_id order) (so_customerID order) (so_vehicleID order)
            (so_description order) (so_status order) (so_sagaStatus order)
            (so_currentSagaID order) (so_sagaTargetStatus order) (so_sagaNotes order)
            (so_mpPreferenceID order) (so_mpPaymentID order) (so_paymentURL order) itemsCopy
            (so_closedAt order) (so_createdAt order) (so_updatedAt order) (so_deletedAt order) of
           Inl _ \<Rightarrow> None
         | Inr orderCopy \<Rightarrow> Some orderCopy)"

subsection \<open>Lemmas\<close>

lemma filterActiveItems_eq [simp]: "filterActiveItems = active"
  by (rule ext) (simp add: filterActiveItems_def active_def)

lemma Reconstruct_item_id [simp]:
  "ReconstructServiceOrderItem (item_id i) (item_serviceOrderID i) (item_historyID i)
     (item_itemType i) (item_referenceID i) (item_name i) (item_quantity i) (item_unitPrice i)
     (item_createdAt i) (item_updatedAt i) (item_deletedAt i) = i"
  by (simp add: ReconstructServiceOrderItem_def)

lemma CaptureOrderState_eq:
  assumes "so_id s \<noteq> ''''" "so_customerID s \<noteq> ''''" "so_vehicleID s \<noteq> ''''"
    "status_IsValid (so_status s)" "so_sagaStatus s \<noteq> ''''"
  shows "CaptureOrderState s = Some (s\<lparr>so_customerEmail := '''', so_customerName := ''''\<rparr>)"
  using assms by (simp add: CaptureOrderState_def ReconstructServiceOrder_def)

lemma hasItemsChanged_iff:
  "hasItemsChanged old new \<longleftrightarrow>
     length (active old) \<noteq> length (active new) \<or>
     (\<exists>i \<in> set (active new). buildItemSignature i \<notin> buildItemSignature ` set (active old))"
  by (auto simp: hasItemsChanged_def Let_def list_ex_iff)

lemma rune_of_small:
  assumes "0 \<le> sint q" and "sint q < 2 ^ 31"
  shows "rune_of q = sint q"
proof -
  have "uint (word_of_int (sint q) :: goint) = sint q"
    using assms by (simp add: uint_word_of_int del: of_int_sint)
  then have "uint q = sint q" by simp
  then have "ucast q = (word_of_int (sint q) :: 32 word)" by (simp only: ucast_eq)
  then show ?thesis using assms by (simp add: rune_of_def int_word_sint del: of_int_sint)
qed

text \<open>Two signatures agree when the lines agree but for a price that is no Unicode scalar value.\<close>

lemma rune_string_out_of_range: "0x10FFFF < r \<Longrightarrow> rune_string r = utf8_encode 0xFFFD"
  by (simp add: rune_string_def)

lemma signature_blind:
  assumes "0x10FFFF < sint p" "sint p < 2 ^ 31" "0x10FFFF < sint p'" "sint p' < 2 ^ 31"
  shows "buildItemSignature (i\<lparr>item_unitPrice := p\<rparr>) = buildItemSignature (i\<lparr>item_unitPrice := p'\<rparr>)"
  using assms by (simp add: buildItemSignature_def rune_of_small rune_string_out_of_range)

end
