(* ===== verification/Go_Float.thy ===== *)
theory Go_Float
  imports Prelude "HOL-Library.Log_Nat"
begin

text \<open>
  Go's \<^verbatim>\<open>float64\<close> as the program uses it, for prices: a number of cents is converted and divided by 100. A value is the
  rational number it stands for; an operation rounds its exact result to 53 significant bits, to the even neighbour where
  two are as near. The exponents are not bounded here: a price is 0 or between \<open>1/128\<close> and \<open>2 ^ 64\<close>, where \<^verbatim>\<open>float64\<close> has
  neither subnormal numbers nor infinities.
\<close>

type_synonym float64 = rat

definition round_half_even :: "rat \<Rightarrow> int" where
  "round_half_even x =
     (let n = \<lfloor>x\<rfloor>; rest = x - of_int n in
      if rest < 1 / 2 then n else if 1 / 2 < rest then n + 1 else if even n then n else n + 1)"

text \<open>The weight of the last of the 53 bits of a number of at least \<open>1/128\<close>.\<close>

definition last_bit :: "rat \<Rightarrow> rat" where
  "last_bit x = 2 ^ nat (bitlen \<lfloor>128 * x\<rfloor>) / 2 ^ 60"

definition round_magnitude :: "rat \<Rightarrow> float64" where
  "round_magnitude x = of_int (round_half_even (x / last_bit x)) * last_bit x"

definition round64 :: "rat \<Rightarrow> float64" where
  "round64 x = (if x = 0 then 0 else if x < 0 then - round_magnitude (- x) else round_magnitude x)"

definition float64_of_int :: "int \<Rightarrow> float64" where
  "float64_of_int n = round64 (of_int n)"

definition float64_divide :: "float64 \<Rightarrow> float64 \<Rightarrow> float64" where
  "float64_divide x y = round64 (x / y)"

subsection \<open>The error of an operation\<close>

lemma round_half_even_error: "\<bar>of_int (round_half_even x) - x\<bar> \<le> 1 / 2"
proof -
  have "of_int \<lfloor>x\<rfloor> \<le> x" "x < of_int \<lfloor>x\<rfloor> + 1" by linarith+
  then show ?thesis by (auto simp: round_half_even_def Let_def abs_le_iff)
qed

lemma last_bit_small:
  assumes "1 / 128 \<le> x"
  shows "0 < last_bit x" and "2 ^ 52 * last_bit x \<le> x"
proof -
  let ?n = "\<lfloor>128 * x\<rfloor>"
  show "0 < last_bit x" by (simp add: last_bit_def)
  have pos: "0 < ?n" using assms by (simp add: zero_less_floor field_simps)
  then have "1 \<le> bitlen ?n" by (simp add: bitlen_alt_def)
  then obtain k where k: "nat (bitlen ?n) = Suc k" "nat (bitlen ?n - 1) = k" by (cases "nat (bitlen ?n)") auto
  have "2 ^ k \<le> ?n" using bitlen_bounds [OF pos] by (simp only: k)
  then have "(2 :: rat) ^ k \<le> of_int ?n" by (metis of_int_le_iff of_int_numeral of_int_power)
  also have "\<dots> \<le> 128 * x" by linarith
  finally have "2 ^ k \<le> 128 * x" .
  moreover have "last_bit x = 2 * 2 ^ k / 2 ^ 60" by (simp only: last_bit_def k(1) power_Suc)
  ultimately show "2 ^ 52 * last_bit x \<le> x" by simp
qed

lemma round_magnitude_error:
  assumes "1 / 128 \<le> x"
  shows "\<bar>round_magnitude x - x\<bar> \<le> x / 2 ^ 53"
proof -
  let ?b = "last_bit x"
  note b = last_bit_small [OF assms]
  have "round_magnitude x - x = (of_int (round_half_even (x / ?b)) - x / ?b) * ?b"
    using b(1) by (simp add: round_magnitude_def left_diff_distrib)
  then have "\<bar>round_magnitude x - x\<bar> = \<bar>of_int (round_half_even (x / ?b)) - x / ?b\<bar> * ?b"
    using b(1) by (simp add: abs_mult)
  also have "\<dots> \<le> 1 / 2 * ?b" using b(1) round_half_even_error by (intro mult_right_mono) auto
  also have "\<dots> \<le> x / 2 ^ 53" using b(2) by simp
  finally show ?thesis .
qed

lemma round64_error: "x = 0 \<or> 1 / 128 \<le> \<bar>x\<bar> \<Longrightarrow> \<bar>round64 x - x\<bar> \<le> \<bar>x\<bar> / 2 ^ 53"
  using round_magnitude_error [of x] round_magnitude_error [of "- x"] by (auto simp: round64_def abs_if split: if_splits)

subsection \<open>Prices\<close>

text \<open>The cents a price is read as: the nearest number.\<close>

definition to_cents :: "float64 \<Rightarrow> int" where
  "to_cents x = \<lfloor>100 * x + 1 / 2\<rfloor>"

lemma price_to_cents:
  assumes "\<bar>c\<bar> \<le> 2 ^ 50"
  shows "to_cents (float64_divide (float64_of_int c) 100) = c"
proof (cases "c = 0")
  case True
  then show ?thesis by (simp add: float64_of_int_def float64_divide_def round64_def to_cents_def floor_eq_iff)
next
  case False
  define a :: rat where "a = \<bar>of_int c\<bar>"
  have a: "1 \<le> a" "a \<le> 2 ^ 50" using False assms
    by (auto simp: a_def simp flip: of_int_abs)
  define m where "m = float64_of_int c"
  have m: "\<bar>m - of_int c\<bar> \<le> a / 2 ^ 53" using round64_error [of "of_int c"] a(1) by (simp add: m_def a_def float64_of_int_def)
  then have big: "a - a / 2 ^ 53 \<le> \<bar>m\<bar>" "\<bar>m\<bar> \<le> a + a / 2 ^ 53" unfolding a_def by linarith+
  define q where "q = float64_divide m 100"
  have "1 / 128 \<le> \<bar>m / 100\<bar>" using big(1) a(1) by simp
  then have "\<bar>q - m / 100\<bar> \<le> \<bar>m / 100\<bar> / 2 ^ 53" using round64_error [of "m / 100"] by (simp add: q_def float64_divide_def)
  then have q: "\<bar>100 * q - m\<bar> \<le> \<bar>m\<bar> / 2 ^ 53" by (simp add: abs_if split: if_splits)
  have "\<bar>100 * q - of_int c\<bar> \<le> a / 2 ^ 53 + (a + a / 2 ^ 53) / 2 ^ 53" using q m big(2) by (simp add: abs_if split: if_splits)
  also have "\<dots> < 1 / 2" using a(2) by simp
  finally have "of_int c \<le> 100 * q + 1 / 2" "100 * q + 1 / 2 < of_int c + 1" by (simp_all add: abs_if split: if_splits)
  then show ?thesis unfolding to_cents_def q_def m_def by (simp add: floor_unique)
qed

end
