(* ===== verification/Ports.thy ===== *)
theory Ports
  imports History Go_Float
begin

text \<open>
  The outside of the application layer: the Go interfaces it is written against
  (\<^verbatim>\<open>service_order.Repository\<close>, \<^verbatim>\<open>HistoryRepository\<close>, \<^verbatim>\<open>InventoryOperationPublisher\<close>, the adapters of
  \<^verbatim>\<open>infra/adapters/interfaces.go\<close>, \<^verbatim>\<open>EmailService\<close>, \<^verbatim>\<open>MercadoPagoClient\<close>), the clock and the UUID
  generator, as one record of functions, and the world a handler runs in: the database, a log of the
  calls that succeeded, and the moment. A call to the outside at moment \<open>t\<close> gets the answer the
  record gives for \<open>t\<close>, so nothing is assumed about two calls agreeing.

  What the application relies on of a repository is the locale \<open>order_repository\<close>.
\<close>

subsection \<open>Data that crosses the interfaces\<close>

record CustomerDTO =
  cust_ID :: string
  cust_Name :: string
  cust_Email :: string
  cust_Phone :: string

record VehicleDTO =
  veh_ID :: string
  veh_CustomerID :: string
  veh_LicensePlate :: string
  veh_Brand :: string
  veh_Model :: string
  veh_ModelYear :: goint
  veh_ManufactureYear :: goint

record ProductDTO =
  prod_ID :: string
  prod_Name :: string
  prod_Description :: string
  prod_Price :: goint
  prod_ProductType :: string

record ServiceDTO =
  serv_ID :: string
  serv_Name :: string
  serv_Description :: string
  serv_Price :: goint

record InventoryItem =
  inv_ProductID :: string
  inv_Quantity :: goint

record OrderItem =
  oi_Title :: string
  oi_Description :: string
  oi_Quantity :: goint
  oi_UnitPrice :: float64

record PayerInfo =
  payer_Email :: string
  payer_CPF :: string
  payer_Name :: string

record mp_Order =
  mpo_ID :: string
  mpo_Status :: string
  mpo_RedirectURL :: string
  mpo_ExternalReference :: string
  mpo_PaymentID :: string
  mpo_PaymentStatus :: string
  mpo_PaymentStatusDetail :: string

record mp_Payment =
  mpp_ID :: string
  mpp_Status :: string
  mpp_StatusDetail :: string
  mpp_ExternalReference :: string

record RepositoryFilters =
  f_CustomerID :: "string option"
  f_Status :: "OrderStatus option"
  f_SortByStatus :: bool
  f_HideCompleted :: bool

subsection \<open>The interfaces\<close>

text \<open>
  The methods of \<^verbatim>\<open>Repository\<close> the running code calls. \<^verbatim>\<open>Save\<close> gives an identifier to a new order
  and its new lines by mutating them, so it returns the order.
\<close>

record 'db Repository =
  repo_Save :: "ServiceOrder \<Rightarrow> 'db \<Rightarrow> (error + ServiceOrder) \<times> 'db"
  repo_SaveWithItems :: "ServiceOrder \<Rightarrow> 'db \<Rightarrow> (error + ServiceOrder) \<times> 'db"
  repo_FindByID :: "string \<Rightarrow> 'db \<Rightarrow> (error + ServiceOrder) \<times> 'db"
  repo_FindByIDWithItems :: "string \<Rightarrow> 'db \<Rightarrow> (error + ServiceOrder) \<times> 'db"
  repo_FindAllWithFilters :: "RepositoryFilters \<Rightarrow> 'db \<Rightarrow> (error + ServiceOrder list) \<times> 'db"
  repo_FindByCustomerID :: "string \<Rightarrow> 'db \<Rightarrow> (error + ServiceOrder list) \<times> 'db"
  repo_FindBySagaStatus :: "string \<Rightarrow> 'db \<Rightarrow> (error + ServiceOrder list) \<times> 'db"

text \<open>
  The rest of what \<^verbatim>\<open>main.go\<close> wires together. \<open>HistoryRepository_Save\<close> answers with the identifier it
  gives the record. The flags say whether the optional dependencies of the orchestrator and of the
  delete use case are there (the \<^verbatim>\<open>!= nil\<close> tests of the code).
\<close>

record 'db deps =
  orderRepo :: "'db Repository"
  time_Now :: "nat \<Rightarrow> time"
  uuid_NewV7 :: "nat \<Rightarrow> string"
  HistoryRepository_Save :: "nat \<Rightarrow> History \<Rightarrow> error + string"
  HistoryRepository_Find :: "nat \<Rightarrow> string \<Rightarrow> error + History list"
  Publisher_PublishRequest ::
    "nat \<Rightarrow> string \<Rightarrow> string \<Rightarrow> StockOperationType \<Rightarrow> InventoryItem list \<Rightarrow> error + unit"
  CustomerAdapter_Get :: "nat \<Rightarrow> string \<Rightarrow> error + CustomerDTO"
  VehicleAdapter_Get :: "nat \<Rightarrow> string \<Rightarrow> error + VehicleDTO"
  ProductAdapter_Get :: "nat \<Rightarrow> string \<Rightarrow> error + ProductDTO"
  ServiceAdapter_Get :: "nat \<Rightarrow> string \<Rightarrow> error + ServiceDTO"
  EmailService_Send :: "nat \<Rightarrow> string \<Rightarrow> string \<Rightarrow> string \<Rightarrow> string \<Rightarrow> string \<Rightarrow> error + unit"
  MP_CreateOrder :: "nat \<Rightarrow> OrderItem list \<Rightarrow> PayerInfo \<Rightarrow> string \<Rightarrow> error + mp_Order"
  MP_CancelOrder :: "nat \<Rightarrow> string \<Rightarrow> error + mp_Order"
  MP_RefundOrder :: "nat \<Rightarrow> string \<Rightarrow> error + mp_Order"
  MP_GetPayment :: "nat \<Rightarrow> string \<Rightarrow> error + mp_Payment"
  SQS_DeleteMessage :: "nat \<Rightarrow> string \<Rightarrow> error + unit"
  notifier_wired :: bool
  cancelPaymentOrder_wired :: bool
  refundPaymentOrder_wired :: bool

subsection \<open>The world\<close>

datatype logged =
    HistorySaved History
  | InventoryRequested string string StockOperationType "InventoryItem list"
  | EmailSent string string string string string
  | MPOrderCreated "OrderItem list" PayerInfo string
  | MPOrderCanceled string
  | MPOrderRefunded string
  | MessageDeleted string

record 'db world =
  w_db :: 'db
  w_log :: "logged list"
  w_tick :: nat

type_synonym ('db, 'a) io = "('db world, 'a) prog"

definition external :: "(nat \<Rightarrow> error + 'a) \<Rightarrow> ('a \<Rightarrow> logged list) \<Rightarrow> ('db, 'a) io" where
  "external f events = (\<lambda>w.
     case f (w_tick w) of
       Inl e \<Rightarrow> (Inl e, w\<lparr>w_tick := Suc (w_tick w)\<rparr>)
     | Inr x \<Rightarrow> (Inr x, w\<lparr>w_log := w_log w @ events x, w_tick := Suc (w_tick w)\<rparr>))"

definition on_db :: "('db \<Rightarrow> (error + 'a) \<times> 'db) \<Rightarrow> ('db, 'a) io" where
  "on_db f = (\<lambda>w. case f (w_db w) of (r, db) \<Rightarrow> (r, w\<lparr>w_db := db\<rparr>))"

subsection \<open>The calls\<close>

definition Now :: "'db deps \<Rightarrow> ('db, time) io" where
  "Now D = external (\<lambda>t. Inr (time_Now D t)) (\<lambda>_. [])"

definition NewV7 :: "'db deps \<Rightarrow> ('db, string) io" where
  "NewV7 D = external (\<lambda>t. Inr (uuid_NewV7 D t)) (\<lambda>_. [])"

definition Save :: "'db deps \<Rightarrow> ServiceOrder \<Rightarrow> ('db, ServiceOrder) io" where
  "Save D order = on_db (repo_Save (orderRepo D) order)"

definition SaveWithItems :: "'db deps \<Rightarrow> ServiceOrder \<Rightarrow> ('db, ServiceOrder) io" where
  "SaveWithItems D order = on_db (repo_SaveWithItems (orderRepo D) order)"

definition FindByID :: "'db deps \<Rightarrow> string \<Rightarrow> ('db, ServiceOrder) io" where
  "FindByID D i = on_db (repo_FindByID (orderRepo D) i)"

definition FindByIDWithItems :: "'db deps \<Rightarrow> string \<Rightarrow> ('db, ServiceOrder) io" where
  "FindByIDWithItems D i = on_db (repo_FindByIDWithItems (orderRepo D) i)"

definition FindAllWithFilters ::
  "'db deps \<Rightarrow> RepositoryFilters \<Rightarrow> ('db, ServiceOrder list) io" where
  "FindAllWithFilters D filters = on_db (repo_FindAllWithFilters (orderRepo D) filters)"

definition FindByCustomerID :: "'db deps \<Rightarrow> string \<Rightarrow> ('db, ServiceOrder list) io" where
  "FindByCustomerID D i = on_db (repo_FindByCustomerID (orderRepo D) i)"

definition FindBySagaStatus :: "'db deps \<Rightarrow> string \<Rightarrow> ('db, ServiceOrder list) io" where
  "FindBySagaStatus D st = on_db (repo_FindBySagaStatus (orderRepo D) st)"

definition history_Save :: "'db deps \<Rightarrow> History \<Rightarrow> ('db, string) io" where
  "history_Save D h =
     external (\<lambda>t. HistoryRepository_Save D t h) (\<lambda>i. [HistorySaved (h\<lparr>h_id := i\<rparr>)])"

definition history_FindByServiceOrderID :: "'db deps \<Rightarrow> string \<Rightarrow> ('db, History list) io" where
  "history_FindByServiceOrderID D i = external (\<lambda>t. HistoryRepository_Find D t i) (\<lambda>_. [])"

definition PublishRequest ::
  "'db deps \<Rightarrow> string \<Rightarrow> string \<Rightarrow> StockOperationType \<Rightarrow> InventoryItem list \<Rightarrow> ('db, unit) io" where
  "PublishRequest D sagaID orderID operation items =
     external (\<lambda>t. Publisher_PublishRequest D t sagaID orderID operation items)
       (\<lambda>_. [InventoryRequested sagaID orderID operation items])"

definition GetCustomerByID :: "'db deps \<Rightarrow> string \<Rightarrow> ('db, CustomerDTO) io" where
  "GetCustomerByID D i = external (\<lambda>t. CustomerAdapter_Get D t i) (\<lambda>_. [])"

definition GetVehicleByID :: "'db deps \<Rightarrow> string \<Rightarrow> ('db, VehicleDTO) io" where
  "GetVehicleByID D i = external (\<lambda>t. VehicleAdapter_Get D t i) (\<lambda>_. [])"

definition GetProductByID :: "'db deps \<Rightarrow> string \<Rightarrow> ('db, ProductDTO) io" where
  "GetProductByID D i = external (\<lambda>t. ProductAdapter_Get D t i) (\<lambda>_. [])"

definition GetServiceByID :: "'db deps \<Rightarrow> string \<Rightarrow> ('db, ServiceDTO) io" where
  "GetServiceByID D i = external (\<lambda>t. ServiceAdapter_Get D t i) (\<lambda>_. [])"

definition SendStatusUpdateEmail ::
  "'db deps \<Rightarrow> string \<Rightarrow> string \<Rightarrow> string \<Rightarrow> string \<Rightarrow> string \<Rightarrow> ('db, unit) io" where
  "SendStatusUpdateEmail D email name orderID oldStatus newStatus =
     external (\<lambda>t. EmailService_Send D t email name orderID oldStatus newStatus)
       (\<lambda>_. [EmailSent email name orderID oldStatus newStatus])"

definition CreateOrder ::
  "'db deps \<Rightarrow> OrderItem list \<Rightarrow> PayerInfo \<Rightarrow> string \<Rightarrow> ('db, mp_Order) io" where
  "CreateOrder D items payer ref =
     external (\<lambda>t. MP_CreateOrder D t items payer ref) (\<lambda>_. [MPOrderCreated items payer ref])"

definition mp_CancelOrder :: "'db deps \<Rightarrow> string \<Rightarrow> ('db, mp_Order) io" where
  "mp_CancelOrder D i = external (\<lambda>t. MP_CancelOrder D t i) (\<lambda>_. [MPOrderCanceled i])"

definition mp_RefundOrder :: "'db deps \<Rightarrow> string \<Rightarrow> ('db, mp_Order) io" where
  "mp_RefundOrder D i = external (\<lambda>t. MP_RefundOrder D t i) (\<lambda>_. [MPOrderRefunded i])"

definition GetPayment :: "'db deps \<Rightarrow> string \<Rightarrow> ('db, mp_Payment) io" where
  "GetPayment D i = external (\<lambda>t. MP_GetPayment D t i) (\<lambda>_. [])"

definition DeleteMessage :: "'db deps \<Rightarrow> string \<Rightarrow> ('db, unit) io" where
  "DeleteMessage D receipt = external (\<lambda>t. SQS_DeleteMessage D t receipt) (\<lambda>_. [MessageDeleted receipt])"

text \<open>\<^verbatim>\<open>vehicle_adapter.go\<close>: ownership is a second read of the vehicle and a comparison.\<close>

definition ValidateVehicleOwnership :: "'db deps \<Rightarrow> string \<Rightarrow> string \<Rightarrow> ('db, bool) io" where
  "ValidateVehicleOwnership D vehicleID customerID =
     bindE (GetVehicleByID D vehicleID) (\<lambda>vehicle. returnE (veh_CustomerID vehicle = customerID))"

lemmas call_defs [effect_defs] =
  Now_def NewV7_def history_Save_def history_FindByServiceOrderID_def PublishRequest_def
  GetCustomerByID_def GetVehicleByID_def GetProductByID_def GetServiceByID_def
  SendStatusUpdateEmail_def CreateOrder_def mp_CancelOrder_def mp_RefundOrder_def GetPayment_def
  DeleteMessage_def

lemmas repo_call_defs [effect_defs] =
  Save_def SaveWithItems_def FindByID_def FindByIDWithItems_def FindAllWithFilters_def
  FindByCustomerID_def FindBySagaStatus_def

subsection \<open>The methods that read the clock\<close>

definition UpdateStatusE :: "'db deps \<Rightarrow> OrderStatus \<Rightarrow> ServiceOrder \<Rightarrow> ('db, ServiceOrder) io" where
  "UpdateStatusE D t order =
     bindE (Now D) (\<lambda>n1. bindE (Now D) (\<lambda>n2. liftE (UpdateStatus n1 n2 t order)))"

definition StartSagaE ::
  "'db deps \<Rightarrow> string \<Rightarrow> OrderStatus \<Rightarrow> string option \<Rightarrow> ServiceOrder \<Rightarrow> ('db, ServiceOrder) io" where
  "StartSagaE D sagaID target sagaNotes order =
     bindE (Now D) (\<lambda>n. liftE (order_StartSaga n sagaID target sagaNotes order))"

definition CompleteSagaE :: "'db deps \<Rightarrow> ServiceOrder \<Rightarrow> ('db, ServiceOrder) io" where
  "CompleteSagaE D order = bindE (Now D) (\<lambda>n. returnE (CompleteSaga n order))"

definition FailSagaE :: "'db deps \<Rightarrow> ServiceOrder \<Rightarrow> ('db, ServiceOrder) io" where
  "FailSagaE D order = bindE (Now D) (\<lambda>n. returnE (FailSaga n order))"

definition AwaitPaymentE ::
  "'db deps \<Rightarrow> string \<Rightarrow> string \<Rightarrow> ServiceOrder \<Rightarrow> ('db, ServiceOrder) io" where
  "AwaitPaymentE D pref url order =
     bindE (Now D) (\<lambda>n1. bindE (Now D) (\<lambda>n2. bindE (Now D) (\<lambda>n3.
       liftE (AwaitPayment n1 n2 n3 pref url order))))"

definition ConfirmPaymentE :: "'db deps \<Rightarrow> string \<Rightarrow> ServiceOrder \<Rightarrow> ('db, ServiceOrder) io" where
  "ConfirmPaymentE D paymentID order =
     bindE (Now D) (\<lambda>n1. bindE (Now D) (\<lambda>n2. bindE (Now D) (\<lambda>n3.
       liftE (ConfirmPayment n1 n2 n3 paymentID order))))"

definition RejectPaymentE :: "'db deps \<Rightarrow> ServiceOrder \<Rightarrow> ('db, ServiceOrder) io" where
  "RejectPaymentE D order =
     bindE (Now D) (\<lambda>n1. bindE (Now D) (\<lambda>n2. bindE (Now D) (\<lambda>n3.
       liftE (RejectPayment n1 n2 n3 order))))"

definition CancelAfterRefundE :: "'db deps \<Rightarrow> ServiceOrder \<Rightarrow> ('db, ServiceOrder) io" where
  "CancelAfterRefundE D order =
     bindE (Now D) (\<lambda>n1. bindE (Now D) (\<lambda>n2. liftE (CancelAfterRefund n1 n2 order)))"

definition NewHistoryE ::
  "'db deps \<Rightarrow> string \<Rightarrow> metadata \<Rightarrow> OrderStatus \<Rightarrow> ('db, History) io" where
  "NewHistoryE D orderID metadata status =
     bindE (Now D) (\<lambda>n. liftE (NewHistory n orderID metadata status))"

lemmas clocked_defs [domain_defs] =
  UpdateStatusE_def StartSagaE_def CompleteSagaE_def FailSagaE_def AwaitPaymentE_def
  ConfirmPaymentE_def RejectPaymentE_def CancelAfterRefundE_def NewHistoryE_def

end
