(* ===== verification/Repository_Contract.thy ===== *)
theory Repository_Contract
  imports Ports
begin

text \<open>
  What the application relies on of its order repository, as the locale \<open>order_repository\<close>: a read
  returns the stored order and changes nothing, a save of an order that carries no other order's lines
  either replaces exactly that order or fails and changes nothing, a new order gets an unused
  identifier, and the two list queries are exact. \<open>service_env\<close> adds that the UUID generator makes canonical identifiers. The stored orders are
  seen through \<open>view\<close>: identifier to abstract order.

  The second half is the calculus in which every handler is shown to move the stored orders along the
  abstract machine of \<open>Order_View\<close> only.
\<close>

subsection \<open>Stored orders\<close>

text \<open>
  \<open>canon\<close> stands for parsing a UUID and printing it again: \<open>None\<close> for a string that is no UUID. The
  identifiers of an order go through it on the way to the database; an unparsable saga identifier is
  dropped, an empty saga status becomes \<^verbatim>\<open>IDLE\<close>.
\<close>

definition canonical :: "(string \<Rightarrow> string option) \<Rightarrow> string \<Rightarrow> string" where
  "canonical canon i = (case canon i of None \<Rightarrow> i | Some j \<Rightarrow> j)"

definition persist :: "(string \<Rightarrow> string option) \<Rightarrow> order_view \<Rightarrow> order_view" where
  "persist canon v =
     v\<lparr>v_customerID := canonical canon (v_customerID v),
       v_vehicleID := canonical canon (v_vehicleID v),
       v_sagaStatus := (if v_sagaStatus v = '''' then SagaStatusIdle else v_sagaStatus v),
       v_currentSagaID := Option.bind (v_currentSagaID v) canon,
       v_items := image_mset
         (\<lambda>i. i\<lparr>iv_referenceID := canonical canon (iv_referenceID i)\<rparr>) (v_items v)\<rparr>"

definition storable :: "ServiceOrder \<Rightarrow> bool" where
  "storable s \<longleftrightarrow> so_deletedAt s = None \<and> status_IsValid (so_status s) \<and>
     (\<forall>t. so_sagaTargetStatus s = Some t \<longrightarrow> status_IsValid t) \<and>
     (\<forall>i \<in> set (active (so_items s)). itemType_IsValid (item_itemType i))"

lemma storable_code [code]:
  "storable s \<longleftrightarrow> so_deletedAt s = None \<and> status_IsValid (so_status s) \<and>
     (case so_sagaTargetStatus s of None \<Rightarrow> True | Some t \<Rightarrow> status_IsValid t) \<and>
     (\<forall>i \<in> set (active (so_items s)). itemType_IsValid (item_itemType i))"
  by (simp add: storable_def split: option.split)

text \<open>An order as a read returns it: not deleted, its lines all active and told apart by identifiers.\<close>

definition loaded :: "ServiceOrder \<Rightarrow> bool" where
  "loaded s \<longleftrightarrow> storable s \<and> so_id s \<noteq> '''' \<and> so_customerID s \<noteq> '''' \<and> so_vehicleID s \<noteq> '''' \<and>
     so_sagaStatus s \<noteq> '''' \<and> active (so_items s) = so_items s \<and>
     distinct (map item_id (so_items s)) \<and> '''' \<notin> item_id ` set (so_items s)"

text \<open>
  A save gives an identifier to every line that has none. It is about the order's own lines only: the
  identifiers it carries are those of lines the stored order has, each once.
\<close>

definition numbered :: "ServiceOrder \<Rightarrow> ServiceOrder \<Rightarrow> bool" where
  "numbered s s' \<longleftrightarrow> (\<exists>ids. abs_order s' = (abs_order s)\<lparr>v_line_ids := ids\<rparr>) \<and>
     ('''' \<notin> item_id ` set (active (so_items s)) \<longrightarrow> abs_order s' = abs_order s)"

definition owns_lines :: "ServiceOrder \<Rightarrow> order_view option \<Rightarrow> bool" where
  "owns_lines s stored \<longleftrightarrow> distinct (line_ids (so_items s)) \<and>
     (\<exists>v. stored = Some v \<and> set (line_ids (so_items s)) \<subseteq> v_line_ids v)"

locale order_repository =
  fixes R :: "'db Repository"
    and canon :: "string \<Rightarrow> string option"
    and view :: "'db \<Rightarrow> string \<Rightarrow> order_view option"
  assumes canon_idem: "canon i = Some j \<Longrightarrow> canon j = Some j \<and> j \<noteq> ''''"
    and find_frame: "repo_FindByID R i db = (r, db') \<Longrightarrow> view db' = view db"
    and find_found: "repo_FindByID R i db = (Inr s, db') \<Longrightarrow>
      canon i = Some (so_id s) \<and> loaded s \<and> view db (so_id s) = Some (abs_order s)"
    and find_missing: "repo_FindByID R i db = (Inl ErrServiceOrderNotFound, db') \<Longrightarrow>
      canon i = Some j \<Longrightarrow> view db j = None"
    and find_with_items: "repo_FindByIDWithItems R = repo_FindByID R"
    and save_with_items: "repo_SaveWithItems R = repo_Save R"
    and save_fails: "repo_Save R s db = (Inl e, db') \<Longrightarrow> view db' = view db"
    and save_updates: "repo_Save R s db = (Inr s', db') \<Longrightarrow> canon (so_id s) = Some j \<Longrightarrow> storable s \<Longrightarrow>
      owns_lines s (view db j) \<Longrightarrow>
      so_id s' = so_id s \<and> numbered s s' \<and> view db' = (view db)(j \<mapsto> persist canon (abs_order s'))"
    and save_creates: "repo_Save R s db = (Inr s', db') \<Longrightarrow> so_id s = '''' \<Longrightarrow> storable s \<Longrightarrow>
      line_ids (so_items s) = [] \<Longrightarrow>
      canon (so_id s') = Some (so_id s') \<and> numbered s s' \<and> view db (so_id s') = None \<and>
      view db' = (view db)(so_id s' \<mapsto> persist canon (abs_order s'))"
    and save_parses: "repo_Save R s db = (Inr s', db') \<Longrightarrow>
      canon (so_customerID s) \<noteq> None \<and> canon (so_vehicleID s) \<noteq> None \<and>
      (\<forall>i \<in> set (so_items s). canon (item_referenceID i) \<noteq> None)"
    and stored_canonical: "view db j = Some v \<Longrightarrow> canon j = Some j \<and> persist canon v = v"
    and list_frame: "repo_FindBySagaStatus R st db = (rs, db') \<Longrightarrow> view db' = view db"
    and list_saga: "repo_FindBySagaStatus R st db = (Inr ss, db') \<Longrightarrow> st \<notin> {'''', SagaStatusIdle} \<Longrightarrow>
      distinct (map so_id ss) \<and> (\<forall>s \<in> set ss. loaded s) \<and>
      (\<forall>j v. (view db j = Some v \<and> v_sagaStatus v = st) \<longleftrightarrow>
             (\<exists>s \<in> set ss. so_id s = j \<and> abs_order s = v))"
    and customer_frame: "repo_FindByCustomerID R c db = (rs, db') \<Longrightarrow> view db' = view db"
    and list_customer: "repo_FindByCustomerID R c db = (Inr ss, db') \<Longrightarrow>
      distinct (map so_id ss) \<and> (\<forall>s \<in> set ss. loaded s) \<and>
      (\<forall>j v. (view db j = Some v \<and> Some (v_customerID v) = canon c) \<longleftrightarrow>
             (\<exists>s \<in> set ss. so_id s = j \<and> abs_order s = v))"
    and filters_frame: "repo_FindAllWithFilters R fs db = (rs, db') \<Longrightarrow> view db' = view db"

locale service_env = order_repository "orderRepo D" canon view
  for D :: "'db deps"
    and canon :: "string \<Rightarrow> string option"
    and view :: "'db \<Rightarrow> string \<Rightarrow> order_view option" +
  assumes uuid_canonical: "canon (uuid_NewV7 D t) = Some (uuid_NewV7 D t)"

lemma loaded_owns_lines: "loaded s \<Longrightarrow> V = Some (abs_order s) \<Longrightarrow> owns_lines s V"
  by (auto simp: owns_lines_def loaded_def line_ids_all)

lemma owns_lines_mono:
  "owns_lines s V \<Longrightarrow> line_ids (so_items s') = line_ids (so_items s) \<Longrightarrow> owns_lines s' V"
  by (simp add: owns_lines_def)

lemma numbered_eq: "numbered s s' \<Longrightarrow> '''' \<notin> item_id ` set (so_items s) \<Longrightarrow> abs_order s' = abs_order s"
  unfolding numbered_def by (auto simp: active_def)

text \<open>Apart from the identifiers of its lines a saved order is the order that was to be saved.\<close>

lemma numbered_view:
  assumes "numbered s s'"
  obtains ids where "abs_order s' = (abs_order s)\<lparr>v_line_ids := ids\<rparr>"
  using assms unfolding numbered_def by blast

subsection \<open>How stored orders may change\<close>

definition fresh_view :: "order_view \<Rightarrow> bool" where
  "fresh_view v \<longleftrightarrow> v_status v = StatusReceived \<and> v_sagaStatus v = SagaStatusIdle \<and>
     v_currentSagaID v = None \<and> v_sagaTargetStatus v = None \<and> v_sagaNotes v = None \<and>
     v_mpPreferenceID v = None \<and> v_mpPaymentID v = None \<and> v_paymentURL v = None \<and>
     v_items v = {#} \<and> v_line_ids v = {} \<and> \<not> v_closed v \<and> v_customerID v \<noteq> '''' \<and> v_vehicleID v \<noteq> ''''"

text \<open>
  An order that exists goes on existing and moves along the abstract machine; one that does not may
  appear as a new order followed by moves.
\<close>

definition order_evolves :: "order_view option \<Rightarrow> order_view option \<Rightarrow> bool" where
  "order_evolves a b \<longleftrightarrow>
     (case a of
        None \<Rightarrow> (\<forall>v. b = Some v \<longrightarrow> (\<exists>v0. fresh_view v0 \<and> order_steps v0 v))
      | Some v \<Rightarrow> (\<exists>v'. b = Some v' \<and> order_steps v v'))"

definition evolves ::
  "(string \<Rightarrow> order_view option) \<Rightarrow> (string \<Rightarrow> order_view option) \<Rightarrow> bool" where
  "evolves V V' \<longleftrightarrow> (\<forall>j. order_evolves (V j) (V' j))"

definition wf_store :: "(string \<Rightarrow> order_view option) \<Rightarrow> bool" where
  "wf_store V \<longleftrightarrow> (\<forall>j v. V j = Some v \<longrightarrow> view_wf v)"

lemma fresh_view_wf: "fresh_view v \<Longrightarrow> view_wf v"
  by (simp add: fresh_view_def view_wf_def closing_status_def)

lemma order_evolves_refl: "order_evolves a a"
proof (cases a)
  case None
  then show ?thesis by (simp add: order_evolves_def)
qed (simp add: order_evolves_def)

lemma order_evolves_trans:
  assumes "order_evolves a b" and "order_evolves b c"
  shows "order_evolves a c"
proof (cases b)
  case None
  with assms show ?thesis by (cases a) (auto simp: order_evolves_def)
next
  case (Some v)
  with assms(2) obtain v' where c: "c = Some v'" "order_steps v v'" by (auto simp: order_evolves_def)
  show ?thesis
  proof (cases a)
    case None
    with assms(1) Some obtain v0 where "fresh_view v0" "order_steps v0 v"
      by (auto simp: order_evolves_def)
    with c None show ?thesis by (auto simp: order_evolves_def intro: order_steps_trans)
  next
    case (Some u)
    with assms(1) \<open>b = Some v\<close> have "order_steps u v" by (simp add: order_evolves_def)
    with c Some show ?thesis by (auto simp: order_evolves_def intro: order_steps_trans)
  qed
qed

lemma evolves_refl [intro!, simp]: "evolves V V"
  by (simp add: evolves_def order_evolves_refl)

lemma evolves_trans: "evolves V V' \<Longrightarrow> evolves V' V'' \<Longrightarrow> evolves V V''"
  unfolding evolves_def by (blast intro: order_evolves_trans)

lemma evolves_update:
  assumes "V j = Some v" and "order_steps v v'"
  shows "evolves V (V(j \<mapsto> v'))"
  using assms by (simp add: evolves_def order_evolves_refl) (simp add: order_evolves_def)

lemma evolves_create:
  assumes "V j = None" and "fresh_view v0" and "order_steps v0 v"
  shows "evolves V (V(j \<mapsto> v))"
  using assms by (simp add: evolves_def order_evolves_refl) (auto simp: order_evolves_def)

lemma evolves_stored:
  "evolves V V' \<Longrightarrow> V j = Some v \<Longrightarrow> \<exists>v'. V' j = Some v' \<and> order_steps v v'"
  by (auto simp: evolves_def order_evolves_def dest!: spec [of _ j])

lemma evolves_wf:
  assumes "evolves V V'" and "wf_store V"
  shows "wf_store V'"
  unfolding wf_store_def
proof (intro allI impI)
  fix j v assume V': "V' j = Some v"
  have ev: "order_evolves (V j) (V' j)" using assms(1) by (simp add: evolves_def)
  show "view_wf v"
  proof (cases "V j")
    case None
    with ev V' obtain v0 where "fresh_view v0" "order_steps v0 v" by (auto simp: order_evolves_def)
    then show ?thesis using fresh_view_wf order_steps_wf by blast
  next
    case (Some u)
    with ev V' have "order_steps u v" by (auto simp: order_evolves_def)
    with assms(2) Some show ?thesis using order_steps_wf unfolding wf_store_def by blast
  qed
qed

subsection \<open>Persisting a view\<close>

lemma canonical_fixed: "canon i = Some i \<Longrightarrow> canonical canon i = i"
  by (simp add: canonical_def)

lemma persist_sel [simp]:
  "v_status (persist canon v) = v_status v"
  "v_sagaTargetStatus (persist canon v) = v_sagaTargetStatus v"
  "v_closed (persist canon v) = v_closed v"
  "v_mpPreferenceID (persist canon v) = v_mpPreferenceID v"
  "v_mpPaymentID (persist canon v) = v_mpPaymentID v"
  "v_paymentURL (persist canon v) = v_paymentURL v"
  by (simp_all add: persist_def)

text \<open>A view that is already persisted stays so when its status, its payment or its saga changes.\<close>

lemma persist_fixed_iff:
  "persist canon v = v \<longleftrightarrow>
     canonical canon (v_customerID v) = v_customerID v \<and>
     canonical canon (v_vehicleID v) = v_vehicleID v \<and> v_sagaStatus v \<noteq> '''' \<and>
     Option.bind (v_currentSagaID v) canon = v_currentSagaID v \<and>
     image_mset (\<lambda>i. i\<lparr>iv_referenceID := canonical canon (iv_referenceID i)\<rparr>) (v_items v) = v_items v"
  by (cases v) (auto simp: persist_def)

lemma persist_fixed_set_status: "persist canon v = v \<Longrightarrow> persist canon (v_set_status t v) = v_set_status t v"
  by (simp add: persist_fixed_iff v_set_status_def)

lemma persist_fixed_set_saga:
  "persist canon v = v \<Longrightarrow> st \<noteq> '''' \<Longrightarrow> Option.bind sid canon = sid \<Longrightarrow>
   persist canon (v_set_saga st sid t nts v) = v_set_saga st sid t nts v"
  by (simp add: persist_fixed_iff v_set_saga_def)

lemma persist_fixed_payment:
  "persist canon v = v \<Longrightarrow> persist canon (v\<lparr>v_mpPreferenceID := a, v_paymentURL := b\<rparr>) =
     v\<lparr>v_mpPreferenceID := a, v_paymentURL := b\<rparr>"
  "persist canon v = v \<Longrightarrow> persist canon (v\<lparr>v_mpPaymentID := c\<rparr>) = v\<lparr>v_mpPaymentID := c\<rparr>"
  by (simp_all add: persist_fixed_iff)

end
