(* ===== verification/Handler_Calculus.thy ===== *)
theory Handler_Calculus
  imports Repository_Contract
begin

text \<open>
  How the handlers are reasoned about. A program \<open>reads\<close> when it leaves the stored orders alone and
  its result satisfies a relation to them; it \<open>advances\<close> when it may change them, but only along the
  abstract machine. The order a handler works on is \<open>held\<close>: it is a stored order with some moves of
  the abstract machine applied to it and not yet saved. The rules are proved once, under the contract
  of the repository, and a handler's proof is the composition of the rules of its calls.
\<close>

definition reads ::
  "('db \<Rightarrow> string \<Rightarrow> order_view option) \<Rightarrow> ('db, 'a) io \<Rightarrow>
   ('a \<Rightarrow> (string \<Rightarrow> order_view option) \<Rightarrow> bool) \<Rightarrow> bool" where
  "reads view m Q \<longleftrightarrow>
     (\<forall>w r w'. m w = (r, w') \<longrightarrow>
        view (w_db w') = view (w_db w) \<and> (\<forall>x. r = Inr x \<longrightarrow> Q x (view (w_db w))))"

definition advances ::
  "('db \<Rightarrow> string \<Rightarrow> order_view option) \<Rightarrow> ((string \<Rightarrow> order_view option) \<Rightarrow> bool) \<Rightarrow>
   ('db, 'a) io \<Rightarrow> bool" where
  "advances view P m \<longleftrightarrow>
     (\<forall>w r w'. P (view (w_db w)) \<longrightarrow> m w = (r, w') \<longrightarrow> evolves (view (w_db w)) (view (w_db w')))"

definition held ::
  "(string \<Rightarrow> string option) \<Rightarrow> ServiceOrder \<Rightarrow> (string \<Rightarrow> order_view option) \<Rightarrow> bool" where
  "held canon s V \<longleftrightarrow>
     so_id s \<noteq> '''' \<and> canon (so_id s) = Some (so_id s) \<and> storable s \<and>
     persist canon (abs_order s) = abs_order s \<and> '''' \<notin> item_id ` set (so_items s) \<and>
     owns_lines s (V (so_id s)) \<and> (\<exists>v. V (so_id s) = Some v \<and> order_steps v (abs_order s))"

subsection \<open>Composition\<close>

lemma reads_run:
  assumes "reads view m Q" and "m w = (r, w')"
  shows "view (w_db w') = view (w_db w)" and "r = Inr x \<Longrightarrow> Q x (view (w_db w))"
  using assms unfolding reads_def by blast+

lemma reads_weaken: "reads view m Q \<Longrightarrow> (\<And>x V. Q x V \<Longrightarrow> Q' x V) \<Longrightarrow> reads view m Q'"
  unfolding reads_def by blast

lemma reads_Pair [simp]: "reads view (Pair r) (\<lambda>_ _. True)"
  by (simp add: reads_def)

lemma advances_Pair [simp]: "advances view P (Pair r)"
  by (simp add: advances_def)

lemma reads_returnE: "(\<And>V. Q x V) \<Longrightarrow> reads view (returnE x) Q"
  by (simp add: reads_def)

lemma reads_returnE_True [simp]: "reads view (returnE x) (\<lambda>_ _. True)"
  by (simp add: reads_def)

lemma reads_throwE: "reads view (throwE e) Q"
  by (simp add: reads_def)

lemma reads_liftE: "(\<And>x V. r = Inr x \<Longrightarrow> Q x V) \<Longrightarrow> reads view (liftE r) Q"
  by (auto simp: reads_def)

lemma reads_bindE:
  assumes "reads view m R" and "\<And>x. reads view (f x) (\<lambda>y V. R x V \<longrightarrow> Q y V)"
  shows "reads view (bindE m f) Q"
  unfolding reads_def
proof (intro allI impI)
  fix w r w' assume run: "bindE m f w = (r, w')"
  obtain r1 w1 where m: "m w = (r1, w1)" by force
  with assms(1) have v1: "view (w_db w1) = view (w_db w)" and R: "\<And>x. r1 = Inr x \<Longrightarrow> R x (view (w_db w))"
    unfolding reads_def by blast+
  show "view (w_db w') = view (w_db w) \<and> (\<forall>x. r = Inr x \<longrightarrow> Q x (view (w_db w)))"
  proof (cases r1)
    case (Inl e)
    with m run v1 show ?thesis by (auto simp: bindE_def)
  next
    case (Inr x)
    with m run have "f x w1 = (r, w')" by (simp add: bindE_def)
    with assms(2) [of x] v1 R [OF Inr] show ?thesis unfolding reads_def by metis
  qed
qed

lemma reads_external: "(\<And>x V. Q x V) \<Longrightarrow> reads view (external f ev) Q"
  by (auto simp: reads_def external_def split: sum.splits)

lemma reads_attemptE:
  assumes "reads view m (\<lambda>_ _. True)"
  shows "reads view (attemptE m) (\<lambda>_ _. True)"
  using assms unfolding reads_def attemptE_def by (auto split: prod.splits)

lemma reads_mapE:
  assumes "\<And>x. reads view (f x) (\<lambda>_ _. True)"
  shows "reads view (mapE f xs) (\<lambda>_ _. True)"
proof (induction xs)
  case Nil
  show ?case by (simp add: reads_returnE)
next
  case (Cons x xs)
  then show ?case by (auto intro!: reads_bindE [OF assms] reads_bindE [OF Cons.IH] reads_returnE
      intro: reads_weaken)
qed

lemma advances_weaken: "advances view P m \<Longrightarrow> (\<And>V. P' V \<Longrightarrow> P V) \<Longrightarrow> advances view P' m"
  unfolding advances_def by blast

lemma advances_returnE [simp, intro]: "advances view P (returnE x)"
  by (simp add: advances_def)

lemma advances_throwE [simp, intro]: "advances view P (throwE e)"
  by (simp add: advances_def)

lemma advances_liftE [simp, intro]: "advances view P (liftE r)"
  by (simp add: advances_def)

lemma advances_if:
  "(b \<Longrightarrow> advances view P m) \<Longrightarrow> (\<not> b \<Longrightarrow> advances view P n) \<Longrightarrow>
   advances view P (if b then m else n)"
  by simp

lemma reads_advances: "reads view m Q \<Longrightarrow> advances view P m"
  unfolding reads_def advances_def by (metis evolves_refl)

lemma advances_read:
  assumes "reads view m Q" and "\<And>x. advances view (\<lambda>V. P V \<and> Q x V) (f x)"
  shows "advances view P (bindE m f)"
  unfolding advances_def
proof (intro allI impI)
  fix w r w' assume P: "P (view (w_db w))" and run: "bindE m f w = (r, w')"
  obtain r1 w1 where m: "m w = (r1, w1)" by force
  with assms(1) have v1: "view (w_db w1) = view (w_db w)" and Q: "\<And>x. r1 = Inr x \<Longrightarrow> Q x (view (w_db w))"
    unfolding reads_def by blast+
  show "evolves (view (w_db w)) (view (w_db w'))"
  proof (cases r1)
    case (Inl e)
    with m run v1 show ?thesis by (auto simp: bindE_def)
  next
    case (Inr x)
    with m run have "f x w1 = (r, w')" by (simp add: bindE_def)
    with assms(2) [of x] P v1 Q [OF Inr] show ?thesis unfolding advances_def by metis
  qed
qed

lemma advances_skip:
  assumes "reads view m (\<lambda>_ _. True)" and "\<And>x. advances view P (f x)"
  shows "advances view P (bindE m f)"
  by (rule advances_read [OF assms(1)]) (simp add: assms(2))

lemma advances_then:
  assumes "advances view P m" and "\<And>x. advances view (\<lambda>_. True) (f x)"
  shows "advances view P (bindE m f)"
  unfolding advances_def
proof (intro allI impI)
  fix w r w' assume P: "P (view (w_db w))" and run: "bindE m f w = (r, w')"
  obtain r1 w1 where m: "m w = (r1, w1)" by force
  with assms(1) P have ev: "evolves (view (w_db w)) (view (w_db w1))" unfolding advances_def by blast
  show "evolves (view (w_db w)) (view (w_db w'))"
  proof (cases r1)
    case (Inl e)
    with m run ev show ?thesis by (simp add: bindE_def)
  next
    case (Inr x)
    with m run have "f x w1 = (r, w')" by (simp add: bindE_def)
    with assms(2) [of x] have "evolves (view (w_db w1)) (view (w_db w'))" unfolding advances_def by blast
    with ev show ?thesis by (rule evolves_trans)
  qed
qed

lemma advances_foreachE:
  assumes "\<And>x. advances view (\<lambda>_. True) (f x)"
  shows "advances view P (foreachE xs f)"
proof -
  have "advances view (\<lambda>_. True) (foreachE xs f)"
    by (induction xs) (auto intro: advances_then assms)
  then show ?thesis by (rule advances_weaken) simp
qed

lemma advances_attemptE:
  assumes "advances view P m"
  shows "advances view P (attemptE m)"
  using assms unfolding advances_def attemptE_def by (auto split: prod.splits)

subsection \<open>Calls that leave the stored orders alone\<close>

lemma reads_calls [intro, simp]:
  "reads view (Now D) (\<lambda>_ _. True)"
  "reads view (NewV7 D) (\<lambda>_ _. True)"
  "reads view (history_Save D h) (\<lambda>_ _. True)"
  "reads view (history_FindByServiceOrderID D i) (\<lambda>_ _. True)"
  "reads view (PublishRequest D a b c ds) (\<lambda>_ _. True)"
  "reads view (GetCustomerByID D i) (\<lambda>_ _. True)"
  "reads view (GetVehicleByID D i) (\<lambda>_ _. True)"
  "reads view (GetProductByID D i) (\<lambda>_ _. True)"
  "reads view (GetServiceByID D i) (\<lambda>_ _. True)"
  "reads view (SendStatusUpdateEmail D p q r s t) (\<lambda>_ _. True)"
  "reads view (CreateOrder D os py ref) (\<lambda>_ _. True)"
  "reads view (mp_CancelOrder D i) (\<lambda>_ _. True)"
  "reads view (mp_RefundOrder D i) (\<lambda>_ _. True)"
  "reads view (GetPayment D i) (\<lambda>_ _. True)"
  "reads view (NewHistoryE D i md st) (\<lambda>_ _. True)"
  "reads view (DeleteMessage D i) (\<lambda>_ _. True)"
  by (simp_all add: call_defs NewHistoryE_def reads_external)
    (auto intro!: reads_bindE reads_external reads_liftE)

lemma reads_ValidateVehicleOwnership [intro, simp]:
  "reads view (ValidateVehicleOwnership D a b) (\<lambda>_ _. True)"
  unfolding ValidateVehicleOwnership_def
  by (rule reads_bindE [OF reads_calls(7)]) (simp add: reads_returnE)

subsection \<open>The methods of the order\<close>

lemma held_step:
  assumes "held canon s V" and "so_id s' = so_id s" and "storable s'" and "so_items s' = so_items s"
    and "persist canon (abs_order s') = abs_order s'" and "order_steps (abs_order s) (abs_order s')"
  shows "held canon s' V"
  using assms unfolding held_def
  by (auto intro: owns_lines_mono order_steps_trans)

lemma storable_status:
  "storable s \<Longrightarrow> so_deletedAt s' = so_deletedAt s \<Longrightarrow> status_IsValid (so_status s') \<Longrightarrow>
   so_items s' = so_items s \<Longrightarrow> (\<And>t. so_sagaTargetStatus s' = Some t \<Longrightarrow> status_IsValid t) \<Longrightarrow> storable s'"
  by (simp add: storable_def)

lemma held_UpdateStatus:
  assumes h: "held canon s V" and u: "UpdateStatus n1 n2 t s = Inr s'" and t: "t \<noteq> StatusAwaitingPayment"
  shows "held canon s' V"
proof (rule held_step [OF h])
  note f = UpdateStatus_frame [OF u]
  show "so_id s' = so_id s" by (rule f(1))
  show "so_items s' = so_items s" by (rule f(4))
  have "storable s" using h by (simp add: held_def)
  then show "storable s'" using f CanTransitionTo_valid [OF f(11)]
    by (auto simp: storable_def)
  show "order_steps (abs_order s) (abs_order s')" by (rule order_steps_update_status [OF u t])
  show "persist canon (abs_order s') = abs_order s'"
    using h by (simp add: abs_UpdateStatus [OF u] held_def persist_fixed_set_status)
qed

lemma held_CompleteSaga: "held canon s V \<Longrightarrow> held canon (CompleteSaga n s) V"
  by (rule held_step)
    (auto simp: held_def storable_def persist_fixed_set_saga intro: order_steps_into order_step.end_saga)

lemma held_FailSaga: "held canon s V \<Longrightarrow> held canon (FailSaga n s) V"
  by (rule held_step)
    (auto simp: held_def storable_def persist_fixed_set_saga intro: order_steps_into order_step.fail_saga)

lemma held_StartSaga:
  assumes h: "held canon s V" and u: "order_StartSaga n sid t nts s = Inr s'"
    and "so_sagaStatus s \<noteq> SagaStatusAwaitingInventory" and "saga_target t" and "canon sid = Some sid"
  shows "held canon s' V"
proof (rule held_step [OF h])
  have s': "sid \<noteq> ''''" "abs_order s' =
      v_set_saga SagaStatusAwaitingInventory (Some sid) (Some t) nts (abs_order s)"
    using u abs_order_StartSaga [OF u] by (simp_all add: order_StartSaga_Inr_iff)
  show "so_id s' = so_id s" "so_items s' = so_items s" using u by (auto simp: order_StartSaga_Inr_iff)
  show "storable s'" using h u by (auto simp: order_StartSaga_Inr_iff held_def storable_def)
  show "order_steps (abs_order s) (abs_order s')"
    unfolding s'(2) using assms(3,4) s'(1) by (intro order_steps_into order_step.begin_saga) simp_all
  show "persist canon (abs_order s') = abs_order s'"
    unfolding s'(2) using h assms(5) by (intro persist_fixed_set_saga) (simp_all add: held_def)
qed

lemma held_AwaitPayment:
  assumes h: "held canon s V" and u: "AwaitPayment n1 n2 n3 pref url s = Inr s'"
  shows "held canon s' V"
proof (rule held_step [OF h])
  note f = AwaitPayment_Inr [OF u]
  show "so_id s' = so_id s" by (rule f(5))
  show "so_items s' = so_items s" by (rule f(8))
  have "storable s" using h by (simp add: held_def)
  then show "storable s'" using u by (auto simp: storable_def AwaitPayment_def UpdateStatus_Inr_iff
        split: if_splits sum.splits)
  show "order_steps (abs_order s) (abs_order s')" by (rule order_steps_await_payment [OF u])
  show "persist canon (abs_order s') = abs_order s'"
    unfolding f(4) using h
    by (intro persist_fixed_set_saga persist_fixed_set_status persist_fixed_payment(1))
      (simp_all add: held_def)
qed

lemma held_ConfirmPayment:
  assumes h: "held canon s V" and u: "ConfirmPayment n1 n2 n3 pay s = Inr s'"
  shows "held canon s' V"
proof (rule held_step [OF h])
  note f = ConfirmPayment_Inr [OF u]
  show "so_id s' = so_id s" by (rule f(4))
  show "so_items s' = so_items s" by (rule f(7))
  have "storable s" using h by (simp add: held_def)
  then show "storable s'" using u by (auto simp: storable_def ConfirmPayment_def UpdateStatus_Inr_iff
        split: if_splits sum.splits)
  show "order_steps (abs_order s) (abs_order s')" by (rule order_steps_confirm [OF u])
  show "persist canon (abs_order s') = abs_order s'"
    unfolding f(3) using h
    by (intro persist_fixed_set_saga persist_fixed_set_status persist_fixed_payment(2))
      (simp_all add: held_def)
qed

lemma held_RejectPayment:
  assumes h: "held canon s V" and u: "RejectPayment n1 n2 n3 s = Inr s'"
  shows "held canon s' V"
proof (rule held_step [OF h])
  note f = RejectPayment_Inr [OF u]
  show "so_id s' = so_id s" by (rule f(3))
  show "so_items s' = so_items s" by (rule f(6))
  have "storable s" using h by (simp add: held_def)
  then show "storable s'" using u by (auto simp: storable_def RejectPayment_def UpdateStatus_Inr_iff
        split: if_splits sum.splits)
  show "order_steps (abs_order s) (abs_order s')" by (rule order_steps_reject [OF u])
  show "persist canon (abs_order s') = abs_order s'"
    unfolding f(2) using h by (intro persist_fixed_set_saga persist_fixed_set_status)
      (simp_all add: held_def)
qed

text \<open>The same, for the methods with their readings of the clock.\<close>

lemma reads_Now_bind: "(\<And>n. reads view (f n) Q) \<Longrightarrow> reads view (bindE (Now D) f) Q"
  by (rule reads_bindE [OF reads_calls(1)]) simp

lemma reads_liftE_method:
  assumes "\<And>s' V. r = Inr s' \<Longrightarrow> held canon s V \<Longrightarrow> held canon s' V"
  shows "reads view (liftE r) (\<lambda>s' V. held canon s V \<longrightarrow> held canon s' V)"
  using assms by (intro reads_liftE) blast

lemma reads_UpdateStatusE:
  "t \<noteq> StatusAwaitingPayment \<Longrightarrow>
   reads view (UpdateStatusE D t s) (\<lambda>s' V. held canon s V \<longrightarrow> held canon s' V)"
  unfolding UpdateStatusE_def by (intro reads_Now_bind reads_liftE_method) (rule held_UpdateStatus)

lemma reads_CompleteSagaE:
  "reads view (CompleteSagaE D s) (\<lambda>s' V. held canon s V \<longrightarrow> held canon s' V)"
  unfolding CompleteSagaE_def by (intro reads_Now_bind reads_returnE impI) (rule held_CompleteSaga)

lemma reads_FailSagaE:
  "reads view (FailSagaE D s) (\<lambda>s' V. held canon s V \<longrightarrow> held canon s' V)"
  unfolding FailSagaE_def by (intro reads_Now_bind reads_returnE impI) (rule held_FailSaga)

lemma reads_AwaitPaymentE:
  "reads view (AwaitPaymentE D pref url s) (\<lambda>s' V. held canon s V \<longrightarrow> held canon s' V)"
  unfolding AwaitPaymentE_def by (intro reads_Now_bind reads_liftE_method) (rule held_AwaitPayment)

lemma reads_ConfirmPaymentE:
  "reads view (ConfirmPaymentE D pay s) (\<lambda>s' V. held canon s V \<longrightarrow> held canon s' V)"
  unfolding ConfirmPaymentE_def by (intro reads_Now_bind reads_liftE_method) (rule held_ConfirmPayment)

lemma reads_RejectPaymentE:
  "reads view (RejectPaymentE D s) (\<lambda>s' V. held canon s V \<longrightarrow> held canon s' V)"
  unfolding RejectPaymentE_def by (intro reads_Now_bind reads_liftE_method) (rule held_RejectPayment)

lemma held_CancelAfterRefund:
  "CancelAfterRefund n1 n2 s = Inr s' \<Longrightarrow> held canon s V \<Longrightarrow> held canon s' V"
  by (rule held_UpdateStatus [OF _ CancelAfterRefund_Inr(2)]) simp_all

lemma reads_CancelAfterRefundE:
  "reads view (CancelAfterRefundE D s) (\<lambda>s' V. held canon s V \<longrightarrow> held canon s' V)"
  unfolding CancelAfterRefundE_def
  by (intro reads_Now_bind reads_liftE_method) (rule held_CancelAfterRefund)

lemma reads_StartSagaE:
  "so_sagaStatus s \<noteq> SagaStatusAwaitingInventory \<Longrightarrow> saga_target t \<Longrightarrow> canon sid = Some sid \<Longrightarrow>
   reads view (StartSagaE D sid t nts s) (\<lambda>s' V. held canon s V \<longrightarrow> held canon s' V)"
  unfolding StartSagaE_def by (intro reads_Now_bind reads_liftE_method) (rule held_StartSaga)

lemmas reads_methods = reads_UpdateStatusE reads_CompleteSagaE reads_FailSagaE reads_AwaitPaymentE
  reads_ConfirmPaymentE reads_RejectPaymentE reads_CancelAfterRefundE reads_StartSagaE

lemma advances_method:
  assumes "reads view m (\<lambda>s' V. held canon s V \<longrightarrow> held canon s' V)"
    and "\<And>s'. advances view (held canon s') (f s')"
  shows "advances view (held canon s) (bindE m f)"
  by (rule advances_read [OF assms(1)]) (rule advances_weaken [OF assms(2)], blast)

subsection \<open>The repository\<close>

context service_env
begin

lemma reads_FindByID:
  "reads view (FindByID D i) (\<lambda>s V. held canon s V \<and> loaded s \<and> V (so_id s) = Some (abs_order s) \<and>
     canon i = Some (so_id s))"
  unfolding reads_def FindByID_def on_db_def
proof (intro allI impI)
  fix w :: "'db world" and r w'
  assume "(case repo_FindByID (orderRepo D) i (w_db w) of (r, db) \<Rightarrow> (r, w\<lparr>w_db := db\<rparr>)) = (r, w')"
  then obtain db where f: "repo_FindByID (orderRepo D) i (w_db w) = (r, db)" and w': "w' = w\<lparr>w_db := db\<rparr>"
    by (auto split: prod.splits)
  have "held canon s (view (w_db w)) \<and> loaded s \<and> view (w_db w) (so_id s) = Some (abs_order s) \<and>
      canon i = Some (so_id s)" if "r = Inr s" for s
    using find_found [of i "w_db w" s db] f that stored_canonical [of "w_db w" "so_id s"]
    loaded_owns_lines [of s] by (auto simp: held_def loaded_def)
  then show "view (w_db w') = view (w_db w) \<and> (\<forall>x. r = Inr x \<longrightarrow>
      held canon x (view (w_db w)) \<and> loaded x \<and> view (w_db w) (so_id x) = Some (abs_order x) \<and>
      canon i = Some (so_id x))"
    using find_frame [OF f] w' by simp
qed

lemma FindByIDWithItems_eq: "FindByIDWithItems D = FindByID D"
  by (intro ext) (simp add: FindByIDWithItems_def FindByID_def find_with_items)

lemma SaveWithItems_eq: "SaveWithItems D = Save D"
  by (intro ext) (simp add: SaveWithItems_def Save_def save_with_items)

lemma advances_find:
  assumes "\<And>s. canon i = Some (so_id s) \<Longrightarrow> loaded s \<Longrightarrow>
      advances view (\<lambda>V. held canon s V \<and> V (so_id s) = Some (abs_order s)) (f s)"
  shows "advances view P (bindE (FindByID D i) f)"
proof (rule advances_read [OF reads_FindByID])
  fix s
  show "advances view (\<lambda>V. P V \<and> held canon s V \<and> loaded s \<and> V (so_id s) = Some (abs_order s) \<and>
      canon i = Some (so_id s)) (f s)"
  proof (cases "canon i = Some (so_id s) \<and> loaded s")
    case True
    then show ?thesis by (intro advances_weaken [OF assms [of s]]) simp_all
  next
    case False
    then show ?thesis by (auto simp: advances_def)
  qed
qed

lemma advances_find_stored:
  assumes "\<And>s. loaded s \<Longrightarrow> \<exists>V. P V \<and> V (so_id s) = Some (abs_order s) \<Longrightarrow>
      advances view (held canon s) (f s)"
  shows "advances view P (bindE (FindByID D i) f)"
proof (rule advances_read [OF reads_FindByID])
  fix s
  show "advances view (\<lambda>V. P V \<and> held canon s V \<and> loaded s \<and> V (so_id s) = Some (abs_order s) \<and>
      canon i = Some (so_id s)) (f s)"
  proof (cases "loaded s \<and> (\<exists>V. P V \<and> V (so_id s) = Some (abs_order s))")
    case True
    then show ?thesis by (intro advances_weaken [OF assms [of s]]) auto
  next
    case False
    then show ?thesis by (auto simp: advances_def)
  qed
qed

lemma advances_find_held:
  assumes "\<And>s. canon i = Some (so_id s) \<Longrightarrow> loaded s \<Longrightarrow> advances view (held canon s) (f s)"
  shows "advances view P (bindE (FindByID D i) f)"
  by (rule advances_find) (rule advances_weaken [OF assms], blast+)

lemma Save_cases:
  assumes "Save D s w = (r, w')"
  obtains db where "repo_Save (orderRepo D) s (w_db w) = (r, db)" and "w' = w\<lparr>w_db := db\<rparr>"
  using assms by (auto simp: Save_def on_db_def split: prod.splits)

text \<open>Saving an order that has an identifier replaces the stored order by the persisted one.\<close>

lemma advances_Save_persist:
  assumes "\<And>V. P V \<Longrightarrow> canon (so_id s) = Some (so_id s) \<and> storable s \<and> owns_lines s (V (so_id s))"
    and "\<And>V s'. P V \<Longrightarrow> save_parsed \<Longrightarrow> numbered s s' \<Longrightarrow>
      \<exists>v. V (so_id s) = Some v \<and> order_steps v (persist canon (abs_order s'))"
    and "save_parsed \<longleftrightarrow> canon (so_customerID s) \<noteq> None \<and> canon (so_vehicleID s) \<noteq> None \<and>
      (\<forall>i \<in> set (so_items s). canon (item_referenceID i) \<noteq> None)"
  shows "advances view P (Save D s)"
  unfolding advances_def
proof (intro allI impI)
  fix w r w' assume P: "P (view (w_db w))" and run: "Save D s w = (r, w')"
  from run obtain db where f: "repo_Save (orderRepo D) s (w_db w) = (r, db)" and w': "w' = w\<lparr>w_db := db\<rparr>"
    by (rule Save_cases)
  show "evolves (view (w_db w)) (view (w_db w'))"
  proof (cases r)
    case (Inl e)
    with save_fails f w' show ?thesis by simp
  next
    case (Inr s')
    note f' = f [unfolded Inr]
    from save_parses [OF f'] assms(3) have save_parsed by simp
    have n: "numbered s s'" and v': "view db = (view (w_db w))(so_id s \<mapsto> persist canon (abs_order s'))"
      using save_updates [OF f'] assms(1) [OF P] by auto
    from assms(2) [OF P \<open>save_parsed\<close> n] obtain v where "view (w_db w) (so_id s) = Some v"
      "order_steps v (persist canon (abs_order s'))" by blast
    with v' w' show ?thesis by (simp add: evolves_update)
  qed
qed

lemma advances_Save: "advances view (held canon s) (Save D s)"
  by (rule advances_Save_persist [of _ _ "canon (so_customerID s) \<noteq> None \<and> canon (so_vehicleID s) \<noteq> None \<and>
      (\<forall>i \<in> set (so_items s). canon (item_referenceID i) \<noteq> None)"]) (auto simp: held_def numbered_eq)

end

end
