(* ===== verification/Execution.thy ===== *)
theory Execution
  imports Handler_Calculus
begin

text \<open>
  What is known after a call has returned: one inversion lemma per call of \<open>Ports\<close>, giving the stored
  orders and the log after it in terms of those before it. The exact theorems about the handlers are
  read off the sequence of their calls with these.
\<close>

subsection \<open>Parts of the log\<close>

definition requests :: "logged list \<Rightarrow> (string \<times> string \<times> StockOperationType \<times> InventoryItem list) list"
where
  "requests l = concat (map (\<lambda>e. case e of InventoryRequested a b c d \<Rightarrow> [(a, b, c, d)] | _ \<Rightarrow> []) l)"

definition histories :: "logged list \<Rightarrow> History list" where
  "histories l = concat (map (\<lambda>e. case e of HistorySaved h \<Rightarrow> [h] | _ \<Rightarrow> []) l)"

text \<open>The calls that move money at Mercado Pago.\<close>

definition mp_calls :: "logged list \<Rightarrow> logged list" where
  "mp_calls l = filter (\<lambda>e. case e of MPOrderCreated _ _ _ \<Rightarrow> True | MPOrderCanceled _ \<Rightarrow> True
                              | MPOrderRefunded _ \<Rightarrow> True | _ \<Rightarrow> False) l"

lemma log_parts_simps [simp]:
  "requests [] = []" "histories [] = []" "mp_calls [] = []"
  "requests (xs @ ys) = requests xs @ requests ys"
  "histories (xs @ ys) = histories xs @ histories ys"
  "mp_calls (xs @ ys) = mp_calls xs @ mp_calls ys"
  "requests (InventoryRequested a b c d # l) = (a, b, c, d) # requests l"
  "histories (InventoryRequested a b c d # l) = histories l"
  "mp_calls (InventoryRequested a b c d # l) = mp_calls l"
  "requests (HistorySaved h # l) = requests l"
  "histories (HistorySaved h # l) = h # histories l"
  "mp_calls (HistorySaved h # l) = mp_calls l"
  "requests (EmailSent p q r s t # l) = requests l"
  "histories (EmailSent p q r s t # l) = histories l"
  "mp_calls (EmailSent p q r s t # l) = mp_calls l"
  "requests (MPOrderCreated os py ref # l) = requests l"
  "histories (MPOrderCreated os py ref # l) = histories l"
  "mp_calls (MPOrderCreated os py ref # l) = MPOrderCreated os py ref # mp_calls l"
  "requests (MPOrderCanceled i # l) = requests l"
  "histories (MPOrderCanceled i # l) = histories l"
  "mp_calls (MPOrderCanceled i # l) = MPOrderCanceled i # mp_calls l"
  "requests (MPOrderRefunded i # l) = requests l"
  "histories (MPOrderRefunded i # l) = histories l"
  "mp_calls (MPOrderRefunded i # l) = MPOrderRefunded i # mp_calls l"
  "requests (MessageDeleted i # l) = requests l"
  "histories (MessageDeleted i # l) = histories l"
  "mp_calls (MessageDeleted i # l) = mp_calls l"
  by (simp_all add: requests_def histories_def mp_calls_def)

subsection \<open>Calls to the outside\<close>

lemma external_Inr:
  "external f ev w = (Inr x, w') \<longleftrightarrow>
     f (w_tick w) = Inr x \<and> w' = w\<lparr>w_log := w_log w @ ev x, w_tick := Suc (w_tick w)\<rparr>"
  by (auto simp: external_def split: sum.splits)

lemma external_Inl:
  "external f ev w = (Inl e, w') \<longleftrightarrow> f (w_tick w) = Inl e \<and> w' = w\<lparr>w_tick := Suc (w_tick w)\<rparr>"
  by (auto simp: external_def split: sum.splits)

text \<open>A step that changes neither the database nor the log.\<close>

definition quiet :: "'db world \<Rightarrow> 'db world \<Rightarrow> bool" where
  "quiet w w' \<longleftrightarrow> w_db w' = w_db w \<and> w_log w' = w_log w"

lemma quiet_refl [simp]: "quiet w w"
  by (simp add: quiet_def)

lemma quiet_trans: "quiet w w1 \<Longrightarrow> quiet w1 w2 \<Longrightarrow> quiet w w2"
  by (simp add: quiet_def)

lemma Now_run: "Now D w = (r, w') \<longleftrightarrow> r = Inr (time_Now D (w_tick w)) \<and> w' = w\<lparr>w_tick := Suc (w_tick w)\<rparr>"
  by (auto simp: Now_def external_def)

lemma NewV7_run: "NewV7 D w = (r, w') \<longleftrightarrow> r = Inr (uuid_NewV7 D (w_tick w)) \<and> w' = w\<lparr>w_tick := Suc (w_tick w)\<rparr>"
  by (auto simp: NewV7_def external_def)

lemma clock_bind: "bindE (Now D) f w = f (time_Now D (w_tick w)) (w\<lparr>w_tick := Suc (w_tick w)\<rparr>)"
  by (simp add: bindE_def Now_def external_def)

lemma quiet_tick: "quiet (w\<lparr>w_tick := t\<rparr>) w' \<longleftrightarrow> quiet w w'"
  by (simp add: quiet_def)

lemma quiet_tick_refl: "quiet w (w\<lparr>w_tick := t\<rparr>)"
  by (simp add: quiet_def)

lemma UpdateStatusE_run:
  "UpdateStatusE D t s w = (r, w') \<Longrightarrow> quiet w w' \<and> (\<exists>n1 n2. UpdateStatus n1 n2 t s = r)"
  by (auto simp: UpdateStatusE_def clock_bind quiet_def)

lemma CompleteSagaE_run:
  "CompleteSagaE D s w = (r, w') \<Longrightarrow> quiet w w' \<and> (\<exists>n. r = Inr (CompleteSaga n s))"
  by (auto simp: CompleteSagaE_def clock_bind quiet_def)

lemma FailSagaE_run:
  "FailSagaE D s w = (r, w') \<Longrightarrow> quiet w w' \<and> (\<exists>n. r = Inr (FailSaga n s))"
  by (auto simp: FailSagaE_def clock_bind quiet_def)

lemma StartSagaE_run:
  "StartSagaE D sid t nts s w = (r, w') \<Longrightarrow> quiet w w' \<and> (\<exists>n. order_StartSaga n sid t nts s = r)"
  by (auto simp: StartSagaE_def clock_bind quiet_def)

lemma AwaitPaymentE_run:
  "AwaitPaymentE D p u s w = (r, w') \<Longrightarrow> quiet w w' \<and> (\<exists>n1 n2 n3. AwaitPayment n1 n2 n3 p u s = r)"
  by (auto simp: AwaitPaymentE_def clock_bind quiet_def)

lemma ConfirmPaymentE_run:
  "ConfirmPaymentE D p s w = (r, w') \<Longrightarrow> quiet w w' \<and> (\<exists>n1 n2 n3. ConfirmPayment n1 n2 n3 p s = r)"
  by (auto simp: ConfirmPaymentE_def clock_bind quiet_def)

lemma RejectPaymentE_run:
  "RejectPaymentE D s w = (r, w') \<Longrightarrow> quiet w w' \<and> (\<exists>n1 n2 n3. RejectPayment n1 n2 n3 s = r)"
  by (auto simp: RejectPaymentE_def clock_bind quiet_def)

lemma CancelAfterRefundE_run:
  "CancelAfterRefundE D s w = (r, w') \<Longrightarrow> quiet w w' \<and> (\<exists>n1 n2. CancelAfterRefund n1 n2 s = r)"
  by (auto simp: CancelAfterRefundE_def clock_bind quiet_def)

lemma NewHistoryE_run:
  "NewHistoryE D i md st w = (r, w') \<Longrightarrow> quiet w w' \<and> (\<exists>n. NewHistory n i md st = r)"
  by (auto simp: NewHistoryE_def clock_bind quiet_def)

lemma NewHistory_Inr_iff:
  "NewHistory n i md st = Inr h \<longleftrightarrow>
     i \<noteq> '''' \<and> h = \<lparr>h_id = '''', h_serviceOrderID = i, h_metadata = md, h_status = st, h_createdAt = n\<rparr>"
  by (auto simp: NewHistory_def)

lemma history_Save_run:
  "history_Save D h w = (Inr i, w') \<Longrightarrow>
   w_db w' = w_db w \<and> w_log w' = w_log w @ [HistorySaved (h\<lparr>h_id := i\<rparr>)]"
  by (auto simp: history_Save_def external_Inr)

lemma PublishRequest_run:
  "PublishRequest D a b c d w = (Inr u, w') \<Longrightarrow>
   w_db w' = w_db w \<and> w_log w' = w_log w @ [InventoryRequested a b c d]"
  by (auto simp: PublishRequest_def external_Inr)

lemma GetCustomerByID_run: "GetCustomerByID D i w = (r, w') \<Longrightarrow> quiet w w'"
  by (auto simp: GetCustomerByID_def external_def quiet_def split: sum.splits)

lemma lookups_run:
  "GetVehicleByID D i w = (rv, w') \<Longrightarrow> quiet w w'"
  "GetProductByID D i w = (rp, w') \<Longrightarrow> quiet w w'"
  "GetServiceByID D i w = (rs, w') \<Longrightarrow> quiet w w'"
  "GetPayment D i w = (rm, w') \<Longrightarrow> quiet w w'"
  by (auto simp: GetVehicleByID_def GetProductByID_def GetServiceByID_def GetPayment_def
      external_def quiet_def split: sum.splits)

lemma CreateOrder_run:
  "CreateOrder D os py ref w = (Inr x, w') \<Longrightarrow>
   w_db w' = w_db w \<and> w_log w' = w_log w @ [MPOrderCreated os py ref]"
  by (auto simp: CreateOrder_def external_Inr)

lemma mp_RefundOrder_run:
  "mp_RefundOrder D i w = (Inr x, w') \<Longrightarrow>
   w_db w' = w_db w \<and> w_log w' = w_log w @ [MPOrderRefunded i]"
  by (auto simp: mp_RefundOrder_def external_Inr)

lemma mp_CancelOrder_run:
  "mp_CancelOrder D i w = (r, w') \<Longrightarrow>
   w_db w' = w_db w \<and> w_log w' = w_log w @ (case r of Inl _ \<Rightarrow> [] | Inr _ \<Rightarrow> [MPOrderCanceled i])"
  by (auto simp: mp_CancelOrder_def external_def split: sum.splits)

lemma DeleteMessage_run:
  "DeleteMessage D i w = (r, w') \<Longrightarrow>
   w_db w' = w_db w \<and> w_log w' = w_log w @ (case r of Inl _ \<Rightarrow> [] | Inr _ \<Rightarrow> [MessageDeleted i])"
  by (auto simp: DeleteMessage_def external_def split: sum.splits)

subsection \<open>The repository\<close>

context service_env
begin

lemma FindByID_run:
  assumes "FindByID D i w = (r, w')"
  shows "view (w_db w') = view (w_db w)" and "w_log w' = w_log w"
    and "r = Inr s \<Longrightarrow> canon i = Some (so_id s)"
    and "r = Inr s \<Longrightarrow> loaded s"
    and "r = Inr s \<Longrightarrow> view (w_db w) (so_id s) = Some (abs_order s)"
    and "r = Inr s \<Longrightarrow> held canon s (view (w_db w))"
  using reads_FindByID [of i] assms unfolding reads_def
  by (blast, auto simp: FindByID_def on_db_def split: prod.splits)

lemma Save_run:
  assumes "Save D s w = (Inr s', w')" and "canon (so_id s) = Some (so_id s)" and "storable s"
    and "owns_lines s (view (w_db w) (so_id s))"
  shows "view (w_db w') = (view (w_db w))(so_id s \<mapsto> persist canon (abs_order s'))" and "w_log w' = w_log w"
    and "so_id s' = so_id s" and "numbered s s'"
proof -
  from assms(1) obtain db where f: "repo_Save (orderRepo D) s (w_db w) = (Inr s', db)"
    and w': "w' = w\<lparr>w_db := db\<rparr>" by (rule Save_cases)
  from save_updates [OF f assms(2,3,4)] w'
  show "view (w_db w') = (view (w_db w))(so_id s \<mapsto> persist canon (abs_order s'))" and "w_log w' = w_log w"
    and "so_id s' = so_id s" and "numbered s s'" by auto
qed

lemma Save_failed:
  assumes "Save D s w = (Inl e, w')"
  shows "view (w_db w') = view (w_db w)" and "w_log w' = w_log w"
  using assms save_fails by (auto elim!: Save_cases)

lemma Save_held:
  assumes "Save D s w = (Inr s', w')" and "held canon s (view (w_db w))"
  shows "view (w_db w') = (view (w_db w))(so_id s \<mapsto> abs_order s)" and "w_log w' = w_log w"
    and "so_id s' = so_id s" and "abs_order s' = abs_order s"
  using Save_run [OF assms(1)] assms(2) by (auto simp: held_def numbered_eq)

end

end
