(* ===== verification/Memory_Repository.thy ===== *)
theory Memory_Repository
  imports Execution
begin

text \<open>
  A repository that keeps the orders in a list, in the style of the fakes of the repository's tests:
  the concrete function with which the parameter of the model is instantiated where a property is
  applied to an input. Identifiers are the non-empty strings; a save that could not be read back is
  refused, as the database's constraints do.
\<close>

type_synonym mem_db = "(string \<times> ServiceOrder) list"

definition mem_canon :: "string \<Rightarrow> string option" where
  "mem_canon i = (if i = '''' then None else Some i)"

definition mem_readable :: "string \<Rightarrow> ServiceOrder \<Rightarrow> bool" where
  "mem_readable j s \<longleftrightarrow> loaded s \<and> so_id s = j \<and> so_currentSagaID s \<noteq> Some ''''"

definition mem_lookup :: "mem_db \<Rightarrow> string \<Rightarrow> ServiceOrder option" where
  "mem_lookup db j =
     (case map_of db j of Some s \<Rightarrow> if mem_readable j s then Some s else None | None \<Rightarrow> None)"

definition mem_view :: "mem_db \<Rightarrow> string \<Rightarrow> order_view option" where
  "mem_view db j = map_option abs_order (mem_lookup db j)"

definition mem_fresh :: "mem_db \<Rightarrow> string" where
  "mem_fresh db = concat (map fst db) @ ''n''"

fun mem_number :: "string \<Rightarrow> ServiceOrderItem list \<Rightarrow> ServiceOrderItem list" where
  "mem_number n [] = []"
| "mem_number n (i # is) =
     (if item_id i = '''' then i\<lparr>item_id := n\<rparr> # mem_number (CHR ''i'' # n) is else i # mem_number n is)"

definition mem_saved :: "string \<Rightarrow> ServiceOrder \<Rightarrow> ServiceOrder" where
  "mem_saved i s =
     s\<lparr>so_id := i, so_items := mem_number (concat (line_ids (so_items s)) @ ''i'') (so_items s)\<rparr>"

definition mem_stored :: "ServiceOrder \<Rightarrow> ServiceOrder" where
  "mem_stored s =
     s\<lparr>so_sagaStatus := (if so_sagaStatus s = '''' then SagaStatusIdle else so_sagaStatus s),
       so_currentSagaID := (if so_currentSagaID s = Some '''' then None else so_currentSagaID s),
       so_items := active (so_items s)\<rparr>"

definition mem_Save :: "ServiceOrder \<Rightarrow> mem_db \<Rightarrow> (error + ServiceOrder) \<times> mem_db" where
  "mem_Save s db =
     (if storable s \<and> so_customerID s \<noteq> '''' \<and> so_vehicleID s \<noteq> '''' \<and>
         (\<forall>i \<in> set (so_items s). item_referenceID i \<noteq> '''')
      then let i = (if so_id s = '''' then mem_fresh db else so_id s); s' = mem_saved i s
           in (Inr s', (i, mem_stored s') # db)
      else (Inl (ErrorString ''constraint violated''), db))"

definition mem_FindByID :: "string \<Rightarrow> mem_db \<Rightarrow> (error + ServiceOrder) \<times> mem_db" where
  "mem_FindByID i db =
     (if i = '''' then (Inl (ErrorString ''invalid UUID''), db)
      else case mem_lookup db i of
             None \<Rightarrow> (Inl ErrServiceOrderNotFound, db)
           | Some s \<Rightarrow> (Inr s, db))"

definition mem_all :: "mem_db \<Rightarrow> ServiceOrder list" where
  "mem_all db = concat (map (\<lambda>j. case mem_lookup db j of None \<Rightarrow> [] | Some s \<Rightarrow> [s])
                          (remdups (map fst db)))"

definition mem_repo :: "mem_db Repository" where
  "mem_repo =
     \<lparr>repo_Save = mem_Save, repo_SaveWithItems = mem_Save,
      repo_FindByID = mem_FindByID, repo_FindByIDWithItems = mem_FindByID,
      repo_FindAllWithFilters = (\<lambda>fs db. (Inr (mem_all db), db)),
      repo_FindByCustomerID = (\<lambda>c db.
        if c = '''' then (Inl (ErrorString ''invalid customer UUID''), db)
        else (Inr (filter (\<lambda>s. so_customerID s = c) (mem_all db)), db)),
      repo_FindBySagaStatus = (\<lambda>st db. (Inr (filter (\<lambda>s. so_sagaStatus s = st) (mem_all db)), db))\<rparr>"

subsection \<open>The contract holds\<close>

lemma canonical_mem [simp]: "canonical mem_canon i = i"
  by (simp add: canonical_def mem_canon_def)

lemma persist_mem:
  "persist mem_canon v =
     v\<lparr>v_sagaStatus := (if v_sagaStatus v = '''' then SagaStatusIdle else v_sagaStatus v),
       v_currentSagaID := (if v_currentSagaID v = Some '''' then None else v_currentSagaID v)\<rparr>"
  by (cases v; cases "v_currentSagaID v") (auto simp: persist_def mem_canon_def)

lemma mem_number_abs: "abs_items (mem_number n is) = abs_items is"
  by (induction "is" arbitrary: n) (auto simp: abs_items_def abs_item_def item_IsDeleted_def)

lemma mem_number_active: "'''' \<notin> item_id ` set (active is) \<Longrightarrow> active (mem_number n is) = active is"
  by (induction "is" arbitrary: n) (auto simp: item_IsDeleted_def split: if_splits)

lemma mem_number_ids:
  assumes "n \<noteq> ''''" and "m \<in> item_id ` set (mem_number n is)"
  shows "m \<noteq> '''' \<and> (m \<in> set (line_ids is) \<or> length n \<le> length m)"
  using assms
proof (induction "is" arbitrary: n)
  case (Cons i "is")
  show ?case
  proof (cases "item_id i = '''' \<and> m = n \<or> m = item_id i \<and> item_id i \<noteq> ''''")
    case True
    with Cons.prems show ?thesis by auto
  next
    case False
    with Cons.prems consider "item_id i = ''''" "m \<in> item_id ` set (mem_number (CHR ''i'' # n) is)"
      | "item_id i \<noteq> ''''" "m \<in> item_id ` set (mem_number n is)" by (auto split: if_splits)
    then show ?thesis
    proof cases
      case 1
      from Cons.IH [OF _ 1(2)] 1(1) show ?thesis by auto
    next
      case 2
      from Cons.IH [OF Cons.prems(1) 2(2)] 2(1) show ?thesis by auto
    qed
  qed
qed simp

lemma mem_number_distinct:
  assumes "distinct (line_ids is)" and "\<forall>j \<in> set (line_ids is). length j < length n"
  shows "distinct (map item_id (mem_number n is))"
  using assms
proof (induction "is" arbitrary: n)
  case (Cons i "is")
  show ?case
  proof (cases "item_id i = ''''")
    case True
    with Cons.prems have p: "distinct (line_ids is)" "\<forall>j \<in> set (line_ids is). length j < length (CHR ''i'' # n)"
      by auto
    have "n \<notin> set (map item_id (mem_number (CHR ''i'' # n) is))"
      using mem_number_ids [of "CHR ''i'' # n" n "is"] Cons.prems(2) True by auto
    with Cons.IH [OF p] True show ?thesis by simp
  next
    case False
    with Cons.prems have p: "distinct (line_ids is)" "\<forall>j \<in> set (line_ids is). length j < length n"
      and i: "item_id i \<notin> set (line_ids is)" "length (item_id i) < length n" by auto
    then have "n \<noteq> ''''" by auto
    from mem_number_ids [OF this, of "item_id i" "is"] i have "item_id i \<notin> set (map item_id (mem_number n is))"
      by auto
    with Cons.IH [OF p] False show ?thesis by simp
  qed
qed simp

lemma concat_longer: "j \<in> set js \<Longrightarrow> length j < length (concat js @ [c])"
  by (induction js) auto

lemma mem_saved_ids:
  assumes "distinct (line_ids (so_items s))"
  shows "distinct (map item_id (so_items (mem_saved i s)))"
    and "'''' \<notin> item_id ` set (so_items (mem_saved i s))"
  using mem_number_distinct [OF assms, of "concat (line_ids (so_items s)) @ ''i''"]
    concat_longer [of _ "line_ids (so_items s)"]
    mem_number_ids [of "concat (line_ids (so_items s)) @ ''i''" "''''" "so_items s"]
  by (auto simp: mem_saved_def)

lemma mem_saved_numbered: "numbered s (mem_saved i s)"
  by (auto simp: numbered_def mem_saved_def abs_order_def mem_number_abs mem_number_active)

lemma abs_order_mem_stored: "abs_order (mem_stored s) = persist mem_canon (abs_order s)"
  by (simp add: abs_order_def mem_stored_def persist_mem abs_items_def)

lemma mem_stored_readable:
  assumes s: "storable s" and "so_customerID s \<noteq> ''''" and "so_vehicleID s \<noteq> ''''" and "i \<noteq> ''''"
    and d: "distinct (line_ids (so_items s))"
  shows "mem_readable i (mem_stored (mem_saved i s))"
proof -
  let ?is = "active (so_items (mem_saved i s))"
  have "set_mset (abs_items (so_items (mem_saved i s))) = set_mset (abs_items (so_items s))"
    by (simp add: mem_number_abs mem_saved_def)
  then have im: "abs_item ` set ?is = abs_item ` set (active (so_items s))" by (simp add: set_abs_items)
  have "itemType_IsValid (item_itemType x)" if "x \<in> set ?is" for x
  proof -
    from that im obtain y where "y \<in> set (active (so_items s))" "abs_item y = abs_item x"
      by (metis imageE imageI)
    with s show ?thesis by (auto simp: storable_def abs_item_def)
  qed
  moreover have "distinct (map item_id ?is)" "'''' \<notin> item_id ` set ?is"
    using mem_saved_ids [OF d, of i] by (auto simp: active_def distinct_map_filter)
  moreover have "so_sagaStatus (mem_saved i s) = so_sagaStatus s" "so_id (mem_saved i s) = i"
    "so_customerID (mem_saved i s) = so_customerID s" "so_vehicleID (mem_saved i s) = so_vehicleID s"
    "so_deletedAt (mem_saved i s) = so_deletedAt s" "so_status (mem_saved i s) = so_status s"
    "so_sagaTargetStatus (mem_saved i s) = so_sagaTargetStatus s" by (simp_all add: mem_saved_def)
  ultimately show ?thesis
    using assms(1-4) by (auto simp: mem_readable_def loaded_def storable_def mem_stored_def)
qed

lemma mem_fresh: "map_of db (mem_fresh db) = None"
proof -
  have "length j < length (mem_fresh db)" if "j \<in> fst ` set db" for j
    using that by (induction db) (fastforce simp: mem_fresh_def)+
  then show ?thesis by (auto simp: map_of_eq_None_iff)
qed

lemma mem_lookup_readable: "mem_lookup db j = Some s \<Longrightarrow> mem_readable j s"
  by (auto simp: mem_lookup_def split: option.splits if_splits)

lemma mem_view_Some:
  "mem_view db j = Some v \<longleftrightarrow> (\<exists>s. mem_lookup db j = Some s \<and> v = abs_order s)"
  by (auto simp: mem_view_def)

lemma mem_readable_persist: "mem_readable j s \<Longrightarrow> persist mem_canon (abs_order s) = abs_order s"
  by (simp add: persist_mem mem_readable_def loaded_def)

lemma mem_view_Save:
  assumes "storable s" and "so_customerID s \<noteq> ''''" and "so_vehicleID s \<noteq> ''''" and "i \<noteq> ''''"
    and "distinct (line_ids (so_items s))"
  shows "mem_view ((i, mem_stored (mem_saved i s)) # db) =
    (mem_view db)(i \<mapsto> persist mem_canon (abs_order (mem_saved i s)))"
  using mem_stored_readable [OF assms]
  by (auto simp: mem_view_def mem_lookup_def abs_order_mem_stored)

lemma mem_all_props:
  "distinct (map so_id (mem_all db))"
  "s \<in> set (mem_all db) \<longleftrightarrow> mem_lookup db (so_id s) = Some s"
proof -
  have key: "mem_lookup db j = Some s \<Longrightarrow> j \<in> set (map fst db) \<and> so_id s = j" for j s
    by (auto simp: mem_lookup_def mem_readable_def split: option.splits if_splits
        dest: map_of_SomeD intro: rev_image_eqI)
  show "s \<in> set (mem_all db) \<longleftrightarrow> mem_lookup db (so_id s) = Some s"
  proof
    assume "s \<in> set (mem_all db)"
    then obtain j where "mem_lookup db j = Some s" by (auto simp: mem_all_def split: option.splits)
    with key show "mem_lookup db (so_id s) = Some s" by metis
  next
    assume "mem_lookup db (so_id s) = Some s"
    with key show "s \<in> set (mem_all db)" by (force simp: mem_all_def split: option.splits)
  qed
  have "distinct (map so_id (concat (map (\<lambda>j. case mem_lookup db j of None \<Rightarrow> [] | Some s \<Rightarrow> [s]) ks)))
      \<and> set (map so_id (concat (map (\<lambda>j. case mem_lookup db j of None \<Rightarrow> [] | Some s \<Rightarrow> [s]) ks))) \<subseteq> set ks"
    if "distinct ks" for ks
    using that
  proof (induction ks)
    case (Cons k ks)
    then show ?case using key [of k] by (cases "mem_lookup db k") auto
  qed simp
  then show "distinct (map so_id (mem_all db))" by (simp add: mem_all_def)
qed

lemma mem_list:
  "(mem_view db j = Some v \<and> P v) \<longleftrightarrow>
   (\<exists>s \<in> set (filter (\<lambda>s. P (abs_order s)) (mem_all db)). so_id s = j \<and> abs_order s = v)"
proof -
  have "mem_lookup db j = Some s \<Longrightarrow> so_id s = j" for s
    using mem_lookup_readable by (simp add: mem_readable_def)
  then show ?thesis by (auto simp: mem_view_Some mem_all_props(2))
qed

interpretation memory: order_repository mem_repo mem_canon mem_view
proof (unfold_locales, goal_cases)
  case (1 i j)
  then show ?case by (auto simp: mem_canon_def split: if_splits)
next
  case (2 i db r db')
  then show ?case by (auto simp: mem_repo_def mem_FindByID_def split: if_splits option.splits)
next
  case (3 i db s db')
  then have "mem_lookup db i = Some s" "i \<noteq> ''''"
    by (auto simp: mem_repo_def mem_FindByID_def split: if_splits option.splits)
  with mem_lookup_readable [OF this(1)] show ?case
    by (auto simp: mem_readable_def mem_canon_def mem_view_Some)
next
  case (4 i db db' j)
  then show ?case
    by (auto simp: mem_repo_def mem_FindByID_def mem_canon_def mem_view_def split: if_splits option.splits)
next
  case 5
  show ?case by (simp add: mem_repo_def)
next
  case 6
  show ?case by (simp add: mem_repo_def)
next
  case (7 s db e db')
  then show ?case by (auto simp: mem_repo_def mem_Save_def Let_def split: if_splits)
next
  case (8 s db s' db' j)
  then have "j = so_id s" "so_id s \<noteq> ''''" "distinct (line_ids (so_items s))"
    by (auto simp: mem_canon_def owns_lines_def split: if_splits)
  with 8 show ?case
    by (auto simp: mem_repo_def mem_Save_def Let_def mem_view_Save mem_saved_numbered split: if_splits)
      (simp_all add: mem_saved_def)
next
  case (9 s db s' db')
  have "mem_fresh db \<noteq> ''''" by (simp add: mem_fresh_def)
  moreover have "mem_view db (mem_fresh db) = None" by (simp add: mem_view_def mem_lookup_def mem_fresh)
  moreover have "so_id (mem_saved i s) = i" for i by (simp add: mem_saved_def)
  ultimately show ?case using 9
    by (auto simp: mem_repo_def mem_Save_def Let_def mem_view_Save mem_canon_def mem_saved_numbered
        split: if_splits)
next
  case (10 s db s' db')
  then show ?case by (auto simp: mem_repo_def mem_Save_def mem_canon_def split: if_splits)
next
  case (11 db j v)
  then obtain s where "mem_lookup db j = Some s" "v = abs_order s" by (auto simp: mem_view_Some)
  with mem_lookup_readable [OF this(1)] mem_readable_persist show ?case
    by (auto simp: mem_canon_def mem_readable_def loaded_def)
next
  case (12 st db rs db')
  then show ?case by (simp add: mem_repo_def)
next
  case (13 st db ss db')
  then have "ss = filter (\<lambda>s. so_sagaStatus s = st) (mem_all db)" by (auto simp: mem_repo_def)
  with mem_list [of db _ _ "\<lambda>v. v_sagaStatus v = st"] show ?case
    by (auto simp: distinct_map_filter mem_all_props dest!: mem_lookup_readable simp: mem_readable_def)
next
  case (14 c db rs db')
  then show ?case by (auto simp: mem_repo_def split: if_splits)
next
  case (15 c db ss db')
  then have c: "c \<noteq> ''''" and ss: "ss = filter (\<lambda>s. so_customerID s = c) (mem_all db)"
    by (auto simp: mem_repo_def split: if_splits)
  with mem_list [of db _ _ "\<lambda>v. v_customerID v = c"] show ?case
    by (auto simp: distinct_map_filter mem_all_props mem_canon_def dest!: mem_lookup_readable
        simp: mem_readable_def)
next
  case (16 fs db rs db')
  then show ?case by (simp add: mem_repo_def)
qed

end
