(* ===== verification/Samples.thy ===== *)
theory Samples
  imports Memory_Repository
begin

text \<open>
  Concrete inputs: an outside that answers every call, over the list repository, and worlds that hold
  one order. The witnesses of the properties run the handlers on them.
\<close>

definition sample_customer :: CustomerDTO where
  "sample_customer = \<lparr>cust_ID = ''c'', cust_Name = ''Ana'', cust_Email = ''a@x'', cust_Phone = ''1''\<rparr>"

definition sample_vehicle :: VehicleDTO where
  "sample_vehicle = \<lparr>veh_ID = ''v'', veh_CustomerID = ''c'', veh_LicensePlate = ''p'', veh_Brand = ''b'',
     veh_Model = ''m'', veh_ModelYear = 2020, veh_ManufactureYear = 2020\<rparr>"

definition sample_mp_order :: mp_Order where
  "sample_mp_order = \<lparr>mpo_ID = ''mp'', mpo_Status = ''created'', mpo_RedirectURL = ''url'',
     mpo_ExternalReference = '''', mpo_PaymentID = '''', mpo_PaymentStatus = '''',
     mpo_PaymentStatusDetail = ''''\<rparr>"

definition sample_payment :: "string \<Rightarrow> mp_Payment" where
  "sample_payment st = \<lparr>mpp_ID = ''pay'', mpp_Status = st, mpp_StatusDetail = '''',
     mpp_ExternalReference = ''os''\<rparr>"

text \<open>The payment's status at Mercado Pago is the argument.\<close>

definition mem_deps :: "string \<Rightarrow> mem_db deps" where
  "mem_deps st =
     \<lparr>orderRepo = mem_repo, time_Now = int, uuid_NewV7 = (\<lambda>t. ''u''),
      HistoryRepository_Save = (\<lambda>t h. Inr ''h''), HistoryRepository_Find = (\<lambda>t i. Inr []),
      Publisher_PublishRequest = (\<lambda>t a b c d. Inr ()),
      CustomerAdapter_Get = (\<lambda>t i. Inr sample_customer),
      VehicleAdapter_Get = (\<lambda>t i. Inr sample_vehicle),
      ProductAdapter_Get = (\<lambda>t i. Inr \<lparr>prod_ID = i, prod_Name = ''Oil'', prod_Description = '''',
         prod_Price = 500, prod_ProductType = ''''\<rparr>),
      ServiceAdapter_Get = (\<lambda>t i. Inr \<lparr>serv_ID = i, serv_Name = ''Work'', serv_Description = '''',
         serv_Price = 900\<rparr>),
      EmailService_Send = (\<lambda>t a b c d e. Inr ()),
      MP_CreateOrder = (\<lambda>t a b c. Inr sample_mp_order),
      MP_CancelOrder = (\<lambda>t i. Inr sample_mp_order),
      MP_RefundOrder = (\<lambda>t i. Inr sample_mp_order),
      MP_GetPayment = (\<lambda>t i. Inr (sample_payment st)),
      SQS_DeleteMessage = (\<lambda>t i. Inr ()),
      notifier_wired = True, cancelPaymentOrder_wired = True, refundPaymentOrder_wired = True\<rparr>"

definition sample_line :: ServiceOrderItem where
  "sample_line = \<lparr>item_id = ''i'', item_serviceOrderID = ''os'', item_historyID = None,
     item_itemType = ItemTypeProduct, item_referenceID = ''p'', item_name = ''Oil'',
     item_quantity = 2, item_unitPrice = 500, item_createdAt = 0, item_updatedAt = 0,
     item_deletedAt = None\<rparr>"

definition sample_order ::
  "OrderStatus \<Rightarrow> string \<Rightarrow> string option \<Rightarrow> OrderStatus option \<Rightarrow> ServiceOrder" where
  "sample_order st saga sid target =
     \<lparr>so_id = ''os'', so_customerID = ''c'', so_vehicleID = ''v'', so_description = '''',
      so_status = st, so_sagaStatus = saga, so_currentSagaID = sid, so_sagaTargetStatus = target,
      so_sagaNotes = None, so_mpPreferenceID = Some ''mp'', so_mpPaymentID = Some ''pay'',
      so_paymentURL = Some ''url'', so_customerEmail = '''', so_customerName = '''',
      so_items = [sample_line], so_closedAt = Some 0, so_createdAt = 0, so_updatedAt = 0,
      so_deletedAt = None\<rparr>"

definition world_with :: "ServiceOrder \<Rightarrow> mem_db world" where
  "world_with s = \<lparr>w_db = [(so_id s, s)], w_log = [], w_tick = 0\<rparr>"

definition idle_world :: "OrderStatus \<Rightarrow> mem_db world" where
  "idle_world st = world_with (sample_order st SagaStatusIdle None None)"

definition saga_world :: "OrderStatus \<Rightarrow> OrderStatus \<Rightarrow> mem_db world" where
  "saga_world st target =
     world_with (sample_order st SagaStatusAwaitingInventory (Some ''s'') (Some target))"

interpretation sample: service_env "mem_deps st" mem_canon mem_view for st
  using memory.order_repository_axioms
  by (auto simp: service_env_def service_env_axioms_def mem_deps_def mem_canon_def)

lemma mem_env: "service_env (mem_deps st) mem_canon mem_view"
  by (rule sample.service_env_axioms)

definition succeeds :: "(error + 'a) \<times> 'w \<Rightarrow> bool" where
  "succeeds p = (case p of (Inr _, _) \<Rightarrow> True | (Inl _, _) \<Rightarrow> False)"

lemma succeedsE:
  assumes "succeeds p"
  obtains x w' where "p = (Inr x, w')"
  using assms by (cases p) (auto simp: succeeds_def split: sum.splits)

lemma world_with_view:
  "mem_readable (so_id s) s \<Longrightarrow> mem_view (w_db (world_with s)) (so_id s) = Some (abs_order s)"
  by (simp add: world_with_def mem_view_def mem_lookup_def)

lemma world_with_log [simp]: "w_log (world_with s) = []"
  by (simp add: world_with_def)

lemma sample_order_id [simp]: "so_id (sample_order st saga sid target) = ''os''"
  by (simp add: sample_order_def)

lemma sample_readable:
  "status_IsValid st \<Longrightarrow> saga \<noteq> '''' \<Longrightarrow> sid \<noteq> Some '''' \<Longrightarrow>
   (\<And>t. target = Some t \<Longrightarrow> status_IsValid t) \<Longrightarrow>
   mem_readable ''os'' (sample_order st saga sid target)"
  by (auto simp: mem_readable_def loaded_def storable_def sample_order_def sample_line_def
      item_IsDeleted_def itemType_IsValid_def)

lemma idle_world_view:
  "status_IsValid st \<Longrightarrow>
   mem_view (w_db (idle_world st)) ''os'' = Some (abs_order (sample_order st SagaStatusIdle None None))"
  using world_with_view [of "sample_order st SagaStatusIdle None None"]
    sample_readable [of st SagaStatusIdle None None]
  by (simp add: idle_world_def)

lemma saga_world_view:
  "status_IsValid st \<Longrightarrow> status_IsValid t \<Longrightarrow>
   mem_view (w_db (saga_world st t)) ''os'' =
     Some (abs_order (sample_order st SagaStatusAwaitingInventory (Some ''s'') (Some t)))"
  using world_with_view [of "sample_order st SagaStatusAwaitingInventory (Some ''s'') (Some t)"]
    sample_readable [of st SagaStatusAwaitingInventory "Some ''s''" "Some t"]
  by (simp add: saga_world_def)

lemma world_with_wf: "view_wf (abs_order s) \<Longrightarrow> wf_store (mem_view (w_db (world_with s)))"
  by (auto simp: wf_store_def world_with_def mem_view_def mem_lookup_def split: if_splits option.splits)

lemma sample_line_wf: "\<forall>i \<in># abs_items [sample_line]. item_view_wf i"
  by (simp add: abs_items_def abs_item_def item_view_wf_def sample_line_def item_IsDeleted_def
      itemType_IsValid_def)

lemma saga_world_wf:
  "status_IsValid st \<Longrightarrow> saga_target t \<Longrightarrow> wf_store (mem_view (w_db (saga_world st t)))"
  unfolding saga_world_def
  by (rule world_with_wf) (use sample_line_wf in \<open>simp add: view_wf_def sample_order_def\<close>)

lemma idle_world_wf: "status_IsValid st \<Longrightarrow> wf_store (mem_view (w_db (idle_world st)))"
  unfolding idle_world_def
  by (rule world_with_wf) (use sample_line_wf in \<open>simp add: view_wf_def sample_order_def\<close>)

lemma world_logs [simp]:
  "w_log (idle_world st) = []" "w_log (saga_world st t) = []"
  by (simp_all add: idle_world_def saga_world_def)

end
