(* ===== verification/Saga.thy ===== *)
theory Saga
  imports Samples
begin

text \<open>
  \<^verbatim>\<open>saga_orchestrator.go\<close>: the saga that makes a change of status wait for the stock service. A request
  is published under a fresh saga identifier, the order remembers the identifier and the status it
  aims at, and the answer of the stock service, delivered as an event, completes or fails the saga.
\<close>

subsection \<open>Events and results\<close>

record OrderInventoryOperationSucceeded =
  es_Event :: string
  es_SagaID :: string
  es_OrderID :: string
  es_Operation :: string
  es_OccurredAt :: string

record OrderInventoryOperationFailed =
  ef_Event :: string
  ef_SagaID :: string
  ef_OrderID :: string
  ef_Operation :: string
  ef_Reason :: string
  ef_OccurredAt :: string

record StartResult =
  sr_Order :: ServiceOrder
  sr_SagaID :: string
  sr_Async :: bool

subsection \<open>Helpers of the orchestrator\<close>

definition inventoryItems :: "ServiceOrder \<Rightarrow> InventoryItem list" where
  "inventoryItems order =
     map (\<lambda>item. \<lparr>inv_ProductID = item_referenceID item, inv_Quantity = item_quantity item\<rparr>)
       (GetProductItems order)"

text \<open>The snapshot holds the active lines; the moment of capture is kept as a number.\<close>

definition snapshot_of :: "time \<Rightarrow> ServiceOrder \<Rightarrow> snapshot" where
  "snapshot_of now order =
     \<lparr>sn_order_id = so_id order, sn_customer_id = so_customerID order,
      sn_vehicle_id = so_vehicleID order, sn_status = status_String (so_status order),
      sn_total_amount = TotalAmount order,
      sn_items = map (\<lambda>item. \<lparr>sni_id = item_id item,
           sni_item_type = itemType_string (item_itemType item),
           sni_reference_id = item_referenceID item, sni_name = item_name item,
           sni_quantity = item_quantity item, sni_unit_price = item_unitPrice item,
           sni_subtotal = Subtotal item\<rparr>)
         (filter (\<lambda>item. \<not> item_IsDeleted item) (so_items order)),
      sn_captured_at = now\<rparr>"

definition inferOperation :: "ServiceOrder \<Rightarrow> error + StockOperationType" where
  "inferOperation order =
     (case so_sagaTargetStatus order of
        None \<Rightarrow> Inl (ErrorString (''order '' @ so_id order @ '' awaiting inventory without target status''))
      | Some target \<Rightarrow>
          if target = StatusPendingAuthorization then Inr StockOpReserve
          else if target = StatusCompleted then Inr StockOpReservedDecrease
          else if target = StatusAuthorizationDenied then Inr StockOpCancelReserved
          else if target = StatusCanceled
            then (if so_status order = StatusCompleted \<or> so_status order = StatusPaid
                  then Inr StockOpCancelConfirmed else Inr StockOpCancelReserved)
          else Inl (ErrorString (''cannot infer inventory operation for target '' @ status_String target)))"

definition targetStatusForSuccess :: "ServiceOrder \<Rightarrow> StockOperationType \<Rightarrow> error + OrderStatus" where
  "targetStatusForSuccess order operation =
     (case so_sagaTargetStatus order of
        Some target \<Rightarrow> Inr target
      | None \<Rightarrow>
          if operation = StockOpReserve then Inr StatusPendingAuthorization
          else if operation = StockOpReservedDecrease then Inr StatusCompleted
          else if operation = StockOpCancelReserved \<or> operation = StockOpCancelConfirmed
            then Inr StatusCanceled
          else Inl (ErrorString (''unsupported saga operation '' @ op_string operation)))"

text \<open>
  The notification of the customer, of which each use case has its own copy: the customer is looked
  up, the message sent, and a failure of either is only logged.
\<close>

definition notify_customer ::
  "'db deps \<Rightarrow> ServiceOrder \<Rightarrow> OrderStatus \<Rightarrow> OrderStatus \<Rightarrow> ('db, unit) io" where
  "notify_customer D order oldStatus newStatus =
     bindE (attemptE (GetCustomerByID D (so_customerID order))) (\<lambda>r.
     case r of
       Inl _ \<Rightarrow> returnE ()
     | Inr customer \<Rightarrow>
         bindE (attemptE (SendStatusUpdateEmail D (cust_Email customer) (cust_Name customer)
                  (so_id order) (status_String oldStatus) (status_String newStatus)))
           (\<lambda>_. returnE ()))"

definition saga_sendStatusUpdateEmail ::
  "'db deps \<Rightarrow> ServiceOrder \<Rightarrow> OrderStatus \<Rightarrow> OrderStatus \<Rightarrow> ('db, unit) io" where
  "saga_sendStatusUpdateEmail D order oldStatus newStatus =
     (if \<not> notifier_wired D then returnE () else notify_customer D order oldStatus newStatus)"

definition saga_metadata ::
  "OrderStatus \<Rightarrow> OrderStatus \<Rightarrow> StockOperationType \<Rightarrow> string \<Rightarrow> string option \<Rightarrow> string option \<Rightarrow>
   metadata" where
  "saga_metadata oldStatus newStatus operation sagaID failureReason remarks =
     (let m1 = (BuildStatusOnlyMetadata oldStatus newStatus)
                 (''operation'' \<mapsto> MetaString (op_string operation));
          m2 = (if sagaID \<noteq> '''' then m1(''saga_id'' \<mapsto> MetaString sagaID) else m1);
          m3 = (case failureReason of
                  Some r \<Rightarrow> if r \<noteq> '''' then m2(''failure_reason'' \<mapsto> MetaString r) else m2
                | None \<Rightarrow> m2)
      in case remarks of
           Some n \<Rightarrow> if n \<noteq> '''' then m3(''notes'' \<mapsto> MetaString n) else m3
         | None \<Rightarrow> m3)"

definition saga_saveHistory ::
  "'db deps \<Rightarrow> ServiceOrder \<Rightarrow> OrderStatus \<Rightarrow> OrderStatus \<Rightarrow> StockOperationType \<Rightarrow> string \<Rightarrow>
   string option \<Rightarrow> string option \<Rightarrow> ('db, unit) io" where
  "saga_saveHistory D order oldStatus newStatus operation sagaID failureReason remarks =
     bindE (Now D) (\<lambda>now.
     bindE (NewHistoryE D (so_id order)
              ((saga_metadata oldStatus newStatus operation sagaID failureReason remarks)
                 (''snapshot'' \<mapsto> MetaSnapshot (snapshot_of now order))) newStatus) (\<lambda>history.
     bindE (history_Save D history) (\<lambda>_. returnE ())))"

definition transitionLocal ::
  "'db deps \<Rightarrow> ServiceOrder \<Rightarrow> OrderStatus \<Rightarrow> StockOperationType \<Rightarrow> string \<Rightarrow> string option \<Rightarrow>
   ('db, ServiceOrder) io" where
  "transitionLocal D order targetStatus operation sagaID remarks =
     (let oldStatus = so_status order in
      bindE (if oldStatus \<noteq> targetStatus then UpdateStatusE D targetStatus order
             else returnE order) (\<lambda>order.
      bindE (CompleteSagaE D order) (\<lambda>order.
      bindE (saga_saveHistory D order oldStatus targetStatus operation sagaID None remarks) (\<lambda>_.
      bindE (Save D order) (\<lambda>order.
      bindE (saga_sendStatusUpdateEmail D order oldStatus targetStatus) (\<lambda>_.
      returnE order))))))"

subsection \<open>Operations of the orchestrator\<close>

definition StartSaga ::
  "'db deps \<Rightarrow> string \<Rightarrow> StockOperationType \<Rightarrow> OrderStatus \<Rightarrow> string option \<Rightarrow> ('db, StartResult) io"
where
  "StartSaga D orderID operation targetStatus remarks =
     bindE (FindByID D orderID) (\<lambda>order.
     if IsDeleted order then throwE ErrServiceOrderDeleted
     else if so_sagaStatus order = SagaStatusAwaitingInventory then throwE ErrSagaAlreadyInProgress
     else
       let items = inventoryItems order in
       if items = [] then
         bindE (transitionLocal D order targetStatus operation '''' remarks) (\<lambda>order.
         returnE \<lparr>sr_Order = order, sr_SagaID = '''', sr_Async = False\<rparr>)
       else
         bindE (NewV7 D) (\<lambda>sagaID.
         bindE (StartSagaE D sagaID targetStatus remarks order) (\<lambda>order.
         bindE (Save D order) (\<lambda>order.
         bindE (PublishRequest D sagaID (so_id order) operation items) (\<lambda>_.
         returnE \<lparr>sr_Order = order, sr_SagaID = sagaID, sr_Async = True\<rparr>)))))"

text \<open>The \<^verbatim>\<open>switch order.Status()\<close> of \<^verbatim>\<open>CancelOrder\<close>.\<close>

datatype cancel_plan = CancelLocally | CancelBySaga StockOperationType | CancelRefused

fun plan_cancel :: "OrderStatus \<Rightarrow> cancel_plan" where
  "plan_cancel StatusReceived = CancelLocally"
| "plan_cancel StatusDiagnosing = CancelLocally"
| "plan_cancel StatusPendingAuthorization = CancelBySaga StockOpCancelReserved"
| "plan_cancel StatusAuthorized = CancelBySaga StockOpCancelReserved"
| "plan_cancel StatusInProgress = CancelBySaga StockOpCancelReserved"
| "plan_cancel StatusCompleted = CancelBySaga StockOpCancelConfirmed"
| "plan_cancel StatusAwaitingPayment = CancelBySaga StockOpCancelConfirmed"
| "plan_cancel StatusPaymentRejected = CancelBySaga StockOpCancelConfirmed"
| "plan_cancel StatusPaid = CancelBySaga StockOpCancelConfirmed"
| "plan_cancel _ = CancelRefused"

definition CancelOrder :: "'db deps \<Rightarrow> string \<Rightarrow> string option \<Rightarrow> ('db, StartResult) io" where
  "CancelOrder D orderID remarks =
     bindE (FindByID D orderID) (\<lambda>order.
     if IsDeleted order then throwE ErrServiceOrderDeleted
     else if so_sagaStatus order = SagaStatusAwaitingInventory then throwE ErrSagaAlreadyInProgress
     else case plan_cancel (so_status order) of
       CancelLocally \<Rightarrow>
         bindE (transitionLocal D order StatusCanceled InventoryOpNone '''' remarks) (\<lambda>order.
         returnE \<lparr>sr_Order = order, sr_SagaID = '''', sr_Async = False\<rparr>)
     | CancelBySaga operation \<Rightarrow> StartSaga D orderID operation StatusCanceled remarks
     | CancelRefused \<Rightarrow> throwE ErrInvalidStatusTransition)"

definition IsCurrentSaga :: "'db deps \<Rightarrow> string \<Rightarrow> string \<Rightarrow> ('db, bool) io" where
  "IsCurrentSaga D orderID sagaID =
     bindE (FindByID D orderID) (\<lambda>order. returnE (CanProcessSaga sagaID order))"

definition HandleSucceeded ::
  "'db deps \<Rightarrow> OrderInventoryOperationSucceeded \<Rightarrow> ('db, unit) io" where
  "HandleSucceeded D event =
     bindE (FindByID D (es_OrderID event)) (\<lambda>order.
     if \<not> CanProcessSaga (es_SagaID event) order then returnE ()
     else
       let operation = StockOperationType_of (es_Operation event) in
       bindE (liftE (targetStatusForSuccess order operation)) (\<lambda>targetStatus.
       let remarks = so_sagaNotes order; oldStatus = so_status order in
       bindE (if oldStatus \<noteq> targetStatus then UpdateStatusE D targetStatus order
              else returnE order) (\<lambda>order.
       bindE (CompleteSagaE D order) (\<lambda>order.
       bindE (saga_saveHistory D order oldStatus targetStatus operation (es_SagaID event) None
                remarks) (\<lambda>_.
       bindE (Save D order) (\<lambda>order.
       saga_sendStatusUpdateEmail D order oldStatus targetStatus))))))"

definition HandleFailed :: "'db deps \<Rightarrow> OrderInventoryOperationFailed \<Rightarrow> ('db, unit) io" where
  "HandleFailed D event =
     bindE (FindByID D (ef_OrderID event)) (\<lambda>order.
     if \<not> CanProcessSaga (ef_SagaID event) order then returnE ()
     else
       let operation = StockOperationType_of (ef_Operation event); oldStatus = so_status order in
       bindE (FailSagaE D order) (\<lambda>order.
       bindE (saga_saveHistory D order oldStatus oldStatus operation (ef_SagaID event)
                (Some (ef_Reason event)) None) (\<lambda>_.
       bindE (Save D order) (\<lambda>order.
       saga_sendStatusUpdateEmail D order oldStatus oldStatus))))"

definition RecoverAwaitingSagas :: "'db deps \<Rightarrow> ('db, unit) io" where
  "RecoverAwaitingSagas D =
     bindE (FindBySagaStatus D SagaStatusAwaitingInventory) (\<lambda>orders.
     foreachE orders (\<lambda>order.
       case so_currentSagaID order of
         None \<Rightarrow> returnE ()
       | Some sagaID \<Rightarrow>
           bindE (liftE (inferOperation order)) (\<lambda>operation.
           PublishRequest D sagaID (so_id order) operation (inventoryItems order))))"

end
