(* ===== verification/Saga_Correct.thy ===== *)
theory Saga_Correct
  imports Saga
begin

text \<open>
  The orchestrator is correct: every operation moves the stored orders along the abstract machine
  (\<open>advances\<close>), and the exact effect of starting, completing, failing, cancelling and recovering a saga
  on the stored orders and on what is sent to the stock service.
\<close>

subsection \<open>Helpers\<close>

lemma reads_notify_customer [intro, simp]:
  "reads view (notify_customer D s a b) (\<lambda>_ _. True)"
  unfolding notify_customer_def
  by (rule reads_bindE [OF reads_attemptE [OF reads_calls(6)]])
    (auto split: sum.split intro!: reads_returnE reads_bindE [OF reads_attemptE [OF reads_calls(10)]])

lemma reads_saga_sendStatusUpdateEmail [intro, simp]:
  "reads view (saga_sendStatusUpdateEmail D s a b) (\<lambda>_ _. True)"
  by (simp add: saga_sendStatusUpdateEmail_def reads_returnE)

lemma reads_saga_saveHistory [intro, simp]:
  "reads view (saga_saveHistory D s a b op sid fr nts) (\<lambda>_ _. True)"
  unfolding saga_saveHistory_def
  by (rule reads_Now_bind, rule reads_bindE [OF reads_calls(15)], simp,
      rule reads_bindE [OF reads_calls(3)], simp)

lemma notify_customer_run:
  "notify_customer D s a b w = (r, w') \<Longrightarrow>
   r = Inr () \<and> w_db w' = w_db w \<and> requests (w_log w') = requests (w_log w) \<and>
   histories (w_log w') = histories (w_log w) \<and> mp_calls (w_log w') = mp_calls (w_log w)"
  by (auto simp: notify_customer_def bindE_def attemptE_def GetCustomerByID_def
      SendStatusUpdateEmail_def external_def split: sum.splits prod.splits)

lemma saga_email_run:
  "saga_sendStatusUpdateEmail D s a b w = (r, w') \<Longrightarrow>
   r = Inr () \<and> w_db w' = w_db w \<and> requests (w_log w') = requests (w_log w) \<and>
   histories (w_log w') = histories (w_log w) \<and> mp_calls (w_log w') = mp_calls (w_log w)"
  by (auto simp: saga_sendStatusUpdateEmail_def notify_customer_run split: if_splits)

lemma saga_saveHistory_run:
  assumes "saga_saveHistory D s a b op sid fr nts w = (Inr u, w')"
  shows "w_db w' = w_db w" and "\<exists>h. w_log w' = w_log w @ [HistorySaved h] \<and>
    h_serviceOrderID h = so_id s \<and> h_status h = b \<and>
    h_metadata h ''status'' = Some (MetaChange (status_String a) (status_String b)) \<and>
    h_metadata h ''operation'' = Some (MetaString (op_string op))"
  using assms
  by (auto simp: saga_saveHistory_def bindE_Inr_iff Now_run NewHistory_Inr_iff quiet_def
      saga_metadata_def BuildStatusOnlyMetadata_def Let_def dest!: NewHistoryE_run history_Save_run
      split: option.splits)

lemma saga_saveHistory_failed:
  "saga_saveHistory D s a b op sid fr nts w = (Inl e, w') \<Longrightarrow> quiet w w'"
  by (auto simp: saga_saveHistory_def bindE_Inl_iff Now_run quiet_def history_Save_def external_Inl
      dest!: NewHistoryE_run)

text \<open>A change of status that is skipped when the order already has the status.\<close>

lemma maybe_update_run:
  assumes "(if so_status s \<noteq> t then UpdateStatusE D t s else returnE s) w = (Inr s', w')"
  shows "quiet w w'" and "so_id s' = so_id s"
    and "abs_order s' = (if so_status s \<noteq> t then v_set_status t (abs_order s) else abs_order s)"
    and "so_status s \<noteq> t \<longrightarrow> CanTransitionTo (so_status s) t"
    and "so_items s' = so_items s" and "so_status s' = t"
  using assms
  by (auto dest!: UpdateStatusE_run dest: UpdateStatus_frame(1,2,4,11) abs_UpdateStatus split: if_splits)

lemma reads_maybe_update:
  "t \<noteq> StatusAwaitingPayment \<Longrightarrow>
   reads view (if so_status s \<noteq> t then UpdateStatusE D t s else returnE s)
     (\<lambda>s' V. held canon s V \<longrightarrow> held canon s' V)"
  by (cases "so_status s \<noteq> t") (auto intro: reads_UpdateStatusE reads_returnE)

lemma saga_target_not_payment: "saga_target t \<Longrightarrow> t \<noteq> StatusAwaitingPayment"
  by (auto simp: saga_target_def)

subsection \<open>What the stock service is told\<close>

definition product_lines :: "order_view \<Rightarrow> item_view multiset" where
  "product_lines v = filter_mset (\<lambda>i. iv_itemType i = ItemTypeProduct) (v_items v)"

definition stock_item :: "item_view \<Rightarrow> InventoryItem" where
  "stock_item i = \<lparr>inv_ProductID = iv_referenceID i, inv_Quantity = iv_quantity i\<rparr>"

text \<open>An order whose transition to \<open>t\<close> is done and that has no saga.\<close>

definition settled :: "OrderStatus \<Rightarrow> order_view \<Rightarrow> order_view" where
  "settled t v = v_set_saga SagaStatusIdle None None None (if v_status v \<noteq> t then v_set_status t v else v)"

lemma settled_sel [simp]:
  "v_status (settled t v) = t" "v_sagaStatus (settled t v) = SagaStatusIdle"
  "v_currentSagaID (settled t v) = None" "v_items (settled t v) = v_items v"
  by (simp_all add: settled_def)

lemma mset_inventoryItems:
  "mset (inventoryItems s) = image_mset stock_item (product_lines (abs_order s))"
proof -
  have "mset (inventoryItems s) = image_mset (\<lambda>i. stock_item (abs_item i))
      (filter_mset (\<lambda>i. item_itemType i = ItemTypeProduct) (mset (active (so_items s))))"
    by (simp add: inventoryItems_def GetProductItems_def active_def stock_item_def abs_item_def
        filter_filter_mset image_mset.compositionality comp_def conj_commute flip: mset_filter)
  also have "\<dots> = image_mset stock_item (product_lines (abs_order s))"
    by (simp add: product_lines_def abs_items_def filter_mset_image_mset
        image_mset.compositionality comp_def) (simp add: abs_item_def)
  finally show ?thesis .
qed

lemma inventoryItems_Nil_iff: "product_lines (abs_order s) = {#} \<longleftrightarrow> inventoryItems s = []"
  using mset_inventoryItems [of s] by (metis image_mset_is_empty_iff mset_zero_iff)

subsection \<open>Every operation moves along the abstract machine\<close>

context service_env
begin

lemma advances_transitionLocal:
  "t \<noteq> StatusAwaitingPayment \<Longrightarrow> advances view (held canon s) (transitionLocal D s t op sid nts)"
  unfolding transitionLocal_def Let_def
  by (intro advances_method [OF reads_maybe_update] advances_method [OF reads_CompleteSagaE]
      advances_skip [OF reads_saga_saveHistory] advances_then [OF advances_Save]
      advances_skip [OF reads_saga_sendStatusUpdateEmail] advances_returnE)

lemma advances_StartSaga:
  assumes "saga_target t"
  shows "advances view P (StartSaga D i op t nts)"
  unfolding StartSaga_def Let_def
proof (intro advances_find_held advances_if advances_throwE)
  fix s :: ServiceOrder
  assume idle: "so_sagaStatus s \<noteq> SagaStatusAwaitingInventory"
  show "advances view (held canon s)
      (bindE (transitionLocal D s t op '''' nts)
        (\<lambda>order. returnE \<lparr>sr_Order = order, sr_SagaID = '''', sr_Async = False\<rparr>))"
    by (rule advances_then [OF advances_transitionLocal [OF saga_target_not_payment [OF assms]]]) simp
  have "reads view (NewV7 D) (\<lambda>sid _. canon sid = Some sid)"
    unfolding NewV7_def by (auto simp: reads_def external_Inr uuid_canonical external_def)
  then show "advances view (held canon s)
      (bindE (NewV7 D) (\<lambda>sagaID. bindE (StartSagaE D sagaID t nts s) (\<lambda>order.
       bindE (Save D order) (\<lambda>order. bindE (PublishRequest D sagaID (so_id order) op (inventoryItems s)) (\<lambda>_.
       returnE \<lparr>sr_Order = order, sr_SagaID = sagaID, sr_Async = True\<rparr>)))))"
  proof (rule advances_read)
    fix sid
    show "advances view (\<lambda>V. held canon s V \<and> canon sid = Some sid)
      (bindE (StartSagaE D sid t nts s) (\<lambda>order.
       bindE (Save D order) (\<lambda>order. bindE (PublishRequest D sid (so_id order) op (inventoryItems s)) (\<lambda>_.
       returnE \<lparr>sr_Order = order, sr_SagaID = sid, sr_Async = True\<rparr>))))"
    proof (cases "canon sid = Some sid")
      case True
      show ?thesis
        by (rule advances_weaken [where P = "held canon s"],
            intro advances_method [OF reads_StartSagaE [where canon = canon and sid = sid, OF idle assms True]]
              advances_then [OF advances_Save] advances_skip [OF reads_calls(5)] advances_returnE) simp
    next
      case False
      then show ?thesis by (simp add: advances_def)
    qed
  qed
qed

lemma advances_CancelOrder: "advances view P (CancelOrder D i nts)"
  unfolding CancelOrder_def
proof (intro advances_find_held advances_if advances_throwE)
  fix s :: ServiceOrder
  show "advances view (held canon s)
      (case plan_cancel (so_status s) of
         CancelLocally \<Rightarrow> bindE (transitionLocal D s StatusCanceled InventoryOpNone '''' nts)
           (\<lambda>order. returnE \<lparr>sr_Order = order, sr_SagaID = '''', sr_Async = False\<rparr>)
       | CancelBySaga operation \<Rightarrow> StartSaga D i operation StatusCanceled nts
       | CancelRefused \<Rightarrow> throwE ErrInvalidStatusTransition)"
    by (cases "plan_cancel (so_status s)")
      (auto intro!: advances_then [OF advances_transitionLocal] advances_StartSaga simp: saga_target_def)
qed

lemma targetStatusForSuccess_target:
  assumes "targetStatusForSuccess s op = Inr t" and "\<forall>u. so_sagaTargetStatus s = Some u \<longrightarrow> saga_target u"
  shows "saga_target t"
  using assms by (auto simp: targetStatusForSuccess_def saga_target_def split: option.splits if_splits)


lemma stored_target:
  assumes "\<exists>V. wf_store V \<and> V (so_id s) = Some (abs_order s)"
  shows "\<forall>u. so_sagaTargetStatus s = Some u \<longrightarrow> saga_target u"
  using assms by (auto simp: wf_store_def view_wf_def dest!: spec [of _ "so_id s"])

lemma advances_HandleSucceeded: "advances view wf_store (HandleSucceeded D ev)"
  unfolding HandleSucceeded_def Let_def
proof (intro advances_find_stored advances_if advances_returnE)
  fix s :: ServiceOrder
  assume st: "\<exists>V. wf_store V \<and> V (so_id s) = Some (abs_order s)"
  let ?op = "StockOperationType_of (es_Operation ev)"
  show "advances view (held canon s)
      (bindE (liftE (targetStatusForSuccess s ?op)) (\<lambda>t.
       bindE (if so_status s \<noteq> t then UpdateStatusE D t s else returnE s) (\<lambda>order.
       bindE (CompleteSagaE D order) (\<lambda>order.
       bindE (saga_saveHistory D order (so_status s) t ?op (es_SagaID ev) None (so_sagaNotes s)) (\<lambda>_.
       bindE (Save D order) (\<lambda>order. saga_sendStatusUpdateEmail D order (so_status s) t))))))"
  proof (cases "targetStatusForSuccess s ?op")
    case (Inl e)
    then show ?thesis by simp
  next
    case (Inr t)
    then have "saga_target t" using targetStatusForSuccess_target stored_target [OF st] by blast
    then show ?thesis unfolding Inr liftE_Inr bindE_returnE
      by (intro advances_method [OF reads_maybe_update] advances_method [OF reads_CompleteSagaE]
          advances_skip [OF reads_saga_saveHistory] advances_then [OF advances_Save]
          reads_advances [OF reads_saga_sendStatusUpdateEmail] saga_target_not_payment)
  qed
qed

lemma advances_HandleFailed: "advances view P (HandleFailed D ev)"
  unfolding HandleFailed_def Let_def
  by (intro advances_find_held advances_if advances_returnE advances_method [OF reads_FailSagaE]
      advances_skip [OF reads_saga_saveHistory] advances_then [OF advances_Save]
      reads_advances [OF reads_saga_sendStatusUpdateEmail])

lemma reads_IsCurrentSaga: "reads view (IsCurrentSaga D i sid) (\<lambda>_ _. True)"
  unfolding IsCurrentSaga_def by (rule reads_bindE [OF reads_FindByID]) simp

lemma reads_FindBySagaStatus:
  assumes "st \<notin> {'''', SagaStatusIdle}"
  shows "reads view (FindBySagaStatus D st) (\<lambda>ss V. distinct (map so_id ss) \<and> (\<forall>s \<in> set ss. loaded s) \<and>
     (\<forall>j v. (V j = Some v \<and> v_sagaStatus v = st) \<longleftrightarrow> (\<exists>s \<in> set ss. so_id s = j \<and> abs_order s = v)))"
  unfolding reads_def FindBySagaStatus_def on_db_def
proof (intro allI impI)
  fix w :: "'db world" and r w'
  assume "(case repo_FindBySagaStatus (orderRepo D) st (w_db w) of (r, db) \<Rightarrow> (r, w\<lparr>w_db := db\<rparr>)) = (r, w')"
  then obtain db where f: "repo_FindBySagaStatus (orderRepo D) st (w_db w) = (r, db)"
    and w': "w' = w\<lparr>w_db := db\<rparr>" by (auto split: prod.splits)
  show "view (w_db w') = view (w_db w) \<and> (\<forall>ss. r = Inr ss \<longrightarrow> distinct (map so_id ss) \<and>
      (\<forall>s \<in> set ss. loaded s) \<and> (\<forall>j v. (view (w_db w) j = Some v \<and> v_sagaStatus v = st) \<longleftrightarrow>
        (\<exists>s \<in> set ss. so_id s = j \<and> abs_order s = v)))"
    using list_frame [OF f] list_saga [OF _ assms] f w' by auto
qed

lemmas reads_FindAwaiting =
  reads_FindBySagaStatus [of SagaStatusAwaitingInventory, simplified]

lemma reads_RecoverAwaitingSagas: "reads view (RecoverAwaitingSagas D) (\<lambda>_ _. True)"
proof -
  have body: "reads view (case so_currentSagaID s of None \<Rightarrow> returnE ()
      | Some sagaID \<Rightarrow> bindE (liftE (inferOperation s)) (\<lambda>operation.
          PublishRequest D sagaID (so_id s) operation (inventoryItems s))) (\<lambda>_ _. True)" for s
    by (auto split: option.split intro: reads_bindE [OF reads_liftE [where Q = "\<lambda>_ _. True"]])
  have "reads view (foreachE ss (\<lambda>s. case so_currentSagaID s of None \<Rightarrow> returnE ()
      | Some sagaID \<Rightarrow> bindE (liftE (inferOperation s)) (\<lambda>operation.
          PublishRequest D sagaID (so_id s) operation (inventoryItems s)))) (\<lambda>_ _. True)" for ss
    by (induction ss) (auto intro: reads_bindE [OF body])
  then show ?thesis unfolding RecoverAwaitingSagas_def
    by (intro reads_bindE [OF reads_FindAwaiting]) (auto intro: reads_weaken)
qed


subsection \<open>Exact effects\<close>

lemma transitionLocal_run:
  assumes run: "transitionLocal D s t op sid remarks w = (Inr s', w')"
    and h: "held canon s (view (w_db w))" and t: "t \<noteq> StatusAwaitingPayment"
  shows "view (w_db w') = (view (w_db w))(so_id s \<mapsto> settled t (abs_order s))"
    and "requests (w_log w') = requests (w_log w)" and "mp_calls (w_log w') = mp_calls (w_log w)"
    and "so_status s = t \<or> CanTransitionTo (so_status s) t"
    and "\<exists>h. histories (w_log w') = histories (w_log w) @ [h] \<and> h_serviceOrderID h = so_id s \<and>
           h_status h = t \<and> h_metadata h ''status'' =
             Some (MetaChange (status_String (so_status s)) (status_String t))"
    and "so_id s' = so_id s"
proof -
  from run obtain s1 s2 w1 w2 w3 w4 where
    upd: "(if so_status s \<noteq> t then UpdateStatusE D t s else returnE s) w = (Inr s1, w1)" and
    comp: "CompleteSagaE D s1 w1 = (Inr s2, w2)" and
    hist: "saga_saveHistory D s2 (so_status s) t op sid None remarks w2 = (Inr (), w3)" and
    save: "Save D s2 w3 = (Inr s', w4)" and
    mail: "saga_sendStatusUpdateEmail D s' (so_status s) t w4 = (Inr (), w')"
    by (auto simp: transitionLocal_def bindE_Inr_iff Let_def)
  note m = maybe_update_run [OF upd]
  have h1: "held canon s1 (view (w_db w))" using reads_run(2) [OF reads_maybe_update [OF t] upd] h by blast
  obtain n where s2: "s2 = CompleteSaga n s1" and q2: "quiet w1 w2" using CompleteSagaE_run [OF comp] by auto
  have db3: "w_db w3 = w_db w" using saga_saveHistory_run(1) [OF hist] q2 m(1) by (simp add: quiet_def)
  have h2: "held canon s2 (view (w_db w3))" unfolding s2 db3 using h1 by (rule held_CompleteSaga)
  note sv = Save_held [OF save h2] and ml = saga_email_run [OF mail]
  obtain hr where hr: "w_log w3 = w_log w2 @ [HistorySaved hr]" "h_serviceOrderID hr = so_id s2"
    "h_status hr = t" "h_metadata hr ''status'' =
       Some (MetaChange (status_String (so_status s)) (status_String t))"
    using saga_saveHistory_run(2) [OF hist] by blast
  have log: "w_log w2 = w_log w" using q2 m(1) by (simp add: quiet_def)
  show "view (w_db w') = (view (w_db w))(so_id s \<mapsto> settled t (abs_order s))"
    using sv(1) ml m(2,3) db3 by (simp add: s2 settled_def)
  show "requests (w_log w') = requests (w_log w)" using ml sv(2) hr(1) log by simp
  show "mp_calls (w_log w') = mp_calls (w_log w)" using ml sv(2) hr(1) log by simp
  show "so_status s = t \<or> CanTransitionTo (so_status s) t" using m(4) by blast
  show "\<exists>h. histories (w_log w') = histories (w_log w) @ [h] \<and> h_serviceOrderID h = so_id s \<and>
      h_status h = t \<and> h_metadata h ''status'' =
        Some (MetaChange (status_String (so_status s)) (status_String t))"
    using ml sv(2) hr log m(2) by (intro exI [of _ hr]) (simp add: s2)
  show "so_id s' = so_id s" using sv(3) m(2) by (simp add: s2)
qed

lemma StartSaga_run:
  assumes run: "StartSaga D i op t remarks w = (Inr r, w')" and t: "saga_target t"
  shows "\<exists>j v. canon i = Some j \<and> view (w_db w) j = Some v \<and>
    v_sagaStatus v \<noteq> SagaStatusAwaitingInventory \<and> mp_calls (w_log w') = mp_calls (w_log w) \<and>
    so_id (sr_Order r) = j \<and>
    (if product_lines v = {#}
     then \<not> sr_Async r \<and> (v_status v = t \<or> CanTransitionTo (v_status v) t) \<and>
          view (w_db w') = (view (w_db w))(j \<mapsto> settled t v) \<and>
          requests (w_log w') = requests (w_log w)
     else sr_Async r \<and>
          view (w_db w') = (view (w_db w))(j \<mapsto> v_set_saga SagaStatusAwaitingInventory
            (Some (sr_SagaID r)) (Some t) remarks v) \<and>
          (\<exists>items. mset items = image_mset stock_item (product_lines v) \<and>
             requests (w_log w') = requests (w_log w) @ [(sr_SagaID r, j, op, items)]))"
proof -
  from run obtain s w1 where find: "FindByID D i w = (Inr s, w1)"
    and idle: "so_sagaStatus s \<noteq> SagaStatusAwaitingInventory"
    and rest: "(if inventoryItems s = [] then
         bindE (transitionLocal D s t op '''' remarks) (\<lambda>order.
         returnE \<lparr>sr_Order = order, sr_SagaID = '''', sr_Async = False\<rparr>)
       else
         bindE (NewV7 D) (\<lambda>sagaID.
         bindE (StartSagaE D sagaID t remarks s) (\<lambda>order.
         bindE (Save D order) (\<lambda>order.
         bindE (PublishRequest D sagaID (so_id order) op (inventoryItems s)) (\<lambda>_.
         returnE \<lparr>sr_Order = order, sr_SagaID = sagaID, sr_Async = True\<rparr>))))) w1 = (Inr r, w')"
    by (auto simp: StartSaga_def bindE_Inr_iff Let_def split: if_splits)
  note f = FindByID_run [OF find]
  have h: "held canon s (view (w_db w1))" using f(1,6) by simp
  have prods: "product_lines (abs_order s) = {#} \<longleftrightarrow> inventoryItems s = []"
    "mset (inventoryItems s) = image_mset stock_item (product_lines (abs_order s))"
    by (simp_all add: mset_inventoryItems inventoryItems_Nil_iff)
  show ?thesis
  proof (cases "inventoryItems s = []")
    case True
    with rest obtain s' where tl: "transitionLocal D s t op '''' remarks w1 = (Inr s', w')"
      and r: "r = \<lparr>sr_Order = s', sr_SagaID = '''', sr_Async = False\<rparr>"
      by (auto simp: bindE_Inr_iff)
    note x = transitionLocal_run [OF tl h saga_target_not_payment [OF t]]
    show ?thesis using f(1-5) idle x True prods r by (intro exI [of _ "so_id s"] exI [of _ "abs_order s"]) simp
  next
    case False
    with rest obtain sid s1 s2 w2 w3 w4 where nv: "NewV7 D w1 = (Inr sid, w2)"
      and st: "StartSagaE D sid t remarks s w2 = (Inr s1, w3)"
      and sv: "Save D s1 w3 = (Inr s2, w4)"
      and pb: "PublishRequest D sid (so_id s2) op (inventoryItems s) w4 = (Inr (), w')"
      and r: "r = \<lparr>sr_Order = s2, sr_SagaID = sid, sr_Async = True\<rparr>"
      by (auto simp: bindE_Inr_iff)
    have sid: "canon sid = Some sid" "quiet w1 w2" using nv uuid_canonical by (auto simp: NewV7_run quiet_def)
    obtain n where o: "order_StartSaga n sid t remarks s = Inr s1" and q: "quiet w2 w3"
      using StartSagaE_run [OF st] by auto
    have db3: "w_db w3 = w_db w1" using q sid(2) by (simp add: quiet_def)
    have h1: "held canon s1 (view (w_db w3))"
      unfolding db3 by (rule held_StartSaga [OF h o idle t sid(1)])
    note x = Save_held [OF sv h1] and y = PublishRequest_run [OF pb]
    have "so_id s1 = so_id s" using o by (auto simp: order_StartSaga_Inr_iff)
    with x y f(1-5) idle False prods r db3 q sid(2) abs_order_StartSaga [OF o]
    show ?thesis by (intro exI [of _ "so_id s"] exI [of _ "abs_order s"]) (auto simp: quiet_def)
  qed
qed

end

definition current_saga :: "string \<Rightarrow> order_view \<Rightarrow> bool" where
  "current_saga sid v \<longleftrightarrow> v_sagaStatus v = SagaStatusAwaitingInventory \<and> v_currentSagaID v = Some sid"

lemma CanProcessSaga_abs: "CanProcessSaga sid s \<longleftrightarrow> current_saga sid (abs_order s)"
  by (simp add: CanProcessSaga_def current_saga_def)

text \<open>Completing a saga is the local transition to its target.\<close>

lemma HandleSucceeded_alt:
  "HandleSucceeded D ev =
     bindE (FindByID D (es_OrderID ev)) (\<lambda>s.
     if \<not> CanProcessSaga (es_SagaID ev) s then returnE ()
     else bindE (liftE (targetStatusForSuccess s (StockOperationType_of (es_Operation ev)))) (\<lambda>t.
       bindE (transitionLocal D s t (StockOperationType_of (es_Operation ev)) (es_SagaID ev)
                (so_sagaNotes s)) (\<lambda>_. returnE ())))"
  unfolding HandleSucceeded_def transitionLocal_def Let_def bindE_assoc bindE_returnE bindE_return_unit ..

context service_env
begin

lemma HandleSucceeded_run:
  assumes run: "HandleSucceeded D ev w = (Inr u, w')" and wf: "wf_store (view (w_db w))"
  shows "\<exists>j v. canon (es_OrderID ev) = Some j \<and> view (w_db w) j = Some v \<and>
    requests (w_log w') = requests (w_log w) \<and> mp_calls (w_log w') = mp_calls (w_log w) \<and>
    (if current_saga (es_SagaID ev) v
     then \<exists>t h. v_sagaTargetStatus v = Some t \<and> (v_status v = t \<or> CanTransitionTo (v_status v) t) \<and>
            view (w_db w') = (view (w_db w))(j \<mapsto> settled t v) \<and>
            histories (w_log w') = histories (w_log w) @ [h] \<and> h_serviceOrderID h = j \<and> h_status h = t
     else view (w_db w') = view (w_db w) \<and> w_log w' = w_log w)"
proof -
  from run obtain s w1 where find: "FindByID D (es_OrderID ev) w = (Inr s, w1)" and
    rest: "(if \<not> CanProcessSaga (es_SagaID ev) s then returnE ()
     else bindE (liftE (targetStatusForSuccess s (StockOperationType_of (es_Operation ev)))) (\<lambda>t.
       bindE (transitionLocal D s t (StockOperationType_of (es_Operation ev)) (es_SagaID ev)
                (so_sagaNotes s)) (\<lambda>_. returnE ()))) w1 = (Inr u, w')"
    by (auto simp: HandleSucceeded_alt bindE_Inr_iff)
  note f = FindByID_run [OF find]
  show ?thesis
  proof (cases "CanProcessSaga (es_SagaID ev) s")
    case False
    with rest f(1-3,5) show ?thesis
      by (intro exI [of _ "so_id s"] exI [of _ "abs_order s"]) (auto simp: CanProcessSaga_abs)
  next
    case True
    with rest obtain t s' where tt: "targetStatusForSuccess s (StockOperationType_of (es_Operation ev)) = Inr t"
      and tl: "transitionLocal D s t (StockOperationType_of (es_Operation ev)) (es_SagaID ev)
                (so_sagaNotes s) w1 = (Inr s', w')"
      by (auto simp: bindE_Inr_iff)
    have v: "view_wf (abs_order s)" using wf f(5) by (auto simp: wf_store_def)
    with True have "so_sagaTargetStatus s \<noteq> None"
      by (auto simp: CanProcessSaga_def view_wf_def)
    with tt have tgt: "so_sagaTargetStatus s = Some t" by (auto simp: targetStatusForSuccess_def)
    with v have "saga_target t" by (auto simp: view_wf_def)
    then have ap: "t \<noteq> StatusAwaitingPayment" by (rule saga_target_not_payment)
    have h: "held canon s (view (w_db w1))" using f(1,6) by simp
    from transitionLocal_run [OF tl h ap] True f(1-3,5) tgt show ?thesis
      by (intro exI [of _ "so_id s"] exI [of _ "abs_order s"]) (auto simp: CanProcessSaga_abs)
  qed
qed

lemma HandleFailed_run:
  assumes run: "HandleFailed D ev w = (Inr u, w')"
  shows "\<exists>j v. canon (ef_OrderID ev) = Some j \<and> view (w_db w) j = Some v \<and>
    requests (w_log w') = requests (w_log w) \<and> mp_calls (w_log w') = mp_calls (w_log w) \<and>
    (if current_saga (ef_SagaID ev) v
     then view (w_db w') = (view (w_db w))(j \<mapsto> v_set_saga SagaStatusFailed None None None v) \<and>
          (\<exists>h. histories (w_log w') = histories (w_log w) @ [h] \<and> h_serviceOrderID h = j \<and>
               h_status h = v_status v)
     else view (w_db w') = view (w_db w) \<and> w_log w' = w_log w)"
proof -
  let ?op = "StockOperationType_of (ef_Operation ev)"
  from run obtain s w1 where find: "FindByID D (ef_OrderID ev) w = (Inr s, w1)" and
    rest: "(if \<not> CanProcessSaga (ef_SagaID ev) s then returnE ()
      else bindE (FailSagaE D s) (\<lambda>order.
       bindE (saga_saveHistory D order (so_status s) (so_status s) ?op (ef_SagaID ev)
                (Some (ef_Reason ev)) None) (\<lambda>_.
       bindE (Save D order) (\<lambda>order.
       saga_sendStatusUpdateEmail D order (so_status s) (so_status s))))) w1 = (Inr u, w')"
    unfolding HandleFailed_def Let_def bindE_Inr_iff by blast
  note f = FindByID_run [OF find]
  show ?thesis
  proof (cases "CanProcessSaga (ef_SagaID ev) s")
    case False
    with rest f(1-3,5) show ?thesis
      by (intro exI [of _ "so_id s"] exI [of _ "abs_order s"]) (auto simp: CanProcessSaga_abs)
  next
    case True
    with rest obtain s1 s2 w2 w3 w4 where fs: "FailSagaE D s w1 = (Inr s1, w2)"
      and hist: "saga_saveHistory D s1 (so_status s) (so_status s) ?op (ef_SagaID ev)
                (Some (ef_Reason ev)) None w2 = (Inr (), w3)"
      and sv: "Save D s1 w3 = (Inr s2, w4)"
      and ml: "saga_sendStatusUpdateEmail D s2 (so_status s) (so_status s) w4 = (Inr u, w')"
      by (auto simp: bindE_Inr_iff)
    obtain n where s1: "s1 = FailSaga n s" and q: "quiet w1 w2" using FailSagaE_run [OF fs] by auto
    obtain h where h: "w_log w3 = w_log w2 @ [HistorySaved h]" "h_serviceOrderID h = so_id s1"
      "h_status h = so_status s" using saga_saveHistory_run(2) [OF hist] by blast
    have db: "view (w_db w3) = view (w_db w)"
      using saga_saveHistory_run(1) [OF hist] q f(1) by (simp add: quiet_def)
    have "held canon s1 (view (w_db w3))" unfolding s1 db using f(6) by (intro held_FailSaga) simp
    note x = Save_held [OF sv this] and y = saga_email_run [OF ml]
    show ?thesis using True f(1-3,5) x y h db q
      by (intro exI [of _ "so_id s"] exI [of _ "abs_order s"])
        (simp add: CanProcessSaga_abs s1 quiet_def)
  qed
qed

text \<open>An order whose saga aims at a status it can no longer reach is stuck.\<close>

lemma HandleSucceeded_blocked:
  assumes run: "HandleSucceeded D ev w = (r, w')" and cn: "canon (es_OrderID ev) = Some j"
    and v: "view (w_db w) j = Some v" "current_saga (es_SagaID ev) v"
    and t: "v_sagaTargetStatus v = Some t" "v_status v \<noteq> t" "\<not> CanTransitionTo (v_status v) t"
  shows "(\<exists>e. r = Inl e) \<and> view (w_db w') = view (w_db w) \<and> w_log w' = w_log w"
proof (cases "FindByID D (es_OrderID ev) w")
  case (Pair r1 w1)
  note f = FindByID_run [OF Pair]
  show ?thesis
  proof (cases r1)
    case (Inl e)
    with run Pair f(1,2) show ?thesis by (auto simp: HandleSucceeded_alt bindE_def)
  next
    case (Inr s)
    with f(3) cn have j: "so_id s = j" by simp
    with f(5) Inr v(1) have a: "abs_order s = v" by auto
    have cp: "CanProcessSaga (es_SagaID ev) s" using v(2) by (simp add: CanProcessSaga_abs a)
    have st: "so_status s = v_status v" "so_sagaTargetStatus s = Some t"
      using a t(1) abs_order_sel(4,7) [of s] by simp_all
    have "\<exists>e w2. UpdateStatusE D t s w1 = (Inl e, w2) \<and> quiet w1 w2"
    proof (cases "UpdateStatusE D t s w1")
      case (Pair r2 w2)
      with UpdateStatusE_run [OF Pair] t(3) st show ?thesis
        by (cases r2) (auto simp: UpdateStatus_Inr_iff)
    qed
    then obtain e w2 where "UpdateStatusE D t s w1 = (Inl e, w2)" "quiet w1 w2" by blast
    with run Pair Inr cp st t(2) have "r = Inl e" "w' = w2"
      by (auto simp: HandleSucceeded_def bindE_def Let_def targetStatusForSuccess_def)
    with \<open>quiet w1 w2\<close> f(1,2) show ?thesis by (simp add: quiet_def)
  qed
qed

lemma start_refused:
  assumes "StartSaga D i op t remarks w = (r, w') \<or> CancelOrder D i remarks w = (r', w')"
    and cn: "canon i = Some j"
    and v: "view (w_db w) j = Some v" "v_sagaStatus v = SagaStatusAwaitingInventory"
  shows "view (w_db w') = view (w_db w) \<and> w_log w' = w_log w"
proof (cases "FindByID D i w")
  case (Pair r1 w1)
  note f = FindByID_run [OF Pair]
  show ?thesis
  proof (cases r1)
    case (Inl e)
    with assms(1) Pair f(1,2) show ?thesis by (auto simp: StartSaga_def CancelOrder_def bindE_def)
  next
    case (Inr s)
    with f(3,5) cn v have "so_sagaStatus s = SagaStatusAwaitingInventory" by auto
    with assms(1) Pair Inr f(1,2) show ?thesis
      by (auto simp: StartSaga_def CancelOrder_def bindE_def split: if_splits)
  qed
qed

lemma CancelOrder_final:
  assumes run: "CancelOrder D i remarks w = (x, w')" and "canon i = Some j" and "view (w_db w) j = Some v"
    and final: "final_status (v_status v)"
  shows "(\<exists>e. x = Inl e) \<and> view (w_db w') = view (w_db w) \<and> w_log w' = w_log w"
proof -
  obtain y w1 where find: "FindByID D i w = (y, w1)" by fastforce
  note f = FindByID_run [OF find]
  show ?thesis
  proof (cases y)
    case (Inl e)
    with run find f(1,2) show ?thesis by (auto simp: CancelOrder_def bindE_def)
  next
    case (Inr s)
    with f(3,5) assms(2,3) have "v = abs_order s" by auto
    with final have "plan_cancel (so_status s) = CancelRefused" by (auto simp: final_status_def)
    with run find Inr f(1,2) show ?thesis by (auto simp: CancelOrder_def bindE_def throwE_def split: if_splits)
  qed
qed

lemma CancelOrder_run:
  assumes run: "CancelOrder D i remarks w = (Inr r, w')"
  shows "\<exists>j v. canon i = Some j \<and> view (w_db w) j = Some v \<and>
    v_sagaStatus v \<noteq> SagaStatusAwaitingInventory \<and> mp_calls (w_log w') = mp_calls (w_log w) \<and>
    plan_cancel (v_status v) \<noteq> CancelRefused \<and>
    (if sr_Async r
     then \<exists>op items. plan_cancel (v_status v) = CancelBySaga op \<and>
            view (w_db w') = (view (w_db w))(j \<mapsto> v_set_saga SagaStatusAwaitingInventory
              (Some (sr_SagaID r)) (Some StatusCanceled) remarks v) \<and>
            mset items = image_mset stock_item (product_lines v) \<and>
            requests (w_log w') = requests (w_log w) @ [(sr_SagaID r, j, op, items)]
     else (plan_cancel (v_status v) = CancelLocally \<or> product_lines v = {#}) \<and>
          view (w_db w') = (view (w_db w))(j \<mapsto> settled StatusCanceled v) \<and>
          requests (w_log w') = requests (w_log w))"
proof -
  from run obtain s w1 where find: "FindByID D i w = (Inr s, w1)"
    and idle: "so_sagaStatus s \<noteq> SagaStatusAwaitingInventory"
    and rest: "(case plan_cancel (so_status s) of
       CancelLocally \<Rightarrow>
         bindE (transitionLocal D s StatusCanceled InventoryOpNone '''' remarks) (\<lambda>order.
         returnE \<lparr>sr_Order = order, sr_SagaID = '''', sr_Async = False\<rparr>)
     | CancelBySaga operation \<Rightarrow> StartSaga D i operation StatusCanceled remarks
     | CancelRefused \<Rightarrow> throwE ErrInvalidStatusTransition) w1 = (Inr r, w')"
    by (auto simp: CancelOrder_def bindE_Inr_iff split: if_splits)
  note f = FindByID_run [OF find]
  show ?thesis
  proof (cases "plan_cancel (so_status s)")
    case CancelLocally
    with rest obtain s' where tl: "transitionLocal D s StatusCanceled InventoryOpNone '''' remarks w1 = (Inr s', w')"
      and r: "r = \<lparr>sr_Order = s', sr_SagaID = '''', sr_Async = False\<rparr>"
      by (auto simp: bindE_Inr_iff)
    have h: "held canon s (view (w_db w1))" using f(1,6) by simp
    from transitionLocal_run [OF tl h] f(1-3,5) idle r CancelLocally show ?thesis
      by (intro exI [of _ "so_id s"] exI [of _ "abs_order s"]) simp
  next
    case (CancelBySaga op)
    with rest have ss: "StartSaga D i op StatusCanceled remarks w1 = (Inr r, w')" by simp
    from StartSaga_run [OF ss] obtain j v where "canon i = Some j" "view (w_db w1) j = Some v"
      and x: "mp_calls (w_log w') = mp_calls (w_log w1)"
        "if product_lines v = {#}
         then \<not> sr_Async r \<and> (v_status v = StatusCanceled \<or> CanTransitionTo (v_status v) StatusCanceled) \<and>
          view (w_db w') = (view (w_db w1))(j \<mapsto> settled StatusCanceled v) \<and>
          requests (w_log w') = requests (w_log w1)
         else sr_Async r \<and>
          view (w_db w') = (view (w_db w1))(j \<mapsto> v_set_saga SagaStatusAwaitingInventory
            (Some (sr_SagaID r)) (Some StatusCanceled) remarks v) \<and>
          (\<exists>items. mset items = image_mset stock_item (product_lines v) \<and>
             requests (w_log w') = requests (w_log w1) @ [(sr_SagaID r, j, op, items)])"
      by (auto simp: saga_target_def)
    moreover from this f(1,3,5) have "j = so_id s" "v = abs_order s" by auto
    ultimately show ?thesis using f(1-3,5) idle CancelBySaga
      by (intro exI [of _ j] exI [of _ v]) (auto split: if_splits)
  next
    case CancelRefused
    with rest show ?thesis by simp
  qed
qed

end

end
