(* ===== verification/Status_Properties.thy ===== *)
theory Status_Properties
  imports Order_Status
begin

text \<open>
  The properties of the statuses, their transitions and the stock operations that go with them. The
  last are measured against a ledger of what the stock service holds for an order.
\<close>

subsection \<open>The stock ledger\<close>

datatype stock_state = NoStock | ReservedStock | ConsumedStock

text \<open>What the stock service holds for an order of a given status, when both agree.\<close>

fun stock_of :: "OrderStatus \<Rightarrow> stock_state" where
  "stock_of StatusPendingAuthorization = ReservedStock"
| "stock_of StatusAuthorized = ReservedStock"
| "stock_of StatusInProgress = ReservedStock"
| "stock_of StatusCompleted = ConsumedStock"
| "stock_of StatusAwaitingPayment = ConsumedStock"
| "stock_of StatusPaymentRejected = ConsumedStock"
| "stock_of StatusPaid = ConsumedStock"
| "stock_of StatusDelivered = ConsumedStock"
| "stock_of _ = NoStock"

text \<open>What an operation does to it; \<open>None\<close> where the operation does not apply.\<close>

fun apply_op :: "StockOperationType \<Rightarrow> stock_state \<Rightarrow> stock_state option" where
  "apply_op StockOpReserve NoStock = Some ReservedStock"
| "apply_op StockOpReservedDecrease ReservedStock = Some ConsumedStock"
| "apply_op StockOpCancelReserved ReservedStock = Some NoStock"
| "apply_op StockOpCancelConfirmed ConsumedStock = Some NoStock"
| "apply_op InventoryOpNone s = Some s"
| "apply_op _ _ = None"

subsection \<open>Properties\<close>

text \<open>
  Claim C29. The transition check of the code allows exactly the edges of the workflow: the line from
  received to delivered, the denial of a budget, the rejection of a payment and its retry, and the
  cancellation of every order that is not delivered, canceled or denied.
\<close>

theorem CanTransitionTo_is_workflow: "CanTransitionTo s t \<longleftrightarrow> workflow s t"
  by (rule CanTransitionTo_iff_workflow)

text \<open>
  Claim C30. Every life of an order is finite but for payment retries: a run of allowed transitions has at
  most ten of them plus two for each retry of a rejected payment, and a final status can only be the
  last of the run.
\<close>

theorem transition_path_bounded:
  assumes "transition_path (s # ss)"
  shows "length ss + progress s \<le> 10 + 2 * retries (s # ss) \<and>
         (\<forall>u \<in> set (butlast (s # ss)). \<not> final_status u)"
proof
  show "length ss + progress s \<le> 10 + 2 * retries (s # ss)" by (rule transition_path_length [OF assms])
  show "\<forall>u \<in> set (butlast (s # ss)). \<not> final_status u"
    using assms by (induction ss arbitrary: s) (auto dest: CanTransitionTo_final)
qed

theorem transition_path_bounded_witness:
  "length [StatusAuthorized, StatusInProgress, StatusCanceled] + progress StatusPendingAuthorization \<le> 10"
proof -
  have "transition_path [StatusPendingAuthorization, StatusAuthorized, StatusInProgress, StatusCanceled]"
    by (simp add: CanTransitionTo_def)
  from transition_path_bounded [OF this] show ?thesis by simp
qed

text \<open>
  The next status of the normal flow is always reached by an allowed transition that is neither a
  cancellation, nor a denial, nor a rejection; there is none exactly for the final statuses and for a
  rejected payment; and from received it leads through the nine statuses to delivered.
\<close>

theorem NextStatus_normal_flow:
  "(NextStatus s = Inr t \<longrightarrow> workflow s t \<and>
      t \<notin> {StatusCanceled, StatusAuthorizationDenied, StatusPaymentRejected}) \<and>
   (status_IsValid s \<longrightarrow>
      (NextStatus s = Inl ErrNoNextStatus \<longleftrightarrow> final_status s \<or> s = StatusPaymentRejected)) \<and>
   advance_path 20 StatusReceived =
     [StatusReceived, StatusDiagnosing, StatusPendingAuthorization, StatusAuthorized,
      StatusInProgress, StatusCompleted, StatusAwaitingPayment, StatusPaid, StatusDelivered]"
proof (intro conjI impI)
  show "workflow s t" if "NextStatus s = Inr t"
    using NextStatus_CanTransitionTo [OF that] by (simp add: CanTransitionTo_iff_workflow)
  show "t \<notin> {StatusCanceled, StatusAuthorizationDenied, StatusPaymentRejected}" if "NextStatus s = Inr t"
    using that by (cases s) auto
  show "NextStatus s = Inl ErrNoNextStatus \<longleftrightarrow> final_status s \<or> s = StatusPaymentRejected"
    if "status_IsValid s"
    using that by (cases s) (auto simp: final_status_def)
qed (simp add: numeral_eq_Suc)

theorem NextStatus_normal_flow_witness: "workflow StatusCompleted StatusAwaitingPayment"
  using NextStatus_normal_flow [of StatusCompleted StatusAwaitingPayment] by simp

text \<open>
  Reading a status is the inverse of writing it: a string is accepted exactly when it is the
  name of one of the twelve statuses, and then gives that status; every other string is refused as an
  invalid status.
\<close>

theorem NewOrderStatus_roundtrip:
  "(NewOrderStatus v = Inr s \<longleftrightarrow> status_IsValid s \<and> status_String s = v) \<and>
   (NewOrderStatus v = Inl e \<longleftrightarrow> e = ErrInvalidStatus \<and> (\<forall>s. status_IsValid s \<longrightarrow> status_String s \<noteq> v))"
proof
  show "NewOrderStatus v = Inr s \<longleftrightarrow> status_IsValid s \<and> status_String s = v"
    by (rule NewOrderStatus_Inr_iff)
  show "NewOrderStatus v = Inl e \<longleftrightarrow>
      e = ErrInvalidStatus \<and> (\<forall>s. status_IsValid s \<longrightarrow> status_String s \<noteq> v)"
  proof
    assume *: "NewOrderStatus v = Inl e"
    then have "e = ErrInvalidStatus" by (auto simp: NewOrderStatus_def Let_def split: if_splits)
    moreover have "\<forall>s. status_IsValid s \<longrightarrow> status_String s \<noteq> v"
      using * NewOrderStatus_Inr_iff by (metis Inl_Inr_False)
    ultimately show "e = ErrInvalidStatus \<and> (\<forall>s. status_IsValid s \<longrightarrow> status_String s \<noteq> v)" ..
  next
    assume *: "e = ErrInvalidStatus \<and> (\<forall>s. status_IsValid s \<longrightarrow> status_String s \<noteq> v)"
    then show "NewOrderStatus v = Inl e"
      using status_String_of [of v] by (auto simp: NewOrderStatus_def Let_def)
  qed
qed

theorem NewOrderStatus_roundtrip_witness: "NewOrderStatus ''PAID'' = Inr StatusPaid"
  using NewOrderStatus_roundtrip [of "''PAID''" StatusPaid ErrInvalidStatus] by simp

text \<open>
  The stock operation the domain determines for a transition takes the stock service from what it
  holds for the old status to what it should hold for the new one, for every transition of the
  workflow except cancellations: the reservation when the budget is submitted, the consumption when
  the work is completed, the release when the budget is denied, and nothing otherwise. For a
  cancellation the determined operation is right except from received and diagnosing, where it
  releases what was never reserved, and from a rejected payment, where it leaves the stock consumed.
\<close>

theorem DetermineInventoryOperation_keeps_ledger:
  "(workflow s t \<and> t \<noteq> StatusCanceled \<longrightarrow>
      apply_op (DetermineInventoryOperation s t) (stock_of s) = Some (stock_of t)) \<and>
   (workflow s StatusCanceled \<and> status_IsValid s \<longrightarrow>
      (apply_op (DetermineInventoryOperation s StatusCanceled) (stock_of s) = Some NoStock \<longleftrightarrow>
       s \<notin> {StatusReceived, StatusDiagnosing, StatusPaymentRejected}))"
proof (intro conjI impI; elim conjE)
  assume "workflow s t" "t \<noteq> StatusCanceled"
  then show "apply_op (DetermineInventoryOperation s t) (stock_of s) = Some (stock_of t)"
    by (auto elim!: workflowE simp: DetermineInventoryOperation_def)
next
  assume "workflow s StatusCanceled" "status_IsValid s"
  then show "apply_op (DetermineInventoryOperation s StatusCanceled) (stock_of s) = Some NoStock \<longleftrightarrow>
      s \<notin> {StatusReceived, StatusDiagnosing, StatusPaymentRejected}"
    unfolding workflow_to_canceled
    by (cases s) (simp_all add: final_status_def DetermineInventoryOperation_def)
qed

theorem DetermineInventoryOperation_keeps_ledger_witness:
  "apply_op (DetermineInventoryOperation StatusDiagnosing StatusPendingAuthorization) NoStock =
     Some ReservedStock"
  using DetermineInventoryOperation_keeps_ledger [of StatusDiagnosing StatusPendingAuthorization]
  by (simp add: workflow.submit)

end
