(* ===== verification/Saga_Properties.thy ===== *)
theory Saga_Properties
  imports Saga_Correct Status_Properties
begin

text \<open>
  The properties of the saga orchestrator, each for every repository that keeps the contract and every
  behaviour of the outside, with a run of the operation on a concrete world beside it.
\<close>

subsection \<open>Recovery\<close>

lemma recover_loop:
  assumes "foreachE ss (\<lambda>order.
       case so_currentSagaID order of
         None \<Rightarrow> returnE ()
       | Some sagaID \<Rightarrow>
           bindE (liftE (inferOperation order)) (\<lambda>operation.
           PublishRequest D sagaID (so_id order) operation (inventoryItems order))) w = (Inr u, w')"
  shows "w_db w' = w_db w \<and> (\<exists>new. requests (w_log w') = requests (w_log w) @ new \<and>
    list_all2 (\<lambda>s (sid, j, op, items). so_currentSagaID s = Some sid \<and> j = so_id s \<and>
        inferOperation s = Inr op \<and> items = inventoryItems s)
      (filter (\<lambda>s. so_currentSagaID s \<noteq> None) ss) new)"
  using assms
proof (induction ss arbitrary: w)
  case Nil
  then show ?case by auto
next
  case (Cons s ss)
  show ?case
  proof (cases "so_currentSagaID s")
    case None
    with Cons show ?thesis by simp
  next
    case (Some sid)
    with Cons.prems obtain op w1 where op: "inferOperation s = Inr op"
      and pub: "PublishRequest D sid (so_id s) op (inventoryItems s) w = (Inr (), w1)"
      and rest: "foreachE ss (\<lambda>order.
       case so_currentSagaID order of
         None \<Rightarrow> returnE ()
       | Some sagaID \<Rightarrow>
           bindE (liftE (inferOperation order)) (\<lambda>operation.
           PublishRequest D sagaID (so_id order) operation (inventoryItems order))) w1 = (Inr u, w')"
      by (auto simp: bindE_Inr_iff)
    from Cons.IH [OF rest] obtain new where "w_db w' = w_db w1"
      "requests (w_log w') = requests (w_log w1) @ new"
      "list_all2 (\<lambda>s (sid, j, op, items). so_currentSagaID s = Some sid \<and> j = so_id s \<and>
        inferOperation s = Inr op \<and> items = inventoryItems s)
       (filter (\<lambda>s. so_currentSagaID s \<noteq> None) ss) new" by blast
    with PublishRequest_run [OF pub] op Some show ?thesis
      by (intro conjI exI [of _ "(sid, so_id s, op, inventoryItems s) # new"]) simp_all
  qed
qed

lemma list_all2_filter_ids:
  assumes "list_all2 (\<lambda>s (sid, j, op, items). so_currentSagaID s = Some sid \<and> j = so_id s \<and>
        inferOperation s = Inr op \<and> items = inventoryItems s) ss new"
  shows "map (\<lambda>(sid, j, op, items). j) new = map so_id ss"
    and "(sid, j, op, items) \<in> set new \<longleftrightarrow>
       (\<exists>s \<in> set ss. so_currentSagaID s = Some sid \<and> j = so_id s \<and> inferOperation s = Inr op \<and>
          items = inventoryItems s)"
  using assms by (induction ss new rule: list_all2_induct) auto

context service_env
begin

lemma Recover_run:
  assumes run: "RecoverAwaitingSagas D w = (Inr u, w')"
  shows "\<exists>new. view (w_db w') = view (w_db w) \<and> requests (w_log w') = requests (w_log w) @ new \<and>
    distinct (map (\<lambda>(sid, j, op, items). j) new) \<and>
    (\<forall>sid j. (\<exists>op items. (sid, j, op, items) \<in> set new) \<longleftrightarrow>
       (\<exists>v. view (w_db w) j = Some v \<and> current_saga sid v)) \<and>
    (\<forall>(sid, j, op, items) \<in> set new. \<exists>s. view (w_db w) j = Some (abs_order s) \<and>
       inferOperation s = Inr op \<and> items = inventoryItems s)"
proof -
  from run obtain ss w1 where lst: "FindBySagaStatus D SagaStatusAwaitingInventory w = (Inr ss, w1)"
    and loop: "foreachE ss (\<lambda>order.
       case so_currentSagaID order of
         None \<Rightarrow> returnE ()
       | Some sagaID \<Rightarrow>
           bindE (liftE (inferOperation order)) (\<lambda>operation.
           PublishRequest D sagaID (so_id order) operation (inventoryItems order))) w1 = (Inr u, w')"
    unfolding RecoverAwaitingSagas_def bindE_Inr_iff by blast
  note l = reads_run [OF reads_FindAwaiting lst]
  have log1: "w_log w1 = w_log w" using lst by (auto simp: FindBySagaStatus_def on_db_def split: prod.splits)
  obtain new where db: "w_db w' = w_db w1" and new: "requests (w_log w') = requests (w_log w1) @ new"
    and rel: "list_all2 (\<lambda>s (sid, j, op, items). so_currentSagaID s = Some sid \<and> j = so_id s \<and>
        inferOperation s = Inr op \<and> items = inventoryItems s)
      (filter (\<lambda>s. so_currentSagaID s \<noteq> None) ss) new" using recover_loop [OF loop] by blast
  note ids = list_all2_filter_ids [OF rel]
  have d: "distinct (map so_id ss)" and mem: "\<And>j v. (view (w_db w) j = Some v \<and>
      v_sagaStatus v = SagaStatusAwaitingInventory) \<longleftrightarrow> (\<exists>s \<in> set ss. so_id s = j \<and> abs_order s = v)"
    using l(2) [OF refl] by blast+
  have total: "\<exists>op. inferOperation s = Inr op" if "s \<in> set (filter (\<lambda>s. so_currentSagaID s \<noteq> None) ss)" for s
    using rel that by (induction rule: list_all2_induct) auto
  have "(\<exists>op items. (sid, j, op, items) \<in> set new) \<longleftrightarrow>
       (\<exists>v. view (w_db w) j = Some v \<and> current_saga sid v)" for sid j
  proof
    assume "\<exists>op items. (sid, j, op, items) \<in> set new"
    then obtain s where s: "s \<in> set ss" "so_currentSagaID s = Some sid" "so_id s = j"
      unfolding ids(2) by auto
    then have "view (w_db w) j = Some (abs_order s) \<and> v_sagaStatus (abs_order s) = SagaStatusAwaitingInventory"
      using mem by blast
    with s(2) show "\<exists>v. view (w_db w) j = Some v \<and> current_saga sid v"
      by (intro exI [of _ "abs_order s"]) (simp add: current_saga_def)
  next
    assume "\<exists>v. view (w_db w) j = Some v \<and> current_saga sid v"
    then obtain v where v: "view (w_db w) j = Some v" "v_sagaStatus v = SagaStatusAwaitingInventory"
      "v_currentSagaID v = Some sid" by (auto simp: current_saga_def)
    with mem obtain s where "s \<in> set ss" "so_id s = j" "abs_order s = v" by blast
    moreover from this v(3) total [of s] obtain op where "inferOperation s = Inr op" by auto
    ultimately have "(sid, j, op, inventoryItems s) \<in> set new"
      unfolding ids(2) using v(3) by (intro bexI [of _ s]) auto
    then show "\<exists>op items. (sid, j, op, items) \<in> set new" by blast
  qed
  moreover have "distinct (map (\<lambda>(sid, j, op, items). j) new)"
    unfolding ids(1) using d by (rule distinct_map_filter)
  moreover have "\<exists>s. view (w_db w) j = Some (abs_order s) \<and> inferOperation s = Inr op \<and>
      items = inventoryItems s" if new_mem: "(sid, j, op, items) \<in> set new" for sid j op items
  proof -
    from new_mem obtain s where "s \<in> set ss" "so_id s = j" "inferOperation s = Inr op"
      "items = inventoryItems s" unfolding ids(2) by auto
    with mem [of j "abs_order s"] show ?thesis by blast
  qed
  ultimately show ?thesis using db l(1) new log1 by (intro exI [of _ new]) auto
qed

lemma in_flight_refused:
  assumes "StartSaga D i op t remarks w = (r, w') \<or> CancelOrder D i remarks w = (r, w')"
    and "canon i = Some j" and "view (w_db w) j = Some v"
    and "v_sagaStatus v = SagaStatusAwaitingInventory"
  shows "(\<exists>e. r = Inl e) \<and> view (w_db w') = view (w_db w) \<and> w_log w' = w_log w"
proof -
  from start_refused [OF assms] have same: "view (w_db w') = view (w_db w) \<and> w_log w' = w_log w" .
  have "r \<noteq> Inr x" for x
  proof
    assume "r = Inr x"
    with assms(1) show False
    proof (elim disjE)
      assume "StartSaga D i op t remarks w = (r, w')"
      with \<open>r = Inr x\<close> obtain s w1 where "FindByID D i w = (Inr s, w1)"
        "so_sagaStatus s \<noteq> SagaStatusAwaitingInventory"
        by (auto simp: StartSaga_def bindE_Inr_iff split: if_splits)
      with FindByID_run(3,5) [OF this(1)] assms(2-4) show False by auto
    next
      assume "CancelOrder D i remarks w = (r, w')"
      with \<open>r = Inr x\<close> CancelOrder_run [of i remarks w x w'] assms(2-4) show False by auto
    qed
  qed
  with same show ?thesis by (cases r) auto
qed

lemma HandleSucceeded_again:
  assumes first: "HandleSucceeded D ev w = (Inr u, w1)" and wf: "wf_store (view (w_db w))"
    and again: "HandleSucceeded D ev w1 = (Inr u', w2)"
  shows "view (w_db w2) = view (w_db w1) \<and> w_log w2 = w_log w1"
proof -
  have "evolves (view (w_db w)) (view (w_db w1))"
    using advances_HandleSucceeded [of ev] first wf unfolding advances_def by blast
  then have wf1: "wf_store (view (w_db w1))" using wf by (rule evolves_wf)
  from HandleSucceeded_run [OF first wf] obtain j v where jv: "canon (es_OrderID ev) = Some j"
    "view (w_db w) j = Some v" and eff: "if current_saga (es_SagaID ev) v
     then \<exists>t h. v_sagaTargetStatus v = Some t \<and> (v_status v = t \<or> CanTransitionTo (v_status v) t) \<and>
            view (w_db w1) = (view (w_db w))(j \<mapsto> settled t v) \<and>
            histories (w_log w1) = histories (w_log w) @ [h] \<and> h_serviceOrderID h = j \<and> h_status h = t
     else view (w_db w1) = view (w_db w) \<and> w_log w1 = w_log w" by blast
  then have "\<not> current_saga (es_SagaID ev) v'" if "view (w_db w1) j = Some v'" for v'
    using that by (auto simp: current_saga_def split: if_splits)
  with HandleSucceeded_run [OF again wf1] jv(1) show ?thesis by (auto split: if_splits)
qed

end

subsection \<open>Sample events\<close>

definition success_event :: "string \<Rightarrow> OrderInventoryOperationSucceeded" where
  "success_event sid = \<lparr>es_Event = ''OrderInventoryOperationSucceeded'', es_SagaID = sid,
     es_OrderID = ''os'', es_Operation = ''RESERVE'', es_OccurredAt = ''2026-01-01T00:00:00Z''\<rparr>"

definition failure_event :: "string \<Rightarrow> OrderInventoryOperationFailed" where
  "failure_event sid = \<lparr>ef_Event = ''OrderInventoryOperationFailed'', ef_SagaID = sid,
     ef_OrderID = ''os'', ef_Operation = ''RESERVE'', ef_Reason = ''stock'',
     ef_OccurredAt = ''2026-01-01T00:00:00Z''\<rparr>"

subsection \<open>Properties\<close>

text \<open>
  Claim C12. Starting a saga either finds no product among the active lines of the stored order, and then
  makes the transition at once without telling the stock service anything, or marks the order as
  waiting for the stock service, with a fresh saga identifier, the target and the remarks, leaves its
  status alone, and sends exactly one request, whose items are the product lines with their
  quantities. It never starts a second saga over one in flight, changes no other order and moves no
  money.
\<close>

theorem StartSaga_correct:
  assumes "service_env D canon view"
    and "StartSaga D i op t remarks w = (Inr r, w')" and "saga_target t"
  shows "\<exists>j v. canon i = Some j \<and> view (w_db w) j = Some v \<and>
    v_sagaStatus v \<noteq> SagaStatusAwaitingInventory \<and> mp_calls (w_log w') = mp_calls (w_log w) \<and>
    so_id (sr_Order r) = j \<and>
    (if product_lines v = {#}
     then \<not> sr_Async r \<and> (v_status v = t \<or> CanTransitionTo (v_status v) t) \<and>
          view (w_db w') = (view (w_db w))(j \<mapsto> settled t v) \<and>
          requests (w_log w') = requests (w_log w)
     else sr_Async r \<and>
          view (w_db w') = (view (w_db w))(j \<mapsto> v_set_saga SagaStatusAwaitingInventory
            (Some (sr_SagaID r)) (Some t) remarks v) \<and>
          (\<exists>items. mset items = image_mset stock_item (product_lines v) \<and>
             requests (w_log w') = requests (w_log w) @ [(sr_SagaID r, j, op, items)]))"
  using assms by (rule service_env.StartSaga_run)

theorem StartSaga_correct_witness:
  "\<exists>r w' v. StartSaga (mem_deps ''approved'') ''os'' StockOpReserve StatusPendingAuthorization None
       (idle_world StatusDiagnosing) = (Inr r, w') \<and> so_id (sr_Order r) = ''os'' \<and>
     mem_view (w_db (idle_world StatusDiagnosing)) ''os'' = Some v \<and> requests (w_log w') \<noteq> []"
proof -
  have "succeeds (StartSaga (mem_deps ''approved'') ''os'' StockOpReserve StatusPendingAuthorization None
       (idle_world StatusDiagnosing))" by code_simp
  then obtain r w' where run: "StartSaga (mem_deps ''approved'') ''os'' StockOpReserve
      StatusPendingAuthorization None (idle_world StatusDiagnosing) = (Inr r, w')" by (rule succeedsE)
  have v: "product_lines (abs_order (sample_order StatusDiagnosing SagaStatusIdle None None)) \<noteq> {#}"
    by (simp add: inventoryItems_Nil_iff inventoryItems_def GetProductItems_def sample_order_def
        sample_line_def item_IsDeleted_def)
  from StartSaga_correct [OF mem_env run] idle_world_view [of StatusDiagnosing] v run show ?thesis
    by (auto simp: saga_target_def mem_canon_def split: if_splits)
qed

text \<open>
  Claim C14. An order that is waiting for the stock service takes no further saga: starting one, and
  cancelling the order, are refused, change no stored order, send nothing and record nothing.
\<close>

theorem saga_in_flight_refuses:
  assumes "service_env D canon view"
    and "StartSaga D i op t remarks w = (r, w') \<or> CancelOrder D i remarks w = (r, w')"
    and "canon i = Some j" and "view (w_db w) j = Some v"
    and "v_sagaStatus v = SagaStatusAwaitingInventory"
  shows "(\<exists>e. r = Inl e) \<and> view (w_db w') = view (w_db w) \<and> w_log w' = w_log w"
  using assms by (rule service_env.in_flight_refused)

theorem saga_in_flight_refuses_witness:
  "\<exists>e w'. StartSaga (mem_deps ''approved'') ''os'' StockOpReserve StatusPendingAuthorization None
       (saga_world StatusDiagnosing StatusPendingAuthorization) = (Inl e, w') \<and> w_log w' = []"
proof -
  obtain r w' where run: "StartSaga (mem_deps ''approved'') ''os'' StockOpReserve
      StatusPendingAuthorization None (saga_world StatusDiagnosing StatusPendingAuthorization) = (r, w')"
    by (cases "StartSaga (mem_deps ''approved'') ''os'' StockOpReserve
      StatusPendingAuthorization None (saga_world StatusDiagnosing StatusPendingAuthorization)")
  from saga_in_flight_refuses [OF mem_env disjI1 [OF run]] saga_world_view run show ?thesis
    by (auto simp: mem_canon_def sample_order_def saga_world_def)
qed

text \<open>
  Claim C13. A success event of the stock service completes the saga it belongs to and no other: when the
  order waits for exactly that saga, its status becomes the saga's target, by a transition the
  workflow allows, the saga fields are cleared and one record of the target status is added to the
  history; an event of another saga, or for an order that waits for none, changes and records nothing.
  No request is sent either way.
\<close>

theorem HandleSucceeded_correct:
  assumes "service_env D canon view"
    and "HandleSucceeded D ev w = (Inr u, w')" and "wf_store (view (w_db w))"
  shows "\<exists>j v. canon (es_OrderID ev) = Some j \<and> view (w_db w) j = Some v \<and>
    requests (w_log w') = requests (w_log w) \<and> mp_calls (w_log w') = mp_calls (w_log w) \<and>
    (if current_saga (es_SagaID ev) v
     then \<exists>t h. v_sagaTargetStatus v = Some t \<and> (v_status v = t \<or> CanTransitionTo (v_status v) t) \<and>
            view (w_db w') = (view (w_db w))(j \<mapsto> settled t v) \<and>
            histories (w_log w') = histories (w_log w) @ [h] \<and> h_serviceOrderID h = j \<and> h_status h = t
     else view (w_db w') = view (w_db w) \<and> w_log w' = w_log w)"
  using assms by (rule service_env.HandleSucceeded_run)

theorem HandleSucceeded_correct_witness:
  "\<exists>u w' h. HandleSucceeded (mem_deps ''approved'') (success_event ''s'')
       (saga_world StatusDiagnosing StatusPendingAuthorization) = (Inr u, w') \<and>
     histories (w_log w') = [h] \<and> h_status h = StatusPendingAuthorization"
proof -
  have "succeeds (HandleSucceeded (mem_deps ''approved'') (success_event ''s'')
      (saga_world StatusDiagnosing StatusPendingAuthorization))" by code_simp
  then obtain u w' where run: "HandleSucceeded (mem_deps ''approved'') (success_event ''s'')
      (saga_world StatusDiagnosing StatusPendingAuthorization) = (Inr u, w')" by (rule succeedsE)
  from HandleSucceeded_correct [OF mem_env run] saga_world_view [of StatusDiagnosing StatusPendingAuthorization]
    saga_world_wf [of StatusDiagnosing StatusPendingAuthorization] run show ?thesis
    by (auto simp: mem_canon_def success_event_def current_saga_def saga_target_def sample_order_def)
qed

text \<open>
  Delivering a success event twice is the same as delivering it once: the second delivery
  changes no order and records and sends nothing.
\<close>

theorem HandleSucceeded_idempotent:
  assumes "service_env D canon view"
    and "HandleSucceeded D ev w = (Inr u, w1)" and "wf_store (view (w_db w))"
    and "HandleSucceeded D ev w1 = (Inr u', w2)"
  shows "view (w_db w2) = view (w_db w1) \<and> w_log w2 = w_log w1"
  using assms by (rule service_env.HandleSucceeded_again)

theorem HandleSucceeded_idempotent_witness:
  "\<exists>u w1 u' w2. HandleSucceeded (mem_deps ''approved'') (success_event ''s'')
       (saga_world StatusDiagnosing StatusPendingAuthorization) = (Inr u, w1) \<and>
     HandleSucceeded (mem_deps ''approved'') (success_event ''s'') w1 = (Inr u', w2) \<and>
     w_log w2 = w_log w1"
proof -
  let ?run = "HandleSucceeded (mem_deps ''approved'') (success_event ''s'')"
  have 1: "succeeds (?run (saga_world StatusDiagnosing StatusPendingAuthorization))"
    and 2: "succeeds (?run (snd (?run (saga_world StatusDiagnosing StatusPendingAuthorization))))"
    by code_simp+
  from 1 obtain u w1 where run: "?run (saga_world StatusDiagnosing StatusPendingAuthorization) = (Inr u, w1)"
    by (rule succeedsE)
  with 2 obtain u' w2 where run2: "?run w1 = (Inr u', w2)" by (auto elim: succeedsE)
  from HandleSucceeded_idempotent [OF mem_env run saga_world_wf run2] run run2 show ?thesis
    by (auto simp: saga_target_def)
qed

text \<open>
  A failure event of the saga the order waits for marks the saga as failed, clears its
  identifier, target and remarks, leaves the status and the lines of the order alone and records the
  unchanged status; an event of another saga changes and records nothing.
\<close>

theorem HandleFailed_correct:
  assumes "service_env D canon view" and "HandleFailed D ev w = (Inr u, w')"
  shows "\<exists>j v. canon (ef_OrderID ev) = Some j \<and> view (w_db w) j = Some v \<and>
    requests (w_log w') = requests (w_log w) \<and> mp_calls (w_log w') = mp_calls (w_log w) \<and>
    (if current_saga (ef_SagaID ev) v
     then view (w_db w') = (view (w_db w))(j \<mapsto> v_set_saga SagaStatusFailed None None None v) \<and>
          (\<exists>h. histories (w_log w') = histories (w_log w) @ [h] \<and> h_serviceOrderID h = j \<and>
               h_status h = v_status v)
     else view (w_db w') = view (w_db w) \<and> w_log w' = w_log w)"
  using assms by (rule service_env.HandleFailed_run)

theorem HandleFailed_correct_witness:
  "\<exists>u w' h. HandleFailed (mem_deps ''approved'') (failure_event ''s'')
       (saga_world StatusDiagnosing StatusPendingAuthorization) = (Inr u, w') \<and>
     histories (w_log w') = [h] \<and> h_status h = StatusDiagnosing"
proof -
  have "succeeds (HandleFailed (mem_deps ''approved'') (failure_event ''s'')
      (saga_world StatusDiagnosing StatusPendingAuthorization))" by code_simp
  then obtain u w' where run: "HandleFailed (mem_deps ''approved'') (failure_event ''s'')
      (saga_world StatusDiagnosing StatusPendingAuthorization) = (Inr u, w')" by (rule succeedsE)
  from HandleFailed_correct [OF mem_env run] saga_world_view [of StatusDiagnosing StatusPendingAuthorization]
    run show ?thesis
    by (auto simp: mem_canon_def failure_event_def current_saga_def sample_order_def)
qed

text \<open>
  An order whose saga aims at a status that the order, meanwhile moved, can no longer reach is
  stuck: the success event of its own saga fails at every delivery and changes nothing, so that the
  event stays on the queue.
\<close>

theorem HandleSucceeded_stuck:
  assumes "service_env D canon view" and "HandleSucceeded D ev w = (r, w')"
    and "canon (es_OrderID ev) = Some j" and "view (w_db w) j = Some v"
    and "current_saga (es_SagaID ev) v" and "v_sagaTargetStatus v = Some t"
    and "v_status v \<noteq> t" and "\<not> CanTransitionTo (v_status v) t"
  shows "(\<exists>e. r = Inl e) \<and> view (w_db w') = view (w_db w) \<and> w_log w' = w_log w"
  using assms by (rule service_env.HandleSucceeded_blocked)

theorem HandleSucceeded_stuck_witness:
  "\<exists>e w'. HandleSucceeded (mem_deps ''approved'') (success_event ''s'')
       (saga_world StatusAuthorized StatusAuthorizationDenied) = (Inl e, w') \<and> w_log w' = []"
proof -
  obtain r w' where run: "HandleSucceeded (mem_deps ''approved'') (success_event ''s'')
      (saga_world StatusAuthorized StatusAuthorizationDenied) = (r, w')"
    by (cases "HandleSucceeded (mem_deps ''approved'') (success_event ''s'')
      (saga_world StatusAuthorized StatusAuthorizationDenied)")
  from HandleSucceeded_stuck [OF mem_env run, of "''os''"] saga_world_view
    [of StatusAuthorized StatusAuthorizationDenied] run show ?thesis
    by (auto simp: mem_canon_def success_event_def current_saga_def sample_order_def
        CanTransitionTo_def saga_world_def)
qed

text \<open>What the stock service holds for an order in a status decides how the order is cancelled.\<close>

lemma plan_cancel_by_stock:
  "plan_cancel st = CancelLocally \<Longrightarrow> stock_of st = NoStock"
  "plan_cancel st = CancelBySaga op \<Longrightarrow> stock_of st \<noteq> NoStock \<and> apply_op op (stock_of st) = Some NoStock"
  "final_status st \<Longrightarrow> plan_cancel st = CancelRefused"
  "plan_cancel st \<noteq> CancelRefused \<Longrightarrow> \<not> final_status st"
  by (cases st; auto simp: final_status_def)+

text \<open>
  Claim C22. Cancelling an order gives back what the stock service holds for it: while the order is received or in
  diagnosis nothing is held, so it is canceled at once and nothing is requested; when something is held, for the
  reservation from the budget on or for the parts used from completion on, the request that is sent is the
  operation that returns exactly that, with the product lines, and the order keeps its status until the answer;
  without product lines it is canceled at once. An order that is delivered, canceled or denied is never
  canceled: the cancellation fails and has no effect at all.
\<close>

theorem CancelOrder_correct:
  assumes "service_env D canon view" and "CancelOrder D i remarks w = (x, w')"
  shows "(\<forall>r. x = Inr r \<longrightarrow> (\<exists>j v. canon i = Some j \<and> view (w_db w) j = Some v \<and>
      v_sagaStatus v \<noteq> SagaStatusAwaitingInventory \<and> \<not> final_status (v_status v) \<and>
      mp_calls (w_log w') = mp_calls (w_log w) \<and>
      (if sr_Async r
       then \<exists>op items. stock_of (v_status v) \<noteq> NoStock \<and> apply_op op (stock_of (v_status v)) = Some NoStock \<and>
              view (w_db w') = (view (w_db w))(j \<mapsto> v_set_saga SagaStatusAwaitingInventory
                (Some (sr_SagaID r)) (Some StatusCanceled) remarks v) \<and>
              mset items = image_mset stock_item (product_lines v) \<and>
              requests (w_log w') = requests (w_log w) @ [(sr_SagaID r, j, op, items)]
       else (stock_of (v_status v) = NoStock \<or> product_lines v = {#}) \<and>
            view (w_db w') = (view (w_db w))(j \<mapsto> settled StatusCanceled v) \<and>
            requests (w_log w') = requests (w_log w)))) \<and>
    (\<forall>j v. canon i = Some j \<longrightarrow> view (w_db w) j = Some v \<longrightarrow> final_status (v_status v) \<longrightarrow>
      (\<exists>e. x = Inl e) \<and> view (w_db w') = view (w_db w) \<and> w_log w' = w_log w)"
proof (intro conjI allI impI)
  fix r
  assume "x = Inr r"
  with assms(2) have "CancelOrder D i remarks w = (Inr r, w')" by simp
  from service_env.CancelOrder_run [OF assms(1) this] show "\<exists>j v. canon i = Some j \<and> view (w_db w) j = Some v \<and>
      v_sagaStatus v \<noteq> SagaStatusAwaitingInventory \<and> \<not> final_status (v_status v) \<and>
      mp_calls (w_log w') = mp_calls (w_log w) \<and>
      (if sr_Async r
       then \<exists>op items. stock_of (v_status v) \<noteq> NoStock \<and> apply_op op (stock_of (v_status v)) = Some NoStock \<and>
              view (w_db w') = (view (w_db w))(j \<mapsto> v_set_saga SagaStatusAwaitingInventory
                (Some (sr_SagaID r)) (Some StatusCanceled) remarks v) \<and>
              mset items = image_mset stock_item (product_lines v) \<and>
              requests (w_log w') = requests (w_log w) @ [(sr_SagaID r, j, op, items)]
       else (stock_of (v_status v) = NoStock \<or> product_lines v = {#}) \<and>
            view (w_db w') = (view (w_db w))(j \<mapsto> settled StatusCanceled v) \<and>
            requests (w_log w') = requests (w_log w))"
    using plan_cancel_by_stock by (elim exE conjE) (intro exI conjI; assumption?; auto split: if_splits)
next
  fix j v
  assume v: "canon i = Some j" "view (w_db w) j = Some v" "final_status (v_status v)"
  show "\<exists>e. x = Inl e" "view (w_db w') = view (w_db w)" "w_log w' = w_log w"
    using service_env.CancelOrder_final [OF assms v] by blast+
qed

theorem CancelOrder_correct_witness:
  "\<exists>r w'. CancelOrder (mem_deps ''approved'') ''os'' None (idle_world StatusReceived) = (Inr r, w') \<and>
     \<not> sr_Async r \<and> requests (w_log w') = []"
proof -
  have "succeeds (CancelOrder (mem_deps ''approved'') ''os'' None (idle_world StatusReceived))" by code_simp
  then obtain r w' where run: "CancelOrder (mem_deps ''approved'') ''os'' None (idle_world StatusReceived) =
      (Inr r, w')" by (rule succeedsE)
  from CancelOrder_correct [OF mem_env run] idle_world_view [of StatusReceived] run show ?thesis
    by (auto simp: mem_canon_def sample_order_def idle_world_def split: if_splits)
qed

text \<open>
  Claim C28. Recovery after a restart sends exactly one request for every saga in flight and none for
  anything else, under the saga's own identifier and with the stored product lines, and changes no
  order; the operation is the one inferred from the target and the status of the order.
\<close>

theorem RecoverAwaitingSagas_correct:
  assumes "service_env D canon view" and "RecoverAwaitingSagas D w = (Inr u, w')"
  shows "\<exists>new. view (w_db w') = view (w_db w) \<and> requests (w_log w') = requests (w_log w) @ new \<and>
    distinct (map (\<lambda>(sid, j, op, items). j) new) \<and>
    (\<forall>sid j. (\<exists>op items. (sid, j, op, items) \<in> set new) \<longleftrightarrow>
       (\<exists>v. view (w_db w) j = Some v \<and> current_saga sid v)) \<and>
    (\<forall>(sid, j, op, items) \<in> set new. \<exists>s. view (w_db w) j = Some (abs_order s) \<and>
       inferOperation s = Inr op \<and> items = inventoryItems s)"
  using assms by (rule service_env.Recover_run)

theorem RecoverAwaitingSagas_correct_witness:
  "\<exists>u w'. RecoverAwaitingSagas (mem_deps ''approved'')
       (saga_world StatusDiagnosing StatusPendingAuthorization) = (Inr u, w') \<and>
     (\<exists>op items. (''s'', ''os'', op, items) \<in> set (requests (w_log w')))"
proof -
  have "succeeds (RecoverAwaitingSagas (mem_deps ''approved'')
      (saga_world StatusDiagnosing StatusPendingAuthorization))" by code_simp
  then obtain u w' where run: "RecoverAwaitingSagas (mem_deps ''approved'')
      (saga_world StatusDiagnosing StatusPendingAuthorization) = (Inr u, w')" by (rule succeedsE)
  have cur: "\<exists>v. mem_view (w_db (saga_world StatusDiagnosing StatusPendingAuthorization)) ''os'' = Some v \<and>
      current_saga ''s'' v"
    using saga_world_view [of StatusDiagnosing StatusPendingAuthorization]
    by (simp add: current_saga_def sample_order_def)
  from RecoverAwaitingSagas_correct [OF mem_env run] obtain new where
    "requests (w_log w') = requests (w_log (saga_world StatusDiagnosing StatusPendingAuthorization)) @ new"
    "\<forall>sid j. (\<exists>op items. (sid, j, op, items) \<in> set new) \<longleftrightarrow>
       (\<exists>v. mem_view (w_db (saga_world StatusDiagnosing StatusPendingAuthorization)) j = Some v \<and>
          current_saga sid v)" by blast
  with cur run show ?thesis by (auto simp: saga_world_def)
qed

text \<open>
  The operation inferred at recovery is the one the saga was started with, for the transitions of
  the workflow that need the stock service and for every cancellation but two: the cancellation of an
  order that awaits its payment or whose payment was rejected was requested as \<^verbatim>\<open>CANCEL_CONFIRMED\<close> and
  is republished as \<^verbatim>\<open>CANCEL_RESERVED\<close>.
\<close>

theorem recovery_operation:
  "(so_sagaTargetStatus s = Some t \<and> t \<noteq> StatusCanceled \<and> CanTransitionTo (so_status s) t \<and>
      DetermineInventoryOperation (so_status s) t \<noteq> InventoryOpNone \<longrightarrow>
      inferOperation s = Inr (DetermineInventoryOperation (so_status s) t)) \<and>
   (so_sagaTargetStatus s = Some StatusCanceled \<and> plan_cancel (so_status s) = CancelBySaga op \<longrightarrow>
      (inferOperation s = Inr op \<longleftrightarrow> so_status s \<notin> {StatusAwaitingPayment, StatusPaymentRejected}))"
proof (intro conjI impI; elim conjE)
  assume *: "so_sagaTargetStatus s = Some t" "t \<noteq> StatusCanceled"
    "DetermineInventoryOperation (so_status s) t \<noteq> InventoryOpNone"
  then show "inferOperation s = Inr (DetermineInventoryOperation (so_status s) t)"
    by (cases t) (simp_all add: inferOperation_def DetermineInventoryOperation_def)
next
  assume "so_sagaTargetStatus s = Some StatusCanceled" "plan_cancel (so_status s) = CancelBySaga op"
  then show "inferOperation s = Inr op \<longleftrightarrow> so_status s \<notin> {StatusAwaitingPayment, StatusPaymentRejected}"
    by (cases "so_status s") (auto simp: inferOperation_def)
qed

theorem recovery_operation_witness:
  "inferOperation (sample_order StatusPaymentRejected SagaStatusAwaitingInventory (Some ''s'')
     (Some StatusCanceled)) \<noteq> Inr StockOpCancelConfirmed"
proof -
  let ?s = "sample_order StatusPaymentRejected SagaStatusAwaitingInventory (Some ''s'') (Some StatusCanceled)"
  have "so_sagaTargetStatus ?s = Some StatusCanceled" "so_status ?s = StatusPaymentRejected"
    by (simp_all add: sample_order_def)
  with recovery_operation [of ?s StatusCanceled StockOpCancelConfirmed] show ?thesis by simp
qed

text \<open>
  What a cancellation does with the stock is right in every status: it is done locally only while
  the stock service holds nothing for the order, the operation it requests otherwise returns exactly
  what the service holds for that status, and it is refused exactly in the final statuses. The
  operation republished for it at recovery does not apply to the stock of an order that awaits its
  payment or whose payment was rejected.
\<close>

theorem plan_cancel_returns_stock:
  "(plan_cancel st = CancelLocally \<longrightarrow> stock_of st = NoStock) \<and>
   (plan_cancel st = CancelBySaga op \<longrightarrow> apply_op op (stock_of st) = Some NoStock) \<and>
   (status_IsValid st \<longrightarrow> (plan_cancel st = CancelRefused \<longleftrightarrow> final_status st)) \<and>
   (so_sagaTargetStatus s = Some StatusCanceled \<and>
      so_status s \<in> {StatusAwaitingPayment, StatusPaymentRejected} \<longrightarrow>
      (\<exists>op'. inferOperation s = Inr op' \<and> apply_op op' (stock_of (so_status s)) = None))"
proof (intro conjI impI)
  show "stock_of st = NoStock" if "plan_cancel st = CancelLocally" using that by (cases st) auto
  show "apply_op op (stock_of st) = Some NoStock" if "plan_cancel st = CancelBySaga op"
    using that by (cases st) auto
  show "plan_cancel st = CancelRefused \<longleftrightarrow> final_status st" if "status_IsValid st"
    using that by (cases st) (auto simp: final_status_def)
  show "\<exists>op'. inferOperation s = Inr op' \<and> apply_op op' (stock_of (so_status s)) = None"
    if "so_sagaTargetStatus s = Some StatusCanceled \<and>
      so_status s \<in> {StatusAwaitingPayment, StatusPaymentRejected}"
    using that by (auto simp: inferOperation_def)
qed

theorem plan_cancel_returns_stock_witness:
  "apply_op StockOpCancelConfirmed (stock_of StatusPaymentRejected) = Some NoStock"
  using plan_cancel_returns_stock [of StatusPaymentRejected StockOpCancelConfirmed] by simp

end
