(* ===== verification/Order_Properties.thy ===== *)
theory Order_Properties
  imports Samples
begin

text \<open>
  The properties of the aggregate: its lines and its total, the operations that are frozen past the
  diagnosis, the copy taken before an edit and the comparison of lines for the history.
\<close>

subsection \<open>Samples\<close>

definition received_order :: ServiceOrder where
  "received_order = sample_order StatusReceived SagaStatusIdle None None"

lemma sample_line_ok: "item_wf sample_line" "\<not> item_IsDeleted sample_line"
  by (simp_all add: sample_line_def item_wf_def item_IsDeleted_def itemType_IsValid_def)

lemma sample_lines_wf: "lines_wf (so_items received_order)"
  using sample_line_ok by (simp add: lines_wf_def received_order_def sample_order_def)

lemma added:
  obtains s' where "AddItem 1 2 sample_line received_order = Inr s'"
proof -
  have "\<exists>s'. AddItem 1 2 sample_line received_order = Inr s'"
    by (rule AddItem_defined) (simp_all add: CanModifyItems_def received_order_def sample_order_def
        sample_line_def merge_target_def item_IsDeleted_def)
  with that show thesis by blast
qed

subsection \<open>Lines\<close>

text \<open>
  Adding a line keeps the lines of an order well formed: every active line has a valid type,
  a reference, a name, a positive quantity and a positive price, and no two active lines are about
  the same product or service.
\<close>

theorem AddItem_preserves_lines:
  assumes "AddItem n1 n2 item s = Inr s'" and "lines_wf (so_items s)"
    and "item_wf item" and "\<not> item_IsDeleted item"
  shows "lines_wf (so_items s')"
  using assms by (rule AddItem_lines_wf)

theorem AddItem_preserves_lines_witness:
  "\<exists>s'. AddItem 1 2 sample_line received_order = Inr s' \<and> lines_wf (so_items s')"
proof -
  obtain s' where run: "AddItem 1 2 sample_line received_order = Inr s'" by (rule added)
  from AddItem_preserves_lines [OF run sample_lines_wf sample_line_ok] run show ?thesis by blast
qed

text \<open>
  Adding \<open>q\<close> units of a product or service raises the units the order holds of it by exactly
  \<open>q\<close>, those of every other by nothing, and the amount of the order by \<open>q\<close> times the price the
  order charges (the price already held when the line is merged, else the new one); the sum never
  wraps around, because a merged quantity that would overflow the 64-bit integer is refused.
\<close>

theorem AddItem_adds_exactly:
  assumes "AddItem n1 n2 item s = Inr s'" and "lines_wf (so_items s)"
    and "item_wf item" and "\<not> item_IsDeleted item"
  shows "(\<forall>k. quantity_of k (so_items s') = quantity_of k (so_items s) +
              (if k = item_key item then sint (item_quantity item) else 0)) \<and>
         amount (so_items s') = amount (so_items s) +
              sint (item_quantity item) * sint (charged_price item (so_items s))"
  using AddItem_quantity [OF assms] AddItem_amount [OF assms] by blast

theorem AddItem_adds_exactly_witness:
  "\<exists>s'. AddItem 1 2 sample_line received_order = Inr s' \<and> amount (so_items s') = 2000"
proof -
  obtain s' where run: "AddItem 1 2 sample_line received_order = Inr s'" by (rule added)
  have "amount (so_items received_order) = 1000" "charged_price sample_line (so_items received_order) = 500"
    by (simp_all add: received_order_def sample_order_def sample_line_def item_IsDeleted_def
        charged_price_def merge_target_def)
  with AddItem_adds_exactly [OF run sample_lines_wf sample_line_ok] run show ?thesis
    by (auto simp: sample_line_def)
qed

text \<open>
  Removing a line is a soft delete of exactly one active line with that identifier: it stays
  in the list, marked, the well-formedness of the lines is kept, and the amount of the order falls
  by that line's quantity times its price.
\<close>

theorem RemoveItem_removes_one:
  assumes "RemoveItem n1 n2 i s = Inr s'" and "lines_wf (so_items s)"
  shows "lines_wf (so_items s') \<and>
         length (active (so_items s)) = Suc (length (active (so_items s'))) \<and>
         map item_id (so_items s') = map item_id (so_items s) \<and>
         (\<exists>e \<in> set (active (so_items s)). item_id e = i \<and>
            amount (so_items s') =
              amount (so_items s) - sint (item_quantity e) * sint (item_unitPrice e))"
proof -
  from assms(1) obtain pre e post where *: "so_items s = pre @ e # post" "\<not> item_IsDeleted e"
    "item_id e = i" "so_items s' = pre @ item_MarkAsDeleted n1 e # post"
    by (elim RemoveItem_cases) simp
  then have "lines_wf (so_items s')" using assms(2) lines_wf_drop by simp
  with * show ?thesis by (simp add: set_active)
qed

theorem RemoveItem_removes_one_witness:
  "\<exists>s'. RemoveItem 1 2 ''i'' received_order = Inr s' \<and> active (so_items s') = []"
proof -
  have "\<exists>s'. RemoveItem 1 2 ''i'' received_order = Inr s'"
    by (rule RemoveItem_defined [of _ _ sample_line])
      (simp_all add: received_order_def sample_order_def sample_line_def item_IsDeleted_def CanModifyItems_def)
  then obtain s' where run: "RemoveItem 1 2 ''i'' received_order = Inr s'" ..
  have "length (active (so_items received_order)) = 1"
    by (simp add: received_order_def sample_order_def sample_line_def item_IsDeleted_def)
  with RemoveItem_removes_one [OF run sample_lines_wf] run show ?thesis by auto
qed

text \<open>
  The total of an order, computed by the code in wrapping 64-bit arithmetic, is the exact sum
  of quantity times price over its active lines modulo \<open>2 ^ 64\<close>, and is that sum itself whenever it
  fits in the integer.
\<close>

theorem TotalAmount_exact:
  "uint (TotalAmount s) = amount (so_items s) mod 2 ^ 64 \<and>
   (amount (so_items s) \<in> {- (2 ^ 63) ..< 2 ^ 63} \<longrightarrow> sint (TotalAmount s) = amount (so_items s))"
proof
  show "uint (TotalAmount s) = amount (so_items s) mod 2 ^ 64"
    unfolding TotalAmount_eq uint_word_of_int by simp
  show "amount (so_items s) \<in> {- (2 ^ 63) ..< 2 ^ 63} \<longrightarrow> sint (TotalAmount s) = amount (so_items s)"
    unfolding TotalAmount_eq by (intro impI sint_goint_eq_if_in_range) simp_all
qed

theorem TotalAmount_exact_witness: "sint (TotalAmount received_order) = 1000"
proof -
  have "amount (so_items received_order) = 1000"
    by (simp add: received_order_def sample_order_def sample_line_def item_IsDeleted_def)
  with TotalAmount_exact [of received_order] show ?thesis by simp
qed

text \<open>
  The lines of an order can be changed only while it is received or being diagnosed; in every
  other status all three item operations refuse, with the error for a closed order when the order is
  paid, delivered, canceled or denied, and the error for an order past the budget otherwise.
\<close>

theorem item_operations_frozen:
  assumes "so_status s \<notin> {StatusReceived, StatusDiagnosing}" and "i \<noteq> ''''"
  shows "AddItem n1 n2 item s = Inl (if IsClosed s then ErrCannotModifyClosedOrder
                                    else ErrCannotModifyItemsAfterPending) \<and>
         RemoveItem n1 n2 i s = Inl (if IsClosed s then ErrCannotModifyClosedOrder
                                    else ErrCannotModifyItemsAfterPending) \<and>
         UpdateItemQuantity n1 n2 i q s = Inl (if IsClosed s then ErrCannotModifyClosedOrder
                                    else ErrCannotModifyItemsAfterPending)"
  using assms by (simp add: AddItem_def RemoveItem_def UpdateItemQuantity_def CanModifyItems_def)

theorem item_operations_frozen_witness:
  "RemoveItem 1 2 ''i'' (sample_order StatusPaid SagaStatusIdle None None) =
     Inl ErrCannotModifyClosedOrder"
proof -
  let ?s = "sample_order StatusPaid SagaStatusIdle None None"
  have "so_status ?s \<notin> {StatusReceived, StatusDiagnosing}" "IsClosed ?s"
    by (simp_all add: sample_order_def IsClosed_def)
  with item_operations_frozen [of ?s "''i''" 1 2 sample_line 1] show ?thesis by simp
qed

subsection \<open>History\<close>

text \<open>
  The copy taken before an edit is the order itself, field by field, except for the customer
  snapshot used for payments, which it drops; it is never nil for an order that has an identifier, a
  customer, a vehicle, a valid status and a saga status.
\<close>

theorem CaptureOrderState_copies:
  assumes "so_id s \<noteq> ''''" "so_customerID s \<noteq> ''''" "so_vehicleID s \<noteq> ''''"
    "status_IsValid (so_status s)" "so_sagaStatus s \<noteq> ''''"
  shows "CaptureOrderState s = Some (s\<lparr>so_customerEmail := '''', so_customerName := ''''\<rparr>)"
  using assms by (rule CaptureOrderState_eq)

theorem CaptureOrderState_copies_witness:
  "CaptureOrderState received_order = Some received_order"
proof -
  have eq: "received_order\<lparr>so_customerEmail := '''', so_customerName := ''''\<rparr> = received_order"
    by (simp add: received_order_def sample_order_def)
  show ?thesis
    using CaptureOrderState_copies [of received_order] unfolding eq
    by (simp add: received_order_def sample_order_def)
qed

text \<open>
  The comparison of lines raises no false alarm: if the active lines of the new state are, in
  any order, lines with the type, reference, name, quantity and price of the active lines of the old
  state, nothing is reported as changed. And a change in the number of active lines is always reported.
\<close>

theorem hasItemsChanged_no_false_alarm:
  "(abs_items old = abs_items new \<longrightarrow> \<not> hasItemsChanged old new) \<and>
   (length (active old) \<noteq> length (active new) \<longrightarrow> hasItemsChanged old new)"
proof -
  have sig: "buildItemSignature i = buildItemSignature j" if "abs_item i = abs_item j" for i j
    using that by (simp add: abs_item_def buildItemSignature_def)
  have "\<not> hasItemsChanged old new" if eq: "abs_items old = abs_items new"
  proof -
    have "size (abs_items old) = size (abs_items new)" using eq by simp
    then have "length (active old) = length (active new)" by (simp add: abs_items_def)
    moreover have "\<exists>j \<in> set (active old). abs_item j = abs_item i" if "i \<in> set (active new)" for i
      using that eq by (metis (no_types, lifting) imageE imageI set_abs_items)
    moreover have "buildItemSignature i \<in> buildItemSignature ` set (active old)"
      if "i \<in> set (active new)" for i
    proof -
      from calculation(2) [OF that] obtain j where "j \<in> set (active old)" "abs_item j = abs_item i"
        by blast
      then show ?thesis using sig [of i j] by simp
    qed
    ultimately show ?thesis by (auto simp: hasItemsChanged_iff)
  qed
  then show ?thesis by (simp add: hasItemsChanged_iff)
qed

theorem hasItemsChanged_no_false_alarm_witness:
  "\<not> hasItemsChanged [sample_line] [sample_line\<lparr>item_id := ''k''\<rparr>]"
proof -
  have "abs_items [sample_line] = abs_items [sample_line\<lparr>item_id := ''k''\<rparr>]"
    by (simp add: abs_items_def abs_item_def item_IsDeleted_def)
  with hasItemsChanged_no_false_alarm show ?thesis by blast
qed

text \<open>
  The comparison has a blind spot: prices enter the signature as \<^verbatim>\<open>string(rune(price))\<close>, so any
  two prices above \<open>0x10FFFF\<close> cents (R$ 11,141.11) have the same signature, and changing a line from
  one to the other is reported as no change at all.
\<close>

theorem hasItemsChanged_blind_to_large_prices:
  assumes "\<not> item_IsDeleted i"
    and "0x10FFFF < sint p" "sint p < 2 ^ 31" and "0x10FFFF < sint p'" "sint p' < 2 ^ 31"
  shows "\<not> hasItemsChanged [i\<lparr>item_unitPrice := p\<rparr>] [i\<lparr>item_unitPrice := p'\<rparr>]"
proof -
  have "\<not> item_IsDeleted (i\<lparr>item_unitPrice := q\<rparr>)" for q using assms(1) by (simp add: item_IsDeleted_def)
  with signature_blind [OF assms(2-5), of i] show ?thesis by (simp add: hasItemsChanged_iff)
qed

theorem hasItemsChanged_blind_to_large_prices_witness:
  "\<not> hasItemsChanged [sample_line\<lparr>item_unitPrice := 1500000\<rparr>] [sample_line\<lparr>item_unitPrice := 9000000\<rparr>]"
proof -
  have "\<not> item_IsDeleted sample_line" by (simp add: sample_line_def item_IsDeleted_def)
  then show ?thesis using hasItemsChanged_blind_to_large_prices [of sample_line 1500000 9000000] by simp
qed

end
