(* ===== verification/Billing.thy ===== *)
theory Billing
  imports Saga
begin

text \<open>
  The billing use cases: the order sent to Mercado Pago for a service order, its cancellation and its
  refund, the payment link, the retry of a rejected payment, and the webhook that reports what became
  of a payment.
\<close>

subsection \<open>What is sent to Mercado Pago\<close>

text \<open>The price of a line in cents, in reais: \<^verbatim>\<open>float64(item.UnitPrice()) / 100\<close>.\<close>

definition unit_price :: "goint \<Rightarrow> float64" where
  "unit_price price = float64_divide (float64_of_int (sint price)) 100"

definition order_item_of :: "ServiceOrderItem \<Rightarrow> OrderItem" where
  "order_item_of item =
     \<lparr>oi_Title = item_name item, oi_Description = '''', oi_Quantity = item_quantity item,
      oi_UnitPrice = unit_price (item_unitPrice item)\<rparr>"

text \<open>The title of the fallback item is \<^verbatim>\<open>"Ordem de Servico " + id\<close>, in UTF-8.\<close>

definition BuildOrderItems :: "ServiceOrder \<Rightarrow> OrderItem list" where
  "BuildOrderItems order =
     (let items = map order_item_of (filter (\<lambda>item. \<not> item_IsDeleted item) (so_items order))
      in if items = [] then
           [\<lparr>oi_Title = ''Ordem de Servi'' @ [CHR 0xC3, CHR 0xA7] @ ''o '' @ so_id order,
             oi_Description = '''', oi_Quantity = 1,
             oi_UnitPrice = unit_price (TotalAmount order)\<rparr>]
         else items)"

definition buildPayerInfo :: "ServiceOrder \<Rightarrow> PayerInfo" where
  "buildPayerInfo order =
     \<lparr>payer_Email = so_customerEmail order, payer_CPF = '''', payer_Name = so_customerName order\<rparr>"

definition CreatePaymentPreference :: "'db deps \<Rightarrow> ServiceOrder \<Rightarrow> ('db, mp_Order) io" where
  "CreatePaymentPreference D order =
     CreateOrder D (BuildOrderItems order) (buildPayerInfo order) (so_id order)"

definition CancelPaymentOrder :: "'db deps \<Rightarrow> string \<Rightarrow> ('db, unit) io" where
  "CancelPaymentOrder D mpOrderID =
     (if mpOrderID = '''' then returnE ()
      else bindE (mp_CancelOrder D mpOrderID) (\<lambda>_. returnE ()))"

definition RefundPaymentOrder :: "'db deps \<Rightarrow> string \<Rightarrow> ('db, unit) io" where
  "RefundPaymentOrder D mpOrderID =
     (if mpOrderID = '''' then returnE ()
      else bindE (mp_RefundOrder D mpOrderID) (\<lambda>_. returnE ()))"

subsection \<open>The payment link\<close>

record GetPaymentStatusOutput =
  gps_PaymentURL :: string
  gps_OrderID :: string
  gps_Status :: string

definition GetPaymentStatus :: "'db deps \<Rightarrow> string \<Rightarrow> ('db, GetPaymentStatusOutput) io" where
  "GetPaymentStatus D serviceOrderID =
     bindE (FindByID D serviceOrderID) (\<lambda>order.
     if so_status order \<noteq> StatusAwaitingPayment \<or> so_sagaStatus order \<noteq> SagaStatusAwaitingPayment
     then throwE (PaymentErr ErrPaymentURLNotAvailable)
     else case (so_paymentURL order, so_mpPreferenceID order) of
       (Some url, Some pref) \<Rightarrow>
         returnE \<lparr>gps_PaymentURL = url, gps_OrderID = pref, gps_Status = status_String (so_status order)\<rparr>
     | _ \<Rightarrow> throwE (PaymentErr ErrPaymentURLNotAvailable))"

subsection \<open>The retry of a rejected payment\<close>

record RetryPaymentOutput =
  rpo_PaymentURL :: string
  rpo_MPOrderID :: string

definition RetryPayment :: "'db deps \<Rightarrow> string \<Rightarrow> ('db, RetryPaymentOutput) io" where
  "RetryPayment D serviceOrderID =
     bindE (FindByIDWithItems D serviceOrderID) (\<lambda>order.
     if so_status order \<noteq> StatusPaymentRejected then throwE ErrInvalidStatusTransition
     else
       bindE (CreateOrder D (BuildOrderItems order) (buildPayerInfo order) (so_id order)) (\<lambda>mpOrder.
       let oldStatus = so_status order in
       bindE (AwaitPaymentE D (mpo_ID mpOrder) (mpo_RedirectURL mpOrder) order) (\<lambda>order.
       bindE (Now D) (\<lambda>retryAt.
       let metadata = (BuildStatusOnlyMetadata oldStatus (so_status order))
             (''mp_order_id'' \<mapsto> MetaString (mpo_ID mpOrder),
              ''payment_url'' \<mapsto> MetaString (mpo_RedirectURL mpOrder),
              ''retry_at'' \<mapsto> MetaTime retryAt) in
       bindE (NewHistoryE D (so_id order) metadata (so_status order)) (\<lambda>history.
       bindE (history_Save D history) (\<lambda>_.
       bindE (Save D order) (\<lambda>order.
       returnE \<lparr>rpo_PaymentURL = mpo_RedirectURL mpOrder, rpo_MPOrderID = mpo_ID mpOrder\<rparr>)))))))"

subsection \<open>The webhook\<close>

record HandlePaymentWebhookInput =
  hpi_MPOrderID :: string
  hpi_ExternalReference :: string

record HandlePaymentWebhookOutput =
  hpo_Processed :: bool
  hpo_Status :: string
  hpo_OrderID :: string

definition webhook_saveHistory ::
  "'db deps \<Rightarrow> ServiceOrder \<Rightarrow> OrderStatus \<Rightarrow> OrderStatus \<Rightarrow> string \<Rightarrow> string \<Rightarrow> string \<Rightarrow>
   ('db, unit) io" where
  "webhook_saveHistory D order oldStatus newStatus paymentID paymentStatus statusDetail =
     (let m = (BuildStatusOnlyMetadata oldStatus newStatus)
            (''mp_payment_id'' \<mapsto> MetaString paymentID,
             ''mp_payment_status'' \<mapsto> MetaString paymentStatus);
          metadata = (if statusDetail \<noteq> ''''
            then m(''mp_payment_status_detail'' \<mapsto> MetaString statusDetail) else m)
      in bindE (NewHistoryE D (so_id order) metadata newStatus) (\<lambda>history.
         bindE (history_Save D history) (\<lambda>_. returnE ())))"

definition webhook_sendStatusUpdateEmail ::
  "'db deps \<Rightarrow> ServiceOrder \<Rightarrow> OrderStatus \<Rightarrow> OrderStatus \<Rightarrow> ('db, unit) io" where
  "webhook_sendStatusUpdateEmail D order oldStatus newStatus =
     notify_customer D order oldStatus newStatus"

definition not_processed :: "ServiceOrder \<Rightarrow> HandlePaymentWebhookOutput" where
  "not_processed order =
     \<lparr>hpo_Processed = False, hpo_Status = status_String (so_status order), hpo_OrderID = so_id order\<rparr>"

definition markApproved :: "'db deps \<Rightarrow> string \<Rightarrow> string \<Rightarrow> ('db, HandlePaymentWebhookOutput) io" where
  "markApproved D orderID paymentID =
     bindE (FindByID D orderID) (\<lambda>order.
     if so_status order = StatusPaid then returnE (not_processed order)
     else if so_status order \<noteq> StatusAwaitingPayment then returnE (not_processed order)
     else
       let oldStatus = so_status order in
       bindE (ConfirmPaymentE D paymentID order) (\<lambda>order.
       bindE (webhook_saveHistory D order oldStatus (so_status order) paymentID ''approved'' '''') (\<lambda>_.
       bindE (Save D order) (\<lambda>order.
       bindE (webhook_sendStatusUpdateEmail D order oldStatus (so_status order)) (\<lambda>_.
       returnE \<lparr>hpo_Processed = True, hpo_Status = status_String (so_status order),
                hpo_OrderID = so_id order\<rparr>)))))"

definition markRejected ::
  "'db deps \<Rightarrow> string \<Rightarrow> string \<Rightarrow> string \<Rightarrow> string \<Rightarrow> ('db, HandlePaymentWebhookOutput) io" where
  "markRejected D orderID paymentID paymentStatus statusDetail =
     bindE (FindByID D orderID) (\<lambda>order.
     if so_status order = StatusPaymentRejected then returnE (not_processed order)
     else if so_status order \<noteq> StatusAwaitingPayment then returnE (not_processed order)
     else
       let oldStatus = so_status order in
       bindE (RejectPaymentE D order) (\<lambda>order.
       bindE (webhook_saveHistory D order oldStatus (so_status order) paymentID paymentStatus
                statusDetail) (\<lambda>_.
       bindE (Save D order) (\<lambda>order.
       bindE (webhook_sendStatusUpdateEmail D order oldStatus (so_status order)) (\<lambda>_.
       returnE \<lparr>hpo_Processed = True, hpo_Status = status_String (so_status order),
                hpo_OrderID = so_id order\<rparr>)))))"

definition markRefunded :: "'db deps \<Rightarrow> string \<Rightarrow> string \<Rightarrow> ('db, HandlePaymentWebhookOutput) io" where
  "markRefunded D orderID paymentID =
     bindE (FindByID D orderID) (\<lambda>order.
     if so_status order = StatusCanceled then returnE (not_processed order)
     else if so_status order \<noteq> StatusPaid then returnE (not_processed order)
     else
       let oldStatus = so_status order in
       bindE (CancelAfterRefundE D order) (\<lambda>order.
       bindE (webhook_saveHistory D order oldStatus (so_status order) paymentID ''refunded'' '''') (\<lambda>_.
       bindE (Save D order) (\<lambda>order.
       bindE (webhook_sendStatusUpdateEmail D order oldStatus (so_status order)) (\<lambda>_.
       returnE \<lparr>hpo_Processed = True, hpo_Status = status_String (so_status order),
                hpo_OrderID = so_id order\<rparr>)))))"

definition HandlePaymentWebhook ::
  "'db deps \<Rightarrow> HandlePaymentWebhookInput \<Rightarrow> ('db, HandlePaymentWebhookOutput) io" where
  "HandlePaymentWebhook D input =
     bindE (GetPayment D (hpi_MPOrderID input)) (\<lambda>mpPayment.
     let orderID = (if mpp_ExternalReference mpPayment = '''' then hpi_ExternalReference input
                    else mpp_ExternalReference mpPayment);
         status = mpp_Status mpPayment in
     if orderID = '''' then throwE (PaymentErr ErrMalformedWebhook)
     else if status = ''approved'' then markApproved D orderID (mpp_ID mpPayment)
     else if status = ''rejected'' \<or> status = ''cancelled'' \<or> status = ''canceled''
       then markRejected D orderID (mpp_ID mpPayment) status (mpp_StatusDetail mpPayment)
     else if status = ''refunded'' then markRefunded D orderID (mpp_ID mpPayment)
     else returnE \<lparr>hpo_Processed = False, hpo_Status = status, hpo_OrderID = orderID\<rparr>)"

end
