(* ===== verification/Billing_Correct.thy ===== *)
theory Billing_Correct
  imports Billing Saga_Correct
begin

text \<open>
  The billing use cases are correct: they move the stored orders along the abstract machine, and the
  exact effect of each on the stored order, on the history and on Mercado Pago.
\<close>

subsection \<open>Helpers\<close>

lemma reads_webhook_helpers [intro, simp]:
  "reads view (webhook_saveHistory D s a b p q r) (\<lambda>_ _. True)"
  "reads view (webhook_sendStatusUpdateEmail D s a b) (\<lambda>_ _. True)"
  unfolding webhook_saveHistory_def webhook_sendStatusUpdateEmail_def Let_def
  by (rule reads_bindE [OF reads_calls(15)], simp, rule reads_bindE [OF reads_calls(3)], simp)
    (rule reads_notify_customer)

lemma webhook_saveHistory_run:
  assumes "webhook_saveHistory D s a b p q r w = (Inr u, w')"
  shows "w_db w' = w_db w" and "\<exists>h. w_log w' = w_log w @ [HistorySaved h] \<and>
    h_serviceOrderID h = so_id s \<and> h_status h = b \<and>
    h_metadata h ''status'' = Some (MetaChange (status_String a) (status_String b)) \<and>
    h_metadata h ''mp_payment_id'' = Some (MetaString p)"
  using assms
  by (auto simp: webhook_saveHistory_def bindE_Inr_iff NewHistory_Inr_iff quiet_def
      BuildStatusOnlyMetadata_def Let_def dest!: NewHistoryE_run history_Save_run)

subsection \<open>Every use case moves along the abstract machine\<close>

context service_env
begin

lemmas webhook_steps = advances_skip [OF reads_webhook_helpers(1)] advances_then [OF advances_Save]
  advances_skip [OF reads_webhook_helpers(2)] advances_returnE

lemma advances_markApproved: "advances view P (markApproved D i p)"
  unfolding markApproved_def Let_def
  by (intro advances_find_held advances_if advances_returnE advances_method [OF reads_ConfirmPaymentE]
      webhook_steps)

lemma advances_markRejected: "advances view P (markRejected D i p q r)"
  unfolding markRejected_def Let_def
  by (intro advances_find_held advances_if advances_returnE advances_method [OF reads_RejectPaymentE]
      webhook_steps)

lemma advances_markRefunded: "advances view P (markRefunded D i p)"
  unfolding markRefunded_def Let_def
  by (intro advances_find_held advances_if advances_returnE
      advances_method [OF reads_CancelAfterRefundE] webhook_steps)

lemma advances_HandlePaymentWebhook: "advances view P (HandlePaymentWebhook D input)"
  unfolding HandlePaymentWebhook_def Let_def
  by (intro advances_skip [OF reads_calls(14)] advances_if advances_returnE advances_throwE
      advances_markApproved advances_markRejected advances_markRefunded)

lemma advances_RetryPayment: "advances view P (RetryPayment D i)"
  unfolding RetryPayment_def Let_def FindByIDWithItems_eq
  by (intro advances_find_held advances_if advances_throwE advances_skip [OF reads_calls(11)]
      advances_method [OF reads_AwaitPaymentE] advances_skip [OF reads_calls(1)]
      advances_skip [OF reads_calls(15)] advances_skip [OF reads_calls(3)]
      advances_then [OF advances_Save] advances_returnE)

lemma reads_GetPaymentStatus: "reads view (GetPaymentStatus D i) (\<lambda>_ _. True)"
  unfolding GetPaymentStatus_def
  by (rule reads_bindE [OF reads_FindByID]) (auto split: option.split intro: reads_throwE)

lemma reads_payment_orders:
  "reads view (CancelPaymentOrder D i) (\<lambda>_ _. True)"
  "reads view (RefundPaymentOrder D i) (\<lambda>_ _. True)"
  by (auto simp: CancelPaymentOrder_def RefundPaymentOrder_def
      intro: reads_bindE [OF reads_calls(12)] reads_bindE [OF reads_calls(13)])

end

subsection \<open>Exact effects\<close>

text \<open>
  What a notification does to an order, from the payment's status and identifier; \<open>None\<close> when it does
  not concern the order in its present status.
\<close>

definition webhook_move :: "string \<Rightarrow> string \<Rightarrow> order_view \<Rightarrow> order_view option" where
  "webhook_move st paymentID v =
     (if st = ''approved'' \<and> v_status v = StatusAwaitingPayment
      then Some (v_set_saga SagaStatusIdle None None None
             (v_set_status StatusPaid (v\<lparr>v_mpPaymentID := Some paymentID\<rparr>)))
      else if st \<in> {''rejected'', ''cancelled'', ''canceled''} \<and> v_status v = StatusAwaitingPayment
      then Some (v_set_saga SagaStatusIdle None None None (v_set_status StatusPaymentRejected v))
      else if st = ''refunded'' \<and> v_status v = StatusPaid
      then Some (v_set_status StatusCanceled v)
      else None)"

text \<open>The three outcomes share the shape of their effect.\<close>

definition webhook_effect ::
  "(string \<Rightarrow> string option) \<Rightarrow> ('db \<Rightarrow> string \<Rightarrow> order_view option) \<Rightarrow> string \<Rightarrow> string \<Rightarrow> string \<Rightarrow>
   HandlePaymentWebhookOutput \<Rightarrow> 'db world \<Rightarrow> 'db world \<Rightarrow> bool" where
  "webhook_effect canon view i st p out w w' \<longleftrightarrow>
     (\<exists>j v. canon i = Some j \<and> view (w_db w) j = Some v \<and> hpo_OrderID out = j \<and>
        requests (w_log w') = requests (w_log w) \<and> mp_calls (w_log w') = mp_calls (w_log w) \<and>
        (case webhook_move st p v of
           None \<Rightarrow> \<not> hpo_Processed out \<and> view (w_db w') = view (w_db w) \<and> w_log w' = w_log w
         | Some v' \<Rightarrow> hpo_Processed out \<and> view (w_db w') = (view (w_db w))(j \<mapsto> v') \<and>
             (\<exists>h. histories (w_log w') = histories (w_log w) @ [h] \<and> h_serviceOrderID h = j \<and>
                  h_status h = v_status v' \<and>
                  h_metadata h ''mp_payment_id'' = Some (MetaString p))))"

text \<open>How many of a sequence of notifications are acted on, and the order after them.\<close>

fun webhook_sequence :: "(string \<times> string) list \<Rightarrow> order_view \<Rightarrow> nat \<times> order_view" where
  "webhook_sequence [] v = (0, v)"
| "webhook_sequence ((st, p) # ns) v =
     (case webhook_move st p v of
        None \<Rightarrow> webhook_sequence ns v
      | Some v' \<Rightarrow> (case webhook_sequence ns v' of (n, u) \<Rightarrow> (Suc n, u)))"

definition notifications_left :: "OrderStatus \<Rightarrow> nat" where
  "notifications_left s = (if s = StatusAwaitingPayment then 2 else if s = StatusPaid then 1 else 0)"

lemma webhook_move_decreases:
  "webhook_move st p v = Some v' \<Longrightarrow>
   notifications_left (v_status v') < notifications_left (v_status v) \<and>
   CanTransitionTo (v_status v) (v_status v') \<and> v_items v' = v_items v"
  unfolding webhook_move_def notifications_left_def CanTransitionTo_def by (clarsimp split: if_split_asm)

lemma webhook_sequence_bound:
  "webhook_sequence ns v = (n, u) \<Longrightarrow> n \<le> notifications_left (v_status v) \<and> v_items u = v_items v"
proof (induction ns arbitrary: v n)
  case Nil
  then show ?case by simp
next
  case (Cons m ns)
  obtain st p where m: "m = (st, p)" by (cases m)
  show ?case
  proof (cases "webhook_move st p v")
    case None
    with Cons m show ?thesis by simp
  next
    case (Some v')
    with Cons.prems m obtain n' where "webhook_sequence ns v' = (n', u)" "n = Suc n'"
      by (auto split: prod.splits)
    with Cons.IH [of v' n'] webhook_move_decreases [OF Some] show ?thesis by simp
  qed
qed

lemma webhook_move_once: "webhook_move st p v = Some v' \<Longrightarrow> webhook_move st p' v' = None"
  unfolding webhook_move_def by (clarsimp split: if_split_asm)

context service_env
begin

lemma webhook_tail_run:
  assumes run: "bindE (webhook_saveHistory D s old (so_status s) p q r) (\<lambda>_.
       bindE (Save D s) (\<lambda>order.
       bindE (webhook_sendStatusUpdateEmail D order old (so_status order)) (\<lambda>_.
       returnE \<lparr>hpo_Processed = True, hpo_Status = status_String (so_status order),
                hpo_OrderID = so_id order\<rparr>))) w = (Inr out, w')"
    and h: "held canon s (view (w_db w))"
  shows "view (w_db w') = (view (w_db w))(so_id s \<mapsto> abs_order s)"
    and "requests (w_log w') = requests (w_log w)" and "mp_calls (w_log w') = mp_calls (w_log w)"
    and "out = \<lparr>hpo_Processed = True, hpo_Status = status_String (so_status s), hpo_OrderID = so_id s\<rparr>"
    and "\<exists>h. histories (w_log w') = histories (w_log w) @ [h] \<and> h_serviceOrderID h = so_id s \<and>
           h_status h = so_status s \<and> h_metadata h ''mp_payment_id'' = Some (MetaString p)"
proof -
  from run obtain s2 w1 w2 where hist: "webhook_saveHistory D s old (so_status s) p q r w = (Inr (), w1)"
    and save: "Save D s w1 = (Inr s2, w2)"
    and mail: "notify_customer D s2 old (so_status s2) w2 = (Inr (), w')"
    and out: "out = \<lparr>hpo_Processed = True, hpo_Status = status_String (so_status s2), hpo_OrderID = so_id s2\<rparr>"
    by (auto simp: bindE_Inr_iff webhook_sendStatusUpdateEmail_def)
  have db: "w_db w1 = w_db w" by (rule webhook_saveHistory_run(1) [OF hist])
  obtain hr where hr: "w_log w1 = w_log w @ [HistorySaved hr]" "h_serviceOrderID hr = so_id s"
    "h_status hr = so_status s" "h_metadata hr ''mp_payment_id'' = Some (MetaString p)"
    using webhook_saveHistory_run(2) [OF hist] by blast
  note sv = Save_held [OF save h [folded db]] and ml = notify_customer_run [OF mail]
  have st: "so_status s2 = so_status s" using sv(4) abs_order_sel(4) by metis
  show "view (w_db w') = (view (w_db w))(so_id s \<mapsto> abs_order s)" using sv(1) ml db by simp
  show "requests (w_log w') = requests (w_log w)" "mp_calls (w_log w') = mp_calls (w_log w)"
    using ml sv(2) hr(1) by simp_all
  show "out = \<lparr>hpo_Processed = True, hpo_Status = status_String (so_status s), hpo_OrderID = so_id s\<rparr>"
    using out st sv(3) by simp
  show "\<exists>h. histories (w_log w') = histories (w_log w) @ [h] \<and> h_serviceOrderID h = so_id s \<and>
      h_status h = so_status s \<and> h_metadata h ''mp_payment_id'' = Some (MetaString p)"
    using ml sv(2) hr by (intro exI [of _ hr]) simp
qed


lemma markApproved_run:
  assumes run: "markApproved D i p w = (Inr out, w')"
  shows "webhook_effect canon view i ''approved'' p out w w'"
proof -
  from run obtain s w1 where find: "FindByID D i w = (Inr s, w1)"
    and rest: "(if so_status s = StatusPaid then returnE (not_processed s)
     else if so_status s \<noteq> StatusAwaitingPayment then returnE (not_processed s)
     else bindE (ConfirmPaymentE D p s) (\<lambda>order.
       bindE (webhook_saveHistory D order (so_status s) (so_status order) p ''approved'' '''') (\<lambda>_.
       bindE (Save D order) (\<lambda>order'.
       bindE (webhook_sendStatusUpdateEmail D order' (so_status s) (so_status order')) (\<lambda>_.
       returnE \<lparr>hpo_Processed = True, hpo_Status = status_String (so_status order'),
                hpo_OrderID = so_id order'\<rparr>))))) w1 = (Inr out, w')"
    unfolding markApproved_def Let_def bindE_Inr_iff by blast
  note f = FindByID_run [OF find]
  show ?thesis
  proof (cases "so_status s = StatusAwaitingPayment")
    case False
    with rest f(1-3,5) show ?thesis unfolding webhook_effect_def
      by (intro exI [of _ "so_id s"] exI [of _ "abs_order s"])
        (auto simp: webhook_move_def not_processed_def split: if_splits)
  next
    case True
    with rest obtain s1 w2 where cp: "ConfirmPaymentE D p s w1 = (Inr s1, w2)" and
      tl: "bindE (webhook_saveHistory D s1 (so_status s) (so_status s1) p ''approved'' '''') (\<lambda>_.
       bindE (Save D s1) (\<lambda>order'.
       bindE (webhook_sendStatusUpdateEmail D order' (so_status s) (so_status order')) (\<lambda>_.
       returnE \<lparr>hpo_Processed = True, hpo_Status = status_String (so_status order'),
                hpo_OrderID = so_id order'\<rparr>))) w2 = (Inr out, w')"
      by (auto simp: bindE_Inr_iff)
    obtain n1 n2 n3 where c: "ConfirmPayment n1 n2 n3 p s = Inr s1" and q: "quiet w1 w2"
      using ConfirmPaymentE_run [OF cp] by auto
    have "held canon s1 (view (w_db w2))"
      using held_ConfirmPayment [OF _ c] f(1,6) q by (simp add: quiet_def)
    note t = webhook_tail_run [OF tl this] and ci = ConfirmPayment_Inr [OF c]
    have "webhook_move ''approved'' p (abs_order s) = Some (abs_order s1)"
      using True ci(3) by (simp add: webhook_move_def)
    with t f(1-3,5) q ci(4) show ?thesis unfolding webhook_effect_def
      by (intro exI [of _ "so_id s"] exI [of _ "abs_order s"]) (simp add: quiet_def)
  qed
qed

lemma markRejected_run:
  assumes run: "markRejected D i p st det w = (Inr out, w')"
    and st: "st \<in> {''rejected'', ''cancelled'', ''canceled''}"
  shows "webhook_effect canon view i st p out w w'"
proof -
  from run obtain s w1 where find: "FindByID D i w = (Inr s, w1)"
    and rest: "(if so_status s = StatusPaymentRejected then returnE (not_processed s)
     else if so_status s \<noteq> StatusAwaitingPayment then returnE (not_processed s)
     else bindE (RejectPaymentE D s) (\<lambda>order.
       bindE (webhook_saveHistory D order (so_status s) (so_status order) p st det) (\<lambda>_.
       bindE (Save D order) (\<lambda>order'.
       bindE (webhook_sendStatusUpdateEmail D order' (so_status s) (so_status order')) (\<lambda>_.
       returnE \<lparr>hpo_Processed = True, hpo_Status = status_String (so_status order'),
                hpo_OrderID = so_id order'\<rparr>))))) w1 = (Inr out, w')"
    unfolding markRejected_def Let_def bindE_Inr_iff by blast
  note f = FindByID_run [OF find]
  show ?thesis
  proof (cases "so_status s = StatusAwaitingPayment")
    case False
    with rest f(1-3,5) st show ?thesis unfolding webhook_effect_def
      by (intro exI [of _ "so_id s"] exI [of _ "abs_order s"])
        (auto simp: webhook_move_def not_processed_def split: if_splits)
  next
    case True
    with rest obtain s1 w2 where rp: "RejectPaymentE D s w1 = (Inr s1, w2)" and
      tl: "bindE (webhook_saveHistory D s1 (so_status s) (so_status s1) p st det) (\<lambda>_.
       bindE (Save D s1) (\<lambda>order'.
       bindE (webhook_sendStatusUpdateEmail D order' (so_status s) (so_status order')) (\<lambda>_.
       returnE \<lparr>hpo_Processed = True, hpo_Status = status_String (so_status order'),
                hpo_OrderID = so_id order'\<rparr>))) w2 = (Inr out, w')"
      by (auto simp: bindE_Inr_iff)
    obtain n1 n2 n3 where c: "RejectPayment n1 n2 n3 s = Inr s1" and q: "quiet w1 w2"
      using RejectPaymentE_run [OF rp] by auto
    have "held canon s1 (view (w_db w2))"
      using held_RejectPayment [OF _ c] f(1,6) q by (simp add: quiet_def)
    note t = webhook_tail_run [OF tl this] and ci = RejectPayment_Inr [OF c]
    have "webhook_move st p (abs_order s) = Some (abs_order s1)"
      using True ci(2) st by (auto simp: webhook_move_def)
    with t f(1-3,5) q ci(3) show ?thesis unfolding webhook_effect_def
      by (intro exI [of _ "so_id s"] exI [of _ "abs_order s"]) (simp add: quiet_def)
  qed
qed

lemma markRefunded_run:
  assumes run: "markRefunded D i p w = (Inr out, w')"
  shows "webhook_effect canon view i ''refunded'' p out w w'"
proof -
  from run obtain s w1 where find: "FindByID D i w = (Inr s, w1)"
    and rest: "(if so_status s = StatusCanceled then returnE (not_processed s)
     else if so_status s \<noteq> StatusPaid then returnE (not_processed s)
     else bindE (CancelAfterRefundE D s) (\<lambda>order.
       bindE (webhook_saveHistory D order (so_status s) (so_status order) p ''refunded'' '''') (\<lambda>_.
       bindE (Save D order) (\<lambda>order'.
       bindE (webhook_sendStatusUpdateEmail D order' (so_status s) (so_status order')) (\<lambda>_.
       returnE \<lparr>hpo_Processed = True, hpo_Status = status_String (so_status order'),
                hpo_OrderID = so_id order'\<rparr>))))) w1 = (Inr out, w')"
    unfolding markRefunded_def Let_def bindE_Inr_iff by blast
  note f = FindByID_run [OF find]
  show ?thesis
  proof (cases "so_status s = StatusPaid")
    case False
    with rest f(1-3,5) show ?thesis unfolding webhook_effect_def
      by (intro exI [of _ "so_id s"] exI [of _ "abs_order s"])
        (auto simp: webhook_move_def not_processed_def split: if_splits)
  next
    case True
    with rest obtain s1 w2 where cr: "CancelAfterRefundE D s w1 = (Inr s1, w2)" and
      tl: "bindE (webhook_saveHistory D s1 (so_status s) (so_status s1) p ''refunded'' '''') (\<lambda>_.
       bindE (Save D s1) (\<lambda>order'.
       bindE (webhook_sendStatusUpdateEmail D order' (so_status s) (so_status order')) (\<lambda>_.
       returnE \<lparr>hpo_Processed = True, hpo_Status = status_String (so_status order'),
                hpo_OrderID = so_id order'\<rparr>))) w2 = (Inr out, w')"
      by (auto simp: bindE_Inr_iff)
    obtain n1 n2 where c: "CancelAfterRefund n1 n2 s = Inr s1" and q: "quiet w1 w2"
      using CancelAfterRefundE_run [OF cr] by auto
    have "held canon s1 (view (w_db w2))"
      using held_CancelAfterRefund [OF c] f(1,6) q by (simp add: quiet_def)
    note t = webhook_tail_run [OF tl this] and ci = CancelAfterRefund_Inr(2) [OF c]
    have "webhook_move ''refunded'' p (abs_order s) = Some (abs_order s1)"
      using True abs_UpdateStatus [OF ci] by (simp add: webhook_move_def)
    with t f(1-3,5) q UpdateStatus_frame(1) [OF ci] show ?thesis unfolding webhook_effect_def
      by (intro exI [of _ "so_id s"] exI [of _ "abs_order s"]) (simp add: quiet_def)
  qed
qed


lemma HandlePaymentWebhook_run:
  assumes run: "HandlePaymentWebhook D input w = (Inr out, w')"
  shows "\<exists>pm. MP_GetPayment D (w_tick w) (hpi_MPOrderID input) = Inr pm \<and>
    (let ref = (if mpp_ExternalReference pm = '''' then hpi_ExternalReference input
                else mpp_ExternalReference pm)
     in ref \<noteq> '''' \<and>
        (if mpp_Status pm \<in> {''approved'', ''rejected'', ''cancelled'', ''canceled'', ''refunded''}
         then webhook_effect canon view ref (mpp_Status pm) (mpp_ID pm) out w w'
         else \<not> hpo_Processed out \<and> view (w_db w') = view (w_db w) \<and> w_log w' = w_log w))"
proof -
  from run obtain pm w1 where gp: "GetPayment D (hpi_MPOrderID input) w = (Inr pm, w1)" and
    rest: "(let orderID = (if mpp_ExternalReference pm = '''' then hpi_ExternalReference input
                    else mpp_ExternalReference pm);
         status = mpp_Status pm in
     if orderID = '''' then throwE (PaymentErr ErrMalformedWebhook)
     else if status = ''approved'' then markApproved D orderID (mpp_ID pm)
     else if status = ''rejected'' \<or> status = ''cancelled'' \<or> status = ''canceled''
       then markRejected D orderID (mpp_ID pm) status (mpp_StatusDetail pm)
     else if status = ''refunded'' then markRefunded D orderID (mpp_ID pm)
     else returnE \<lparr>hpo_Processed = False, hpo_Status = status, hpo_OrderID = orderID\<rparr>) w1 = (Inr out, w')"
    unfolding HandlePaymentWebhook_def bindE_Inr_iff by blast
  have q: "quiet w w1" using gp by (rule lookups_run(4))
  have frame: "webhook_effect canon view i st p out w1 w' \<longleftrightarrow> webhook_effect canon view i st p out w w'"
    for i st p using q by (simp add: webhook_effect_def quiet_def cong: option.case_cong)
  let ?ref = "if mpp_ExternalReference pm = '''' then hpi_ExternalReference input
              else mpp_ExternalReference pm"
  have ref: "?ref \<noteq> ''''" using rest by (auto simp: Let_def split: if_splits)
  consider (app) "mpp_Status pm = ''approved''"
    | (rej) "mpp_Status pm \<in> {''rejected'', ''cancelled'', ''canceled''}"
    | (ref) "mpp_Status pm = ''refunded''"
    | (other) "mpp_Status pm \<notin> {''approved'', ''rejected'', ''cancelled'', ''canceled'', ''refunded''}"
    by blast
  then have "if mpp_Status pm \<in> {''approved'', ''rejected'', ''cancelled'', ''canceled'', ''refunded''}
       then webhook_effect canon view ?ref (mpp_Status pm) (mpp_ID pm) out w w'
       else \<not> hpo_Processed out \<and> view (w_db w') = view (w_db w) \<and> w_log w' = w_log w"
  proof cases
    case app
    with rest ref have "markApproved D ?ref (mpp_ID pm) w1 = (Inr out, w')" by (simp add: Let_def)
    from markApproved_run [OF this] app show ?thesis unfolding frame by simp
  next
    case rej
    with rest ref have "markRejected D ?ref (mpp_ID pm) (mpp_Status pm) (mpp_StatusDetail pm) w1 = (Inr out, w')"
      by (auto simp: Let_def)
    from markRejected_run [OF this rej] rej show ?thesis unfolding frame by auto
  next
    case ref
    with rest \<open>?ref \<noteq> ''''\<close> have "markRefunded D ?ref (mpp_ID pm) w1 = (Inr out, w')" by (simp add: Let_def)
    from markRefunded_run [OF this] ref show ?thesis unfolding frame by simp
  next
    case other
    with rest ref q show ?thesis by (auto simp: Let_def quiet_def)
  qed
  moreover have "MP_GetPayment D (w_tick w) (hpi_MPOrderID input) = Inr pm"
    using gp by (simp add: GetPayment_def external_Inr)
  ultimately show ?thesis using ref by (simp add: Let_def)
qed

lemma RetryPayment_run:
  assumes run: "RetryPayment D i w = (Inr out, w')"
  shows "\<exists>j v items payer. canon i = Some j \<and> view (w_db w) j = Some v \<and>
    v_status v = StatusPaymentRejected \<and>
    mp_calls (w_log w') = mp_calls (w_log w) @ [MPOrderCreated items payer j] \<and>
    payer_Email payer = v_customerEmail v \<and> requests (w_log w') = requests (w_log w) \<and>
    view (w_db w') = (view (w_db w))(j \<mapsto> v_set_saga SagaStatusAwaitingPayment None None None
      (v_set_status StatusAwaitingPayment (v\<lparr>v_mpPreferenceID := Some (rpo_MPOrderID out),
         v_paymentURL := Some (rpo_PaymentURL out)\<rparr>)))"
proof -
  from run obtain s w1 where find: "FindByID D i w = (Inr s, w1)"
    and st: "\<not> so_status s \<noteq> StatusPaymentRejected"
    and rest: "bindE (CreateOrder D (BuildOrderItems s) (buildPayerInfo s) (so_id s)) (\<lambda>mpOrder.
       bindE (AwaitPaymentE D (mpo_ID mpOrder) (mpo_RedirectURL mpOrder) s) (\<lambda>order.
       bindE (Now D) (\<lambda>retryAt.
       bindE (NewHistoryE D (so_id order) ((BuildStatusOnlyMetadata (so_status s) (so_status order))
             (''mp_order_id'' \<mapsto> MetaString (mpo_ID mpOrder),
              ''payment_url'' \<mapsto> MetaString (mpo_RedirectURL mpOrder),
              ''retry_at'' \<mapsto> MetaTime retryAt)) (so_status order)) (\<lambda>history.
       bindE (history_Save D history) (\<lambda>_.
       bindE (Save D order) (\<lambda>order.
       returnE \<lparr>rpo_PaymentURL = mpo_RedirectURL mpOrder, rpo_MPOrderID = mpo_ID mpOrder\<rparr>))))))
       w1 = (Inr out, w')"
    unfolding RetryPayment_def FindByIDWithItems_eq Let_def
    by (subst (asm) bindE_Inr_iff) (unfold throw_guard, blast)
  note f = FindByID_run [OF find]
  from rest obtain mo s1 t h hid s2 w2 w3 w4 w5 w6 where
    co: "CreateOrder D (BuildOrderItems s) (buildPayerInfo s) (so_id s) w1 = (Inr mo, w2)" and
    ap: "AwaitPaymentE D (mpo_ID mo) (mpo_RedirectURL mo) s w2 = (Inr s1, w3)" and
    nw: "Now D w3 = (Inr t, w4)" and
    nh: "NewHistoryE D (so_id s1) ((BuildStatusOnlyMetadata (so_status s) (so_status s1))
             (''mp_order_id'' \<mapsto> MetaString (mpo_ID mo),
              ''payment_url'' \<mapsto> MetaString (mpo_RedirectURL mo),
              ''retry_at'' \<mapsto> MetaTime t)) (so_status s1) w4 = (Inr h, w5)" and
    hs: "history_Save D h w5 = (Inr hid, w6)" and sv: "Save D s1 w6 = (Inr s2, w')" and
    out: "out = \<lparr>rpo_PaymentURL = mpo_RedirectURL mo, rpo_MPOrderID = mpo_ID mo\<rparr>"
    unfolding bindE_Inr_iff by auto
  note c = CreateOrder_run [OF co]
  obtain n1 n2 n3 where a: "AwaitPayment n1 n2 n3 (mpo_ID mo) (mpo_RedirectURL mo) s = Inr s1"
    and q: "quiet w2 w3" using AwaitPaymentE_run [OF ap] by auto
  have q2: "quiet w3 w5" using nw NewHistoryE_run [OF nh] by (auto simp: Now_run quiet_def)
  note hh = history_Save_run [OF hs]
  have db: "view (w_db w6) = view (w_db w)" using f(1) c q q2 hh by (simp add: quiet_def)
  have "held canon s1 (view (w_db w6))" unfolding db using held_AwaitPayment [OF f(6) a] by simp
  note x = Save_held [OF sv this] and ai = AwaitPayment_Inr [OF a]
  show ?thesis using f(1-3,5) st c q q2 hh db x ai(4,5) out
    by (intro exI [of _ "so_id s"] exI [of _ "abs_order s"] exI [of _ "BuildOrderItems s"]
        exI [of _ "buildPayerInfo s"]) (simp add: quiet_def buildPayerInfo_def)
qed

lemma RetryPayment_refused:
  assumes run: "RetryPayment D i w = (r, w')" and cn: "canon i = Some j"
    and v: "view (w_db w) j = Some v" "v_status v \<noteq> StatusPaymentRejected"
  shows "(\<exists>e. r = Inl e) \<and> view (w_db w') = view (w_db w) \<and> w_log w' = w_log w"
proof (cases "FindByID D i w")
  case (Pair r1 w1)
  note f = FindByID_run [OF Pair]
  show ?thesis
  proof (cases r1)
    case (Inl e)
    with run Pair f(1,2) show ?thesis by (auto simp: RetryPayment_def FindByIDWithItems_eq bindE_def)
  next
    case (Inr s)
    with f(3,5) cn v have "so_status s \<noteq> StatusPaymentRejected" by auto
    with run Pair Inr f(1,2) show ?thesis
      by (auto simp: RetryPayment_def FindByIDWithItems_eq bindE_def split: if_splits)
  qed
qed

lemma GetPaymentStatus_run:
  assumes run: "GetPaymentStatus D i w = (r, w')" and cn: "canon i = Some j"
    and v: "view (w_db w) j = Some v" "view_wf v"
  shows "view (w_db w') = view (w_db w) \<and> w_log w' = w_log w \<and>
    (\<forall>out. r = Inr out \<longrightarrow> v_status v = StatusAwaitingPayment \<and>
       v_sagaStatus v = SagaStatusAwaitingPayment \<and> v_paymentURL v = Some (gps_PaymentURL out) \<and>
       v_mpPreferenceID v = Some (gps_OrderID out)) \<and>
    (r = Inl (PaymentErr ErrPaymentURLNotAvailable) \<and> (\<exists>s w1. FindByID D i w = (Inr s, w1)) \<longrightarrow>
       v_status v \<noteq> StatusAwaitingPayment \<or> v_sagaStatus v \<noteq> SagaStatusAwaitingPayment)"
proof (cases "FindByID D i w")
  case (Pair r1 w1)
  note f = FindByID_run [OF Pair]
  show ?thesis
  proof (cases r1)
    case (Inl e)
    with run Pair f(1,2) show ?thesis by (auto simp: GetPaymentStatus_def bindE_def)
  next
    case (Inr s)
    with f(3,5) cn v(1) have a: "abs_order s = v" by auto
    have pay: "so_paymentURL s \<noteq> None \<and> so_mpPreferenceID s \<noteq> None"
      if "so_sagaStatus s = SagaStatusAwaitingPayment"
      using v(2) that unfolding a [symmetric] by (simp add: view_wf_def)
    from run Pair Inr f(1,2) pay show ?thesis unfolding a [symmetric]
      by (auto simp: GetPaymentStatus_def bindE_def split: if_splits option.splits)
  qed
qed

end

subsection \<open>The amount charged\<close>

text \<open>Prices whose cents survive the conversion to \<^verbatim>\<open>float64\<close> and the division: less than eleven trillion reais.\<close>

definition payable :: "ServiceOrder \<Rightarrow> bool" where
  "payable s \<longleftrightarrow> (\<forall>i \<in> set (active (so_items s)). \<bar>sint (item_unitPrice i)\<bar> \<le> 2 ^ 50)"

definition charged_amount :: "OrderItem list \<Rightarrow> int" where
  "charged_amount items = (\<Sum>i\<leftarrow>items. sint (oi_Quantity i) * to_cents (oi_UnitPrice i))"

lemma charged_amount_BuildOrderItems:
  assumes "payable s"
  shows "charged_amount (BuildOrderItems s) = amount (so_items s)"
proof (cases "active (so_items s) = []")
  case True
  then have "amount (so_items s) = 0" by (simp add: amount_def)
  with True show ?thesis
    by (simp add: BuildOrderItems_def active_def charged_amount_def TotalAmount_eq unit_price_def price_to_cents)
next
  case False
  then have "BuildOrderItems s = map order_item_of (active (so_items s))"
    by (simp add: BuildOrderItems_def active_def)
  moreover have "to_cents (unit_price (item_unitPrice i)) = sint (item_unitPrice i)" if "i \<in> set (active (so_items s))" for i
    using assms that by (simp add: payable_def unit_price_def price_to_cents)
  ultimately show ?thesis
    by (auto simp: charged_amount_def amount_def order_item_of_def comp_def intro!: arg_cong [of _ _ sum_list] map_cong)
qed

end
