(* ===== verification/Billing_Properties.thy ===== *)
theory Billing_Properties
  imports Billing_Correct
begin

text \<open>
  The properties of the billing use cases, each for every repository that keeps the contract and every
  answer of Mercado Pago, with a run on a concrete world beside it.
\<close>

subsection \<open>Samples\<close>

definition sample_notification :: HandlePaymentWebhookInput where
  "sample_notification = \<lparr>hpi_MPOrderID = ''pay'', hpi_ExternalReference = ''os''\<rparr>"

definition payment_world :: "mem_db world" where
  "payment_world = world_with (sample_order StatusAwaitingPayment SagaStatusAwaitingPayment None None)"

lemma payment_world_view:
  "mem_view (w_db payment_world) ''os'' =
     Some (abs_order (sample_order StatusAwaitingPayment SagaStatusAwaitingPayment None None))"
  using world_with_view [of "sample_order StatusAwaitingPayment SagaStatusAwaitingPayment None None"]
    sample_readable [of StatusAwaitingPayment SagaStatusAwaitingPayment None None]
  by (simp add: payment_world_def)

subsection \<open>Properties\<close>

text \<open>
  Claim C17. A notification of Mercado Pago is acted on exactly when it concerns the order in its present
  status: an approved payment makes an order that awaits payment paid and records the payment's
  identifier, a rejected or cancelled one makes it rejected, a refund makes a paid order canceled.
  The order is found by the reference the payment carries, or the one of the request when it carries
  none; the saga is cleared, one record of the new status with the payment's identifier is added to
  the history, and no other order changes. In every other case the notification is answered as not
  processed and changes and records nothing.
\<close>

theorem HandlePaymentWebhook_correct:
  assumes "service_env D canon view" and "HandlePaymentWebhook D input w = (Inr out, w')"
  shows "\<exists>pm. MP_GetPayment D (w_tick w) (hpi_MPOrderID input) = Inr pm \<and>
    (let ref = (if mpp_ExternalReference pm = '''' then hpi_ExternalReference input
                else mpp_ExternalReference pm)
     in ref \<noteq> '''' \<and>
        (if mpp_Status pm \<in> {''approved'', ''rejected'', ''cancelled'', ''canceled'', ''refunded''}
         then webhook_effect canon view ref (mpp_Status pm) (mpp_ID pm) out w w'
         else \<not> hpo_Processed out \<and> view (w_db w') = view (w_db w) \<and> w_log w' = w_log w))"
  using assms by (rule service_env.HandlePaymentWebhook_run)

lemma webhook_runs:
  obtains out w' where "HandlePaymentWebhook (mem_deps ''approved'') sample_notification payment_world =
    (Inr out, w')"
proof -
  have "succeeds (HandlePaymentWebhook (mem_deps ''approved'') sample_notification payment_world)"
    by code_simp
  with that show thesis by (elim succeedsE)
qed

theorem HandlePaymentWebhook_correct_witness:
  "\<exists>out w' v. HandlePaymentWebhook (mem_deps ''approved'') sample_notification payment_world =
       (Inr out, w') \<and> hpo_Processed out \<and> mem_view (w_db w') ''os'' = Some v \<and>
     v_status v = StatusPaid \<and> v_mpPaymentID v = Some ''pay''"
proof -
  obtain out w' where run: "HandlePaymentWebhook (mem_deps ''approved'') sample_notification
      payment_world = (Inr out, w')" by (rule webhook_runs)
  from HandlePaymentWebhook_correct [OF mem_env run]
  have eff: "webhook_effect mem_canon mem_view ''os'' ''approved'' ''pay'' out payment_world w'"
    by (simp add: mem_deps_def sample_payment_def Let_def)
  have st: "so_status (sample_order StatusAwaitingPayment SagaStatusAwaitingPayment None None) =
      StatusAwaitingPayment" by (simp add: sample_order_def)
  from eff run payment_world_view st show ?thesis
    by (auto simp: webhook_effect_def mem_canon_def webhook_move_def split: if_splits)
qed

text \<open>
  A notification is acted on once: whatever it did to an order, the same notification, for
  whatever payment, does nothing to the order as it then is; and of any sequence of notifications
  about an order at most two are acted on, each by an allowed transition, so that a webhook that is
  delivered again and again cannot move the order back and forth.
\<close>

theorem webhook_acts_once:
  assumes "webhook_move st p v = Some v'" and "webhook_sequence ns v = (n, u)"
  shows "webhook_move st p' v' = None \<and> CanTransitionTo (v_status v) (v_status v') \<and>
         v_items v' = v_items v \<and> n \<le> 2 \<and> v_items u = v_items v"
proof -
  have "notifications_left (v_status v) \<le> 2" by (simp add: notifications_left_def)
  with webhook_sequence_bound [OF assms(2)] webhook_move_decreases [OF assms(1)]
    webhook_move_once [OF assms(1)] show ?thesis by simp
qed

theorem webhook_acts_once_witness:
  "CanTransitionTo StatusAwaitingPayment StatusPaid"
proof -
  let ?v = "abs_order (sample_order StatusAwaitingPayment SagaStatusAwaitingPayment None None)"
  have st: "v_status ?v = StatusAwaitingPayment" by (simp add: sample_order_def)
  obtain v' where mv: "webhook_move ''approved'' ''pay'' ?v = Some v'" "v_status v' = StatusPaid"
    using st by (auto simp: webhook_move_def)
  have "webhook_sequence [] ?v = (0, ?v)" by simp
  from webhook_acts_once [OF mv(1) this] mv(2) st show ?thesis by simp
qed

text \<open>
  A retry is accepted only for an order whose payment was rejected: it creates exactly one order
  at Mercado Pago, for the stored customer's e-mail, and the service order awaits the payment of that
  very order, with its link. In any other status nothing is created at Mercado Pago and nothing
  changes.
\<close>

theorem RetryPayment_correct:
  assumes "service_env D canon view" and "RetryPayment D i w = (r, w')"
  shows "(\<forall>out. r = Inr out \<longrightarrow>
      (\<exists>j v items payer. canon i = Some j \<and> view (w_db w) j = Some v \<and>
        v_status v = StatusPaymentRejected \<and>
        mp_calls (w_log w') = mp_calls (w_log w) @ [MPOrderCreated items payer j] \<and>
        payer_Email payer = v_customerEmail v \<and> requests (w_log w') = requests (w_log w) \<and>
        view (w_db w') = (view (w_db w))(j \<mapsto> v_set_saga SagaStatusAwaitingPayment None None None
          (v_set_status StatusAwaitingPayment (v\<lparr>v_mpPreferenceID := Some (rpo_MPOrderID out),
             v_paymentURL := Some (rpo_PaymentURL out)\<rparr>))))) \<and>
    (\<forall>j v. canon i = Some j \<and> view (w_db w) j = Some v \<and> v_status v \<noteq> StatusPaymentRejected \<longrightarrow>
       (\<exists>e. r = Inl e) \<and> view (w_db w') = view (w_db w) \<and> w_log w' = w_log w)"
  using service_env.RetryPayment_run [OF assms(1)] service_env.RetryPayment_refused [OF assms]
    assms(2) by blast

theorem RetryPayment_correct_witness:
  "\<exists>out w'. RetryPayment (mem_deps ''approved'') ''os'' (idle_world StatusPaymentRejected) = (Inr out, w') \<and>
     length (mp_calls (w_log w')) = 1"
proof -
  have "succeeds (RetryPayment (mem_deps ''approved'') ''os'' (idle_world StatusPaymentRejected))" by code_simp
  then obtain out w' where run: "RetryPayment (mem_deps ''approved'') ''os''
      (idle_world StatusPaymentRejected) = (Inr out, w')" by (rule succeedsE)
  from RetryPayment_correct [OF mem_env run] run show ?thesis by auto
qed

text \<open>
  The payment link shown is the stored one: it is returned only for an order that awaits payment
  and is the link and the Mercado Pago order stored for it, and for a well-formed order that awaits
  payment it is never missing. Nothing changes.
\<close>

theorem GetPaymentStatus_correct:
  assumes "service_env D canon view" and "GetPaymentStatus D i w = (r, w')"
    and "canon i = Some j" and "view (w_db w) j = Some v" and "view_wf v"
  shows "view (w_db w') = view (w_db w) \<and> w_log w' = w_log w \<and>
    (\<forall>out. r = Inr out \<longrightarrow> v_status v = StatusAwaitingPayment \<and>
       v_sagaStatus v = SagaStatusAwaitingPayment \<and> v_paymentURL v = Some (gps_PaymentURL out) \<and>
       v_mpPreferenceID v = Some (gps_OrderID out)) \<and>
    (r = Inl (PaymentErr ErrPaymentURLNotAvailable) \<and> (\<exists>s w1. FindByID D i w = (Inr s, w1)) \<longrightarrow>
       v_status v \<noteq> StatusAwaitingPayment \<or> v_sagaStatus v \<noteq> SagaStatusAwaitingPayment)"
  using assms by (rule service_env.GetPaymentStatus_run)

theorem GetPaymentStatus_correct_witness:
  "\<exists>out w'. GetPaymentStatus (mem_deps ''approved'') ''os'' payment_world = (Inr out, w') \<and>
     gps_PaymentURL out = ''url''"
proof -
  let ?s = "sample_order StatusAwaitingPayment SagaStatusAwaitingPayment None None"
  have "succeeds (GetPaymentStatus (mem_deps ''approved'') ''os'' payment_world)" by code_simp
  then obtain out w' where run: "GetPaymentStatus (mem_deps ''approved'') ''os'' payment_world = (Inr out, w')"
    by (rule succeedsE)
  have wf: "view_wf (abs_order ?s)" using sample_line_wf by (simp add: view_wf_def sample_order_def)
  have "v_paymentURL (abs_order ?s) = Some ''url''" by (simp add: sample_order_def)
  with GetPaymentStatus_correct [OF mem_env run _ payment_world_view wf] run show ?thesis
    by (simp add: mem_canon_def)
qed

text \<open>
  What the customer is asked to pay is the order's total: the items sent to Mercado Pago add up,
  quantity times price to the cent, to the amount of the order's active lines, and the order sent is
  never empty.
\<close>

theorem BuildOrderItems_charges_total:
  "(payable s \<longrightarrow> charged_amount (BuildOrderItems s) = amount (so_items s)) \<and> BuildOrderItems s \<noteq> []"
  using charged_amount_BuildOrderItems [of s] by (simp add: BuildOrderItems_def Let_def)

end
