(* ===== verification/Usecases_Status.thy ===== *)
theory Usecases_Status
  imports Billing
begin

text \<open>
  The use cases that change the status of an order: \<^verbatim>\<open>advance_service_order_status.go\<close>,
  \<^verbatim>\<open>respond_to_authorization.go\<close> and \<^verbatim>\<open>delete_service_order.go\<close>. Tracing, metrics and logging are left
  out; the moment the old status was entered is used by the metrics only.
\<close>

subsection \<open>Advance\<close>

record AdvanceServiceOrderStatusOutput =
  adv_ID :: string
  adv_CustomerID :: string
  adv_VehicleID :: string
  adv_Description :: string
  adv_Status :: string
  adv_SagaStatus :: string
  adv_SagaID :: "string option"
  adv_Async :: bool
  adv_PaymentURL :: "string option"
  adv_ClosedAt :: "time option"
  adv_CreatedAt :: time
  adv_UpdatedAt :: time

definition advance_output ::
  "ServiceOrder \<Rightarrow> string option \<Rightarrow> bool \<Rightarrow> string option \<Rightarrow> AdvanceServiceOrderStatusOutput" where
  "advance_output order sagaID async url =
     \<lparr>adv_ID = so_id order, adv_CustomerID = so_customerID order, adv_VehicleID = so_vehicleID order,
      adv_Description = so_description order, adv_Status = status_String (so_status order),
      adv_SagaStatus = so_sagaStatus order, adv_SagaID = sagaID, adv_Async = async,
      adv_PaymentURL = url, adv_ClosedAt = so_closedAt order, adv_CreatedAt = so_createdAt order,
      adv_UpdatedAt = so_updatedAt order\<rparr>"

definition advance_sendStatusUpdateEmail ::
  "'db deps \<Rightarrow> ServiceOrder \<Rightarrow> OrderStatus \<Rightarrow> OrderStatus \<Rightarrow> ('db, unit) io" where
  "advance_sendStatusUpdateEmail D order oldStatus newStatus =
     notify_customer D order oldStatus newStatus"

definition startPayment ::
  "'db deps \<Rightarrow> ServiceOrder \<Rightarrow> OrderStatus \<Rightarrow> ('db, AdvanceServiceOrderStatusOutput) io" where
  "startPayment D order oldStatus =
     bindE (CreatePaymentPreference D order) (\<lambda>preference.
     bindE (AwaitPaymentE D (mpo_ID preference) (mpo_RedirectURL preference) order) (\<lambda>order.
     let metadata = (BuildStatusOnlyMetadata oldStatus (so_status order))
           (''mp_order_id'' \<mapsto> MetaString (mpo_ID preference),
            ''payment_url'' \<mapsto> MetaString (mpo_RedirectURL preference)) in
     bindE (NewHistoryE D (so_id order) metadata (so_status order)) (\<lambda>history.
     bindE (history_Save D history) (\<lambda>_.
     bindE (Save D order) (\<lambda>order.
     bindE (advance_sendStatusUpdateEmail D order oldStatus (so_status order)) (\<lambda>_.
     returnE (advance_output order None False (so_paymentURL order))))))))"

definition AdvanceServiceOrderStatus ::
  "'db deps \<Rightarrow> string \<Rightarrow> ('db, AdvanceServiceOrderStatusOutput) io" where
  "AdvanceServiceOrderStatus D serviceOrderID =
     bindE (FindByID D serviceOrderID) (\<lambda>order.
     if IsDeleted order then throwE ErrServiceOrderDeleted
     else
       let oldStatus = so_status order in
       bindE (liftE (NextStatus oldStatus)) (\<lambda>nextStatus.
       let inventoryOp = DetermineInventoryOperation oldStatus nextStatus in
       if inventoryOp \<noteq> InventoryOpNone then
         bindE (StartSaga D (so_id order) inventoryOp nextStatus None) (\<lambda>result.
         returnE (advance_output (sr_Order result)
           (if sr_SagaID result \<noteq> '''' then Some (sr_SagaID result) else None) (sr_Async result) None))
       else if oldStatus = StatusCompleted \<and> nextStatus = StatusAwaitingPayment then
         startPayment D order oldStatus
       else
         bindE (UpdateStatusE D nextStatus order) (\<lambda>order.
         bindE (NewHistoryE D (so_id order) (BuildStatusOnlyMetadata oldStatus (so_status order))
                  (so_status order)) (\<lambda>history.
         bindE (history_Save D history) (\<lambda>_.
         bindE (Save D order) (\<lambda>order.
         bindE (advance_sendStatusUpdateEmail D order oldStatus (so_status order)) (\<lambda>_.
         returnE (advance_output order None False None))))))))"

subsection \<open>The customer's answer to the budget\<close>

record RespondToAuthorizationInput =
  rai_ServiceOrderID :: string
  rai_Approved :: bool
  rai_Observation :: "string option"
  rai_CallerID :: string
  rai_CallerRole :: string

record RespondToAuthorizationOutput =
  rao_ID :: string
  rao_CustomerID :: string
  rao_VehicleID :: string
  rao_Description :: string
  rao_Status :: string
  rao_SagaStatus :: string
  rao_SagaID :: "string option"
  rao_Async :: bool
  rao_ClosedAt :: "time option"
  rao_CreatedAt :: time
  rao_UpdatedAt :: time

definition respond_output ::
  "ServiceOrder \<Rightarrow> string option \<Rightarrow> bool \<Rightarrow> RespondToAuthorizationOutput" where
  "respond_output order sagaID async =
     \<lparr>rao_ID = so_id order, rao_CustomerID = so_customerID order, rao_VehicleID = so_vehicleID order,
      rao_Description = so_description order, rao_Status = status_String (so_status order),
      rao_SagaStatus = so_sagaStatus order, rao_SagaID = sagaID, rao_Async = async,
      rao_ClosedAt = so_closedAt order, rao_CreatedAt = so_createdAt order,
      rao_UpdatedAt = so_updatedAt order\<rparr>"

definition authorization_sendStatusUpdateEmail ::
  "'db deps \<Rightarrow> ServiceOrder \<Rightarrow> OrderStatus \<Rightarrow> OrderStatus \<Rightarrow> ('db, unit) io" where
  "authorization_sendStatusUpdateEmail D order oldStatus newStatus =
     notify_customer D order oldStatus newStatus"

definition authorization_metadata ::
  "OrderStatus \<Rightarrow> OrderStatus \<Rightarrow> string option \<Rightarrow> metadata" where
  "authorization_metadata oldStatus newStatus observation =
     (case observation of
        Some t \<Rightarrow> if t \<noteq> ''''
          then (BuildStatusOnlyMetadata oldStatus newStatus)(''observation'' \<mapsto> MetaString t)
          else BuildStatusOnlyMetadata oldStatus newStatus
      | None \<Rightarrow> BuildStatusOnlyMetadata oldStatus newStatus)"

definition RespondToAuthorization ::
  "'db deps \<Rightarrow> RespondToAuthorizationInput \<Rightarrow> ('db, RespondToAuthorizationOutput) io" where
  "RespondToAuthorization D input =
     bindE (FindByID D (rai_ServiceOrderID input)) (\<lambda>order.
     if rai_CallerRole input = ''CUSTOMER'' \<and> so_customerID order \<noteq> rai_CallerID input
       then throwE ErrForbiddenAccess
     else if IsDeleted order then throwE ErrServiceOrderDeleted
     else if so_status order \<noteq> StatusPendingAuthorization then throwE ErrInvalidStatusTransition
     else
       let oldStatus = so_status order;
           newStatus = (if rai_Approved input then StatusAuthorized else StatusAuthorizationDenied);
           inventoryOp = DetermineInventoryOperation oldStatus newStatus in
       if inventoryOp \<noteq> InventoryOpNone then
         bindE (StartSaga D (so_id order) inventoryOp newStatus (rai_Observation input)) (\<lambda>result.
         returnE (respond_output (sr_Order result)
           (if sr_SagaID result \<noteq> '''' then Some (sr_SagaID result) else None) (sr_Async result)))
       else
         bindE (UpdateStatusE D newStatus order) (\<lambda>order.
         bindE (NewHistoryE D (so_id order)
                  (authorization_metadata oldStatus (so_status order) (rai_Observation input))
                  (so_status order)) (\<lambda>history.
         bindE (history_Save D history) (\<lambda>_.
         bindE (Save D order) (\<lambda>order.
         bindE (authorization_sendStatusUpdateEmail D order oldStatus (so_status order)) (\<lambda>_.
         returnE (respond_output order None False)))))))"

subsection \<open>Cancellation\<close>

record DeleteServiceOrderOutput =
  dso_Success :: bool
  dso_Async :: bool
  dso_SagaID :: "string option"

text \<open>
  The \<^verbatim>\<open>switch existingOrder.Status()\<close> before the saga: a failing cancellation at Mercado Pago is only
  logged, a failing refund stops the use case.
\<close>

definition settle_payment :: "'db deps \<Rightarrow> ServiceOrder \<Rightarrow> ('db, unit) io" where
  "settle_payment D existingOrder =
     (let mpOrderID = (case so_mpPreferenceID existingOrder of Some i \<Rightarrow> i | None \<Rightarrow> '''') in
      if so_status existingOrder = StatusAwaitingPayment \<or>
         so_status existingOrder = StatusPaymentRejected then
        (if cancelPaymentOrder_wired D \<and> mpOrderID \<noteq> ''''
         then bindE (attemptE (CancelPaymentOrder D mpOrderID)) (\<lambda>_. returnE ())
         else returnE ())
      else if so_status existingOrder = StatusPaid then
        (let mpPaymentID = (case so_mpPaymentID existingOrder of Some i \<Rightarrow> i | None \<Rightarrow> '''') in
         if refundPaymentOrder_wired D \<and> mpPaymentID \<noteq> ''''
         then RefundPaymentOrder D mpPaymentID
         else returnE ())
      else returnE ())"

definition DeleteServiceOrder ::
  "'db deps \<Rightarrow> string \<Rightarrow> string option \<Rightarrow> ('db, DeleteServiceOrderOutput) io" where
  "DeleteServiceOrder D i remarks =
     bindE (FindByID D i) (\<lambda>existingOrder.
     if IsDeleted existingOrder then throwE ErrServiceOrderNotFound
     else
       bindE (settle_payment D existingOrder) (\<lambda>_.
       bindE (CancelOrder D i remarks) (\<lambda>result.
       returnE \<lparr>dso_Success = True, dso_Async = sr_Async result,
                dso_SagaID = (if sr_SagaID result \<noteq> '''' then Some (sr_SagaID result) else None)\<rparr>)))"

end
