(* ===== verification/Emissions.thy ===== *)
theory Emissions
  imports Usecases_Status
begin

text \<open>
  What the calls of a program add to the log: it only grows, and a program that calls no queue deletes no message.
\<close>

subsection \<open>What a program may record\<close>

definition emits :: "('db, 'a) io \<Rightarrow> logged set \<Rightarrow> bool" where
  "emits m A \<longleftrightarrow> (\<forall>w r w'. m w = (r, w') \<longrightarrow> (\<exists>new. w_log w' = w_log w @ new \<and> set new \<subseteq> A))"

lemma emitsD: "emits m A \<Longrightarrow> m w = (r, w') \<Longrightarrow> \<exists>new. w_log w' = w_log w @ new \<and> set new \<subseteq> A"
  by (simp add: emits_def)

lemma emits_returnE [simp, intro]: "emits (returnE x) A" "emits (Pair r) A"
  by (auto simp: emits_def returnE_def)

lemma emits_throwE [simp, intro]: "emits (throwE e) A"
  by (auto simp: emits_def)

lemma emits_liftE [simp, intro]: "emits (liftE r) A"
  by (auto simp: emits_def)

lemma emits_bindE [intro]:
  assumes "emits m A" and "\<And>x. emits (f x) A"
  shows "emits (bindE m f) A"
  unfolding emits_def
proof (intro allI impI)
  fix w r w' assume run: "bindE m f w = (r, w')"
  obtain r1 w1 where m: "m w = (r1, w1)" by fastforce
  from emitsD [OF assms(1) m] obtain n1 where n1: "w_log w1 = w_log w @ n1" "set n1 \<subseteq> A" by blast
  show "\<exists>new. w_log w' = w_log w @ new \<and> set new \<subseteq> A"
  proof (cases r1)
    case (Inl e)
    with run m n1 show ?thesis by (auto simp: bindE_def)
  next
    case (Inr x)
    with run m have "f x w1 = (r, w')" by (simp add: bindE_def)
    from emitsD [OF assms(2) this] n1 show ?thesis by auto
  qed
qed

lemma emits_if [intro]: "emits m A \<Longrightarrow> emits n A \<Longrightarrow> emits (if b then m else n) A"
  by simp

lemma emits_attemptE [intro]: "emits m A \<Longrightarrow> emits (attemptE m) A"
  by (auto simp: emits_def attemptE_def split: prod.splits)

lemma emits_foreachE [intro]: "(\<And>x. emits (f x) A) \<Longrightarrow> emits (foreachE xs f) A"
  by (induction xs) (auto intro: emits_bindE)

lemma emits_external: "(\<And>x. set (ev x) \<subseteq> A) \<Longrightarrow> emits (external f ev) A"
  by (auto simp: emits_def external_def split: sum.splits)

lemma emits_on_db: "emits (on_db f) A"
  by (auto simp: emits_def on_db_def split: prod.splits)

text \<open>Everything but the deletion of a message.\<close>

abbreviation handling :: "logged set" where
  "handling \<equiv> - range MessageDeleted"

lemma emits_calls [intro, simp]:
  "emits (Now D) handling" "emits (NewV7 D) handling" "emits (Save D s) handling"
  "emits (FindByID D i) handling" "emits (FindByCustomerID D i) handling"
  "emits (history_Save D h) handling" "emits (PublishRequest D a b c d) handling"
  "emits (GetCustomerByID D i) handling" "emits (SendStatusUpdateEmail D p q x y z) handling"
  "emits (mp_CancelOrder D i) handling" "emits (mp_RefundOrder D i) handling"
  unfolding effect_defs by (auto intro: emits_external emits_on_db)

lemma emits_clocked [intro, simp]:
  "emits (UpdateStatusE D t s) handling" "emits (StartSagaE D sid t n s) handling"
  "emits (CompleteSagaE D s) handling" "emits (FailSagaE D s) handling"
  "emits (NewHistoryE D i md st) handling"
  unfolding clocked_defs by (intro emits_bindE emits_calls emits_liftE emits_returnE)+

lemma emits_notify [intro, simp]: "emits (notify_customer D s a b) handling"
  unfolding notify_customer_def
  by (intro emits_bindE emits_attemptE emits_calls) (auto split: sum.split)

lemma emits_saga_helpers [intro, simp]:
  "emits (saga_sendStatusUpdateEmail D s a b) handling"
  "emits (saga_saveHistory D s a b op sid f n) handling"
  unfolding saga_sendStatusUpdateEmail_def saga_saveHistory_def
  by (intro emits_if emits_bindE emits_calls emits_clocked emits_notify emits_returnE)+

lemma emits_transitionLocal [intro, simp]: "emits (transitionLocal D s t op sid n) handling"
  unfolding transitionLocal_def Let_def
  by (intro emits_bindE emits_if emits_clocked emits_calls emits_saga_helpers emits_returnE)

lemma emits_handlers:
  "emits (IsCurrentSaga D i sid) handling" "emits (HandleSucceeded D ev) handling"
  "emits (HandleFailed D ef) handling"
  unfolding IsCurrentSaga_def HandleSucceeded_def HandleFailed_def Let_def
  by (intro emits_bindE emits_if emits_clocked emits_calls emits_saga_helpers emits_returnE emits_liftE)+

lemma emits_StartSaga [intro, simp]: "emits (StartSaga D i op t n) handling"
  unfolding StartSaga_def Let_def
  by (intro emits_bindE emits_if emits_clocked emits_calls emits_transitionLocal emits_returnE emits_throwE)

lemma emits_CancelOrder [intro, simp]: "emits (CancelOrder D i n) handling"
proof -
  have "emits (case plan_cancel st of
       CancelLocally \<Rightarrow> bindE (transitionLocal D s StatusCanceled InventoryOpNone '''' n) (\<lambda>order.
         returnE \<lparr>sr_Order = order, sr_SagaID = '''', sr_Async = False\<rparr>)
     | CancelBySaga operation \<Rightarrow> StartSaga D i operation StatusCanceled n
     | CancelRefused \<Rightarrow> throwE ErrInvalidStatusTransition) handling" for st s
    by (cases "plan_cancel st") (auto intro: emits_bindE)
  then show ?thesis unfolding CancelOrder_def by (intro emits_bindE emits_if emits_calls emits_throwE)
qed

lemma emits_DeleteServiceOrder: "emits (DeleteServiceOrder D i n) handling"
proof -
  have "emits (settle_payment D s) handling" for s
    unfolding settle_payment_def Let_def CancelPaymentOrder_def RefundPaymentOrder_def
    by (intro emits_if emits_bindE emits_attemptE emits_calls emits_returnE)
  then show ?thesis unfolding DeleteServiceOrder_def
    by (intro emits_bindE emits_if emits_calls emits_CancelOrder emits_returnE emits_throwE)
qed

end
