(* ===== verification/Usecases_Status_Correct.thy ===== *)
theory Usecases_Status_Correct
  imports Usecases_Status Billing_Correct Emissions
begin

text \<open>
  The use cases of \<open>Usecases_Status\<close> are correct: they move the stored orders along the abstract machine,
  and what each does to the stored order, to the stock service and to Mercado Pago.
\<close>

lemma reads_status_emails [intro, simp]:
  "reads view (advance_sendStatusUpdateEmail D s a b) (\<lambda>_ _. True)"
  "reads view (authorization_sendStatusUpdateEmail D s a b) (\<lambda>_ _. True)"
  by (simp_all add: advance_sendStatusUpdateEmail_def authorization_sendStatusUpdateEmail_def)

lemma stock_operation_target:
  "DetermineInventoryOperation s t \<noteq> InventoryOpNone \<Longrightarrow> saga_target t"
  by (auto simp: DetermineInventoryOperation_def saga_target_def split: if_splits)

lemma NextStatus_payment: "NextStatus s = Inr StatusAwaitingPayment \<Longrightarrow> s = StatusCompleted"
  by (cases s) auto

context service_env
begin

lemmas history_steps = advances_skip [OF reads_calls(15)] advances_skip [OF reads_calls(3)]
  advances_then [OF advances_Save] advances_skip [OF reads_status_emails(1)]
  advances_skip [OF reads_status_emails(2)] advances_returnE

lemma advances_startPayment: "advances view (held canon s) (startPayment D s old)"
  unfolding startPayment_def Let_def CreatePaymentPreference_def
  by (intro advances_skip [OF reads_calls(11)] advances_method [OF reads_AwaitPaymentE] history_steps)

lemma advances_AdvanceServiceOrderStatus: "advances view P (AdvanceServiceOrderStatus D i)"
  unfolding AdvanceServiceOrderStatus_def Let_def
proof (intro advances_find_held advances_if advances_throwE)
  fix s :: ServiceOrder
  let ?m = "\<lambda>t. if DetermineInventoryOperation (so_status s) t \<noteq> InventoryOpNone then
         bindE (StartSaga D (so_id s) (DetermineInventoryOperation (so_status s) t) t None) (\<lambda>result.
         returnE (advance_output (sr_Order result)
           (if sr_SagaID result \<noteq> '''' then Some (sr_SagaID result) else None) (sr_Async result) None))
       else if so_status s = StatusCompleted \<and> t = StatusAwaitingPayment then
         startPayment D s (so_status s)
       else
         bindE (UpdateStatusE D t s) (\<lambda>order.
         bindE (NewHistoryE D (so_id order) (BuildStatusOnlyMetadata (so_status s) (so_status order))
                  (so_status order)) (\<lambda>history.
         bindE (history_Save D history) (\<lambda>_.
         bindE (Save D order) (\<lambda>order.
         bindE (advance_sendStatusUpdateEmail D order (so_status s) (so_status order)) (\<lambda>_.
         returnE (advance_output order None False None))))))"
  show "advances view (held canon s) (bindE (liftE (NextStatus (so_status s))) ?m)"
  proof (cases "NextStatus (so_status s)")
    case (Inl e)
    then show ?thesis by simp
  next
    case (Inr t)
    have local: "\<not> (so_status s = StatusCompleted \<and> t = StatusAwaitingPayment) \<Longrightarrow> t \<noteq> StatusAwaitingPayment"
      using Inr NextStatus_payment by blast
    have "advances view (held canon s) (?m t)"
      by (intro advances_if advances_then [OF advances_StartSaga] advances_startPayment
          advances_method [OF reads_UpdateStatusE] history_steps) (simp_all add: stock_operation_target local)
    then show ?thesis unfolding Inr by simp
  qed
qed

lemma advances_RespondToAuthorization: "advances view P (RespondToAuthorization D input)"
  unfolding RespondToAuthorization_def Let_def
  by (intro advances_find_held advances_if advances_throwE advances_then [OF advances_StartSaga]
      advances_method [OF reads_UpdateStatusE] history_steps) (simp_all add: stock_operation_target)

lemma reads_settle_payment: "reads view (settle_payment D s) (\<lambda>_ _. True)"
  by (auto simp: settle_payment_def Let_def
      intro: reads_bindE [OF reads_attemptE [OF reads_payment_orders(1)]] reads_payment_orders)

lemma advances_DeleteServiceOrder: "advances view P (DeleteServiceOrder D i remarks)"
  unfolding DeleteServiceOrder_def
  by (intro advances_find_held advances_if advances_throwE advances_skip [OF reads_settle_payment]
      advances_then [OF advances_CancelOrder] advances_returnE)

end

subsection \<open>Exact effects\<close>

context service_env
begin

lemma local_tail_run:
  assumes run: "bindE (NewHistoryE D (so_id s) md (so_status s)) (\<lambda>history.
         bindE (history_Save D history) (\<lambda>_.
         bindE (Save D s) (\<lambda>order.
         bindE (notify_customer D order old (so_status order)) (\<lambda>_.
         returnE (out order))))) w = (Inr x, w')"
    and h: "held canon s (view (w_db w))"
  shows "view (w_db w') = (view (w_db w))(so_id s \<mapsto> abs_order s)"
    and "requests (w_log w') = requests (w_log w)" and "mp_calls (w_log w') = mp_calls (w_log w)"
    and "\<exists>h. histories (w_log w') = histories (w_log w) @ [h] \<and> h_serviceOrderID h = so_id s \<and>
           h_status h = so_status s \<and> h_metadata h = md"
    and "\<exists>s'. x = out s' \<and> so_id s' = so_id s \<and> abs_order s' = abs_order s"
proof -
  from run obtain hr hid s2 w1 w2 w3 where
    nh: "NewHistoryE D (so_id s) md (so_status s) w = (Inr hr, w1)" and
    hs: "history_Save D hr w1 = (Inr hid, w2)" and sv: "Save D s w2 = (Inr s2, w3)" and
    ml: "notify_customer D s2 old (so_status s2) w3 = (Inr (), w')" and out: "x = out s2"
    by (auto simp: bindE_Inr_iff)
  have q: "quiet w w1" and hr: "h_serviceOrderID hr = so_id s" "h_status hr = so_status s" "h_metadata hr = md"
    using NewHistoryE_run [OF nh] by (auto simp: NewHistory_Inr_iff)
  note hh = history_Save_run [OF hs] and mm = notify_customer_run [OF ml]
  have db: "w_db w2 = w_db w" using hh q by (simp add: quiet_def)
  note x = Save_held [OF sv h [folded db]]
  show "view (w_db w') = (view (w_db w))(so_id s \<mapsto> abs_order s)" using x(1) mm db by simp
  show "requests (w_log w') = requests (w_log w)" "mp_calls (w_log w') = mp_calls (w_log w)"
    using mm x(2) hh q by (simp_all add: quiet_def)
  show "\<exists>h. histories (w_log w') = histories (w_log w) @ [h] \<and> h_serviceOrderID h = so_id s \<and>
      h_status h = so_status s \<and> h_metadata h = md"
    using mm x(2) hh q hr by (intro exI [of _ "hr\<lparr>h_id := hid\<rparr>"]) (simp add: quiet_def)
  show "\<exists>s'. x = out s' \<and> so_id s' = so_id s \<and> abs_order s' = abs_order s" using out x(3,4) by blast
qed

lemma startPayment_run:
  assumes run: "startPayment D s old w = (Inr out, w')" and h: "held canon s (view (w_db w))"
  shows "\<exists>mo :: mp_Order. view (w_db w') = (view (w_db w))(so_id s \<mapsto>
      v_set_saga SagaStatusAwaitingPayment None None None (v_set_status StatusAwaitingPayment
        ((abs_order s)\<lparr>v_mpPreferenceID := Some (mpo_ID mo), v_paymentURL := Some (mpo_RedirectURL mo)\<rparr>))) \<and>
      requests (w_log w') = requests (w_log w) \<and> \<not> adv_Async out \<and> adv_ID out = so_id s \<and>
      adv_PaymentURL out = Some (mpo_RedirectURL mo) \<and>
      mp_calls (w_log w') = mp_calls (w_log w) @
        [MPOrderCreated (BuildOrderItems s) (buildPayerInfo s) (so_id s)]"
proof -
  from run obtain mo s1 w1 w2 where
    co: "CreateOrder D (BuildOrderItems s) (buildPayerInfo s) (so_id s) w = (Inr mo, w1)" and
    ap: "AwaitPaymentE D (mpo_ID mo) (mpo_RedirectURL mo) s w1 = (Inr s1, w2)" and
    tl: "bindE (NewHistoryE D (so_id s1) ((BuildStatusOnlyMetadata old (so_status s1))
           (''mp_order_id'' \<mapsto> MetaString (mpo_ID mo),
            ''payment_url'' \<mapsto> MetaString (mpo_RedirectURL mo))) (so_status s1)) (\<lambda>history.
         bindE (history_Save D history) (\<lambda>_.
         bindE (Save D s1) (\<lambda>order.
         bindE (notify_customer D order old (so_status order)) (\<lambda>_.
         returnE (advance_output order None False (so_paymentURL order)))))) w2 = (Inr out, w')"
    unfolding startPayment_def CreatePaymentPreference_def Let_def advance_sendStatusUpdateEmail_def
    by (subst (asm) bindE_Inr_iff, elim exE conjE, subst (asm) bindE_Inr_iff) blast
  note c = CreateOrder_run [OF co]
  obtain n1 n2 n3 where a: "AwaitPayment n1 n2 n3 (mpo_ID mo) (mpo_RedirectURL mo) s = Inr s1"
    and q: "quiet w1 w2" using AwaitPaymentE_run [OF ap] by auto
  have "held canon s1 (view (w_db w2))" using held_AwaitPayment [OF h a] c q by (simp add: quiet_def)
  note t = local_tail_run [OF tl this] and ai = AwaitPayment_Inr [OF a]
  obtain s' where s': "out = advance_output s' None False (so_paymentURL s')" "so_id s' = so_id s1"
    "abs_order s' = abs_order s1" using t(5) by blast
  have "so_paymentURL s' = Some (mpo_RedirectURL mo)"
    using s'(3) ai(4) abs_order_sel(11) [of s'] by (simp add: v_set_saga_def v_set_status_def)
  moreover have "view (w_db w') = (view (w_db w))(so_id s \<mapsto> abs_order s1)"
    using t(1) c q ai(5) by (simp add: quiet_def)
  ultimately show ?thesis using s'(1,2) t(2,3) ai(5) c q unfolding ai(4)
    by (intro exI [of _ mo]) (simp add: quiet_def advance_output_def)
qed

text \<open>The local transition of the advance and of the authorization, which leave the saga alone.\<close>

lemma local_transition_run:
  assumes run: "bindE (UpdateStatusE D t s) (\<lambda>order.
         bindE (NewHistoryE D (so_id order) (md order) (so_status order)) (\<lambda>history.
         bindE (history_Save D history) (\<lambda>_.
         bindE (Save D order) (\<lambda>order.
         bindE (notify_customer D order old (so_status order)) (\<lambda>_.
         returnE (out order)))))) w = (Inr x, w')"
    and h: "held canon s (view (w_db w))" and t: "t \<noteq> StatusAwaitingPayment"
  shows "view (w_db w') = (view (w_db w))(so_id s \<mapsto> v_set_status t (abs_order s))"
    and "requests (w_log w') = requests (w_log w)" and "mp_calls (w_log w') = mp_calls (w_log w)"
    and "\<exists>h. histories (w_log w') = histories (w_log w) @ [h] \<and> h_serviceOrderID h = so_id s \<and> h_status h = t"
    and "\<exists>s'. x = out s' \<and> so_id s' = so_id s \<and> abs_order s' = v_set_status t (abs_order s)"
    and "CanTransitionTo (so_status s) t"
proof -
  from run obtain s1 w1 where up: "UpdateStatusE D t s w = (Inr s1, w1)"
    and tl: "bindE (NewHistoryE D (so_id s1) (md s1) (so_status s1)) (\<lambda>history.
         bindE (history_Save D history) (\<lambda>_.
         bindE (Save D s1) (\<lambda>order.
         bindE (notify_customer D order old (so_status order)) (\<lambda>_.
         returnE (out order))))) w1 = (Inr x, w')"
    by (subst (asm) bindE_Inr_iff) blast
  obtain n1 n2 where u: "UpdateStatus n1 n2 t s = Inr s1" and q: "quiet w w1"
    using UpdateStatusE_run [OF up] by auto
  have "held canon s1 (view (w_db w1))" using held_UpdateStatus [OF h u t] q by (simp add: quiet_def)
  note r = local_tail_run [OF tl this] and f = UpdateStatus_frame [OF u] and a = abs_UpdateStatus [OF u]
  show "view (w_db w') = (view (w_db w))(so_id s \<mapsto> v_set_status t (abs_order s))"
    "requests (w_log w') = requests (w_log w)" "mp_calls (w_log w') = mp_calls (w_log w)"
    using r(1-3) q f(1) a by (simp_all add: quiet_def)
  show "\<exists>h. histories (w_log w') = histories (w_log w) @ [h] \<and> h_serviceOrderID h = so_id s \<and> h_status h = t"
    using r(4) q f(1,2) by (auto simp: quiet_def)
  show "\<exists>s'. x = out s' \<and> so_id s' = so_id s \<and> abs_order s' = v_set_status t (abs_order s)"
    using r(5) f(1) a by auto
  show "CanTransitionTo (so_status s) t" by (rule f(11))
qed

end

text \<open>What an advance may do to the stored order \<open>v\<close> on its way to the next status \<open>t\<close>.\<close>

definition advance_effect ::
  "('db \<Rightarrow> string \<Rightarrow> order_view option) \<Rightarrow> string \<Rightarrow> order_view \<Rightarrow> OrderStatus \<Rightarrow>
   AdvanceServiceOrderStatusOutput \<Rightarrow> 'db world \<Rightarrow> 'db world \<Rightarrow> bool" where
  "advance_effect view j v t out w w' \<longleftrightarrow>
     (let op = DetermineInventoryOperation (v_status v) t in
      if op \<noteq> InventoryOpNone then
        v_sagaStatus v \<noteq> SagaStatusAwaitingInventory \<and> mp_calls (w_log w') = mp_calls (w_log w) \<and>
        (if product_lines v = {#}
         then \<not> adv_Async out \<and> view (w_db w') = (view (w_db w))(j \<mapsto> settled t v) \<and>
              requests (w_log w') = requests (w_log w)
         else adv_Async out \<and>
              (\<exists>sid items. view (w_db w') = (view (w_db w))(j \<mapsto>
                   v_set_saga SagaStatusAwaitingInventory (Some sid) (Some t) None v) \<and>
                 mset items = image_mset stock_item (product_lines v) \<and>
                 requests (w_log w') = requests (w_log w) @ [(sid, j, op, items)]))
      else if t = StatusAwaitingPayment then
        \<not> adv_Async out \<and> requests (w_log w') = requests (w_log w) \<and>
        (\<exists>pref url items payer. adv_PaymentURL out = Some url \<and>
           mp_calls (w_log w') = mp_calls (w_log w) @ [MPOrderCreated items payer j] \<and>
           payer_Email payer = v_customerEmail v \<and>
           view (w_db w') = (view (w_db w))(j \<mapsto>
             v_set_saga SagaStatusAwaitingPayment None None None (v_set_status StatusAwaitingPayment
               (v\<lparr>v_mpPreferenceID := Some pref, v_paymentURL := Some url\<rparr>))))
      else
        \<not> adv_Async out \<and> requests (w_log w') = requests (w_log w) \<and>
        mp_calls (w_log w') = mp_calls (w_log w) \<and>
        view (w_db w') = (view (w_db w))(j \<mapsto> v_set_status t v))"

context service_env
begin

lemma Advance_run:
  assumes run: "AdvanceServiceOrderStatus D i w = (Inr out, w')"
  shows "\<exists>j v t. canon i = Some j \<and> view (w_db w) j = Some v \<and> adv_ID out = j \<and>
    NextStatus (v_status v) = Inr t \<and> advance_effect view j v t out w w'"
proof -
  from run obtain s w1 where find: "FindByID D i w = (Inr s, w1)" and
    raw: "(let oldStatus = so_status s in
       bindE (liftE (NextStatus oldStatus)) (\<lambda>nextStatus.
       let inventoryOp = DetermineInventoryOperation oldStatus nextStatus in
       if inventoryOp \<noteq> InventoryOpNone then
         bindE (StartSaga D (so_id s) inventoryOp nextStatus None) (\<lambda>result.
         returnE (advance_output (sr_Order result)
           (if sr_SagaID result \<noteq> '''' then Some (sr_SagaID result) else None) (sr_Async result) None))
       else if oldStatus = StatusCompleted \<and> nextStatus = StatusAwaitingPayment then
         startPayment D s oldStatus
       else
         bindE (UpdateStatusE D nextStatus s) (\<lambda>order.
         bindE (NewHistoryE D (so_id order) (BuildStatusOnlyMetadata oldStatus (so_status order))
                  (so_status order)) (\<lambda>history.
         bindE (history_Save D history) (\<lambda>_.
         bindE (Save D order) (\<lambda>order.
         bindE (advance_sendStatusUpdateEmail D order oldStatus (so_status order)) (\<lambda>_.
         returnE (advance_output order None False None)))))))) w1 = (Inr out, w')"
    unfolding AdvanceServiceOrderStatus_def
    by (subst (asm) bindE_Inr_iff) (unfold throw_guard, blast)
  note f = FindByID_run [OF find]
  have h: "held canon s (view (w_db w1))" using f(1,6) by simp
  obtain t where t: "NextStatus (so_status s) = Inr t"
    using raw by (cases "NextStatus (so_status s)") (auto simp: Let_def)
  have "advance_effect view (so_id s) (abs_order s) t out w w' \<and> adv_ID out = so_id s"
  proof (cases "DetermineInventoryOperation (so_status s) t \<noteq> InventoryOpNone")
    case True
    with raw t obtain r where ss: "StartSaga D (so_id s) (DetermineInventoryOperation (so_status s) t) t None w1 = (Inr r, w')"
      and out: "out = advance_output (sr_Order r)
           (if sr_SagaID r \<noteq> '''' then Some (sr_SagaID r) else None) (sr_Async r) None"
      by (auto simp: Let_def bindE_Inr_iff)
    from StartSaga_run [OF ss stock_operation_target [OF True]] obtain j v where
      "canon (so_id s) = Some j" "view (w_db w1) j = Some v" and
      x: "v_sagaStatus v \<noteq> SagaStatusAwaitingInventory" "mp_calls (w_log w') = mp_calls (w_log w1)"
        "so_id (sr_Order r) = j" "if product_lines v = {#}
         then \<not> sr_Async r \<and> (v_status v = t \<or> CanTransitionTo (v_status v) t) \<and>
          view (w_db w') = (view (w_db w1))(j \<mapsto> settled t v) \<and>
          requests (w_log w') = requests (w_log w1)
         else sr_Async r \<and>
          view (w_db w') = (view (w_db w1))(j \<mapsto> v_set_saga SagaStatusAwaitingInventory
            (Some (sr_SagaID r)) (Some t) None v) \<and>
          (\<exists>items. mset items = image_mset stock_item (product_lines v) \<and>
             requests (w_log w') = requests (w_log w1) @
               [(sr_SagaID r, j, DetermineInventoryOperation (so_status s) t, items)])"
      by blast
    moreover from this h f(1,5) have "j = so_id s" "v = abs_order s" by (auto simp: held_def)
    ultimately show ?thesis using True f(1,2) out
      by (auto simp: advance_effect_def Let_def advance_output_def split: if_splits)
  next
    case False
    show ?thesis
    proof (cases "t = StatusAwaitingPayment")
      case True
      with t NextStatus_payment have "so_status s = StatusCompleted" by blast
      with raw t False True have "startPayment D s (so_status s) w1 = (Inr out, w')" by (simp add: Let_def)
      from startPayment_run [OF this h] False True f(1,2) show ?thesis
        by (auto simp: advance_effect_def Let_def buildPayerInfo_def)
    next
      case ap: False
      with raw t False have "bindE (UpdateStatusE D t s) (\<lambda>order.
         bindE (NewHistoryE D (so_id order) (BuildStatusOnlyMetadata (so_status s) (so_status order))
                  (so_status order)) (\<lambda>history.
         bindE (history_Save D history) (\<lambda>_.
         bindE (Save D order) (\<lambda>order.
         bindE (notify_customer D order (so_status s) (so_status order)) (\<lambda>_.
         returnE (advance_output order None False None)))))) w1 = (Inr out, w')"
        by (simp add: Let_def advance_sendStatusUpdateEmail_def)
      from local_transition_run [OF this h ap] False ap f(1,2) show ?thesis
        by (auto simp: advance_effect_def Let_def advance_output_def)
    qed
  qed
  with f(3,5) t show ?thesis by (intro exI [of _ "so_id s"] exI [of _ "abs_order s"] exI [of _ t]) simp
qed

lemma Respond_run:
  assumes run: "RespondToAuthorization D input w = (Inr out, w')"
  shows "\<exists>j v. canon (rai_ServiceOrderID input) = Some j \<and> view (w_db w) j = Some v \<and>
    v_status v = StatusPendingAuthorization \<and>
    (rai_CallerRole input = ''CUSTOMER'' \<longrightarrow> v_customerID v = rai_CallerID input) \<and>
    mp_calls (w_log w') = mp_calls (w_log w) \<and>
    (if rai_Approved input
     then view (w_db w') = (view (w_db w))(j \<mapsto> v_set_status StatusAuthorized v) \<and>
          requests (w_log w') = requests (w_log w)
     else v_sagaStatus v \<noteq> SagaStatusAwaitingInventory \<and>
       (if product_lines v = {#}
        then view (w_db w') = (view (w_db w))(j \<mapsto> settled StatusAuthorizationDenied v) \<and>
             requests (w_log w') = requests (w_log w)
        else (\<exists>sid items. view (w_db w') = (view (w_db w))(j \<mapsto>
                 v_set_saga SagaStatusAwaitingInventory (Some sid) (Some StatusAuthorizationDenied)
                   (rai_Observation input) v) \<and>
               mset items = image_mset stock_item (product_lines v) \<and>
               requests (w_log w') = requests (w_log w) @ [(sid, j, StockOpCancelReserved, items)])))"
proof -
  from run obtain s w1 where find: "FindByID D (rai_ServiceOrderID input) w = (Inr s, w1)" and
    own: "\<not> (rai_CallerRole input = ''CUSTOMER'' \<and> so_customerID s \<noteq> rai_CallerID input)" and
    st: "\<not> so_status s \<noteq> StatusPendingAuthorization" and
    raw: "(let oldStatus = so_status s;
           newStatus = (if rai_Approved input then StatusAuthorized else StatusAuthorizationDenied);
           inventoryOp = DetermineInventoryOperation oldStatus newStatus in
       if inventoryOp \<noteq> InventoryOpNone then
         bindE (StartSaga D (so_id s) inventoryOp newStatus (rai_Observation input)) (\<lambda>result.
         returnE (respond_output (sr_Order result)
           (if sr_SagaID result \<noteq> '''' then Some (sr_SagaID result) else None) (sr_Async result)))
       else
         bindE (UpdateStatusE D newStatus s) (\<lambda>order.
         bindE (NewHistoryE D (so_id order)
                  (authorization_metadata oldStatus (so_status order) (rai_Observation input))
                  (so_status order)) (\<lambda>history.
         bindE (history_Save D history) (\<lambda>_.
         bindE (Save D order) (\<lambda>order.
         bindE (authorization_sendStatusUpdateEmail D order oldStatus (so_status order)) (\<lambda>_.
         returnE (respond_output order None False))))))) w1 = (Inr out, w')"
    unfolding RespondToAuthorization_def
    by (subst (asm) bindE_Inr_iff) (unfold throw_guard, blast)
  note f = FindByID_run [OF find]
  have h: "held canon s (view (w_db w1))" using f(1,6) by simp
  from st have st': "so_status s = StatusPendingAuthorization" by simp
  show ?thesis
  proof (cases "rai_Approved input")
    case True
    with raw st' have "bindE (UpdateStatusE D StatusAuthorized s) (\<lambda>order.
         bindE (NewHistoryE D (so_id order)
                  (authorization_metadata StatusPendingAuthorization (so_status order) (rai_Observation input))
                  (so_status order)) (\<lambda>history.
         bindE (history_Save D history) (\<lambda>_.
         bindE (Save D order) (\<lambda>order.
         bindE (notify_customer D order StatusPendingAuthorization (so_status order)) (\<lambda>_.
         returnE (respond_output order None False)))))) w1 = (Inr out, w')"
      by (simp add: Let_def authorization_sendStatusUpdateEmail_def DetermineInventoryOperation_def)
    from local_transition_run [OF this h] True f(1-3,5) own st' show ?thesis
      by (intro exI [of _ "so_id s"] exI [of _ "abs_order s"]) auto
  next
    case False
    with raw st' obtain r where ss: "StartSaga D (so_id s) StockOpCancelReserved
        StatusAuthorizationDenied (rai_Observation input) w1 = (Inr r, w')"
      by (auto simp: Let_def DetermineInventoryOperation_def bindE_Inr_iff)
    from StartSaga_run [OF ss] obtain j v where
      "canon (so_id s) = Some j" "view (w_db w1) j = Some v" and
      x: "v_sagaStatus v \<noteq> SagaStatusAwaitingInventory" "mp_calls (w_log w') = mp_calls (w_log w1)"
        "if product_lines v = {#}
         then \<not> sr_Async r \<and> (v_status v = StatusAuthorizationDenied \<or>
            CanTransitionTo (v_status v) StatusAuthorizationDenied) \<and>
          view (w_db w') = (view (w_db w1))(j \<mapsto> settled StatusAuthorizationDenied v) \<and>
          requests (w_log w') = requests (w_log w1)
         else sr_Async r \<and>
          view (w_db w') = (view (w_db w1))(j \<mapsto> v_set_saga SagaStatusAwaitingInventory
            (Some (sr_SagaID r)) (Some StatusAuthorizationDenied) (rai_Observation input) v) \<and>
          (\<exists>items. mset items = image_mset stock_item (product_lines v) \<and>
             requests (w_log w') = requests (w_log w1) @
               [(sr_SagaID r, j, StockOpCancelReserved, items)])"
      by (auto simp: saga_target_def)
    moreover from this h f(1,5) have "j = so_id s" "v = abs_order s" by (auto simp: held_def)
    ultimately show ?thesis using False f(1-3,5) own st'
      by (intro exI [of _ "so_id s"] exI [of _ "abs_order s"]) (auto split: if_splits)
  qed
qed

lemma Respond_refused:
  assumes run: "RespondToAuthorization D input w = (r, w')"
    and cn: "canon (rai_ServiceOrderID input) = Some j" and v: "view (w_db w) j = Some v"
    and no: "(rai_CallerRole input = ''CUSTOMER'' \<and> v_customerID v \<noteq> rai_CallerID input) \<or>
      v_status v \<noteq> StatusPendingAuthorization"
  shows "(\<exists>e. r = Inl e) \<and> view (w_db w') = view (w_db w) \<and> w_log w' = w_log w"
proof (cases "FindByID D (rai_ServiceOrderID input) w")
  case (Pair r1 w1)
  note f = FindByID_run [OF Pair]
  show ?thesis
  proof (cases r1)
    case (Inl e)
    with run Pair f(1,2) show ?thesis by (auto simp: RespondToAuthorization_def bindE_def)
  next
    case (Inr s)
    with f(3,5) cn v have a: "abs_order s = v" by auto
    have "(rai_CallerRole input = ''CUSTOMER'' \<and> so_customerID s \<noteq> rai_CallerID input) \<or>
      so_status s \<noteq> StatusPendingAuthorization" using no unfolding a [symmetric] by simp
    with run Pair Inr f(1,2) show ?thesis
      by (auto simp: RespondToAuthorization_def bindE_def split: if_splits)
  qed
qed

end

subsection \<open>Cancellation\<close>

text \<open>
  The calls to Mercado Pago a cancellation of the order \<open>v\<close> makes when it goes through: an unpaid order is
  cancelled there if Mercado Pago lets it, a payment that was made is refunded.
\<close>

definition settlement :: "'db deps \<Rightarrow> nat \<Rightarrow> order_view \<Rightarrow> logged list" where
  "settlement D t v =
     (if v_status v = StatusAwaitingPayment \<or> v_status v = StatusPaymentRejected
      then (case v_mpPreferenceID v of
              None \<Rightarrow> []
            | Some i \<Rightarrow>
                if cancelPaymentOrder_wired D \<and> i \<noteq> ''''
                then (case MP_CancelOrder D t i of Inr _ \<Rightarrow> [MPOrderCanceled i] | Inl _ \<Rightarrow> [])
                else [])
      else if v_status v = StatusPaid
      then (case v_mpPaymentID v of
              None \<Rightarrow> []
            | Some p \<Rightarrow> if refundPaymentOrder_wired D \<and> p \<noteq> '''' then [MPOrderRefunded p] else [])
      else [])"

text \<open>A refund is asked for and refused.\<close>

definition refund_refused :: "'db deps \<Rightarrow> nat \<Rightarrow> order_view \<Rightarrow> bool" where
  "refund_refused D t v \<longleftrightarrow> v_status v = StatusPaid \<and> refundPaymentOrder_wired D \<and>
     (\<exists>p e. v_mpPaymentID v = Some p \<and> p \<noteq> '''' \<and> MP_RefundOrder D t p = Inl e)"

lemma FindByID_tick: "FindByID D i w = (r, w') \<Longrightarrow> w_tick w' = w_tick w"
  by (auto simp: FindByID_def on_db_def split: prod.splits)

lemma settle_payment_run:
  assumes run: "settle_payment D s w = (r, w')"
  shows "w_db w' = w_db w"
    and "if refund_refused D (w_tick w) (abs_order s) then (\<exists>e. r = Inl e) \<and> w_log w' = w_log w
         else r = Inr () \<and> w_log w' = w_log w @ settlement D (w_tick w) (abs_order s)"
  using run
  by (auto simp: settle_payment_def settlement_def refund_refused_def CancelPaymentOrder_def RefundPaymentOrder_def Let_def
      mp_CancelOrder_def mp_RefundOrder_def external_def bindE_def attemptE_def returnE_def split: option.splits sum.splits if_splits)

lemma settlement_log:
  "mp_calls (settlement D t v) = settlement D t v" "requests (settlement D t v) = []" "histories (settlement D t v) = []"
  by (simp_all add: settlement_def split: option.split sum.split)

context service_env
begin

lemma Delete_run:
  assumes run: "DeleteServiceOrder D i remarks w = (Inr out, w')"
  shows "\<exists>j v rest. canon i = Some j \<and> view (w_db w) j = Some v \<and>
    v_sagaStatus v \<noteq> SagaStatusAwaitingInventory \<and> plan_cancel (v_status v) \<noteq> CancelRefused \<and>
    \<not> refund_refused D (w_tick w) v \<and>
    w_log w' = w_log w @ settlement D (w_tick w) v @ rest \<and> mp_calls rest = [] \<and>
    (if dso_Async out
     then \<exists>op sid items. plan_cancel (v_status v) = CancelBySaga op \<and>
            view (w_db w') = (view (w_db w))(j \<mapsto> v_set_saga SagaStatusAwaitingInventory
              (Some sid) (Some StatusCanceled) remarks v) \<and>
            mset items = image_mset stock_item (product_lines v) \<and> requests rest = [(sid, j, op, items)]
     else (plan_cancel (v_status v) = CancelLocally \<or> product_lines v = {#}) \<and>
          view (w_db w') = (view (w_db w))(j \<mapsto> settled StatusCanceled v) \<and> requests rest = [])"
proof -
  from run obtain s r w1 w2 where find: "FindByID D i w = (Inr s, w1)" and
    st: "settle_payment D s w1 = (Inr (), w2)" and co: "CancelOrder D i remarks w2 = (Inr r, w')" and
    out: "dso_Async out = sr_Async r"
    by (auto simp: DeleteServiceOrder_def bindE_Inr_iff split: if_splits)
  note f = FindByID_run [OF find] and sp = settle_payment_run [OF st]
  have tick: "w_tick w1 = w_tick w" using find by (rule FindByID_tick)
  have new: "w_log w2 = w_log w @ settlement D (w_tick w) (abs_order s)" and kept: "\<not> refund_refused D (w_tick w) (abs_order s)"
    using sp(2) f(2) by (simp_all add: tick split: if_splits)
  obtain rest where rest: "w_log w' = w_log w2 @ rest" using emitsD [OF emits_CancelOrder co] by blast
  have db: "view (w_db w2) = view (w_db w)" using sp(1) f(1) by simp
  from CancelOrder_run [OF co] obtain j v where
    c: "canon i = Some j" "view (w_db w2) j = Some v" "v_sagaStatus v \<noteq> SagaStatusAwaitingInventory"
      "mp_calls (w_log w') = mp_calls (w_log w2)" "plan_cancel (v_status v) \<noteq> CancelRefused" and
    e: "if sr_Async r
     then \<exists>op items. plan_cancel (v_status v) = CancelBySaga op \<and>
            view (w_db w') = (view (w_db w2))(j \<mapsto> v_set_saga SagaStatusAwaitingInventory
              (Some (sr_SagaID r)) (Some StatusCanceled) remarks v) \<and>
            mset items = image_mset stock_item (product_lines v) \<and>
            requests (w_log w') = requests (w_log w2) @ [(sr_SagaID r, j, op, items)]
     else (plan_cancel (v_status v) = CancelLocally \<or> product_lines v = {#}) \<and>
          view (w_db w') = (view (w_db w2))(j \<mapsto> settled StatusCanceled v) \<and>
          requests (w_log w') = requests (w_log w2)" by blast
  have v: "v = abs_order s" using c(1,2) f(3,5) db by auto
  have "mp_calls rest = []" using c(4) rest by simp
  moreover have "w_log w' = w_log w @ settlement D (w_tick w) v @ rest" using rest new v by simp
  ultimately show ?thesis using c(1-3,5) e rest kept db v out
    by (intro exI [of _ j] exI [of _ v] exI [of _ rest]) (auto split: if_splits)
qed

text \<open>A refund that Mercado Pago refuses ends the cancellation before anything has changed.\<close>

lemma Delete_refund_refused:
  assumes run: "DeleteServiceOrder D i remarks w = (r, w')" and cn: "canon i = Some j"
    and v: "view (w_db w) j = Some v" and refused: "refund_refused D (w_tick w) v"
  shows "(\<exists>e. r = Inl e) \<and> view (w_db w') = view (w_db w) \<and> w_log w' = w_log w"
proof -
  obtain r1 w1 where Pair: "FindByID D i w = (r1, w1)" by fastforce
  note f = FindByID_run [OF Pair]
  show ?thesis
  proof (cases r1)
    case (Inl e)
    with run Pair f(1,2) show ?thesis by (auto simp: DeleteServiceOrder_def bindE_def)
  next
    case (Inr s)
    with f(3,5) cn v have a: "v = abs_order s" by auto
    obtain r2 w2 where st: "settle_payment D s w1 = (r2, w2)" by fastforce
    have "w_tick w1 = w_tick w" using Pair by (rule FindByID_tick)
    with settle_payment_run [OF st] refused a obtain e where "r2 = Inl e" "w_db w2 = w_db w1" "w_log w2 = w_log w1" by auto
    with run Pair Inr st f(1,2) show ?thesis 
      by (cases "IsDeleted s") (auto simp: DeleteServiceOrder_def bindE_def throwE_def)
  qed
qed

text \<open>While a saga is in flight a cancellation fails, but not before the payment has been refunded.\<close>

lemma Delete_in_flight:
  assumes run: "DeleteServiceOrder D i remarks w = (r, w')" and cn: "canon i = Some j"
    and v: "view (w_db w) j = Some v" "v_sagaStatus v = SagaStatusAwaitingInventory"
  shows "(\<exists>e. r = Inl e) \<and> view (w_db w') = view (w_db w) \<and> requests (w_log w') = requests (w_log w) \<and>
    ((\<exists>s w1. FindByID D i w = (Inr s, w1)) \<and> \<not> refund_refused D (w_tick w) v \<longrightarrow>
     w_log w' = w_log w @ settlement D (w_tick w) v)"
proof (cases "refund_refused D (w_tick w) v")
  case True
  with Delete_refund_refused [OF run cn v(1) True] show ?thesis by auto
next
  case False
  obtain r1 w1 where Pair: "FindByID D i w = (r1, w1)" by fastforce
  note f = FindByID_run [OF Pair]
  show ?thesis
  proof (cases r1)
    case (Inl e)
    with run Pair f(1,2) show ?thesis by (auto simp: DeleteServiceOrder_def bindE_def)
  next
    case (Inr s)
    with f(3,5) cn v have a: "v = abs_order s" by auto
    have nd: "\<not> IsDeleted s" using f(4) Inr by (simp add: loaded_def storable_def IsDeleted_def)
    obtain r2 w2 where st: "settle_payment D s w1 = (r2, w2)" by fastforce
    have "w_tick w1 = w_tick w" using Pair by (rule FindByID_tick)
    with settle_payment_run [OF st] False a f(1,2)
    have sp: "r2 = Inr ()" "view (w_db w2) = view (w_db w)" "w_log w2 = w_log w @ settlement D (w_tick w) v" by simp_all
    obtain r3 w3 where co: "CancelOrder D i remarks w2 = (r3, w3)" by fastforce
    from start_refused [OF disjI2 [OF co] cn] v sp(2)
    have c: "view (w_db w3) = view (w_db w)" "w_log w3 = w_log w2" by auto
    have "\<exists>e. r3 = Inl e"
    proof (cases r3)
      case (Inr y)
      with CancelOrder_run [of i remarks w2 y w3] co cn v sp(2) show ?thesis by auto
    qed simp
    with run Pair Inr nd st sp co c have "(\<exists>e. r = Inl e) \<and> w' = w3"
      by (auto simp: DeleteServiceOrder_def bindE_def)
    with c sp(3) settlement_log show ?thesis by simp
  qed
qed

end

end
