(* ===== verification/Usecases_Status_Properties.thy ===== *)
theory Usecases_Status_Properties
  imports Usecases_Status_Correct Saga_Properties Billing_Properties
begin

text \<open>
  The properties of the use cases that change the status of an order: the advance along the workflow, the
  customer's answer to the budget, and the cancellation, each with a run on a concrete world beside it.
\<close>

text \<open>
  Claim C16. Advancing an order moves it to the next status of the normal flow and nowhere else. Where the
  step concerns stock it starts a saga, or acts at once if the order has no product lines; from
  completed to awaiting payment it creates one order at Mercado Pago for the stored customer and stores
  its link; every other step is made at once. No other order changes, and at most one of the two outside
  services is asked for something, once.
\<close>

theorem Advance_correct:
  assumes "service_env D canon view" and "AdvanceServiceOrderStatus D i w = (Inr out, w')"
  shows "\<exists>j v t. canon i = Some j \<and> view (w_db w) j = Some v \<and> adv_ID out = j \<and>
    NextStatus (v_status v) = Inr t \<and> advance_effect view j v t out w w'"
  using assms by (rule service_env.Advance_run)

theorem Advance_correct_witness:
  "\<exists>out w'. AdvanceServiceOrderStatus (mem_deps ''approved'') ''os'' (idle_world StatusCompleted) =
       (Inr out, w') \<and> length (mp_calls (w_log w')) = 1 \<and> requests (w_log w') = []"
proof -
  have "succeeds (AdvanceServiceOrderStatus (mem_deps ''approved'') ''os'' (idle_world StatusCompleted))"
    by code_simp
  then obtain out w' where run: "AdvanceServiceOrderStatus (mem_deps ''approved'') ''os''
      (idle_world StatusCompleted) = (Inr out, w')" by (rule succeedsE)
  from Advance_correct [OF mem_env run] idle_world_view [of StatusCompleted] run show ?thesis
    by (auto simp: mem_canon_def sample_order_def advance_effect_def DetermineInventoryOperation_def
        split: if_splits)
qed

text \<open>
  Claim C25. Only an order that waits for authorization is answered, by staff or by its own customer. An
  approval authorizes it at once, without touching stock; a denial releases the reserved stock through a
  saga that carries the customer's observation, or denies the order at once when it has no product
  lines. Nothing else changes and Mercado Pago is not involved.
\<close>

theorem Respond_correct:
  assumes "service_env D canon view" and "RespondToAuthorization D input w = (Inr out, w')"
  shows "\<exists>j v. canon (rai_ServiceOrderID input) = Some j \<and> view (w_db w) j = Some v \<and>
    v_status v = StatusPendingAuthorization \<and>
    (rai_CallerRole input = ''CUSTOMER'' \<longrightarrow> v_customerID v = rai_CallerID input) \<and>
    mp_calls (w_log w') = mp_calls (w_log w) \<and>
    (if rai_Approved input
     then view (w_db w') = (view (w_db w))(j \<mapsto> v_set_status StatusAuthorized v) \<and>
          requests (w_log w') = requests (w_log w)
     else v_sagaStatus v \<noteq> SagaStatusAwaitingInventory \<and>
       (if product_lines v = {#}
        then view (w_db w') = (view (w_db w))(j \<mapsto> settled StatusAuthorizationDenied v) \<and>
             requests (w_log w') = requests (w_log w)
        else (\<exists>sid items. view (w_db w') = (view (w_db w))(j \<mapsto>
                 v_set_saga SagaStatusAwaitingInventory (Some sid) (Some StatusAuthorizationDenied)
                   (rai_Observation input) v) \<and>
               mset items = image_mset stock_item (product_lines v) \<and>
               requests (w_log w') = requests (w_log w) @ [(sid, j, StockOpCancelReserved, items)])))"
  using assms by (rule service_env.Respond_run)

definition sample_answer :: "string \<Rightarrow> bool \<Rightarrow> RespondToAuthorizationInput" where
  "sample_answer caller approved = \<lparr>rai_ServiceOrderID = ''os'', rai_Approved = approved,
     rai_Observation = Some ''too much'', rai_CallerID = caller, rai_CallerRole = ''CUSTOMER''\<rparr>"

theorem Respond_correct_witness:
  "\<exists>out w' v. RespondToAuthorization (mem_deps ''approved'') (sample_answer ''c'' True)
       (idle_world StatusPendingAuthorization) = (Inr out, w') \<and>
     mem_view (w_db w') ''os'' = Some v \<and> v_status v = StatusAuthorized"
proof -
  have "succeeds (RespondToAuthorization (mem_deps ''approved'') (sample_answer ''c'' True)
      (idle_world StatusPendingAuthorization))" by code_simp
  then obtain out w' where run: "RespondToAuthorization (mem_deps ''approved'') (sample_answer ''c'' True)
      (idle_world StatusPendingAuthorization) = (Inr out, w')" by (rule succeedsE)
  from Respond_correct [OF mem_env run] run show ?thesis
    by (auto simp: mem_canon_def sample_answer_def)
qed

text \<open>
  An answer that may not be given has no effect at all: a customer who answers for another
  customer's order, and anyone who answers for an order that does not wait for authorization, gets an
  error, and no order, no request and no record of the history comes of it.
\<close>

theorem Respond_forbidden:
  assumes "service_env D canon view" and "RespondToAuthorization D input w = (r, w')"
    and "canon (rai_ServiceOrderID input) = Some j" and "view (w_db w) j = Some v"
    and "(rai_CallerRole input = ''CUSTOMER'' \<and> v_customerID v \<noteq> rai_CallerID input) \<or>
      v_status v \<noteq> StatusPendingAuthorization"
  shows "(\<exists>e. r = Inl e) \<and> view (w_db w') = view (w_db w) \<and> w_log w' = w_log w"
  using assms by (rule service_env.Respond_refused)

theorem Respond_forbidden_witness:
  "w_log (snd (RespondToAuthorization (mem_deps ''approved'') (sample_answer ''someone'' True)
     (idle_world StatusPendingAuthorization))) = []"
proof -
  obtain r w' where run: "RespondToAuthorization (mem_deps ''approved'') (sample_answer ''someone'' True)
     (idle_world StatusPendingAuthorization) = (r, w')" by fastforce
  from Respond_forbidden [OF mem_env run _ idle_world_view] run show ?thesis
    by (auto simp: mem_canon_def sample_answer_def sample_order_def)
qed

text \<open>
  Claim C15. The cancellation of an order settles its payment before anything else: for an order that awaits its payment or
  whose payment was rejected the cancellation of its Mercado Pago order is asked for, and goes on when it is
  refused; for a paid order the refund is asked for, and when it is refused the cancellation fails with no effect
  at all. Only after these calls come the requests and records of the cancellation, which asks nothing else of Mercado
  Pago. The order is then canceled at once where the stock service holds nothing for it or it has no
  product lines, and otherwise through a saga whose one request returns exactly what is held. An order that is
  delivered, canceled, denied or has a saga in flight is never canceled, and no other order changes.
\<close>

theorem Delete_correct:
  assumes "service_env D canon view" and "DeleteServiceOrder D i remarks w = (r, w')"
  shows "(\<forall>out. r = Inr out \<longrightarrow> (\<exists>j v rest. canon i = Some j \<and> view (w_db w) j = Some v \<and>
      v_sagaStatus v \<noteq> SagaStatusAwaitingInventory \<and> \<not> final_status (v_status v) \<and>
      w_log w' = w_log w @ settlement D (w_tick w) v @ rest \<and> mp_calls rest = [] \<and>
      (if dso_Async out
       then \<exists>op sid items. stock_of (v_status v) \<noteq> NoStock \<and> apply_op op (stock_of (v_status v)) = Some NoStock \<and>
              view (w_db w') = (view (w_db w))(j \<mapsto> v_set_saga SagaStatusAwaitingInventory
                (Some sid) (Some StatusCanceled) remarks v) \<and>
              mset items = image_mset stock_item (product_lines v) \<and> requests rest = [(sid, j, op, items)]
       else (stock_of (v_status v) = NoStock \<or> product_lines v = {#}) \<and>
            view (w_db w') = (view (w_db w))(j \<mapsto> settled StatusCanceled v) \<and> requests rest = []))) \<and>
    (\<forall>j v. canon i = Some j \<longrightarrow> view (w_db w) j = Some v \<longrightarrow> refund_refused D (w_tick w) v \<longrightarrow>
      (\<exists>e. r = Inl e) \<and> view (w_db w') = view (w_db w) \<and> w_log w' = w_log w)"
proof (intro conjI allI impI)
  fix out
  assume "r = Inr out"
  with assms(2) have "DeleteServiceOrder D i remarks w = (Inr out, w')" by simp
  from service_env.Delete_run [OF assms(1) this] obtain j v rest where
    d: "canon i = Some j" "view (w_db w) j = Some v" "v_sagaStatus v \<noteq> SagaStatusAwaitingInventory"
      "plan_cancel (v_status v) \<noteq> CancelRefused" "w_log w' = w_log w @ settlement D (w_tick w) v @ rest" "mp_calls rest = []"
    and e: "if dso_Async out
       then \<exists>op sid items. plan_cancel (v_status v) = CancelBySaga op \<and>
              view (w_db w') = (view (w_db w))(j \<mapsto> v_set_saga SagaStatusAwaitingInventory
                (Some sid) (Some StatusCanceled) remarks v) \<and>
              mset items = image_mset stock_item (product_lines v) \<and> requests rest = [(sid, j, op, items)]
       else (plan_cancel (v_status v) = CancelLocally \<or> product_lines v = {#}) \<and>
            view (w_db w') = (view (w_db w))(j \<mapsto> settled StatusCanceled v) \<and> requests rest = []" by blast
  have "if dso_Async out
       then \<exists>op sid items. stock_of (v_status v) \<noteq> NoStock \<and> apply_op op (stock_of (v_status v)) = Some NoStock \<and>
              view (w_db w') = (view (w_db w))(j \<mapsto> v_set_saga SagaStatusAwaitingInventory
                (Some sid) (Some StatusCanceled) remarks v) \<and>
              mset items = image_mset stock_item (product_lines v) \<and> requests rest = [(sid, j, op, items)]
       else (stock_of (v_status v) = NoStock \<or> product_lines v = {#}) \<and>
            view (w_db w') = (view (w_db w))(j \<mapsto> settled StatusCanceled v) \<and> requests rest = []"
    using e plan_cancel_by_stock(1,2) by (cases "dso_Async out") (simp, blast)+
  with d plan_cancel_by_stock(4) [OF d(4)] show "\<exists>j v rest. canon i = Some j \<and> view (w_db w) j = Some v \<and>
      v_sagaStatus v \<noteq> SagaStatusAwaitingInventory \<and> \<not> final_status (v_status v) \<and>
      w_log w' = w_log w @ settlement D (w_tick w) v @ rest \<and> mp_calls rest = [] \<and>
      (if dso_Async out
       then \<exists>op sid items. stock_of (v_status v) \<noteq> NoStock \<and> apply_op op (stock_of (v_status v)) = Some NoStock \<and>
              view (w_db w') = (view (w_db w))(j \<mapsto> v_set_saga SagaStatusAwaitingInventory
                (Some sid) (Some StatusCanceled) remarks v) \<and>
              mset items = image_mset stock_item (product_lines v) \<and> requests rest = [(sid, j, op, items)]
       else (stock_of (v_status v) = NoStock \<or> product_lines v = {#}) \<and>
            view (w_db w') = (view (w_db w))(j \<mapsto> settled StatusCanceled v) \<and> requests rest = [])" by blast
next
  fix j v
  assume "canon i = Some j" "view (w_db w) j = Some v" "refund_refused D (w_tick w) v"
  from service_env.Delete_refund_refused [OF assms this]
  show "\<exists>e. r = Inl e" "view (w_db w') = view (w_db w)" "w_log w' = w_log w" by blast+
qed

theorem Delete_correct_witness:
  "\<exists>out w'. DeleteServiceOrder (mem_deps ''approved'') ''os'' None (idle_world StatusPaid) = (Inr out, w') \<and>
     mp_calls (w_log w') = [MPOrderRefunded ''pay'']"
proof -
  have "succeeds (DeleteServiceOrder (mem_deps ''approved'') ''os'' None (idle_world StatusPaid))" by code_simp
  then obtain out w' where run: "DeleteServiceOrder (mem_deps ''approved'') ''os'' None
      (idle_world StatusPaid) = (Inr out, w')" by (rule succeedsE)
  from Delete_correct [OF mem_env run] idle_world_view [of StatusPaid] run show ?thesis
    by (auto simp: mem_canon_def settlement_def sample_order_def mem_deps_def idle_world_def)
qed

text \<open>
  A refund can be asked for twice: the use case refunds before it finds that a saga is in flight,
  so when the first cancellation of a paid order waits for the stock service, a second one asks Mercado
  Pago for the refund of the same payment again, and only then fails, changing no order and asking the
  stock service for nothing.
\<close>

theorem Delete_refunds_again:
  assumes "service_env D canon view"
    and "DeleteServiceOrder D i remarks w = (Inr out, w1)" and "dso_Async out"
    and "canon i = Some j" and "view (w_db w) j = Some v" and "v_status v = StatusPaid"
    and "v_mpPaymentID v = Some p" and "p \<noteq> ''''" and "refundPaymentOrder_wired D"
    and "\<forall>t. \<exists>x. MP_RefundOrder D t p = Inr x"
    and "DeleteServiceOrder D i remarks' w1 = (r, w2)" and "\<exists>s w3. FindByID D i w1 = (Inr s, w3)"
  shows "mp_calls (w_log w2) = mp_calls (w_log w) @ [MPOrderRefunded p, MPOrderRefunded p] \<and>
    (\<exists>e. r = Inl e) \<and> view (w_db w2) = view (w_db w1) \<and> requests (w_log w2) = requests (w_log w1)"
proof -
  have refused: "\<not> refund_refused D t u" if "v_mpPaymentID u = Some p" for t u
    using assms(10) that by (auto simp: refund_refused_def dest: spec [of _ t])
  from service_env.Delete_run [OF assms(1,2)] assms(3-9) obtain v1 where
    v1: "view (w_db w1) j = Some v1" "v_sagaStatus v1 = SagaStatusAwaitingInventory"
      "v_status v1 = StatusPaid" "v_mpPaymentID v1 = Some p" and
    m: "mp_calls (w_log w1) = mp_calls (w_log w) @ [MPOrderRefunded p]"
    by (auto simp: settlement_def)
  from service_env.Delete_in_flight [OF assms(1,11,4) v1(1,2)] refused [OF v1(4)] assms(12) v1(3,4) assms(8,9) m
  show ?thesis by (auto simp: settlement_def)
qed

definition after_cancellation :: "mem_db world" where
  "after_cancellation =
     snd (DeleteServiceOrder (mem_deps ''approved'') ''os'' None (idle_world StatusPaid))"

theorem Delete_refunds_again_witness:
  "mp_calls (w_log (snd (DeleteServiceOrder (mem_deps ''approved'') ''os'' None after_cancellation))) =
     [MPOrderRefunded ''pay'', MPOrderRefunded ''pay'']"
proof -
  obtain r w2 where run2: "DeleteServiceOrder (mem_deps ''approved'') ''os'' None after_cancellation =
    (r, w2)" by fastforce
  have "case DeleteServiceOrder (mem_deps ''approved'') ''os'' None (idle_world StatusPaid) of
      (Inr out, _) \<Rightarrow> dso_Async out | _ \<Rightarrow> False" by code_simp
  then obtain out where run: "DeleteServiceOrder (mem_deps ''approved'') ''os'' None
      (idle_world StatusPaid) = (Inr out, after_cancellation)" and as: "dso_Async out"
    by (auto simp: after_cancellation_def split: prod.splits sum.splits)
  have "succeeds (FindByID (mem_deps ''approved'') ''os'' after_cancellation)" by code_simp
  then have found: "\<exists>s w3. FindByID (mem_deps ''approved'') ''os'' after_cancellation = (Inr s, w3)"
    by (elim succeedsE) blast
  from Delete_refunds_again [OF mem_env run as _ idle_world_view _ _ _ _ _ run2 found, of "''pay''"] run2
  show ?thesis by (simp add: mem_canon_def sample_order_def mem_deps_def)
qed

end
