(* ===== verification/Usecases_Edit.thy ===== *)
theory Usecases_Edit
  imports Saga
begin

text \<open>
  The use cases that write the content of an order: \<^verbatim>\<open>create_service_order.go\<close> and
  \<^verbatim>\<open>update_service_order.go\<close>. Tracing, metrics and logging are left out.
\<close>

subsection \<open>Lines from the input\<close>

record ItemInput =
  ii_ItemType :: string
  ii_ReferenceID :: string
  ii_Quantity :: goint

definition NewServiceOrderItemE ::
  "'db deps \<Rightarrow> string \<Rightarrow> ItemType \<Rightarrow> string \<Rightarrow> string \<Rightarrow> goint \<Rightarrow> goint \<Rightarrow> ('db, ServiceOrderItem) io"
where
  "NewServiceOrderItemE D orderID t ref name quantity price =
     bindE (Now D) (\<lambda>n. liftE (NewServiceOrderItem n orderID t ref name quantity price))"

definition AddItemE :: "'db deps \<Rightarrow> ServiceOrderItem \<Rightarrow> ServiceOrder \<Rightarrow> ('db, ServiceOrder) io" where
  "AddItemE D item order =
     bindE (Now D) (\<lambda>n1. bindE (Now D) (\<lambda>n2. liftE (AddItem n1 n2 item order)))"

definition RemoveItemE :: "'db deps \<Rightarrow> string \<Rightarrow> ServiceOrder \<Rightarrow> ('db, ServiceOrder) io" where
  "RemoveItemE D itemID order =
     bindE (Now D) (\<lambda>n1. bindE (Now D) (\<lambda>n2. liftE (RemoveItem n1 n2 itemID order)))"

text \<open>The name and the price of a product or a service, from the service that keeps them.\<close>

definition fetchItemDetails :: "'db deps \<Rightarrow> ItemType \<Rightarrow> string \<Rightarrow> ('db, string \<times> goint) io" where
  "fetchItemDetails D itemType referenceID =
     (if itemType = ItemTypeProduct
      then bindE (GetProductByID D referenceID) (\<lambda>product. returnE (prod_Name product, prod_Price product))
      else bindE (GetServiceByID D referenceID) (\<lambda>service. returnE (serv_Name service, serv_Price service)))"

text \<open>The body of the loop over the input, the same in both use cases.\<close>

definition build_item :: "'db deps \<Rightarrow> string \<Rightarrow> ItemInput \<Rightarrow> ('db, ServiceOrderItem) io" where
  "build_item D orderID itemInput =
     (let itemType = ItemType_of (ii_ItemType itemInput) in
      if itemType \<noteq> ItemTypeProduct \<and> itemType \<noteq> ItemTypeService then throwE ErrInvalidItemType
      else bindE (fetchItemDetails D itemType (ii_ReferenceID itemInput)) (\<lambda>(name, price).
           NewServiceOrderItemE D orderID itemType (ii_ReferenceID itemInput) name
             (ii_Quantity itemInput) price))"

definition validateAndBuildItems ::
  "'db deps \<Rightarrow> string \<Rightarrow> ItemInput list \<Rightarrow> ('db, ServiceOrderItem list) io" where
  "validateAndBuildItems D orderID items = mapE (build_item D orderID) items"

subsection \<open>Creation\<close>

record CreateServiceOrderInput =
  ci_CustomerID :: string
  ci_VehicleID :: string
  ci_Description :: string
  ci_Items :: "ItemInput list"

record ItemOutput =
  io_ID :: string
  io_ItemType :: string
  io_ReferenceID :: string
  io_Name :: string
  io_Quantity :: goint
  io_UnitPrice :: goint
  io_Subtotal :: goint
  io_CreatedAt :: time

record CreateServiceOrderOutput =
  co_ID :: string
  co_CustomerID :: string
  co_VehicleID :: string
  co_Description :: string
  co_Status :: string
  co_SagaStatus :: string
  co_Items :: "ItemOutput list"
  co_CreatedAt :: time
  co_UpdatedAt :: time

definition item_output :: "ServiceOrderItem \<Rightarrow> ItemOutput" where
  "item_output item =
     \<lparr>io_ID = item_id item, io_ItemType = itemType_string (item_itemType item),
      io_ReferenceID = item_referenceID item, io_Name = item_name item,
      io_Quantity = item_quantity item, io_UnitPrice = item_unitPrice item,
      io_Subtotal = Subtotal item, io_CreatedAt = item_createdAt item\<rparr>"

definition CreateServiceOrder ::
  "'db deps \<Rightarrow> CreateServiceOrderInput \<Rightarrow> ('db, CreateServiceOrderOutput) io" where
  "CreateServiceOrder D input =
     bindE (GetCustomerByID D (ci_CustomerID input)) (\<lambda>customer.
     bindE (if ci_VehicleID input \<noteq> ''''
            then bindE (GetVehicleByID D (ci_VehicleID input)) (\<lambda>vehicle.
                 if veh_CustomerID vehicle \<noteq> ci_CustomerID input
                 then throwE ErrVehicleDoesNotBelongToCustomer else returnE ())
            else returnE ()) (\<lambda>_.
     bindE (mapE (build_item D '''') (ci_Items input)) (\<lambda>itemsToAdd.
     bindE (Now D) (\<lambda>now.
     bindE (liftE (NewServiceOrder now (ci_CustomerID input) (ci_VehicleID input)
              (ci_Description input))) (\<lambda>order.
     bindE (Now D) (\<lambda>now'.
     let order = SetCustomerSnapshot now' (cust_Email customer) (cust_Name customer) order in
     bindE (foldE (AddItemE D) itemsToAdd order) (\<lambda>order.
     bindE (SaveWithItems D order) (\<lambda>order.
     returnE \<lparr>co_ID = so_id order, co_CustomerID = so_customerID order,
              co_VehicleID = so_vehicleID order, co_Description = so_description order,
              co_Status = status_String (so_status order), co_SagaStatus = so_sagaStatus order,
              co_Items = map item_output (so_items order), co_CreatedAt = so_createdAt order,
              co_UpdatedAt = so_updatedAt order\<rparr>))))))))"

subsection \<open>Update\<close>

text \<open>A pointer that is \<^verbatim>\<open>nil\<close> and a slice that is \<^verbatim>\<open>nil\<close> are \<open>None\<close>: not given.\<close>

record UpdateServiceOrderInput =
  ui_ID :: string
  ui_CustomerID :: "string option"
  ui_VehicleID :: "string option"
  ui_Description :: "string option"
  ui_Status :: "string option"
  ui_Items :: "ItemInput list option"

record UpdateServiceOrderOutput =
  uo_ID :: string
  uo_CustomerID :: string
  uo_VehicleID :: string
  uo_Description :: string
  uo_Status :: string
  uo_SagaStatus :: string
  uo_Items :: "ItemOutput list"
  uo_TotalAmount :: goint
  uo_ClosedAt :: "time option"
  uo_CreatedAt :: time
  uo_UpdatedAt :: time

definition whenSome :: "'a option \<Rightarrow> ('a \<Rightarrow> 's \<Rightarrow> ('w, 's) prog) \<Rightarrow> 's \<Rightarrow> ('w, 's) prog" where
  "whenSome x f s = (case x of None \<Rightarrow> returnE s | Some y \<Rightarrow> f y s)"

definition validateAndUpdateCustomerVehicle ::
  "'db deps \<Rightarrow> ServiceOrder \<Rightarrow> UpdateServiceOrderInput \<Rightarrow> ('db, ServiceOrder) io" where
  "validateAndUpdateCustomerVehicle D order input =
     (let finalCustomerID = (case ui_CustomerID input of None \<Rightarrow> so_customerID order | Some c \<Rightarrow> c);
          finalVehicleID = (case ui_VehicleID input of None \<Rightarrow> so_vehicleID order | Some v \<Rightarrow> v) in
      bindE (whenSome (ui_CustomerID input)
               (\<lambda>c _. bindE (GetCustomerByID D c) (\<lambda>_. returnE ())) ()) (\<lambda>_.
      bindE (whenSome (ui_VehicleID input)
               (\<lambda>v _. if v \<noteq> '''' then bindE (GetVehicleByID D v) (\<lambda>_. returnE ()) else returnE ()) ()) (\<lambda>_.
      bindE (if finalVehicleID \<noteq> ''''
             then bindE (ValidateVehicleOwnership D finalVehicleID finalCustomerID) (\<lambda>isOwner.
                  if \<not> isOwner then throwE ErrVehicleDoesNotBelongToCustomer else returnE ())
             else returnE ()) (\<lambda>_.
      bindE (whenSome (ui_CustomerID input)
               (\<lambda>c s. bindE (Now D) (\<lambda>n. liftE (UpdateCustomer n c s))) order) (\<lambda>order.
      bindE (whenSome (ui_VehicleID input)
               (\<lambda>v s. bindE (Now D) (\<lambda>n. liftE (UpdateVehicle n v s))) order) (\<lambda>order.
      whenSome (ui_Description input)
        (\<lambda>d s. bindE (Now D) (\<lambda>n. returnE (UpdateDescription n d s))) order))))))"

text \<open>
  The range over \<^verbatim>\<open>order.Items()\<close> while \<^verbatim>\<open>RemoveItem\<close> marks the lines: the slice keeps its length and
  each step reads the line at its index as the steps before it left it.
\<close>

definition remove_existing :: "'db deps \<Rightarrow> nat \<Rightarrow> ServiceOrder \<Rightarrow> ('db, ServiceOrder) io" where
  "remove_existing D k order =
     (let existingItem = so_items order ! k in
      if \<not> item_IsDeleted existingItem then RemoveItemE D (item_id existingItem) order
      else returnE order)"

definition updateItems ::
  "'db deps \<Rightarrow> ServiceOrder \<Rightarrow> ItemInput list option \<Rightarrow> ('db, bool \<times> ServiceOrder) io" where
  "updateItems D order items =
     (case items of
        None \<Rightarrow> returnE (False, order)
      | Some items \<Rightarrow>
          if \<not> CanModifyItems order then throwE ErrCannotModifyItemsAfterPending
          else
            bindE (validateAndBuildItems D (so_id order) items) (\<lambda>itemsToAdd.
            bindE (foldE (remove_existing D) [0 ..< length (so_items order)] order) (\<lambda>order.
            bindE (foldE (AddItemE D) itemsToAdd order) (\<lambda>order.
            returnE (True, order)))))"

text \<open>A nil \<^verbatim>\<open>oldOrder\<close> is dereferenced by the comparison and panics.\<close>

definition update_saveHistory ::
  "'db deps \<Rightarrow> ServiceOrder \<Rightarrow> ServiceOrder option \<Rightarrow> bool \<Rightarrow> ('db, ServiceOrder) io" where
  "update_saveHistory D order oldOrder itemsModified =
     (case oldOrder of
        None \<Rightarrow> throwE NilPanic
      | Some oldOrder \<Rightarrow>
          let metadata = (if itemsModified then BuildHistoryMetadataWithItems oldOrder order
                          else BuildHistoryMetadata oldOrder order) in
          bindE (NewHistoryE D (so_id order) metadata (so_status order)) (\<lambda>history.
          bindE (history_Save D history) (\<lambda>historyID.
          if itemsModified then
            bindE (mapE (\<lambda>item.
                     if item_IsDeleted item \<and> item_historyID item = None
                     then bindE (Now D) (\<lambda>n. liftE (SetHistoryID n historyID item))
                     else returnE item) (so_items order)) (\<lambda>items.
            returnE (order\<lparr>so_items := items\<rparr>))
          else returnE order)))"

definition saveOrder :: "'db deps \<Rightarrow> ServiceOrder \<Rightarrow> bool \<Rightarrow> ('db, ServiceOrder) io" where
  "saveOrder D order itemsModified = (if itemsModified then SaveWithItems D order else Save D order)"

definition buildOutput :: "ServiceOrder \<Rightarrow> UpdateServiceOrderOutput" where
  "buildOutput order =
     \<lparr>uo_ID = so_id order, uo_CustomerID = so_customerID order, uo_VehicleID = so_vehicleID order,
      uo_Description = so_description order, uo_Status = status_String (so_status order),
      uo_SagaStatus = so_sagaStatus order,
      uo_Items = map item_output (filter (\<lambda>item. \<not> item_IsDeleted item) (so_items order)),
      uo_TotalAmount = TotalAmount order, uo_ClosedAt = so_closedAt order,
      uo_CreatedAt = so_createdAt order, uo_UpdatedAt = so_updatedAt order\<rparr>"

definition UpdateServiceOrder ::
  "'db deps \<Rightarrow> UpdateServiceOrderInput \<Rightarrow> ('db, UpdateServiceOrderOutput) io" where
  "UpdateServiceOrder D input =
     bindE (FindByID D (ui_ID input)) (\<lambda>order.
     if IsDeleted order then throwE ErrServiceOrderDeleted
     else
       let oldOrder = CaptureOrderState order in
       bindE (validateAndUpdateCustomerVehicle D order input) (\<lambda>order.
       bindE (updateItems D order (ui_Items input)) (\<lambda>(itemsModified, order).
       bindE (update_saveHistory D order oldOrder itemsModified) (\<lambda>order.
       bindE (saveOrder D order itemsModified) (\<lambda>order.
       returnE (buildOutput order))))))"

end
