(* ===== verification/Usecases_Edit_Correct.thy ===== *)
theory Usecases_Edit_Correct
  imports Usecases_Edit Saga_Correct
begin

text \<open>
  The use cases of \<open>Usecases_Edit\<close> are correct. First the steps that only ask the outside and compute:
  what the lines built from the input are, and what the loops over the lines leave. Then what creation
  and update do to the stored orders.
\<close>

subsection \<open>Silent steps\<close>

text \<open>A program that changes neither the database nor the log, and what it returns when it succeeds.\<close>

definition silent :: "('db, 'a) io \<Rightarrow> ('a \<Rightarrow> bool) \<Rightarrow> bool" where
  "silent m Q \<longleftrightarrow> (\<forall>w r w'. m w = (r, w') \<longrightarrow> quiet w w' \<and> (\<forall>x. r = Inr x \<longrightarrow> Q x))"

lemma silentD: "silent m Q \<Longrightarrow> m w = (r, w') \<Longrightarrow> quiet w w' \<and> (\<forall>x. r = Inr x \<longrightarrow> Q x)"
  by (simp add: silent_def)

lemma silent_reads: "silent m Q \<Longrightarrow> reads view m (\<lambda>x _. Q x)"
  by (simp add: silent_def reads_def quiet_def)

lemma silent_weaken: "silent m Q \<Longrightarrow> (\<And>x. Q x \<Longrightarrow> Q' x) \<Longrightarrow> silent m Q'"
  by (auto simp: silent_def)

lemma silent_returnE: "Q x \<Longrightarrow> silent (returnE x) Q"
  by (auto simp: silent_def)

lemma silent_Pair [simp]: "silent (Pair (Inr x)) Q \<longleftrightarrow> Q x"
  by (auto simp: silent_def)

lemma silent_throwE: "silent (throwE e) Q"
  by (auto simp: silent_def)

lemma silent_liftE: "(\<And>x. r = Inr x \<Longrightarrow> Q x) \<Longrightarrow> silent (liftE r) Q"
  by (auto simp: silent_def)

lemma silent_bindE:
  assumes "silent m R" and "\<And>x. R x \<Longrightarrow> silent (f x) Q"
  shows "silent (bindE m f) Q"
  unfolding silent_def
proof (intro allI impI)
  fix w r w' assume run: "bindE m f w = (r, w')"
  obtain r1 w1 where m: "m w = (r1, w1)" by fastforce
  note s1 = silentD [OF assms(1) m]
  show "quiet w w' \<and> (\<forall>x. r = Inr x \<longrightarrow> Q x)"
  proof (cases r1)
    case (Inl e)
    with run m s1 show ?thesis by (auto simp: bindE_def)
  next
    case (Inr x)
    with run m have "f x w1 = (r, w')" by (simp add: bindE_def)
    with s1 Inr assms(2) [of x] show ?thesis by (auto dest: silentD intro: quiet_trans)
  qed
qed

lemma silent_if: "(b \<Longrightarrow> silent m Q) \<Longrightarrow> (\<not> b \<Longrightarrow> silent n Q) \<Longrightarrow> silent (if b then m else n) Q"
  by simp

lemma silent_whenSome:
  "(x = None \<Longrightarrow> Q s) \<Longrightarrow> (\<And>y. x = Some y \<Longrightarrow> silent (f y s) Q) \<Longrightarrow> silent (whenSome x f s) Q"
  by (cases x) (auto simp: whenSome_def intro: silent_returnE)

lemma silent_mapE:
  assumes "\<And>x. silent (f x) (P x)"
  shows "silent (mapE f xs) (list_all2 P xs)"
proof (induction xs)
  case Nil
  show ?case by simp
next
  case (Cons x xs)
  show ?case unfolding mapE.simps
    by (rule silent_bindE [OF assms], rule silent_bindE [OF Cons], rule silent_returnE) simp
qed

lemma silent_Now: "silent (Now D) (\<lambda>_. True)"
  by (auto simp: silent_def Now_run quiet_def)

lemma silent_lookups:
  "silent (GetCustomerByID D i) (\<lambda>_. True)" "silent (GetVehicleByID D i) (\<lambda>_. True)"
  "silent (GetProductByID D i) (\<lambda>_. True)" "silent (GetServiceByID D i) (\<lambda>_. True)"
  by (auto simp: silent_def dest: GetCustomerByID_run lookups_run)

lemma silent_clock: "(\<And>n. silent (f n) Q) \<Longrightarrow> silent (bindE (Now D) f) Q"
  by (rule silent_bindE [OF silent_Now])

lemma silent_lift_bind: "(\<And>x. r = Inr x \<Longrightarrow> silent (f x) Q) \<Longrightarrow> silent (bindE (liftE r) f) Q"
  by (rule silent_bindE [where R = "\<lambda>x. r = Inr x"]) (auto intro: silent_liftE)

lemma silent_clock_lift: "(\<And>n x. f n = Inr x \<Longrightarrow> Q x) \<Longrightarrow> silent (bindE (Now D) (\<lambda>n. liftE (f n))) Q"
  by (intro silent_clock silent_liftE)

subsection \<open>The lines built from the input\<close>

definition built :: "ItemInput \<Rightarrow> ServiceOrderItem \<Rightarrow> bool" where
  "built inp i \<longleftrightarrow> item_wf i \<and> item_id i = '''' \<and> \<not> item_IsDeleted i \<and> item_quantity i = ii_Quantity inp \<and>
     item_key i = (ii_ReferenceID inp, ItemType_of (ii_ItemType inp))"

lemma silent_build_item: "silent (build_item D oid inp) (built inp)"
  unfolding build_item_def Let_def fetchItemDetails_def NewServiceOrderItemE_def
  by (intro silent_if silent_throwE silent_bindE [where R = "\<lambda>_. True"])
    (auto intro!: silent_returnE silent_clock_lift silent_lookups split: prod.split
       simp: built_def dest: NewServiceOrderItem_Inr)

text \<open>How many units of \<open>k\<close> the input asks for.\<close>

definition requested :: "string \<times> ItemType \<Rightarrow> ItemInput list \<Rightarrow> int" where
  "requested k inps =
     (\<Sum>i\<leftarrow>inps. if (ii_ReferenceID i, ItemType_of (ii_ItemType i)) = k then sint (ii_Quantity i) else 0)"

lemma built_quantities: "list_all2 built inps items \<Longrightarrow> quantity_of k items = requested k inps"
  by (induction rule: list_all2_induct) (auto simp: requested_def built_def)

lemma built_lines: "list_all2 built inps items \<Longrightarrow> \<forall>i \<in> set items. item_wf i \<and> \<not> item_IsDeleted i \<and> item_id i = ''''"
  by (induction rule: list_all2_induct) (auto simp: built_def)

subsection \<open>The loops over the lines\<close>

text \<open>
  An order that differs from \<open>s\<close> in its lines and the time of its last change only, where the lines that
  have identifiers are the same, changed or not, and the new ones have none.
\<close>

definition lines_of :: "ServiceOrder \<Rightarrow> ServiceOrder \<Rightarrow> bool" where
  "lines_of s s' \<longleftrightarrow> s' = s\<lparr>so_items := so_items s', so_updatedAt := so_updatedAt s'\<rparr> \<and>
     line_ids (so_items s') = line_ids (so_items s)"

lemma lines_of_refl: "lines_of s s"
  by (simp add: lines_of_def)

lemma lines_of_trans: "lines_of s s1 \<Longrightarrow> lines_of s1 s2 \<Longrightarrow> lines_of s s2"
  by (cases s, cases s1, cases s2) (auto simp: lines_of_def)

lemma silent_AddItemE:
  assumes "lines_wf (so_items s)" and "item_wf i" and "\<not> item_IsDeleted i" and new: "item_id i = ''''"
  shows "silent (AddItemE D i s) (\<lambda>s'. lines_of s s' \<and> lines_wf (so_items s') \<and> CanModifyItems s \<and>
    (\<forall>k. quantity_of k (so_items s') =
       quantity_of k (so_items s) + (if k = item_key i then sint (item_quantity i) else 0)))"
  unfolding AddItemE_def
proof (intro silent_clock silent_liftE)
  fix n1 n2 s' assume a: "AddItem n1 n2 i s = Inr s'"
  have "so_updatedAt s' = n2" by (subst AddItem_frame [OF a]) simp
  moreover have "line_ids (so_items s') = line_ids (so_items s)"
    using a by (rule AddItem_cases) (simp_all add: new)
  ultimately have "lines_of s s'" unfolding lines_of_def using AddItem_frame [OF a] by simp
  then show "lines_of s s' \<and> lines_wf (so_items s') \<and> CanModifyItems s \<and>
    (\<forall>k. quantity_of k (so_items s') =
       quantity_of k (so_items s) + (if k = item_key i then sint (item_quantity i) else 0))"
    using AddItem_lines_wf [OF a assms(1-3)] AddItem_quantity [OF a assms(1-3)] AddItem_Inr_status [OF a]
    by simp
qed

lemma silent_add_items:
  assumes "lines_wf (so_items s)" and "\<forall>i \<in> set items. item_wf i \<and> \<not> item_IsDeleted i \<and> item_id i = ''''"
  shows "silent (foldE (AddItemE D) items s) (\<lambda>s'. lines_of s s' \<and> lines_wf (so_items s') \<and>
    (\<forall>k. quantity_of k (so_items s') = quantity_of k (so_items s) + quantity_of k items))"
  using assms
proof (induction items arbitrary: s)
  case Nil
  then show ?case by (simp add: lines_of_refl)
next
  case (Cons i items)
  show ?case unfolding foldE.simps
  proof (rule silent_bindE [OF silent_AddItemE])
    fix s1 assume s1: "lines_of s s1 \<and> lines_wf (so_items s1) \<and> CanModifyItems s \<and>
      (\<forall>k. quantity_of k (so_items s1) =
         quantity_of k (so_items s) + (if k = item_key i then sint (item_quantity i) else 0))"
    have "silent (foldE (AddItemE D) items s1) (\<lambda>s'. lines_of s1 s' \<and> lines_wf (so_items s') \<and>
      (\<forall>k. quantity_of k (so_items s') = quantity_of k (so_items s1) + quantity_of k items))"
      by (rule Cons.IH) (use s1 Cons.prems in auto)
    then show "silent (foldE (AddItemE D) items s1) (\<lambda>s'. lines_of s s' \<and> lines_wf (so_items s') \<and>
      (\<forall>k. quantity_of k (so_items s') = quantity_of k (so_items s) + quantity_of k (i # items)))"
      by (rule silent_weaken) (use s1 Cons.prems in \<open>auto intro: lines_of_trans\<close>)
  qed (use Cons.prems in auto)
qed

lemma remove_item_at:
  "(\<forall>x \<in> set pre. item_IsDeleted x) \<Longrightarrow> \<not> item_IsDeleted e \<Longrightarrow>
   remove_item n (item_id e) (pre @ e # post) = Some (pre @ item_MarkAsDeleted n e # post)"
  by (induction pre) auto

lemma silent_remove_existing:
  assumes "so_items s = pre @ e # post" and "\<forall>x \<in> set pre. item_IsDeleted x"
  shows "silent (remove_existing D (length pre) s)
    (\<lambda>s'. lines_of s s' \<and> (\<exists>e'. so_items s' = pre @ e' # post \<and> item_IsDeleted e'))"
proof -
  have "so_items s ! length pre = e" using assms(1) by simp
  then show ?thesis unfolding remove_existing_def Let_def RemoveItemE_def
    using assms
    by (auto intro!: silent_if silent_throwE silent_returnE silent_clock silent_liftE lines_of_refl
        simp: RemoveItem_def remove_item_at lines_of_def split: if_splits)
qed

lemma silent_remove_all:
  assumes "so_items s = pre @ post" and "\<forall>x \<in> set pre. item_IsDeleted x"
  shows "silent (foldE (remove_existing D) [length pre ..< length (so_items s)] s)
    (\<lambda>s'. lines_of s s' \<and> active (so_items s') = [])"
  using assms
proof (induction post arbitrary: pre s)
  case Nil
  then show ?case by (simp add: lines_of_refl active_def filter_empty_conv)
next
  case (Cons e post)
  have up: "[length pre ..< length (so_items s)] =
      length pre # [length (pre @ [e]) ..< length (so_items s)]"
    using Cons.prems(1) upt_conv_Cons [of "length pre" "length (so_items s)"] by simp
  show ?case unfolding up foldE.simps
  proof (rule silent_bindE [OF silent_remove_existing [OF Cons.prems]])
    fix s1 assume "lines_of s s1 \<and> (\<exists>e'. so_items s1 = pre @ e' # post \<and> item_IsDeleted e')"
    then obtain e' where s1: "lines_of s s1" "so_items s1 = (pre @ [e']) @ post" "item_IsDeleted e'"
      by auto
    have len: "length (so_items s) = length (so_items s1)" using s1(2) Cons.prems(1) by simp
    have "silent (foldE (remove_existing D) [length (pre @ [e']) ..< length (so_items s1)] s1)
      (\<lambda>s'. lines_of s1 s' \<and> active (so_items s') = [])"
      by (rule Cons.IH [OF s1(2)]) (use Cons.prems(2) s1(3) in auto)
    then show "silent (foldE (remove_existing D) [length (pre @ [e]) ..< length (so_items s)] s1)
      (\<lambda>s'. lines_of s s' \<and> active (so_items s') = [])"
      unfolding len using s1(1) by (auto elim!: silent_weaken intro: lines_of_trans)
  qed
qed

subsection \<open>The lines of a view\<close>

abbreviation iv_key :: "item_view \<Rightarrow> string \<times> ItemType" where
  "iv_key i \<equiv> (iv_referenceID i, iv_itemType i)"

definition v_quantity :: "string \<times> ItemType \<Rightarrow> item_view multiset \<Rightarrow> int" where
  "v_quantity k items = (\<Sum>i \<in># items. if iv_key i = k then sint (iv_quantity i) else 0)"

text \<open>
  Lines that are exactly what an input asks for: well formed, one line for each product or service, with
  the sum of the quantities asked for.
\<close>

definition lines_match :: "item_view multiset \<Rightarrow> ItemInput list \<Rightarrow> bool" where
  "lines_match items inps \<longleftrightarrow>
     (\<forall>i \<in># items. item_view_wf i) \<and> (\<forall>k. v_quantity k items = requested k inps) \<and>
     (\<forall>k. size (filter_mset (\<lambda>i. iv_key i = k) items) \<le> 1)"

lemma iv_key_abs [simp]: "iv_key (abs_item i) = item_key i"
  by (simp add: abs_item_def item_key_def)

lemma abs_items_simps: "abs_items [] = {#}"
  "abs_items (i # is) = (if item_IsDeleted i then abs_items is else add_mset (abs_item i) (abs_items is))"
  by (simp_all add: abs_items_def)

lemma v_quantity_abs: "v_quantity k (abs_items items) = quantity_of k items"
proof (induction items)
  case Nil
  then show ?case by (simp add: v_quantity_def abs_items_simps)
next
  case (Cons i items)
  have "iv_quantity (abs_item i) = item_quantity i" by (simp add: abs_item_def)
  with Cons show ?case using iv_key_abs [of i] by (simp add: v_quantity_def abs_items_simps)
qed

lemma item_view_wf_abs: "item_view_wf (abs_item i) \<longleftrightarrow> item_wf i"
  by (simp add: item_view_wf_def abs_item_def item_wf_def)

lemma lines_wf_unique:
  assumes "lines_wf items"
  shows "size (filter_mset (\<lambda>i. iv_key i = k) (abs_items items)) \<le> 1"
proof -
  have "size (filter_mset (\<lambda>i. iv_key i = k) (image_mset abs_item (mset xs))) =
      count (mset (map item_key xs)) k" for xs
    using iv_key_abs by (induction xs) auto
  moreover have "count (mset (map item_key (active items))) k \<le> 1"
    using assms distinct_count_atmost_1 [of "map item_key (active items)"]
    by (simp add: lines_wf_def del: mset_map split_paired_All)
  ultimately show ?thesis by (simp add: abs_items_def)
qed

lemma lines_match_abs:
  assumes "lines_wf items" and "\<And>k. quantity_of k items = requested k inps"
  shows "lines_match (abs_items items) inps"
  using assms lines_wf_unique [OF assms(1)]
  by (auto simp: lines_match_def v_quantity_abs set_abs_items item_view_wf_abs lines_wf_def)

lemma lines_wf_storable: "lines_wf items \<Longrightarrow> \<forall>i \<in> set (active items). itemType_IsValid (item_itemType i)"
  by (simp add: lines_wf_def item_wf_def)

lemma quantity_of_active: "active items = [] \<Longrightarrow> quantity_of k items = 0"
  by (simp add: quantity_of_def)

subsection \<open>The details\<close>

lemma silent_vehicle: "silent (GetVehicleByID D i) (\<lambda>v. \<exists>t. VehicleAdapter_Get D t i = Inr v)"
  by (auto simp: silent_def GetVehicleByID_def external_def quiet_def split: sum.splits)

lemma silent_customer: "silent (GetCustomerByID D i) (\<lambda>c. \<exists>t. CustomerAdapter_Get D t i = Inr c)"
  by (auto simp: silent_def GetCustomerByID_def external_def quiet_def split: sum.splits)

text \<open>The vehicle's keeper said, at some moment, that the vehicle is the customer's.\<close>

definition owned :: "'db deps \<Rightarrow> string \<Rightarrow> string \<Rightarrow> bool" where
  "owned D vehicle customer \<longleftrightarrow>
     (\<exists>t v. VehicleAdapter_Get D t vehicle = Inr v \<and> veh_CustomerID v = customer)"

lemma silent_ownership: "silent (ValidateVehicleOwnership D v c) (\<lambda>b. b \<longrightarrow> owned D v c)"
  unfolding ValidateVehicleOwnership_def
  by (rule silent_bindE [OF silent_vehicle]) (auto simp: owned_def intro: silent_returnE)

definition given :: "'a option \<Rightarrow> 'a \<Rightarrow> 'a" where
  "given x y = (case x of None \<Rightarrow> y | Some z \<Rightarrow> z)"

definition detailed :: "UpdateServiceOrderInput \<Rightarrow> ServiceOrder \<Rightarrow> ServiceOrder \<Rightarrow> bool" where
  "detailed input s s' \<longleftrightarrow>
     so_customerID s' = given (ui_CustomerID input) (so_customerID s) \<and>
     so_vehicleID s' = given (ui_VehicleID input) (so_vehicleID s) \<and>
     so_description s' = given (ui_Description input) (so_description s) \<and>
     so_customerID s' \<noteq> '''' \<and> so_vehicleID s' \<noteq> '''' \<and>
     s' = s\<lparr>so_customerID := so_customerID s', so_vehicleID := so_vehicleID s',
            so_description := so_description s', so_updatedAt := so_updatedAt s'\<rparr>"

lemma silent_validate:
  assumes "so_customerID s \<noteq> ''''" and "so_vehicleID s \<noteq> ''''"
  shows "silent (validateAndUpdateCustomerVehicle D s input)
    (\<lambda>s'. detailed input s s' \<and> owned D (so_vehicleID s') (so_customerID s'))"
proof -
  let ?c = "given (ui_CustomerID input) (so_customerID s)"
  let ?v = "given (ui_VehicleID input) (so_vehicleID s)"
  have own: "silent (if ?v \<noteq> ''''
             then bindE (ValidateVehicleOwnership D ?v ?c) (\<lambda>isOwner.
                  if \<not> isOwner then throwE ErrVehicleDoesNotBelongToCustomer else returnE ())
             else returnE ()) (\<lambda>_. ?v \<noteq> '''' \<longrightarrow> owned D ?v ?c)"
    by (intro silent_if silent_bindE [OF silent_ownership]) (auto intro: silent_throwE silent_returnE)
  have c: "silent (whenSome (ui_CustomerID input)
               (\<lambda>c s. bindE (Now D) (\<lambda>n. liftE (UpdateCustomer n c s))) s)
      (\<lambda>s'. so_customerID s' = ?c \<and> ?c \<noteq> '''' \<and>
            s' = s\<lparr>so_customerID := ?c, so_updatedAt := so_updatedAt s'\<rparr>)"
    using assms by (intro silent_whenSome silent_clock_lift)
      (auto simp: given_def UpdateCustomer_def split: if_splits)
  have v: "silent (whenSome (ui_VehicleID input)
               (\<lambda>v s. bindE (Now D) (\<lambda>n. liftE (UpdateVehicle n v s))) s1)
      (\<lambda>s'. so_vehicleID s' = ?v \<and> ?v \<noteq> '''' \<and>
            s' = s1\<lparr>so_vehicleID := ?v, so_updatedAt := so_updatedAt s'\<rparr>)"
    if "so_vehicleID s1 = so_vehicleID s" for s1
    using assms that by (intro silent_whenSome silent_clock_lift)
      (auto simp: given_def UpdateVehicle_def split: if_splits)
  have d: "silent (whenSome (ui_Description input)
               (\<lambda>d s. bindE (Now D) (\<lambda>n. returnE (UpdateDescription n d s))) s1)
      (\<lambda>s'. s' = s1\<lparr>so_description := given (ui_Description input) (so_description s1),
                     so_updatedAt := so_updatedAt s'\<rparr>)" for s1
    by (intro silent_whenSome silent_clock silent_returnE) (auto simp: given_def UpdateDescription_def)
  show ?thesis
    unfolding validateAndUpdateCustomerVehicle_def Let_def given_def [symmetric]
  proof (rule silent_bindE [where R = "\<lambda>_. True"], goal_cases)
    case 1
    show ?case by (intro silent_whenSome silent_bindE [OF silent_lookups(1)]) (auto intro: silent_returnE)
  next
    case 2
    show ?case
    proof (rule silent_bindE [where R = "\<lambda>_. True"], goal_cases)
      case 1
      show ?case by (intro silent_whenSome silent_if silent_bindE [OF silent_lookups(2)])
          (auto intro: silent_returnE)
    next
      case 2
      show ?case
      proof (rule silent_bindE [OF own], rule silent_bindE [OF c], rule silent_bindE [OF v])
        fix x s1 s2
        assume o: "?v \<noteq> '''' \<longrightarrow> owned D ?v ?c" and
          s1: "so_customerID s1 = ?c \<and> ?c \<noteq> '''' \<and>
            s1 = s\<lparr>so_customerID := ?c, so_updatedAt := so_updatedAt s1\<rparr>"
        then show "so_vehicleID s1 = so_vehicleID s"
          by (metis ServiceOrder.select_convs(3) ServiceOrder.surjective ServiceOrder.update_convs(2,18))
        assume s2: "so_vehicleID s2 = ?v \<and> ?v \<noteq> '''' \<and>
            s2 = s1\<lparr>so_vehicleID := ?v, so_updatedAt := so_updatedAt s2\<rparr>"
        show "silent (whenSome (ui_Description input)
               (\<lambda>d s. bindE (Now D) (\<lambda>n. returnE (UpdateDescription n d s))) s2)
          (\<lambda>s'. detailed input s s' \<and> owned D (so_vehicleID s') (so_customerID s'))"
        proof (rule silent_weaken [OF d])
          fix s3 assume "s3 = s2\<lparr>so_description := given (ui_Description input) (so_description s2),
            so_updatedAt := so_updatedAt s3\<rparr>"
          with s1 s2 o show "detailed input s s3 \<and> owned D (so_vehicleID s3) (so_customerID s3)"
            by (cases s; cases s1; cases s2; cases s3) (simp add: detailed_def)
        qed
      qed
    qed
  qed
qed

subsection \<open>Creation\<close>

lemma NewServiceOrder_Inr:
  assumes "NewServiceOrder n c v d = Inr s"
  shows "so_id s = ''''" and "so_items s = []" and "so_customerID s = c" and "so_vehicleID s = v"
    and "so_description s = d" and "storable s" and "fresh_view (abs_order s)"
  using assms by (auto simp: NewServiceOrder_def storable_def fresh_view_def abs_items_def split: if_splits)

lemma abs_SetCustomerSnapshot:
  "abs_order (SetCustomerSnapshot n e m s) = (abs_order s)\<lparr>v_customerEmail := e, v_customerName := m\<rparr>"
  by (simp add: SetCustomerSnapshot_def abs_order_def)

lemma lines_of_abs:
  assumes "lines_of s s'"
  shows "abs_order s' = (abs_order s)\<lparr>v_items := abs_items (so_items s'),
      v_line_ids := set (line_ids (active (so_items s')))\<rparr>" and "so_id s' = so_id s"
    and "so_status s' = so_status s" and "so_deletedAt s' = so_deletedAt s"
    and "so_sagaTargetStatus s' = so_sagaTargetStatus s"
  using assms by (cases s; cases s'; simp add: lines_of_def abs_order_def)+

lemma lines_of_storable: "lines_of s s' \<Longrightarrow> storable s \<Longrightarrow> lines_wf (so_items s') \<Longrightarrow> storable s'"
  using lines_of_abs [of s s'] lines_wf_storable [of "so_items s'"] by (simp add: storable_def)

text \<open>Everything of creation but the save.\<close>

definition new_order :: "'db deps \<Rightarrow> CreateServiceOrderInput \<Rightarrow> ServiceOrder \<Rightarrow> bool" where
  "new_order D input s \<longleftrightarrow> so_id s = '''' \<and> line_ids (so_items s) = [] \<and> storable s \<and> so_customerID s = ci_CustomerID input \<and>
     so_vehicleID s = ci_VehicleID input \<and> so_description s = ci_Description input \<and>
     fresh_view ((abs_order s)\<lparr>v_items := {#}\<rparr>) \<and> lines_match (abs_items (so_items s)) (ci_Items input) \<and>
     owned D (ci_VehicleID input) (ci_CustomerID input) \<and>
     (\<exists>t c. CustomerAdapter_Get D t (ci_CustomerID input) = Inr c \<and>
        so_customerEmail s = cust_Email c \<and> so_customerName s = cust_Name c)"

context service_env
begin

lemma canonical_nonempty: "i \<noteq> '''' \<Longrightarrow> canonical canon i \<noteq> ''''"
  using canon_idem [of i] by (auto simp: canonical_def split: option.splits)

lemma persist_items_wf:
  "\<forall>i \<in># v_items v. item_view_wf i \<Longrightarrow> \<forall>i \<in># v_items (persist canon v). item_view_wf i"
  by (auto simp: persist_def item_view_wf_def canonical_nonempty)

lemma Save_create_run:
  assumes "Save D s w = (Inr s', w')" and "so_id s = ''''" and "storable s" and "line_ids (so_items s) = []"
  shows "canon (so_id s') = Some (so_id s')" and "numbered s s'"
    and "view (w_db w) (so_id s') = None" and "w_log w' = w_log w"
    and "view (w_db w') = (view (w_db w))(so_id s' \<mapsto> persist canon (abs_order s'))"
  using assms save_creates by (auto elim!: Save_cases)

end

text \<open>The part of \<^verbatim>\<open>CreateServiceOrder\<close> before the save.\<close>

definition create_order :: "'db deps \<Rightarrow> CreateServiceOrderInput \<Rightarrow> ('db, ServiceOrder) io" where
  "create_order D input =
     bindE (GetCustomerByID D (ci_CustomerID input)) (\<lambda>customer.
     bindE (if ci_VehicleID input \<noteq> ''''
            then bindE (GetVehicleByID D (ci_VehicleID input)) (\<lambda>vehicle.
                 if veh_CustomerID vehicle \<noteq> ci_CustomerID input
                 then throwE ErrVehicleDoesNotBelongToCustomer else returnE ())
            else returnE ()) (\<lambda>_.
     bindE (mapE (build_item D '''') (ci_Items input)) (\<lambda>itemsToAdd.
     bindE (Now D) (\<lambda>now.
     bindE (liftE (NewServiceOrder now (ci_CustomerID input) (ci_VehicleID input)
              (ci_Description input))) (\<lambda>order.
     bindE (Now D) (\<lambda>now'.
     foldE (AddItemE D) itemsToAdd
       (SetCustomerSnapshot now' (cust_Email customer) (cust_Name customer) order)))))))"

lemma CreateServiceOrder_alt:
  "CreateServiceOrder D input =
     bindE (create_order D input) (\<lambda>order.
     bindE (SaveWithItems D order) (\<lambda>order.
     returnE \<lparr>co_ID = so_id order, co_CustomerID = so_customerID order,
              co_VehicleID = so_vehicleID order, co_Description = so_description order,
              co_Status = status_String (so_status order), co_SagaStatus = so_sagaStatus order,
              co_Items = map item_output (so_items order), co_CreatedAt = so_createdAt order,
              co_UpdatedAt = so_updatedAt order\<rparr>))"
  by (simp add: CreateServiceOrder_def create_order_def bindE_assoc Let_def)

lemma silent_create_order: "silent (create_order D input) (new_order D input)"
proof -
  have veh: "silent (if ci_VehicleID input \<noteq> ''''
            then bindE (GetVehicleByID D (ci_VehicleID input)) (\<lambda>vehicle.
                 if veh_CustomerID vehicle \<noteq> ci_CustomerID input
                 then throwE ErrVehicleDoesNotBelongToCustomer else returnE ())
            else returnE ())
      (\<lambda>_. ci_VehicleID input \<noteq> '''' \<longrightarrow> owned D (ci_VehicleID input) (ci_CustomerID input))"
    by (intro silent_if silent_bindE [OF silent_vehicle] silent_throwE silent_returnE) (auto simp: owned_def)
  show ?thesis unfolding create_order_def
  proof (rule silent_bindE [OF silent_customer], rule silent_bindE [OF veh],
      rule silent_bindE [OF silent_mapE [OF silent_build_item]], rule silent_clock,
      rule silent_lift_bind, rule silent_clock)
    fix cust items now s now'
    assume c: "\<exists>t. CustomerAdapter_Get D t (ci_CustomerID input) = Inr cust"
      and o: "ci_VehicleID input \<noteq> '''' \<longrightarrow> owned D (ci_VehicleID input) (ci_CustomerID input)"
      and b: "list_all2 built (ci_Items input) items"
      and n: "NewServiceOrder now (ci_CustomerID input) (ci_VehicleID input) (ci_Description input) = Inr s"
    let ?s = "SetCustomerSnapshot now' (cust_Email cust) (cust_Name cust) s"
    note f = NewServiceOrder_Inr [OF n]
    have e: "so_items ?s = []" "so_id ?s = ''''" "storable ?s"
      using f by (simp_all add: SetCustomerSnapshot_def storable_def)
    have v: "ci_VehicleID input \<noteq> ''''" using n by (auto simp: NewServiceOrder_def split: if_splits)
    have "silent (foldE (AddItemE D) items ?s) (\<lambda>s'. lines_of ?s s' \<and> lines_wf (so_items s') \<and>
        (\<forall>k. quantity_of k (so_items s') = quantity_of k (so_items ?s) + quantity_of k items))"
      by (rule silent_add_items) (use e(1) built_lines [OF b] in \<open>auto simp: lines_wf_def\<close>)
    then show "silent (foldE (AddItemE D) items ?s) (new_order D input)"
    proof (rule silent_weaken)
      fix s' assume s': "lines_of ?s s' \<and> lines_wf (so_items s') \<and>
        (\<forall>k. quantity_of k (so_items s') = quantity_of k (so_items ?s) + quantity_of k items)"
      note l = lines_of_abs [OF conjunct1 [OF s']]
      have ids: "line_ids (so_items s') = []" using s' e(1) by (simp add: lines_of_def)
      then have "set (line_ids (active (so_items s'))) = {}"
        using line_ids_active [of "so_items s'"] by (simp del: set_empty)
      then have fr: "fresh_view ((abs_order s')\<lparr>v_items := {#}\<rparr>)"
        using f(7) unfolding l(1) abs_SetCustomerSnapshot by (simp add: fresh_view_def)
      have m: "lines_match (abs_items (so_items s')) (ci_Items input)"
        by (rule lines_match_abs) (use s' built_quantities [OF b] e(1) in auto)
      have "storable s'" using lines_of_storable s' e(3) by blast
      moreover have "so_customerID s' = ci_CustomerID input \<and> so_vehicleID s' = ci_VehicleID input \<and>
          so_description s' = ci_Description input \<and> so_customerEmail s' = cust_Email cust \<and>
          so_customerName s' = cust_Name cust"
        using l(1) f(3-5) by (simp add: abs_order_def SetCustomerSnapshot_def)
      ultimately show "new_order D input s'" using m fr l(2) e(2) o v c ids by (auto simp: new_order_def)
    qed
  qed
qed

context service_env
begin

lemma Create_run:
  assumes run: "CreateServiceOrder D input w = (Inr out, w')"
  shows "\<exists>s ids. new_order D input s \<and> canon (co_ID out) = Some (co_ID out) \<and>
    view (w_db w) (co_ID out) = None \<and> w_log w' = w_log w \<and>
    view (w_db w') = (view (w_db w))(co_ID out \<mapsto> persist canon ((abs_order s)\<lparr>v_line_ids := ids\<rparr>))"
proof -
  from run obtain s s' w1 where co: "create_order D input w = (Inr s, w1)"
    and sv: "Save D s w1 = (Inr s', w')" and out: "co_ID out = so_id s'"
    unfolding CreateServiceOrder_alt SaveWithItems_eq bindE_Inr_iff by auto
  have q: "quiet w w1" and n: "new_order D input s" using silentD [OF silent_create_order co] by auto
  then have "so_id s = ''''" "storable s" "line_ids (so_items s) = []" by (auto simp: new_order_def)
  note x = Save_create_run [OF sv this]
  from numbered_view [OF x(2)] obtain ids where "abs_order s' = (abs_order s)\<lparr>v_line_ids := ids\<rparr>" .
  with n q x out show ?thesis by (intro exI [of _ s] exI [of _ ids]) (simp add: quiet_def)
qed

lemma Create_failed:
  assumes run: "CreateServiceOrder D input w = (Inl e, w')"
  shows "view (w_db w') = view (w_db w) \<and> w_log w' = w_log w"
proof -
  obtain r w1 where co: "create_order D input w = (r, w1)" by fastforce
  have q: "quiet w w1" using silentD [OF silent_create_order co] by simp
  show ?thesis
  proof (cases r)
    case (Inl e')
    with run co q show ?thesis by (auto simp: CreateServiceOrder_alt bindE_def quiet_def)
  next
    case (Inr s)
    with run co have "Save D s w1 = (Inl e, w')"
      unfolding CreateServiceOrder_alt SaveWithItems_eq bindE_Inl_iff by auto
    from Save_failed [OF this] q show ?thesis by (simp add: quiet_def)
  qed
qed

lemma new_order_steps:
  assumes "new_order D input s"
  shows "\<exists>v0. fresh_view v0 \<and> order_steps v0 (persist canon ((abs_order s)\<lparr>v_line_ids := ids\<rparr>))"
proof (intro exI conjI)
  let ?v = "persist canon ((abs_order s)\<lparr>v_line_ids := ids\<rparr>)"
  let ?u = "?v\<lparr>v_items := {#}, v_line_ids := {}\<rparr>"
  show "fresh_view ?u"
    using assms by (auto simp: new_order_def fresh_view_def persist_def canonical_nonempty)
  have "\<forall>i \<in># v_items ?v. item_view_wf i"
    by (rule persist_items_wf) (use assms in \<open>simp add: new_order_def lines_match_def\<close>)
  moreover have "v_status ?v = StatusReceived" using assms by (simp add: new_order_def fresh_view_def)
  ultimately have "order_step ?u (?u\<lparr>v_items := v_items ?v, v_line_ids := v_line_ids ?v\<rparr>)"
    by (intro order_step.edit_items) simp_all
  then show "order_steps ?u ?v" by simp
qed

lemma advances_CreateServiceOrder: "advances view P (CreateServiceOrder D input)"
  unfolding advances_def
proof (intro allI impI)
  fix w r w' assume run: "CreateServiceOrder D input w = (r, w')"
  show "evolves (view (w_db w)) (view (w_db w'))"
  proof (cases r)
    case (Inl e)
    with run Create_failed show ?thesis by simp
  next
    case (Inr out)
    with run Create_run obtain s ids where "new_order D input s" "view (w_db w) (co_ID out) = None"
      "view (w_db w') = (view (w_db w))(co_ID out \<mapsto> persist canon ((abs_order s)\<lparr>v_line_ids := ids\<rparr>))"
      by blast
    with new_order_steps evolves_create show ?thesis by metis
  qed
qed

end

subsection \<open>Update\<close>

text \<open>What an update makes of the lines: all that were there go, those asked for come.\<close>

definition relined :: "ItemInput list option \<Rightarrow> ServiceOrder \<Rightarrow> bool \<Rightarrow> ServiceOrder \<Rightarrow> bool" where
  "relined inps s modified s' \<longleftrightarrow> lines_of s s' \<and>
     (case inps of
        None \<Rightarrow> \<not> modified \<and> s' = s
      | Some inps \<Rightarrow> modified \<and> CanModifyItems s \<and> lines_wf (so_items s') \<and>
          lines_match (abs_items (so_items s')) inps)"

lemma silent_updateItems: "silent (updateItems D s inps) (\<lambda>(m, s'). relined inps s m s')"
proof (cases inps)
  case None
  then show ?thesis by (auto simp: updateItems_def relined_def lines_of_refl intro!: silent_returnE)
next
  case (Some asked)
  show ?thesis unfolding updateItems_def Some option.case validateAndBuildItems_def
  proof (intro silent_if silent_throwE, rule silent_bindE [OF silent_mapE [OF silent_build_item]])
    fix items assume cm: "\<not> \<not> CanModifyItems s" and b: "list_all2 built asked items"
    have r: "silent (foldE (remove_existing D) [0 ..< length (so_items s)] s)
        (\<lambda>s'. lines_of s s' \<and> active (so_items s') = [])"
      using silent_remove_all [of s "[]" "so_items s" D] by simp
    show "silent (bindE (foldE (remove_existing D) [0 ..< length (so_items s)] s) (\<lambda>order.
            bindE (foldE (AddItemE D) items order) (\<lambda>order. returnE (True, order))))
          (\<lambda>(m, s'). relined (Some asked) s m s')"
    proof (rule silent_bindE [OF r])
      fix s1 assume s1: "lines_of s s1 \<and> active (so_items s1) = []"
      have a: "silent (foldE (AddItemE D) items s1) (\<lambda>s'. lines_of s1 s' \<and> lines_wf (so_items s') \<and>
          (\<forall>k. quantity_of k (so_items s') = quantity_of k (so_items s1) + quantity_of k items))"
        by (rule silent_add_items) (use s1 built_lines [OF b] in \<open>auto simp: lines_wf_def\<close>)
      show "silent (bindE (foldE (AddItemE D) items s1) (\<lambda>order. returnE (True, order)))
          (\<lambda>(m, s'). relined (Some asked) s m s')"
      proof (rule silent_bindE [OF a], rule silent_returnE)
        fix s2 assume s2: "lines_of s1 s2 \<and> lines_wf (so_items s2) \<and>
          (\<forall>k. quantity_of k (so_items s2) = quantity_of k (so_items s1) + quantity_of k items)"
        have "lines_match (abs_items (so_items s2)) asked"
          by (rule lines_match_abs) (use s1 s2 built_quantities [OF b] quantity_of_active in auto)
        moreover have "lines_of s s2" using s1 s2 lines_of_trans by blast
        ultimately show "case (True, s2) of (m, s') \<Rightarrow> relined (Some asked) s m s'"
          using cm s2 by (simp add: relined_def)
      qed
    qed
  qed
qed

lemma mark_items_active:
  "list_all2 (\<lambda>x y. item_id y = item_id x \<and> (y = x \<or> item_IsDeleted x \<and> item_IsDeleted y)) xs ys \<Longrightarrow>
   active ys = active xs \<and> line_ids ys = line_ids xs"
  by (induction rule: list_all2_induct) auto

lemma update_saveHistory_run:
  assumes run: "update_saveHistory D s old m w = (r, w')"
  shows "w_db w' = w_db w"
    and "r = Inr s' \<Longrightarrow> abs_order s' = abs_order s \<and> so_id s' = so_id s \<and> (storable s \<longrightarrow> storable s') \<and>
      active (so_items s') = active (so_items s) \<and> line_ids (so_items s') = line_ids (so_items s) \<and>
      (\<exists>h. w_log w' = w_log w @ [HistorySaved h] \<and> h_serviceOrderID h = so_id s \<and> h_status h = so_status s)"
proof -
  let ?tail = "\<lambda>historyID. if m then
            bindE (mapE (\<lambda>item.
                     if item_IsDeleted item \<and> item_historyID item = None
                     then bindE (Now D) (\<lambda>n. liftE (SetHistoryID n historyID item))
                     else returnE item) (so_items s)) (\<lambda>items.
            returnE (s\<lparr>so_items := items\<rparr>))
          else returnE s"
  have step: "silent (if item_IsDeleted item \<and> item_historyID item = None
                     then bindE (Now D) (\<lambda>n. liftE (SetHistoryID n historyID item))
                     else returnE item)
      (\<lambda>y. item_id y = item_id item \<and> (y = item \<or> item_IsDeleted item \<and> item_IsDeleted y))" for item historyID
    by (intro silent_if silent_clock_lift silent_returnE)
      (auto simp: SetHistoryID_def item_IsDeleted_def split: if_splits)
  have tail: "silent (?tail hid) (\<lambda>s'. \<exists>is. s' = s\<lparr>so_items := is\<rparr> \<and> active is = active (so_items s) \<and>
        line_ids is = line_ids (so_items s))" for hid
  proof (intro silent_if silent_returnE)
    show "silent (bindE (mapE (\<lambda>item.
                     if item_IsDeleted item \<and> item_historyID item = None
                     then bindE (Now D) (\<lambda>n. liftE (SetHistoryID n hid item))
                     else returnE item) (so_items s)) (\<lambda>items.
            returnE (s\<lparr>so_items := items\<rparr>)))
        (\<lambda>s'. \<exists>is. s' = s\<lparr>so_items := is\<rparr> \<and> active is = active (so_items s) \<and>
        line_ids is = line_ids (so_items s))"
      by (rule silent_bindE [OF silent_mapE [OF step]]) (auto intro!: silent_returnE dest: mark_items_active)
  qed (auto intro: exI [of _ "so_items s"])
  have "w_db w' = w_db w \<and> (\<forall>s'. r = Inr s' \<longrightarrow> (\<exists>is. s' = s\<lparr>so_items := is\<rparr> \<and> active is = active (so_items s) \<and>
      line_ids is = line_ids (so_items s)) \<and>
      (\<exists>h. w_log w' = w_log w @ [HistorySaved h] \<and> h_serviceOrderID h = so_id s \<and> h_status h = so_status s))"
  proof (cases old)
    case None
    with run show ?thesis by (auto simp: update_saveHistory_def)
  next
    case (Some o')
    let ?md = "if m then BuildHistoryMetadataWithItems o' s else BuildHistoryMetadata o' s"
    obtain r1 w1 where nh: "NewHistoryE D (so_id s) ?md (so_status s) w = (r1, w1)" by fastforce
    from NewHistoryE_run [OF nh] obtain n where q: "quiet w w1"
      and n: "NewHistory n (so_id s) ?md (so_status s) = r1" by blast
    show ?thesis
    proof (cases r1)
      case (Inl e)
      with run Some nh q show ?thesis by (auto simp: update_saveHistory_def bindE_def quiet_def)
    next
      case h: (Inr h)
      obtain r2 w2 where hs: "history_Save D h w1 = (r2, w2)" by fastforce
      have unfold1: "update_saveHistory D s old m w = bindE (history_Save D h) ?tail w1"
        unfolding update_saveHistory_def Some option.case Let_def
        by (rule bindE_eval_Inr) (use nh h in simp)
      show ?thesis
      proof (cases r2)
        case (Inl e)
        then have "update_saveHistory D s old m w = (Inl e, w2)"
          unfolding unfold1 using hs by (simp add: bindE_def)
        with run hs [unfolded Inl] q show ?thesis by (auto simp: quiet_def history_Save_def external_Inl)
      next
        case (Inr hid)
        then have "update_saveHistory D s old m w = ?tail hid w2"
          unfolding unfold1 using hs by (simp add: bindE_def)
        with run have "?tail hid w2 = (r, w')" by simp
        from silentD [OF tail this] history_Save_run [OF hs [unfolded Inr]] q n [unfolded h]
        show ?thesis by (auto simp: quiet_def NewHistory_Inr_iff)
      qed
    qed
  qed
  then show "w_db w' = w_db w"
    and "r = Inr s' \<Longrightarrow> abs_order s' = abs_order s \<and> so_id s' = so_id s \<and> (storable s \<longrightarrow> storable s') \<and>
      active (so_items s') = active (so_items s) \<and> line_ids (so_items s') = line_ids (so_items s) \<and>
      (\<exists>h. w_log w' = w_log w @ [HistorySaved h] \<and> h_serviceOrderID h = so_id s \<and> h_status h = so_status s)"
    by (auto simp: abs_order_def abs_items_def storable_def)
qed

text \<open>The order an update stores, from the one stored before.\<close>

definition updated ::
  "'db deps \<Rightarrow> UpdateServiceOrderInput \<Rightarrow> order_view \<Rightarrow> order_view \<Rightarrow> bool" where
  "updated D input v v' \<longleftrightarrow>
     v_customerID v' = given (ui_CustomerID input) (v_customerID v) \<and>
     v_vehicleID v' = given (ui_VehicleID input) (v_vehicleID v) \<and>
     v_description v' = given (ui_Description input) (v_description v) \<and>
     v_customerID v' \<noteq> '''' \<and> v_vehicleID v' \<noteq> '''' \<and> owned D (v_vehicleID v') (v_customerID v') \<and>
     v' = v\<lparr>v_customerID := v_customerID v', v_vehicleID := v_vehicleID v',
            v_description := v_description v', v_items := v_items v', v_line_ids := v_line_ids v'\<rparr> \<and>
     (case ui_Items input of
        None \<Rightarrow> v_items v' = v_items v \<and> v_line_ids v' = v_line_ids v
      | Some inps \<Rightarrow> v_status v \<in> {StatusReceived, StatusDiagnosing} \<and> lines_match (v_items v') inps)"

lemma updated_sel:
  assumes "updated D input v v'"
  shows "v_status v' = v_status v" and "v_sagaStatus v' = v_sagaStatus v"
    and "v_currentSagaID v' = v_currentSagaID v" and "v_sagaTargetStatus v' = v_sagaTargetStatus v"
proof -
  obtain c ve d ls ids where
    "v' = v\<lparr>v_customerID := c, v_vehicleID := ve, v_description := d, v_items := ls, v_line_ids := ids\<rparr>"
    using assms unfolding updated_def by blast
  then show "v_status v' = v_status v" and "v_sagaStatus v' = v_sagaStatus v"
    and "v_currentSagaID v' = v_currentSagaID v" and "v_sagaTargetStatus v' = v_sagaTargetStatus v" by simp_all
qed

lemma updated_abs:
  assumes "detailed input s s1" and "relined (ui_Items input) s1 m s2" and "owned D (so_vehicleID s1) (so_customerID s1)"
  shows "updated D input (abs_order s) (abs_order s2)" and "so_id s2 = so_id s"
    and "storable s \<Longrightarrow> storable s2" and "line_ids (so_items s2) = line_ids (so_items s)"
    and "ui_Items input = None \<Longrightarrow> so_items s2 = so_items s"
proof -
  note d = assms(1) [unfolded detailed_def] and l = lines_of_abs [of s1 s2]
  have lo: "lines_of s1 s2" using assms(2) by (simp add: relined_def)
  have s1: "abs_order s1 = (abs_order s)\<lparr>v_customerID := so_customerID s1, v_vehicleID := so_vehicleID s1,
      v_description := so_description s1\<rparr> \<and> so_id s1 = so_id s \<and> so_deletedAt s1 = so_deletedAt s \<and>
      so_status s1 = so_status s \<and> so_sagaTargetStatus s1 = so_sagaTargetStatus s \<and> so_items s1 = so_items s"
    using d by (cases s; cases s1) (simp add: abs_order_def)
  have a: "abs_order s2 = (abs_order s)\<lparr>v_customerID := so_customerID s1, v_vehicleID := so_vehicleID s1,
      v_description := so_description s1, v_items := abs_items (so_items s2),
      v_line_ids := set (line_ids (active (so_items s2)))\<rparr>"
    using s1 l(1) [OF lo] by simp
  have items: "case ui_Items input of
        None \<Rightarrow> abs_items (so_items s2) = abs_items (so_items s) \<and>
          set (line_ids (active (so_items s2))) = set (line_ids (active (so_items s)))
      | Some inps \<Rightarrow> so_status s \<in> {StatusReceived, StatusDiagnosing} \<and> lines_match (abs_items (so_items s2)) inps"
    using assms(2) s1 by (auto simp: relined_def CanModifyItems_def split: option.splits)
  show "updated D input (abs_order s) (abs_order s2)"
    unfolding updated_def a using conjunct1 [OF d] d assms(3) items by (auto cong: option.case_cong)
  show "so_id s2 = so_id s" using l(2) [OF lo] s1 by simp
  show "line_ids (so_items s2) = line_ids (so_items s)" using lo s1 by (simp add: lines_of_def)
  show "ui_Items input = None \<Longrightarrow> so_items s2 = so_items s" using assms(2) s1 by (simp add: relined_def)
  assume "storable s"
  then have "storable s1" using s1 by (simp add: storable_def)
  then show "storable s2" using assms(2) lines_of_storable [OF lo] by (auto simp: relined_def split: option.splits)
qed

text \<open>The part of \<^verbatim>\<open>UpdateServiceOrder\<close> between the read and the save of the history.\<close>

definition update_order ::
  "'db deps \<Rightarrow> UpdateServiceOrderInput \<Rightarrow> ServiceOrder \<Rightarrow> ('db, bool \<times> ServiceOrder) io" where
  "update_order D input order =
     bindE (validateAndUpdateCustomerVehicle D order input) (\<lambda>order. updateItems D order (ui_Items input))"

lemma silent_update_order:
  assumes "loaded s"
  shows "silent (update_order D input s) (\<lambda>(m, s'). updated D input (abs_order s) (abs_order s') \<and>
    so_id s' = so_id s \<and> storable s' \<and> line_ids (so_items s') = line_ids (so_items s) \<and>
    (ui_Items input = None \<longrightarrow> so_items s' = so_items s))"
  unfolding update_order_def
proof (rule silent_bindE [OF silent_validate])
  fix s1 assume s1: "detailed input s s1 \<and> owned D (so_vehicleID s1) (so_customerID s1)"
  have "storable s" using assms by (simp add: loaded_def)
  then show "silent (updateItems D s1 (ui_Items input)) (\<lambda>(m, s').
      updated D input (abs_order s) (abs_order s') \<and> so_id s' = so_id s \<and> storable s' \<and>
      line_ids (so_items s') = line_ids (so_items s) \<and>
      (ui_Items input = None \<longrightarrow> so_items s' = so_items s))"
    using updated_abs [OF conjunct1 [OF s1] _ conjunct2 [OF s1]]
    by (intro silent_weaken [OF silent_updateItems]) auto
qed (use assms in \<open>auto simp: loaded_def\<close>)

context service_env
begin

lemma saveOrder_eq: "saveOrder D s m = Save D s"
  by (simp add: saveOrder_def SaveWithItems_eq)

lemma UpdateServiceOrder_alt:
  "UpdateServiceOrder D input =
     bindE (FindByID D (ui_ID input)) (\<lambda>order.
     if IsDeleted order then throwE ErrServiceOrderDeleted
     else bindE (update_order D input order) (\<lambda>(m, s1).
          bindE (update_saveHistory D s1 (CaptureOrderState order) m) (\<lambda>s2.
          bindE (Save D s2) (\<lambda>s3. returnE (buildOutput s3)))))"
  unfolding UpdateServiceOrder_def update_order_def bindE_assoc Let_def saveOrder_eq by (rule refl)

lemma Update_run:
  assumes run: "UpdateServiceOrder D input w = (Inr out, w')"
  shows "\<exists>j v v' h. canon (ui_ID input) = Some j \<and> view (w_db w) j = Some v \<and> uo_ID out = j \<and>
    updated D input v v' \<and> view (w_db w') = (view (w_db w))(j \<mapsto> persist canon v') \<and>
    w_log w' = w_log w @ [HistorySaved h] \<and> h_serviceOrderID h = j \<and> h_status h = v_status v"
proof -
  from run obtain s m s1 s2 s3 w1 w2 w3 where find: "FindByID D (ui_ID input) w = (Inr s, w1)" and
    up: "update_order D input s w1 = (Inr (m, s1), w2)" and
    hs: "update_saveHistory D s1 (CaptureOrderState s) m w2 = (Inr s2, w3)" and
    sv: "Save D s2 w3 = (Inr s3, w')" and out: "out = buildOutput s3"
    unfolding UpdateServiceOrder_alt by (auto simp: bindE_Inr_iff split: if_splits)
  note f = FindByID_run [OF find]
  have l: "loaded s" using f(4) by simp
  have u: "quiet w1 w2" "updated D input (abs_order s) (abs_order s1)" "so_id s1 = so_id s" "storable s1"
    "line_ids (so_items s1) = line_ids (so_items s)" "ui_Items input = None \<Longrightarrow> so_items s1 = so_items s"
    using silentD [OF silent_update_order [OF l] up] by auto
  note h = update_saveHistory_run [OF hs]
  from h(2) [of s2] obtain hh where
    s2: "abs_order s2 = abs_order s1" "so_id s2 = so_id s" "storable s2" and
    it: "active (so_items s2) = active (so_items s1)" "line_ids (so_items s2) = line_ids (so_items s)" and
    lg: "w_log w3 = w_log w2 @ [HistorySaved hh]" "h_serviceOrderID hh = so_id s1" "h_status hh = so_status s1"
    using u by auto
  have c: "canon (so_id s2) = Some (so_id s2)" using s2(2) f(6) by (simp add: held_def)
  have v: "view (w_db w3) = view (w_db w)" using f(1) u(1) h(1) by (simp add: quiet_def)
  have own: "owns_lines s2 (view (w_db w3) (so_id s2))"
    by (rule owns_lines_mono [OF loaded_owns_lines [OF l] it(2)]) (use v s2(2) f(5) in simp)
  note x = Save_run [OF sv c s2(3) own]
  have up': "updated D input (abs_order s) (abs_order s3)"
  proof (cases "ui_Items input")
    case None
    with u(6) it(1) l have "'''' \<notin> item_id ` set (active (so_items s2))" by (auto simp: loaded_def)
    with x(4) s2(1) u(2) show ?thesis by (simp add: numbered_def)
  next
    case (Some asked)
    from numbered_view [OF x(4)] obtain ids where "abs_order s3 = (abs_order s1)\<lparr>v_line_ids := ids\<rparr>"
      using s2(1) by metis
    with u(2) Some show ?thesis by (cases "abs_order s"; cases "abs_order s1") (auto simp: updated_def)
  qed
  have "so_status s1 = so_status s" using updated_sel(1) [OF u(2)] by simp
  with f(2,3,5) u h(1) s2 lg x out up' v show ?thesis
    by (intro exI [of _ "so_id s"] exI [of _ "abs_order s"] exI [of _ "abs_order s3"] exI [of _ hh])
      (simp add: quiet_def buildOutput_def)
qed

lemma Update_failed:
  assumes run: "UpdateServiceOrder D input w = (Inl e, w')"
  shows "view (w_db w') = view (w_db w)"
proof -
  obtain r w1 where find: "FindByID D (ui_ID input) w = (r, w1)" by fastforce
  note f = FindByID_run [OF find]
  show ?thesis
  proof (cases "(\<exists>e. r = Inl e) \<or> (\<exists>s. r = Inr s \<and> IsDeleted s)")
    case True
    with run find f(1) show ?thesis by (auto simp: UpdateServiceOrder_alt bindE_def)
  next
    case False
    then obtain s where s: "r = Inr s" "\<not> IsDeleted s" by (cases r) auto
    have l: "loaded s" using f(4) s(1) by simp
    obtain r2 w2 where up: "update_order D input s w1 = (r2, w2)" by fastforce
    have q: "quiet w1 w2" using silentD [OF silent_update_order [OF l] up] by simp
    show ?thesis
    proof (cases r2)
      case (Inl e')
      with run find s up q f(1) show ?thesis by (auto simp: UpdateServiceOrder_alt bindE_def quiet_def)
    next
      case (Inr ms)
      obtain m s1 where ms: "ms = (m, s1)" by fastforce
      obtain r3 w3 where hs: "update_saveHistory D s1 (CaptureOrderState s) m w2 = (r3, w3)" by fastforce
      have db: "w_db w3 = w_db w2" by (rule update_saveHistory_run(1) [OF hs])
      have eq: "(case r3 of Inl e \<Rightarrow> (Inl e, w3)
          | Inr s2 \<Rightarrow> bindE (Save D s2) (\<lambda>s3. returnE (buildOutput s3)) w3) = (Inl e, w')"
        using run find s up Inr ms hs by (simp add: UpdateServiceOrder_alt bindE_def split: sum.splits)
      show ?thesis
      proof (cases r3)
        case (Inl e')
        with eq db q f(1) show ?thesis by (simp add: quiet_def)
      next
        case x: (Inr s2)
        from eq x have "Save D s2 w3 = (Inl e, w')" by (auto simp: bindE_Inl_iff)
        from Save_failed(1) [OF this] db q f(1) show ?thesis by (simp add: quiet_def)
      qed
    qed
  qed
qed

lemma updated_steps:
  assumes u: "updated D input v v'" and fixed: "persist canon v = v"
  shows "order_steps v (persist canon v')"
proof -
  let ?p = "persist canon v'"
  let ?v1 = "v\<lparr>v_customerID := v_customerID ?p, v_vehicleID := v_vehicleID ?p, v_description := v_description ?p\<rparr>"
  have ids: "v_customerID ?p \<noteq> ''''" "v_vehicleID ?p \<noteq> ''''"
    using u by (auto simp: updated_def persist_def canonical_nonempty)
  then have s1: "order_step v ?v1" by (rule order_step.edit_details)
  have p: "?p = ?v1\<lparr>v_items := v_items ?p, v_line_ids := v_line_ids ?p\<rparr>"
    using u fixed by (cases v; cases v') (auto simp: updated_def persist_def)
  show ?thesis
  proof (cases "ui_Items input")
    case None
    with u have "v_items v' = v_items v" and l: "v_line_ids ?p = v_line_ids v"
      by (simp_all add: updated_def persist_def)
    moreover have "v_items ?p = v_items (persist canon (v\<lparr>v_items := v_items v'\<rparr>))"
      by (simp add: persist_def)
    ultimately have i: "v_items ?p = v_items v" using fixed by simp
    have "?v1\<lparr>v_items := v_items v, v_line_ids := v_line_ids v\<rparr> = ?v1" by (cases v) simp
    with p i l have "?p = ?v1" by simp
    with s1 show ?thesis by (simp add: order_steps_into)
  next
    case (Some asked)
    with u have st: "v_status v \<in> {StatusReceived, StatusDiagnosing}" and
      m: "lines_match (v_items v') asked" by (auto simp: updated_def)
    have "\<forall>i \<in># v_items ?p. item_view_wf i"
      by (rule persist_items_wf) (use m in \<open>simp add: lines_match_def\<close>)
    then have "order_step ?v1 (?v1\<lparr>v_items := v_items ?p, v_line_ids := v_line_ids ?p\<rparr>)"
      using st by (intro order_step.edit_items) simp_all
    with s1 p show ?thesis by (metis converse_rtranclp_into_rtranclp r_into_rtranclp)
  qed
qed

lemma advances_UpdateServiceOrder: "advances view P (UpdateServiceOrder D input)"
  unfolding advances_def
proof (intro allI impI)
  fix w r w' assume run: "UpdateServiceOrder D input w = (r, w')"
  show "evolves (view (w_db w)) (view (w_db w'))"
  proof (cases r)
    case (Inl e)
    with run Update_failed show ?thesis by simp
  next
    case (Inr out)
    with run Update_run obtain j v v' where v: "view (w_db w) j = Some v" "updated D input v v'"
      and w': "view (w_db w') = (view (w_db w))(j \<mapsto> persist canon v')" by blast
    have "order_steps v (persist canon v')"
      by (rule updated_steps [OF v(2)]) (use stored_canonical [OF v(1)] in simp)
    with v(1) show ?thesis unfolding w' by (rule evolves_update)
  qed
qed

end

end
