(* ===== verification/Usecases_Edit_Properties.thy ===== *)
theory Usecases_Edit_Properties
  imports Usecases_Edit_Correct Saga_Properties
begin

text \<open>
  The properties of creation and update, each with a run on a concrete world beside it.
\<close>

text \<open>
  Claim C18. Creating an order adds exactly one order, under an identifier that was not in use: received,
  idle, without payment data, for the customer and the vehicle of the input, of which the vehicle's keeper
  said that it is the customer's, with the customer's e-mail and name as they were answered; its lines are
  well formed, one for each product or service, with the exact sum of the quantities asked for. No other
  order changes and the creation is not recorded in the history. A creation that fails changes nothing.
\<close>

theorem Create_correct:
  assumes "service_env D canon view" and "CreateServiceOrder D input w = (r, w')"
  shows "w_log w' = w_log w \<and>
    (\<forall>e. r = Inl e \<longrightarrow> view (w_db w') = view (w_db w)) \<and>
    (\<forall>out. r = Inr out \<longrightarrow>
      (\<exists>s ids. new_order D input s \<and> canon (co_ID out) = Some (co_ID out) \<and>
         view (w_db w) (co_ID out) = None \<and>
         view (w_db w') = (view (w_db w))(co_ID out \<mapsto> persist canon ((abs_order s)\<lparr>v_line_ids := ids\<rparr>))))"
proof (cases r)
  case (Inl e)
  with service_env.Create_failed [OF assms(1)] assms(2) show ?thesis by simp
next
  case (Inr out)
  with service_env.Create_run [OF assms(1)] assms(2) show ?thesis by blast
qed

definition sample_items :: "ItemInput list" where
  "sample_items = [\<lparr>ii_ItemType = ''PRODUCT'', ii_ReferenceID = ''p'', ii_Quantity = 3\<rparr>]"

definition sample_creation :: CreateServiceOrderInput where
  "sample_creation = \<lparr>ci_CustomerID = ''c'', ci_VehicleID = ''v'', ci_Description = ''noise'',
     ci_Items = sample_items\<rparr>"

theorem Create_correct_witness:
  "\<exists>out w' v. CreateServiceOrder (mem_deps ''approved'') sample_creation (idle_world StatusReceived) = (Inr out, w') \<and>
     mem_view (w_db w') (co_ID out) = Some v \<and> v_status v = StatusReceived"
proof -
  have "succeeds (CreateServiceOrder (mem_deps ''approved'') sample_creation (idle_world StatusReceived))"
    by code_simp
  then obtain out w' where run: "CreateServiceOrder (mem_deps ''approved'') sample_creation
      (idle_world StatusReceived) = (Inr out, w')" by (rule succeedsE)
  from Create_correct [OF mem_env run] run show ?thesis
    by (auto simp: new_order_def fresh_view_def)
qed

text \<open>
  Claim C19. An update replaces exactly the details and, while the order is received or in diagnosis, the
  lines that the input gives: afterwards the order has the given customer, vehicle and description, the
  vehicle being the customer's by its keeper's word, and lines that are well formed, one for each product
  or service, with the exact quantities asked for; what is not given stays. Status, saga and payment are
  never touched - the status in the input has no effect -, no other order changes, and one record of the
  order's status is added to the history. An update that fails changes no order.
\<close>

theorem Update_correct:
  assumes "service_env D canon view" and "UpdateServiceOrder D input w = (r, w')"
  shows "(\<forall>e. r = Inl e \<longrightarrow> view (w_db w') = view (w_db w)) \<and>
    (\<forall>out. r = Inr out \<longrightarrow>
      (\<exists>j v v' h. canon (ui_ID input) = Some j \<and> view (w_db w) j = Some v \<and> uo_ID out = j \<and>
         updated D input v v' \<and> view (w_db w') = (view (w_db w))(j \<mapsto> persist canon v') \<and>
         w_log w' = w_log w @ [HistorySaved h] \<and> h_serviceOrderID h = j \<and> h_status h = v_status v))"
proof (cases r)
  case (Inl e)
  with service_env.Update_failed [OF assms(1)] assms(2) show ?thesis by simp
next
  case (Inr out)
  with service_env.Update_run [OF assms(1)] assms(2) show ?thesis by simp
qed

definition sample_update :: UpdateServiceOrderInput where
  "sample_update = \<lparr>ui_ID = ''os'', ui_CustomerID = None, ui_VehicleID = None,
     ui_Description = Some ''noise'', ui_Status = Some ''PAID'', ui_Items = Some []\<rparr>"

theorem Update_correct_witness:
  "\<exists>out w' v. UpdateServiceOrder (mem_deps ''approved'') sample_update (idle_world StatusDiagnosing) = (Inr out, w') \<and>
     mem_view (w_db w') ''os'' = Some v \<and> v_status v = StatusDiagnosing \<and> v_description v = ''noise''"
proof -
  have "succeeds (UpdateServiceOrder (mem_deps ''approved'') sample_update (idle_world StatusDiagnosing))"
    by code_simp
  then obtain out w' where run: "UpdateServiceOrder (mem_deps ''approved'') sample_update
      (idle_world StatusDiagnosing) = (Inr out, w')" by (rule succeedsE)
  from Update_correct [OF mem_env run] idle_world_view [of StatusDiagnosing] obtain v' where
    u: "updated (mem_deps ''approved'') sample_update (abs_order (sample_order StatusDiagnosing SagaStatusIdle None None)) v'"
    and "mem_view (w_db w') ''os'' = Some (persist mem_canon v')"
    by (auto simp: mem_canon_def sample_update_def)
  moreover have "v_status v' = StatusDiagnosing" "v_description v' = ''noise''"
    using updated_sel(1) [OF u] u by (simp_all add: updated_def sample_update_def given_def sample_order_def)
  ultimately show ?thesis using run by (auto simp: persist_def)
qed

text \<open>
  The stock that was reserved need not be the stock of the order: nothing keeps an update from
  replacing the lines while a reservation is in flight, and the answer to the reservation then moves the
  order with its new lines to where the customer is asked to authorize them, although the only request
  ever sent was for the old lines.
\<close>

theorem Update_during_reservation:
  assumes "service_env D canon view" and "wf_store (view (w_db w))"
    and "StartSaga D i StockOpReserve StatusPendingAuthorization remarks w = (Inr r, w1)" and "sr_Async r"
    and "UpdateServiceOrder D input w1 = (Inr out, w2)" and "ui_ID input = i" and "ui_Items input = Some asked"
    and "HandleSucceeded D ev w2 = (Inr u, w3)" and "es_OrderID ev = i" and "es_SagaID ev = sr_SagaID r"
  shows "\<exists>j v v' items new. canon i = Some j \<and> view (w_db w) j = Some v \<and> view (w_db w3) j = Some v' \<and>
    requests (w_log w3) = requests (w_log w) @ [(sr_SagaID r, j, StockOpReserve, items)] \<and>
    mset items = image_mset stock_item (product_lines v) \<and>
    v_status v' = StatusPendingAuthorization \<and> lines_match new asked \<and>
    v_items v' = image_mset (\<lambda>i. i\<lparr>iv_referenceID := canonical canon (iv_referenceID i)\<rparr>) new"
proof -
  have t: "saga_target StatusPendingAuthorization" by (simp add: saga_target_def)
  from service_env.StartSaga_run [OF assms(1,3) t] assms(4) obtain j v items where
    j: "canon i = Some j" "view (w_db w) j = Some v" and
    w1: "view (w_db w1) = (view (w_db w))(j \<mapsto> v_set_saga SagaStatusAwaitingInventory
        (Some (sr_SagaID r)) (Some StatusPendingAuthorization) remarks v)" and
    it: "mset items = image_mset stock_item (product_lines v)"
      "requests (w_log w1) = requests (w_log w) @ [(sr_SagaID r, j, StockOpReserve, items)]"
    by (auto split: if_splits)
  let ?v1 = "v_set_saga SagaStatusAwaitingInventory (Some (sr_SagaID r)) (Some StatusPendingAuthorization) remarks v"
  from service_env.Update_run [OF assms(1,5)] assms(6) j w1 obtain v2 h where
    u: "updated D input ?v1 v2" and w2: "view (w_db w2) = (view (w_db w1))(j \<mapsto> persist canon v2)"
    and lg: "w_log w2 = w_log w1 @ [HistorySaved h]" by auto
  have v2: "v_sagaStatus v2 = SagaStatusAwaitingInventory" "v_currentSagaID v2 = Some (sr_SagaID r)"
    "v_sagaTargetStatus v2 = Some StatusPendingAuthorization"
    using updated_sel(2-4) [OF u] by simp_all
  have m: "lines_match (v_items v2) asked" using u assms(7) by (simp add: updated_def)
  have "evolves (view (w_db w)) (view (w_db w1))"
    using service_env.advances_StartSaga [OF assms(1) t] assms(3) unfolding advances_def by blast
  moreover have "evolves (view (w_db w1)) (view (w_db w2))"
    using service_env.advances_UpdateServiceOrder [OF assms(1)] assms(5) unfolding advances_def by blast
  ultimately have wf: "wf_store (view (w_db w2))" using assms(2) evolves_wf by blast
  have st: "view (w_db w2) j = Some (persist canon v2)" using w2 by simp
  have fixed: "v_currentSagaID (persist canon v2) = Some (sr_SagaID r)"
  proof -
    have "canon (sr_SagaID r) = Some (sr_SagaID r)"
    proof -
      have "persist canon ?v1 = ?v1"
        using order_repository.stored_canonical [OF service_env.axioms(1) [OF assms(1)], of "w_db w1" j] w1 by simp
      then show ?thesis unfolding persist_fixed_iff by simp
    qed
    then show ?thesis using v2(2) by (simp add: persist_def)
  qed
  have cur: "current_saga (es_SagaID ev) (persist canon v2)"
    using fixed v2(1) assms(10) by (simp add: current_saga_def persist_def)
  from service_env.HandleSucceeded_run [OF assms(1,8) wf] assms(9) j st cur v2(3) have
    "view (w_db w3) = (view (w_db w2))(j \<mapsto> settled StatusPendingAuthorization (persist canon v2))"
    "requests (w_log w3) = requests (w_log w2)" by auto
  with j it lg m show ?thesis
    by (intro exI [of _ j] exI [of _ v] exI [of _ "settled StatusPendingAuthorization (persist canon v2)"]
        exI [of _ items] exI [of _ "v_items v2"]) (simp add: persist_def settled_def)
qed

definition reserving_world :: "mem_db world" where
  "reserving_world = snd (StartSaga (mem_deps ''approved'') ''os'' StockOpReserve StatusPendingAuthorization
     None (idle_world StatusDiagnosing))"

definition edited_world :: "mem_db world" where
  "edited_world = snd (UpdateServiceOrder (mem_deps ''approved'') sample_update reserving_world)"

theorem Update_during_reservation_witness:
  "\<exists>u w3 v'. HandleSucceeded (mem_deps ''approved'') (success_event ''u'') edited_world = (Inr u, w3) \<and>
     mem_view (w_db w3) ''os'' = Some v' \<and> v_status v' = StatusPendingAuthorization \<and>
     (\<exists>items. requests (w_log w3) = [(''u'', ''os'', StockOpReserve, items)])"
proof -
  have "case StartSaga (mem_deps ''approved'') ''os'' StockOpReserve StatusPendingAuthorization None
      (idle_world StatusDiagnosing) of (Inr r, _) \<Rightarrow> sr_Async r \<and> sr_SagaID r = ''u'' | _ \<Rightarrow> False" by code_simp
  then obtain r where start: "StartSaga (mem_deps ''approved'') ''os'' StockOpReserve StatusPendingAuthorization
      None (idle_world StatusDiagnosing) = (Inr r, reserving_world)" and r: "sr_Async r" "sr_SagaID r = ''u''"
    by (auto simp: reserving_world_def split: prod.splits sum.splits)
  have "succeeds (UpdateServiceOrder (mem_deps ''approved'') sample_update reserving_world)" by code_simp
  then obtain out where edit: "UpdateServiceOrder (mem_deps ''approved'') sample_update reserving_world =
      (Inr out, edited_world)" by (auto simp: edited_world_def elim: succeedsE)
  have "succeeds (HandleSucceeded (mem_deps ''approved'') (success_event ''u'') edited_world)" by code_simp
  then obtain u w3 where fin: "HandleSucceeded (mem_deps ''approved'') (success_event ''u'') edited_world =
      (Inr u, w3)" by (rule succeedsE)
  from Update_during_reservation [OF mem_env _ start r(1) edit _ _ fin, of "[]"] idle_world_wf r(2) fin
  show ?thesis by (auto simp: sample_update_def success_event_def mem_canon_def)
qed

end
