(* ===== verification/Usecases_Read.thy ===== *)
theory Usecases_Read
  imports Usecases_Edit
begin

text \<open>
  The use cases that only read: \<^verbatim>\<open>get_service_order.go\<close>, \<^verbatim>\<open>get_all_service_orders.go\<close> and
  \<^verbatim>\<open>get_service_order_history.go\<close>. \<^verbatim>\<open>sort.Slice\<close> leaves the order of lines created at the same moment
  open; it is modelled by a stable sort.
\<close>

subsection \<open>One order\<close>

record ServiceOrderItemOutput = ItemOutput +
  io_Description :: string

record CustomerOutput =
  cuo_ID :: string
  cuo_Name :: string
  cuo_Email :: string
  cuo_Phone :: string

record VehicleOutput =
  vo_ID :: string
  vo_CustomerID :: string
  vo_LicensePlate :: string
  vo_Brand :: string
  vo_Model :: string
  vo_ModelYear :: goint
  vo_ManufactureYear :: goint

record GetServiceOrderOutput =
  go_ID :: string
  go_CustomerID :: string
  go_VehicleID :: string
  go_Description :: string
  go_Customer :: "CustomerOutput option"
  go_Vehicle :: "VehicleOutput option"
  go_Status :: string
  go_SagaStatus :: string
  go_Items :: "ServiceOrderItemOutput list"
  go_TotalAmount :: goint
  go_ClosedAt :: "time option"
  go_CreatedAt :: time
  go_UpdatedAt :: time

definition read_item :: "ServiceOrderItem \<Rightarrow> ServiceOrderItemOutput" where
  "read_item item =
     \<lparr>io_ID = item_id item, io_ItemType = itemType_string (item_itemType item),
      io_ReferenceID = item_referenceID item, io_Name = item_name item,
      io_Quantity = item_quantity item, io_UnitPrice = item_unitPrice item,
      io_Subtotal = Subtotal item, io_CreatedAt = item_createdAt item, io_Description = ''''\<rparr>"

definition customer_output :: "CustomerDTO \<Rightarrow> CustomerOutput" where
  "customer_output c =
     \<lparr>cuo_ID = cust_ID c, cuo_Name = cust_Name c, cuo_Email = cust_Email c, cuo_Phone = cust_Phone c\<rparr>"

definition vehicle_output :: "VehicleDTO \<Rightarrow> VehicleOutput" where
  "vehicle_output v =
     \<lparr>vo_ID = veh_ID v, vo_CustomerID = veh_CustomerID v, vo_LicensePlate = veh_LicensePlate v,
      vo_Brand = veh_Brand v, vo_Model = veh_Model v, vo_ModelYear = veh_ModelYear v,
      vo_ManufactureYear = veh_ManufactureYear v\<rparr>"

text \<open>The result of a call whose failure leaves a nil pointer.\<close>

definition ok_or_nil :: "('a \<Rightarrow> 'b) \<Rightarrow> error + 'a \<Rightarrow> 'b option" where
  "ok_or_nil f r = (case r of Inl _ \<Rightarrow> None | Inr x \<Rightarrow> Some (f x))"

definition GetServiceOrder :: "'db deps \<Rightarrow> string \<Rightarrow> ('db, GetServiceOrderOutput) io" where
  "GetServiceOrder D i =
     bindE (FindByIDWithItems D i) (\<lambda>order.
     if IsDeleted order then throwE ErrServiceOrderDeleted
     else
       let sortedItems = sort_key item_createdAt (so_items order);
           itemOutputs = map read_item (filter (\<lambda>item. \<not> item_IsDeleted item) sortedItems);
           totalAmount = TotalAmount order in
       bindE (attemptE (GetCustomerByID D (so_customerID order))) (\<lambda>customer.
       bindE (attemptE (GetVehicleByID D (so_vehicleID order))) (\<lambda>vehicle.
       returnE \<lparr>go_ID = so_id order, go_CustomerID = so_customerID order,
                go_VehicleID = so_vehicleID order, go_Description = so_description order,
                go_Customer = ok_or_nil customer_output customer,
                go_Vehicle = ok_or_nil vehicle_output vehicle,
                go_Status = status_String (so_status order), go_SagaStatus = so_sagaStatus order,
                go_Items = itemOutputs, go_TotalAmount = totalAmount, go_ClosedAt = so_closedAt order,
                go_CreatedAt = so_createdAt order, go_UpdatedAt = so_updatedAt order\<rparr>)))"

subsection \<open>All orders\<close>

record GetAllServiceOrdersInput =
  gi_CustomerID :: "string option"
  gi_Status :: "string option"
  gi_SortByStatus :: bool
  gi_HideCompleted :: bool

text \<open>A \<^verbatim>\<open>ServiceOrderSummary\<close> has the fields of a \<^verbatim>\<open>GetServiceOrderOutput\<close>.\<close>

type_synonym ServiceOrderSummary = GetServiceOrderOutput

definition summary_of :: "'db deps \<Rightarrow> ServiceOrder \<Rightarrow> ('db, ServiceOrderSummary) io" where
  "summary_of D order =
     (let items = map read_item (filter (\<lambda>item. \<not> item_IsDeleted item) (so_items order)) in
      bindE (attemptE (GetCustomerByID D (so_customerID order))) (\<lambda>customer.
      bindE (attemptE (GetVehicleByID D (so_vehicleID order))) (\<lambda>vehicle.
      returnE \<lparr>go_ID = so_id order, go_CustomerID = so_customerID order,
               go_VehicleID = so_vehicleID order, go_Description = so_description order,
               go_Customer = ok_or_nil customer_output customer,
               go_Vehicle = ok_or_nil vehicle_output vehicle,
               go_Status = status_String (so_status order), go_SagaStatus = so_sagaStatus order,
               go_Items = items, go_TotalAmount = TotalAmount order, go_ClosedAt = so_closedAt order,
               go_CreatedAt = so_createdAt order, go_UpdatedAt = so_updatedAt order\<rparr>)))"

definition GetAllServiceOrders ::
  "'db deps \<Rightarrow> GetAllServiceOrdersInput \<Rightarrow> ('db, ServiceOrderSummary list) io" where
  "GetAllServiceOrders D input =
     bindE (case gi_Status input of
              None \<Rightarrow> returnE None
            | Some st \<Rightarrow> if st \<noteq> '''' then bindE (liftE (NewOrderStatus st)) (\<lambda>s. returnE (Some s))
                         else returnE None) (\<lambda>status.
     bindE (FindAllWithFilters D \<lparr>f_CustomerID = gi_CustomerID input, f_Status = status,
              f_SortByStatus = gi_SortByStatus input, f_HideCompleted = gi_HideCompleted input\<rparr>) (\<lambda>orders.
     mapE (summary_of D) (filter (\<lambda>order. \<not> IsDeleted order) orders)))"

subsection \<open>The history of an order\<close>

record HistoryOutput =
  ho_ID :: string
  ho_ServiceOrderID :: string
  ho_Metadata :: metadata
  ho_Status :: string
  ho_CreatedAt :: time

definition history_output :: "History \<Rightarrow> HistoryOutput" where
  "history_output h =
     \<lparr>ho_ID = h_id h, ho_ServiceOrderID = h_serviceOrderID h, ho_Metadata = h_metadata h,
      ho_Status = status_String (h_status h), ho_CreatedAt = h_createdAt h\<rparr>"

definition GetServiceOrderHistory :: "'db deps \<Rightarrow> string \<Rightarrow> ('db, HistoryOutput list) io" where
  "GetServiceOrderHistory D serviceOrderID =
     (if serviceOrderID = '''' then throwE ErrInvalidServiceOrderID
      else bindE (history_FindByServiceOrderID D serviceOrderID) (\<lambda>histories.
           returnE (map history_output histories)))"

end
