(* ===== verification/Usecases_Read_Properties.thy ===== *)
theory Usecases_Read_Properties
  imports Usecases_Read Billing_Properties
begin

text \<open>
  The use cases of \<open>Usecases_Read\<close> change nothing and show what is stored.
\<close>

subsection \<open>Silence\<close>

lemma attempt_lookups_run:
  "attemptE (GetCustomerByID D i) w = (r, w') \<Longrightarrow> quiet w w' \<and> (\<exists>x. r = Inr x)"
  "attemptE (GetVehicleByID D i) w = (q, w') \<Longrightarrow> quiet w w' \<and> (\<exists>x. q = Inr x)"
  by (auto simp: attemptE_def split: prod.splits dest: GetCustomerByID_run lookups_run(1))

lemma lookups_bind:
  assumes "bindE (attemptE (GetCustomerByID D a)) (\<lambda>c. bindE (attemptE (GetVehicleByID D b))
    (\<lambda>v. returnE (f c v))) w = (r, w')"
  shows "quiet w w' \<and> (\<exists>c v. r = Inr (f c v))"
proof -
  obtain c w1 where c: "attemptE (GetCustomerByID D a) w = (Inr c, w1)" and "quiet w w1"
    using attempt_lookups_run(1) by (metis surj_pair)
  obtain v w2 where v: "attemptE (GetVehicleByID D b) w1 = (Inr v, w2)" and "quiet w1 w2"
    using attempt_lookups_run(2) by (metis surj_pair)
  from assms c v have "r = Inr (f c v)" "w' = w2" by (simp_all add: bindE_def)
  with \<open>quiet w w1\<close> \<open>quiet w1 w2\<close> show ?thesis using quiet_trans by blast
qed

lemma summary_of_run:
  "summary_of D s w = (r, w') \<Longrightarrow>
   quiet w w' \<and> (\<exists>out. r = Inr out \<and> go_ID out = so_id s \<and> go_Status out = status_String (so_status s) \<and>
     go_Items out = map read_item (active (so_items s)) \<and> go_TotalAmount out = TotalAmount s)"
  unfolding summary_of_def Let_def by (drule lookups_bind) (auto simp: active_def)

lemma summaries_run:
  "mapE (summary_of D) ss w = (r, w') \<Longrightarrow>
   quiet w w' \<and> (\<exists>outs. r = Inr outs \<and> list_all2 (\<lambda>s out. go_ID out = so_id s \<and>
     go_Status out = status_String (so_status s) \<and> go_Items out = map read_item (active (so_items s)) \<and>
     go_TotalAmount out = TotalAmount s) ss outs)"
proof (induction ss arbitrary: w r w')
  case Nil
  then show ?case by simp
next
  case (Cons s ss)
  obtain r1 w1 where s: "summary_of D s w = (r1, w1)" by fastforce
  obtain r2 w2 where ss: "mapE (summary_of D) ss w1 = (r2, w2)" by fastforce
  from Cons.prems s ss summary_of_run [OF s] Cons.IH [OF ss] show ?case
    by (auto simp: bindE_def intro: quiet_trans)
qed

lemma history_read_run:
  "GetServiceOrderHistory D i w = (r, w') \<Longrightarrow> quiet w w'"
  by (auto simp: GetServiceOrderHistory_def history_FindByServiceOrderID_def external_def bindE_def quiet_def
      split: if_splits sum.splits)

subsection \<open>The lines shown\<close>

definition shown_view :: "ServiceOrderItemOutput \<Rightarrow> item_view" where
  "shown_view o' = \<lparr>iv_itemType = ItemType_of (io_ItemType o'), iv_referenceID = io_ReferenceID o',
     iv_name = io_Name o', iv_quantity = io_Quantity o', iv_unitPrice = io_UnitPrice o'\<rparr>"

lemma shown_read_item: "itemType_IsValid (item_itemType i) \<Longrightarrow> shown_view (read_item i) = abs_item i"
  by (simp add: shown_view_def read_item_def abs_item_def ItemType_of_string)

lemma sorted_read: "sorted (map io_CreatedAt (map read_item (filter p (sort_key item_createdAt is))))"
proof -
  have "io_CreatedAt \<circ> read_item = item_createdAt" by (rule ext) (simp add: read_item_def)
  then show ?thesis by (simp add: sorted_filter)
qed

definition v_amount :: "item_view multiset \<Rightarrow> int" where
  "v_amount items = (\<Sum>i \<in># items. sint (iv_quantity i) * sint (iv_unitPrice i))"

lemma v_amount_abs: "v_amount (abs_items is) = amount is"
proof -
  have "v_amount (image_mset abs_item (mset xs)) =
      (\<Sum>i\<leftarrow>xs. sint (item_quantity i) * sint (item_unitPrice i))" for xs
    by (induction xs) (auto simp: v_amount_def abs_item_def)
  then show ?thesis by (simp add: abs_items_def amount_def)
qed

text \<open>
  Reading an order changes nothing and shows the order as it is stored: its status, all its lines
  and no other, the oldest first, and the sum of quantity times price over them; it succeeds whenever the
  order can be read, whether or not the customer and the vehicle can be looked up.
\<close>

theorem GetServiceOrder_correct:
  assumes "service_env D canon view" and "GetServiceOrder D i w = (r, w')"
  shows "view (w_db w') = view (w_db w) \<and> w_log w' = w_log w \<and>
    ((\<exists>s w1. FindByID D i w = (Inr s, w1)) \<longleftrightarrow> (\<exists>out. r = Inr out)) \<and>
    (\<forall>out. r = Inr out \<longrightarrow> (\<exists>v. canon i = Some (go_ID out) \<and> view (w_db w) (go_ID out) = Some v \<and>
       go_Status out = status_String (v_status v) \<and> mset (map shown_view (go_Items out)) = v_items v \<and>
       sorted (map io_CreatedAt (go_Items out)) \<and> go_TotalAmount out = word_of_int (v_amount (v_items v))))"
proof -
  have eq: "FindByIDWithItems D = FindByID D" by (rule service_env.FindByIDWithItems_eq [OF assms(1)])
  obtain r1 w1 where find: "FindByID D i w = (r1, w1)" by fastforce
  note f = service_env.FindByID_run [OF assms(1) find]
  show ?thesis
  proof (cases r1)
    case (Inl e)
    with assms(2) find f(1,2) show ?thesis by (auto simp: GetServiceOrder_def eq bindE_def)
  next
    case (Inr s)
    have l: "loaded s" using f(4) Inr by simp
    then have nd: "\<not> IsDeleted s" by (simp add: loaded_def storable_def IsDeleted_def)
    let ?items = "map read_item (filter (\<lambda>item. \<not> item_IsDeleted item) (sort_key item_createdAt (so_items s)))"
    from assms(2) find Inr nd have "bindE (attemptE (GetCustomerByID D (so_customerID s))) (\<lambda>customer.
       bindE (attemptE (GetVehicleByID D (so_vehicleID s))) (\<lambda>vehicle.
       returnE \<lparr>go_ID = so_id s, go_CustomerID = so_customerID s,
                go_VehicleID = so_vehicleID s, go_Description = so_description s,
                go_Customer = ok_or_nil customer_output customer,
                go_Vehicle = ok_or_nil vehicle_output vehicle,
                go_Status = status_String (so_status s), go_SagaStatus = so_sagaStatus s,
                go_Items = ?items, go_TotalAmount = TotalAmount s, go_ClosedAt = so_closedAt s,
                go_CreatedAt = so_createdAt s, go_UpdatedAt = so_updatedAt s\<rparr>)) w1 = (r, w')"
      by (simp add: GetServiceOrder_def eq bindE_eval_Inr)
    from lookups_bind [OF this] obtain out where out: "r = Inr out" and q: "quiet w1 w'"
      and o: "go_ID out = so_id s" "go_Status out = status_String (so_status s)" "go_Items out = ?items"
        "go_TotalAmount out = TotalAmount s"
      by auto
    have "mset (map shown_view ?items) = image_mset (\<lambda>i. shown_view (read_item i)) (mset (active (so_items s)))"
      by (simp add: active_def mset_filter [symmetric] del: mset_filter) (simp add: image_mset.compositionality comp_def)
    also have "\<dots> = abs_items (so_items s)"
      unfolding abs_items_def by (rule image_mset_cong)
        (use l in \<open>auto simp: loaded_def storable_def intro: shown_read_item\<close>)
    finally have m: "mset (map shown_view ?items) = abs_items (so_items s)" .
    have m': "mset (map shown_view (go_Items out)) = abs_items (so_items s)" using m o(3) by (simp del: mset_map)
    have t': "go_TotalAmount out = word_of_int (v_amount (abs_items (so_items s)))"
      by (simp add: o(4) TotalAmount_eq v_amount_abs)
    have s': "sorted (map io_CreatedAt (go_Items out))" by (simp only: o(3) sorted_read)
    show ?thesis using find Inr out q o(1,2) f(1-3,5) m' t' s'
      by (auto simp: quiet_def simp del: mset_map)
  qed
qed

theorem GetServiceOrder_correct_witness:
  "\<exists>out w'. GetServiceOrder (mem_deps ''approved'') ''os'' (idle_world StatusInProgress) = (Inr out, w') \<and>
     go_Status out = ''IN_PROGRESS'' \<and> w_log w' = []"
proof -
  have "succeeds (GetServiceOrder (mem_deps ''approved'') ''os'' (idle_world StatusInProgress))" by code_simp
  then obtain out w' where run: "GetServiceOrder (mem_deps ''approved'') ''os''
      (idle_world StatusInProgress) = (Inr out, w')" by (rule succeedsE)
  from GetServiceOrder_correct [OF mem_env run] idle_world_view [of StatusInProgress] run show ?thesis
    by (auto simp: mem_canon_def sample_order_def)
qed

end
