(* ===== verification/Consumers.thy ===== *)
theory Consumers
  imports Usecases_Status "HOL-Library.Monad_Syntax"
begin

text \<open>
  The consumers of \<^verbatim>\<open>internal/messaging/consumers\<close>: a message is decoded and checked, handled, and
  deleted from the queue when it has been handled. The text of a message is read by a parser of JSON,
  the argument \<open>J\<close>; what \<^verbatim>\<open>encoding/json\<close> makes of the parsed value is modelled, and so is the check of
  the time with \<^verbatim>\<open>time.Parse(time.RFC3339, _)\<close>. Tracing is left out.
\<close>

subsection \<open>Decoding into a struct of strings\<close>

datatype json =
    JNull
  | JBool bool
  | JNumber string
  | JString string
  | JArray "json list"
  | JObject "(string \<times> json) list"

type_synonym json_parser = "string \<Rightarrow> json option"

text \<open>
  The names of an object are matched without regard to case, by \<^verbatim>\<open>unicode.SimpleFold\<close>: beside the ASCII
  letters, U+017F folds to \<^verbatim>\<open>s\<close> and U+212A to \<^verbatim>\<open>k\<close>.
\<close>

fun fold_name :: "string \<Rightarrow> string" where
  "fold_name [] = []"
| "fold_name (c # cs) =
     (if 65 \<le> (of_char c :: nat) \<and> (of_char c :: nat) \<le> 90 then char_of ((of_char c :: nat) + 32) # fold_name cs
      else if c = CHR 0xC5 then
        (case cs of d # ds \<Rightarrow> if d = CHR 0xBF then CHR ''s'' # fold_name ds else c # fold_name cs
                  | [] \<Rightarrow> [c])
      else if c = CHR 0xE2 then
        (case cs of d # e # es \<Rightarrow> if d = CHR 0x84 \<and> e = CHR 0xAA then CHR ''k'' # fold_name es
                                  else c # fold_name cs
                  | _ \<Rightarrow> c # fold_name cs)
      else c # fold_name cs)"

text \<open>
  A field of type \<^verbatim>\<open>string\<close>: each occurrence of its name in turn, a string is stored, \<^verbatim>\<open>null\<close> changes
  nothing, anything else is an error; \<open>None\<close> when there was an error.
\<close>

fun string_field :: "string \<Rightarrow> string \<Rightarrow> (string \<times> json) list \<Rightarrow> string option" where
  "string_field name v [] = Some v"
| "string_field name v ((k, x) # members) =
     (if fold_name k = name then
        (case x of JString s \<Rightarrow> string_field name s members
                 | JNull \<Rightarrow> string_field name v members
                 | _ \<Rightarrow> None)
      else string_field name v members)"

fun object_fields :: "json \<Rightarrow> (string \<times> json) list option" where
  "object_fields (JObject members) = Some members"
| "object_fields JNull = Some []"
| "object_fields _ = None"

definition decode_strings :: "json_parser \<Rightarrow> string list \<Rightarrow> string \<Rightarrow> string list option" where
  "decode_strings J names body =
     Option.bind (Option.bind (J body) object_fields) (\<lambda>members.
       those (map (\<lambda>name. string_field name '''' members) names))"

subsection \<open>The time of an event\<close>

definition is_digit :: "char \<Rightarrow> bool" where
  "is_digit c \<longleftrightarrow> 48 \<le> (of_char c :: nat) \<and> (of_char c :: nat) \<le> 57"

definition digit_of :: "char \<Rightarrow> nat" where
  "digit_of c = of_char c - 48"

text \<open>\<^verbatim>\<open>getnum\<close> of package \<^verbatim>\<open>time\<close>: two digits, or one when \<open>fixed\<close> is off.\<close>

fun getnum :: "bool \<Rightarrow> string \<Rightarrow> (nat \<times> string) option" where
  "getnum fixed (a # b # cs) =
     (if \<not> is_digit a then None
      else if is_digit b then Some (10 * digit_of a + digit_of b, cs)
      else if fixed then None else Some (digit_of a, b # cs))"
| "getnum fixed [a] = (if is_digit a \<and> \<not> fixed then Some (digit_of a, []) else None)"
| "getnum fixed [] = None"

fun getyear :: "string \<Rightarrow> (nat \<times> string) option" where
  "getyear (a # b # c # d # cs) =
     (if is_digit a \<and> is_digit b \<and> is_digit c \<and> is_digit d
      then Some (1000 * digit_of a + 100 * digit_of b + 10 * digit_of c + digit_of d, cs) else None)"
| "getyear _ = None"

fun skip_char :: "char \<Rightarrow> string \<Rightarrow> string option" where
  "skip_char c (d # ds) = (if d = c then Some ds else None)"
| "skip_char c [] = None"

text \<open>A fraction of a second is accepted although the layout has none.\<close>

fun skip_fraction :: "string \<Rightarrow> string" where
  "skip_fraction (p # d # ds) =
     (if (p = CHR ''.'' \<or> p = CHR '','') \<and> is_digit d then dropWhile is_digit ds else p # d # ds)"
| "skip_fraction cs = cs"

fun zone_ok :: "string \<Rightarrow> bool" where
  "zone_ok (c # cs) =
     (if c = CHR ''Z'' then cs = []
      else (c = CHR ''+'' \<or> c = CHR ''-'') \<and>
        (case cs of
           [h1, h2, colon, m1, m2] \<Rightarrow>
             colon = CHR '':'' \<and> is_digit h1 \<and> is_digit h2 \<and> is_digit m1 \<and> is_digit m2 \<and>
             10 * digit_of h1 + digit_of h2 \<le> 24 \<and> 10 * digit_of m1 + digit_of m2 \<le> 60
         | _ \<Rightarrow> False))"
| "zone_ok [] = False"

definition leap_year :: "nat \<Rightarrow> bool" where
  "leap_year y \<longleftrightarrow> y mod 4 = 0 \<and> (y mod 100 \<noteq> 0 \<or> y mod 400 = 0)"

definition days_in :: "nat \<Rightarrow> nat \<Rightarrow> nat" where
  "days_in m y =
     (if m = 2 then (if leap_year y then 29 else 28)
      else if m \<in> {4, 6, 9, 11} then 30 else 31)"

definition time_Parse_RFC3339 :: "string \<Rightarrow> bool" where
  "time_Parse_RFC3339 s =
     (case (do { (y, s) \<leftarrow> getyear s; s \<leftarrow> skip_char (CHR ''-'') s;
                 (m, s) \<leftarrow> getnum True s; s \<leftarrow> skip_char (CHR ''-'') s;
                 (d, s) \<leftarrow> getnum True s; s \<leftarrow> skip_char (CHR ''T'') s;
                 (h, s) \<leftarrow> getnum False s; s \<leftarrow> skip_char (CHR '':'') s;
                 (mi, s) \<leftarrow> getnum True s; s \<leftarrow> skip_char (CHR '':'') s;
                 (sec, s) \<leftarrow> getnum True s;
                 Some (y, m, d, h, mi, sec, skip_fraction s) }) of
        None \<Rightarrow> False
      | Some (y, m, d, h, mi, sec, zone) \<Rightarrow>
          1 \<le> m \<and> m \<le> 12 \<and> 1 \<le> d \<and> d \<le> days_in m y \<and> h < 24 \<and> mi < 60 \<and> sec < 60 \<and> zone_ok zone)"

subsection \<open>Messages and events\<close>

record Message =
  msg_Body :: "string option"
  msg_ReceiptHandle :: "string option"

record CustomerDeleted =
  ed_Event :: string
  ed_CustomerID :: string
  ed_Email :: string
  ed_OccurredAt :: string

definition decodeSucceeded :: "json_parser \<Rightarrow> Message \<Rightarrow> error + OrderInventoryOperationSucceeded" where
  "decodeSucceeded J message =
     (case msg_Body message of
        None \<Rightarrow> Inl (ErrorString ''empty SQS message body'')
      | Some body \<Rightarrow>
          (case decode_strings J [''event'', ''saga_id'', ''order_id'', ''operation'', ''occurred_at''] body of
             Some [ev, sid, oid, op, stamp] \<Rightarrow>
               if ev \<noteq> ''OrderInventoryOperationSucceeded'' then Inl (ErrorString (''unexpected event '' @ ev))
               else if \<not> time_Parse_RFC3339 stamp then Inl (ErrorString (''invalid occurred_at: '' @ stamp))
               else Inr \<lparr>es_Event = ev, es_SagaID = sid, es_OrderID = oid, es_Operation = op,
                         es_OccurredAt = stamp\<rparr>
           | _ \<Rightarrow> Inl (ErrorString ''decode inventory success event'')))"

definition decodeFailed :: "json_parser \<Rightarrow> Message \<Rightarrow> error + OrderInventoryOperationFailed" where
  "decodeFailed J message =
     (case msg_Body message of
        None \<Rightarrow> Inl (ErrorString ''empty SQS message body'')
      | Some body \<Rightarrow>
          (case decode_strings J
                  [''event'', ''saga_id'', ''order_id'', ''operation'', ''reason'', ''occurred_at''] body of
             Some [ev, sid, oid, op, reason, stamp] \<Rightarrow>
               if ev \<noteq> ''OrderInventoryOperationFailed'' then Inl (ErrorString (''unexpected event '' @ ev))
               else if reason = '''' then Inl (ErrorString ''missing failure reason'')
               else if \<not> time_Parse_RFC3339 stamp then Inl (ErrorString (''invalid occurred_at: '' @ stamp))
               else Inr \<lparr>ef_Event = ev, ef_SagaID = sid, ef_OrderID = oid, ef_Operation = op,
                         ef_Reason = reason, ef_OccurredAt = stamp\<rparr>
           | _ \<Rightarrow> Inl (ErrorString ''decode inventory failure event'')))"

definition decodeCustomerDeleted :: "json_parser \<Rightarrow> Message \<Rightarrow> error + CustomerDeleted" where
  "decodeCustomerDeleted J message =
     (case msg_Body message of
        None \<Rightarrow> Inl (ErrorString ''empty SQS message body'')
      | Some body \<Rightarrow>
          (case decode_strings J [''event'', ''customer_id'', ''email'', ''occurred_at''] body of
             Some [ev, c, email, stamp] \<Rightarrow>
               if ev \<noteq> ''CustomerDeleted'' then Inl (ErrorString (''unexpected event '' @ ev))
               else if c = '''' then Inl (ErrorString ''missing customer_id'')
               else if \<not> time_Parse_RFC3339 stamp then Inl (ErrorString (''invalid occurred_at: '' @ stamp))
               else Inr \<lparr>ed_Event = ev, ed_CustomerID = c, ed_Email = email, ed_OccurredAt = stamp\<rparr>
           | _ \<Rightarrow> Inl (ErrorString ''decode customer deleted event'')))"

subsection \<open>Handling a message\<close>

definition deleteMessage :: "'db deps \<Rightarrow> Message \<Rightarrow> ('db, unit) io" where
  "deleteMessage D message =
     (case msg_ReceiptHandle message of
        None \<Rightarrow> throwE (ErrorString ''missing SQS receipt handle'')
      | Some receipt \<Rightarrow> DeleteMessage D receipt)"

definition HandleMessage_succeeded :: "json_parser \<Rightarrow> 'db deps \<Rightarrow> Message \<Rightarrow> ('db, unit) io" where
  "HandleMessage_succeeded J D message =
     bindE (liftE (decodeSucceeded J message)) (\<lambda>event.
     bindE (IsCurrentSaga D (es_OrderID event) (es_SagaID event)) (\<lambda>current.
     bindE (if current then HandleSucceeded D event else returnE ()) (\<lambda>_.
     deleteMessage D message)))"

definition HandleMessage_failed :: "json_parser \<Rightarrow> 'db deps \<Rightarrow> Message \<Rightarrow> ('db, unit) io" where
  "HandleMessage_failed J D message =
     bindE (liftE (decodeFailed J message)) (\<lambda>event.
     bindE (IsCurrentSaga D (ef_OrderID event) (ef_SagaID event)) (\<lambda>current.
     bindE (if current then HandleFailed D event else returnE ()) (\<lambda>_.
     deleteMessage D message)))"

definition isOpenForCustomerDeletion :: "OrderStatus \<Rightarrow> bool" where
  "isOpenForCustomerDeletion status \<longleftrightarrow>
     status = StatusReceived \<or> status = StatusDiagnosing \<or> status = StatusPendingAuthorization \<or>
     status = StatusAuthorized \<or> status = StatusInProgress"

definition HandleMessage_customer_deleted :: "json_parser \<Rightarrow> 'db deps \<Rightarrow> Message \<Rightarrow> ('db, unit) io" where
  "HandleMessage_customer_deleted J D message =
     bindE (liftE (decodeCustomerDeleted J message)) (\<lambda>event.
     bindE (FindByCustomerID D (ed_CustomerID event)) (\<lambda>orders.
     bindE (foreachE orders (\<lambda>order.
              if so_sagaStatus order = SagaStatusAwaitingInventory then returnE ()
              else if isOpenForCustomerDeletion (so_status order)
                then bindE (DeleteServiceOrder D (so_id order) (Some ''Cliente removido'')) (\<lambda>_. returnE ())
              else returnE ())) (\<lambda>_.
     deleteMessage D message)))"

subsection \<open>The loop of a consumer\<close>

text \<open>
  \<^verbatim>\<open>Start\<close> polls until the context is cancelled or a receive fails; \<open>polls\<close> are the answers to its calls of
  \<^verbatim>\<open>ReceiveMessage\<close> (a cancelled context answers with an error too) as far as they are observed, and
  \<open>None\<close> says that the loop is still running after them. A message that cannot be handled is only logged.
\<close>

fun Start_consumer ::
  "(Message \<Rightarrow> ('db, unit) io) \<Rightarrow> (error + Message list) list \<Rightarrow> 'db world \<Rightarrow> error option \<times> 'db world" where
  "Start_consumer handle [] w = (None, w)"
| "Start_consumer handle (Inl e # polls) w = (Some e, w)"
| "Start_consumer handle (Inr messages # polls) w =
     Start_consumer handle polls (snd (foreachE messages
       (\<lambda>message. bindE (attemptE (handle message)) (\<lambda>_. returnE ())) w))"

definition Start_succeeded ::
  "json_parser \<Rightarrow> 'db deps \<Rightarrow> (error + Message list) list \<Rightarrow> 'db world \<Rightarrow> error option \<times> 'db world" where
  "Start_succeeded J D = Start_consumer (HandleMessage_succeeded J D)"

definition Start_failed ::
  "json_parser \<Rightarrow> 'db deps \<Rightarrow> (error + Message list) list \<Rightarrow> 'db world \<Rightarrow> error option \<times> 'db world" where
  "Start_failed J D = Start_consumer (HandleMessage_failed J D)"

definition Start_customer_deleted ::
  "json_parser \<Rightarrow> 'db deps \<Rightarrow> (error + Message list) list \<Rightarrow> 'db world \<Rightarrow> error option \<times> 'db world" where
  "Start_customer_deleted J D = Start_consumer (HandleMessage_customer_deleted J D)"

end
