(* ===== verification/Consumers_Correct.thy ===== *)
theory Consumers_Correct
  imports Consumers Usecases_Status_Correct
begin

text \<open>
  The consumers are correct: what a handled message does to the stored orders, and that a message leaves
  the queue only after it has been handled.
\<close>

subsection \<open>Deletion comes last\<close>

definition deletions :: "logged list \<Rightarrow> logged list" where
  "deletions l = filter (\<lambda>e. case e of MessageDeleted _ \<Rightarrow> True | _ \<Rightarrow> False) l"

lemma deletions_append [simp]: "deletions (l @ l') = deletions l @ deletions l'"
  by (simp add: deletions_def)

lemma deletions_handling: "set new \<subseteq> handling \<Longrightarrow> deletions new = []"
  by (auto simp: deletions_def filter_empty_conv split: logged.splits)

lemma deleteMessage_run:
  assumes "deleteMessage D m w = (r, w')"
  shows "w_db w' = w_db w" and "\<forall>e. r = Inl e \<longrightarrow> w_log w' = w_log w"
    and "r = Inr () \<Longrightarrow> \<exists>rc. msg_ReceiptHandle m = Some rc \<and> w_log w' = w_log w @ [MessageDeleted rc]"
  using assms by (auto simp: deleteMessage_def split: option.splits sum.splits dest!: DeleteMessage_run)

lemma delete_last:
  assumes "emits body handling" and "bindE body (\<lambda>_. deleteMessage D m) w = (r, w')"
  shows "case r of
      Inl e \<Rightarrow> deletions (w_log w') = deletions (w_log w)
    | Inr _ \<Rightarrow> \<exists>x w1 rc. body w = (Inr x, w1) \<and> msg_ReceiptHandle m = Some rc \<and> w_db w' = w_db w1 \<and>
        w_log w' = w_log w1 @ [MessageDeleted rc] \<and> deletions (w_log w1) = deletions (w_log w)"
proof -
  obtain r1 w1 where b: "body w = (r1, w1)" by fastforce
  from emitsD [OF assms(1) b] have d: "deletions (w_log w1) = deletions (w_log w)"
    using deletions_handling by auto
  show ?thesis
  proof (cases r1)
    case (Inl e)
    with assms(2) b d show ?thesis by (auto simp: bindE_def)
  next
    case (Inr x)
    with assms(2) b have del: "deleteMessage D m w1 = (r, w')" by (simp add: bindE_def)
    from deleteMessage_run [OF del] d b Inr show ?thesis by (auto split: sum.splits)
  qed
qed

definition succeeded_body :: "json_parser \<Rightarrow> 'db deps \<Rightarrow> Message \<Rightarrow> ('db, unit) io" where
  "succeeded_body J D message =
     bindE (liftE (decodeSucceeded J message)) (\<lambda>event.
     bindE (IsCurrentSaga D (es_OrderID event) (es_SagaID event)) (\<lambda>current.
     if current then HandleSucceeded D event else returnE ()))"

lemma HandleMessage_succeeded_alt:
  "HandleMessage_succeeded J D m = bindE (succeeded_body J D m) (\<lambda>_. deleteMessage D m)"
  unfolding HandleMessage_succeeded_def succeeded_body_def bindE_assoc ..

definition failed_body :: "json_parser \<Rightarrow> 'db deps \<Rightarrow> Message \<Rightarrow> ('db, unit) io" where
  "failed_body J D message =
     bindE (liftE (decodeFailed J message)) (\<lambda>event.
     bindE (IsCurrentSaga D (ef_OrderID event) (ef_SagaID event)) (\<lambda>current.
     if current then HandleFailed D event else returnE ()))"

lemma HandleMessage_failed_alt:
  "HandleMessage_failed J D m = bindE (failed_body J D m) (\<lambda>_. deleteMessage D m)"
  unfolding HandleMessage_failed_def failed_body_def bindE_assoc ..

definition cancel_for_customer :: "'db deps \<Rightarrow> ServiceOrder \<Rightarrow> ('db, unit) io" where
  "cancel_for_customer D order =
     (if so_sagaStatus order = SagaStatusAwaitingInventory then returnE ()
      else if isOpenForCustomerDeletion (so_status order)
        then bindE (DeleteServiceOrder D (so_id order) (Some ''Cliente removido'')) (\<lambda>_. returnE ())
      else returnE ())"

definition customer_deleted_body :: "json_parser \<Rightarrow> 'db deps \<Rightarrow> Message \<Rightarrow> ('db, unit) io" where
  "customer_deleted_body J D message =
     bindE (liftE (decodeCustomerDeleted J message)) (\<lambda>event.
     bindE (FindByCustomerID D (ed_CustomerID event)) (\<lambda>orders.
     foreachE orders (cancel_for_customer D)))"

lemma HandleMessage_customer_deleted_alt:
  "HandleMessage_customer_deleted J D m = bindE (customer_deleted_body J D m) (\<lambda>_. deleteMessage D m)"
  unfolding HandleMessage_customer_deleted_def customer_deleted_body_def cancel_for_customer_def [abs_def]
    bindE_assoc ..

lemma emits_bodies:
  "emits (succeeded_body J D m) handling" "emits (failed_body J D m) handling"
  "emits (customer_deleted_body J D m) handling"
  unfolding succeeded_body_def failed_body_def customer_deleted_body_def cancel_for_customer_def [abs_def]
  by (intro emits_bindE emits_if emits_liftE emits_handlers emits_returnE emits_calls emits_foreachE
      emits_DeleteServiceOrder)+

subsection \<open>Exact effects\<close>

context service_env
begin

lemma IsCurrentSaga_run:
  assumes "IsCurrentSaga D i sid w = (Inr b, w')"
  shows "\<exists>j v. canon i = Some j \<and> view (w_db w) j = Some v \<and> b = current_saga sid v \<and>
    view (w_db w') = view (w_db w) \<and> w_log w' = w_log w"
proof -
  from assms obtain s where find: "FindByID D i w = (Inr s, w')" and b: "b = CanProcessSaga sid s"
    by (auto simp: IsCurrentSaga_def bindE_Inr_iff)
  note f = FindByID_run [OF find]
  show ?thesis using f(1,2,3,5) b CanProcessSaga_abs by (intro exI [of _ "so_id s"] exI [of _ "abs_order s"]) simp
qed

lemma succeeded_body_run:
  assumes run: "succeeded_body J D m w = (Inr u, w')" and wf: "wf_store (view (w_db w))"
  shows "\<exists>ev j v. decodeSucceeded J m = Inr ev \<and> canon (es_OrderID ev) = Some j \<and>
    view (w_db w) j = Some v \<and> requests (w_log w') = requests (w_log w) \<and>
    mp_calls (w_log w') = mp_calls (w_log w) \<and>
    (if current_saga (es_SagaID ev) v
     then \<exists>t. v_sagaTargetStatus v = Some t \<and> view (w_db w') = (view (w_db w))(j \<mapsto> settled t v)
     else view (w_db w') = view (w_db w) \<and> w_log w' = w_log w)"
proof -
  from run obtain ev b w1 where ev: "decodeSucceeded J m = Inr ev"
    and cur: "IsCurrentSaga D (es_OrderID ev) (es_SagaID ev) w = (Inr b, w1)"
    and rest: "(if b then HandleSucceeded D ev else returnE ()) w1 = (Inr u, w')"
    by (auto simp: succeeded_body_def bindE_Inr_iff)
  from IsCurrentSaga_run [OF cur] obtain j v where j: "canon (es_OrderID ev) = Some j"
    "view (w_db w) j = Some v" "b = current_saga (es_SagaID ev) v"
    "view (w_db w1) = view (w_db w)" "w_log w1 = w_log w" by blast
  show ?thesis
  proof (cases b)
    case True
    with rest have "HandleSucceeded D ev w1 = (Inr u, w')" by simp
    from HandleSucceeded_run [OF this] wf j True ev show ?thesis
      by (intro exI [of _ ev] exI [of _ j] exI [of _ v]) auto
  next
    case False
    with rest j ev show ?thesis by (intro exI [of _ ev] exI [of _ j] exI [of _ v]) simp
  qed
qed

end

text \<open>What the removal of a customer makes of an order.\<close>

definition customer_removed :: "order_view \<Rightarrow> order_view \<Rightarrow> bool" where
  "customer_removed v v' \<longleftrightarrow>
     (if isOpenForCustomerDeletion (v_status v) \<and> v_sagaStatus v \<noteq> SagaStatusAwaitingInventory
      then v' = settled StatusCanceled v \<or>
           (\<exists>sid. v' = v_set_saga SagaStatusAwaitingInventory (Some sid) (Some StatusCanceled)
              (Some ''Cliente removido'') v)
      else v' = v)"

lemma open_settlement: "isOpenForCustomerDeletion (v_status v) \<Longrightarrow> settlement D t v = []"
  by (auto simp: settlement_def isOpenForCustomerDeletion_def)

context service_env
begin

lemma cancel_for_customer_run:
  assumes run: "cancel_for_customer D s w = (Inr u, w')" and l: "loaded s"
    and v: "view (w_db w) (so_id s) = Some (abs_order s)"
  shows "mp_calls (w_log w') = mp_calls (w_log w) \<and>
    (\<exists>v'. customer_removed (abs_order s) v' \<and> view (w_db w') = (view (w_db w))(so_id s \<mapsto> v'))"
proof (cases "isOpenForCustomerDeletion (so_status s) \<and> so_sagaStatus s \<noteq> SagaStatusAwaitingInventory")
  case True
  with run obtain out where del: "DeleteServiceOrder D (so_id s) (Some ''Cliente removido'') w = (Inr out, w')"
    by (auto simp: cancel_for_customer_def bindE_Inr_iff)
  have "canon (so_id s) = Some (so_id s)" using stored_canonical [OF v] by simp
  from Delete_run [OF del] obtain j v1 rest where
    j: "canon (so_id s) = Some j" "view (w_db w) j = Some v1"
      "w_log w' = w_log w @ settlement D (w_tick w) v1 @ rest" "mp_calls rest = []"
    and e: "if dso_Async out
     then \<exists>op sid items. plan_cancel (v_status v1) = CancelBySaga op \<and>
            view (w_db w') = (view (w_db w))(j \<mapsto> v_set_saga SagaStatusAwaitingInventory
              (Some sid) (Some StatusCanceled) (Some ''Cliente removido'') v1) \<and>
            mset items = image_mset stock_item (product_lines v1) \<and> requests rest = [(sid, j, op, items)]
     else (plan_cancel (v_status v1) = CancelLocally \<or> product_lines v1 = {#}) \<and>
          view (w_db w') = (view (w_db w))(j \<mapsto> settled StatusCanceled v1) \<and> requests rest = []" by blast
  have jv: "j = so_id s" "v1 = abs_order s" using j \<open>canon (so_id s) = Some (so_id s)\<close> v by auto
  have "settlement D (w_tick w) v1 = []" by (rule open_settlement) (use True jv in simp)
  then have "mp_calls (w_log w') = mp_calls (w_log w)" using j(3,4) by simp
  with e True jv show ?thesis by (auto simp: customer_removed_def split: if_splits)
next
  case False
  with run have "w' = w" by (auto simp: cancel_for_customer_def split: if_splits)
  moreover have "customer_removed (abs_order s) (abs_order s)" using False by (auto simp: customer_removed_def)
  moreover have "view (w_db w) = (view (w_db w))(so_id s \<mapsto> abs_order s)" using v by (metis fun_upd_triv)
  ultimately show ?thesis by auto
qed

lemma cancel_all_run:
  assumes "foreachE ss (cancel_for_customer D) w = (Inr u, w')" and "distinct (map so_id ss)"
    and "\<forall>s \<in> set ss. loaded s \<and> view (w_db w) (so_id s) = Some (abs_order s)"
  shows "mp_calls (w_log w') = mp_calls (w_log w) \<and>
    (\<forall>s \<in> set ss. \<exists>v'. view (w_db w') (so_id s) = Some v' \<and> customer_removed (abs_order s) v') \<and>
    (\<forall>j. j \<notin> so_id ` set ss \<longrightarrow> view (w_db w') j = view (w_db w) j)"
  using assms
proof (induction ss arbitrary: w)
  case Nil
  then show ?case by simp
next
  case (Cons s ss)
  from Cons.prems(1) obtain x w1 where s: "cancel_for_customer D s w = (Inr x, w1)"
    and rest: "foreachE ss (cancel_for_customer D) w1 = (Inr u, w')" by (auto simp: bindE_Inr_iff)
  from cancel_for_customer_run [OF s] Cons.prems(3) obtain v' where
    v': "customer_removed (abs_order s) v'" "view (w_db w1) = (view (w_db w))(so_id s \<mapsto> v')"
    "mp_calls (w_log w1) = mp_calls (w_log w)" by auto
  have "\<forall>s' \<in> set ss. so_id s' \<noteq> so_id s" using Cons.prems(2) by (auto simp: image_iff)
  then have "\<forall>s' \<in> set ss. loaded s' \<and> view (w_db w1) (so_id s') = Some (abs_order s')"
    using Cons.prems(3) v'(2) by simp
  note ih = Cons.IH [OF rest _ this]
  have "so_id s \<notin> so_id ` set ss" using Cons.prems(2) by simp
  with ih Cons.prems(2) v' show ?case by auto
qed

lemma customer_deleted_body_run:
  assumes run: "customer_deleted_body J D m w = (Inr u, w')"
  shows "\<exists>ev. decodeCustomerDeleted J m = Inr ev \<and> mp_calls (w_log w') = mp_calls (w_log w) \<and>
    (\<forall>j v. view (w_db w) j = Some v \<longrightarrow>
       (\<exists>v'. view (w_db w') j = Some v' \<and>
         (if Some (v_customerID v) = canon (ed_CustomerID ev) then customer_removed v v' else v' = v))) \<and>
    (\<forall>j. view (w_db w) j = None \<longrightarrow> view (w_db w') j = None)"
proof -
  from run obtain ev ss w1 where ev: "decodeCustomerDeleted J m = Inr ev"
    and find: "FindByCustomerID D (ed_CustomerID ev) w = (Inr ss, w1)"
    and rest: "foreachE ss (cancel_for_customer D) w1 = (Inr u, w')"
    by (auto simp: customer_deleted_body_def bindE_Inr_iff)
  from find obtain db where db: "repo_FindByCustomerID (orderRepo D) (ed_CustomerID ev) (w_db w) = (Inr ss, db)"
    and w1: "w1 = w\<lparr>w_db := db\<rparr>" by (auto simp: FindByCustomerID_def on_db_def split: prod.splits)
  note fr = customer_frame [OF db] and ls = list_customer [OF db]
  have "\<forall>s \<in> set ss. loaded s \<and> view (w_db w1) (so_id s) = Some (abs_order s)"
    using ls fr w1 by auto
  from cancel_all_run [OF rest conjunct1 [OF ls] this] w1 fr
  have c: "mp_calls (w_log w') = mp_calls (w_log w)"
    "\<And>s. s \<in> set ss \<Longrightarrow> \<exists>v'. view (w_db w') (so_id s) = Some v' \<and> customer_removed (abs_order s) v'"
    "\<And>j. j \<notin> so_id ` set ss \<Longrightarrow> view (w_db w') j = view (w_db w) j" by auto
  have "\<exists>v'. view (w_db w') j = Some v' \<and>
      (if Some (v_customerID v) = canon (ed_CustomerID ev) then customer_removed v v' else v' = v)"
    if v: "view (w_db w) j = Some v" for j v
  proof (cases "Some (v_customerID v) = canon (ed_CustomerID ev)")
    case True
    with ls v obtain s where "s \<in> set ss" "so_id s = j" "abs_order s = v" by blast
    with c(2) [of s] True show ?thesis by auto
  next
    case False
    with ls v have "j \<notin> so_id ` set ss" by (metis (no_types, lifting) imageE option.inject)
    with c(3) v False show ?thesis by auto
  qed
  moreover have "view (w_db w') j = None" if v: "view (w_db w) j = None" for j
  proof -
    have "j \<notin> so_id ` set ss" using ls v by (metis (no_types, lifting) imageE option.distinct(1))
    with c(3) v show ?thesis by simp
  qed
  ultimately show ?thesis using ev c(1) by (intro exI [of _ ev]) blast
qed

lemma advances_cancel_for_customer: "advances view P (cancel_for_customer D s)"
  unfolding cancel_for_customer_def
  by (intro advances_if advances_returnE advances_then [OF advances_DeleteServiceOrder])

end

end
