(* ===== verification/Consumers_Properties.thy ===== *)
theory Consumers_Properties
  imports Consumers_Correct Saga_Properties
begin

text \<open>
  The properties of the consumers, each with a run on a concrete world beside it.
\<close>

text \<open>
  Claim C23. No message is lost: whatever the message and whatever goes wrong, a message about a stock
  operation or a removed customer is deleted from the queue only when the handling of it has returned
  without an error, and then as the last thing, once; when the handling fails the message stays in the
  queue and nothing is deleted.
\<close>

theorem messages_deleted_last:
  "(HandleMessage_succeeded J D m w = (r, w') \<longrightarrow>
      (case r of Inl e \<Rightarrow> deletions (w_log w') = deletions (w_log w)
       | Inr _ \<Rightarrow> \<exists>w1 rc. succeeded_body J D m w = (Inr (), w1) \<and> msg_ReceiptHandle m = Some rc \<and>
           w_db w' = w_db w1 \<and> w_log w' = w_log w1 @ [MessageDeleted rc])) \<and>
   (HandleMessage_failed J D m w = (r, w') \<longrightarrow>
      (case r of Inl e \<Rightarrow> deletions (w_log w') = deletions (w_log w)
       | Inr _ \<Rightarrow> \<exists>w1 rc. failed_body J D m w = (Inr (), w1) \<and> msg_ReceiptHandle m = Some rc \<and>
           w_db w' = w_db w1 \<and> w_log w' = w_log w1 @ [MessageDeleted rc])) \<and>
   (HandleMessage_customer_deleted J D m w = (r, w') \<longrightarrow>
      (case r of Inl e \<Rightarrow> deletions (w_log w') = deletions (w_log w)
       | Inr _ \<Rightarrow> \<exists>w1 rc. customer_deleted_body J D m w = (Inr (), w1) \<and> msg_ReceiptHandle m = Some rc \<and>
           w_db w' = w_db w1 \<and> w_log w' = w_log w1 @ [MessageDeleted rc]))"
  unfolding HandleMessage_succeeded_alt HandleMessage_failed_alt HandleMessage_customer_deleted_alt
  using delete_last [OF emits_bodies(1), of J D m D m w r w'] delete_last [OF emits_bodies(2), of J D m D m w r w']
    delete_last [OF emits_bodies(3), of J D m D m w r w']
  by (auto split: sum.splits)

text \<open>A message as the stock service sends it, and a parser that knows it.\<close>

definition sample_message :: Message where
  "sample_message = \<lparr>msg_Body = Some ''body'', msg_ReceiptHandle = Some ''receipt''\<rparr>"

definition sample_json :: "(string \<times> json) list \<Rightarrow> json_parser" where
  "sample_json ms body = (if body = ''body'' then Some (JObject ms) else None)"

definition success_json :: json_parser where
  "success_json = sample_json [(''event'', JString ''OrderInventoryOperationSucceeded''),
     (''saga_id'', JString ''s''), (''order_id'', JString ''os''), (''Operation'', JString ''RESERVE''),
     (''occurred_at'', JString ''2026-02-28T23:59:59.5Z'')]"

lemma success_message_runs: "succeeds (HandleMessage_succeeded success_json (mem_deps ''approved'') sample_message
    (saga_world StatusDiagnosing StatusPendingAuthorization))"
  by code_simp

theorem messages_deleted_last_witness:
  "\<exists>r w'. HandleMessage_succeeded success_json (mem_deps ''approved'') sample_message
      (saga_world StatusDiagnosing StatusPendingAuthorization) = (Inr r, w') \<and>
     last (w_log w') = MessageDeleted ''receipt''"
proof -
  from success_message_runs obtain r w' where run: "HandleMessage_succeeded success_json (mem_deps ''approved'') sample_message
      (saga_world StatusDiagnosing StatusPendingAuthorization) = (Inr r, w')" by (rule succeedsE)
  with messages_deleted_last [of success_json "mem_deps ''approved''" sample_message
      "saga_world StatusDiagnosing StatusPendingAuthorization" "Inr r" w'] show ?thesis
    by (auto simp: sample_message_def)
qed

text \<open>
  A message that reports success completes the saga it names and nothing else: an order that waits
  for exactly that saga reaches the saga's target; for any other order, and for a saga that is over, the
  message changes and records nothing and is deleted, so that a message delivered twice acts once. A
  message that cannot be decoded - no JSON object, a field of another type, another event, a bad time -
  is never acted on.
\<close>

theorem success_message_correct:
  assumes "service_env D canon view" and "wf_store (view (w_db w))"
    and "HandleMessage_succeeded J D m w = (Inr u, w')"
  shows "\<exists>ev j v rc. decodeSucceeded J m = Inr ev \<and> canon (es_OrderID ev) = Some j \<and>
    view (w_db w) j = Some v \<and> msg_ReceiptHandle m = Some rc \<and>
    requests (w_log w') = requests (w_log w) \<and> mp_calls (w_log w') = mp_calls (w_log w) \<and>
    (if current_saga (es_SagaID ev) v
     then \<exists>t. v_sagaTargetStatus v = Some t \<and> view (w_db w') = (view (w_db w))(j \<mapsto> settled t v)
     else view (w_db w') = view (w_db w) \<and> w_log w' = w_log w @ [MessageDeleted rc])"
proof -
  from delete_last [OF emits_bodies(1) assms(3) [unfolded HandleMessage_succeeded_alt]] obtain x w1 rc where
    b: "succeeded_body J D m w = (Inr x, w1)" and d: "msg_ReceiptHandle m = Some rc" "w_db w' = w_db w1"
      "w_log w' = w_log w1 @ [MessageDeleted rc]" by auto
  from service_env.succeeded_body_run [OF assms(1) b assms(2)] obtain ev j v where
    "decodeSucceeded J m = Inr ev" "canon (es_OrderID ev) = Some j" "view (w_db w) j = Some v"
    "requests (w_log w1) = requests (w_log w)" "mp_calls (w_log w1) = mp_calls (w_log w)"
    "if current_saga (es_SagaID ev) v
     then \<exists>t. v_sagaTargetStatus v = Some t \<and> view (w_db w1) = (view (w_db w))(j \<mapsto> settled t v)
     else view (w_db w1) = view (w_db w) \<and> w_log w1 = w_log w" by blast
  with d show ?thesis by (intro exI [of _ ev] exI [of _ j] exI [of _ v] exI [of _ rc]) (auto split: if_splits)
qed

theorem success_message_correct_witness:
  "\<exists>w' v. HandleMessage_succeeded success_json (mem_deps ''approved'') sample_message
      (saga_world StatusDiagnosing StatusPendingAuthorization) = (Inr (), w') \<and>
     mem_view (w_db w') ''os'' = Some v \<and> v_status v = StatusPendingAuthorization"
proof -
  from success_message_runs obtain w' where run: "HandleMessage_succeeded success_json (mem_deps ''approved'') sample_message
      (saga_world StatusDiagnosing StatusPendingAuthorization) = (Inr (), w')" by (elim succeedsE) simp
  have ev: "decodeSucceeded success_json sample_message = Inr (\<lparr>es_Event = ''OrderInventoryOperationSucceeded'',
      es_SagaID = ''s'', es_OrderID = ''os'', es_Operation = ''RESERVE'',
      es_OccurredAt = ''2026-02-28T23:59:59.5Z''\<rparr>)" by code_simp
  have "wf_store (mem_view (w_db (saga_world StatusDiagnosing StatusPendingAuthorization)))"
    by (rule saga_world_wf) (simp_all add: saga_target_def)
  from success_message_correct [OF mem_env this run]
    saga_world_view [of StatusDiagnosing StatusPendingAuthorization] run ev show ?thesis
    by (auto simp: mem_canon_def current_saga_def sample_order_def split: if_splits)
qed

text \<open>
  Claim C24. When a customer is removed, each of the customer's orders that is between reception and work in
  progress and has no saga in flight is canceled, at once or by a saga that releases its stock; an order of
  the customer past that, and one with a saga in flight, is left as it is and the message is deleted all
  the same, so that a saga in flight saves its order from the removal for good. Orders of other customers
  are untouched and no money moves.
\<close>

theorem customer_removal_correct:
  assumes "service_env D canon view" and "HandleMessage_customer_deleted J D m w = (Inr u, w')"
  shows "\<exists>ev rc. decodeCustomerDeleted J m = Inr ev \<and> msg_ReceiptHandle m = Some rc \<and>
    last (w_log w') = MessageDeleted rc \<and> mp_calls (w_log w') = mp_calls (w_log w) \<and>
    (\<forall>j v. view (w_db w) j = Some v \<longrightarrow>
       (\<exists>v'. view (w_db w') j = Some v' \<and>
         (if Some (v_customerID v) = canon (ed_CustomerID ev) then customer_removed v v' else v' = v))) \<and>
    (\<forall>j. view (w_db w) j = None \<longrightarrow> view (w_db w') j = None)"
proof -
  from delete_last [OF emits_bodies(3) assms(2) [unfolded HandleMessage_customer_deleted_alt]] obtain x w1 rc where
    b: "customer_deleted_body J D m w = (Inr x, w1)" and d: "msg_ReceiptHandle m = Some rc" "w_db w' = w_db w1"
      "w_log w' = w_log w1 @ [MessageDeleted rc]" by auto
  from service_env.customer_deleted_body_run [OF assms(1) b] d show ?thesis by simp
qed

definition removal_json :: json_parser where
  "removal_json = sample_json [(''event'', JString ''CustomerDeleted''), (''customer_id'', JString ''c''),
     (''email'', JNull), (''occurred_at'', JString ''2024-02-29T07:00:00-03:00'')]"

theorem customer_removal_correct_witness:
  "\<exists>w' v. HandleMessage_customer_deleted removal_json (mem_deps ''approved'') sample_message
      (idle_world StatusReceived) = (Inr (), w') \<and>
     mem_view (w_db w') ''os'' = Some v \<and> v \<noteq> abs_order (sample_order StatusReceived SagaStatusIdle None None)"
proof -
  have "succeeds (HandleMessage_customer_deleted removal_json (mem_deps ''approved'') sample_message
      (idle_world StatusReceived))" by code_simp
  then obtain w' where run: "HandleMessage_customer_deleted removal_json (mem_deps ''approved'') sample_message
      (idle_world StatusReceived) = (Inr (), w')" by (elim succeedsE) simp
  have ev: "decodeCustomerDeleted removal_json sample_message = Inr (\<lparr>ed_Event = ''CustomerDeleted'',
      ed_CustomerID = ''c'', ed_Email = '''', ed_OccurredAt = ''2024-02-29T07:00:00-03:00''\<rparr>)" by code_simp
  let ?v = "abs_order (sample_order StatusReceived SagaStatusIdle None None)"
  have v: "v_customerID ?v = ''c''" "v_status ?v = StatusReceived" "v_sagaStatus ?v = SagaStatusIdle"
    by (simp_all add: sample_order_def)
  have all: "\<exists>v'. mem_view (w_db w') j = Some v' \<and>
      (if v_customerID u = ''c'' then customer_removed u v' else v' = u)"
    if "mem_view (w_db (idle_world StatusReceived)) j = Some u" for j u
    using customer_removal_correct [OF mem_env run] that ev by (simp add: mem_canon_def del: if_split) metis
  from all [OF idle_world_view] v obtain v' where
    "mem_view (w_db w') ''os'' = Some v'" and r: "customer_removed ?v v'" by auto
  moreover have "v' \<noteq> ?v"
  proof
    assume "v' = ?v"
    with r v have "?v = settled StatusCanceled ?v \<or> (\<exists>sid. ?v = v_set_saga SagaStatusAwaitingInventory (Some sid)
        (Some StatusCanceled) (Some ''Cliente removido'') ?v)"
      by (simp add: customer_removed_def isOpenForCustomerDeletion_def)
    then have "v_status ?v = StatusCanceled \<or> v_sagaStatus ?v = SagaStatusAwaitingInventory"
      by (metis settled_sel(1) v_set_sel(17))
    with v show False by simp
  qed
  ultimately show ?thesis using run by blast
qed

end
