(* ===== verification/Persistence.thy ===== *)
theory Persistence
  imports Ports
begin

text \<open>
  \<^verbatim>\<open>infra/persistence\<close>: the rows of the two tables, their conversion from and to the aggregate, and
  \<^verbatim>\<open>ServiceOrderRepositoryImpl\<close>, every method of it. The libraries it is written with are parameters:
  \<^verbatim>\<open>google/uuid\<close> is a record over the type \<open>'u\<close> of UUIDs, and what it calls of \<^verbatim>\<open>gorm\<close>, with the clock
  and the generator of UUIDs, a record of programs over the database \<open>'db\<close>.
\<close>

subsection \<open>The libraries\<close>

record 'u uuid_lib =
  uuid_Parse :: "string \<Rightarrow> error + 'u"
  uuid_String :: "'u \<Rightarrow> string"
  uuid_Nil :: 'u

text \<open>A pure step that may fail, followed by another: \<^verbatim>\<open>if err != nil { return nil, err }\<close>.\<close>

definition andThen :: "error + 'a \<Rightarrow> ('a \<Rightarrow> error + 'b) \<Rightarrow> error + 'b" where
  "andThen r f = (case r of Inl e \<Rightarrow> Inl e | Inr x \<Rightarrow> f x)"

fun mapR :: "('a \<Rightarrow> error + 'b) \<Rightarrow> 'a list \<Rightarrow> error + 'b list" where
  "mapR f [] = Inr []"
| "mapR f (x # xs) = andThen (f x) (\<lambda>y. andThen (mapR f xs) (\<lambda>ys. Inr (y # ys)))"

subsection \<open>Rows\<close>

text \<open>\<^verbatim>\<open>gorm.DeletedAt\<close> is a time with a flag \<^verbatim>\<open>Valid\<close>: \<open>None\<close> when the flag is off.\<close>

record 'u ServiceOrderItemModel =
  im_ID :: 'u
  im_ServiceOrderID :: 'u
  im_HistoryID :: "'u option"
  im_ItemType :: string
  im_ReferenceID :: 'u
  im_Name :: string
  im_Quantity :: goint
  im_UnitPrice :: goint
  im_CreatedAt :: time
  im_UpdatedAt :: time
  im_DeletedAt :: "time option"

record 'u ServiceOrderModel =
  om_ID :: 'u
  om_CustomerID :: 'u
  om_VehicleID :: 'u
  om_Description :: string
  om_Status :: string
  om_SagaStatus :: string
  om_CurrentSagaID :: "'u option"
  om_SagaTargetStatus :: "string option"
  om_SagaNotes :: "string option"
  om_MPOrderID :: "string option"
  om_MPPaymentID :: "string option"
  om_MPOrderStatus :: "string option"
  om_PaymentURL :: "string option"
  om_PaymentRejectionReason :: "string option"
  om_CustomerEmail :: "string option"
  om_CustomerName :: "string option"
  om_ClosedAt :: "time option"
  om_CreatedAt :: time
  om_UpdatedAt :: time
  om_DeletedAt :: "time option"
  om_Items :: "'u ServiceOrderItemModel list"

subsection \<open>From and to the aggregate\<close>

definition item_ToDomain :: "'u uuid_lib \<Rightarrow> 'u ServiceOrderItemModel \<Rightarrow> error + ServiceOrderItem" where
  "item_ToDomain U m =
     (let itemType = ItemType_of (im_ItemType m) in
      if \<not> itemType_IsValid itemType then Inl ErrInvalidItemType
      else Inr (ReconstructServiceOrderItem (uuid_String U (im_ID m)) (uuid_String U (im_ServiceOrderID m))
             (map_option (uuid_String U) (im_HistoryID m)) itemType (uuid_String U (im_ReferenceID m))
             (im_Name m) (im_Quantity m) (im_UnitPrice m) (im_CreatedAt m) (im_UpdatedAt m)
             (im_DeletedAt m)))"

definition FromDomainItem :: "'u uuid_lib \<Rightarrow> ServiceOrderItem \<Rightarrow> error + 'u ServiceOrderItemModel" where
  "FromDomainItem U item =
     andThen (if item_id item \<noteq> '''' then uuid_Parse U (item_id item) else Inr (uuid_Nil U)) (\<lambda>i.
     andThen (uuid_Parse U (item_serviceOrderID item)) (\<lambda>serviceOrderID.
     andThen (uuid_Parse U (item_referenceID item)) (\<lambda>referenceID.
     andThen (case item_historyID item of
                None \<Rightarrow> Inr None
              | Some h \<Rightarrow> andThen (uuid_Parse U h) (\<lambda>parsedHistoryID. Inr (Some parsedHistoryID))) (\<lambda>historyID.
     Inr \<lparr>im_ID = i, im_ServiceOrderID = serviceOrderID, im_HistoryID = historyID,
          im_ItemType = itemType_string (item_itemType item), im_ReferenceID = referenceID,
          im_Name = item_name item, im_Quantity = item_quantity item, im_UnitPrice = item_unitPrice item,
          im_CreatedAt = item_createdAt item, im_UpdatedAt = item_updatedAt item,
          im_DeletedAt = item_deletedAt item\<rparr>))))"

definition uuidPtrString :: "'u uuid_lib \<Rightarrow> 'u option \<Rightarrow> string option" where
  "uuidPtrString U u = map_option (uuid_String U) u"

definition parseUUIDPtr :: "'u uuid_lib \<Rightarrow> string option \<Rightarrow> 'u option" where
  "parseUUIDPtr U s =
     (case s of
        None \<Rightarrow> None
      | Some t \<Rightarrow> if t = '''' then None else (case uuid_Parse U t of Inl _ \<Rightarrow> None | Inr u \<Rightarrow> Some u))"

definition orderStatusPtr :: "string option \<Rightarrow> error + OrderStatus option" where
  "orderStatusPtr s =
     (case s of
        None \<Rightarrow> Inr None
      | Some t \<Rightarrow> if t = '''' then Inr None
                  else andThen (NewOrderStatus t) (\<lambda>status. Inr (Some status)))"

definition orderStatusStringPtr :: "OrderStatus option \<Rightarrow> string option" where
  "orderStatusStringPtr s = map_option status_String s"

text \<open>
  The end that \<^verbatim>\<open>ToDomain\<close> and \<^verbatim>\<open>ToDomainWithItems\<close> share: the aggregate is reconstructed and gets the
  customer's e-mail and name, when the row has one of them, by a setter that reads the clock.
\<close>

definition reconstructed ::
  "'u uuid_lib \<Rightarrow> time \<Rightarrow> 'u ServiceOrderModel \<Rightarrow> OrderStatus \<Rightarrow> OrderStatus option \<Rightarrow>
   ServiceOrderItem list \<Rightarrow> error + ServiceOrder" where
  "reconstructed U now m status sagaTargetStatus items =
     andThen (ReconstructServiceOrder (uuid_String U (om_ID m)) (uuid_String U (om_CustomerID m))
                (uuid_String U (om_VehicleID m)) (om_Description m) status (om_SagaStatus m)
                (uuidPtrString U (om_CurrentSagaID m)) sagaTargetStatus (om_SagaNotes m) (om_MPOrderID m)
                (om_MPPaymentID m) (om_PaymentURL m) items (om_ClosedAt m) (om_CreatedAt m)
                (om_UpdatedAt m) (om_DeletedAt m)) (\<lambda>order.
     Inr (if om_CustomerEmail m \<noteq> None \<or> om_CustomerName m \<noteq> None
          then SetCustomerSnapshot now (case om_CustomerEmail m of None \<Rightarrow> '''' | Some e \<Rightarrow> e)
                 (case om_CustomerName m of None \<Rightarrow> '''' | Some n \<Rightarrow> n) order
          else order))"

definition ToDomain :: "'u uuid_lib \<Rightarrow> time \<Rightarrow> 'u ServiceOrderModel \<Rightarrow> error + ServiceOrder" where
  "ToDomain U now m =
     andThen (NewOrderStatus (om_Status m)) (\<lambda>status.
     andThen (orderStatusPtr (om_SagaTargetStatus m)) (\<lambda>sagaTargetStatus.
     reconstructed U now m status sagaTargetStatus []))"

definition ToDomainWithItems :: "'u uuid_lib \<Rightarrow> time \<Rightarrow> 'u ServiceOrderModel \<Rightarrow> error + ServiceOrder" where
  "ToDomainWithItems U now m =
     andThen (NewOrderStatus (om_Status m)) (\<lambda>status.
     andThen (orderStatusPtr (om_SagaTargetStatus m)) (\<lambda>sagaTargetStatus.
     andThen (mapR (item_ToDomain U) (om_Items m)) (\<lambda>items.
     reconstructed U now m status sagaTargetStatus items)))"

definition FromDomain :: "'u uuid_lib \<Rightarrow> ServiceOrder \<Rightarrow> error + 'u ServiceOrderModel" where
  "FromDomain U order =
     andThen (if so_id order \<noteq> '''' then uuid_Parse U (so_id order) else Inr (uuid_Nil U)) (\<lambda>i.
     andThen (uuid_Parse U (so_customerID order)) (\<lambda>customerID.
     andThen (uuid_Parse U (so_vehicleID order)) (\<lambda>vehicleID.
     Inr \<lparr>om_ID = i, om_CustomerID = customerID, om_VehicleID = vehicleID,
          om_Description = so_description order, om_Status = status_String (so_status order),
          om_SagaStatus = so_sagaStatus order,
          om_CurrentSagaID = parseUUIDPtr U (so_currentSagaID order),
          om_SagaTargetStatus = orderStatusStringPtr (so_sagaTargetStatus order),
          om_SagaNotes = so_sagaNotes order, om_MPOrderID = so_mpPreferenceID order,
          om_MPPaymentID = so_mpPaymentID order, om_MPOrderStatus = None,
          om_PaymentURL = so_paymentURL order, om_PaymentRejectionReason = None,
          om_CustomerEmail = (if so_customerEmail order \<noteq> '''' then Some (so_customerEmail order) else None),
          om_CustomerName = (if so_customerName order \<noteq> '''' then Some (so_customerName order) else None),
          om_ClosedAt = so_closedAt order, om_CreatedAt = so_createdAt order,
          om_UpdatedAt = so_updatedAt order, om_DeletedAt = so_deletedAt order, om_Items = []\<rparr>)))"

subsection \<open>What is asked of gorm\<close>

text \<open>
  A query on the table of orders: the conditions that are joined by \<^verbatim>\<open>AND\<close>, where \<open>None\<close> is a condition
  that is not there, and the keys it is ordered by. A query loads the lines too (\<^verbatim>\<open>Preload("Items")\<close>).
\<close>

datatype order_key = CreatedAt_ASC | CreatedAt_DESC | UpdatedAt_ASC | StatusRank_ASC

record 'u order_query =
  q_customer_id :: "'u option"
  q_status :: "string option"
  q_status_not_in :: "string list"
  q_saga_status :: "string option"
  q_Order :: "order_key list"

text \<open>
  \<open>g_First\<close> answers with \<open>None\<close> for \<^verbatim>\<open>gorm.ErrRecordNotFound\<close>. The queries see rows that are not soft-deleted,
  but for \<open>g_FindItemsUnscoped\<close>; \<open>g_Transaction\<close> is \<^verbatim>\<open>db.Transaction\<close>.
\<close>

record ('db, 'u) gorm =
  g_Now :: "'db \<Rightarrow> time \<times> 'db"
  g_NewV7 :: "'db \<Rightarrow> 'u \<times> 'db"
  g_Transaction :: "('db \<Rightarrow> (error + ServiceOrder) \<times> 'db) \<Rightarrow> 'db \<Rightarrow> (error + ServiceOrder) \<times> 'db"
  g_CreateOrder :: "'u ServiceOrderModel \<Rightarrow> 'db \<Rightarrow> (error + unit) \<times> 'db"
  g_SaveOrder :: "'u ServiceOrderModel \<Rightarrow> 'db \<Rightarrow> (error + unit) \<times> 'db"
  g_FindItemsUnscoped :: "'u \<Rightarrow> 'db \<Rightarrow> (error + 'u ServiceOrderItemModel list) \<times> 'db"
  g_DeleteItem :: "'u ServiceOrderItemModel \<Rightarrow> 'db \<Rightarrow> (error + unit) \<times> 'db"
  g_SaveItem :: "'u ServiceOrderItemModel \<Rightarrow> 'db \<Rightarrow> (error + unit) \<times> 'db"
  g_First :: "'u \<Rightarrow> 'db \<Rightarrow> (error + 'u ServiceOrderModel option) \<times> 'db"
  g_Find :: "'u order_query \<Rightarrow> 'db \<Rightarrow> (error + 'u ServiceOrderModel list) \<times> 'db"
  g_DeleteOrder :: "'u ServiceOrderModel \<Rightarrow> 'db \<Rightarrow> (error + unit) \<times> 'db"
  g_UpdateHistoryID :: "'u list \<Rightarrow> 'u \<Rightarrow> 'db \<Rightarrow> (error + unit) \<times> 'db"

definition answered :: "('db \<Rightarrow> 'a \<times> 'db) \<Rightarrow> ('db, 'a) prog" where
  "answered f = (\<lambda>db. case f db of (x, db') \<Rightarrow> (Inr x, db'))"

subsection \<open>The repository: saving\<close>

text \<open>
  \<^verbatim>\<open>FromDomainItem\<close> is called on the line as it is in the order; a line without an identifier gets one, the
  row the identifier of the order.
\<close>

definition save_item ::
  "'u uuid_lib \<Rightarrow> ('db, 'u) gorm \<Rightarrow> 'u \<Rightarrow> ServiceOrderItem \<Rightarrow> ('db, ServiceOrderItem) prog" where
  "save_item U G orderID item =
     bindE (liftE (FromDomainItem U item)) (\<lambda>itemModel.
     bindE (if item_id item = '''' then
              bindE (answered (g_NewV7 G)) (\<lambda>u.
              bindE (liftE (item_SetID (uuid_String U u) item)) (\<lambda>item.
              returnE (itemModel\<lparr>im_ID := u\<rparr>, item)))
            else returnE (itemModel, item)) (\<lambda>(itemModel, item).
     bindE (g_SaveItem G (itemModel\<lparr>im_ServiceOrderID := orderID\<rparr>)) (\<lambda>_.
     returnE item)))"

definition save_order ::
  "'u uuid_lib \<Rightarrow> ('db, 'u) gorm \<Rightarrow> ServiceOrder \<Rightarrow> ('db, 'u \<times> ServiceOrder) prog" where
  "save_order U G order =
     bindE (liftE (FromDomain U order)) (\<lambda>model.
     if so_id order = '''' then
       bindE (answered (g_NewV7 G)) (\<lambda>u.
       bindE (g_CreateOrder G (model\<lparr>om_ID := u\<rparr>)) (\<lambda>_.
       bindE (liftE (SetID (uuid_String U u) order)) (\<lambda>order.
       returnE (u, order\<lparr>so_items := map (\<lambda>item.
         case SetServiceOrderID (uuid_String U u) item of Inl _ \<Rightarrow> item | Inr item \<Rightarrow> item) (so_items order)\<rparr>))))
     else bindE (g_SaveOrder G model) (\<lambda>_. returnE (om_ID model, order)))"

definition save_in_transaction ::
  "'u uuid_lib \<Rightarrow> ('db, 'u) gorm \<Rightarrow> ServiceOrder \<Rightarrow> ('db, ServiceOrder) prog" where
  "save_in_transaction U G order =
     bindE (save_order U G order) (\<lambda>(modelID, order).
     bindE (g_FindItemsUnscoped G modelID) (\<lambda>existingItems.
     let currentItemIDs = filter (\<lambda>i. i \<noteq> '''') (map item_id (so_items order)) in
     bindE (foreachE existingItems (\<lambda>existingItem.
              if uuid_String U (im_ID existingItem) \<notin> set currentItemIDs \<and> im_DeletedAt existingItem = None
              then g_DeleteItem G existingItem else returnE ())) (\<lambda>_.
     bindE (mapE (save_item U G modelID) (so_items order)) (\<lambda>items.
     returnE (order\<lparr>so_items := items\<rparr>)))))"

definition repo_impl_SaveWithItems ::
  "'u uuid_lib \<Rightarrow> ('db, 'u) gorm \<Rightarrow> ServiceOrder \<Rightarrow> ('db, ServiceOrder) prog" where
  "repo_impl_SaveWithItems U G order = g_Transaction G (save_in_transaction U G order)"

definition repo_impl_Save ::
  "'u uuid_lib \<Rightarrow> ('db, 'u) gorm \<Rightarrow> ServiceOrder \<Rightarrow> ('db, ServiceOrder) prog" where
  "repo_impl_Save U G order = repo_impl_SaveWithItems U G order"

subsection \<open>The repository: reading\<close>

text \<open>The clock is read whether or not the conversion needs it.\<close>

definition load_order ::
  "'u uuid_lib \<Rightarrow> ('db, 'u) gorm \<Rightarrow> 'u ServiceOrderModel \<Rightarrow> ('db, ServiceOrder) prog" where
  "load_order U G m = bindE (answered (g_Now G)) (\<lambda>now. liftE (ToDomainWithItems U now m))"

definition repo_impl_FindByIDWithItems ::
  "'u uuid_lib \<Rightarrow> ('db, 'u) gorm \<Rightarrow> string \<Rightarrow> ('db, ServiceOrder) prog" where
  "repo_impl_FindByIDWithItems U G i =
     (case uuid_Parse U i of
        Inl _ \<Rightarrow> throwE (ErrorString ''invalid UUID'')
      | Inr uid \<Rightarrow>
          bindE (g_First G uid) (\<lambda>found.
          case found of
            None \<Rightarrow> throwE ErrServiceOrderNotFound
          | Some model \<Rightarrow> load_order U G model))"

definition repo_impl_FindByID ::
  "'u uuid_lib \<Rightarrow> ('db, 'u) gorm \<Rightarrow> string \<Rightarrow> ('db, ServiceOrder) prog" where
  "repo_impl_FindByID U G i = repo_impl_FindByIDWithItems U G i"

definition load_orders ::
  "'u uuid_lib \<Rightarrow> ('db, 'u) gorm \<Rightarrow> 'u order_query \<Rightarrow> ('db, ServiceOrder list) prog" where
  "load_orders U G q = bindE (g_Find G q) (mapE (load_order U G))"

definition all_orders :: "'u order_query" where
  "all_orders = \<lparr>q_customer_id = None, q_status = None, q_status_not_in = [], q_saga_status = None,
     q_Order = [CreatedAt_DESC]\<rparr>"

definition repo_impl_FindAll :: "'u uuid_lib \<Rightarrow> ('db, 'u) gorm \<Rightarrow> ('db, ServiceOrder list) prog" where
  "repo_impl_FindAll U G = load_orders U G all_orders"

definition hidden_statuses :: "string list" where
  "hidden_statuses = [''COMPLETED'', ''AWAITING_PAYMENT'', ''PAID'', ''DELIVERED'', ''AUTHORIZATION_DENIED'']"

text \<open>The \<^verbatim>\<open>CASE\<close> expression of the ordering by status.\<close>

definition status_rank :: "string \<Rightarrow> nat" where
  "status_rank status =
     (if status = ''RECEIVED'' then 1
      else if status = ''DIAGNOSING'' then 2
      else if status = ''PENDING_AUTHORIZATION'' then 3
      else if status = ''AUTHORIZED'' then 4
      else if status = ''IN_PROGRESS'' then 5
      else if status = ''COMPLETED'' then 6
      else if status = ''AWAITING_PAYMENT'' then 7
      else if status = ''PAID'' then 8
      else if status = ''DELIVERED'' then 9
      else if status = ''CANCELED'' then 10
      else if status = ''AUTHORIZATION_DENIED'' then 11
      else 12)"

definition repo_impl_FindAllWithFilters ::
  "'u uuid_lib \<Rightarrow> ('db, 'u) gorm \<Rightarrow> RepositoryFilters \<Rightarrow> ('db, ServiceOrder list) prog" where
  "repo_impl_FindAllWithFilters U G filters =
     bindE (case f_CustomerID filters of
              None \<Rightarrow> returnE None
            | Some c \<Rightarrow> if c = '''' then returnE None
                        else (case uuid_Parse U c of
                                Inl _ \<Rightarrow> throwE (ErrorString ''invalid customer UUID'')
                              | Inr uid \<Rightarrow> returnE (Some uid))) (\<lambda>customer.
     load_orders U G
       \<lparr>q_customer_id = customer,
        q_status = map_option status_String (f_Status filters),
        q_status_not_in = (if f_HideCompleted filters then hidden_statuses else []),
        q_saga_status = None,
        q_Order = (if f_SortByStatus filters then [StatusRank_ASC, CreatedAt_ASC] else [CreatedAt_DESC])\<rparr>)"

definition repo_impl_FindByCustomerID ::
  "'u uuid_lib \<Rightarrow> ('db, 'u) gorm \<Rightarrow> string \<Rightarrow> ('db, ServiceOrder list) prog" where
  "repo_impl_FindByCustomerID U G customerID =
     (case uuid_Parse U customerID of
        Inl _ \<Rightarrow> throwE (ErrorString ''invalid customer UUID'')
      | Inr uid \<Rightarrow> load_orders U G (all_orders\<lparr>q_customer_id := Some uid\<rparr>))"

definition repo_impl_FindByStatus ::
  "'u uuid_lib \<Rightarrow> ('db, 'u) gorm \<Rightarrow> OrderStatus \<Rightarrow> ('db, ServiceOrder list) prog" where
  "repo_impl_FindByStatus U G status =
     load_orders U G (all_orders\<lparr>q_status := Some (status_String status)\<rparr>)"

definition repo_impl_FindBySagaStatus ::
  "'u uuid_lib \<Rightarrow> ('db, 'u) gorm \<Rightarrow> string \<Rightarrow> ('db, ServiceOrder list) prog" where
  "repo_impl_FindBySagaStatus U G sagaStatus =
     load_orders U G (all_orders\<lparr>q_saga_status := Some sagaStatus, q_Order := [UpdatedAt_ASC]\<rparr>)"

subsection \<open>The methods nothing calls\<close>

definition repo_impl_Delete :: "'u uuid_lib \<Rightarrow> ('db, 'u) gorm \<Rightarrow> string \<Rightarrow> ('db, unit) prog" where
  "repo_impl_Delete U G i =
     (case uuid_Parse U i of
        Inl _ \<Rightarrow> throwE (ErrorString ''invalid UUID'')
      | Inr uid \<Rightarrow>
          bindE (g_First G uid) (\<lambda>found.
          case found of
            None \<Rightarrow> throwE ErrServiceOrderNotFound
          | Some model \<Rightarrow> g_DeleteOrder G model))"

definition repo_impl_UpdateItemsHistoryID ::
  "'u uuid_lib \<Rightarrow> ('db, 'u) gorm \<Rightarrow> string list \<Rightarrow> string \<Rightarrow> ('db, unit) prog" where
  "repo_impl_UpdateItemsHistoryID U G itemIDs historyID =
     (if itemIDs = [] then returnE ()
      else case uuid_Parse U historyID of
        Inl _ \<Rightarrow> throwE (ErrorString ''invalid history UUID'')
      | Inr historyUUID \<Rightarrow>
          bindE (mapE (\<lambda>itemID. case uuid_Parse U itemID of
                    Inl _ \<Rightarrow> throwE (ErrorString (''invalid item UUID '' @ itemID))
                  | Inr u \<Rightarrow> returnE u) itemIDs) (\<lambda>itemUUIDs.
          g_UpdateHistoryID G itemUUIDs historyUUID))"

text \<open>The implementation as the interface \<^verbatim>\<open>service_order.Repository\<close>.\<close>

definition ServiceOrderRepositoryImpl :: "'u uuid_lib \<Rightarrow> ('db, 'u) gorm \<Rightarrow> 'db Repository" where
  "ServiceOrderRepositoryImpl U G =
     \<lparr>repo_Save = repo_impl_Save U G, repo_SaveWithItems = repo_impl_SaveWithItems U G,
      repo_FindByID = repo_impl_FindByID U G, repo_FindByIDWithItems = repo_impl_FindByIDWithItems U G,
      repo_FindAllWithFilters = repo_impl_FindAllWithFilters U G,
      repo_FindByCustomerID = repo_impl_FindByCustomerID U G,
      repo_FindBySagaStatus = repo_impl_FindBySagaStatus U G\<rparr>"

end
