(* ===== verification/Gorm_Contract.thy ===== *)
theory Gorm_Contract
  imports Persistence Repository_Contract
begin

text \<open>
  What the repository relies on of its libraries, as the locale \<open>gorm_db\<close>: a UUID is printed and parsed
  back, a generated one is not in use, and the statements of \<^verbatim>\<open>gorm\<close> have their documented effect on the two
  tables. The tables are seen through \<open>orders\<close> and \<open>items\<close>: primary key to row. The database may round a
  time and sets \<open>updated_at\<close> itself, so nothing is said about the times of a row but whether they are there.

  The second half says what a row means: \<open>stored_view\<close>, the abstract order behind the rows.
\<close>

subsection \<open>Rows as they are stored\<close>

definition order_stored :: "'u ServiceOrderModel \<Rightarrow> 'u ServiceOrderModel \<Rightarrow> bool" where
  "order_stored m r \<longleftrightarrow>
     (\<exists>saga c ca ua d. r = m\<lparr>om_SagaStatus := saga, om_ClosedAt := c, om_CreatedAt := ca, om_UpdatedAt := ua,
        om_DeletedAt := d, om_Items := []\<rparr> \<and>
        (saga = om_SagaStatus m \<or> om_SagaStatus m = '''' \<and> saga = ''IDLE'') \<and>
        (c = None \<longleftrightarrow> om_ClosedAt m = None) \<and> (d = None \<longleftrightarrow> om_DeletedAt m = None))"

definition item_stored :: "'u ServiceOrderItemModel \<Rightarrow> 'u ServiceOrderItemModel \<Rightarrow> bool" where
  "item_stored m r \<longleftrightarrow>
     (\<exists>ca ua d. r = m\<lparr>im_CreatedAt := ca, im_UpdatedAt := ua, im_DeletedAt := d\<rparr> \<and>
        (d = None \<longleftrightarrow> im_DeletedAt m = None))"

text \<open>The live rows of an order's lines.\<close>

definition live_lines :: "('u \<Rightarrow> 'u ServiceOrderItemModel option) \<Rightarrow> 'u \<Rightarrow> 'u ServiceOrderItemModel set" where
  "live_lines items u = {i. (\<exists>k. items k = Some i) \<and> im_ServiceOrderID i = u \<and> im_DeletedAt i = None}"

definition rows_listed :: "'u ServiceOrderItemModel list \<Rightarrow> 'u ServiceOrderItemModel set \<Rightarrow> bool" where
  "rows_listed is I \<longleftrightarrow> distinct (map im_ID is) \<and> set is = I"

text \<open>An order that is not soft-deleted, with its lines loaded.\<close>

definition preloaded ::
  "('u \<Rightarrow> 'u ServiceOrderModel option) \<Rightarrow> ('u \<Rightarrow> 'u ServiceOrderItemModel option) \<Rightarrow>
   'u ServiceOrderModel \<Rightarrow> bool" where
  "preloaded orders items m \<longleftrightarrow> (\<exists>r. orders (om_ID m) = Some r \<and> om_DeletedAt r = None \<and>
     (\<exists>is. m = r\<lparr>om_Items := is\<rparr> \<and> rows_listed is (live_lines items (om_ID m))))"

definition selected :: "'u order_query \<Rightarrow> 'u ServiceOrderModel \<Rightarrow> bool" where
  "selected q m \<longleftrightarrow>
     (\<forall>c. q_customer_id q = Some c \<longrightarrow> om_CustomerID m = c) \<and>
     (\<forall>s. q_status q = Some s \<longrightarrow> om_Status m = s) \<and> om_Status m \<notin> set (q_status_not_in q) \<and>
     (\<forall>s. q_saga_status q = Some s \<longrightarrow> om_SagaStatus m = s)"

text \<open>The lexicographic order of a list of keys.\<close>

fun key_le :: "order_key \<Rightarrow> 'u ServiceOrderModel \<Rightarrow> 'u ServiceOrderModel \<Rightarrow> bool" where
  "key_le CreatedAt_ASC a b \<longleftrightarrow> om_CreatedAt a \<le> om_CreatedAt b"
| "key_le CreatedAt_DESC a b \<longleftrightarrow> om_CreatedAt b \<le> om_CreatedAt a"
| "key_le UpdatedAt_ASC a b \<longleftrightarrow> om_UpdatedAt a \<le> om_UpdatedAt b"
| "key_le StatusRank_ASC a b \<longleftrightarrow> status_rank (om_Status a) \<le> status_rank (om_Status b)"

fun keys_le :: "order_key list \<Rightarrow> 'u ServiceOrderModel \<Rightarrow> 'u ServiceOrderModel \<Rightarrow> bool" where
  "keys_le [] a b \<longleftrightarrow> True"
| "keys_le (k # ks) a b \<longleftrightarrow> key_le k a b \<and> (key_le k b a \<longrightarrow> keys_le ks a b)"

subsection \<open>The contract\<close>

locale gorm_db =
  fixes U :: "'u uuid_lib"
    and G :: "('db, 'u) gorm"
    and orders :: "'db \<Rightarrow> 'u \<Rightarrow> 'u ServiceOrderModel option"
    and items :: "'db \<Rightarrow> 'u \<Rightarrow> 'u ServiceOrderItemModel option"
  assumes parse_String: "uuid_Parse U (uuid_String U u) = Inr u"
    and parse_empty: "\<exists>e. uuid_Parse U '''' = Inl e"
    and String_nonempty: "uuid_String U u \<noteq> ''''"
    and order_key: "orders db u = Some m \<Longrightarrow> om_ID m = u"
    and item_key: "items db u = Some i \<Longrightarrow> im_ID i = u"
    and now: "g_Now G db = (t, db') \<Longrightarrow> orders db' = orders db \<and> items db' = items db"
    and generated: "g_NewV7 G db = (u, db') \<Longrightarrow>
      orders db' = orders db \<and> items db' = items db \<and> items db u = None"
    and transaction_commit: "g_Transaction G f db = (Inr s, db') \<Longrightarrow>
      (\<exists>tx tx'. orders tx = orders db \<and> items tx = items db \<and> f tx = (Inr s, tx') \<and>
         orders db' = orders tx' \<and> items db' = items tx')"
    and transaction_rollback: "g_Transaction G f db = (Inl e, db') \<Longrightarrow>
      orders db' = orders db \<and> items db' = items db"
    and created: "g_CreateOrder G m db = (Inr x, db') \<Longrightarrow> om_Items m = [] \<Longrightarrow>
      orders db (om_ID m) = None \<and> items db' = items db \<and>
      (\<exists>r. order_stored m r \<and> orders db' = (orders db)(om_ID m \<mapsto> r))"
    and saved: "g_SaveOrder G m db = (Inr x, db') \<Longrightarrow> om_Items m = [] \<Longrightarrow>
      items db' = items db \<and> (\<exists>r. order_stored m r \<and> orders db' = (orders db)(om_ID m \<mapsto> r))"
    and item_saved: "g_SaveItem G i db = (Inr x, db') \<Longrightarrow>
      orders db' = orders db \<and> (\<exists>r. item_stored i r \<and> items db' = (items db)(im_ID i \<mapsto> r))"
    and item_deleted: "g_DeleteItem G i db = (Inr x, db') \<Longrightarrow> items db (im_ID i) = Some i' \<Longrightarrow>
      im_DeletedAt i' = None \<Longrightarrow>
      orders db' = orders db \<and> (\<exists>t. items db' = (items db)(im_ID i \<mapsto> i'\<lparr>im_DeletedAt := Some t\<rparr>))"
    and items_found: "g_FindItemsUnscoped G u db = (Inr is, db') \<Longrightarrow>
      orders db' = orders db \<and> items db' = items db \<and>
      rows_listed is {i. (\<exists>k. items db k = Some i) \<and> im_ServiceOrderID i = u}"
    and first_frame: "g_First G u db = (row, db') \<Longrightarrow> orders db' = orders db \<and> items db' = items db"
    and first_error: "g_First G u db = (Inl e, db') \<Longrightarrow> e \<noteq> ErrServiceOrderNotFound"
    and first_found: "g_First G u db = (Inr (Some m), db') \<Longrightarrow>
      om_ID m = u \<and> preloaded (orders db) (items db) m"
    and first_missing: "g_First G u db = (Inr None, db') \<Longrightarrow> orders db u = Some m \<Longrightarrow> om_DeletedAt m \<noteq> None"
    and find_frame: "g_Find G q db = (found, db') \<Longrightarrow> orders db' = orders db \<and> items db' = items db"
    and find_found: "g_Find G q db = (Inr ms, db') \<Longrightarrow>
      distinct (map om_ID ms) \<and> sorted_wrt (keys_le (q_Order q)) ms \<and>
      (\<forall>m \<in> set ms. preloaded (orders db) (items db) m \<and> selected q m) \<and>
      (\<forall>u r. orders db u = Some r \<longrightarrow> om_DeletedAt r = None \<longrightarrow> selected q r \<longrightarrow> u \<in> om_ID ` set ms)"

subsection \<open>The order behind the rows\<close>

definition uuid_canon :: "'u uuid_lib \<Rightarrow> string \<Rightarrow> string option" where
  "uuid_canon U s = (case uuid_Parse U s of Inl _ \<Rightarrow> None | Inr u \<Rightarrow> Some (uuid_String U u))"

definition row_item :: "'u uuid_lib \<Rightarrow> 'u ServiceOrderItemModel \<Rightarrow> item_view" where
  "row_item U i = \<lparr>iv_itemType = ItemType_of (im_ItemType i), iv_referenceID = uuid_String U (im_ReferenceID i),
     iv_name = im_Name i, iv_quantity = im_Quantity i, iv_unitPrice = im_UnitPrice i\<rparr>"

text \<open>\<open>None\<close> for a row that cannot be read: of an unknown status or with a line of an unknown type.\<close>

definition row_view ::
  "'u uuid_lib \<Rightarrow> 'u ServiceOrderModel \<Rightarrow> 'u ServiceOrderItemModel set \<Rightarrow> order_view option" where
  "row_view U r lines =
     (case (NewOrderStatus (om_Status r), orderStatusPtr (om_SagaTargetStatus r)) of
        (Inr status, Inr target) \<Rightarrow>
          if \<forall>i \<in> lines. itemType_IsValid (ItemType_of (im_ItemType i)) then
            Some \<lparr>v_customerID = uuid_String U (om_CustomerID r), v_vehicleID = uuid_String U (om_VehicleID r),
              v_description = om_Description r, v_status = status,
              v_sagaStatus = (if om_SagaStatus r = '''' then SagaStatusIdle else om_SagaStatus r),
              v_currentSagaID = uuidPtrString U (om_CurrentSagaID r), v_sagaTargetStatus = target,
              v_sagaNotes = om_SagaNotes r, v_mpPreferenceID = om_MPOrderID r,
              v_mpPaymentID = om_MPPaymentID r, v_paymentURL = om_PaymentURL r,
              v_customerEmail = (case om_CustomerEmail r of None \<Rightarrow> '''' | Some e \<Rightarrow> e),
              v_customerName = (case om_CustomerName r of None \<Rightarrow> '''' | Some n \<Rightarrow> n),
              v_items = image_mset (row_item U) (mset_set lines),
              v_line_ids = uuid_String U ` im_ID ` lines, v_closed = (om_ClosedAt r \<noteq> None)\<rparr>
          else None
      | _ \<Rightarrow> None)"

definition stored_view ::
  "'u uuid_lib \<Rightarrow> ('u \<Rightarrow> 'u ServiceOrderModel option) \<Rightarrow> ('u \<Rightarrow> 'u ServiceOrderItemModel option) \<Rightarrow>
   string \<Rightarrow> order_view option" where
  "stored_view U orders items j =
     (case uuid_Parse U j of
        Inl _ \<Rightarrow> None
      | Inr u \<Rightarrow>
          if uuid_String U u \<noteq> j then None
          else (case orders u of
                  None \<Rightarrow> None
                | Some r \<Rightarrow> if om_DeletedAt r \<noteq> None then None else row_view U r (live_lines items u)))"

end
