(* ===== verification/Persistence_Correct.thy ===== *)
theory Persistence_Correct
  imports Gorm_Contract
begin

text \<open>
  The repository does what the application relies on: under the contract of \<^verbatim>\<open>gorm\<close> the implementation is an
  \<open>order_repository\<close>, with the order behind the rows as the view.
\<close>

subsection \<open>Steps that may fail\<close>

lemma andThen_Inr: "andThen r f = Inr y \<longleftrightarrow> (\<exists>x. r = Inr x \<and> f x = Inr y)"
  by (simp add: andThen_def split: sum.split)

lemma andThen_Inl: "andThen r f = Inl e \<longleftrightarrow> r = Inl e \<or> (\<exists>x. r = Inr x \<and> f x = Inl e)"
  by (auto simp: andThen_def split: sum.split)

lemma andThen_simps [simp]: "andThen (Inr x) f = f x" "andThen (Inl e) f = Inl e"
  by (simp_all add: andThen_def)

lemma mapR_Inr: "mapR f xs = Inr ys \<longleftrightarrow> list_all2 (\<lambda>x y. f x = Inr y) xs ys"
  by (induction xs arbitrary: ys) (auto simp: andThen_Inr list_all2_Cons1)

lemma mapR_Inl: "mapR f xs = Inl e \<Longrightarrow> \<exists>x \<in> set xs. f x = Inl e"
  by (induction xs) (auto simp: andThen_Inl)

lemma mapE_Inr:
  "mapE f (x # xs) w = (Inr ys, w') \<longleftrightarrow>
     (\<exists>y zs w1. f x w = (Inr y, w1) \<and> mapE f xs w1 = (Inr zs, w') \<and> ys = y # zs)"
  by (auto simp: bindE_Inr_iff)

subsection \<open>Reading a row\<close>

lemma item_ToDomain_Inr:
  assumes "item_ToDomain U i = Inr s"
  shows "itemType_IsValid (ItemType_of (im_ItemType i))" and "abs_item s = row_item U i"
    and "item_id s = uuid_String U (im_ID i)" and "item_IsDeleted s \<longleftrightarrow> im_DeletedAt i \<noteq> None"
    and "itemType_IsValid (item_itemType s)"
  using assms by (auto simp: item_ToDomain_def ReconstructServiceOrderItem_def abs_item_def row_item_def
      item_IsDeleted_def Let_def split: if_splits)

lemma item_ToDomain_Inl: "item_ToDomain U i = Inl e \<Longrightarrow> \<not> itemType_IsValid (ItemType_of (im_ItemType i))"
  by (auto simp: item_ToDomain_def Let_def split: if_splits)

lemma items_ToDomain:
  assumes "mapR (item_ToDomain U) is = Inr ss"
  shows "map abs_item ss = map (row_item U) is" and "map item_id ss = map (uuid_String U \<circ> im_ID) is"
    and "\<forall>i \<in> set is. itemType_IsValid (ItemType_of (im_ItemType i))"
    and "\<forall>s \<in> set ss. itemType_IsValid (item_itemType s)"
    and "\<forall>i \<in> set is. im_DeletedAt i = None \<Longrightarrow> active ss = ss"
proof -
  from assms have "list_all2 (\<lambda>i s. item_ToDomain U i = Inr s) is ss" by (simp add: mapR_Inr)
  then have "map abs_item ss = map (row_item U) is \<and> map item_id ss = map (uuid_String U \<circ> im_ID) is \<and>
      (\<forall>i \<in> set is. itemType_IsValid (ItemType_of (im_ItemType i))) \<and>
      (\<forall>s \<in> set ss. itemType_IsValid (item_itemType s)) \<and>
      ((\<forall>i \<in> set is. im_DeletedAt i = None) \<longrightarrow> active ss = ss)"
    by (induction rule: list_all2_induct) (auto dest: item_ToDomain_Inr)
  then show "map abs_item ss = map (row_item U) is" and "map item_id ss = map (uuid_String U \<circ> im_ID) is"
    and "\<forall>i \<in> set is. itemType_IsValid (ItemType_of (im_ItemType i))"
    and "\<forall>s \<in> set ss. itemType_IsValid (item_itemType s)"
    and "\<forall>i \<in> set is. im_DeletedAt i = None \<Longrightarrow> active ss = ss" by auto
qed

lemma orderStatusPtr_Inr:
  assumes "orderStatusPtr p = Inr t"
  shows "t = Some s \<Longrightarrow> status_IsValid s"
  using assms by (auto simp: orderStatusPtr_def andThen_Inr NewOrderStatus_Inr_iff split: option.splits if_splits)

context gorm_db
begin

lemma String_inj: "uuid_String U u = uuid_String U v \<longleftrightarrow> u = v"
  by (metis parse_String sum.inject(2))

lemma ToDomain_Inr:
  assumes read: "ToDomainWithItems U now (r\<lparr>om_Items := is\<rparr>) = Inr s"
    and rows: "rows_listed is L" and live: "\<forall>i \<in> L. im_DeletedAt i = None" and "om_DeletedAt r = None"
  shows "row_view U r L = Some (abs_order s)" and "loaded s" and "so_id s = uuid_String U (om_ID r)"
proof -
  from read obtain st target ss where st: "NewOrderStatus (om_Status r) = Inr st"
    and target: "orderStatusPtr (om_SagaTargetStatus r) = Inr target"
    and ss: "mapR (item_ToDomain U) is = Inr ss"
    and rec: "reconstructed U now (r\<lparr>om_Items := is\<rparr>) st target ss = Inr s"
    by (auto simp: ToDomainWithItems_def andThen_Inr)
  note i = items_ToDomain [OF ss]
  have L: "L = set is" and d: "distinct (map im_ID is)" using rows by (auto simp: rows_listed_def)
  have act: "active ss = ss" using i(5) live L by simp
  have items: "abs_items ss = image_mset (row_item U) (mset_set L)"
    using i(1) d by (simp add: abs_items_def act L distinct_map mset_set_set flip: mset_map)
  have ids: "set (map item_id ss) = uuid_String U ` im_ID ` L" unfolding i(2) L by (simp add: image_comp)
  have ne: "'''' \<notin> item_id ` set ss" using ids String_nonempty by (metis imageE list.set_map)
  have v: "status_IsValid st" using st by (simp add: NewOrderStatus_Inr_iff)
  have s: "s = \<lparr>so_id = uuid_String U (om_ID r), so_customerID = uuid_String U (om_CustomerID r),
      so_vehicleID = uuid_String U (om_VehicleID r), so_description = om_Description r, so_status = st,
      so_sagaStatus = (if om_SagaStatus r = '''' then SagaStatusIdle else om_SagaStatus r),
      so_currentSagaID = uuidPtrString U (om_CurrentSagaID r), so_sagaTargetStatus = target,
      so_sagaNotes = om_SagaNotes r, so_mpPreferenceID = om_MPOrderID r, so_mpPaymentID = om_MPPaymentID r,
      so_paymentURL = om_PaymentURL r,
      so_customerEmail = (case om_CustomerEmail r of None \<Rightarrow> '''' | Some e \<Rightarrow> e),
      so_customerName = (case om_CustomerName r of None \<Rightarrow> '''' | Some n \<Rightarrow> n), so_items = ss,
      so_closedAt = om_ClosedAt r, so_createdAt = om_CreatedAt r,
      so_updatedAt = (if om_CustomerEmail r \<noteq> None \<or> om_CustomerName r \<noteq> None then now else om_UpdatedAt r),
      so_deletedAt = om_DeletedAt r\<rparr>"
    using rec by (auto simp: reconstructed_def andThen_Inr ReconstructServiceOrder_def
        SetCustomerSnapshot_def split: if_splits)
  show "so_id s = uuid_String U (om_ID r)" by (simp add: s)
  show "row_view U r L = Some (abs_order s)"
    using st target i(3) items ids by (simp add: row_view_def abs_order_def s L act line_ids_all [OF ne] image_comp)
  show "loaded s"
    using v assms(4) i(2,4) act ne d String_nonempty orderStatusPtr_Inr [OF target]
    by (auto simp: loaded_def storable_def s distinct_map comp_inj_on_iff inj_on_def String_inj)
qed

lemma ToDomain_Inl:
  assumes "ToDomainWithItems U now (r\<lparr>om_Items := is\<rparr>) = Inl e" and "rows_listed is L"
  shows "row_view U r L = None"
proof -
  have "reconstructed U now m st t ss \<noteq> Inl e" if "NewOrderStatus (om_Status m) = Inr st" for m st t ss
    using that by (auto simp: reconstructed_def andThen_Inl ReconstructServiceOrder_def String_nonempty
        NewOrderStatus_Inr_iff)
  then show ?thesis using assms
    by (auto simp: ToDomainWithItems_def andThen_Inl row_view_def rows_listed_def
        dest!: mapR_Inl item_ToDomain_Inl split: sum.split)
qed

end

subsection \<open>Writing the lines\<close>

text \<open>A line of an order and the row it is saved as.\<close>

definition line_row :: "'u uuid_lib \<Rightarrow> 'u \<Rightarrow> ServiceOrderItem \<Rightarrow> 'u ServiceOrderItemModel \<Rightarrow> bool" where
  "line_row U u s r \<longleftrightarrow> item_id s = uuid_String U (im_ID r) \<and> im_ServiceOrderID r = u \<and>
     (im_DeletedAt r = None \<longleftrightarrow> \<not> item_IsDeleted s) \<and>
     uuid_Parse U (item_referenceID s) = Inr (im_ReferenceID r) \<and>
     im_ItemType r = itemType_string (item_itemType s) \<and> im_Name r = item_name s \<and>
     im_Quantity r = item_quantity s \<and> im_UnitPrice r = item_unitPrice s"

lemma line_row_view:
  "line_row U u s r \<Longrightarrow> itemType_IsValid (item_itemType s) \<Longrightarrow>
   row_item U r = (abs_item s)\<lparr>iv_referenceID := canonical (uuid_canon U) (item_referenceID s)\<rparr> \<and>
   itemType_IsValid (ItemType_of (im_ItemType r))"
  by (simp add: line_row_def row_item_def abs_item_def ItemType_of_string canonical_def uuid_canon_def)

lemma FromDomainItem_Inr:
  assumes "FromDomainItem U s = Inr m"
  shows "item_id s \<noteq> '''' \<Longrightarrow> uuid_Parse U (item_id s) = Inr (im_ID m)"
    and "uuid_Parse U (item_referenceID s) = Inr (im_ReferenceID m)"
    and "im_ItemType m = itemType_string (item_itemType s)" and "im_Name m = item_name s"
    and "im_Quantity m = item_quantity s" and "im_UnitPrice m = item_unitPrice s"
    and "im_DeletedAt m = item_deletedAt s"
  using assms by (auto simp: FromDomainItem_def andThen_Inr split: if_splits)

text \<open>A saved line: it has its old identifier, or a new one.\<close>

definition identified :: "ServiceOrderItem \<Rightarrow> ServiceOrderItem \<Rightarrow> bool" where
  "identified s s' \<longleftrightarrow> (\<exists>i. s' = s\<lparr>item_id := i\<rparr> \<and> (item_id s \<noteq> '''' \<longrightarrow> i = item_id s))"

context gorm_db
begin

lemma save_item_run:
  assumes run: "save_item U G u s db = (Inr s', db')"
    and own: "item_id s = '''' \<or> (\<exists>k. item_id s = uuid_String U k)"
  obtains r where "identified s s'" "line_row U u s' r" "orders db' = orders db"
    "items db' = (items db)(im_ID r \<mapsto> r)" "item_id s = '''' \<longrightarrow> items db (im_ID r) = None"
proof -
  from run obtain m where m: "FromDomainItem U s = Inr m"
    and rest: "bindE (if item_id s = '''' then
              bindE (answered (g_NewV7 G)) (\<lambda>u.
              bindE (liftE (item_SetID (uuid_String U u) s)) (\<lambda>item.
              returnE (m\<lparr>im_ID := u\<rparr>, item)))
            else returnE (m, s)) (\<lambda>(itemModel, item).
     bindE (g_SaveItem G (itemModel\<lparr>im_ServiceOrderID := u\<rparr>)) (\<lambda>_.
     returnE item)) db = (Inr s', db')"
    by (auto simp: save_item_def bindE_Inr_iff)
  note f = FromDomainItem_Inr [OF m] and finish = that
  have saved: thesis if "g_SaveItem G (m\<lparr>im_ID := k, im_ServiceOrderID := u\<rparr>) db1 = (Inr x, db')"
    "orders db1 = orders db" "items db1 = items db" "s' = s\<lparr>item_id := uuid_String U k\<rparr>"
    "item_id s \<noteq> '''' \<Longrightarrow> item_id s = uuid_String U k" "item_id s = '''' \<Longrightarrow> items db k = None" for k db1 x
  proof -
    from item_saved [OF that(1)] obtain r where r: "item_stored (m\<lparr>im_ID := k, im_ServiceOrderID := u\<rparr>) r"
      "items db' = (items db1)(k \<mapsto> r)" "orders db' = orders db1" by auto
    have rk: "im_ID r = k" using r(1) by (auto simp: item_stored_def)
    have "line_row U u s' r" using r(1) f that(4)
      by (auto simp: line_row_def item_stored_def item_IsDeleted_def)
    moreover have "identified s s'" using that(4,5) by (auto simp: identified_def)
    ultimately show thesis using r(2,3) rk that by (intro finish [of r]) auto
  qed
  show thesis
  proof (cases "item_id s = ''''")
    case True
    from rest True obtain k db1 where k: "g_NewV7 G db = (k, db1)"
      and sv: "g_SaveItem G (m\<lparr>im_ID := k, im_ServiceOrderID := u\<rparr>) db1 = (Inr (), db')"
      and s': "s' = s\<lparr>item_id := uuid_String U k\<rparr>"
      by (auto simp: answered_def bindE_Inr_iff item_SetID_def split: prod.splits if_splits)
    from generated [OF k] True saved [OF sv _ _ s'] show thesis by auto
  next
    case False
    with own obtain k where k: "item_id s = uuid_String U k" by auto
    with f(1) False have mk: "im_ID m = k" by (simp add: parse_String)
    from rest False have sv: "g_SaveItem G (m\<lparr>im_ServiceOrderID := u\<rparr>) db = (Inr (), db')" and s': "s' = s"
      by (auto simp: bindE_Inr_iff)
    have "m\<lparr>im_ServiceOrderID := u\<rparr> = m\<lparr>im_ID := k, im_ServiceOrderID := u\<rparr>" using mk by (cases m) simp
    with sv have sv': "g_SaveItem G (m\<lparr>im_ID := k, im_ServiceOrderID := u\<rparr>) db = (Inr (), db')" by simp
    show thesis by (rule saved [OF sv']) (use False k s' in auto)
  qed
qed

lemma save_items_run:
  assumes "mapE (save_item U G u) ss db = (Inr ss', db')" and "distinct (line_ids ss)"
    and "\<And>i. i \<in> set (line_ids ss) \<Longrightarrow> \<exists>k. i = uuid_String U k \<and> items db k \<noteq> None"
  shows "orders db' = orders db \<and> list_all2 identified ss ss' \<and> distinct (map item_id ss') \<and>
    (\<forall>s \<in> set ss'. \<exists>r. items db' (im_ID r) = Some r \<and> line_row U u s r) \<and>
    (\<forall>k. uuid_String U k \<notin> item_id ` set ss' \<longrightarrow> items db' k = items db k) \<and>
    (\<forall>s \<in> set ss'. item_id s \<in> set (line_ids ss) \<or> (\<exists>k. item_id s = uuid_String U k \<and> items db k = None))"
  using assms
proof (induction ss arbitrary: db ss')
  case (Cons s ss)
  from Cons.prems(1) obtain s' zs db1 where step: "save_item U G u s db = (Inr s', db1)"
    and rest: "mapE (save_item U G u) ss db1 = (Inr zs, db')" and ss': "ss' = s' # zs"
    unfolding mapE_Inr by blast
  have own: "item_id s = '''' \<or> (\<exists>k. item_id s = uuid_String U k)" using Cons.prems(3) [of "item_id s"] by (cases "item_id s = ''''") auto
  obtain r where r: "identified s s'" "line_row U u s' r" "orders db1 = orders db"
    "items db1 = (items db)(im_ID r \<mapsto> r)" "item_id s = '''' \<longrightarrow> items db (im_ID r) = None"
    by (rule save_item_run [OF step own])
  have d: "distinct (line_ids ss)" using Cons.prems(2) by (auto split: if_splits)
  have sub: "set (line_ids ss) \<subseteq> set (line_ids (s # ss))" by auto
  have o1: "\<exists>k. i = uuid_String U k \<and> items db1 k \<noteq> None" if "i \<in> set (line_ids ss)" for i
  proof -
    from that sub have "i \<in> set (line_ids (s # ss))" by blast
    from Cons.prems(3) [OF this] obtain k where "i = uuid_String U k" "items db k \<noteq> None" by blast
    with r(4) show ?thesis by (intro exI [of _ k]) simp
  qed
  note ih = Cons.IH [OF rest d o1]
  have id': "item_id s' = uuid_String U (im_ID r)" using r(2) by (simp add: line_row_def)
  have new: "item_id s' \<notin> set (line_ids ss)"
  proof (cases "item_id s = ''''")
    case True
    with r(5) Cons.prems(3) sub id' show ?thesis by (metis String_inj subsetD)
  next
    case False
    with r(1) Cons.prems(2) show ?thesis by (auto simp: identified_def)
  qed
  have fresh: "item_id s' \<notin> item_id ` set zs"
  proof
    assume "item_id s' \<in> item_id ` set zs"
    with ih new obtain k where "item_id s' = uuid_String U k" "items db1 k = None" by (metis imageE)
    with id' r(4) show False by (simp add: String_inj)
  qed
  have kept: "items db' (im_ID r) = Some r" using ih fresh id' r(4) by simp
  have "item_id s' \<in> set (line_ids (s # ss)) \<or> (\<exists>k. item_id s' = uuid_String U k \<and> items db k = None)"
    using r(1,5) id' by (cases "item_id s = ''''") (auto simp: identified_def)
  moreover have "item_id x \<in> set (line_ids (s # ss)) \<or> (\<exists>k. item_id x = uuid_String U k \<and> items db k = None)"
    if "x \<in> set zs" for x
    using ih that sub r(4) by (metis fun_upd_apply option.distinct(1) subsetD)
  ultimately have ids: "\<forall>x \<in> set ss'. item_id x \<in> set (line_ids (s # ss)) \<or>
      (\<exists>k. item_id x = uuid_String U k \<and> items db k = None)" unfolding ss' by simp
  have rows: "\<forall>x \<in> set ss'. \<exists>r. items db' (im_ID r) = Some r \<and> line_row U u x r"
    using ih kept r(2) unfolding ss' by (metis set_ConsD)
  have frame: "\<forall>k. uuid_String U k \<notin> item_id ` set ss' \<longrightarrow> items db' k = items db k"
    using ih r(4) id' unfolding ss' by auto
  show ?case
    using ih r(1,3) fresh by (intro conjI rows frame ids) (simp_all add: ss')
qed simp

end

subsection \<open>Removing the lines that are gone\<close>

context gorm_db
begin

lemma delete_rows_run:
  assumes "foreachE es (\<lambda>e. if uuid_String U (im_ID e) \<notin> ids \<and> im_DeletedAt e = None
      then g_DeleteItem G e else returnE ()) db = (Inr x, db')"
    and "distinct (map im_ID es)" and "\<forall>e \<in> set es. items db (im_ID e) = Some e"
  shows "orders db' = orders db \<and>
    (\<forall>e \<in> set es. uuid_String U (im_ID e) \<notin> ids \<and> im_DeletedAt e = None \<longrightarrow>
       (\<exists>t. items db' (im_ID e) = Some (e\<lparr>im_DeletedAt := Some t\<rparr>))) \<and>
    (\<forall>k. (\<forall>e \<in> set es. im_ID e = k \<longrightarrow> uuid_String U k \<in> ids \<or> im_DeletedAt e \<noteq> None) \<longrightarrow>
       items db' k = items db k)"
  using assms
proof (induction es arbitrary: db)
  case (Cons e es)
  let ?gone = "uuid_String U (im_ID e) \<notin> ids \<and> im_DeletedAt e = None"
  from Cons.prems(1) obtain db1 where step: "(if ?gone then g_DeleteItem G e else returnE ()) db = (Inr (), db1)"
    and rest: "foreachE es (\<lambda>e. if uuid_String U (im_ID e) \<notin> ids \<and> im_DeletedAt e = None
      then g_DeleteItem G e else returnE ()) db1 = (Inr x, db')"
    by (auto simp: bindE_Inr_iff)
  have e: "items db (im_ID e) = Some e" using Cons.prems(3) by simp
  have one: "orders db1 = orders db \<and> (if ?gone
      then \<exists>t. items db1 = (items db)(im_ID e \<mapsto> e\<lparr>im_DeletedAt := Some t\<rparr>) else items db1 = items db)"
    using step item_deleted [OF _ e] by (cases ?gone) auto
  have out: "im_ID e' \<noteq> im_ID e" if "e' \<in> set es" for e'
    using Cons.prems(2) that by (auto simp: image_iff)
  have same: "items db1 k = items db k" if "k \<noteq> im_ID e" for k using one that by (auto split: if_splits)
  have r1: "\<forall>e' \<in> set es. items db1 (im_ID e') = Some e'" using same out Cons.prems(3) by simp
  note ih = Cons.IH [OF rest _ r1]
  have d: "distinct (map im_ID es)" using Cons.prems(2) by simp
  have kept: "items db' (im_ID e) = items db1 (im_ID e)" using ih d out by blast
  have gone: "\<exists>t. items db' (im_ID e) = Some (e\<lparr>im_DeletedAt := Some t\<rparr>)" if ?gone
    using one that unfolding kept by auto
  show ?case
  proof (intro conjI allI impI ballI)
    show "orders db' = orders db" using ih d one by simp
  next
    fix e' assume "e' \<in> set (e # es)" "uuid_String U (im_ID e') \<notin> ids \<and> im_DeletedAt e' = None"
    then show "\<exists>t. items db' (im_ID e') = Some (e'\<lparr>im_DeletedAt := Some t\<rparr>)" using gone ih d by auto
  next
    fix k assume k: "\<forall>e' \<in> set (e # es). im_ID e' = k \<longrightarrow> uuid_String U k \<in> ids \<or> im_DeletedAt e' \<noteq> None"
    then have "items db' k = items db1 k" using ih d by simp
    also have "\<dots> = items db k" using k one by (cases "k = im_ID e") (auto split: if_splits)
    finally show "items db' k = items db k" .
  qed
qed simp

end

subsection \<open>Saving an order\<close>

text \<open>A line that was told the identifier of its order.\<close>

definition assigned :: "ServiceOrderItem \<Rightarrow> ServiceOrderItem \<Rightarrow> bool" where
  "assigned s s' \<longleftrightarrow> (\<exists>u. s' = s\<lparr>item_serviceOrderID := u\<rparr>)"

lemma assigned_refl: "list_all2 assigned is is"
proof (rule list.rel_refl)
  fix i :: ServiceOrderItem
  have "i = i\<lparr>item_serviceOrderID := item_serviceOrderID i\<rparr>" by simp
  then show "assigned i i" unfolding assigned_def by (rule exI)
qed

context gorm_db
begin

lemma save_order_run:
  assumes run: "save_order U G s db = (Inr (u, s1), db1)"
  obtains m r i "is" where "FromDomain U s = Inr m" "order_stored (m\<lparr>om_ID := u\<rparr>) r"
    "orders db1 = (orders db)(u \<mapsto> r)" "items db1 = items db"
    "if so_id s = '''' then orders db u = None \<and> i = uuid_String U u
     else uuid_Parse U (so_id s) = Inr u \<and> i = so_id s"
    "s1 = s\<lparr>so_id := i, so_items := is\<rparr>" "list_all2 assigned (so_items s) is"
proof -
  from run obtain m where m: "FromDomain U s = Inr m" by (auto simp: save_order_def bindE_Inr_iff)
  have mi: "om_Items m = []" using m by (auto simp: FromDomain_def andThen_Inr)
  show thesis
  proof (cases "so_id s = ''''")
    case True
    from run m True obtain db0 s0 where k: "g_NewV7 G db = (u, db0)"
      and cr: "g_CreateOrder G (m\<lparr>om_ID := u\<rparr>) db0 = (Inr (), db1)"
      and s0: "SetID (uuid_String U u) s = Inr s0"
      and s1: "s1 = s0\<lparr>so_items := map (\<lambda>item. case SetServiceOrderID (uuid_String U u) item of
         Inl _ \<Rightarrow> item | Inr item \<Rightarrow> item) (so_items s0)\<rparr>"
      by (auto simp: save_order_def answered_def bindE_Inr_iff split: prod.splits)
    from created [OF cr] mi obtain r where r: "order_stored (m\<lparr>om_ID := u\<rparr>) r"
      "orders db0 u = None" "orders db1 = (orders db0)(u \<mapsto> r)" "items db1 = items db0" by auto
    have s0': "s0 = s\<lparr>so_id := uuid_String U u\<rparr>" using s0 by (auto simp: SetID_def split: if_splits)
    let ?is = "map (\<lambda>i. i\<lparr>item_serviceOrderID := uuid_String U u\<rparr>) (so_items s)"
    have "(case SetServiceOrderID (uuid_String U u) i of Inl _ \<Rightarrow> i | Inr i \<Rightarrow> i) =
        i\<lparr>item_serviceOrderID := uuid_String U u\<rparr>" for i
      by (simp add: SetServiceOrderID_def String_nonempty)
    then have s1': "s1 = s\<lparr>so_id := uuid_String U u, so_items := ?is\<rparr>" using s1 s0' by simp
    have as: "list_all2 assigned (so_items s) ?is"
      by (auto simp: list_all2_map2 assigned_def intro!: list.rel_refl)
    show thesis
      by (rule that [OF m r(1) _ _ _ s1' as]) (use r generated [OF k] True in simp_all)
  next
    case False
    from run m False have sv: "g_SaveOrder G m db = (Inr (), db1)" and u: "u = om_ID m" and s1: "s1 = s"
      by (auto simp: save_order_def bindE_Inr_iff)
    from saved [OF sv mi] obtain r where r: "order_stored m r" "orders db1 = (orders db)(u \<mapsto> r)"
      "items db1 = items db" unfolding u by blast
    have "m\<lparr>om_ID := u\<rparr> = m" by (simp add: u)
    with r(1) have r1: "order_stored (m\<lparr>om_ID := u\<rparr>) r" by simp
    have p: "uuid_Parse U (so_id s) = Inr u" using m False u by (auto simp: FromDomain_def andThen_Inr)
    have s1': "s1 = s\<lparr>so_id := so_id s, so_items := so_items s\<rparr>" using s1 by simp
    show thesis by (rule that [OF m r1 r(2,3) _ s1' assigned_refl]) (use False p in simp)
  qed
qed

end

text \<open>A line and the same line after its order was saved.\<close>

definition resaved :: "ServiceOrderItem \<Rightarrow> ServiceOrderItem \<Rightarrow> bool" where
  "resaved i i' \<longleftrightarrow> (\<exists>j u. i' = i\<lparr>item_id := j, item_serviceOrderID := u\<rparr> \<and>
     (item_id i \<noteq> '''' \<longrightarrow> j = item_id i))"

lemma resaved_lines:
  assumes "list_all2 resaved is is'"
  shows "map abs_item (active is') = map abs_item (active is)"
    and "map item_itemType (active is') = map item_itemType (active is)"
    and "'''' \<notin> item_id ` set (active is) \<Longrightarrow> map item_id (active is') = map item_id (active is)"
    and "set (line_ids is) \<subseteq> set (line_ids is')"
proof -
  have "map abs_item (active is') = map abs_item (active is) \<and>
      map item_itemType (active is') = map item_itemType (active is) \<and>
      ('''' \<notin> item_id ` set (active is) \<longrightarrow> map item_id (active is') = map item_id (active is)) \<and>
      set (line_ids is) \<subseteq> set (line_ids is')"
    using assms
    by (induction rule: list_all2_induct) (auto simp: resaved_def abs_item_def item_IsDeleted_def)
  then show "map abs_item (active is') = map abs_item (active is)"
    and "map item_itemType (active is') = map item_itemType (active is)"
    and "'''' \<notin> item_id ` set (active is) \<Longrightarrow> map item_id (active is') = map item_id (active is)"
    and "set (line_ids is) \<subseteq> set (line_ids is')" by auto
qed

lemma resaved_numbered:
  assumes "s' = s\<lparr>so_id := i, so_items := is'\<rparr>" and "list_all2 resaved (so_items s) is'"
  shows "numbered s s'"
proof -
  note l = resaved_lines [OF assms(2)]
  have "abs_items is' = abs_items (so_items s)"
    unfolding abs_items_def by (simp only: l(1) flip: mset_map)
  moreover have "set (line_ids (active is')) = set (line_ids (active (so_items s)))"
    if "'''' \<notin> item_id ` set (active (so_items s))"
    unfolding set_line_ids by (metis l(3) [OF that] list.set_map)
  ultimately show ?thesis unfolding numbered_def assms(1) by (auto simp: abs_order_def)
qed

lemma resaved_step: "assigned a b \<Longrightarrow> identified b c \<Longrightarrow> resaved a c"
proof -
  assume "assigned a b" "identified b c"
  then obtain u j where b: "b = a\<lparr>item_serviceOrderID := u\<rparr>" and c: "c = b\<lparr>item_id := j\<rparr>"
    and j: "item_id b \<noteq> '''' \<longrightarrow> j = item_id b" unfolding assigned_def identified_def by blast
  have "c = a\<lparr>item_id := j, item_serviceOrderID := u\<rparr>" unfolding c b by (cases a) simp
  moreover have "item_id b = item_id a" by (simp add: b)
  ultimately show "resaved a c" using j unfolding resaved_def by metis
qed

lemma resaved_compose:
  assumes "list_all2 assigned is is1"
    and "list_all2 identified is1 is2"
  shows "list_all2 resaved is is2" and "line_ids is1 = line_ids is"
proof -
  show "line_ids is1 = line_ids is" using assms(1)
    by (induction rule: list_all2_induct) (auto simp: assigned_def)
  show "list_all2 resaved is is2"
    by (rule list_all2_trans [OF _ assms]) (rule resaved_step)
qed

context gorm_db
begin

text \<open>The rows after a save, from those before it.\<close>

lemma save_in_transaction_run:
  assumes run: "save_in_transaction U G s db = (Inr s', db')"
    and d: "distinct (line_ids (so_items s))"
    and own: "\<And>i u. i \<in> set (line_ids (so_items s)) \<Longrightarrow> uuid_Parse U (so_id s) = Inr u \<Longrightarrow>
      \<exists>k r. i = uuid_String U k \<and> items db k = Some r \<and> im_ServiceOrderID r = u"
    and new: "so_id s = '''' \<Longrightarrow> line_ids (so_items s) = []"
  obtains u m r i "is" f where "FromDomain U s = Inr m" "order_stored (m\<lparr>om_ID := u\<rparr>) r"
    "orders db' = (orders db)(u \<mapsto> r)"
    "if so_id s = '''' then orders db u = None \<and> i = uuid_String U u
     else uuid_Parse U (so_id s) = Inr u \<and> i = so_id s"
    "s' = s\<lparr>so_id := i, so_items := is\<rparr>" "list_all2 resaved (so_items s) is"
    "distinct (map item_id is)" "\<forall>x \<in> set is. line_row U u x (f x)"
    "live_lines (items db') u = f ` set (active is)"
    "\<forall>u'. u' \<noteq> u \<longrightarrow> live_lines (items db') u' = live_lines (items db) u'"
proof -
  let ?gone = "\<lambda>ids e. uuid_String U (im_ID e) \<notin> ids \<and> im_DeletedAt e = None"
  from run obtain u s1 db1 es db2 db3 ss' where so: "save_order U G s db = (Inr (u, s1), db1)"
    and found: "g_FindItemsUnscoped G u db1 = (Inr es, db2)"
    and del: "foreachE es (\<lambda>e. if ?gone (set (line_ids (so_items s1))) e then g_DeleteItem G e else returnE ())
      db2 = (Inr (), db3)"
    and sv: "mapE (save_item U G u) (so_items s1) db3 = (Inr ss', db')" and s': "s' = s1\<lparr>so_items := ss'\<rparr>"
    by (auto simp: save_in_transaction_def bindE_Inr_iff line_ids_def Let_def)
  obtain m r i is1 where m: "FromDomain U s = Inr m" "order_stored (m\<lparr>om_ID := u\<rparr>) r"
      "orders db1 = (orders db)(u \<mapsto> r)" "items db1 = items db"
      "if so_id s = '''' then orders db u = None \<and> i = uuid_String U u
       else uuid_Parse U (so_id s) = Inr u \<and> i = so_id s"
    and s1: "s1 = s\<lparr>so_id := i, so_items := is1\<rparr>" and as: "list_all2 assigned (so_items s) is1"
    by (rule save_order_run [OF so])
  have ids: "line_ids is1 = line_ids (so_items s)"
    using as by (induction rule: list_all2_induct) (auto simp: assigned_def)
  have it1: "so_items s1 = is1" by (simp add: s1)
  have es: "orders db2 = orders db1" "items db2 = items db" "distinct (map im_ID es)"
    "set es = {i. (\<exists>k. items db k = Some i) \<and> im_ServiceOrderID i = u}"
    using items_found [OF found] m(4) by (auto simp: rows_listed_def)
  have es_row: "\<forall>e \<in> set es. items db2 (im_ID e) = Some e" using es item_key by auto
  note del3 = delete_rows_run [OF del es(3) es_row]
  have gone3: "items db3 k = items db k \<or> (\<exists>e t. items db k = Some e \<and> im_ServiceOrderID e = u \<and>
      uuid_String U k \<notin> set (line_ids is1) \<and> items db3 k = Some (e\<lparr>im_DeletedAt := Some t\<rparr>))" for k
  proof (cases "\<forall>e \<in> set es. im_ID e = k \<longrightarrow> uuid_String U k \<in> set (line_ids is1) \<or> im_DeletedAt e \<noteq> None")
    case True
    then have "items db3 k = items db2 k" using del3 unfolding it1 by simp
    then show ?thesis by (simp add: es(2))
  next
    case False
    then obtain e where e: "e \<in> set es" "im_ID e = k" "?gone (set (line_ids is1)) e" by auto
    with del3 it1 obtain t where "items db3 k = Some (e\<lparr>im_DeletedAt := Some t\<rparr>)" by metis
    moreover have "items db k = Some e" using es_row e es(2) by auto
    moreover have "im_ServiceOrderID e = u" using e(1) es(4) by auto
    ultimately show ?thesis using e(2,3) by blast
  qed
  have own1: "\<exists>k r. i = uuid_String U k \<and> items db k = Some r \<and> im_ServiceOrderID r = u"
    if "i \<in> set (line_ids is1)" for i
  proof -
    have "so_id s \<noteq> ''''" using that new ids by auto
    with m(5) own that ids show ?thesis by auto
  qed
  have own3: "\<exists>k. i = uuid_String U k \<and> items db3 k \<noteq> None" if "i \<in> set (line_ids is1)" for i
  proof -
    from own1 [OF that] obtain k r where "i = uuid_String U k" "items db k = Some r" by blast
    with gone3 [of k] show ?thesis by auto
  qed
  have d1: "distinct (line_ids is1)" using d ids by simp
  note sv3 = save_items_run [OF sv [unfolded it1] d1 own3]
  from sv3 have "\<forall>x \<in> set ss'. \<exists>r. items db' (im_ID r) = Some r \<and> line_row U u x r" by blast
  then obtain f where f: "\<forall>x \<in> set ss'. items db' (im_ID (f x)) = Some (f x) \<and> line_row U u x (f x)"
    by (rule bchoice [THEN exE])
  have f_key: "im_ID (f x) = k \<and> items db' k = Some (f x) \<and> im_ServiceOrderID (f x) = u"
    if "x \<in> set ss'" "item_id x = uuid_String U k" for x k
    using f that by (auto simp: line_row_def String_inj)
  have re: "list_all2 resaved (so_items s) ss'" using resaved_compose [OF as] sv3 by blast
  have kept: "set (line_ids is1) \<subseteq> item_id ` set ss'"
    using resaved_lines(4) [OF re] ids by (auto simp: set_line_ids)
  have live: "live_lines (items db') u = f ` set (active ss')"
  proof (intro equalityI subsetI)
    fix i assume "i \<in> live_lines (items db') u"
    then obtain k where k: "items db' k = Some i" "im_ServiceOrderID i = u" "im_DeletedAt i = None"
      by (auto simp: live_lines_def)
    have "uuid_String U k \<in> item_id ` set ss'"
    proof (rule ccontr)
      assume out: "uuid_String U k \<notin> item_id ` set ss'"
      then have "items db3 k = Some i" using sv3 k(1) by auto
      with gone3 [of k] k(3) have "items db k = Some i" by auto
      then have "i \<in> set es" "im_ID i = k" using es(4) k(2) item_key by auto
      moreover have "uuid_String U k \<notin> set (line_ids is1)" using out kept by blast
      ultimately obtain t where "items db3 k = Some (i\<lparr>im_DeletedAt := Some t\<rparr>)"
        using del3 k(3) unfolding it1 by metis
      then have "im_DeletedAt i \<noteq> None" using \<open>items db3 k = Some i\<close> by (metis option.distinct(1) option.sel
            ServiceOrderItemModel.select_convs(11) ServiceOrderItemModel.surjective ServiceOrderItemModel.update_convs(11))
      with k(3) show False by simp
    qed
    then obtain x where x: "x \<in> set ss'" "item_id x = uuid_String U k" by auto
    have i: "i = f x" using f_key [OF x] k(1) by simp
    have "\<not> item_IsDeleted x" using f x(1) k(3) by (auto simp: line_row_def i)
    then show "i \<in> f ` set (active ss')" using x(1) i by (simp add: active_def)
  next
    fix i assume "i \<in> f ` set (active ss')"
    then obtain x where x: "x \<in> set ss'" "\<not> item_IsDeleted x" "i = f x" by (auto simp: active_def)
    then show "i \<in> live_lines (items db') u" using f by (auto simp: live_lines_def line_row_def)
  qed
  have other: "items db' k = items db k \<or>
      (\<forall>e. items db k = Some e \<or> items db' k = Some e \<longrightarrow> im_ServiceOrderID e = u)" for k
  proof (cases "uuid_String U k \<in> item_id ` set ss'")
    case True
    then obtain x where x: "x \<in> set ss'" "item_id x = uuid_String U k" by auto
    have "item_id x \<in> set (line_ids is1) \<or> (\<exists>k. item_id x = uuid_String U k \<and> items db3 k = None)"
      using sv3 x(1) by blast
    then have "\<forall>e. items db k = Some e \<longrightarrow> im_ServiceOrderID e = u"
      using own1 [of "item_id x"] gone3 [of k] by (auto simp: x(2) String_inj)
    with f_key [OF x] show ?thesis by auto
  next
    case False
    then have "items db' k = items db3 k" using sv3 by blast
    with gone3 [of k] show ?thesis by auto
  qed
  have others: "\<forall>u'. u' \<noteq> u \<longrightarrow> live_lines (items db') u' = live_lines (items db) u'"
    using other by (auto simp: live_lines_def) metis+
  have rows: "\<forall>x \<in> set ss'. line_row U u x (f x)" using f by blast
  have dist: "distinct (map item_id ss')" using sv3 by blast
  have ord: "orders db' = (orders db)(u \<mapsto> r)" using sv3 del3 es(1) m(3) by simp
  have "s' = s\<lparr>so_id := i, so_items := ss'\<rparr>" using s' s1 by simp
  from that [OF m(1,2) ord m(5) this re dist rows live others] show thesis .
qed

text \<open>What the saved rows mean: the order, its identifiers in canonical form.\<close>

lemma FromDomain_Inr:
  assumes "FromDomain U s = Inr m"
  shows "uuid_Parse U (so_customerID s) = Inr (om_CustomerID m)"
    and "uuid_Parse U (so_vehicleID s) = Inr (om_VehicleID m)"
    and "om_Description m = so_description s" and "om_Status m = status_String (so_status s)"
    and "om_SagaStatus m = so_sagaStatus s" and "om_CurrentSagaID m = parseUUIDPtr U (so_currentSagaID s)"
    and "om_SagaTargetStatus m = orderStatusStringPtr (so_sagaTargetStatus s)"
    and "om_SagaNotes m = so_sagaNotes s" and "om_MPOrderID m = so_mpPreferenceID s"
    and "om_MPPaymentID m = so_mpPaymentID s" and "om_PaymentURL m = so_paymentURL s"
    and "om_CustomerEmail m = (if so_customerEmail s \<noteq> '''' then Some (so_customerEmail s) else None)"
    and "om_CustomerName m = (if so_customerName s \<noteq> '''' then Some (so_customerName s) else None)"
    and "om_ClosedAt m = so_closedAt s" and "om_DeletedAt m = so_deletedAt s"
  using assms by (auto simp: FromDomain_def andThen_Inr)

lemma orderStatus_round_trip:
  assumes "\<forall>t. p = Some t \<longrightarrow> status_IsValid t"
  shows "orderStatusPtr (orderStatusStringPtr p) = Inr p"
proof (cases p)
  case (Some t)
  with assms have "NewOrderStatus (status_String t) = Inr t" by (simp add: NewOrderStatus_String)
  moreover have "status_String t \<noteq> ''''" using assms Some by (cases t) auto
  ultimately show ?thesis by (simp add: Some orderStatusPtr_def orderStatusStringPtr_def)
qed (simp add: orderStatusPtr_def orderStatusStringPtr_def)

lemma saga_id_round_trip: "uuidPtrString U (parseUUIDPtr U p) = Option.bind p (uuid_canon U)"
  using parse_empty by (cases p) (auto simp: parseUUIDPtr_def uuidPtrString_def uuid_canon_def split: sum.split)

lemma canonical_parse: "uuid_Parse U i = Inr u \<Longrightarrow> canonical (uuid_canon U) i = uuid_String U u"
  by (simp add: canonical_def uuid_canon_def)

lemma lines_round_trip:
  assumes rows: "\<forall>x \<in> set is. line_row U u x (f x)" and d: "distinct (map item_id is)"
    and ok: "\<forall>x \<in> set (active is). itemType_IsValid (item_itemType x)"
  shows "image_mset (row_item U) (mset_set (f ` set (active is))) =
      image_mset (\<lambda>i. i\<lparr>iv_referenceID := canonical (uuid_canon U) (iv_referenceID i)\<rparr>) (abs_items is)"
    and "uuid_String U ` im_ID ` f ` set (active is) = set (line_ids (active is))"
    and "\<forall>i \<in> f ` set (active is). itemType_IsValid (ItemType_of (im_ItemType i))"
proof -
  have sub: "set (active is) \<subseteq> set is" by (auto simp: active_def)
  have one: "row_item U (f x) = (abs_item x)\<lparr>iv_referenceID := canonical (uuid_canon U) (item_referenceID x)\<rparr> \<and>
      itemType_IsValid (ItemType_of (im_ItemType (f x))) \<and> uuid_String U (im_ID (f x)) = item_id x"
    if "x \<in> set (active is)" for x
    using line_row_view rows ok sub that by (metis line_row_def subsetD)
  have da: "distinct (active is)" using d by (auto simp: active_def distinct_map)
  have "inj_on f (set is)"
  proof (rule inj_onI)
    fix x y assume xy: "x \<in> set is" "y \<in> set is" "f x = f y"
    then have "item_id x = item_id y" using rows unfolding line_row_def by metis
    with d xy show "x = y" by (auto simp: distinct_map inj_on_def)
  qed
  then have inj: "inj_on f (set (active is))" using sub by (rule inj_on_subset)
  have "image_mset (row_item U) (mset_set (f ` set (active is))) =
      image_mset (\<lambda>x. row_item U (f x)) (mset (active is))"
    using inj da by (simp add: mset_set_set multiset.map_comp comp_def flip: image_mset_mset_set)
  also have "\<dots> = image_mset (\<lambda>x. (abs_item x)\<lparr>iv_referenceID := canonical (uuid_canon U) (item_referenceID x)\<rparr>)
      (mset (active is))" by (rule image_mset_cong) (simp add: one)
  finally show "image_mset (row_item U) (mset_set (f ` set (active is))) =
      image_mset (\<lambda>i. i\<lparr>iv_referenceID := canonical (uuid_canon U) (iv_referenceID i)\<rparr>) (abs_items is)"
    by (simp add: abs_items_def multiset.map_comp comp_def abs_item_def)
  have ids: "uuid_String U ` im_ID ` f ` set (active is) = item_id ` set (active is)"
    using one by (auto simp: image_iff)
  moreover have "'''' \<notin> item_id ` set (active is)" using String_nonempty by (metis ids imageE)
  ultimately show "uuid_String U ` im_ID ` f ` set (active is) = set (line_ids (active is))"
    by (simp add: set_line_ids)
  show "\<forall>i \<in> f ` set (active is). itemType_IsValid (ItemType_of (im_ItemType i))" using one by blast
qed

lemma saved_row_view:
  assumes m: "FromDomain U s = Inr m" and r: "order_stored (m\<lparr>om_ID := u\<rparr>) r" and st: "storable s"
    and s': "s' = s\<lparr>so_id := i, so_items := is\<rparr>" and re: "list_all2 resaved (so_items s) is"
    and rows: "\<forall>x \<in> set is. line_row U u x (f x)" and d: "distinct (map item_id is)"
  shows "row_view U r (f ` set (active is)) = Some (persist (uuid_canon U) (abs_order s'))"
    and "om_DeletedAt r = None"
proof -
  note m' = FromDomain_Inr [OF m]
  have "item_itemType ` set (active is) = item_itemType ` set (active (so_items s))"
    using resaved_lines(2) [OF re] by (metis list.set_map)
  then have ok: "\<forall>x \<in> set (active is). itemType_IsValid (item_itemType x)"
    using st unfolding storable_def by (metis imageE imageI)
  note l = lines_round_trip [OF rows d ok]
  have fields: "om_CustomerID r = om_CustomerID m \<and> om_VehicleID r = om_VehicleID m \<and>
      om_Description r = om_Description m \<and> om_Status r = om_Status m \<and>
      (om_SagaStatus r = om_SagaStatus m \<or> om_SagaStatus m = '''' \<and> om_SagaStatus r = SagaStatusIdle) \<and>
      om_CurrentSagaID r = om_CurrentSagaID m \<and> om_SagaTargetStatus r = om_SagaTargetStatus m \<and>
      om_SagaNotes r = om_SagaNotes m \<and> om_MPOrderID r = om_MPOrderID m \<and>
      om_MPPaymentID r = om_MPPaymentID m \<and> om_PaymentURL r = om_PaymentURL m \<and>
      om_CustomerEmail r = om_CustomerEmail m \<and> om_CustomerName r = om_CustomerName m \<and>
      (om_ClosedAt r = None \<longleftrightarrow> om_ClosedAt m = None) \<and> (om_DeletedAt r = None \<longleftrightarrow> om_DeletedAt m = None)"
    using r unfolding order_stored_def SagaStatusIdle_def by auto
  show "om_DeletedAt r = None" using fields m'(15) st by (simp add: storable_def)
  have status: "NewOrderStatus (om_Status r) = Inr (so_status s)"
    using fields m' st by (simp add: storable_def NewOrderStatus_String)
  have target: "orderStatusPtr (om_SagaTargetStatus r) = Inr (so_sagaTargetStatus s)"
    using fields m' st by (simp add: storable_def orderStatus_round_trip)
  show "row_view U r (f ` set (active is)) = Some (persist (uuid_canon U) (abs_order s'))"
    unfolding row_view_def status target using l fields m'
    by (auto simp: s' persist_def abs_order_def canonical_parse saga_id_round_trip)
qed

end

subsection \<open>The implementation of the repository interface\<close>

context gorm_db
begin

lemma stored_view_Some:
  "stored_view U os is j = Some v \<longleftrightarrow> (\<exists>u r. j = uuid_String U u \<and> os u = Some r \<and> om_DeletedAt r = None \<and>
     row_view U r (live_lines is u) = Some v)"
  by (auto simp: stored_view_def parse_String split: sum.splits option.splits if_splits)

lemma stored_view_String:
  "stored_view U os is (uuid_String U u) = (case os u of None \<Rightarrow> None
     | Some r \<Rightarrow> if om_DeletedAt r \<noteq> None then None else row_view U r (live_lines is u))"
  by (simp add: stored_view_def parse_String)

lemma uuid_canon_Some: "uuid_canon U i = Some j \<longleftrightarrow> (\<exists>u. uuid_Parse U i = Inr u \<and> j = uuid_String U u)"
  by (auto simp: uuid_canon_def split: sum.split)

lemma canonical_String: "canonical (uuid_canon U) (uuid_String U u) = uuid_String U u"
  by (simp add: canonical_parse parse_String)

lemma row_item_canonical:
  "(row_item U i)\<lparr>iv_referenceID := canonical (uuid_canon U) (iv_referenceID (row_item U i))\<rparr> = row_item U i"
  by (simp add: row_item_def canonical_String)

lemma saga_id_canonical: "Option.bind (uuidPtrString U p) (uuid_canon U) = uuidPtrString U p"
  by (cases p) (simp_all add: uuidPtrString_def uuid_canon_def parse_String)

lemma row_view_Some:
  assumes "row_view U r L = Some v"
  shows "v_customerID v = uuid_String U (om_CustomerID r)" and "v_vehicleID v = uuid_String U (om_VehicleID r)"
    and "v_sagaStatus v = (if om_SagaStatus r = '''' then SagaStatusIdle else om_SagaStatus r)"
    and "v_currentSagaID v = uuidPtrString U (om_CurrentSagaID r)"
    and "v_items v = image_mset (row_item U) (mset_set L)"
    and "v_line_ids v = uuid_String U ` im_ID ` L"
  using assms by (auto simp: row_view_def split: sum.splits if_splits)

lemma row_view_status:
  "row_view U r L = Some v \<Longrightarrow> status_IsValid (v_status v) \<and> status_String (v_status v) = om_Status r"
  by (auto simp: row_view_def NewOrderStatus_Inr_iff split: sum.splits if_splits)

lemma row_view_canonical:
  assumes "row_view U r L = Some v"
  shows "persist (uuid_canon U) v = v"
proof -
  note f = row_view_Some [OF assms]
  have "v_sagaStatus v \<noteq> ''''" unfolding f(3) by (simp add: SagaStatusIdle_def)
  moreover have "image_mset (\<lambda>i. i\<lparr>iv_referenceID := canonical (uuid_canon U) (iv_referenceID i)\<rparr>) (v_items v) =
      v_items v"
    unfolding f(5) by (simp add: multiset.map_comp comp_def row_item_canonical)
  moreover have "canonical (uuid_canon U) (v_customerID v) = v_customerID v"
    "canonical (uuid_canon U) (v_vehicleID v) = v_vehicleID v" unfolding f(1,2) by (rule canonical_String)+
  moreover have "Option.bind (v_currentSagaID v) (uuid_canon U) = v_currentSagaID v"
    unfolding f(4) by (rule saga_id_canonical)
  ultimately show ?thesis unfolding persist_def by simp
qed

lemma load_order_run:
  assumes "load_order U G m db = (x, db')" and "preloaded (orders db) (items db) m"
  shows "orders db' = orders db" "items db' = items db"
    and "x = Inr s \<Longrightarrow> loaded s \<and> so_id s = uuid_String U (om_ID m) \<and>
      stored_view U (orders db) (items db) (so_id s) = Some (abs_order s)"
    and "x = Inl e \<Longrightarrow> stored_view U (orders db) (items db) (uuid_String U (om_ID m)) = None"
proof -
  obtain t db1 where t: "g_Now G db = (t, db1)" by fastforce
  with assms(1) have x: "ToDomainWithItems U t m = x" "db' = db1"
    by (auto simp: load_order_def answered_def bindE_def liftE_def split: sum.splits)
  from assms(2) obtain r "is" where r: "orders db (om_ID m) = Some r" "om_DeletedAt r = None"
    "m = r\<lparr>om_Items := is\<rparr>" "rows_listed is (live_lines (items db) (om_ID m))"
    by (auto simp: preloaded_def)
  have id: "om_ID m = om_ID r" by (simp add: r(3))
  have live: "\<forall>i \<in> live_lines (items db) (om_ID m). im_DeletedAt i = None" by (auto simp: live_lines_def)
  show "orders db' = orders db" "items db' = items db" using now [OF t] x(2) by auto
  show "loaded s \<and> so_id s = uuid_String U (om_ID m) \<and>
      stored_view U (orders db) (items db) (so_id s) = Some (abs_order s)" if "x = Inr s"
    using ToDomain_Inr [OF _ r(4) live r(2), of t s] x(1) that r
    by (simp add: stored_view_String id)
  show "stored_view U (orders db) (items db) (uuid_String U (om_ID m)) = None" if "x = Inl e"
    using ToDomain_Inl [OF _ r(4), of t r e] x(1) that r by (simp add: stored_view_String id)
qed

lemma load_each_run:
  assumes "mapE (load_order U G) ms db = (x, db')" and "\<forall>m \<in> set ms. preloaded (orders db) (items db) m"
  shows "orders db' = orders db \<and> items db' = items db \<and>
    (\<forall>ss. x = Inr ss \<longrightarrow> list_all2 (\<lambda>m s. loaded s \<and> so_id s = uuid_String U (om_ID m) \<and>
      stored_view U (orders db) (items db) (so_id s) = Some (abs_order s)) ms ss)"
  using assms
proof (induction ms arbitrary: db db' x)
  case (Cons m ms)
  obtain y db1 where y: "load_order U G m db = (y, db1)" by fastforce
  have m: "preloaded (orders db) (items db) m" using Cons.prems(2) by simp
  note one = load_order_run [OF y m]
  show ?case
  proof (cases y)
    case (Inl e)
    with Cons.prems(1) y one(1,2) show ?thesis by (auto simp: bindE_def)
  next
    case (Inr s)
    obtain z db2 where z: "mapE (load_order U G) ms db1 = (z, db2)" by fastforce
    have ih: "orders db2 = orders db \<and> items db2 = items db \<and>
      (\<forall>ss. z = Inr ss \<longrightarrow> list_all2 (\<lambda>m s. loaded s \<and> so_id s = uuid_String U (om_ID m) \<and>
        stored_view U (orders db) (items db) (so_id s) = Some (abs_order s)) ms ss)"
      using Cons.IH [OF z] Cons.prems(2) one(1,2) by simp
    have "db' = db2 \<and> x = (case z of Inl e \<Rightarrow> Inl e | Inr ss \<Rightarrow> Inr (s # ss))"
      using Cons.prems(1) y z Inr by (auto simp: bindE_def returnE_def split: sum.splits)
    with ih one(3) [OF Inr] show ?thesis by (auto split: sum.splits)
  qed
qed (simp add: returnE_def)

lemma load_orders_run:
  assumes "load_orders U G q db = (x, db')"
  shows "orders db' = orders db \<and> items db' = items db"
    and "x = Inr ss \<Longrightarrow> distinct (map so_id ss) \<and> (\<forall>s \<in> set ss. loaded s) \<and>
      (\<forall>j v. (stored_view U (orders db) (items db) j = Some v \<and>
          (\<exists>u r. j = uuid_String U u \<and> orders db u = Some r \<and> selected q r)) \<longleftrightarrow>
        (\<exists>s \<in> set ss. so_id s = j \<and> abs_order s = v))"
proof -
  obtain y db1 where y: "g_Find G q db = (y, db1)" by fastforce
  note frame = find_frame [OF y]
  show "orders db' = orders db \<and> items db' = items db"
  proof (cases y)
    case (Inl e)
    with assms y frame show ?thesis by (auto simp: load_orders_def bindE_def)
  next
    case (Inr ms)
    with assms y have "mapE (load_order U G) ms db1 = (x, db')" by (simp add: load_orders_def bindE_def)
    from load_each_run [OF this] frame find_found [OF y [unfolded Inr]] show ?thesis by auto
  qed
  assume "x = Inr ss"
  with assms y obtain ms where ms: "y = Inr ms" "mapE (load_order U G) ms db1 = (Inr ss, db')"
    by (auto simp: load_orders_def bindE_Inr_iff)
  note found = find_found [OF y [unfolded ms(1)]]
  let ?P = "\<lambda>m s. loaded s \<and> so_id s = uuid_String U (om_ID m) \<and>
      stored_view U (orders db) (items db) (so_id s) = Some (abs_order s)"
  have all: "list_all2 ?P ms ss" using load_each_run [OF ms(2)] frame found by auto
  have ids: "map so_id ss = map (uuid_String U) (map om_ID ms)"
    using all by (induction rule: list_all2_induct) auto
  have sel: "selected q m \<longleftrightarrow> selected q r" if "m = r\<lparr>om_Items := is\<rparr>" for m r :: "'u ServiceOrderModel" and "is"
    using that by (simp add: selected_def)
  have "inj (uuid_String U)" by (rule injI) (simp add: String_inj)
  then have d: "distinct (map so_id ss)" unfolding ids using found
    by (simp add: distinct_map inj_on_def)
  have l: "\<forall>s \<in> set ss. loaded s \<and> stored_view U (orders db) (items db) (so_id s) = Some (abs_order s)"
    using all by (auto simp: list_all2_conv_all_nth in_set_conv_nth)
  have in_ids: "so_id ` set ss = uuid_String U ` om_ID ` set ms" using ids by (metis list.set_map)
  have "(\<exists>u r. so_id s = uuid_String U u \<and> orders db u = Some r \<and> selected q r)" if "s \<in> set ss" for s
  proof -
    from that in_ids obtain m where m: "m \<in> set ms" "so_id s = uuid_String U (om_ID m)" by blast
    then have "preloaded (orders db) (items db) m" "selected q m" using found by blast+
    then obtain r "is" where "orders db (om_ID m) = Some r" "m = r\<lparr>om_Items := is\<rparr>"
      unfolding preloaded_def by blast
    with m(2) sel \<open>selected q m\<close> show ?thesis by blast
  qed
  moreover have "\<exists>s \<in> set ss. so_id s = j \<and> abs_order s = v"
    if v: "stored_view U (orders db) (items db) j = Some v"
      and u: "j = uuid_String U u" "orders db u = Some r" "selected q r" for j v u r
  proof -
    have "om_DeletedAt r = None" using v u by (simp add: stored_view_String split: if_splits)
    with u found have "u \<in> om_ID ` set ms" by blast
    then have "j \<in> so_id ` set ss" using in_ids u(1) by blast
    with l v show ?thesis by auto
  qed
  ultimately show "distinct (map so_id ss) \<and> (\<forall>s \<in> set ss. loaded s) \<and>
      (\<forall>j v. (stored_view U (orders db) (items db) j = Some v \<and>
          (\<exists>u r. j = uuid_String U u \<and> orders db u = Some r \<and> selected q r)) \<longleftrightarrow>
        (\<exists>s \<in> set ss. so_id s = j \<and> abs_order s = v))"
    using d l by blast
qed

lemma find_run:
  assumes "repo_impl_FindByID U G i db = (x, db')"
  shows "orders db' = orders db \<and> items db' = items db"
    and "x = Inr s \<Longrightarrow> uuid_canon U i = Some (so_id s) \<and> loaded s \<and>
      stored_view U (orders db) (items db) (so_id s) = Some (abs_order s)"
    and "x = Inl ErrServiceOrderNotFound \<Longrightarrow> uuid_canon U i = Some j \<Longrightarrow>
      stored_view U (orders db) (items db) j = None"
proof -
  have "(orders db' = orders db \<and> items db' = items db) \<and>
    (\<forall>s. x = Inr s \<longrightarrow> uuid_canon U i = Some (so_id s) \<and> loaded s \<and>
      stored_view U (orders db) (items db) (so_id s) = Some (abs_order s)) \<and>
    (\<forall>j. x = Inl ErrServiceOrderNotFound \<longrightarrow> uuid_canon U i = Some j \<longrightarrow>
      stored_view U (orders db) (items db) j = None)"
  proof (cases "uuid_Parse U i")
    case (Inl e)
    with assms show ?thesis
      by (auto simp: repo_impl_FindByID_def repo_impl_FindByIDWithItems_def throwE_def uuid_canon_def)
  next
    case (Inr u)
    obtain y db1 where y: "g_First G u db = (y, db1)" by fastforce
    note frame = first_frame [OF y]
    have canon: "uuid_canon U i = Some (uuid_String U u)" by (simp add: uuid_canon_def Inr)
    consider (failed) e where "y = Inl e" | (missing) "y = Inr None" | (row) m where "y = Inr (Some m)"
      by (metis option.exhaust sum.exhaust)
    then show ?thesis
    proof cases
      case failed
      with assms y frame first_error [OF y [unfolded failed]] show ?thesis
        by (auto simp: repo_impl_FindByID_def repo_impl_FindByIDWithItems_def Inr bindE_def)
    next
      case missing
      with assms y frame canon first_missing [OF y [unfolded missing]] show ?thesis
        by (auto simp: repo_impl_FindByID_def repo_impl_FindByIDWithItems_def Inr bindE_def throwE_def
            stored_view_String split: option.split)
    next
      case (row m)
      note found = first_found [OF y [unfolded row]]
      from assms y row have l: "load_order U G m db1 = (x, db')"
        by (simp add: repo_impl_FindByID_def repo_impl_FindByIDWithItems_def Inr bindE_def)
      have "preloaded (orders db1) (items db1) m" using found frame by simp
      note run = load_order_run [OF l this]
      show ?thesis using run(1,2) run(3) run(4) frame found canon by auto
    qed
  qed
  then show "orders db' = orders db \<and> items db' = items db"
    and "x = Inr s \<Longrightarrow> uuid_canon U i = Some (so_id s) \<and> loaded s \<and>
      stored_view U (orders db) (items db) (so_id s) = Some (abs_order s)"
    and "x = Inl ErrServiceOrderNotFound \<Longrightarrow> uuid_canon U i = Some j \<Longrightarrow>
      stored_view U (orders db) (items db) j = None" by blast+
qed

text \<open>A save that succeeds: only the saved order changes, and it becomes what was saved.\<close>

lemma save_run:
  assumes run: "repo_impl_Save U G s db = (Inr s', db')" and st: "storable s"
    and d: "distinct (line_ids (so_items s))"
    and own: "\<And>i u. i \<in> set (line_ids (so_items s)) \<Longrightarrow> uuid_Parse U (so_id s) = Inr u \<Longrightarrow>
      \<exists>k r. i = uuid_String U k \<and> items db k = Some r \<and> im_ServiceOrderID r = u"
    and new: "so_id s = '''' \<Longrightarrow> line_ids (so_items s) = []"
  obtains u where "if so_id s = '''' then orders db u = None \<and> so_id s' = uuid_String U u
      else uuid_Parse U (so_id s) = Inr u \<and> so_id s' = so_id s"
    "numbered s s'"
    "stored_view U (orders db') (items db') =
      (stored_view U (orders db) (items db))(uuid_String U u \<mapsto> persist (uuid_canon U) (abs_order s'))"
proof -
  from run obtain tx tx' where tx: "orders tx = orders db" "items tx = items db"
      "orders db' = orders tx'" "items db' = items tx'"
    and run': "save_in_transaction U G s tx = (Inr s', tx')"
    using transaction_commit by (metis repo_impl_Save_def repo_impl_SaveWithItems_def)
  have own': "\<exists>k r. i = uuid_String U k \<and> items tx k = Some r \<and> im_ServiceOrderID r = u"
    if "i \<in> set (line_ids (so_items s))" "uuid_Parse U (so_id s) = Inr u" for i u
    using own [OF that] tx(2) by simp
  obtain u m r i "is" f where m: "FromDomain U s = Inr m" "order_stored (m\<lparr>om_ID := u\<rparr>) r"
    and ord: "orders tx' = (orders tx)(u \<mapsto> r)"
    and key: "if so_id s = '''' then orders tx u = None \<and> i = uuid_String U u
      else uuid_Parse U (so_id s) = Inr u \<and> i = so_id s"
    and s': "s' = s\<lparr>so_id := i, so_items := is\<rparr>" and re: "list_all2 resaved (so_items s) is"
    and rows: "distinct (map item_id is)" "\<forall>x \<in> set is. line_row U u x (f x)"
    and live: "live_lines (items tx') u = f ` set (active is)"
      "\<forall>u'. u' \<noteq> u \<longrightarrow> live_lines (items tx') u' = live_lines (items tx) u'"
    by (rule save_in_transaction_run [OF run' d own' new])
  note v = saved_row_view [OF m st s' re rows(2,1)]
  have "stored_view U (orders db') (items db') j =
      ((stored_view U (orders db) (items db))(uuid_String U u \<mapsto> persist (uuid_canon U) (abs_order s'))) j" for j
  proof (cases "\<exists>u'. j = uuid_String U u'")
    case True
    then obtain u' where j: "j = uuid_String U u'" ..
    show ?thesis using v live ord by (cases "u' = u") (simp_all add: j tx stored_view_String String_inj split: option.split)
  next
    case False
    then have "stored_view U os is j = None" for os "is" using stored_view_Some [of os "is" j] by fastforce
    with False show ?thesis by auto
  qed
  then have view: "stored_view U (orders db') (items db') =
      (stored_view U (orders db) (items db))(uuid_String U u \<mapsto> persist (uuid_canon U) (abs_order s'))" by blast
  have "so_id s' = i" by (simp add: s')
  with key tx(1) have "if so_id s = '''' then orders db u = None \<and> so_id s' = uuid_String U u
      else uuid_Parse U (so_id s) = Inr u \<and> so_id s' = so_id s"
    by (simp split: if_splits)
  from that [OF this resaved_numbered [OF s' re] view] show thesis .
qed

lemma save_items_parse:
  "mapE (save_item U G u) ss db = (Inr ss', db') \<Longrightarrow> s \<in> set ss \<Longrightarrow> uuid_canon U (item_referenceID s) \<noteq> None"
proof (induction ss arbitrary: db ss')
  case (Cons a ss)
  then obtain a' db1 zs where "save_item U G u a db = (Inr a', db1)"
    and rest: "mapE (save_item U G u) ss db1 = (Inr zs, db')" unfolding mapE_Inr by blast
  then obtain m where "FromDomainItem U a = Inr m" by (auto simp: save_item_def bindE_Inr_iff)
  then have "uuid_canon U (item_referenceID a) \<noteq> None" by (auto simp: uuid_canon_def dest: FromDomainItem_Inr(2))
  then show ?case using Cons.IH [OF rest] Cons.prems(2) by auto
qed simp

lemma save_parse_run:
  assumes "repo_impl_Save U G s db = (Inr s', db')"
  shows "uuid_canon U (so_customerID s) \<noteq> None \<and> uuid_canon U (so_vehicleID s) \<noteq> None \<and>
    (\<forall>i \<in> set (so_items s). uuid_canon U (item_referenceID i) \<noteq> None)"
proof -
  from assms obtain tx tx' where run: "save_in_transaction U G s tx = (Inr s', tx')"
    using transaction_commit by (metis repo_impl_Save_def repo_impl_SaveWithItems_def)
  then obtain u s1 db1 db3 ss' where so: "save_order U G s tx = (Inr (u, s1), db1)"
    and sv: "mapE (save_item U G u) (so_items s1) db3 = (Inr ss', tx')"
    by (auto simp: save_in_transaction_def bindE_Inr_iff Let_def)
  obtain m r i "is" where m: "FromDomain U s = Inr m" and s1: "s1 = s\<lparr>so_id := i, so_items := is\<rparr>"
    and as: "list_all2 assigned (so_items s) is" by (rule save_order_run [OF so])
  have "map item_referenceID is = map item_referenceID (so_items s)"
    using as by (induction rule: list_all2_induct) (auto simp: assigned_def)
  then have refs: "item_referenceID ` set is = item_referenceID ` set (so_items s)" by (metis list.set_map)
  have "uuid_canon U (item_referenceID i) \<noteq> None" if "i \<in> set (so_items s)" for i
  proof -
    from that refs obtain x where "x \<in> set is" "item_referenceID x = item_referenceID i" by (metis imageE imageI)
    with save_items_parse [OF sv, of x] s1 show ?thesis by simp
  qed
  with FromDomain_Inr(1,2) [OF m] show ?thesis by (simp add: uuid_canon_def)
qed

lemma fields [simp]:
  "repo_Save (ServiceOrderRepositoryImpl U G) = repo_impl_Save U G"
  "repo_SaveWithItems (ServiceOrderRepositoryImpl U G) = repo_impl_Save U G"
  "repo_FindByID (ServiceOrderRepositoryImpl U G) = repo_impl_FindByID U G"
  "repo_FindByIDWithItems (ServiceOrderRepositoryImpl U G) = repo_impl_FindByID U G"
  "repo_FindAllWithFilters (ServiceOrderRepositoryImpl U G) = repo_impl_FindAllWithFilters U G"
  "repo_FindByCustomerID (ServiceOrderRepositoryImpl U G) = repo_impl_FindByCustomerID U G"
  "repo_FindBySagaStatus (ServiceOrderRepositoryImpl U G) = repo_impl_FindBySagaStatus U G"
  by (auto simp: ServiceOrderRepositoryImpl_def repo_impl_Save_def repo_impl_FindByID_def fun_eq_iff)

text \<open>The identifiers an order carries are those of its stored lines.\<close>

lemma owned_rows:
  assumes "owns_lines s (stored_view U (orders db) (items db) j)" and "uuid_canon U (so_id s) = Some j"
    and "i \<in> set (line_ids (so_items s))" and "uuid_Parse U (so_id s) = Inr u"
  shows "\<exists>k r. i = uuid_String U k \<and> items db k = Some r \<and> im_ServiceOrderID r = u"
proof -
  have j: "j = uuid_String U u" using assms(2,4) by (simp add: uuid_canon_def)
  from assms(1,3) obtain v where v: "stored_view U (orders db) (items db) j = Some v" "i \<in> v_line_ids v"
    by (auto simp: owns_lines_def)
  then obtain r where "row_view U r (live_lines (items db) u) = Some v"
    unfolding j by (auto simp: stored_view_Some String_inj)
  with v(2) have "i \<in> uuid_String U ` im_ID ` live_lines (items db) u" by (simp add: row_view_Some(6))
  then obtain x where x: "x \<in> live_lines (items db) u" "i = uuid_String U (im_ID x)" by blast
  then obtain k where "items db k = Some x" "im_ServiceOrderID x = u" by (auto simp: live_lines_def)
  with x(2) item_key show ?thesis by blast
qed

lemma customer_list_run:
  assumes "repo_impl_FindByCustomerID U G c db = (x, db')"
  shows "orders db' = orders db \<and> items db' = items db"
    and "x = Inr ss \<Longrightarrow> distinct (map so_id ss) \<and> (\<forall>s \<in> set ss. loaded s) \<and>
      (\<forall>j v. (stored_view U (orders db) (items db) j = Some v \<and> Some (v_customerID v) = uuid_canon U c) \<longleftrightarrow>
        (\<exists>s \<in> set ss. so_id s = j \<and> abs_order s = v))"
proof -
  have "(orders db' = orders db \<and> items db' = items db) \<and>
    (\<forall>ss. x = Inr ss \<longrightarrow> distinct (map so_id ss) \<and> (\<forall>s \<in> set ss. loaded s) \<and>
      (\<forall>j v. (stored_view U (orders db) (items db) j = Some v \<and> Some (v_customerID v) = uuid_canon U c) \<longleftrightarrow>
        (\<exists>s \<in> set ss. so_id s = j \<and> abs_order s = v)))"
  proof (cases "uuid_Parse U c")
    case (Inl e)
    with assms show ?thesis by (auto simp: repo_impl_FindByCustomerID_def throwE_def)
  next
    case (Inr u)
    let ?q = "all_orders\<lparr>q_customer_id := Some u\<rparr>"
    from assms Inr have run: "load_orders U G ?q db = (x, db')" by (simp add: repo_impl_FindByCustomerID_def)
    have "(\<exists>u' r. j = uuid_String U u' \<and> orders db u' = Some r \<and> selected ?q r) \<longleftrightarrow>
        Some (v_customerID v) = uuid_canon U c"
      if "stored_view U (orders db) (items db) j = Some v" for j v
      using that Inr by (auto simp: stored_view_Some selected_def all_orders_def row_view_Some(1) uuid_canon_def
          String_inj)
    then show ?thesis using load_orders_run [OF run] by (simp cong: conj_cong)
  qed
  then show "orders db' = orders db \<and> items db' = items db"
    and "x = Inr ss \<Longrightarrow> distinct (map so_id ss) \<and> (\<forall>s \<in> set ss. loaded s) \<and>
      (\<forall>j v. (stored_view U (orders db) (items db) j = Some v \<and> Some (v_customerID v) = uuid_canon U c) \<longleftrightarrow>
        (\<exists>s \<in> set ss. so_id s = j \<and> abs_order s = v))" by blast+
qed

lemma saga_list_run:
  assumes "repo_impl_FindBySagaStatus U G st db = (Inr ss, db')" and "st \<notin> {'''', SagaStatusIdle}"
  shows "distinct (map so_id ss) \<and> (\<forall>s \<in> set ss. loaded s) \<and>
      (\<forall>j v. (stored_view U (orders db) (items db) j = Some v \<and> v_sagaStatus v = st) \<longleftrightarrow>
        (\<exists>s \<in> set ss. so_id s = j \<and> abs_order s = v))"
proof -
  let ?q = "all_orders\<lparr>q_saga_status := Some st, q_Order := [UpdatedAt_ASC]\<rparr>"
  from assms have run: "load_orders U G ?q db = (Inr ss, db')" by (simp add: repo_impl_FindBySagaStatus_def)
  have "(\<exists>u' r. j = uuid_String U u' \<and> orders db u' = Some r \<and> selected ?q r) \<longleftrightarrow> v_sagaStatus v = st"
    if "stored_view U (orders db) (items db) j = Some v" for j v
    using that assms(2) by (auto simp: stored_view_Some selected_def all_orders_def row_view_Some(3) String_inj)
  then show ?thesis using load_orders_run(2) [OF run refl] by (simp cong: conj_cong)
qed

lemma filters_run:
  assumes "repo_impl_FindAllWithFilters U G fs db = (x, db')"
  shows "orders db' = orders db \<and> items db' = items db"
proof -
  have "(\<exists>q. load_orders U G q db = (x, db')) \<or> db' = db"
    using assms unfolding repo_impl_FindAllWithFilters_def
    by (cases "f_CustomerID fs") (auto simp: bindE_def throwE_def returnE_def split: sum.splits if_splits)
  then show ?thesis using load_orders_run(1) by blast
qed

lemma implements:
  "order_repository (ServiceOrderRepositoryImpl U G) (uuid_canon U) (\<lambda>db. stored_view U (orders db) (items db))"
proof (unfold_locales, goal_cases)
  case (1 i j)
  then show ?case by (auto simp: uuid_canon_Some parse_String String_nonempty)
next
  case (2 i db r db')
  then show ?case using find_run(1) by simp
next
  case (3 i db s db')
  then show ?case using find_run(2) by simp
next
  case (4 i db db' j)
  then show ?case using find_run(3) by simp
next
  case (7 s db e db')
  then show ?case using transaction_rollback by (simp add: repo_impl_Save_def repo_impl_SaveWithItems_def)
next
  case (8 s db s' db' j)
  then have run: "repo_impl_Save U G s db = (Inr s', db')" by simp
  obtain w where w: "uuid_Parse U (so_id s) = Inr w" "j = uuid_String U w" using 8(2) by (auto simp: uuid_canon_Some)
  then have ne: "so_id s \<noteq> ''''" using parse_empty by auto
  have d: "distinct (line_ids (so_items s))" using 8(4) by (simp add: owns_lines_def)
  obtain u where "uuid_Parse U (so_id s) = Inr u" "so_id s' = so_id s" "numbered s s'"
    "stored_view U (orders db') (items db') =
      (stored_view U (orders db) (items db))(uuid_String U u \<mapsto> persist (uuid_canon U) (abs_order s'))"
    by (rule save_run [OF run 8(3) d owned_rows [OF 8(4,2)]]) (use ne in auto)
  with w show ?case by simp
next
  case (9 s db s' db')
  then have run: "repo_impl_Save U G s db = (Inr s', db')" by simp
  obtain u where "orders db u = None" "so_id s' = uuid_String U u" "numbered s s'"
    "stored_view U (orders db') (items db') =
      (stored_view U (orders db) (items db))(uuid_String U u \<mapsto> persist (uuid_canon U) (abs_order s'))"
    by (rule save_run [OF run 9(3)]) (use 9 in auto)
  then show ?case by (simp add: stored_view_String uuid_canon_def parse_String)
next
  case (10 s db s' db')
  then show ?case using save_parse_run by simp
next
  case (11 db j v)
  then show ?case
    by (auto simp: stored_view_Some uuid_canon_def parse_String row_view_canonical)
next
  case (12 st db rs db')
  then show ?case using load_orders_run(1) by (simp add: repo_impl_FindBySagaStatus_def)
next
  case (13 st db ss db')
  then show ?case using saga_list_run by simp
next
  case (14 c db rs db')
  then show ?case using customer_list_run(1) by simp
next
  case (15 c db ss db')
  then show ?case using customer_list_run(2) by simp
next
  case (16 fs db rs db')
  then show ?case using filters_run by simp
qed simp_all

end

sublocale gorm_db \<subseteq> repository: order_repository "ServiceOrderRepositoryImpl U G" "uuid_canon U"
  "\<lambda>db. stored_view U (orders db) (items db)"
  by (rule implements)

end
