(* ===== verification/Memory_Gorm.thy ===== *)
theory Memory_Gorm
  imports Persistence_Correct
begin

text \<open>
  A database that keeps the two tables in lists: the concrete function with which the parameters of the
  repository over \<^verbatim>\<open>gorm\<close> are instantiated. An identifier is a number, written \<^verbatim>\<open>u\<close> and as many zeros; the
  clock ticks when it is read, an inserted row gets the column defaults, an order without a row cannot be
  created twice.
\<close>

subsection \<open>Identifiers\<close>

definition mem_uuid_String :: "nat \<Rightarrow> string" where
  "mem_uuid_String n = CHR ''u'' # replicate n (CHR ''0'')"

definition mem_uuid_Parse :: "string \<Rightarrow> error + nat" where
  "mem_uuid_Parse s =
     (if s = mem_uuid_String (length s - 1) then Inr (length s - 1) else Inl (ErrorString ''invalid UUID''))"

definition mem_uuid :: "nat uuid_lib" where
  "mem_uuid = \<lparr>uuid_Parse = mem_uuid_Parse, uuid_String = mem_uuid_String, uuid_Nil = 0\<rparr>"

subsection \<open>Tables\<close>

record mem_tables =
  mt_clock :: nat
  mt_orders :: "nat ServiceOrderModel list"
  mt_items :: "nat ServiceOrderItemModel list"

definition mt_order :: "mem_tables \<Rightarrow> nat \<Rightarrow> nat ServiceOrderModel option" where
  "mt_order db u = find (\<lambda>m. om_ID m = u) (mt_orders db)"

definition mt_item :: "mem_tables \<Rightarrow> nat \<Rightarrow> nat ServiceOrderItemModel option" where
  "mt_item db u = find (\<lambda>i. im_ID i = u) (mt_items db)"

text \<open>The rows that a look-up finds.\<close>

definition mt_rows :: "(nat \<Rightarrow> 'r option) \<Rightarrow> nat list \<Rightarrow> 'r list" where
  "mt_rows row keys = List.map_filter row (remdups keys)"

definition mt_all_orders :: "mem_tables \<Rightarrow> nat ServiceOrderModel list" where
  "mt_all_orders db = mt_rows (mt_order db) (map om_ID (mt_orders db))"

definition mt_all_items :: "mem_tables \<Rightarrow> nat ServiceOrderItemModel list" where
  "mt_all_items db = mt_rows (mt_item db) (map im_ID (mt_items db))"

definition mt_time :: "mem_tables \<Rightarrow> time" where
  "mt_time db = int (mt_clock db)"

definition mt_defaults :: "time \<Rightarrow> nat ServiceOrderModel \<Rightarrow> nat ServiceOrderModel" where
  "mt_defaults t m = m\<lparr>om_SagaStatus := (if om_SagaStatus m = '''' then ''IDLE'' else om_SagaStatus m),
     om_UpdatedAt := t, om_Items := []\<rparr>"

definition mt_put_order :: "nat ServiceOrderModel \<Rightarrow> mem_tables \<Rightarrow> mem_tables" where
  "mt_put_order m db = db\<lparr>mt_orders := mt_defaults (mt_time db) m # mt_orders db\<rparr>"

definition mt_put_item :: "nat ServiceOrderItemModel \<Rightarrow> mem_tables \<Rightarrow> mem_tables" where
  "mt_put_item i db = db\<lparr>mt_items := i\<lparr>im_UpdatedAt := mt_time db\<rparr> # mt_items db\<rparr>"

definition mt_preload :: "mem_tables \<Rightarrow> nat ServiceOrderModel \<Rightarrow> nat ServiceOrderModel" where
  "mt_preload db m = m\<lparr>om_Items :=
     filter (\<lambda>i. im_ServiceOrderID i = om_ID m \<and> im_DeletedAt i = None) (mt_all_items db)\<rparr>"

text \<open>Sorting by insertion.\<close>

fun insert_by :: "('a \<Rightarrow> 'a \<Rightarrow> bool) \<Rightarrow> 'a \<Rightarrow> 'a list \<Rightarrow> 'a list" where
  "insert_by le x [] = [x]"
| "insert_by le x (y # ys) = (if le x y then x # y # ys else y # insert_by le x ys)"

definition sort_by :: "('a \<Rightarrow> 'a \<Rightarrow> bool) \<Rightarrow> 'a list \<Rightarrow> 'a list" where
  "sort_by le xs = foldr (insert_by le) xs []"

definition query_selects :: "'u order_query \<Rightarrow> 'u ServiceOrderModel \<Rightarrow> bool" where
  "query_selects q m \<longleftrightarrow>
     (case q_customer_id q of None \<Rightarrow> True | Some c \<Rightarrow> om_CustomerID m = c) \<and>
     (case q_status q of None \<Rightarrow> True | Some s \<Rightarrow> om_Status m = s) \<and>
     om_Status m \<notin> set (q_status_not_in q) \<and>
     (case q_saga_status q of None \<Rightarrow> True | Some s \<Rightarrow> om_SagaStatus m = s)"

definition mem_gorm :: "(mem_tables, nat) gorm" where
  "mem_gorm =
     \<lparr>g_Now = (\<lambda>db. (mt_time db, db\<lparr>mt_clock := Suc (mt_clock db)\<rparr>)),
      g_NewV7 = (\<lambda>db. (Suc (sum_list (map om_ID (mt_orders db)) + sum_list (map im_ID (mt_items db))), db)),
      g_Transaction = (\<lambda>f db. case f db of (Inl e, _) \<Rightarrow> (Inl e, db) | (Inr s, db') \<Rightarrow> (Inr s, db')),
      g_CreateOrder = (\<lambda>m db. if mt_order db (om_ID m) \<noteq> None
         then (Inl (ErrorString ''duplicate key''), db) else (Inr (), mt_put_order m db)),
      g_SaveOrder = (\<lambda>m db. (Inr (), mt_put_order m db)),
      g_FindItemsUnscoped = (\<lambda>u db. (Inr (filter (\<lambda>i. im_ServiceOrderID i = u) (mt_all_items db)), db)),
      g_DeleteItem = (\<lambda>i db. case mt_item db (im_ID i) of
           None \<Rightarrow> (Inr (), db)
         | Some r \<Rightarrow> (Inr (), db\<lparr>mt_items := r\<lparr>im_DeletedAt := Some (mt_time db)\<rparr> # mt_items db\<rparr>)),
      g_SaveItem = (\<lambda>i db. (Inr (), mt_put_item i db)),
      g_First = (\<lambda>u db. case mt_order db u of
           None \<Rightarrow> (Inr None, db)
         | Some m \<Rightarrow> (Inr (if om_DeletedAt m = None then Some (mt_preload db m) else None), db)),
      g_Find = (\<lambda>q db. (Inr (map (mt_preload db) (sort_by (keys_le (q_Order q))
         (filter (\<lambda>m. om_DeletedAt m = None \<and> query_selects q m) (mt_all_orders db)))), db)),
      g_DeleteOrder = (\<lambda>m db. case mt_order db (om_ID m) of
           None \<Rightarrow> (Inr (), db)
         | Some r \<Rightarrow> (Inr (), db\<lparr>mt_orders := r\<lparr>om_DeletedAt := Some (mt_time db)\<rparr> # mt_orders db\<rparr>)),
      g_UpdateHistoryID = (\<lambda>is h db. (Inr (), db\<lparr>mt_items := map (\<lambda>i. if im_ID i \<in> set is
         then i\<lparr>im_HistoryID := Some h\<rparr> else i) (mt_items db)\<rparr>))\<rparr>"

subsection \<open>The contract holds\<close>

lemma query_selects_iff: "query_selects q m \<longleftrightarrow> selected q m"
  by (auto simp: query_selects_def selected_def split: option.splits)

lemma parse_String: "mem_uuid_Parse (mem_uuid_String n) = Inr n"
  by (simp add: mem_uuid_Parse_def mem_uuid_String_def)

lemma set_insert_by [simp]: "set (insert_by le x xs) = insert x (set xs)"
  by (induction xs) auto

lemma set_sort_by [simp]: "set (sort_by le xs) = set xs"
  by (induction xs) (auto simp: sort_by_def)

lemma mset_insert_by: "mset (insert_by le x xs) = add_mset x (mset xs)"
  by (induction xs) auto

lemma mset_sort_by: "mset (sort_by le xs) = mset xs"
  by (induction xs) (auto simp: sort_by_def mset_insert_by)

lemma sorted_insert_by:
  assumes "\<And>a b. le a b \<or> le b a" and "\<And>a b c. le a b \<Longrightarrow> le b c \<Longrightarrow> le a c"
  shows "sorted_wrt le xs \<Longrightarrow> sorted_wrt le (insert_by le x xs)"
proof (induction xs)
  case (Cons y ys)
  have "\<forall>z \<in> set ys. le x z" if "le x y" using Cons.prems that by (auto intro: assms(2) [of x y])
  moreover have "le y x" if "\<not> le x y" using assms(1) that by blast
  ultimately show ?case using Cons by auto
qed simp

lemma sorted_sort_by:
  assumes "\<And>a b. le a b \<or> le b a" and "\<And>a b c. le a b \<Longrightarrow> le b c \<Longrightarrow> le a c"
  shows "sorted_wrt le (sort_by le xs)"
  by (induction xs) (auto simp: sort_by_def intro: sorted_insert_by [OF assms])

lemma key_le_total: "key_le k a b \<or> key_le k b a"
  by (cases k) auto

lemma key_le_trans: "key_le k a b \<Longrightarrow> key_le k b c \<Longrightarrow> key_le k a c"
  by (cases k) auto

lemma keys_le_total: "keys_le ks a b \<or> keys_le ks b a"
  by (induction ks) (use key_le_total in auto)

lemma keys_le_trans: "keys_le ks a b \<Longrightarrow> keys_le ks b c \<Longrightarrow> keys_le ks a c"
  by (induction ks) (auto intro: key_le_trans)

lemma key_le_Items [simp]: "key_le k (a\<lparr>om_Items := is\<rparr>) (b\<lparr>om_Items := js\<rparr>) \<longleftrightarrow> key_le k a b"
  by (cases k) auto

lemma keys_le_Items [simp]: "keys_le ks (a\<lparr>om_Items := is\<rparr>) (b\<lparr>om_Items := js\<rparr>) \<longleftrightarrow> keys_le ks a b"
  by (induction ks) auto

lemma find_key: "find (\<lambda>m. f m = u) xs = Some m \<Longrightarrow> f m = u \<and> u \<in> f ` set xs"
  by (auto simp: find_Some_iff)

lemma mt_rows:
  assumes "\<And>u r. row u = Some r \<Longrightarrow> f r = u \<and> u \<in> set keys"
  shows "distinct (map f (mt_rows row keys))" and "set (mt_rows row keys) = {r. \<exists>u. row u = Some r}"
proof -
  have "map f (List.map_filter row ks) = filter (\<lambda>u. row u \<noteq> None) ks" for ks
    by (induction ks) (auto simp: map_filter_simps assms split: option.splits)
  then show "distinct (map f (mt_rows row keys))" unfolding mt_rows_def by simp
  show "set (mt_rows row keys) = {r. \<exists>u. row u = Some r}"
    unfolding mt_rows_def by (auto simp: map_filter_def dest: assms) (use assms in force)
qed

lemma mt_item_row: "mt_item db u = Some i \<Longrightarrow> im_ID i = u \<and> u \<in> set (map im_ID (mt_items db))"
  unfolding mt_item_def by (drule find_key) simp

lemma mt_order_row: "mt_order db u = Some m \<Longrightarrow> om_ID m = u \<and> u \<in> set (map om_ID (mt_orders db))"
  unfolding mt_order_def by (drule find_key) simp

lemma mt_all_items:
  "distinct (map im_ID (mt_all_items db))" "set (mt_all_items db) = {i. \<exists>k. mt_item db k = Some i}"
  unfolding mt_all_items_def by (rule mt_rows, erule mt_item_row)+

lemma mt_all_orders:
  "distinct (map om_ID (mt_all_orders db))" "set (mt_all_orders db) = {m. \<exists>k. mt_order db k = Some m}"
  unfolding mt_all_orders_def by (rule mt_rows, erule mt_order_row)+

lemmas mt_item_key = mt_item_row [THEN conjunct1]
  and mt_order_key = mt_order_row [THEN conjunct1]

lemma mt_preloaded:
  assumes "mt_order db u = Some m" and "om_DeletedAt m = None"
  shows "om_ID (mt_preload db m) = u" and "preloaded (mt_order db) (mt_item db) (mt_preload db m)"
proof -
  have u: "om_ID m = u" using assms(1) by (rule mt_order_key)
  then show "om_ID (mt_preload db m) = u" by (simp add: mt_preload_def)
  have "rows_listed (filter (\<lambda>i. im_ServiceOrderID i = om_ID m \<and> im_DeletedAt i = None) (mt_all_items db))
      (live_lines (mt_item db) u)"
    using mt_all_items [of db] u by (auto simp: rows_listed_def live_lines_def distinct_map_filter)
  then show "preloaded (mt_order db) (mt_item db) (mt_preload db m)"
    unfolding preloaded_def using assms u by (auto simp: mt_preload_def)
qed

lemma mt_put [simp]:
  "mt_order (mt_put_order m db) = (mt_order db)(om_ID m \<mapsto> mt_defaults (mt_time db) m)"
  "mt_item (mt_put_order m db) = mt_item db" "mt_order (mt_put_item i db) = mt_order db"
  "mt_item (mt_put_item i db) = (mt_item db)(im_ID i \<mapsto> i\<lparr>im_UpdatedAt := mt_time db\<rparr>)"
  by (auto simp: mt_order_def mt_item_def mt_put_order_def mt_put_item_def mt_defaults_def fun_eq_iff)

lemma order_stored_put: "order_stored m (mt_defaults t m)"
proof -
  let ?saga = "if om_SagaStatus m = '''' then ''IDLE'' else om_SagaStatus m"
  have "mt_defaults t m = m\<lparr>om_SagaStatus := ?saga, om_ClosedAt := om_ClosedAt m,
      om_CreatedAt := om_CreatedAt m, om_UpdatedAt := t, om_DeletedAt := om_DeletedAt m, om_Items := []\<rparr>"
    by (cases m) (simp add: mt_defaults_def)
  moreover have "?saga = om_SagaStatus m \<or> om_SagaStatus m = '''' \<and> ?saga = ''IDLE''" by simp
  ultimately show ?thesis unfolding order_stored_def by blast
qed

lemma item_stored_put: "item_stored i (i\<lparr>im_UpdatedAt := t\<rparr>)"
proof -
  have "i\<lparr>im_UpdatedAt := t\<rparr> = i\<lparr>im_CreatedAt := im_CreatedAt i, im_UpdatedAt := t,
      im_DeletedAt := im_DeletedAt i\<rparr>" by (cases i) simp
  then show ?thesis unfolding item_stored_def by blast
qed

lemma mt_fresh: "mt_item db (Suc (a + sum_list (map im_ID (mt_items db)))) = None"
proof (rule ccontr)
  assume "\<not> ?thesis"
  then obtain i where "mt_item db (Suc (a + sum_list (map im_ID (mt_items db)))) = Some i" by blast
  from mt_item_row [OF this] have "Suc (a + sum_list (map im_ID (mt_items db))) \<in> set (map im_ID (mt_items db))"
    by blast
  from member_le_sum_list [OF this] show False by simp
qed

lemma mt_find_item [simp]:
  "mt_order (db\<lparr>mt_items := is\<rparr>) = mt_order db" "mt_order (db\<lparr>mt_clock := c\<rparr>) = mt_order db"
  "mt_item (db\<lparr>mt_clock := c\<rparr>) = mt_item db"
  "mt_item (db\<lparr>mt_items := r # mt_items db\<rparr>) = (mt_item db)(im_ID r \<mapsto> r)"
  by (auto simp: mt_order_def mt_item_def fun_eq_iff)

lemma mem_gorm_find:
  assumes "g_Find mem_gorm q db = (Inr ms, db')"
  shows "distinct (map om_ID ms) \<and> sorted_wrt (keys_le (q_Order q)) ms \<and>
      (\<forall>m \<in> set ms. preloaded (mt_order db) (mt_item db) m \<and> selected q m) \<and>
      (\<forall>u r. mt_order db u = Some r \<longrightarrow> om_DeletedAt r = None \<longrightarrow> selected q r \<longrightarrow> u \<in> om_ID ` set ms)"
proof -
  let ?rs = "filter (\<lambda>m. om_DeletedAt m = None \<and> query_selects q m) (mt_all_orders db)"
  let ?ss = "sort_by (keys_le (q_Order q)) ?rs"
  have ms: "ms = map (mt_preload db) ?ss" using assms by (auto simp: mem_gorm_def)
  have id: "om_ID (mt_preload db m) = om_ID m" and sel: "selected q (mt_preload db m) \<longleftrightarrow> selected q m" for m
    by (simp_all add: mt_preload_def selected_def)
  have "map om_ID ms = map om_ID ?ss" by (simp add: ms id)
  moreover have "distinct (map om_ID ?rs)" using mt_all_orders(1) by (simp add: distinct_map_filter)
  moreover have "mset (map om_ID ?ss) = mset (map om_ID ?rs)" by (simp only: mset_map mset_sort_by)
  then have "distinct (map om_ID ?ss) = distinct (map om_ID ?rs)" by (rule mset_eq_imp_distinct_iff)
  moreover have "sorted_wrt (keys_le (q_Order q)) ms"
    using sorted_sort_by [where xs = ?rs, OF keys_le_total keys_le_trans]
    by (simp add: ms sorted_wrt_map mt_preload_def)
  moreover have "preloaded (mt_order db) (mt_item db) m \<and> selected q m" if "m \<in> set ms" for m
    using that mt_all_orders(2) [of db] mt_preloaded sel by (auto simp: ms query_selects_iff)
  moreover have "u \<in> om_ID ` set ms"
    if "mt_order db u = Some r" "om_DeletedAt r = None" "selected q r" for u r
  proof -
    have "r \<in> set ?rs" using that mt_all_orders(2) [of db] by (auto simp: query_selects_iff)
    then show ?thesis using mt_order_key [OF that(1)] id by (force simp: ms image_image)
  qed
  ultimately show ?thesis by simp
qed

interpretation mem_gorm: gorm_db mem_uuid mem_gorm mt_order mt_item
proof (unfold_locales, goal_cases)
  case 1
  show ?case by (simp add: mem_uuid_def parse_String)
next
  case 2
  show ?case by (simp add: mem_uuid_def mem_uuid_Parse_def mem_uuid_String_def)
next
  case 3
  show ?case by (simp add: mem_uuid_def mem_uuid_String_def)
next
  case 4
  then show ?case by (rule mt_order_key)
next
  case 5
  then show ?case by (rule mt_item_key)
next
  case (8 f db s db')
  then show ?case by (auto simp: mem_gorm_def split: prod.splits sum.splits)
next
  case (10 m db x db')
  then have "mt_order db (om_ID m) = None" and db': "db' = mt_put_order m db"
    by (auto simp: mem_gorm_def split: if_splits)
  then show ?case unfolding db' mt_put using order_stored_put by blast
next
  case (11 m db x db')
  then have db': "db' = mt_put_order m db" by (auto simp: mem_gorm_def)
  then show ?case unfolding db' mt_put using order_stored_put by blast
next
  case (12 i db x db')
  then have db': "db' = mt_put_item i db" by (auto simp: mem_gorm_def)
  then show ?case unfolding db' mt_put using item_stored_put by blast
next
  case (13 i db x db' i')
  then show ?case using mt_item_key [OF 13(2)] by (auto simp: mem_gorm_def)
next
  case (14 u db "is" db')
  then show ?case using mt_all_items by (auto simp: mem_gorm_def rows_listed_def distinct_map_filter)
next
  case (17 u db m db')
  then show ?case using mt_preloaded by (auto simp: mem_gorm_def split: option.splits if_splits)
next
  case (18 u db db' m)
  then show ?case by (auto simp: mem_gorm_def split: option.splits if_splits)
next
  case (20 q db ms db')
  then show ?case by (rule mem_gorm_find)
qed (auto simp: mem_gorm_def mt_fresh split: prod.splits sum.splits option.splits if_splits)

end
