(* ===== verification/Persistence_Properties.thy ===== *)
theory Persistence_Properties
  imports Memory_Gorm
begin

text \<open>
  The properties of the repository over \<^verbatim>\<open>gorm\<close>. Each is about any library that keeps the contract
  \<open>gorm_db\<close>; the witnesses apply them to the tables of \<open>Memory_Gorm\<close>.
\<close>

subsection \<open>What is read of a row\<close>

lemma ToDomain_keys:
  "ToDomainWithItems U now m = Inr s \<Longrightarrow> so_createdAt s = om_CreatedAt m \<and> status_String (so_status s) = om_Status m"
  by (auto simp: ToDomainWithItems_def andThen_Inr reconstructed_def ReconstructServiceOrder_def
      SetCustomerSnapshot_def NewOrderStatus_Inr_iff split: if_splits)

lemma load_each_keys:
  "mapE (load_order U G) ms db = (Inr ss, db') \<Longrightarrow>
   map so_createdAt ss = map om_CreatedAt ms \<and> map (\<lambda>s. status_String (so_status s)) ss = map om_Status ms"
  by (induction ms arbitrary: db ss)
    (auto simp: bindE_Inr_iff load_order_def dest!: ToDomain_keys)

text \<open>The order of a list of orders: by status and then from old to new, or from new to old.\<close>

definition listed_before :: "bool \<Rightarrow> ServiceOrder \<Rightarrow> ServiceOrder \<Rightarrow> bool" where
  "listed_before by_status a b \<longleftrightarrow>
     (let rank = (\<lambda>s. status_rank (status_String (so_status s))) in
      if by_status then rank a < rank b \<or> rank a = rank b \<and> so_createdAt a \<le> so_createdAt b
      else so_createdAt b \<le> so_createdAt a)"

lemma keys_le_listed:
  assumes "om_CreatedAt m = so_createdAt a" "om_Status m = status_String (so_status a)"
    and "om_CreatedAt n = so_createdAt b" "om_Status n = status_String (so_status b)"
  shows "keys_le (if f then [StatusRank_ASC, CreatedAt_ASC] else [CreatedAt_DESC]) m n \<longleftrightarrow> listed_before f a b"
  using assms by (auto simp: listed_before_def Let_def)

lemma filters_query:
  assumes "repo_impl_FindAllWithFilters U G fs db = (Inr ss, db')"
  obtains c where "case f_CustomerID fs of None \<Rightarrow> c = None
      | Some i \<Rightarrow> if i = '''' then c = None else \<exists>u. uuid_Parse U i = Inr u \<and> c = Some u"
    "load_orders U G \<lparr>q_customer_id = c, q_status = map_option status_String (f_Status fs),
       q_status_not_in = (if f_HideCompleted fs then hidden_statuses else []), q_saga_status = None,
       q_Order = (if f_SortByStatus fs then [StatusRank_ASC, CreatedAt_ASC] else [CreatedAt_DESC])\<rparr> db =
       (Inr ss, db')"
  using assms unfolding repo_impl_FindAllWithFilters_def
  by (auto simp: bindE_Inr_iff split: option.splits sum.splits if_splits)

text \<open>An order the filters ask for.\<close>

definition filtered :: "(string \<Rightarrow> string option) \<Rightarrow> RepositoryFilters \<Rightarrow> order_view \<Rightarrow> bool" where
  "filtered canon fs v \<longleftrightarrow>
     (case f_CustomerID fs of None \<Rightarrow> True | Some i \<Rightarrow> i = '''' \<or> canon i = Some (v_customerID v)) \<and>
     (case f_Status fs of None \<Rightarrow> True | Some st \<Rightarrow> v_status v = st) \<and>
     (f_HideCompleted fs \<longrightarrow> v_status v \<notin> {StatusCompleted, StatusAwaitingPayment, StatusPaid,
        StatusDelivered, StatusAuthorizationDenied})"

lemma hidden_iff:
  "status_IsValid st \<Longrightarrow> status_String st \<in> set hidden_statuses \<longleftrightarrow>
   st \<in> {StatusCompleted, StatusAwaitingPayment, StatusPaid, StatusDelivered, StatusAuthorizationDenied}"
  by (cases st) (simp_all add: hidden_statuses_def)

lemma status_String_eq:
  "status_IsValid a \<Longrightarrow> status_IsValid b \<Longrightarrow> status_String a = status_String b \<longleftrightarrow> a = b"
  using OrderStatus_of_String by metis

context gorm_db
begin

lemma sorted_list_run:
  assumes "load_orders U G q db = (Inr ss, db')"
    and "q_Order q = (if f then [StatusRank_ASC, CreatedAt_ASC] else [CreatedAt_DESC])"
  shows "sorted_wrt (listed_before f) ss"
proof -
  from assms(1) obtain ms db1 where y: "g_Find G q db = (Inr ms, db1)"
    and ms: "mapE (load_order U G) ms db1 = (Inr ss, db')" by (auto simp: load_orders_def bindE_Inr_iff)
  note k = load_each_keys [OF ms]
  have len: "length ms = length ss" using k by (metis length_map)
  have "listed_before f (ss ! i) (ss ! j)" if "i < j" "j < length ss" for i j
  proof -
    have "keys_le (q_Order q) (ms ! i) (ms ! j)"
      using find_found [OF y] that len by (simp add: sorted_wrt_iff_nth_less)
    moreover have "om_CreatedAt (ms ! n) = so_createdAt (ss ! n) \<and>
        om_Status (ms ! n) = status_String (so_status (ss ! n))" if "n < length ss" for n
      using arg_cong [OF conjunct1 [OF k], of "\<lambda>l. l ! n"] arg_cong [OF conjunct2 [OF k], of "\<lambda>l. l ! n"]
        that len by simp
    moreover have "i < length ss" using that by simp
    ultimately show ?thesis using keys_le_listed that(2) unfolding assms(2) by blast
  qed
  then show ?thesis by (simp add: sorted_wrt_iff_nth_less)
qed

lemma saved_then_found:
  assumes "repo_impl_SaveWithItems U G s db = (Inr s', db1)" and "so_id s = ''''" and "storable s"
    and "\<forall>i \<in> set (so_items s). item_id i = ''''"
    and "repo_impl_FindByIDWithItems U G (so_id s') db1 = (r, db2)"
  shows "r \<noteq> Inl ErrServiceOrderNotFound \<and>
    (\<forall>t. r = Inr t \<longrightarrow> so_id t = so_id s' \<and> abs_order t = persist (uuid_canon U) (abs_order s')) \<and>
    (\<exists>ids. abs_order s' = (abs_order s)\<lparr>v_line_ids := ids\<rparr>)"
proof -
  have "line_ids (so_items s) = []" using assms(4) by (simp add: line_ids_def filter_empty_conv)
  moreover have "repo_Save (ServiceOrderRepositoryImpl U G) s db = (Inr s', db1)"
    using assms(1) by (simp add: repo_impl_Save_def)
  ultimately have s': "uuid_canon U (so_id s') = Some (so_id s')" "numbered s s'"
    "stored_view U (orders db1) (items db1) (so_id s') = Some (persist (uuid_canon U) (abs_order s'))"
    using repository.save_creates [OF _ assms(2,3)] by auto
  have f: "repo_impl_FindByID U G (so_id s') db1 = (r, db2)" using assms(5) by (simp add: repo_impl_FindByID_def)
  have "r \<noteq> Inl ErrServiceOrderNotFound" using find_run(3) [OF f _ s'(1)] s'(3) by auto
  moreover have "so_id t = so_id s' \<and> abs_order t = persist (uuid_canon U) (abs_order s')" if "r = Inr t" for t
    using find_run(2) [OF f that] s'(1,3) by simp
  moreover have "\<exists>ids. abs_order s' = (abs_order s)\<lparr>v_line_ids := ids\<rparr>"
    using s'(2) unfolding numbered_def by (rule conjunct1)
  ultimately show ?thesis by blast
qed

text \<open>What a filtered list holds.\<close>

lemma filters_list_run:
  assumes "repo_impl_FindAllWithFilters U G fs db = (Inr ss, db')"
    and "\<forall>st. f_Status fs = Some st \<longrightarrow> status_IsValid st"
  shows "distinct (map so_id ss) \<and> sorted_wrt (listed_before (f_SortByStatus fs)) ss \<and>
    (\<forall>j v. (stored_view U (orders db) (items db) j = Some v \<and> filtered (uuid_canon U) fs v) \<longleftrightarrow>
      (\<exists>s \<in> set ss. so_id s = j \<and> abs_order s = v))"
proof -
  let ?q = "\<lambda>c. \<lparr>q_customer_id = c, q_status = map_option status_String (f_Status fs),
       q_status_not_in = (if f_HideCompleted fs then hidden_statuses else []), q_saga_status = None,
       q_Order = (if f_SortByStatus fs then [StatusRank_ASC, CreatedAt_ASC] else [CreatedAt_DESC])\<rparr>"
  obtain c where c: "case f_CustomerID fs of None \<Rightarrow> c = None
      | Some i \<Rightarrow> if i = '''' then c = None else \<exists>u. uuid_Parse U i = Inr u \<and> c = Some u"
    and run: "load_orders U G (?q c) db = (Inr ss, db')" by (rule filters_query [OF assms(1)])
  have "(\<exists>u r. j = uuid_String U u \<and> orders db u = Some r \<and> selected (?q c) r) \<longleftrightarrow> filtered (uuid_canon U) fs v"
    if "stored_view U (orders db) (items db) j = Some v" for j v
  proof -
    from that obtain u r where r: "j = uuid_String U u" "orders db u = Some r"
      "row_view U r (live_lines (items db) u) = Some v" by (auto simp: stored_view_Some)
    have st: "status_IsValid (v_status v)" "status_String (v_status v) = om_Status r"
      using row_view_status [OF r(3)] by auto
    have "selected (?q c) r \<longleftrightarrow> filtered (uuid_canon U) fs v"
    proof -
      have "(\<forall>k. c = Some k \<longrightarrow> om_CustomerID r = k) \<longleftrightarrow> (case f_CustomerID fs of None \<Rightarrow> True
          | Some i \<Rightarrow> i = '''' \<or> uuid_canon U i = Some (v_customerID v))"
      proof (cases "c = None")
        case True
        then show ?thesis using c by (auto split: option.splits if_splits)
      next
        case False
        with c obtain i k where i: "f_CustomerID fs = Some i" "i \<noteq> ''''" "uuid_Parse U i = Inr k" "c = Some k"
          by (auto split: option.splits if_splits)
        then have "uuid_canon U i = Some (v_customerID v) \<longleftrightarrow> om_CustomerID r = k"
          unfolding row_view_Some(1) [OF r(3)] by (auto simp: uuid_canon_def String_inj)
        with i show ?thesis by simp
      qed
      moreover have "(\<forall>x. map_option status_String (f_Status fs) = Some x \<longrightarrow> om_Status r = x) \<longleftrightarrow>
          (case f_Status fs of None \<Rightarrow> True | Some x \<Rightarrow> v_status v = x)"
        using assms(2) st status_String_eq by (auto split: option.splits)
      ultimately show ?thesis using hidden_iff [OF st(1)] unfolding st(2)
        by (simp add: selected_def filtered_def)
    qed
    then show ?thesis using r(1,2) by (auto simp: String_inj)
  qed
  then show ?thesis using load_orders_run(2) [OF run refl] sorted_list_run [OF run] by (simp cong: conj_cong)
qed

end

subsection \<open>The properties\<close>

text \<open>
  Claim C20. The repository implements what the application relies on: over any library that keeps the
  documented contract of \<^verbatim>\<open>gorm\<close> and \<^verbatim>\<open>google/uuid\<close> all the laws of \<open>order_repository\<close> hold, with the order
  behind the rows (\<open>stored_view\<close>) as the stored order.
\<close>

theorem repository_implemented:
  assumes "gorm_db U G orders items"
  shows "order_repository (ServiceOrderRepositoryImpl U G) (uuid_canon U)
    (\<lambda>db. stored_view U (orders db) (items db))"
  using assms by (rule gorm_db.implements)

theorem repository_implemented_witness:
  "order_repository (ServiceOrderRepositoryImpl mem_uuid mem_gorm) (uuid_canon mem_uuid)
    (\<lambda>db. stored_view mem_uuid (mt_order db) (mt_item db))"
  by (rule repository_implemented) (rule mem_gorm.gorm_db_axioms)

text \<open>
  Claim C21. Round trip: a new order that is saved is read back under the identifier the save gave it, as
  the order that was saved with its identifiers in canonical form, its lines included; a read of it never
  answers that it is missing.
\<close>

theorem save_then_find:
  assumes "gorm_db U G orders items" and "repo_impl_SaveWithItems U G s db = (Inr s', db1)"
    and "so_id s = ''''" and "storable s" and "\<forall>i \<in> set (so_items s). item_id i = ''''"
    and "repo_impl_FindByIDWithItems U G (so_id s') db1 = (r, db2)"
  shows "r \<noteq> Inl ErrServiceOrderNotFound \<and>
    (\<forall>t. r = Inr t \<longrightarrow> so_id t = so_id s' \<and> abs_order t = persist (uuid_canon U) (abs_order s')) \<and>
    (\<exists>ids. abs_order s' = (abs_order s)\<lparr>v_line_ids := ids\<rparr>)"
  by (rule gorm_db.saved_then_found [OF assms])

definition sample_new_order :: ServiceOrder where
  "sample_new_order =
     \<lparr>so_id = '''', so_customerID = ''u'', so_vehicleID = ''u0'', so_description = ''noise'',
      so_status = StatusDiagnosing, so_sagaStatus = '''', so_currentSagaID = None, so_sagaTargetStatus = None,
      so_sagaNotes = None, so_mpPreferenceID = None, so_mpPaymentID = None, so_paymentURL = None,
      so_customerEmail = ''a@x'', so_customerName = '''',
      so_items = [\<lparr>item_id = '''', item_serviceOrderID = ''u'', item_historyID = None,
        item_itemType = ItemTypeProduct, item_referenceID = ''u00'', item_name = ''Oil'',
        item_quantity = 2, item_unitPrice = 500, item_createdAt = 0, item_updatedAt = 0,
        item_deletedAt = None\<rparr>],
      so_closedAt = None, so_createdAt = 0, so_updatedAt = 0, so_deletedAt = None\<rparr>"

definition no_tables :: mem_tables where
  "no_tables = \<lparr>mt_clock = 0, mt_orders = [], mt_items = []\<rparr>"

theorem save_then_find_witness:
  "case repo_impl_SaveWithItems mem_uuid mem_gorm sample_new_order no_tables of
     (Inl e, db1) \<Rightarrow> False
   | (Inr s', db1) \<Rightarrow>
       (case repo_impl_FindByIDWithItems mem_uuid mem_gorm (so_id s') db1 of
          (Inl e, db2) \<Rightarrow> False
        | (Inr t, db2) \<Rightarrow> abs_order t = persist (uuid_canon mem_uuid) (abs_order s') \<and> so_id t = so_id s')"
proof -
  have runs: "case repo_impl_SaveWithItems mem_uuid mem_gorm sample_new_order no_tables of
     (Inl e, db1) \<Rightarrow> False
   | (Inr s', db1) \<Rightarrow> (case repo_impl_FindByIDWithItems mem_uuid mem_gorm (so_id s') db1 of
          (Inl e, db2) \<Rightarrow> False | (Inr t, db2) \<Rightarrow> True)"
    by code_simp
  have ok: "so_id sample_new_order = ''''" "storable sample_new_order"
    "\<forall>i \<in> set (so_items sample_new_order). item_id i = ''''" by code_simp+
  from runs show ?thesis
    by (auto split: prod.splits sum.splits dest: save_then_find [OF mem_gorm.gorm_db_axioms _ ok])
qed

text \<open>
  A filtered list is exact and in order: it holds every stored order of the customer and the
  status asked for once and no other, leaves out the finished ones when asked to, and comes by status rank
  and then from old to new, or from new to old.
\<close>

theorem FindAllWithFilters_exact:
  assumes "gorm_db U G orders items" and "repo_impl_FindAllWithFilters U G fs db = (Inr ss, db')"
    and "\<forall>st. f_Status fs = Some st \<longrightarrow> status_IsValid st"
  shows "distinct (map so_id ss) \<and> sorted_wrt (listed_before (f_SortByStatus fs)) ss \<and>
    (\<forall>j v. (stored_view U (orders db) (items db) j = Some v \<and> filtered (uuid_canon U) fs v) \<longleftrightarrow>
      (\<exists>s \<in> set ss. so_id s = j \<and> abs_order s = v))"
  by (rule gorm_db.filters_list_run [OF assms])

theorem FindAllWithFilters_exact_witness:
  "case repo_impl_FindAllWithFilters mem_uuid mem_gorm \<lparr>f_CustomerID = None, f_Status = None,
      f_SortByStatus = True, f_HideCompleted = True\<rparr>
      (snd (repo_impl_SaveWithItems mem_uuid mem_gorm sample_new_order no_tables)) of
     (Inl e, db') \<Rightarrow> False
   | (Inr ss, db') \<Rightarrow> length ss = 1 \<and> sorted_wrt (listed_before True) ss"
proof -
  let ?fs = "\<lparr>f_CustomerID = None, f_Status = None, f_SortByStatus = True, f_HideCompleted = True\<rparr>"
  let ?db = "snd (repo_impl_SaveWithItems mem_uuid mem_gorm sample_new_order no_tables)"
  have runs: "case repo_impl_FindAllWithFilters mem_uuid mem_gorm ?fs ?db of
     (Inl e, db') \<Rightarrow> False | (Inr ss, db') \<Rightarrow> length ss = 1" by code_simp
  from runs show ?thesis
    using FindAllWithFilters_exact [OF mem_gorm.gorm_db_axioms, of ?fs ?db]
    by (auto split: prod.splits sum.splits)
qed

end
