(* ===== verification/Failures.thy ===== *)
theory Failures
  imports Saga_Properties Billing_Properties Usecases_Status_Properties Usecases_Edit_Properties
    Usecases_Read_Properties Consumers_Properties
begin

text \<open>
  What a use case that fails leaves behind. Every use case saves at most once, and what it does after the
  save cannot fail, so a failure means that no stored order was changed. The exception is the start of a
  saga, which saves the order before it sends the request: when the sending fails the order is stranded,
  waiting for an answer to a request that was never sent.
\<close>

subsection \<open>The calculus\<close>

definition fails_by ::
  "('db \<Rightarrow> string \<Rightarrow> order_view option) \<Rightarrow>
   ((string \<Rightarrow> order_view option) \<Rightarrow> (string \<Rightarrow> order_view option) \<Rightarrow> bool) \<Rightarrow> ('db, 'a) io \<Rightarrow> bool" where
  "fails_by view S m \<longleftrightarrow> (\<forall>w e w'. m w = (Inl e, w') \<longrightarrow> S (view (w_db w)) (view (w_db w')))"

definition sure :: "('db, 'a) io \<Rightarrow> bool" where
  "sure m \<longleftrightarrow> (\<forall>w. \<exists>x w'. m w = (Inr x, w'))"

text \<open>Nothing changed, or one order waits for a saga that was not there before.\<close>

definition stranded :: "(string \<Rightarrow> order_view option) \<Rightarrow> (string \<Rightarrow> order_view option) \<Rightarrow> bool" where
  "stranded V V' \<longleftrightarrow> (\<exists>j v sid t remarks. V j = Some v \<and> v_sagaStatus v \<noteq> SagaStatusAwaitingInventory \<and>
     product_lines v \<noteq> {#} \<and>
     V' = V(j \<mapsto> v_set_saga SagaStatusAwaitingInventory (Some sid) (Some t) remarks v))"

definition unchanged_or_stranded ::
  "(string \<Rightarrow> order_view option) \<Rightarrow> (string \<Rightarrow> order_view option) \<Rightarrow> bool" where
  "unchanged_or_stranded V V' \<longleftrightarrow> V' = V \<or> stranded V V'"

lemma unchanged_or_stranded_refl [simp]: "unchanged_or_stranded V V"
  by (simp add: unchanged_or_stranded_def)

lemma fails_by_weaken: "fails_by view S m \<Longrightarrow> (\<And>V V'. S V V' \<Longrightarrow> S' V V') \<Longrightarrow> fails_by view S' m"
  unfolding fails_by_def by blast

lemma fails_by_eq: "fails_by view (=) m \<Longrightarrow> fails_by view unchanged_or_stranded m"
  by (erule fails_by_weaken) simp

lemma fails_by_reads: "reads view m Q \<Longrightarrow> (\<And>V. S V V) \<Longrightarrow> fails_by view S m"
  unfolding reads_def fails_by_def by metis

lemma fails_by_returnE [simp]: "fails_by view S (returnE x)" "fails_by view S (Pair (Inr x))"
  by (simp_all add: fails_by_def)

lemma fails_by_throwE: "(\<And>V. S V V) \<Longrightarrow> fails_by view S (throwE e)"
  by (simp add: fails_by_def throwE_def)

lemma fails_by_if:
  "(b \<Longrightarrow> fails_by view S m) \<Longrightarrow> (\<not> b \<Longrightarrow> fails_by view S n) \<Longrightarrow> fails_by view S (if b then m else n)"
  by simp

lemma fails_by_step:
  assumes "reads view m Q" and "\<And>V. S V V" and "\<And>x. fails_by view S (f x)"
  shows "fails_by view S (bindE m f)"
  unfolding fails_by_def
proof (intro allI impI)
  fix w e w' assume run: "bindE m f w = (Inl e, w')"
  obtain r w1 where m: "m w = (r, w1)" by fastforce
  have same: "view (w_db w1) = view (w_db w)" by (rule reads_run(1) [OF assms(1) m])
  show "S (view (w_db w)) (view (w_db w'))"
  proof (cases r)
    case (Inl e')
    with run m same assms(2) show ?thesis by (auto simp: bindE_def)
  next
    case (Inr x)
    with run m have "f x w1 = (Inl e, w')" by (simp add: bindE_def)
    with assms(3) [of x] same show ?thesis unfolding fails_by_def by metis
  qed
qed

lemma bindE_after: "m w = (Inr x, w1) \<Longrightarrow> bindE m f w = f x w1"
  by (simp add: bindE_def)

lemma sure_returnE [simp]: "sure (returnE x)" "sure (Pair (Inr x))"
  by (simp_all add: sure_def)

lemma sure_bindE: "sure m \<Longrightarrow> (\<And>x. sure (f x)) \<Longrightarrow> sure (bindE m f)"
  unfolding sure_def bindE_def by (metis (mono_tags, lifting) old.prod.case old.sum.simps(6))

lemma sure_notify: "sure (notify_customer D s a b)"
  unfolding sure_def using notify_customer_run by (metis surj_pair)

lemma sure_emails:
  "sure (saga_sendStatusUpdateEmail D s a b)" "sure (advance_sendStatusUpdateEmail D s a b)"
  "sure (authorization_sendStatusUpdateEmail D s a b)" "sure (webhook_sendStatusUpdateEmail D s a b)"
  by (simp_all add: saga_sendStatusUpdateEmail_def advance_sendStatusUpdateEmail_def
      authorization_sendStatusUpdateEmail_def webhook_sendStatusUpdateEmail_def sure_notify)

lemma fails_by_last:
  assumes "fails_by view S m" and "\<And>x. sure (f x)"
  shows "fails_by view S (bindE m f)"
  unfolding fails_by_def
proof (intro allI impI)
  fix w e w' assume run: "bindE m f w = (Inl e, w')"
  obtain r w1 where m: "m w = (r, w1)" by fastforce
  show "S (view (w_db w)) (view (w_db w'))"
  proof (cases r)
    case (Inl e')
    with run m assms(1) show ?thesis unfolding fails_by_def by (auto simp: bindE_def)
  next
    case (Inr x)
    with run m have "f x w1 = (Inl e, w')" by (simp add: bindE_def)
    moreover obtain y w2 where "f x w1 = (Inr y, w2)" using assms(2) unfolding sure_def by blast
    ultimately show ?thesis by simp
  qed
qed

lemma reads_clocked:
  "reads view (UpdateStatusE D t s) (\<lambda>_ _. True)" "reads view (StartSagaE D sid t nts s) (\<lambda>_ _. True)"
  "reads view (CompleteSagaE D s) (\<lambda>_ _. True)" "reads view (FailSagaE D s) (\<lambda>_ _. True)"
  "reads view (AwaitPaymentE D a b s) (\<lambda>_ _. True)" "reads view (ConfirmPaymentE D p s) (\<lambda>_ _. True)"
  "reads view (RejectPaymentE D s) (\<lambda>_ _. True)" "reads view (CancelAfterRefundE D s) (\<lambda>_ _. True)"
  by (auto simp: clocked_defs intro!: reads_Now_bind reads_liftE)

lemma reads_histories:
  "reads view (saga_saveHistory D s a b op sid fr nts) (\<lambda>_ _. True)"
  "reads view (webhook_saveHistory D s a b p q r) (\<lambda>_ _. True)"
  by (auto simp: saga_saveHistory_def webhook_saveHistory_def Let_def intro!: reads_Now_bind reads_bindE)

context service_env
begin

lemma fails_by_Save: "(\<And>V. S V V) \<Longrightarrow> fails_by view S (Save D s)"
  using save_fails by (auto simp: fails_by_def Save_def on_db_def split: prod.splits)

lemma reads_find: "reads view (FindByID D i) (\<lambda>_ _. True)"
  using find_frame by (auto simp: reads_def FindByID_def on_db_def split: prod.splits)

lemmas fails_steps = fails_by_step [OF reads_find] fails_by_step [OF reads_clocked(1)]
  fails_by_step [OF reads_clocked(2)] fails_by_step [OF reads_clocked(3)]
  fails_by_step [OF reads_clocked(4)] fails_by_step [OF reads_clocked(5)]
  fails_by_step [OF reads_clocked(6)] fails_by_step [OF reads_clocked(7)]
  fails_by_step [OF reads_clocked(8)] fails_by_step [OF reads_histories(1)]
  fails_by_step [OF reads_histories(2)] fails_by_step [OF reads_calls(1)]
  fails_by_step [OF reads_calls(2)] fails_by_step [OF reads_calls(3)]
  fails_by_step [OF reads_calls(11)] fails_by_step [OF reads_calls(14)]
  fails_by_step [OF reads_calls(15)] fails_by_last [OF fails_by_Save]
  fails_by_if fails_by_throwE fails_by_returnE

lemmas sure_steps = sure_bindE sure_emails sure_returnE

lemma transitionLocal_fails: "fails_by view (=) (transitionLocal D s t op sid nts)"
proof -
  have "reads view (if so_status s \<noteq> t then UpdateStatusE D t s else returnE s) (\<lambda>_ _. True)"
    by (simp add: reads_clocked(1))
  then show ?thesis unfolding transitionLocal_def Let_def
    by (rule fails_by_step) (auto intro!: fails_steps sure_steps)
qed

text \<open>The end of \<^verbatim>\<open>StartSaga\<close> for an order with product lines.\<close>

lemma saga_tail_failed:
  assumes run: "bindE (NewV7 D) (\<lambda>sagaID.
         bindE (StartSagaE D sagaID t remarks s) (\<lambda>order.
         bindE (Save D order) (\<lambda>order.
         bindE (PublishRequest D sagaID (so_id order) op items) (\<lambda>_.
         returnE \<lparr>sr_Order = order, sr_SagaID = sagaID, sr_Async = True\<rparr>)))) w = (Inl e, w')"
    and h: "held canon s (view (w_db w))" and idle: "so_sagaStatus s \<noteq> SagaStatusAwaitingInventory"
    and t: "saga_target t"
  shows "w_log w' = w_log w \<and> (view (w_db w') = view (w_db w) \<or>
    (\<exists>sid. view (w_db w') = (view (w_db w))(so_id s \<mapsto>
       v_set_saga SagaStatusAwaitingInventory (Some sid) (Some t) remarks (abs_order s))))"
proof -
  obtain sid w2 where nv: "NewV7 D w = (Inr sid, w2)" by (simp add: NewV7_def external_def)
  have sid: "canon sid = Some sid" and q: "quiet w w2" using nv uuid_canonical by (auto simp: NewV7_run quiet_def)
  obtain x w3 where st: "StartSagaE D sid t remarks s w2 = (x, w3)" by fastforce
  have q3: "w_db w3 = w_db w" "w_log w3 = w_log w"
    using q st by (auto simp: quiet_def StartSagaE_def Now_def bindE_def external_def liftE_def split: sum.splits)
  show ?thesis
  proof (cases x)
    case (Inl e')
    with run nv st q3 show ?thesis by (auto simp: bindE_def)
  next
    case (Inr s1)
    obtain n where o: "order_StartSaga n sid t remarks s = Inr s1"
      using StartSagaE_run [OF st [unfolded Inr]] by auto
    have h3: "held canon s (view (w_db w3))" using h q3 by simp
    have h1: "held canon s1 (view (w_db w3))" by (rule held_StartSaga [OF h3 o idle t sid])
    obtain y w4 where sv: "Save D s1 w3 = (y, w4)" by fastforce
    have l4: "w_log w4 = w_log w" using sv q3 by (auto simp: Save_def on_db_def split: prod.splits)
    show ?thesis
    proof (cases y)
      case (Inl e')
      have "fails_by view (=) (Save D s1)" by (rule fails_by_Save) simp
      with sv Inl have "view (w_db w4) = view (w_db w3)" by (simp add: fails_by_def)
      with run nv st \<open>x = Inr s1\<close> sv Inl q3 l4 show ?thesis by (auto simp: bindE_def)
    next
      case (Inr s2)
      have "w_db w' = w_db w4 \<and> w_log w' = w_log w4"
        using run nv st \<open>x = Inr s1\<close> sv Inr
        by (auto simp: bindE_def PublishRequest_def external_def split: sum.splits)
      moreover have "so_id s1 = so_id s" using o by (auto simp: order_StartSaga_Inr_iff)
      ultimately show ?thesis
        using Save_held [OF sv [unfolded Inr] h1] q3 l4 abs_order_StartSaga [OF o] by auto
    qed
  qed
qed

lemma StartSaga_failed:
  assumes run: "StartSaga D i op t remarks w = (Inl e, w')" and t: "saga_target t"
  shows "view (w_db w') = view (w_db w) \<or>
    (\<exists>j v sid. canon i = Some j \<and> view (w_db w) j = Some v \<and>
       v_sagaStatus v \<noteq> SagaStatusAwaitingInventory \<and> product_lines v \<noteq> {#} \<and>
       w_log w' = w_log w \<and> view (w_db w') = (view (w_db w))(j \<mapsto>
         v_set_saga SagaStatusAwaitingInventory (Some sid) (Some t) remarks v))"
proof -
  obtain r w1 where find: "FindByID D i w = (r, w1)" by fastforce
  note f = FindByID_run [OF find]
  show ?thesis
  proof (cases r)
    case (Inl e')
    with run find f(1) show ?thesis by (auto simp: StartSaga_def bindE_def)
  next
    case (Inr s)
    with run find have rest: "(if IsDeleted s then throwE ErrServiceOrderDeleted
     else if so_sagaStatus s = SagaStatusAwaitingInventory then throwE ErrSagaAlreadyInProgress
     else if inventoryItems s = [] then
         bindE (transitionLocal D s t op '''' remarks) (\<lambda>order.
         returnE \<lparr>sr_Order = order, sr_SagaID = '''', sr_Async = False\<rparr>)
       else
         bindE (NewV7 D) (\<lambda>sagaID.
         bindE (StartSagaE D sagaID t remarks s) (\<lambda>order.
         bindE (Save D order) (\<lambda>order.
         bindE (PublishRequest D sagaID (so_id order) op (inventoryItems s)) (\<lambda>_.
         returnE \<lparr>sr_Order = order, sr_SagaID = sagaID, sr_Async = True\<rparr>))))) w1 = (Inl e, w')"
      by (simp only: StartSaga_def Let_def bindE_after [where m = "FindByID D i" and w = w, OF find [unfolded Inr]])
    have h: "held canon s (view (w_db w1))" using f(1,6) Inr by simp
    show ?thesis
    proof (cases "IsDeleted s \<or> so_sagaStatus s = SagaStatusAwaitingInventory \<or> inventoryItems s = []")
      case True
      have "fails_by view (=) (bindE (transitionLocal D s t op '''' remarks) (\<lambda>order.
         returnE \<lparr>sr_Order = order, sr_SagaID = '''', sr_Async = False\<rparr>))"
        by (rule fails_by_last [OF transitionLocal_fails]) simp
      with True rest f(1) show ?thesis by (auto simp: fails_by_def throwE_def split: if_splits)
    next
      case False
      then have idle: "so_sagaStatus s \<noteq> SagaStatusAwaitingInventory"
        and prods: "product_lines (abs_order s) \<noteq> {#}" by (simp_all add: inventoryItems_Nil_iff)
      have go: "\<not> IsDeleted s" "inventoryItems s \<noteq> []" using False by auto
      from saga_tail_failed [OF rest [unfolded if_not_P [OF go(1)] if_not_P [OF idle] if_not_P [OF go(2)]] h idle t]
        f(1-3,5) Inr idle prods
      show ?thesis by auto
    qed
  qed
qed

text \<open>Without a queue that takes the request no saga starts.\<close>

lemma StartSaga_needs_queue:
  assumes "StartSaga D i op t remarks w = (Inr x, w')"
    and "\<forall>k a b c d. \<exists>e. Publisher_PublishRequest D k a b c d = Inl e"
    and "canon i = Some j" and "view (w_db w) j = Some v" and "product_lines v \<noteq> {#}"
  shows False
proof -
  from assms(1) obtain s w1 where find: "FindByID D i w = (Inr s, w1)"
    and rest: "inventoryItems s \<noteq> [] \<longrightarrow> (\<exists>sid oid w4. PublishRequest D sid oid op (inventoryItems s) w4 = (Inr (), w'))"
    by (auto simp: StartSaga_def bindE_Inr_iff Let_def split: if_splits) blast
  note f = FindByID_run [OF find]
  have "inventoryItems s \<noteq> []" using f(3,5) assms(3-5) by (auto simp: inventoryItems_Nil_iff)
  with rest obtain sid oid w4 where "PublishRequest D sid oid op (inventoryItems s) w4 = (Inr (), w')" by blast
  moreover obtain e where "Publisher_PublishRequest D (w_tick w4) sid oid op (inventoryItems s) = Inl e"
    using assms(2) by blast
  ultimately show False by (simp add: PublishRequest_def external_def)
qed

lemma StartSaga_fails:
  "saga_target t \<Longrightarrow> fails_by view unchanged_or_stranded (StartSaga D i op t remarks)"
  unfolding fails_by_def unchanged_or_stranded_def stranded_def using StartSaga_failed by blast

lemma CancelOrder_fails: "fails_by view unchanged_or_stranded (CancelOrder D i remarks)"
proof -
  have local: "fails_by view unchanged_or_stranded (bindE (transitionLocal D s StatusCanceled InventoryOpNone '''' remarks)
      (\<lambda>order. returnE \<lparr>sr_Order = order, sr_SagaID = '''', sr_Async = False\<rparr>))" for s
    by (rule fails_by_last [OF fails_by_eq [OF transitionLocal_fails]]) simp
  have saga: "fails_by view unchanged_or_stranded (StartSaga D i op StatusCanceled remarks)" for op
    by (rule StartSaga_fails) (simp add: saga_target_def)
  show ?thesis unfolding CancelOrder_def
    by (rule fails_by_step [OF reads_find]) (auto intro!: fails_by_if fails_by_throwE local saga split: cancel_plan.split)
qed

lemma HandleSucceeded_fails: "fails_by view (=) (HandleSucceeded D ev)"
  unfolding HandleSucceeded_alt
  by (auto intro!: fails_steps(1) fails_by_if fails_by_step [OF reads_liftE [where Q = "\<lambda>_ _. True"]]
      fails_by_last [OF transitionLocal_fails])

lemma HandleFailed_fails: "fails_by view (=) (HandleFailed D ev)"
  unfolding HandleFailed_def Let_def by (auto intro!: fails_steps sure_steps)

lemma startPayment_fails: "fails_by view (=) (startPayment D s old)"
  unfolding startPayment_def CreatePaymentPreference_def Let_def by (auto intro!: fails_steps sure_steps)

lemma Advance_fails: "fails_by view unchanged_or_stranded (AdvanceServiceOrderStatus D i)"
proof -
  have saga: "fails_by view unchanged_or_stranded (bindE (StartSaga D (so_id s) (DetermineInventoryOperation (so_status s) t) t None)
      (\<lambda>r. returnE (f r)))" if "DetermineInventoryOperation (so_status s) t \<noteq> InventoryOpNone" for s t and f :: "StartResult \<Rightarrow> 'x"
    by (rule fails_by_last [OF StartSaga_fails]) (use that in \<open>auto dest: stock_operation_target\<close>)
  show ?thesis unfolding AdvanceServiceOrderStatus_def Let_def
    by (auto intro!: fails_steps sure_steps saga fails_by_eq [OF startPayment_fails]
        fails_by_step [OF reads_liftE [where Q = "\<lambda>_ _. True"]])
qed

lemma Respond_fails: "fails_by view unchanged_or_stranded (RespondToAuthorization D input)"
proof -
  have saga: "fails_by view unchanged_or_stranded (bindE (StartSaga D (so_id s) (DetermineInventoryOperation st t) t nts)
      (\<lambda>r. returnE (f r)))" if "DetermineInventoryOperation st t \<noteq> InventoryOpNone"
    for s st t nts and f :: "StartResult \<Rightarrow> 'x"
    by (rule fails_by_last [OF StartSaga_fails]) (use that in \<open>auto dest: stock_operation_target\<close>)
  show ?thesis unfolding RespondToAuthorization_def Let_def
    by (auto intro!: fails_steps(1) fails_by_throwE saga)
      (auto intro!: fails_steps sure_steps)
qed

lemma reads_settle_payment: "reads view (settle_payment D s) (\<lambda>_ _. True)"
  using settle_payment_run(1) unfolding reads_def by metis

lemma Delete_fails: "fails_by view unchanged_or_stranded (DeleteServiceOrder D i remarks)"
  unfolding DeleteServiceOrder_def
  by (auto intro!: fails_steps(1) fails_by_if fails_by_throwE fails_by_step [OF reads_settle_payment]
      fails_by_last [OF CancelOrder_fails])

lemma RetryPayment_fails: "fails_by view (=) (RetryPayment D i)"
  unfolding RetryPayment_def Let_def FindByIDWithItems_eq by (auto intro!: fails_steps sure_steps)

lemma webhook_fails: "fails_by view (=) (HandlePaymentWebhook D input)"
  unfolding HandlePaymentWebhook_def markApproved_def markRejected_def markRefunded_def Let_def
  by (auto intro!: fails_steps sure_steps)

lemma Create_fails: "fails_by view (=) (CreateServiceOrder D input)"
  using Create_failed unfolding fails_by_def by metis

lemma Update_fails: "fails_by view (=) (UpdateServiceOrder D input)"
  using Update_failed unfolding fails_by_def by metis

end

end
