(* ===== verification/System.thy ===== *)
theory System
  imports Failures Persistence_Properties
begin

text \<open>
  The service as a whole: everything that can happen to it, one event at a time, and what is true after
  any number of events. An event is a call of a use case by a handler, a run of a consumer's loop over
  what the queue answers, or the recovery at a start (\<^verbatim>\<open>cmd/api/main.go\<close>). What the other services answer
  is the environment's choice at every moment.
\<close>

subsection \<open>The events\<close>

datatype event =
    CreateEvent CreateServiceOrderInput
  | UpdateEvent UpdateServiceOrderInput
  | AdvanceEvent string
  | RespondEvent RespondToAuthorizationInput
  | DeleteEvent string "string option"
  | RetryPaymentEvent string
  | WebhookEvent HandlePaymentWebhookInput
  | GetPaymentStatusEvent string
  | GetEvent string
  | GetAllEvent GetAllServiceOrdersInput
  | GetHistoryEvent string
  | SucceededQueue "(error + Message list) list"
  | FailedQueue "(error + Message list) list"
  | CustomerDeletedQueue "(error + Message list) list"
  | Startup

text \<open>\<^verbatim>\<open>main.go\<close> ends the process when the recovery fails and only logs the orders that await a payment.\<close>

definition logAwaitingPaymentOrders :: "'db deps \<Rightarrow> ('db, unit) io" where
  "logAwaitingPaymentOrders D = bindE (FindBySagaStatus D SagaStatusAwaitingPayment) (\<lambda>_. returnE ())"

definition startup :: "'db deps \<Rightarrow> ('db, unit) io" where
  "startup D = bindE (RecoverAwaitingSagas D) (\<lambda>_. logAwaitingPaymentOrders D)"

fun serve :: "json_parser \<Rightarrow> 'db deps \<Rightarrow> event \<Rightarrow> 'db world \<Rightarrow> 'db world" where
  "serve J D (CreateEvent input) w = snd (CreateServiceOrder D input w)"
| "serve J D (UpdateEvent input) w = snd (UpdateServiceOrder D input w)"
| "serve J D (AdvanceEvent i) w = snd (AdvanceServiceOrderStatus D i w)"
| "serve J D (RespondEvent input) w = snd (RespondToAuthorization D input w)"
| "serve J D (DeleteEvent i remarks) w = snd (DeleteServiceOrder D i remarks w)"
| "serve J D (RetryPaymentEvent i) w = snd (RetryPayment D i w)"
| "serve J D (WebhookEvent input) w = snd (HandlePaymentWebhook D input w)"
| "serve J D (GetPaymentStatusEvent i) w = snd (GetPaymentStatus D i w)"
| "serve J D (GetEvent i) w = snd (GetServiceOrder D i w)"
| "serve J D (GetAllEvent input) w = snd (GetAllServiceOrders D input w)"
| "serve J D (GetHistoryEvent i) w = snd (GetServiceOrderHistory D i w)"
| "serve J D (SucceededQueue polls) w = snd (Start_succeeded J D polls w)"
| "serve J D (FailedQueue polls) w = snd (Start_failed J D polls w)"
| "serve J D (CustomerDeletedQueue polls) w = snd (Start_customer_deleted J D polls w)"
| "serve J D Startup w = snd (startup D w)"

inductive reachable :: "json_parser \<Rightarrow> 'db deps \<Rightarrow> 'db world \<Rightarrow> 'db world \<Rightarrow> bool"
  for J :: json_parser and D :: "'db deps" and w0 :: "'db world" where
  initial: "reachable J D w0 w0"
| event: "reachable J D w0 w \<Longrightarrow> reachable J D w0 (serve J D e w)"

fun serve_all :: "json_parser \<Rightarrow> 'db deps \<Rightarrow> event list \<Rightarrow> 'db world \<Rightarrow> 'db world" where
  "serve_all J D [] w = w"
| "serve_all J D (e # es) w = serve_all J D es (serve J D e w)"

lemma reachable_serve_all: "reachable J D w0 w \<Longrightarrow> reachable J D w0 (serve_all J D es w)"
  by (induction es arbitrary: w) (auto intro: reachable.event)

subsection \<open>Every event moves along the abstract machine\<close>

lemma quiet_reads:
  assumes "\<And>w r w'. m w = (r, w') \<Longrightarrow> quiet w w'"
  shows "reads view m (\<lambda>_ _. True)"
  using assms unfolding reads_def quiet_def by metis

text \<open>What it means for the stored orders to have moved along the abstract machine.\<close>

lemma evolves_invariant:
  assumes "evolves V V'" and "wf_store V"
  shows "wf_store V' \<and>
    (\<forall>j v. V j = Some v \<longrightarrow> (\<exists>v'. V' j = Some v' \<and> workflow\<^sup>*\<^sup>* (v_status v) (v_status v'))) \<and>
    (\<forall>j v'. V j = None \<longrightarrow> V' j = Some v' \<longrightarrow> workflow\<^sup>*\<^sup>* StatusReceived (v_status v'))"
proof -
  have "\<exists>v'. V' j = Some v' \<and> workflow\<^sup>*\<^sup>* (v_status v) (v_status v')" if "V j = Some v" for j v
    using evolves_stored [OF assms(1) that] order_steps_reaches by blast
  moreover have "workflow\<^sup>*\<^sup>* StatusReceived (v_status v')" if "V j = None" "V' j = Some v'" for j v'
  proof -
    have "order_evolves (V j) (V' j)" using assms(1) by (simp add: evolves_def)
    with that obtain v0 where "fresh_view v0" "order_steps v0 v'" by (auto simp: order_evolves_def)
    then show ?thesis using order_steps_reaches [of v0 v'] by (simp add: fresh_view_def)
  qed
  ultimately show ?thesis using evolves_wf [OF assms] by blast
qed

context service_env
begin

lemma reads_summaries: "reads view (mapE (summary_of D) ss) (\<lambda>_ _. True)"
  by (rule quiet_reads) (use summaries_run in blast)

lemma reads_lookups:
  "reads view (bindE (attemptE (GetCustomerByID D a)) (\<lambda>c. bindE (attemptE (GetVehicleByID D b))
     (\<lambda>v. returnE (f c v)))) (\<lambda>_ _. True)"
  by (rule quiet_reads) (use lookups_bind in blast)

lemma reads_GetServiceOrder: "reads view (GetServiceOrder D i) (\<lambda>_ _. True)"
  unfolding GetServiceOrder_def Let_def FindByIDWithItems_eq
  by (rule reads_bindE [OF reads_FindByID]) (simp add: reads_throwE reads_lookups)

lemma reads_GetServiceOrderHistory: "reads view (GetServiceOrderHistory D i) (\<lambda>_ _. True)"
  by (rule quiet_reads) (rule history_read_run)

lemma reads_GetAllServiceOrders: "reads view (GetAllServiceOrders D input) (\<lambda>_ _. True)"
proof -
  have find: "reads view (FindAllWithFilters D fs) (\<lambda>_ _. True)" for fs
    using filters_frame by (auto simp: reads_def FindAllWithFilters_def on_db_def split: prod.splits)
  have status: "reads view (case gi_Status input of None \<Rightarrow> returnE None
      | Some st \<Rightarrow> if st \<noteq> '''' then bindE (liftE (NewOrderStatus st)) (\<lambda>s. returnE (Some s))
                  else returnE None) (\<lambda>_ _. True)"
    by (rule quiet_reads) (auto simp: quiet_def bindE_def liftE_def split: option.splits sum.splits if_splits)
  show ?thesis unfolding GetAllServiceOrders_def
    by (rule reads_bindE [OF status], rule reads_bindE [OF find], rule reads_weaken [OF reads_summaries]) simp
qed

lemma reads_startup: "reads view (startup D) (\<lambda>_ _. True)"
  unfolding startup_def logAwaitingPaymentOrders_def
  by (rule reads_bindE [OF reads_RecoverAwaitingSagas], rule reads_bindE [OF reads_FindBySagaStatus])
    (auto simp: SagaStatusAwaitingPayment_def SagaStatusIdle_def)

lemma reads_deleteMessage: "reads view (deleteMessage D message) (\<lambda>_ _. True)"
  by (cases "msg_ReceiptHandle message") (auto simp: deleteMessage_def reads_throwE)

lemma reads_decode: "reads view (liftE r) (\<lambda>_ _. True)"
  by (rule reads_liftE) simp

lemma advances_succeeded: "advances view wf_store (HandleMessage_succeeded J D message)"
  unfolding HandleMessage_succeeded_def
  by (rule advances_skip [OF reads_decode], rule advances_skip [OF reads_IsCurrentSaga],
      rule advances_then [OF advances_if [OF advances_HandleSucceeded advances_returnE]],
      rule reads_advances [OF reads_deleteMessage])

lemma advances_failed: "advances view P (HandleMessage_failed J D message)"
  unfolding HandleMessage_failed_def
  by (rule advances_skip [OF reads_decode], rule advances_skip [OF reads_IsCurrentSaga],
      rule advances_then [OF advances_if [OF advances_HandleFailed advances_returnE]],
      rule reads_advances [OF reads_deleteMessage])

lemma reads_FindByCustomerID: "reads view (FindByCustomerID D c) (\<lambda>_ _. True)"
  using customer_frame by (auto simp: reads_def FindByCustomerID_def on_db_def split: prod.splits)

lemma advances_customer_deleted: "advances view P (HandleMessage_customer_deleted J D message)"
  unfolding HandleMessage_customer_deleted_def
  by (rule advances_skip [OF reads_decode], rule advances_skip [OF reads_FindByCustomerID],
      rule advances_then [OF advances_foreachE], fold cancel_for_customer_def,
      rule advances_cancel_for_customer, rule reads_advances [OF reads_deleteMessage])

text \<open>A handler that is fit for any well-formed store is fit for any number of messages.\<close>

lemma advances_again:
  assumes "advances view wf_store m" and "wf_store (view (w_db w))"
  shows "evolves (view (w_db w)) (view (w_db (snd (m w)))) \<and> wf_store (view (w_db (snd (m w))))"
  using assms evolves_wf unfolding advances_def by (metis prod.collapse)

lemma foreach_messages:
  assumes "\<And>m. advances view wf_store (handle m)" and "wf_store (view (w_db w))"
  shows "evolves (view (w_db w)) (view (w_db (snd (foreachE ms
      (\<lambda>m. bindE (attemptE (handle m)) (\<lambda>_. returnE ())) w))))"
  using assms(2)
proof (induction ms arbitrary: w)
  case (Cons m ms)
  let ?one = "bindE (attemptE (handle m)) (\<lambda>_. returnE ())"
  have one: "advances view wf_store ?one" by (intro advances_then advances_attemptE assms(1)) simp
  obtain w1 where w1: "?one w = (Inr (), w1)"
    by (cases "handle m w") (simp add: bindE_def attemptE_def returnE_def)
  then have ev: "evolves (view (w_db w)) (view (w_db w1))" "wf_store (view (w_db w1))"
    using advances_again [OF one Cons.prems] by simp_all
  have step: "foreachE (m # ms) (\<lambda>m. bindE (attemptE (handle m)) (\<lambda>_. returnE ())) w =
      foreachE ms (\<lambda>m. bindE (attemptE (handle m)) (\<lambda>_. returnE ())) w1"
    unfolding foreachE.simps bindE_def [of ?one] using w1 by simp
  show ?case unfolding step by (rule evolves_trans [OF ev(1) Cons.IH [OF ev(2)]])
qed simp

lemma consumer_evolves:
  assumes "\<And>m. advances view wf_store (handle m)" and "wf_store (view (w_db w))"
  shows "evolves (view (w_db w)) (view (w_db (snd (Start_consumer handle polls w))))"
  using assms(2)
proof (induction polls arbitrary: w)
  case (Cons p polls)
  show ?case
  proof (cases p)
    case (Inl e)
    then show ?thesis by simp
  next
    case (Inr messages)
    let ?w1 = "snd (foreachE messages (\<lambda>m. bindE (attemptE (handle m)) (\<lambda>_. returnE ())) w)"
    have ev: "evolves (view (w_db w)) (view (w_db ?w1))" by (rule foreach_messages [OF assms(1) Cons.prems])
    then have "wf_store (view (w_db ?w1))" using Cons.prems by (rule evolves_wf)
    from Cons.IH [OF this] ev show ?thesis by (simp add: Inr) (rule evolves_trans)
  qed
qed simp

lemma serve_evolves:
  assumes "wf_store (view (w_db w))"
  shows "evolves (view (w_db w)) (view (w_db (serve J D e w)))"
proof -
  have step: "evolves (view (w_db w)) (view (w_db (snd (m w))))" if "advances view wf_store m" for m :: "('db, 'x) io"
    using advances_again [OF that assms] by blast
  have read: "evolves (view (w_db w)) (view (w_db (snd (m w))))" if "reads view m (\<lambda>_ _. True)"
    for m :: "('db, 'x) io" by (rule step [OF reads_advances [OF that]])
  show ?thesis
  proof (cases e)
    case (WebhookEvent input)
    then show ?thesis using step [OF advances_HandlePaymentWebhook] by simp
  next
    case (SucceededQueue polls)
    then show ?thesis using consumer_evolves [OF advances_succeeded assms] by (simp add: Start_succeeded_def)
  next
    case (FailedQueue polls)
    then show ?thesis using consumer_evolves [OF advances_failed assms] by (simp add: Start_failed_def)
  next
    case (CustomerDeletedQueue polls)
    then show ?thesis using consumer_evolves [OF advances_customer_deleted assms]
      by (simp add: Start_customer_deleted_def)
  qed (simp_all add: step read advances_CreateServiceOrder advances_UpdateServiceOrder
      advances_AdvanceServiceOrderStatus advances_RespondToAuthorization advances_DeleteServiceOrder
      advances_RetryPayment reads_GetPaymentStatus reads_GetServiceOrder reads_GetAllServiceOrders
      reads_GetServiceOrderHistory reads_startup)
qed

lemma reachable_evolves:
  assumes "reachable J D w0 w" and "wf_store (view (w_db w0))"
  shows "evolves (view (w_db w0)) (view (w_db w)) \<and> wf_store (view (w_db w))"
  using assms
proof (induction rule: reachable.induct)
  case (event w e)
  then have "evolves (view (w_db w)) (view (w_db (serve J D e w)))" by (intro serve_evolves) blast
  with event show ?case using evolves_trans evolves_wf by blast
qed simp

lemma reachable_invariant:
  assumes "wf_store (view (w_db w0))" and "reachable J D w0 w"
  shows "wf_store (view (w_db w)) \<and>
    (\<forall>j v. view (w_db w0) j = Some v \<longrightarrow>
       (\<exists>v'. view (w_db w) j = Some v' \<and> workflow\<^sup>*\<^sup>* (v_status v) (v_status v'))) \<and>
    (\<forall>j v'. view (w_db w0) j = None \<longrightarrow> view (w_db w) j = Some v' \<longrightarrow>
       workflow\<^sup>*\<^sup>* StatusReceived (v_status v'))"
  using evolves_invariant reachable_evolves [OF assms(2,1)] assms(1) by blast

end

end
