(* ===== verification/System_Properties.thy ===== *)
theory System_Properties
  imports System
begin

text \<open>
  The properties of the service as a whole: what holds after any sequence of events, and what a failed use
  case leaves behind.
\<close>

subsection \<open>Any sequence of events\<close>

text \<open>
  Claim C1. Whatever happens to the service, in any order, its stored orders stay well formed: saga fields
  that agree with each other, a payment link from billing on, well-formed lines. No order disappears, every
  order's status goes along the edges of the workflow only, and an order that was not there has come from a
  newly received one.
\<close>

theorem service_invariant:
  assumes "service_env D canon view" and "wf_store (view (w_db w0))" and "reachable J D w0 w"
  shows "wf_store (view (w_db w)) \<and>
    (\<forall>j v. view (w_db w0) j = Some v \<longrightarrow>
       (\<exists>v'. view (w_db w) j = Some v' \<and> workflow\<^sup>*\<^sup>* (v_status v) (v_status v'))) \<and>
    (\<forall>j v'. view (w_db w0) j = None \<longrightarrow> view (w_db w) j = Some v' \<longrightarrow>
       workflow\<^sup>*\<^sup>* StatusReceived (v_status v'))"
  using assms by (rule service_env.reachable_invariant)

definition day_at_work :: "event list" where
  "day_at_work = [Startup, AdvanceEvent ''os'', GetEvent ''os'', AdvanceEvent ''os'', DeleteEvent ''os'' None]"

theorem service_invariant_witness:
  "wf_store (mem_view (w_db (serve_all (\<lambda>_. None) (mem_deps '''') day_at_work (idle_world StatusReceived))))"
proof -
  have "reachable (\<lambda>_. None) (mem_deps '''') (idle_world StatusReceived)
      (serve_all (\<lambda>_. None) (mem_deps '''') day_at_work (idle_world StatusReceived))"
    by (intro reachable_serve_all reachable.initial)
  from service_invariant [OF mem_env idle_world_wf this] show ?thesis by simp
qed

text \<open>
  Claim C3. What is over stays over: once an order is delivered, canceled or denied no event changes its
  status, and once it has left the diagnosis no event changes its lines.
\<close>

theorem service_keeps_what_is_settled:
  assumes "service_env D canon view" and "wf_store (view (w_db w0))" and "reachable J D w0 w"
    and "view (w_db w0) j = Some v"
  shows "\<exists>v'. view (w_db w) j = Some v' \<and> (final_status (v_status v) \<longrightarrow> v_status v' = v_status v) \<and>
    (past_diagnosis (v_status v) \<longrightarrow> v_items v' = v_items v)"
proof -
  have "evolves (view (w_db w0)) (view (w_db w))"
    using service_env.reachable_evolves [OF assms(1,3,2)] by blast
  from evolves_stored [OF this assms(4)] obtain v' where v': "view (w_db w) j = Some v'" "order_steps v v'" by blast
  show ?thesis using v' order_steps_final [OF v'(2)] order_steps_items_frozen [OF v'(2)] by blast
qed

theorem service_keeps_what_is_settled_witness:
  "\<exists>v'. mem_view (w_db (serve_all (\<lambda>_. None) (mem_deps '''') day_at_work (idle_world StatusDelivered))) ''os'' = Some v' \<and>
     v_status v' = StatusDelivered \<and> v_items v' = abs_items [sample_line]"
proof -
  have "reachable (\<lambda>_. None) (mem_deps '''') (idle_world StatusDelivered)
      (serve_all (\<lambda>_. None) (mem_deps '''') day_at_work (idle_world StatusDelivered))"
    by (intro reachable_serve_all reachable.initial)
  from service_keeps_what_is_settled [OF mem_env idle_world_wf this idle_world_view]
  show ?thesis by (simp add: final_status_def past_diagnosis_def sample_order_def)
qed

text \<open>
  The service over its real repository: with the order repository over any database that keeps
  the contract of \<^verbatim>\<open>gorm\<close>, starting from empty tables, every order behind the rows is well formed after any
  events and has come from a newly received one along the workflow.
\<close>

theorem service_over_gorm:
  assumes "gorm_db U G orders items" and "orderRepo D = ServiceOrderRepositoryImpl U G"
    and "\<forall>t. \<exists>u. uuid_NewV7 D t = uuid_String U u" and "orders (w_db w0) = Map.empty"
    and "reachable J D w0 w"
    and "stored_view U (orders (w_db w)) (items (w_db w)) j = Some v"
  shows "view_wf v \<and> workflow\<^sup>*\<^sup>* StatusReceived (v_status v)"
proof -
  let ?view = "\<lambda>db. stored_view U (orders db) (items db)"
  have "order_repository (orderRepo D) (uuid_canon U) ?view"
    unfolding assms(2) using assms(1) by (rule gorm_db.implements)
  moreover have "uuid_canon U (uuid_NewV7 D t) = Some (uuid_NewV7 D t)" for t
    using assms(3) gorm_db.parse_String [OF assms(1)] by (auto simp: uuid_canon_def dest: spec [of _ t])
  ultimately have env: "service_env D (uuid_canon U) ?view"
    by (simp add: service_env_def service_env_axioms_def)
  have empty: "?view (w_db w0) = (\<lambda>_. None)"
    using assms(4) by (auto simp: stored_view_def fun_eq_iff split: sum.split)
  then have "wf_store (?view (w_db w0))" by (simp add: wf_store_def)
  from service_env.reachable_invariant [OF env this assms(5)] empty assms(6) show ?thesis by (auto simp: wf_store_def)
qed

definition gorm_deps :: "mem_tables deps" where
  "gorm_deps =
     \<lparr>orderRepo = ServiceOrderRepositoryImpl mem_uuid mem_gorm, time_Now = int,
      uuid_NewV7 = (\<lambda>t. mem_uuid_String t),
      HistoryRepository_Save = (\<lambda>t h. Inr ''h''), HistoryRepository_Find = (\<lambda>t i. Inr []),
      Publisher_PublishRequest = (\<lambda>t a b c d. Inr ()),
      CustomerAdapter_Get = (\<lambda>t i. Inr (sample_customer\<lparr>cust_ID := i\<rparr>)),
      VehicleAdapter_Get = (\<lambda>t i. Inr (sample_vehicle\<lparr>veh_ID := i, veh_CustomerID := ''u''\<rparr>)),
      ProductAdapter_Get = (\<lambda>t i. Inr \<lparr>prod_ID = i, prod_Name = ''Oil'', prod_Description = '''',
         prod_Price = 500, prod_ProductType = ''''\<rparr>),
      ServiceAdapter_Get = (\<lambda>t i. Inr \<lparr>serv_ID = i, serv_Name = ''Work'', serv_Description = '''',
         serv_Price = 900\<rparr>),
      EmailService_Send = (\<lambda>t a b c d e. Inr ()),
      MP_CreateOrder = (\<lambda>t a b c. Inr sample_mp_order),
      MP_CancelOrder = (\<lambda>t i. Inr sample_mp_order),
      MP_RefundOrder = (\<lambda>t i. Inr sample_mp_order),
      MP_GetPayment = (\<lambda>t i. Inr (sample_payment ''approved'')),
      SQS_DeleteMessage = (\<lambda>t i. Inr ()),
      notifier_wired = True, cancelPaymentOrder_wired = True, refundPaymentOrder_wired = True\<rparr>"

text \<open>An order is created and sent to diagnosis and from there to the customer.\<close>

definition gorm_input :: CreateServiceOrderInput where
  "gorm_input = \<lparr>ci_CustomerID = ''u'', ci_VehicleID = ''u0'', ci_Description = ''noise'',
     ci_Items = [\<lparr>ii_ItemType = ''PRODUCT'', ii_ReferenceID = ''u00'', ii_Quantity = 2\<rparr>]\<rparr>"

definition gorm_world :: "mem_tables world" where
  "gorm_world = serve_all (\<lambda>_. None) gorm_deps [CreateEvent gorm_input, AdvanceEvent ''u0'', AdvanceEvent ''u0'']
     \<lparr>w_db = no_tables, w_log = [], w_tick = 0\<rparr>"

theorem service_over_gorm_witness:
  "\<exists>v. stored_view mem_uuid (mt_order (w_db gorm_world)) (mt_item (w_db gorm_world)) ''u0'' = Some v \<and>
     view_wf v \<and> workflow\<^sup>*\<^sup>* StatusReceived (v_status v)"
proof -
  let ?w0 = "\<lparr>w_db = no_tables, w_log = [], w_tick = 0\<rparr>"
  have found: "succeeds (repo_impl_FindByID mem_uuid mem_gorm ''u0'' (w_db gorm_world))" by code_simp
  then obtain s db where run: "repo_impl_FindByID mem_uuid mem_gorm ''u0'' (w_db gorm_world) = (Inr s, db)"
    by (rule succeedsE)
  have id: "so_id s = ''u0''" using mem_gorm.find_run(2) [OF run refl]
    by (simp add: uuid_canon_def mem_uuid_def mem_uuid_Parse_def mem_uuid_String_def)
  have v: "stored_view mem_uuid (mt_order (w_db gorm_world)) (mt_item (w_db gorm_world)) ''u0'' = Some (abs_order s)"
    using mem_gorm.find_run(2) [OF run refl] id by simp
  have reach: "reachable (\<lambda>_. None) gorm_deps ?w0 gorm_world"
    unfolding gorm_world_def by (intro reachable_serve_all reachable.initial)
  have repo: "orderRepo gorm_deps = ServiceOrderRepositoryImpl mem_uuid mem_gorm"
    and ids: "\<forall>t. \<exists>u. uuid_NewV7 gorm_deps t = uuid_String mem_uuid u"
    and empty: "mt_order (w_db ?w0) = Map.empty"
    by (auto simp: gorm_deps_def mem_uuid_def no_tables_def mt_order_def)
  from service_over_gorm [OF mem_gorm.gorm_db_axioms repo ids empty reach v] v show ?thesis by blast
qed

subsection \<open>Failures\<close>

text \<open>
  Claim C4. A use case that fails has changed no stored order. Only the start of a saga, inside an advance,
  an answer or a cancellation, can leave one order changed: it then waits for a saga.
\<close>

theorem failure_changes_nothing:
  assumes "service_env D canon view"
  shows "fails_by view (=) (CreateServiceOrder D ci) \<and> fails_by view (=) (UpdateServiceOrder D ui) \<and>
    fails_by view (=) (RetryPayment D i) \<and> fails_by view (=) (HandlePaymentWebhook D hi) \<and>
    fails_by view (=) (HandleSucceeded D se) \<and> fails_by view (=) (HandleFailed D fe) \<and>
    fails_by view unchanged_or_stranded (AdvanceServiceOrderStatus D i) \<and>
    fails_by view unchanged_or_stranded (RespondToAuthorization D ri) \<and>
    fails_by view unchanged_or_stranded (DeleteServiceOrder D i remarks)"
  by (intro conjI service_env.Create_fails [OF assms] service_env.Update_fails [OF assms]
      service_env.RetryPayment_fails [OF assms] service_env.webhook_fails [OF assms]
      service_env.HandleSucceeded_fails [OF assms] service_env.HandleFailed_fails [OF assms]
      service_env.Advance_fails [OF assms] service_env.Respond_fails [OF assms]
      service_env.Delete_fails [OF assms])

theorem failure_changes_nothing_witness:
  "\<exists>e w'. AdvanceServiceOrderStatus (mem_deps '''') ''os'' (idle_world StatusDelivered) = (Inl e, w') \<and>
     unchanged_or_stranded (mem_view (w_db (idle_world StatusDelivered))) (mem_view (w_db w'))"
proof -
  let ?run = "AdvanceServiceOrderStatus (mem_deps '''') ''os'' (idle_world StatusDelivered)"
  have "\<not> succeeds ?run" by code_simp
  then obtain e w' where run: "?run = (Inl e, w')"
    by (cases ?run) (auto simp: succeeds_def split: sum.splits)
  have "fails_by mem_view unchanged_or_stranded (AdvanceServiceOrderStatus (mem_deps '''') ''os'')"
    using failure_changes_nothing [OF mem_env] by blast
  with run show ?thesis unfolding fails_by_def by blast
qed

text \<open>
  \<^verbatim>\<open>StartSaga\<close> saves the order before it sends the request. When the queue takes no message, the
  operation fails, no request is sent, and the order either is unchanged or stays behind waiting for a
  saga nobody was told of; only the recovery at the next start of the service sends its request.
\<close>

theorem publish_failure_strands:
  assumes "service_env D canon view" and "saga_target t"
    and down: "\<forall>k a b c d. \<exists>e. Publisher_PublishRequest D k a b c d = Inl e"
    and "canon i = Some j" and "view (w_db w) j = Some v" and "product_lines v \<noteq> {#}"
    and run: "StartSaga D i op t remarks w = (r, w')"
  shows "(\<exists>e. r = Inl e) \<and> (view (w_db w') = view (w_db w) \<or>
    w_log w' = w_log w \<and> (\<exists>sid. view (w_db w') = (view (w_db w))(j \<mapsto>
       v_set_saga SagaStatusAwaitingInventory (Some sid) (Some t) remarks v)))"
proof -
  have "r \<noteq> Inr x" for x
    using service_env.StartSaga_needs_queue [OF assms(1) _ down assms(4-6)] run by blast
  then obtain e where e: "r = Inl e" by (cases r) auto
  from service_env.StartSaga_failed [OF assms(1) run [unfolded e] assms(2)] assms(4,5) e
  show ?thesis by auto
qed

definition deps_without_queue :: "mem_db deps" where
  "deps_without_queue =
     (mem_deps '''')\<lparr>Publisher_PublishRequest := (\<lambda>t a b c d. Inl (ErrorString ''queue unavailable''))\<rparr>"

lemma without_queue_env: "service_env deps_without_queue mem_canon mem_view"
  using mem_env [of "''''"] by (simp add: service_env_def service_env_axioms_def deps_without_queue_def)

theorem publish_failure_strands_witness:
  "\<exists>e w'. StartSaga deps_without_queue ''os'' StockOpReserve StatusPendingAuthorization None
       (idle_world StatusDiagnosing) = (Inl e, w') \<and> w_log w' = [] \<and>
     (\<exists>s. mem_lookup (w_db w') ''os'' = Some s \<and> so_sagaStatus s = SagaStatusAwaitingInventory)"
proof -
  let ?run = "StartSaga deps_without_queue ''os'' StockOpReserve StatusPendingAuthorization None
    (idle_world StatusDiagnosing)"
  obtain r w' where run: "?run = (r, w')" by fastforce
  have waits: "case mem_lookup (w_db (snd ?run)) ''os'' of None \<Rightarrow> False
      | Some s \<Rightarrow> so_sagaStatus s = SagaStatusAwaitingInventory" by code_simp
  then obtain s where s: "mem_lookup (w_db w') ''os'' = Some s" "so_sagaStatus s = SagaStatusAwaitingInventory"
    using run by (auto split: option.splits)
  have down: "\<forall>k a b c d. \<exists>e. Publisher_PublishRequest deps_without_queue k a b c d = Inl e"
    by (simp add: deps_without_queue_def)
  have lines: "product_lines (abs_order (sample_order StatusDiagnosing SagaStatusIdle None None)) \<noteq> {#}"
    by (simp add: product_lines_def sample_order_def sample_line_def abs_items_def abs_item_def item_IsDeleted_def)
  have before: "mem_view (w_db (idle_world StatusDiagnosing)) ''os'' =
      Some (abs_order (sample_order StatusDiagnosing SagaStatusIdle None None))"
    by (rule idle_world_view) simp
  have "mem_view (w_db w') ''os'' \<noteq> mem_view (w_db (idle_world StatusDiagnosing)) ''os''"
    using s before by (auto simp: mem_view_def abs_order_def sample_order_def SagaStatusIdle_def
        SagaStatusAwaitingInventory_def)
  then have "mem_view (w_db w') \<noteq> mem_view (w_db (idle_world StatusDiagnosing))" by metis
  with publish_failure_strands [OF without_queue_env _ down _ before lines run] run s show ?thesis
    by (auto simp: saga_target_def mem_canon_def)
qed

end
