(* ===== verification/Go_Text.thy ===== *)
theory Go_Text
  imports Consumers
begin

text \<open>
  What the program uses of Go's packages \<^verbatim>\<open>strings\<close>, \<^verbatim>\<open>strconv\<close> and \<^verbatim>\<open>fmt\<close>, on strings of bytes in
  UTF-8. Shared by the validator, the mapping of errors and the handlers.
\<close>

subsection \<open>Searching and splitting\<close>

text \<open>\<^verbatim>\<open>strings.HasPrefix\<close> and \<^verbatim>\<open>strings.Contains\<close>.\<close>

fun strings_HasPrefix :: "string \<Rightarrow> string \<Rightarrow> bool" where
  "strings_HasPrefix s [] = True"
| "strings_HasPrefix [] (d # p) = False"
| "strings_HasPrefix (c # s) (d # p) = (if c = d then strings_HasPrefix s p else False)"

fun strings_Contains :: "string \<Rightarrow> string \<Rightarrow> bool" where
  "strings_Contains [] sub = (sub = [])"
| "strings_Contains (c # s) sub = (if strings_HasPrefix (c # s) sub then True else strings_Contains s sub)"

lemma strings_HasPrefix_iff: "strings_HasPrefix s p \<longleftrightarrow> (\<exists>r. s = p @ r)"
  by (induction s p rule: strings_HasPrefix.induct) auto

lemma strings_Contains_iff: "strings_Contains s sub \<longleftrightarrow> (\<exists>l r. s = l @ sub @ r)"
proof (induction s)
  case (Cons c s)
  have "(\<exists>l r. c # s = l @ sub @ r) \<longleftrightarrow> (\<exists>r. c # s = sub @ r) \<or> (\<exists>l r. s = l @ sub @ r)"
    by (metis append_Cons append_Nil list.exhaust list.inject)
  with Cons show ?case by (simp add: strings_HasPrefix_iff)
qed auto

text \<open>\<^verbatim>\<open>strings.Split\<close> at one byte: always at least one part.\<close>

fun strings_Split :: "char \<Rightarrow> string \<Rightarrow> string list" where
  "strings_Split sep [] = [[]]"
| "strings_Split sep (c # s) =
     (if c = sep then [] # strings_Split sep s
      else case strings_Split sep s of p # ps \<Rightarrow> (c # p) # ps | [] \<Rightarrow> [[c]])"

fun strings_Join :: "string \<Rightarrow> string list \<Rightarrow> string" where
  "strings_Join sep [] = []"
| "strings_Join sep [p] = p"
| "strings_Join sep (p # ps) = p @ sep @ strings_Join sep ps"

lemma Split_not_Nil [simp]: "strings_Split sep s \<noteq> []"
  by (cases s) (auto split: list.split)

lemma Join_Split: "strings_Join [sep] (strings_Split sep s) = s"
proof (induction s)
  case (Cons c s)
  obtain p ps where "strings_Split sep s = p # ps" using Split_not_Nil by (metis list.exhaust)
  with Cons show ?case by (cases ps) auto
qed simp

text \<open>The parts of a text that has one separator.\<close>

lemma Split_none: "sep \<notin> set s \<Longrightarrow> strings_Split sep s = [s]"
  by (induction s) auto

lemma Split_at: "sep \<notin> set a \<Longrightarrow> strings_Split sep (a @ sep # b) = a # strings_Split sep b"
  by (induction a) auto

lemma Split_parts: "p \<in> set (strings_Split sep s) \<Longrightarrow> sep \<notin> set p"
proof (induction s arbitrary: p)
  case (Cons c s)
  then show ?case by (cases "strings_Split sep s") (auto split: if_splits)
qed simp

text \<open>\<^verbatim>\<open>strings.Cut\<close> at one byte.\<close>

definition strings_Cut :: "char \<Rightarrow> string \<Rightarrow> string \<times> string \<times> bool" where
  "strings_Cut sep s =
     (if sep \<in> set s then (takeWhile (\<lambda>c. c \<noteq> sep) s, tl (dropWhile (\<lambda>c. c \<noteq> sep) s), True) else (s, [], False))"

lemma strings_Cut_found: "sep \<notin> set k \<Longrightarrow> strings_Cut sep (k @ sep # v) = (k, v, True)"
proof -
  assume a: "sep \<notin> set k"
  then have "takeWhile (\<lambda>c. c \<noteq> sep) (k @ sep # v) = k" "dropWhile (\<lambda>c. c \<noteq> sep) (k @ sep # v) = sep # v"
    by (induction k) auto
  then show ?thesis by (simp add: strings_Cut_def)
qed

subsection \<open>White space\<close>

text \<open>The runes for which \<^verbatim>\<open>unicode.IsSpace\<close> is true, in UTF-8.\<close>

definition space_runes :: "string list" where
  "space_runes =
     map (\<lambda>n. [char_of (n::nat)]) [9, 10, 11, 12, 13, 32] @ [[CHR 0xC2, CHR 0x85], [CHR 0xC2, CHR 0xA0], [CHR 0xE1, CHR 0x9A, CHR 0x80]] @
     map (\<lambda>n. [CHR 0xE2, CHR 0x80, char_of (n::nat)])
       [128, 129, 130, 131, 132, 133, 134, 135, 136, 137, 138, 168, 169, 175] @
     [[CHR 0xE2, CHR 0x81, CHR 0x9F], [CHR 0xE3, CHR 0x80, CHR 0x80]]"

text \<open>The length of the rune of a list a text begins with, 0 when there is none.\<close>

definition rune_len :: "string list \<Rightarrow> string \<Rightarrow> nat" where
  "rune_len runes s = (case find (\<lambda>p. take (length p) s = p) runes of None \<Rightarrow> 0 | Some p \<Rightarrow> length p)"

function trim_runes :: "string list \<Rightarrow> string \<Rightarrow> string" where
  "trim_runes runes s =
     (case rune_len runes s of
        0 \<Rightarrow> s
      | Suc n \<Rightarrow> (case s of [] \<Rightarrow> [] | _ # t \<Rightarrow> trim_runes runes (drop n t)))"
  by auto
termination by (relation "measure (\<lambda>(_, s). length s)") auto

declare trim_runes.simps [simp del]

lemma trim_runes_Nil [simp]: "trim_runes runes [] = []"
  by (simp add: trim_runes.simps split: nat.split)

definition strings_TrimSpace :: "string \<Rightarrow> string" where
  "strings_TrimSpace s = rev (trim_runes (map rev space_runes) (rev (trim_runes space_runes s)))"

lemma TrimSpace_Nil [simp]: "strings_TrimSpace [] = []"
  by (simp add: strings_TrimSpace_def)

text \<open>A text of letters, digits and the signs of a UUID has nothing to trim.\<close>

definition plain :: "char \<Rightarrow> bool" where
  "plain c \<longleftrightarrow> 33 \<le> (of_char c :: nat) \<and> (of_char c :: nat) < 127"

definition plain_free :: "string list \<Rightarrow> bool" where
  "plain_free runes \<longleftrightarrow> list_all (\<lambda>p. p \<noteq> [] \<and> \<not> plain (hd p)) runes"

lemma spaces_plain_free: "plain_free space_runes" "plain_free (map rev space_runes)"
  by code_simp+

lemma trim_runes_plain: "plain_free runes \<Longrightarrow> plain c \<Longrightarrow> trim_runes runes (c # s) = c # s"
proof -
  assume "plain_free runes" "plain c"
  then have "find (\<lambda>p. take (length p) (c # s) = p) runes = None"
    by (auto simp: find_None_iff plain_free_def list_all_iff) (metis list.sel(1) length_greater_0_conv take_Cons' hd_Cons_tl
      gr0_conv_Suc take_Suc_Cons)
  then show ?thesis by (simp add: rune_len_def trim_runes.simps [of _ "c # s"])
qed

lemma TrimSpace_plain: "s = [] \<or> plain (hd s) \<and> plain (last s) \<Longrightarrow> strings_TrimSpace s = s"
proof (cases s)
  case (Cons c t)
  moreover assume "s = [] \<or> plain (hd s) \<and> plain (last s)"
  moreover obtain d u where "rev s = d # u" using Cons by (cases "rev s") auto
  moreover have "last s = d" using calculation(3) by (metis last_rev list.sel(1) rev_rev_ident hd_rev)
  ultimately show ?thesis
    by (metis list.distinct(1) list.sel(1) rev_rev_ident spaces_plain_free strings_TrimSpace_def trim_runes_plain)
qed simp

lemma all_plain: "list_all p s \<Longrightarrow> (\<And>c. p c \<Longrightarrow> plain c) \<Longrightarrow> strings_TrimSpace s = s"
  by (rule TrimSpace_plain) (cases "s = []"; simp add: list_all_iff)

lemma digits_plain: "list_all is_digit s \<Longrightarrow> strings_TrimSpace s = s"
  by (erule all_plain) (simp add: plain_def is_digit_def)

subsection \<open>Numbers\<close>

text \<open>\<^verbatim>\<open>strconv.Atoi\<close>: an optional sign and decimal digits that stay within 64 bits.\<close>

definition digits_value :: "string \<Rightarrow> int" where
  "digits_value ds = foldl (\<lambda>n c. 10 * n + int (digit_of c)) 0 ds"

definition int_value :: "string \<Rightarrow> int option" where
  "int_value s =
     (let negative = (s \<noteq> [] \<and> hd s = CHR ''-'');
          ds = (if s \<noteq> [] \<and> (hd s = CHR ''-'' \<or> hd s = CHR ''+'') then tl s else s);
          v = (if negative then - digits_value ds else digits_value ds) in
      if ds = [] \<or> \<not> list_all is_digit ds then None
      else if - (2 ^ 63) \<le> v \<and> v < 2 ^ 63 then Some v else None)"

definition strconv_Atoi :: "string \<Rightarrow> goint option" where
  "strconv_Atoi s = map_option word_of_int (int_value s)"

lemma sint_Atoi: "strconv_Atoi s = Some w \<Longrightarrow> int_value s = Some (sint w)"
proof -
  assume "strconv_Atoi s = Some w"
  then obtain v where v: "int_value s = Some v" "w = word_of_int v" by (auto simp: strconv_Atoi_def)
  then have "- (2 ^ 63) \<le> v \<and> v < 2 ^ 63" by (auto simp: int_value_def Let_def split: if_splits)
  then have "sint (word_of_int v :: goint) = v" by (simp add: sint_sbintrunc' signed_take_bit_int_eq_self)
  with v show ?thesis by simp
qed

text \<open>\<^verbatim>\<open>%d\<close>.\<close>

function nat_text :: "nat \<Rightarrow> string" where
  "nat_text n =
     (case n div 10 of
        0 \<Rightarrow> [char_of (48 + n)]
      | Suc q \<Rightarrow> nat_text (Suc q) @ [char_of (48 + n mod 10)])"
  by auto
termination
proof (relation "measure id")
  fix n q :: nat assume "n div 10 = Suc q"
  then have "Suc q < n" by (metis Suc_neq_Zero div_less_dividend div_0 gr0I one_less_numeral_iff semiring_norm(76))
  then show "(Suc q, n) \<in> measure id" by simp
qed simp

declare nat_text.simps [simp del]

definition int_text :: "int \<Rightarrow> string" where
  "int_text i = (if i < 0 then CHR ''-'' # nat_text (nat (- i)) else nat_text (nat i))"

lemma digit_char: "n < 10 \<Longrightarrow> is_digit (char_of (48 + n)) \<and> digit_of (char_of (48 + n)) = n"
  by (simp add: is_digit_def digit_of_def)

lemma nat_text_digits: "list_all is_digit (nat_text n) \<and> nat_text n \<noteq> [] \<and> digits_value (nat_text n) = int n"
proof (induction n rule: nat_text.induct)
  case (1 n)
  show ?case
  proof (cases "n div 10")
    case 0
    then have "n < 10" by presburger
    with digit_char [OF this] 0 show ?thesis by (simp add: nat_text.simps [of n] digits_value_def)
  next
    case (Suc q)
    have "is_digit (char_of (48 + n mod 10)) \<and> digit_of (char_of (48 + n mod 10)) = n mod 10"
      by (rule digit_char) simp
    moreover have "digits_value (nat_text (Suc q) @ [c]) = 10 * int (Suc q) + int (digit_of c)" for c
      using 1 [OF Suc] by (simp add: digits_value_def)
    moreover have "10 * int (Suc q) + int (n mod 10) = int n"
      unfolding Suc [symmetric] by (metis of_nat_add of_nat_mult of_nat_numeral mult_div_mod_eq)
    ultimately show ?thesis using 1 [OF Suc] Suc by (simp add: nat_text.simps [of n] del: of_nat_Suc)
  qed
qed

text \<open>What is printed is read back.\<close>

lemma Atoi_int_text: "int_value (int_text (sint (w :: goint))) = Some (sint w)"
proof -
  have range: "- (2 ^ 63) \<le> sint w" "sint w < 2 ^ 63"
    using sint_range_size [of w] by (auto simp: word_size)
  have not_sign: "hd (nat_text n) \<noteq> CHR ''-'' \<and> hd (nat_text n) \<noteq> CHR ''+''" for n
    using nat_text_digits [of n] by (cases "nat_text n") (auto simp: is_digit_def)
  show ?thesis
  proof (cases "sint w < 0")
    case True
    with nat_text_digits [of "nat (- sint w)"] range show ?thesis
      by (simp add: int_text_def int_value_def)
  next
    case False
    with nat_text_digits [of "nat (sint w)"] range not_sign [of "nat (sint w)"] show ?thesis
      by (auto simp: int_text_def int_value_def Let_def)
  qed
qed

subsection \<open>Lower case\<close>

text \<open>
  \<^verbatim>\<open>strings.ToLower\<close> as far as a search for ASCII text can tell: the ASCII letters, and the two other
  runes whose lower case is ASCII, U+0130 and U+212A. The remaining runes keep bytes outside ASCII.
\<close>

definition lower_char :: "char \<Rightarrow> char" where
  "lower_char c = (if 65 \<le> (of_char c :: nat) \<and> (of_char c :: nat) \<le> 90 then char_of ((of_char c :: nat) + 32) else c)"

fun strings_ToLower :: "string \<Rightarrow> string" where
  "strings_ToLower [] = []"
| "strings_ToLower [c] = [lower_char c]"
| "strings_ToLower (c # d # s) =
     (if c = CHR 0xC4 \<and> d = CHR 0xB0 then CHR ''i'' # strings_ToLower s
      else if c = CHR 0xE2 \<and> d = CHR 0x84 \<and> take 1 s = [CHR 0xAA] then CHR ''k'' # strings_ToLower (tl s)
      else lower_char c # strings_ToLower (d # s))"

end
