(* ===== verification/Validators.thy ===== *)
theory Validators
  imports Go_Text
begin

text \<open>
  \<^verbatim>\<open>shared/validators/validator.go\<close>: the checks a struct's \<^verbatim>\<open>validate\<close> tags ask for. A value seen through
  \<^verbatim>\<open>reflect\<close> is an \<open>rvalue\<close>, whose constructors are the kinds the validator tells apart; a struct is the
  list of its fields with their names and tags. An error is its text, \<open>None\<close> is \<^verbatim>\<open>nil\<close>.
\<close>

subsection \<open>Values\<close>

record struct_field =
  sf_Name :: string
  sf_json :: string
  sf_validate :: string

datatype rvalue =
    VString string
  | VInt goint
  | VUint goint
  | VBool bool
  | VPointer "rvalue option"
  | VSlice "rvalue list"
  | VMap nat
  | VStruct "(struct_field \<times> rvalue) list"
  | VOther

subsection \<open>The rules that look at one value\<close>

definition getFieldName :: "struct_field \<Rightarrow> string" where
  "getFieldName field =
     (if sf_json field \<noteq> '''' \<and> sf_json field \<noteq> ''-'' then hd (strings_Split (CHR '','') (sf_json field))
      else strings_ToLower (sf_Name field))"

fun isEmpty :: "rvalue \<Rightarrow> bool" where
  "isEmpty (VString s) \<longleftrightarrow> strings_TrimSpace s = ''''"
| "isEmpty (VInt i) \<longleftrightarrow> i = 0"
| "isEmpty (VUint i) \<longleftrightarrow> i = 0"
| "isEmpty (VBool b) \<longleftrightarrow> \<not> b"
| "isEmpty (VSlice xs) \<longleftrightarrow> xs = []"
| "isEmpty (VMap n) \<longleftrightarrow> n = 0"
| "isEmpty _ \<longleftrightarrow> False"

fun validateRequired :: "string \<Rightarrow> rvalue \<Rightarrow> string option" where
  "validateRequired name (VString s) = (if strings_TrimSpace s = '''' then Some (name @ '' is required'') else None)"
| "validateRequired name (VInt i) = (if i = 0 then Some (name @ '' is required'') else None)"
| "validateRequired name (VUint i) = (if i = 0 then Some (name @ '' is required'') else None)"
| "validateRequired name _ = None"

text \<open>
  The length of a text is its number of bytes. The conversion \<^verbatim>\<open>uint64(min)\<close> keeps the 64 bits.
\<close>

definition validateMin :: "string \<Rightarrow> rvalue \<Rightarrow> string \<Rightarrow> string option" where
  "validateMin name v minStr =
     (case strconv_Atoi minStr of
        None \<Rightarrow> Some (''invalid min value for '' @ name)
      | Some m \<Rightarrow>
          (case v of
             VString s \<Rightarrow>
               (let str = strings_TrimSpace s in
                if str \<noteq> '''' \<and> int (length str) < sint m
                then Some (name @ '' must be at least '' @ int_text (sint m) @ '' characters'') else None)
           | VInt i \<Rightarrow> if sint i < sint m then Some (name @ '' must be at least '' @ int_text (sint m)) else None
           | VUint i \<Rightarrow> if i < m then Some (name @ '' must be at least '' @ int_text (sint m)) else None
           | _ \<Rightarrow> None))"

definition validateMax :: "string \<Rightarrow> rvalue \<Rightarrow> string \<Rightarrow> string option" where
  "validateMax name v maxStr =
     (case strconv_Atoi maxStr of
        None \<Rightarrow> Some (''invalid max value for '' @ name)
      | Some m \<Rightarrow>
          (case v of
             VString s \<Rightarrow>
               (let str = strings_TrimSpace s in
                if str \<noteq> '''' \<and> int (length str) > sint m
                then Some (name @ '' must be at most '' @ int_text (sint m) @ '' characters'') else None)
           | VInt i \<Rightarrow> if sint i > sint m then Some (name @ '' must be at most '' @ int_text (sint m)) else None
           | VUint i \<Rightarrow> if i > m then Some (name @ '' must be at most '' @ int_text (sint m)) else None
           | _ \<Rightarrow> None))"

definition validateGt :: "string \<Rightarrow> rvalue \<Rightarrow> string \<Rightarrow> string option" where
  "validateGt name v gtStr =
     (case strconv_Atoi gtStr of
        None \<Rightarrow> Some (''invalid gt value for '' @ name)
      | Some m \<Rightarrow>
          (case v of
             VInt i \<Rightarrow> if sint i \<le> sint m then Some (name @ '' must be greater than '' @ int_text (sint m)) else None
           | VUint i \<Rightarrow> if i \<le> m then Some (name @ '' must be greater than '' @ int_text (sint m)) else None
           | _ \<Rightarrow> None))"

text \<open>\<^verbatim>\<open>emailRegex\<close>: no local part holds an at sign and no last label a dot, so the split is the one shown.\<close>

definition is_letter :: "char \<Rightarrow> bool" where
  "is_letter c \<longleftrightarrow> (65 \<le> (of_char c :: nat) \<and> (of_char c :: nat) \<le> 90) \<or> (97 \<le> (of_char c :: nat) \<and> (of_char c :: nat) \<le> 122)"

definition local_char :: "char \<Rightarrow> bool" where
  "local_char c \<longleftrightarrow> is_letter c \<or> is_digit c \<or> c \<in> set ''._%+-''"

definition host_char :: "char \<Rightarrow> bool" where
  "host_char c \<longleftrightarrow> is_letter c \<or> is_digit c \<or> c \<in> set ''.-''"

definition emailRegex :: "string \<Rightarrow> bool" where
  "emailRegex s =
     (let (local, domain, found) = strings_Cut (CHR ''@'') s;
          labels = strings_Split (CHR ''.'') domain;
          host = strings_Join ''.'' (butlast labels) in
      found \<and> local \<noteq> [] \<and> list_all local_char local \<and> 2 \<le> length labels \<and> host \<noteq> [] \<and>
      list_all host_char host \<and> list_all is_letter (last labels) \<and> 2 \<le> length (last labels))"

fun validateEmail :: "string \<Rightarrow> rvalue \<Rightarrow> string option" where
  "validateEmail name (VString s) =
     (let email = strings_TrimSpace s in
      if email \<noteq> '''' \<and> \<not> emailRegex email then Some (name @ '' has invalid email format'') else None)"
| "validateEmail name _ = Some (name @ '' must be a string'')"

fun validateOneOf :: "string \<Rightarrow> rvalue \<Rightarrow> string \<Rightarrow> string option" where
  "validateOneOf name (VString s) allowedValues =
     (let val = strings_TrimSpace s; allowed = strings_Split (CHR '' '') allowedValues in
      if val = '''' then None
      else if list_ex (\<lambda>a. val = strings_TrimSpace a) allowed then None
      else Some (name @ '' must be one of: '' @ strings_Join '', '' allowed))"
| "validateOneOf name _ allowedValues = Some (name @ '' must be a string'')"

definition is_hex :: "char \<Rightarrow> bool" where
  "is_hex c \<longleftrightarrow> is_digit c \<or> (65 \<le> (of_char c :: nat) \<and> (of_char c :: nat) \<le> 70) \<or>
     (97 \<le> (of_char c :: nat) \<and> (of_char c :: nat) \<le> 102)"

definition uuidRegex :: "string \<Rightarrow> bool" where
  "uuidRegex s =
     (let parts = strings_Split (CHR ''-'') s in
      map length parts = [8, 4, 4, 4, 12] \<and> list_all (list_all is_hex) parts)"

fun validateUUID :: "string \<Rightarrow> rvalue \<Rightarrow> string option" where
  "validateUUID name (VString s) =
     (let uuid = strings_TrimSpace s in
      if uuid = '''' then Some (name @ '' is required'')
      else if \<not> uuidRegex uuid then Some (name @ '' must be a valid UUID format'')
      else None)"
| "validateUUID name _ = Some (name @ '' must be a string'')"

text \<open>The end of \<^verbatim>\<open>applyRule\<close>, for the rules other than \<^verbatim>\<open>dive\<close>.\<close>

definition apply_plain :: "string \<Rightarrow> rvalue \<Rightarrow> string \<Rightarrow> string \<Rightarrow> string option" where
  "apply_plain name v ruleName ruleValue =
     (if ruleName = ''omitempty'' then None
      else if isEmpty v \<and> ruleName \<noteq> ''required'' then None
      else if ruleName = ''required'' then validateRequired name v
      else if ruleName = ''min'' then validateMin name v ruleValue
      else if ruleName = ''max'' then validateMax name v ruleValue
      else if ruleName = ''gt'' then validateGt name v ruleValue
      else if ruleName = ''email'' then validateEmail name v
      else if ruleName = ''oneof'' then validateOneOf name v ruleValue
      else if ruleName = ''uuid'' then validateUUID name v
      else None)"

subsection \<open>Identifiers and page bounds\<close>

text \<open>\<^verbatim>\<open>strconv.ParseUint(s, 10, 32)\<close>: decimal digits and no sign.\<close>

definition ParseUint32 :: "string \<Rightarrow> nat option" where
  "ParseUint32 s =
     (if s = [] \<or> \<not> list_all is_digit s then None
      else if digits_value s < 2 ^ 32 then Some (nat (digits_value s)) else None)"

definition ValidateID :: "string \<Rightarrow> string + nat" where
  "ValidateID idStr =
     (if strings_TrimSpace idStr = '''' then Inl ''id is required''
      else case ParseUint32 idStr of
        None \<Rightarrow> Inl ''invalid id format''
      | Some i \<Rightarrow> if i = 0 then Inl ''id must be greater than 0'' else Inr i)"

definition ValidateQueryParams :: "(string \<Rightarrow> string option) \<Rightarrow> string option" where
  "ValidateQueryParams params =
     (let offset_check =
        (case params ''offset'' of
           None \<Rightarrow> None
         | Some offset \<Rightarrow>
             (case strconv_Atoi offset of
                None \<Rightarrow> Some ''offset must be a valid number''
              | Some val \<Rightarrow> if sint val < 0 then Some ''offset must be greater than or equal to 0'' else None)) in
      case params ''limit'' of
        None \<Rightarrow> offset_check
      | Some limit \<Rightarrow>
          (case strconv_Atoi limit of
             None \<Rightarrow> Some ''limit must be a valid number''
           | Some val \<Rightarrow> if sint val < 1 \<or> sint val > 1000 then Some ''limit must be between 1 and 1000''
                         else offset_check))"

subsection \<open>Structs, their fields and the elements of slices\<close>

fun deref :: "rvalue \<Rightarrow> rvalue" where
  "deref (VPointer (Some v)) = v"
| "deref v = v"

lemma size_deref [termination_simp]: "size (deref v) \<le> size v"
  by (induction v rule: deref.induct) auto

function
  ValidateStruct :: "rvalue \<Rightarrow> string option" and
  validate_fields :: "(struct_field \<times> rvalue) list \<Rightarrow> string option" and
  apply_rules :: "string \<Rightarrow> rvalue \<Rightarrow> string list \<Rightarrow> string option" and
  applyRule :: "string \<Rightarrow> rvalue \<Rightarrow> string \<Rightarrow> string option" and
  validateDive :: "string \<Rightarrow> nat \<Rightarrow> rvalue list \<Rightarrow> string option"
where
  "ValidateStruct s =
     (case deref s of VStruct members \<Rightarrow> validate_fields members | _ \<Rightarrow> Some ''input must be a struct'')"
| "validate_fields [] = None"
| "validate_fields ((field, v) # members) =
     (if sf_validate field = '''' \<or> sf_validate field = ''-'' then validate_fields members
      else case apply_rules (getFieldName field) v (strings_Split (CHR '','') (sf_validate field)) of
             Some e \<Rightarrow> Some e
           | None \<Rightarrow> validate_fields members)"
| "apply_rules name v [] = None"
| "apply_rules name v (rule # rules) =
     (case applyRule name v (strings_TrimSpace rule) of
        Some e \<Rightarrow> Some e
      | None \<Rightarrow> apply_rules name v rules)"
| "applyRule name v rule =
     (if v = VPointer None then None
      else
        let parts = strings_Split (CHR ''='') rule; ruleName = hd parts;
            ruleValue = (if 1 < length parts then parts ! 1 else '''') in
        if ruleName = ''dive''
        then (case deref v of VSlice elems \<Rightarrow> validateDive name 0 elems | _ \<Rightarrow> None)
        else apply_plain name (deref v) ruleName ruleValue)"
| "validateDive name i [] = None"
| "validateDive name i (elem # elems) =
     (case deref elem of
        VStruct members \<Rightarrow>
          (case ValidateStruct (deref elem) of
             Some e \<Rightarrow> Some (name @ ''['' @ nat_text i @ '']: '' @ e)
           | None \<Rightarrow> validateDive name (Suc i) elems)
      | _ \<Rightarrow> validateDive name (Suc i) elems)"
  by pat_completeness auto

abbreviation members_size :: "(struct_field \<times> rvalue) list \<Rightarrow> nat" where
  "members_size \<equiv> size_list (size_prod (\<lambda>_. 0) size)"

text \<open>
  Every call is on a part of the value, or on the same value with fewer rules left.
\<close>

fun call_size ::
  "(rvalue + (struct_field \<times> rvalue) list) + (string \<times> rvalue \<times> string list) + (string \<times> rvalue \<times> string) +
   (string \<times> nat \<times> rvalue list) \<Rightarrow> nat" where
  "call_size (Inl (Inl s)) = size s"
| "call_size (Inl (Inr members)) = members_size members"
| "call_size (Inr (Inl (name, v, rules))) = size v"
| "call_size (Inr (Inr (Inl (name, v, rule)))) = size v"
| "call_size (Inr (Inr (Inr (name, i, elems)))) = size_list size elems"

fun rules_left ::
  "(rvalue + (struct_field \<times> rvalue) list) + (string \<times> rvalue \<times> string list) + (string \<times> rvalue \<times> string) +
   (string \<times> nat \<times> rvalue list) \<Rightarrow> nat" where
  "rules_left (Inr (Inl (name, v, rules))) = Suc (length rules)"
| "rules_left _ = 0"

lemma deref_struct_size: "deref v = VStruct members \<Longrightarrow> members_size members < size v"
  using size_deref [of v] by auto

lemma deref_slice_size: "deref v = VSlice elems \<Longrightarrow> size_list size elems < size v"
  using size_deref [of v] by auto

termination ValidateStruct
proof (relation "measures [call_size, rules_left]", goal_cases)
qed (auto dest: deref_struct_size deref_slice_size simp: le_imp_less_Suc [OF trans_le_add1 [OF size_deref]])

end
