(* ===== verification/Http_Dto.thy ===== *)
theory Http_Dto
  imports Validators
begin

text \<open>
  \<^verbatim>\<open>so/infra/http/dto/service_order_dto.go\<close>: the bodies of requests, how \<^verbatim>\<open>encoding/json\<close> reads them, what
  the validator sees of them, and the bodies of responses. As in \<open>Consumers\<close> the parser that reads the
  text of a body is an argument.
\<close>

subsection \<open>Requests\<close>

record dto_ItemInput =
  di_ItemType :: string
  di_ReferenceID :: string
  di_Quantity :: goint

record CreateServiceOrderRequest =
  cr_CustomerID :: string
  cr_VehicleID :: string
  cr_Description :: string
  cr_Items :: "dto_ItemInput list option"

record UpdateServiceOrderRequest =
  ur_CustomerID :: "string option"
  ur_VehicleID :: "string option"
  ur_Description :: "string option"
  ur_Status :: "string option"
  ur_Items :: "dto_ItemInput list option"

record AuthorizeServiceOrderRequest =
  ar_Approved :: bool
  ar_Notes :: "string option"

subsection \<open>Reading a body\<close>

text \<open>
  Each occurrence of a field's name in turn: \<^verbatim>\<open>null\<close> leaves a value as it is and a pointer or a slice nil, a
  value of another type is an error (\<open>None\<close>).
\<close>

fun int_field :: "string \<Rightarrow> goint \<Rightarrow> (string \<times> json) list \<Rightarrow> goint option" where
  "int_field name v [] = Some v"
| "int_field name v ((k, x) # members) =
     (if fold_name k = name then
        (case x of JNumber n \<Rightarrow> Option.bind (strconv_Atoi n) (\<lambda>i. int_field name i members)
                 | JNull \<Rightarrow> int_field name v members
                 | _ \<Rightarrow> None)
      else int_field name v members)"

fun bool_field :: "string \<Rightarrow> bool \<Rightarrow> (string \<times> json) list \<Rightarrow> bool option" where
  "bool_field name v [] = Some v"
| "bool_field name v ((k, x) # members) =
     (if fold_name k = name then
        (case x of JBool b \<Rightarrow> bool_field name b members
                 | JNull \<Rightarrow> bool_field name v members
                 | _ \<Rightarrow> None)
      else bool_field name v members)"

fun string_pointer_field ::
  "string \<Rightarrow> string option \<Rightarrow> (string \<times> json) list \<Rightarrow> string option option" where
  "string_pointer_field name v [] = Some v"
| "string_pointer_field name v ((k, x) # members) =
     (if fold_name k = name then
        (case x of JString s \<Rightarrow> string_pointer_field name (Some s) members
                 | JNull \<Rightarrow> string_pointer_field name None members
                 | _ \<Rightarrow> None)
      else string_pointer_field name v members)"

definition zero_item :: dto_ItemInput where
  "zero_item = \<lparr>di_ItemType = '''', di_ReferenceID = '''', di_Quantity = 0\<rparr>"

fun decode_item :: "json \<Rightarrow> dto_ItemInput \<Rightarrow> dto_ItemInput option" where
  "decode_item JNull item = Some item"
| "decode_item (JObject members) item =
     Option.bind (string_field ''item_type'' (di_ItemType item) members) (\<lambda>t.
     Option.bind (string_field ''reference_id'' (di_ReferenceID item) members) (\<lambda>r.
     Option.bind (int_field ''quantity'' (di_Quantity item) members) (\<lambda>q.
     Some \<lparr>di_ItemType = t, di_ReferenceID = r, di_Quantity = q\<rparr>)))"
| "decode_item _ item = None"

text \<open>
  An array is read into the array behind the slice, element by element, over what an earlier occurrence
  of the field has left there; an empty array and \<^verbatim>\<open>null\<close> start afresh.
\<close>

fun decode_elems :: "json list \<Rightarrow> dto_ItemInput list \<Rightarrow> dto_ItemInput list option" where
  "decode_elems [] backing = Some backing"
| "decode_elems (x # xs) backing =
     Option.bind (decode_item x (case backing of i # _ \<Rightarrow> i | [] \<Rightarrow> zero_item)) (\<lambda>i.
     Option.bind (decode_elems xs (tl backing)) (\<lambda>is. Some (i # is)))"

fun items_field ::
  "dto_ItemInput list \<Rightarrow> nat option \<Rightarrow> (string \<times> json) list \<Rightarrow> dto_ItemInput list option option" where
  "items_field backing len [] = Some (map_option (\<lambda>n. take n backing) len)"
| "items_field backing len ((k, x) # members) =
     (if fold_name k = ''items'' then
        (case x of
           JArray [] \<Rightarrow> items_field [] (Some 0) members
         | JArray xs \<Rightarrow> Option.bind (decode_elems xs backing) (\<lambda>b. items_field b (Some (length xs)) members)
         | JNull \<Rightarrow> items_field [] None members
         | _ \<Rightarrow> None)
      else items_field backing len members)"

definition decode_create :: "json_parser \<Rightarrow> string \<Rightarrow> CreateServiceOrderRequest option" where
  "decode_create J body =
     Option.bind (Option.bind (J body) object_fields) (\<lambda>members.
     Option.bind (string_field ''customer_id'' '''' members) (\<lambda>c.
     Option.bind (string_field ''vehicle_id'' '''' members) (\<lambda>v.
     Option.bind (string_field ''description'' '''' members) (\<lambda>d.
     Option.bind (items_field [] None members) (\<lambda>items.
     Some \<lparr>cr_CustomerID = c, cr_VehicleID = v, cr_Description = d, cr_Items = items\<rparr>)))))"

definition decode_update :: "json_parser \<Rightarrow> string \<Rightarrow> UpdateServiceOrderRequest option" where
  "decode_update J body =
     Option.bind (Option.bind (J body) object_fields) (\<lambda>members.
     Option.bind (string_pointer_field ''customer_id'' None members) (\<lambda>c.
     Option.bind (string_pointer_field ''vehicle_id'' None members) (\<lambda>v.
     Option.bind (string_pointer_field ''description'' None members) (\<lambda>d.
     Option.bind (string_pointer_field ''status'' None members) (\<lambda>st.
     Option.bind (items_field [] None members) (\<lambda>items.
     Some \<lparr>ur_CustomerID = c, ur_VehicleID = v, ur_Description = d, ur_Status = st, ur_Items = items\<rparr>))))))"

definition decode_authorize :: "json_parser \<Rightarrow> string \<Rightarrow> AuthorizeServiceOrderRequest option" where
  "decode_authorize J body =
     Option.bind (Option.bind (J body) object_fields) (\<lambda>members.
     Option.bind (bool_field ''approved'' False members) (\<lambda>a.
     Option.bind (string_pointer_field ''notes'' None members) (\<lambda>n.
     Some \<lparr>ar_Approved = a, ar_Notes = n\<rparr>)))"

subsection \<open>What the validator sees\<close>

definition tagged :: "string \<Rightarrow> string \<Rightarrow> string \<Rightarrow> struct_field" where
  "tagged name json validate = \<lparr>sf_Name = name, sf_json = json, sf_validate = validate\<rparr>"

definition reflect_item :: "dto_ItemInput \<Rightarrow> rvalue" where
  "reflect_item item = VStruct
     [(tagged ''ItemType'' ''item_type'' ''required,oneof=PRODUCT SERVICE'', VString (di_ItemType item)),
      (tagged ''ReferenceID'' ''reference_id'' ''required,uuid'', VString (di_ReferenceID item)),
      (tagged ''Quantity'' ''quantity'' ''required,min=1'', VInt (di_Quantity item))]"

definition reflect_items :: "dto_ItemInput list option \<Rightarrow> rvalue" where
  "reflect_items items = VSlice (case items of None \<Rightarrow> [] | Some is \<Rightarrow> map reflect_item is)"

definition reflect_create :: "CreateServiceOrderRequest \<Rightarrow> rvalue" where
  "reflect_create req = VStruct
     [(tagged ''CustomerID'' ''customer_id'' ''required,uuid'', VString (cr_CustomerID req)),
      (tagged ''VehicleID'' ''vehicle_id'' ''required,uuid'', VString (cr_VehicleID req)),
      (tagged ''Description'' ''description,omitempty'' '''', VString (cr_Description req)),
      (tagged ''Items'' ''items,omitempty'' ''dive'', reflect_items (cr_Items req))]"

definition reflect_update :: "UpdateServiceOrderRequest \<Rightarrow> rvalue" where
  "reflect_update req = VStruct
     [(tagged ''CustomerID'' ''customer_id,omitempty'' ''omitempty,uuid'', VPointer (map_option VString (ur_CustomerID req))),
      (tagged ''VehicleID'' ''vehicle_id,omitempty'' ''omitempty,uuid'', VPointer (map_option VString (ur_VehicleID req))),
      (tagged ''Description'' ''description,omitempty'' '''', VPointer (map_option VString (ur_Description req))),
      (tagged ''Status'' ''status,omitempty'' '''', VPointer (map_option VString (ur_Status req))),
      (tagged ''Items'' ''items,omitempty'' ''omitempty,dive'', reflect_items (ur_Items req))]"

subsection \<open>Responses\<close>

record ServiceOrderItemResponse =
  ir_ID :: string
  ir_ItemType :: string
  ir_ReferenceID :: string
  ir_Name :: string
  ir_Description :: string
  ir_Quantity :: goint
  ir_UnitPrice :: goint
  ir_Subtotal :: goint
  ir_CreatedAt :: string

record CustomerResponse =
  cures_ID :: string
  cures_Name :: string
  cures_Email :: string
  cures_Phone :: string

record VehicleResponse =
  vres_ID :: string
  vres_CustomerID :: string
  vres_LicensePlate :: string
  vres_Brand :: string
  vres_Model :: string
  vres_ModelYear :: goint
  vres_ManufactureYear :: goint

text \<open>\<open>None\<close> for the items is a nil slice, which is written as \<^verbatim>\<open>null\<close>.\<close>

record ServiceOrderResponse =
  sr_ID :: string
  sr_CustomerID :: string
  sr_VehicleID :: string
  sr_Description :: string
  sr_Customer :: "CustomerResponse option"
  sr_Vehicle :: "VehicleResponse option"
  sr_Status :: string
  sr_SagaStatus :: string
  sr_Items :: "ServiceOrderItemResponse list option"
  sr_TotalAmount :: goint
  sr_ClosedAt :: "string option"
  sr_CreatedAt :: string
  sr_UpdatedAt :: string

record HistoryResponse =
  hr_ID :: string
  hr_ServiceOrderID :: string
  hr_Metadata :: metadata
  hr_Status :: string
  hr_CreatedAt :: string

text \<open>The conversions from the entities; \<open>fmt\<close> is \<^verbatim>\<open>utils.FormatTimeRFC3339\<close>.\<close>

definition ToServiceOrderResponse :: "(time \<Rightarrow> string) \<Rightarrow> ServiceOrder \<Rightarrow> ServiceOrderResponse" where
  "ToServiceOrderResponse fmt order =
     \<lparr>sr_ID = so_id order, sr_CustomerID = so_customerID order, sr_VehicleID = so_vehicleID order,
      sr_Description = so_description order, sr_Customer = None, sr_Vehicle = None,
      sr_Status = status_String (so_status order), sr_SagaStatus = so_sagaStatus order,
      sr_Items = Some (map (\<lambda>item.
         \<lparr>ir_ID = item_id item, ir_ItemType = itemType_string (item_itemType item),
          ir_ReferenceID = item_referenceID item, ir_Name = item_name item, ir_Description = '''',
          ir_Quantity = item_quantity item, ir_UnitPrice = item_unitPrice item,
          ir_Subtotal = Subtotal item, ir_CreatedAt = fmt (item_createdAt item)\<rparr>)
         (filter (\<lambda>item. \<not> item_IsDeleted item) (so_items order))),
      sr_TotalAmount = TotalAmount order, sr_ClosedAt = map_option fmt (so_closedAt order),
      sr_CreatedAt = fmt (so_createdAt order), sr_UpdatedAt = fmt (so_updatedAt order)\<rparr>"

definition ToHistoryResponse :: "(time \<Rightarrow> string) \<Rightarrow> History \<Rightarrow> HistoryResponse" where
  "ToHistoryResponse fmt history =
     \<lparr>hr_ID = h_id history, hr_ServiceOrderID = h_serviceOrderID history, hr_Metadata = h_metadata history,
      hr_Status = status_String (h_status history), hr_CreatedAt = fmt (h_createdAt history)\<rparr>"

definition ToServiceOrderResponseList :: "(time \<Rightarrow> string) \<Rightarrow> ServiceOrder list \<Rightarrow> ServiceOrderResponse list" where
  "ToServiceOrderResponseList fmt orders = map (ToServiceOrderResponse fmt) orders"

definition ToHistoryResponseList :: "(time \<Rightarrow> string) \<Rightarrow> History list \<Rightarrow> HistoryResponse list" where
  "ToHistoryResponseList fmt records = map (ToHistoryResponse fmt) records"

end
