(* ===== verification/Error_Mapping.thy ===== *)
theory Error_Mapping
  imports Go_Text
begin

text \<open>
  The texts of the errors (\<^verbatim>\<open>so/domain/service_order/errors.go\<close>, \<^verbatim>\<open>modules/billing/domain/payment/errors.go\<close>)
  and \<^verbatim>\<open>shared/utils/error_mapper.go\<close>, which chooses the status and the code of a response by comparing the
  text of an error. The Portuguese texts are written with marks before the letters: \<open>/a\<close> is an a with an
  acute accent, \<open>~a\<close> one with a tilde, \<open>^e\<close> one with a circumflex, \<open>+c\<close> a c with a cedilla; \<open>pt\<close> turns them
  into the bytes of UTF-8.
\<close>

subsection \<open>Texts of errors\<close>

definition accented :: "char \<Rightarrow> char \<Rightarrow> char" where
  "accented mark c =
     (if mark = CHR ''/'' then
        (if c = CHR ''a'' then CHR 0xA1 else if c = CHR ''e'' then CHR 0xA9 else if c = CHR ''i'' then CHR 0xAD
         else if c = CHR ''o'' then CHR 0xB3 else CHR 0xBA)
      else if mark = CHR ''~'' then (if c = CHR ''a'' then CHR 0xA3 else CHR 0xB5)
      else if mark = CHR ''^'' then CHR 0xAA
      else CHR 0xA7)"

fun pt :: "string \<Rightarrow> string" where
  "pt [] = []"
| "pt [c] = [c]"
| "pt (c # d # s) = (if c \<in> set ''/~^+'' then CHR 0xC3 # accented c d # pt s else c # pt (d # s))"

primrec payment_Error :: "payment_error \<Rightarrow> string" where
  "payment_Error ErrMissingAccessToken = pt ''MP_ACCESS_TOKEN n~ao configurado''"
| "payment_Error ErrMissingWebhookSecret = pt ''MP_WEBHOOK_SECRET n~ao configurado''"
| "payment_Error ErrInvalidWebhookSignature = pt ''assinatura do Mercado Pago inv/alida''"
| "payment_Error ErrMalformedWebhook = ''webhook do Mercado Pago malformado''"
| "payment_Error ErrPaymentURLNotAvailable = pt ''URL de pagamento n~ao encontrada''"
| "payment_Error ErrOrderNotFound = pt ''order n~ao encontrado no Mercado Pago''"
| "payment_Error ErrOrderCreationFailed = ''falha ao criar order no Mercado Pago''"
| "payment_Error ErrOrderNotCancellable = pt ''order n~ao pode ser cancelado: j/a est/a em estado final''"
| "payment_Error ErrOrderNotRefundable = pt ''order n~ao pode ser estornado: pagamento n~ao confirmado''"

primrec Error :: "error \<Rightarrow> string" where
  "Error ErrInvalidServiceOrderID = pt ''ID da ordem de servi+co inv/alido''"
| "Error ErrInvalidCustomerID = pt ''ID do cliente inv/alido''"
| "Error ErrInvalidVehicleID = pt ''ID do ve/iculo inv/alido''"
| "Error ErrVehicleDoesNotBelongToCustomer = pt ''ve/iculo n~ao pertence ao cliente da ordem de servi+co''"
| "Error ErrInvalidStatus = pt ''status inv/alido''"
| "Error ErrInvalidStatusTransition = pt ''transi+c~ao de status inv/alida''"
| "Error ErrServiceOrderNotFound = pt ''ordem de servi+co n~ao encontrada''"
| "Error ErrServiceOrderDeleted = pt ''ordem de servi+co foi deletada''"
| "Error ErrNoNextStatus = pt ''n~ao h/a pr/oximo status dispon/ivel''"
| "Error ErrInvalidPaymentPreference = pt ''prefer^encia de pagamento inv/alida''"
| "Error ErrInvalidPaymentID = pt ''ID de pagamento inv/alido''"
| "Error ErrInvalidPaymentURL = pt ''URL de pagamento inv/alida''"
| "Error ErrInvalidItemID = pt ''ID do item inv/alido''"
| "Error ErrInvalidItemType = pt ''tipo de item inv/alido''"
| "Error ErrInvalidReferenceID = pt ''ID de refer^encia inv/alido''"
| "Error ErrInvalidItemName = pt ''nome do item inv/alido''"
| "Error ErrInvalidQuantity = ''quantidade deve ser maior que zero''"
| "Error ErrInvalidUnitPrice = pt ''pre+co unit/ario deve ser maior que zero''"
| "Error ErrItemNotFound = pt ''item n~ao encontrado na ordem''"
| "Error ErrProductNotFound = pt ''produto n~ao encontrado''"
| "Error ErrServiceNotFound = pt ''servi+co n~ao encontrado''"
| "Error ErrCannotModifyClosedOrder = pt ''n~ao /e poss/ivel modificar ordem fechada''"
| "Error ErrCannotModifyItemsAfterPending = pt ''n~ao /e poss/ivel modificar itens ap/os status PENDING_AUTHORIZATION''"
| "Error ErrInvalidHistoryID = pt ''ID de hist/orico inv/alido''"
| "Error ErrHistoryNotFound = pt ''hist/orico n~ao encontrado''"
| "Error ErrInvalidMetadata = pt ''metadata inv/alido''"
| "Error ErrHistoryCreationFailed = pt ''falha ao criar hist/orico''"
| "Error ErrForbiddenAccess = pt ''acesso n~ao autorizado a esta ordem de servi+co''"
| "Error ErrProductInventoryNotFound = pt ''invent/ario do produto n~ao encontrado''"
| "Error ErrInsufficientReservedStock = ''estoque reservado insuficiente''"
| "Error ErrInventoryOperationFailed = pt ''opera+c~ao de estoque falhou''"
| "Error ErrSagaNotImplemented = pt ''saga de estoque ainda n~ao implementada''"
| "Error ErrInvalidSagaID = pt ''saga_id inv/alido''"
| "Error ErrSagaAlreadyInProgress = pt ''j/a existe saga em andamento para esta ordem de servi+co''"
| "Error (PaymentErr e) = payment_Error e"
| "Error (ErrorString s) = s"
| "Error NilPanic = ''''"

subsection \<open>The mapping\<close>

record ErrorMapping =
  em_Code :: string
  em_StatusCode :: nat

definition mapped :: "string \<Rightarrow> nat \<Rightarrow> ErrorMapping" where
  "mapped code status = \<lparr>em_Code = code, em_StatusCode = status\<rparr>"

definition not_found_texts :: "string list" where
  "not_found_texts =
     [''customer not found'', ''vehicle not found'', ''service not found'', ''product not found'', ''user not found'',
      pt ''ordem de servi+co n~ao encontrada'', pt ''produto n~ao encontrado'', pt ''servi+co n~ao encontrado'',
      pt ''item n~ao encontrado na ordem'', pt ''invent/ario do produto n~ao encontrado'',
      pt ''ID do cliente inv/alido'', pt ''ID do ve/iculo inv/alido'']"

definition validationKeywords :: "string list" where
  "validationKeywords =
     [''invalid'', ''must be'', ''required'', ''format'', ''too short'', ''too long'', ''must have'', ''does not match'',
      ''cannot delete'']"

definition MapDomainText :: "string \<Rightarrow> ErrorMapping" where
  "MapDomainText errMsg =
     (if errMsg = ''resource not found'' then mapped ''NOT_FOUND'' 404
      else if errMsg = ''unauthorized'' then mapped ''UNAUTHORIZED'' 401
      else if errMsg = pt ''saga de estoque ainda n~ao implementada'' then mapped ''INTERNAL_ERROR'' 501
      else if errMsg \<in> set not_found_texts then mapped ''NOT_FOUND'' 404
      else if errMsg = pt ''ve/iculo n~ao pertence ao cliente da ordem de servi+co'' then mapped ''VALIDATION_FAILED'' 400
      else if errMsg = pt ''n~ao h/a pr/oximo status dispon/ivel'' \<or> errMsg = pt ''transi+c~ao de status inv/alida''
        then mapped ''VALIDATION_FAILED'' 409
      else if strings_Contains errMsg ''already exists'' then mapped ''DUPLICATE_RESOURCE'' 409
      else if errMsg = pt ''n~ao /e poss/ivel modificar ordem fechada'' then mapped ''VALIDATION_FAILED'' 409
      else if errMsg = pt ''n~ao /e poss/ivel modificar itens ap/os status PENDING_AUTHORIZATION''
        then mapped ''VALIDATION_FAILED'' 409
      else if errMsg = ''estoque reservado insuficiente'' \<or> errMsg = pt ''opera+c~ao de estoque falhou''
        then mapped ''VALIDATION_FAILED'' 400
      else if errMsg = ''invalid credentials'' \<or> errMsg = pt ''credenciais inv/alidas''
        then mapped ''INVALID_CREDENTIALS'' 401
      else if errMsg = pt ''acesso n~ao autorizado a esta ordem de servi+co'' then mapped ''UNAUTHORIZED'' 403
      else if errMsg = pt ''ordem de servi+co n~ao est/a aguardando autoriza+c~ao'' then mapped ''VALIDATION_FAILED'' 409
      else if list_ex (strings_Contains (strings_ToLower errMsg)) validationKeywords
        then mapped ''VALIDATION_FAILED'' 400
      else mapped ''INTERNAL_ERROR'' 500)"

text \<open>For evaluation: tests whose alternatives are looked at only when they are reached.\<close>

lemma if_as_case: "(if b then x else y) = (case b of True \<Rightarrow> x | False \<Rightarrow> y)"
  by simp

lemma HasPrefix_code [code]:
  "strings_HasPrefix s p = (case p of [] \<Rightarrow> True | d # p' \<Rightarrow>
     (case s of [] \<Rightarrow> False | c # s' \<Rightarrow> (case c = d of True \<Rightarrow> strings_HasPrefix s' p' | False \<Rightarrow> False)))"
  by (cases p; cases s) simp_all

lemmas MapDomainText_code [code] = MapDomainText_def [unfolded if_as_case]

text \<open>\<open>None\<close> is \<^verbatim>\<open>nil\<close>.\<close>

definition MapDomainError :: "error option \<Rightarrow> ErrorMapping" where
  "MapDomainError err =
     (case err of None \<Rightarrow> mapped ''INTERNAL_ERROR'' 500 | Some e \<Rightarrow> MapDomainText (Error e))"

subsection \<open>The errors of the domain\<close>

text \<open>The status of each error variable of the domain packages.\<close>

lemma status_404:
  "\<forall>e \<in> {ErrInvalidCustomerID, ErrInvalidVehicleID, ErrServiceOrderNotFound, ErrItemNotFound, ErrProductNotFound,
      ErrServiceNotFound, ErrProductInventoryNotFound}. MapDomainError (Some e) = mapped ''NOT_FOUND'' 404"
  by code_simp

lemma status_409:
  "\<forall>e \<in> {ErrInvalidStatusTransition, ErrNoNextStatus, ErrCannotModifyClosedOrder, ErrCannotModifyItemsAfterPending}.
      MapDomainError (Some e) = mapped ''VALIDATION_FAILED'' 409"
  by code_simp

lemma status_400:
  "\<forall>e \<in> {ErrVehicleDoesNotBelongToCustomer, ErrInsufficientReservedStock, ErrInventoryOperationFailed}.
      MapDomainError (Some e) = mapped ''VALIDATION_FAILED'' 400"
  by code_simp

lemma status_403: "MapDomainError (Some ErrForbiddenAccess) = mapped ''UNAUTHORIZED'' 403"
  by code_simp

lemma status_501: "MapDomainError (Some ErrSagaNotImplemented) = mapped ''INTERNAL_ERROR'' 501"
  by code_simp

lemma status_500_order:
  "\<forall>e \<in> {ErrInvalidServiceOrderID, ErrInvalidStatus, ErrServiceOrderDeleted, ErrInvalidPaymentPreference, ErrInvalidPaymentID,
      ErrInvalidPaymentURL}. MapDomainError (Some e) = mapped ''INTERNAL_ERROR'' 500"
  by code_simp

lemma status_500_items:
  "\<forall>e \<in> {ErrInvalidItemID, ErrInvalidItemType, ErrInvalidReferenceID, ErrInvalidItemName, ErrInvalidQuantity, ErrInvalidUnitPrice}.
      MapDomainError (Some e) = mapped ''INTERNAL_ERROR'' 500"
  by code_simp

lemma status_500_history:
  "\<forall>e \<in> {ErrInvalidHistoryID, ErrHistoryNotFound, ErrInvalidMetadata, ErrHistoryCreationFailed, ErrInvalidSagaID,
      ErrSagaAlreadyInProgress}. MapDomainError (Some e) = mapped ''INTERNAL_ERROR'' 500"
  by code_simp

lemma status_500_payment: "MapDomainError (Some (PaymentErr e)) = mapped ''INTERNAL_ERROR'' 500"
  by (cases e; (simp only:)?; code_simp)

lemmas status_table = status_404 status_409 status_400 status_403 status_501 status_500_order status_500_items
  status_500_history status_500_payment

end
