(* ===== verification/Http.thy ===== *)
theory Http
  imports Http_Dto Error_Mapping
begin

text \<open>
  Requests and responses, the helpers of \<^verbatim>\<open>shared/utils\<close> that write responses, and the checks before a handler:
  \<^verbatim>\<open>auth_middleware.go\<close>, \<^verbatim>\<open>jwt_service.go\<close> and \<^verbatim>\<open>rbac_middleware.go\<close>. What is not under \<^verbatim>\<open>src\<close>, the parser of
  JSON, the checks of \<^verbatim>\<open>golang-jwt\<close>, \<^verbatim>\<open>google/uuid\<close> and HMAC, and the printing of a time in its zone, are the
  fields of \<open>web\<close>.
\<close>

subsection \<open>Requests and responses\<close>

text \<open>
  \<open>rq_Body\<close> is \<open>None\<close> when reading the body fails. The last three fields are the values of the context.
\<close>

record Request =
  rq_Header :: "string \<Rightarrow> string"
  rq_Path :: string
  rq_PathValue :: "string \<Rightarrow> string"
  rq_Query :: "string \<Rightarrow> string"
  rq_Body :: "string option"
  rq_UserID :: "string option"
  rq_UserRole :: "string option"
  rq_UserEmail :: "string option"

record ErrorDetail =
  ed_Code :: string
  ed_Message :: string
  ed_Field :: "string option"

text \<open>The data of an envelope: a response body of \<^verbatim>\<open>dto\<close> or a map.\<close>

datatype payload =
    OrderPayload ServiceOrderResponse
  | OrdersPayload "ServiceOrderResponse list"
  | HistoryPayload "HistoryResponse list"
  | MapPayload "string \<Rightarrow> json option"

datatype body =
    Envelope "payload option" "ErrorDetail list"
  | TextBody string
  | HtmlBody string
  | EmptyBody

text \<open>\<open>Aborted\<close>: the handler has panicked and the server closes the connection.\<close>

datatype response =
    Response nat body
  | Aborted

fun statusOf :: "response \<Rightarrow> nat option" where
  "statusOf (Response status _) = Some status"
| "statusOf Aborted = None"

definition RespondSuccess :: "nat \<Rightarrow> payload \<Rightarrow> response" where
  "RespondSuccess status data = Response status (Envelope (Some data) [])"

definition RespondErrorEnvelope :: "nat \<Rightarrow> string \<Rightarrow> string \<Rightarrow> response" where
  "RespondErrorEnvelope status code message =
     Response status (Envelope None [\<lparr>ed_Code = code, ed_Message = message, ed_Field = None\<rparr>])"

definition RespondValidationError :: "string \<Rightarrow> string \<Rightarrow> response" where
  "RespondValidationError field message =
     Response 400 (Envelope None [\<lparr>ed_Code = ''VALIDATION_FAILED'', ed_Message = message, ed_Field = Some field\<rparr>])"

definition RespondMultipleErrors :: "nat \<Rightarrow> ErrorDetail list \<Rightarrow> response" where
  "RespondMultipleErrors status errors = Response status (Envelope None errors)"

lemma statusOf_responses [simp]:
  "statusOf (RespondSuccess n p) = Some n" "statusOf (RespondErrorEnvelope n c m) = Some n"
  by (simp_all add: RespondSuccess_def RespondErrorEnvelope_def)

text \<open>
  What the handlers do with the error of a use case: \<^verbatim>\<open>MapDomainError\<close> and \<^verbatim>\<open>RespondErrorEnvelope\<close>. A nil
  dereference is no error value.
\<close>

definition respond_mapped :: "error \<Rightarrow> response" where
  "respond_mapped e =
     (if e = NilPanic then Aborted
      else let mapping = MapDomainError (Some e) in
           RespondErrorEnvelope (em_StatusCode mapping) (em_Code mapping) (Error e))"

type_synonym 'db handler = "Request \<Rightarrow> 'db world \<Rightarrow> response \<times> 'db world"

definition respond :: "response \<Rightarrow> 'db world \<Rightarrow> response \<times> 'db world" where
  "respond r w = (r, w)"

definition execute :: "('db, 'a) io \<Rightarrow> ('a \<Rightarrow> response) \<Rightarrow> 'db world \<Rightarrow> response \<times> 'db world" where
  "execute usecase success w =
     (case usecase w of (Inl e, w') \<Rightarrow> (respond_mapped e, w') | (Inr output, w') \<Rightarrow> (success output, w'))"

subsection \<open>Tokens\<close>

record jwtClaims =
  jwt_UserID :: string
  jwt_Email :: string
  jwt_Role :: string
  jwt_Subject :: string

record TokenClaims =
  tc_UserID :: string
  tc_Email :: string
  tc_Role :: string

text \<open>
  \<open>web_json\<close> reads the first JSON value of a text, as a \<^verbatim>\<open>json.Decoder\<close> does, \<open>web_unmarshal\<close> a whole text, as
  \<^verbatim>\<open>json.Unmarshal\<close> does. \<open>web_ParseWithClaims\<close> is \<^verbatim>\<open>jwt.ParseWithClaims\<close>: it is given the function that finds the key for a token,
  which sees whether the token's method is an HMAC, and answers the claims and \<^verbatim>\<open>token.Valid\<close>, \<open>None\<close> for an
  error. \<open>web_mac\<close> is the hexadecimal HMAC-SHA256 of a message under a key, \<open>web_ToLower\<close> is \<^verbatim>\<open>strings.ToLower\<close>,
  \<open>web_ParseFloat\<close> reads a number of JSON as a \<^verbatim>\<open>float64\<close> and prints it with \<^verbatim>\<open>%.0f\<close>, \<open>web_Sprint\<close> reads and prints any
  other value of JSON; both answer \<open>None\<close> for a number that no \<^verbatim>\<open>float64\<close> can hold.
\<close>

record web =
  web_json :: json_parser
  web_unmarshal :: json_parser
  web_format :: "time \<Rightarrow> string"
  web_uuid_ok :: "string \<Rightarrow> bool"
  web_secret :: string
  web_ParseWithClaims :: "(bool \<Rightarrow> string option) \<Rightarrow> string \<Rightarrow> (jwtClaims \<times> bool) option"
  web_webhookSecret :: string
  web_mac :: "string \<Rightarrow> string \<Rightarrow> string"
  web_ToLower :: "string \<Rightarrow> string"
  web_ParseFloat :: "string \<Rightarrow> string option"
  web_Sprint :: "json \<Rightarrow> string option"

text \<open>\<open>env\<close> is the variable \<^verbatim>\<open>JWT_SECRET_KEY\<close>, empty when it is not set.\<close>

definition NewJWTService :: "string \<Rightarrow> string" where
  "NewJWTService env = (if env = '''' then ''dev-secret'' else env)"

definition key_for :: "web \<Rightarrow> bool \<Rightarrow> string option" where
  "key_for W method_is_HMAC = (if method_is_HMAC then Some (web_secret W) else None)"

definition ValidateToken :: "web \<Rightarrow> string \<Rightarrow> TokenClaims option" where
  "ValidateToken W tokenValue =
     (case web_ParseWithClaims W (key_for W) tokenValue of
        None \<Rightarrow> None
      | Some (claims, valid) \<Rightarrow>
          if \<not> valid then None
          else
            let userID = (if jwt_Subject claims = '''' then jwt_UserID claims else jwt_Subject claims) in
            if userID = '''' \<or> jwt_Role claims = '''' then None
            else Some \<lparr>tc_UserID = userID, tc_Email = jwt_Email claims, tc_Role = jwt_Role claims\<rparr>)"

lemma ValidateToken_claims: "ValidateToken W t = Some c \<Longrightarrow> tc_UserID c \<noteq> '''' \<and> tc_Role c \<noteq> ''''"
  by (auto simp: ValidateToken_def Let_def split: option.splits if_splits)

definition Authenticate :: "web \<Rightarrow> 'db handler \<Rightarrow> 'db handler" where
  "Authenticate W next_handler r w =
     (let authHeader = rq_Header r ''Authorization'' in
      if authHeader = '''' then respond (RespondErrorEnvelope 401 ''UNAUTHORIZED'' ''Missing Authorization header'') w
      else
        let parts = strings_Split (CHR '' '') authHeader in
        if length parts \<noteq> 2 \<or> parts ! 0 \<noteq> ''Bearer''
        then respond (RespondErrorEnvelope 401 ''UNAUTHORIZED'' ''Invalid Authorization header format'') w
        else
          let token = parts ! 1 in
          if token = '''' then respond (RespondErrorEnvelope 401 ''UNAUTHORIZED'' ''Invalid Authorization header format'') w
          else case ValidateToken W token of
            None \<Rightarrow> respond (RespondErrorEnvelope 401 ''UNAUTHORIZED'' ''Invalid or expired token'') w
          | Some claims \<Rightarrow>
              next_handler (r\<lparr>rq_UserID := Some (tc_UserID claims), rq_UserRole := Some (tc_Role claims),
                              rq_UserEmail := Some (tc_Email claims)\<rparr>) w)"

subsection \<open>Roles\<close>

definition roleHierarchy :: "string \<Rightarrow> nat option" where
  "roleHierarchy role =
     (if role = ''CUSTOMER'' then Some 0 else if role = ''USER'' then Some 1
      else if role = ''MANAGER'' then Some 2 else if role = ''ADMIN'' then Some 3 else None)"

definition hasRequiredRole :: "string \<Rightarrow> string list \<Rightarrow> bool" where
  "hasRequiredRole userRole allowedRoles =
     (case roleHierarchy userRole of
        None \<Rightarrow> False
      | Some userLevel \<Rightarrow>
          list_ex (\<lambda>allowedRole.
            case roleHierarchy allowedRole of None \<Rightarrow> False | Some allowedLevel \<Rightarrow> allowedLevel \<le> userLevel)
            allowedRoles)"

definition RequireRole :: "string list \<Rightarrow> 'db handler \<Rightarrow> 'db handler" where
  "RequireRole allowedRoles next_handler r w =
     (case rq_UserRole r of
        None \<Rightarrow> respond (RespondErrorEnvelope 403 ''FORBIDDEN'' ''User role not found in context'') w
      | Some userRole \<Rightarrow>
          if userRole = ''''
          then respond (RespondErrorEnvelope 403 ''FORBIDDEN'' ''User role not found in context'') w
          else if \<not> hasRequiredRole userRole allowedRoles
          then respond (RespondErrorEnvelope 403 ''FORBIDDEN'' ''Insufficient permissions'') w
          else next_handler r w)"

text \<open>\<^verbatim>\<open>strings.Trim(path, "/")\<close> and the last segment that is a UUID.\<close>

definition trim_slashes :: "string \<Rightarrow> string" where
  "trim_slashes path =
     rev (dropWhile (\<lambda>c. c = CHR ''/'') (rev (dropWhile (\<lambda>c. c = CHR ''/'') path)))"

definition extractResourceID :: "web \<Rightarrow> string \<Rightarrow> string" where
  "extractResourceID W path =
     (case find (web_uuid_ok W) (rev (strings_Split (CHR ''/'') (trim_slashes path))) of
        Some part \<Rightarrow> part
      | None \<Rightarrow> '''')"

definition RequireOwnerOrRole :: "web \<Rightarrow> string list \<Rightarrow> 'db handler \<Rightarrow> 'db handler" where
  "RequireOwnerOrRole W allowedRoles next_handler r w =
     (case rq_UserID r of
        None \<Rightarrow> respond (RespondErrorEnvelope 403 ''FORBIDDEN'' ''User ID not found in context'') w
      | Some userID \<Rightarrow>
          (case rq_UserRole r of
             None \<Rightarrow> respond (RespondErrorEnvelope 403 ''FORBIDDEN'' ''User role not found in context'') w
           | Some userRole \<Rightarrow>
               if userRole = ''''
               then respond (RespondErrorEnvelope 403 ''FORBIDDEN'' ''User role not found in context'') w
               else
                 let resourceID = extractResourceID W (rq_Path r) in
                 if resourceID \<noteq> '''' \<and> userID = resourceID then next_handler r w
                 else if \<not> hasRequiredRole userRole allowedRoles
                 then respond (RespondErrorEnvelope 403 ''FORBIDDEN'' ''Insufficient permissions'') w
                 else next_handler r w))"

subsection \<open>Who gets through\<close>

text \<open>A list of roles admits every role of at least the lowest level it names.\<close>

lemma hasRequiredRole_internal:
  "hasRequiredRole role [''USER'', ''MANAGER'', ''ADMIN''] \<longleftrightarrow> role \<in> {''USER'', ''MANAGER'', ''ADMIN''}"
  by (simp add: hasRequiredRole_def roleHierarchy_def)

lemma hasRequiredRole_manager:
  "hasRequiredRole role [''MANAGER'', ''ADMIN''] \<longleftrightarrow> role \<in> {''MANAGER'', ''ADMIN''}"
  by (simp add: hasRequiredRole_def roleHierarchy_def)

lemma hasRequiredRole_anyone:
  "hasRequiredRole role [''CUSTOMER'', ''USER'', ''MANAGER'', ''ADMIN''] \<longleftrightarrow>
     role \<in> {''CUSTOMER'', ''USER'', ''MANAGER'', ''ADMIN''}"
  by (simp add: hasRequiredRole_def roleHierarchy_def)

lemmas role_lists = hasRequiredRole_internal hasRequiredRole_manager hasRequiredRole_anyone

text \<open>The caller of a request: the claims of the token in a well-formed header.\<close>

definition caller :: "web \<Rightarrow> Request \<Rightarrow> TokenClaims option" where
  "caller W r =
     (case strings_Split (CHR '' '') (rq_Header r ''Authorization'') of
        [scheme, token] \<Rightarrow> if scheme = ''Bearer'' \<and> token \<noteq> '''' then ValidateToken W token else None
      | _ \<Rightarrow> None)"

definition with_caller :: "TokenClaims \<Rightarrow> Request \<Rightarrow> Request" where
  "with_caller claims r =
     r\<lparr>rq_UserID := Some (tc_UserID claims), rq_UserRole := Some (tc_Role claims), rq_UserEmail := Some (tc_Email claims)\<rparr>"

lemma Authenticate_caller:
  "(case caller W r of
      None \<Rightarrow> \<exists>m. Authenticate W h r w = (RespondErrorEnvelope 401 ''UNAUTHORIZED'' m, w)
    | Some claims \<Rightarrow> Authenticate W h r w = h (with_caller claims r) w)"
proof (cases "strings_Split (CHR '' '') (rq_Header r ''Authorization'')")
  case (Cons a ps)
  show ?thesis
  proof (cases ps)
    case (Cons b qs)
    with \<open>strings_Split _ _ = a # ps\<close> show ?thesis
      by (cases qs) (auto simp: Authenticate_def caller_def with_caller_def respond_def Let_def split: option.split)
  qed (use Cons in \<open>auto simp: Authenticate_def caller_def respond_def Let_def\<close>)
qed simp

text \<open>Behind both checks a handler runs for a known caller with a sufficient role only.\<close>

lemma guarded:
  "(case caller W r of
      None \<Rightarrow> \<exists>m. Authenticate W (RequireRole roles h) r w = (RespondErrorEnvelope 401 ''UNAUTHORIZED'' m, w)
    | Some claims \<Rightarrow>
        if hasRequiredRole (tc_Role claims) roles
        then Authenticate W (RequireRole roles h) r w = h (with_caller claims r) w
        else \<exists>m. Authenticate W (RequireRole roles h) r w = (RespondErrorEnvelope 403 ''FORBIDDEN'' m, w))"
  using Authenticate_caller [where W = W and r = r and h = "RequireRole roles h" and w = w]
  by (auto simp: RequireRole_def with_caller_def respond_def caller_def split: option.splits list.splits if_splits
      dest: ValidateToken_claims)

end
