(* ===== verification/Order_Http.thy ===== *)
theory Order_Http
  imports Http Usecases_Read
begin

text \<open>
  \<^verbatim>\<open>so/infra/http/handlers/service_order_handler.go\<close>: the eight handlers of the order routes. A handler
  checks the identifier in the path, reads and checks the body, calls its use case and turns the output
  into a response.
\<close>

subsection \<open>Responses\<close>

text \<open>
  The loop over the items of an output of create and update, whose lines have no description, and of
  the two reading use cases.
\<close>

definition item_response :: "web \<Rightarrow> ItemOutput \<Rightarrow> ServiceOrderItemResponse" where
  "item_response W item =
     \<lparr>ir_ID = io_ID item, ir_ItemType = io_ItemType item, ir_ReferenceID = io_ReferenceID item,
      ir_Name = io_Name item, ir_Description = '''', ir_Quantity = io_Quantity item,
      ir_UnitPrice = io_UnitPrice item, ir_Subtotal = io_Subtotal item,
      ir_CreatedAt = web_format W (io_CreatedAt item)\<rparr>"

definition read_item_response :: "web \<Rightarrow> ServiceOrderItemOutput \<Rightarrow> ServiceOrderItemResponse" where
  "read_item_response W item =
     \<lparr>ir_ID = io_ID item, ir_ItemType = io_ItemType item, ir_ReferenceID = io_ReferenceID item,
      ir_Name = io_Name item, ir_Description = io_Description item, ir_Quantity = io_Quantity item,
      ir_UnitPrice = io_UnitPrice item, ir_Subtotal = io_Subtotal item,
      ir_CreatedAt = web_format W (io_CreatedAt item)\<rparr>"

definition total_of :: "ItemOutput list \<Rightarrow> goint" where
  "total_of items = foldl (\<lambda>totalAmount item. totalAmount + io_Subtotal item) 0 items"

definition created_response :: "web \<Rightarrow> CreateServiceOrderOutput \<Rightarrow> ServiceOrderResponse" where
  "created_response W output =
     \<lparr>sr_ID = co_ID output, sr_CustomerID = co_CustomerID output, sr_VehicleID = co_VehicleID output,
      sr_Description = co_Description output, sr_Customer = None, sr_Vehicle = None,
      sr_Status = co_Status output, sr_SagaStatus = co_SagaStatus output,
      sr_Items = Some (map (item_response W) (co_Items output)), sr_TotalAmount = total_of (co_Items output),
      sr_ClosedAt = None, sr_CreatedAt = web_format W (co_CreatedAt output),
      sr_UpdatedAt = web_format W (co_UpdatedAt output)\<rparr>"

definition updated_response :: "web \<Rightarrow> UpdateServiceOrderOutput \<Rightarrow> ServiceOrderResponse" where
  "updated_response W output =
     \<lparr>sr_ID = uo_ID output, sr_CustomerID = uo_CustomerID output, sr_VehicleID = uo_VehicleID output,
      sr_Description = uo_Description output, sr_Customer = None, sr_Vehicle = None,
      sr_Status = uo_Status output, sr_SagaStatus = uo_SagaStatus output,
      sr_Items = Some (map (item_response W) (uo_Items output)), sr_TotalAmount = total_of (uo_Items output),
      sr_ClosedAt = map_option (web_format W) (uo_ClosedAt output),
      sr_CreatedAt = web_format W (uo_CreatedAt output), sr_UpdatedAt = web_format W (uo_UpdatedAt output)\<rparr>"

definition customer_response :: "CustomerOutput \<Rightarrow> CustomerResponse" where
  "customer_response c =
     \<lparr>cures_ID = cuo_ID c, cures_Name = cuo_Name c, cures_Email = cuo_Email c, cures_Phone = cuo_Phone c\<rparr>"

definition vehicle_response :: "VehicleOutput \<Rightarrow> VehicleResponse" where
  "vehicle_response v =
     \<lparr>vres_ID = vo_ID v, vres_CustomerID = vo_CustomerID v, vres_LicensePlate = vo_LicensePlate v,
      vres_Brand = vo_Brand v, vres_Model = vo_Model v, vres_ModelYear = vo_ModelYear v,
      vres_ManufactureYear = vo_ManufactureYear v\<rparr>"

definition order_response :: "web \<Rightarrow> GetServiceOrderOutput \<Rightarrow> ServiceOrderResponse" where
  "order_response W output =
     \<lparr>sr_ID = go_ID output, sr_CustomerID = go_CustomerID output, sr_VehicleID = go_VehicleID output,
      sr_Description = go_Description output, sr_Customer = map_option customer_response (go_Customer output),
      sr_Vehicle = map_option vehicle_response (go_Vehicle output),
      sr_Status = go_Status output, sr_SagaStatus = go_SagaStatus output,
      sr_Items = Some (map (read_item_response W) (go_Items output)), sr_TotalAmount = go_TotalAmount output,
      sr_ClosedAt = map_option (web_format W) (go_ClosedAt output),
      sr_CreatedAt = web_format W (go_CreatedAt output), sr_UpdatedAt = web_format W (go_UpdatedAt output)\<rparr>"

text \<open>The responses of advance and authorize set neither the items nor the total.\<close>

definition advanced_response :: "web \<Rightarrow> AdvanceServiceOrderStatusOutput \<Rightarrow> ServiceOrderResponse" where
  "advanced_response W output =
     \<lparr>sr_ID = adv_ID output, sr_CustomerID = adv_CustomerID output, sr_VehicleID = adv_VehicleID output,
      sr_Description = adv_Description output, sr_Customer = None, sr_Vehicle = None,
      sr_Status = adv_Status output, sr_SagaStatus = adv_SagaStatus output, sr_Items = None, sr_TotalAmount = 0,
      sr_ClosedAt = map_option (web_format W) (adv_ClosedAt output),
      sr_CreatedAt = web_format W (adv_CreatedAt output), sr_UpdatedAt = web_format W (adv_UpdatedAt output)\<rparr>"

definition authorized_response :: "web \<Rightarrow> RespondToAuthorizationOutput \<Rightarrow> ServiceOrderResponse" where
  "authorized_response W output =
     \<lparr>sr_ID = rao_ID output, sr_CustomerID = rao_CustomerID output, sr_VehicleID = rao_VehicleID output,
      sr_Description = rao_Description output, sr_Customer = None, sr_Vehicle = None,
      sr_Status = rao_Status output, sr_SagaStatus = rao_SagaStatus output, sr_Items = None, sr_TotalAmount = 0,
      sr_ClosedAt = map_option (web_format W) (rao_ClosedAt output),
      sr_CreatedAt = web_format W (rao_CreatedAt output), sr_UpdatedAt = web_format W (rao_UpdatedAt output)\<rparr>"

definition history_response :: "web \<Rightarrow> HistoryOutput \<Rightarrow> HistoryResponse" where
  "history_response W h =
     \<lparr>hr_ID = ho_ID h, hr_ServiceOrderID = ho_ServiceOrderID h, hr_Metadata = ho_Metadata h,
      hr_Status = ho_Status h, hr_CreatedAt = web_format W (ho_CreatedAt h)\<rparr>"

text \<open>The maps of the asynchronous answers; the identifier of the saga is added when there is one.\<close>

definition with_saga :: "string option \<Rightarrow> (string \<Rightarrow> json option) \<Rightarrow> string \<Rightarrow> json option" where
  "with_saga sagaID m = (case sagaID of None \<Rightarrow> m | Some i \<Rightarrow> m(''saga_id'' \<mapsto> JString i))"

definition saga_started :: "string \<Rightarrow> string \<Rightarrow> string \<Rightarrow> string option \<Rightarrow> response" where
  "saga_started message status sagaStatus sagaID =
     RespondSuccess 202 (MapPayload (with_saga sagaID
       [''message'' \<mapsto> JString message, ''status'' \<mapsto> JString status, ''saga_status'' \<mapsto> JString sagaStatus]))"

subsection \<open>Handlers\<close>

definition invalid_body :: response where
  "invalid_body = RespondErrorEnvelope 400 ''INVALID_REQUEST'' ''Invalid request body''"

definition invalid_id :: response where
  "invalid_id = RespondErrorEnvelope 400 ''INVALID_UUID'' ''Invalid service order ID format''"

definition item_input :: "dto_ItemInput \<Rightarrow> ItemInput" where
  "item_input item =
     \<lparr>ii_ItemType = di_ItemType item, ii_ReferenceID = di_ReferenceID item, ii_Quantity = di_Quantity item\<rparr>"

definition create_input :: "CreateServiceOrderRequest \<Rightarrow> CreateServiceOrderInput" where
  "create_input req =
     \<lparr>ci_CustomerID = cr_CustomerID req, ci_VehicleID = cr_VehicleID req, ci_Description = cr_Description req,
      ci_Items = (case cr_Items req of None \<Rightarrow> [] | Some items \<Rightarrow> map item_input items)\<rparr>"

definition update_input :: "string \<Rightarrow> UpdateServiceOrderRequest \<Rightarrow> UpdateServiceOrderInput" where
  "update_input i req =
     \<lparr>ui_ID = i, ui_CustomerID = ur_CustomerID req, ui_VehicleID = ur_VehicleID req,
      ui_Description = ur_Description req, ui_Status = ur_Status req,
      ui_Items = map_option (map item_input) (ur_Items req)\<rparr>"

definition handle_CreateServiceOrder :: "web \<Rightarrow> 'db deps \<Rightarrow> 'db handler" where
  "handle_CreateServiceOrder W D r w =
     (case Option.bind (rq_Body r) (decode_create (web_json W)) of
        None \<Rightarrow> respond invalid_body w
      | Some req \<Rightarrow>
          (case ValidateStruct (VPointer (Some (reflect_create req))) of
             Some err \<Rightarrow> respond (RespondErrorEnvelope 400 ''VALIDATION_FAILED'' err) w
           | None \<Rightarrow>
               execute (CreateServiceOrder D (create_input req))
                 (\<lambda>output. RespondSuccess 201 (OrderPayload (created_response W output))) w))"

definition handle_GetServiceOrder :: "web \<Rightarrow> 'db deps \<Rightarrow> 'db handler" where
  "handle_GetServiceOrder W D r w =
     (let i = rq_PathValue r ''id'' in
      if \<not> web_uuid_ok W i then respond invalid_id w
      else execute (GetServiceOrder D i) (\<lambda>output. RespondSuccess 200 (OrderPayload (order_response W output))) w)"

definition handle_GetAllServiceOrders :: "web \<Rightarrow> 'db deps \<Rightarrow> 'db handler" where
  "handle_GetAllServiceOrders W D r w =
     (let callerRole = (case rq_UserRole r of None \<Rightarrow> '''' | Some role \<Rightarrow> role);
          callerID = (case rq_UserID r of None \<Rightarrow> '''' | Some i \<Rightarrow> i);
          customerID = (if callerRole = ''CUSTOMER'' then callerID else rq_Query r ''customer_id'');
          status = rq_Query r ''status'' in
      if customerID \<noteq> '''' \<and> \<not> web_uuid_ok W customerID
      then respond (RespondErrorEnvelope 400 ''INVALID_UUID'' ''Invalid customer_id format'') w
      else
        execute
          (GetAllServiceOrders D
             \<lparr>gi_CustomerID = (if customerID \<noteq> '''' then Some customerID else None),
              gi_Status = (if status \<noteq> '''' then Some status else None),
              gi_SortByStatus = (rq_Query r ''sort_by_status'' = ''true''),
              gi_HideCompleted = (rq_Query r ''hide_completed'' = ''true'')\<rparr>)
          (\<lambda>output. RespondSuccess 200 (OrdersPayload (map (order_response W) output))) w)"

definition handle_UpdateServiceOrder :: "web \<Rightarrow> 'db deps \<Rightarrow> 'db handler" where
  "handle_UpdateServiceOrder W D r w =
     (let i = rq_PathValue r ''id'' in
      if \<not> web_uuid_ok W i then respond invalid_id w
      else case Option.bind (rq_Body r) (decode_update (web_json W)) of
        None \<Rightarrow> respond invalid_body w
      | Some req \<Rightarrow>
          (case ValidateStruct (VPointer (Some (reflect_update req))) of
             Some err \<Rightarrow> respond (RespondErrorEnvelope 400 ''VALIDATION_FAILED'' err) w
           | None \<Rightarrow>
               execute (UpdateServiceOrder D (update_input i req))
                 (\<lambda>output. RespondSuccess 200 (OrderPayload (updated_response W output))) w))"

definition handle_DeleteServiceOrder :: "web \<Rightarrow> 'db deps \<Rightarrow> 'db handler" where
  "handle_DeleteServiceOrder W D r w =
     (let i = rq_PathValue r ''id'' in
      if \<not> web_uuid_ok W i then respond invalid_id w
      else
        execute (DeleteServiceOrder D i None)
          (\<lambda>output.
             if dso_Async output
             then RespondSuccess 202 (MapPayload (with_saga (dso_SagaID output)
                    [''message'' \<mapsto> JString ''Service order cancellation saga started'']))
             else RespondSuccess 200 (MapPayload
                    [''message'' \<mapsto> JString ''Service order canceled successfully''])) w)"

definition advance_answer :: "web \<Rightarrow> AdvanceServiceOrderStatusOutput \<Rightarrow> response" where
  "advance_answer W output =
     (if adv_Async output
      then saga_started ''Service order inventory saga started'' (adv_Status output) (adv_SagaStatus output)
             (adv_SagaID output)
      else case adv_PaymentURL output of
        Some url \<Rightarrow> RespondSuccess 202 (MapPayload
          [''message'' \<mapsto> JString ''Service order awaiting payment'', ''status'' \<mapsto> JString (adv_Status output),
           ''saga_status'' \<mapsto> JString (adv_SagaStatus output), ''payment_url'' \<mapsto> JString url])
      | None \<Rightarrow> RespondSuccess 200 (OrderPayload (advanced_response W output)))"

definition handle_AdvanceServiceOrderStatus :: "web \<Rightarrow> 'db deps \<Rightarrow> 'db handler" where
  "handle_AdvanceServiceOrderStatus W D r w =
     (let i = rq_PathValue r ''id'' in
      if \<not> web_uuid_ok W i then respond invalid_id w
      else execute (AdvanceServiceOrderStatus D i) (advance_answer W) w)"

definition handle_AuthorizeServiceOrder :: "web \<Rightarrow> 'db deps \<Rightarrow> 'db handler" where
  "handle_AuthorizeServiceOrder W D r w =
     (let i = rq_PathValue r ''id'' in
      if \<not> web_uuid_ok W i then respond invalid_id w
      else case Option.bind (rq_Body r) (decode_authorize (web_json W)) of
        None \<Rightarrow> respond invalid_body w
      | Some req \<Rightarrow>
          let callerID = (case rq_UserID r of None \<Rightarrow> '''' | Some i \<Rightarrow> i);
              callerRole = (case rq_UserRole r of None \<Rightarrow> '''' | Some role \<Rightarrow> role) in
          execute
            (RespondToAuthorization D
               \<lparr>rai_ServiceOrderID = i, rai_Approved = ar_Approved req, rai_Observation = ar_Notes req,
                rai_CallerID = callerID, rai_CallerRole = callerRole\<rparr>)
            (\<lambda>output.
               if rao_Async output
               then saga_started ''Service order authorization saga started'' (rao_Status output)
                      (rao_SagaStatus output) (rao_SagaID output)
               else RespondSuccess 200 (OrderPayload (authorized_response W output))) w)"

definition handle_GetServiceOrderHistory :: "web \<Rightarrow> 'db deps \<Rightarrow> 'db handler" where
  "handle_GetServiceOrderHistory W D r w =
     (let i = rq_PathValue r ''id'' in
      if \<not> web_uuid_ok W i then respond invalid_id w
      else
        execute (GetServiceOrderHistory D i)
          (\<lambda>output. RespondSuccess 200 (HistoryPayload (map (history_response W) output))) w)"

end
