(* ===== verification/Billing_Http.thy ===== *)
theory Billing_Http
  imports Http Billing
begin

text \<open>
  \<^verbatim>\<open>modules/billing/infra/http/handlers\<close>: the two payment handlers, the webhook of Mercado Pago with the
  validator of its signature (\<^verbatim>\<open>mercado_pago/signature_validator.go\<close>), and the page a payer is sent to.
\<close>

subsection \<open>Payments\<close>

definition invalid_order_id :: response where
  "invalid_order_id = RespondErrorEnvelope 400 ''INVALID_UUID'' ''Invalid service order ID format''"

definition handle_GetServiceOrderPayment :: "web \<Rightarrow> 'db deps \<Rightarrow> 'db handler" where
  "handle_GetServiceOrderPayment W D r w =
     (let serviceOrderID = rq_PathValue r ''id'' in
      if \<not> web_uuid_ok W serviceOrderID then respond invalid_order_id w
      else case GetPaymentStatus D serviceOrderID w of
        (Inl err, w') \<Rightarrow>
          if err = PaymentErr ErrPaymentURLNotAvailable
          then respond (RespondErrorEnvelope 404 ''NOT_FOUND'' (Error err)) w'
          else respond (respond_mapped err) w'
      | (Inr output, w') \<Rightarrow>
          respond (RespondSuccess 200 (MapPayload
            [''payment_url'' \<mapsto> JString (gps_PaymentURL output), ''mp_order_id'' \<mapsto> JString (gps_OrderID output),
             ''status'' \<mapsto> JString (gps_Status output)])) w')"

text \<open>\<open>wired\<close>: the use case is there.\<close>

definition handle_RetryPayment :: "web \<Rightarrow> bool \<Rightarrow> 'db deps \<Rightarrow> 'db handler" where
  "handle_RetryPayment W wired D r w =
     (let serviceOrderID = rq_PathValue r ''id'' in
      if \<not> web_uuid_ok W serviceOrderID then respond invalid_order_id w
      else if \<not> wired
      then respond (RespondErrorEnvelope 500 ''INTERNAL_ERROR'' ''retry payment not configured'') w
      else
        execute (RetryPayment D serviceOrderID)
          (\<lambda>output. RespondSuccess 202 (MapPayload
             [''payment_url'' \<mapsto> JString (rpo_PaymentURL output), ''mp_order_id'' \<mapsto> JString (rpo_MPOrderID output)])) w)"

subsection \<open>The signature of a notification\<close>

text \<open>The last \<^verbatim>\<open>ts\<close> and the last \<^verbatim>\<open>v1\<close> of the header.\<close>

fun signature_parts :: "string list \<Rightarrow> string \<Rightarrow> string \<Rightarrow> string \<times> string" where
  "signature_parts [] ts v1 = (ts, v1)"
| "signature_parts (part # parts) ts v1 =
     (case strings_Cut (CHR ''='') part of
        (key, val, found) \<Rightarrow>
          if \<not> found then signature_parts parts ts v1
          else if strings_TrimSpace key = ''ts'' then signature_parts parts (strings_TrimSpace val) v1
          else if strings_TrimSpace key = ''v1'' then signature_parts parts ts (strings_TrimSpace val)
          else signature_parts parts ts v1)"

definition parseSignatureHeader :: "string \<Rightarrow> string \<times> string \<times> bool" where
  "parseSignatureHeader header =
     (case signature_parts (strings_Split (CHR '','') header) '''' '''' of
        (ts, v1) \<Rightarrow> (ts, v1, ts \<noteq> '''' \<and> v1 \<noteq> ''''))"

definition NewSignatureValidator :: "string \<Rightarrow> string" where
  "NewSignatureValidator secret = strings_TrimSpace secret"

text \<open>\<open>None\<close> is \<^verbatim>\<open>nil\<close>. The manifest leaves out what the notification has not.\<close>

definition signature_manifest :: "web \<Rightarrow> string \<Rightarrow> string \<Rightarrow> string \<Rightarrow> string" where
  "signature_manifest W xRequestID paymentID ts =
     ''id:'' @ web_ToLower W paymentID @ '';'' @
     (if xRequestID \<noteq> '''' then ''request-id:'' @ xRequestID @ '';'' else '''') @ ''ts:'' @ ts @ '';''"

definition Validate_signature :: "web \<Rightarrow> string \<Rightarrow> string \<Rightarrow> string \<Rightarrow> error option" where
  "Validate_signature W xSignature xRequestID paymentID =
     (let secret = NewSignatureValidator (web_webhookSecret W) in
      if secret = '''' then Some (PaymentErr ErrMissingWebhookSecret)
      else case parseSignatureHeader xSignature of
        (ts, signature, ok) \<Rightarrow>
          if \<not> ok \<or> paymentID = '''' then Some (PaymentErr ErrInvalidWebhookSignature)
          else if web_mac W secret (signature_manifest W xRequestID paymentID ts) \<noteq> signature
          then Some (PaymentErr ErrInvalidWebhookSignature)
          else None)"

subsection \<open>The webhook\<close>

text \<open>\<open>hook_ID\<close> is what \<^verbatim>\<open>data.id\<close> holds, \<open>JNull\<close> for \<^verbatim>\<open>nil\<close>.\<close>

record mercadoPagoWebhookPayload =
  hook_Type :: string
  hook_Action :: string
  hook_APIVersion :: string
  hook_LiveMode :: bool
  hook_ExternalReference :: string
  hook_ID :: json

text \<open>A field of type \<^verbatim>\<open>any\<close>: the last occurrence counts, and each has to be readable.\<close>

fun readable :: "web \<Rightarrow> json \<Rightarrow> bool" where
  "readable W (JNumber n) \<longleftrightarrow> web_ParseFloat W n \<noteq> None"
| "readable W (JArray xs) \<longleftrightarrow> web_Sprint W (JArray xs) \<noteq> None"
| "readable W (JObject ms) \<longleftrightarrow> web_Sprint W (JObject ms) \<noteq> None"
| "readable W _ \<longleftrightarrow> True"

fun any_field :: "web \<Rightarrow> string \<Rightarrow> json \<Rightarrow> (string \<times> json) list \<Rightarrow> json option" where
  "any_field W name v [] = Some v"
| "any_field W name v ((k, x) # members) =
     (if fold_name k = name then (if readable W x then any_field W name x members else None)
      else any_field W name v members)"

fun data_field :: "web \<Rightarrow> json \<Rightarrow> (string \<times> json) list \<Rightarrow> json option" where
  "data_field W v [] = Some v"
| "data_field W v ((k, x) # members) =
     (if fold_name k = ''data'' then
        (case x of
           JObject inner \<Rightarrow> Option.bind (any_field W ''id'' v inner) (\<lambda>i. data_field W i members)
         | JNull \<Rightarrow> data_field W v members
         | _ \<Rightarrow> None)
      else data_field W v members)"

definition decode_webhook :: "web \<Rightarrow> string \<Rightarrow> mercadoPagoWebhookPayload option" where
  "decode_webhook W rawBody =
     Option.bind (Option.bind (web_unmarshal W rawBody) object_fields) (\<lambda>members.
     Option.bind (string_field ''type'' '''' members) (\<lambda>t.
     Option.bind (string_field ''action'' '''' members) (\<lambda>a.
     Option.bind (string_field ''api_version'' '''' members) (\<lambda>v.
     Option.bind (bool_field ''live_mode'' False members) (\<lambda>live.
     Option.bind (string_field ''external_reference'' '''' members) (\<lambda>e.
     Option.bind (data_field W JNull members) (\<lambda>i.
     Some \<lparr>hook_Type = t, hook_Action = a, hook_APIVersion = v, hook_LiveMode = live,
           hook_ExternalReference = e, hook_ID = i\<rparr>)))))))"

fun stringifyID :: "web \<Rightarrow> json \<Rightarrow> string" where
  "stringifyID W JNull = ''''"
| "stringifyID W (JString s) = s"
| "stringifyID W (JNumber n) = (case web_ParseFloat W n of Some s \<Rightarrow> s | None \<Rightarrow> '''')"
| "stringifyID W (JBool b) = (if b then ''true'' else ''false'')"
| "stringifyID W v = (case web_Sprint W v of Some s \<Rightarrow> s | None \<Rightarrow> '''')"

definition malformed_webhook :: response where
  "malformed_webhook = RespondErrorEnvelope 400 ''INVALID_REQUEST'' (Error (PaymentErr ErrMalformedWebhook))"

text \<open>
  The result of the signature's validation is only logged, so it does not occur in what follows it.
\<close>

definition handle_webhook :: "web \<Rightarrow> 'db deps \<Rightarrow> 'db handler" where
  "handle_webhook W D r w =
     (case rq_Body r of
        None \<Rightarrow> respond malformed_webhook w
      | Some rawBody \<Rightarrow>
          (case decode_webhook W rawBody of
             None \<Rightarrow> respond malformed_webhook w
           | Some payload \<Rightarrow>
               let xSig = rq_Header r ''x-signature''; xReqID = rq_Header r ''x-request-id'';
                   paymentID = (if rq_Query r ''data.id'' = '''' then stringifyID W (hook_ID payload)
                                else rq_Query r ''data.id'') in
               if hook_Type payload \<noteq> '''' \<and> hook_Type payload \<noteq> ''order'' \<and> hook_Type payload \<noteq> ''payment''
               then respond (Response 200 EmptyBody) w
               else if rq_Query r ''topic'' \<noteq> '''' then respond (Response 200 EmptyBody) w
               else if paymentID = '''' then respond malformed_webhook w
               else
                 let logged = Validate_signature W xSig xReqID paymentID in
                 execute
                   (HandlePaymentWebhook D
                      \<lparr>hpi_MPOrderID = paymentID, hpi_ExternalReference = hook_ExternalReference payload\<rparr>)
                   (\<lambda>output. RespondSuccess 200 (MapPayload
                      [''processed'' \<mapsto> JBool (hpo_Processed output), ''status'' \<mapsto> JString (hpo_Status output),
                       ''order_id'' \<mapsto> JString (hpo_OrderID output)])) w))"

subsection \<open>The page after a payment\<close>

text \<open>\<^verbatim>\<open>resultHTML\<close>, cut where \<^verbatim>\<open>fmt.Fprintf\<close> puts its five arguments.\<close>

definition page_part0 :: string where
  \<open>page_part0 = strings_Join [CHR 0x0A]
    [''<!DOCTYPE html>'',
     ''<html lang="pt-BR">'',
     ''<head>'',
     ''  <meta charset="UTF-8">'',
     ''  <meta name="viewport" content="width=device-width, initial-scale=1.0">'',
     ''  <title>'']\<close>

definition page_part1 :: string where
  \<open>page_part1 = strings_Join [CHR 0x0A]
    ['' '' @ [CHR 0xE2] @ [CHR 0x80] @ [CHR 0x94] @ '' Oficina Tech</title>'',
     ''  <style>'',
     ''    body { font-family: system-ui, sans-serif; display:flex; justify-content:center;'',
     ''           align-items:center; min-height:100vh; margin:0; background:#f8fafc; }'',
     ''    .card { background:#fff; border-radius:12px; padding:40px; max-width:440px;'',
     ''            width:90%; text-align:center; box-shadow:0 2px 16px rgba(0,0,0,.08); }'',
     ''    .icon { font-size:48px; margin-bottom:16px; }'',
     ''    h1 { color:'']\<close>

definition page_part2 :: string where
  \<open>page_part2 = strings_Join [CHR 0x0A]
    [''; margin:0 0 12px; font-size:1.5rem; }'',
     ''    p  { color:#475569; margin:8px 0; line-height:1.5; }'',
     ''  </style>'',
     ''</head>'',
     ''<body>'',
     ''  <div class="card">'',
     ''    <div class="icon">&#128274;</div>'',
     ''    <h1>'']\<close>

definition page_part3 :: string where
  \<open>page_part3 = strings_Join [CHR 0x0A]
    [''</h1>'',
     ''    <p>'']\<close>

definition page_part4 :: string where
  \<open>page_part4 = strings_Join [CHR 0x0A]
    [''</p>'',
     ''    <p>'']\<close>

definition page_part5 :: string where
  \<open>page_part5 = strings_Join [CHR 0x0A]
    [''</p>'',
     ''  </div>'',
     ''</body>'',
     ''</html>'']\<close>

definition resultHTML :: "string \<Rightarrow> string \<Rightarrow> string \<Rightarrow> string \<Rightarrow> string \<Rightarrow> string" where
  "resultHTML title color heading first_line second_line =
     page_part0 @ title @ page_part1 @ color @ page_part2 @ heading @ page_part3 @ first_line @ page_part4 @
     second_line @ page_part5"

definition handle_result :: "'db handler" where
  "handle_result r w =
     (let status = rq_Query r ''status''; orderID = rq_Query r ''order'' in
      if status = ''success'' then
        respond (Response 200 (HtmlBody (resultHTML ''Pagamento Aprovado'' ''#22c55e''
          ''Seu pagamento foi aprovado com sucesso.''
          (pt ''A ordem de servi+co '' @ ''<strong>'' @ orderID @ ''</strong>'' @ pt '' est/a sendo processada.'')
          (pt ''Voc^e receber/a um e-mail de confirma+c~ao em breve.'')))) w
      else if status = ''pending'' then
        respond (Response 200 (HtmlBody (resultHTML ''Pagamento Pendente'' ''#f59e0b''
          (pt ''Seu pagamento est/a sendo processado.'')
          (pt ''A ordem de servi+co '' @ ''<strong>'' @ orderID @ ''</strong>'' @ pt '' aguarda confirma+c~ao.'')
          (pt ''Voc^e ser/a notificado por e-mail quando o pagamento for confirmado.'')))) w
      else if status = ''failure'' then
        respond (Response 200 (HtmlBody (resultHTML (pt ''Pagamento n~ao Conclu/ido'') ''#ef4444''
          (pt ''N~ao foi poss/ivel processar o pagamento.'')
          (pt ''A ordem de servi+co '' @ ''<strong>'' @ orderID @ ''</strong>'' @ pt '' continua dispon/ivel.'')
          (pt ''Voc^e pode tentar novamente atrav/es do aplicativo.'')))) w
      else
        respond (Response 400 (TextBody
          (''{\"errors\":[{\"code\":\"VALIDATION_FAILED\",\"message\":\"'' @
           pt ''status inv/alido: use success, pending ou failure'' @ ''\"}]}'' @ [CHR 0x0A]))) w)"

end
