(* ===== verification/Routes.thy ===== *)
theory Routes
  imports Order_Http Billing_Http System
begin

text \<open>
  \<^verbatim>\<open>so/infra/http/routes.go\<close> and \<^verbatim>\<open>modules/billing/infra/http/routes.go\<close>: which checks and which handler answer
  a request that the server's multiplexer has matched with a pattern. A pattern is a constructor; the
  wildcard \<^verbatim>\<open>{id}\<close> is \<open>rq_PathValue r ''id''\<close>.
\<close>

subsection \<open>Patterns, checks and handlers\<close>

datatype order_route =
    POST_service_orders
  | GET_service_orders
  | GET_service_order
  | GET_service_order_history
  | PUT_service_order
  | POST_advance
  | POST_authorize
  | DELETE_service_order

datatype billing_route =
    POST_mp_webhook
  | GET_payments_result
  | GET_service_order_payment
  | POST_retry_payment

datatype route = OrderRoute order_route | BillingRoute billing_route

fun RegisterServiceOrderRoutes :: "web \<Rightarrow> 'db deps \<Rightarrow> order_route \<Rightarrow> 'db handler" where
  "RegisterServiceOrderRoutes W D POST_service_orders =
     Authenticate W (RequireRole [''USER'', ''MANAGER'', ''ADMIN''] (handle_CreateServiceOrder W D))"
| "RegisterServiceOrderRoutes W D GET_service_orders =
     Authenticate W (RequireRole [''CUSTOMER'', ''USER'', ''MANAGER'', ''ADMIN''] (handle_GetAllServiceOrders W D))"
| "RegisterServiceOrderRoutes W D GET_service_order =
     Authenticate W (RequireRole [''USER'', ''MANAGER'', ''ADMIN''] (handle_GetServiceOrder W D))"
| "RegisterServiceOrderRoutes W D GET_service_order_history =
     Authenticate W (RequireRole [''USER'', ''MANAGER'', ''ADMIN''] (handle_GetServiceOrderHistory W D))"
| "RegisterServiceOrderRoutes W D PUT_service_order =
     Authenticate W (RequireRole [''USER'', ''MANAGER'', ''ADMIN''] (handle_UpdateServiceOrder W D))"
| "RegisterServiceOrderRoutes W D POST_advance =
     Authenticate W (RequireRole [''USER'', ''MANAGER'', ''ADMIN''] (handle_AdvanceServiceOrderStatus W D))"
| "RegisterServiceOrderRoutes W D POST_authorize =
     Authenticate W (RequireRole [''CUSTOMER'', ''USER'', ''MANAGER'', ''ADMIN''] (handle_AuthorizeServiceOrder W D))"
| "RegisterServiceOrderRoutes W D DELETE_service_order =
     Authenticate W (RequireRole [''MANAGER'', ''ADMIN''] (handle_DeleteServiceOrder W D))"

text \<open>\<^verbatim>\<open>main.go\<close> gives the payment handler its use case, so it is wired.\<close>

fun RegisterBillingRoutes :: "web \<Rightarrow> 'db deps \<Rightarrow> billing_route \<Rightarrow> 'db handler" where
  "RegisterBillingRoutes W D POST_mp_webhook = handle_webhook W D"
| "RegisterBillingRoutes W D GET_payments_result = handle_result"
| "RegisterBillingRoutes W D GET_service_order_payment =
     Authenticate W (RequireRole [''USER'', ''MANAGER'', ''ADMIN''] (handle_GetServiceOrderPayment W D))"
| "RegisterBillingRoutes W D POST_retry_payment =
     Authenticate W (RequireRole [''USER'', ''MANAGER'', ''ADMIN''] (handle_RetryPayment W True D))"

fun serve_http :: "web \<Rightarrow> 'db deps \<Rightarrow> route \<Rightarrow> 'db handler" where
  "serve_http W D (OrderRoute rt) = RegisterServiceOrderRoutes W D rt"
| "serve_http W D (BillingRoute rt) = RegisterBillingRoutes W D rt"

subsection \<open>Who may do what\<close>

text \<open>The roles whose requests reach the handler of a route, and the handler.\<close>

fun allowed_roles :: "route \<Rightarrow> string set" where
  "allowed_roles (OrderRoute POST_service_orders) = {''USER'', ''MANAGER'', ''ADMIN''}"
| "allowed_roles (OrderRoute GET_service_orders) = {''CUSTOMER'', ''USER'', ''MANAGER'', ''ADMIN''}"
| "allowed_roles (OrderRoute GET_service_order) = {''USER'', ''MANAGER'', ''ADMIN''}"
| "allowed_roles (OrderRoute GET_service_order_history) = {''USER'', ''MANAGER'', ''ADMIN''}"
| "allowed_roles (OrderRoute PUT_service_order) = {''USER'', ''MANAGER'', ''ADMIN''}"
| "allowed_roles (OrderRoute POST_advance) = {''USER'', ''MANAGER'', ''ADMIN''}"
| "allowed_roles (OrderRoute POST_authorize) = {''CUSTOMER'', ''USER'', ''MANAGER'', ''ADMIN''}"
| "allowed_roles (OrderRoute DELETE_service_order) = {''MANAGER'', ''ADMIN''}"
| "allowed_roles (BillingRoute _) = {''USER'', ''MANAGER'', ''ADMIN''}"

definition public_route :: "route \<Rightarrow> bool" where
  "public_route rt \<longleftrightarrow> rt \<in> {BillingRoute POST_mp_webhook, BillingRoute GET_payments_result}"

fun handler_of :: "web \<Rightarrow> 'db deps \<Rightarrow> route \<Rightarrow> 'db handler" where
  "handler_of W D (OrderRoute POST_service_orders) = handle_CreateServiceOrder W D"
| "handler_of W D (OrderRoute GET_service_orders) = handle_GetAllServiceOrders W D"
| "handler_of W D (OrderRoute GET_service_order) = handle_GetServiceOrder W D"
| "handler_of W D (OrderRoute GET_service_order_history) = handle_GetServiceOrderHistory W D"
| "handler_of W D (OrderRoute PUT_service_order) = handle_UpdateServiceOrder W D"
| "handler_of W D (OrderRoute POST_advance) = handle_AdvanceServiceOrderStatus W D"
| "handler_of W D (OrderRoute POST_authorize) = handle_AuthorizeServiceOrder W D"
| "handler_of W D (OrderRoute DELETE_service_order) = handle_DeleteServiceOrder W D"
| "handler_of W D (BillingRoute POST_mp_webhook) = handle_webhook W D"
| "handler_of W D (BillingRoute GET_payments_result) = handle_result"
| "handler_of W D (BillingRoute GET_service_order_payment) = handle_GetServiceOrderPayment W D"
| "handler_of W D (BillingRoute POST_retry_payment) = handle_RetryPayment W True D"

lemma guarded_roles:
  assumes "\<And>role. hasRequiredRole role roles \<longleftrightarrow> role \<in> R"
  shows "case caller W r of
      None \<Rightarrow> \<exists>m. Authenticate W (RequireRole roles h) r w = (RespondErrorEnvelope 401 ''UNAUTHORIZED'' m, w)
    | Some claims \<Rightarrow>
        if tc_Role claims \<in> R then Authenticate W (RequireRole roles h) r w = h (with_caller claims r) w
        else \<exists>m. Authenticate W (RequireRole roles h) r w = (RespondErrorEnvelope 403 ''FORBIDDEN'' m, w)"
  using guarded [where W = W and r = r and roles = roles and h = h and w = w] unfolding assms .

lemmas guarded_lists = hasRequiredRole_internal [THEN guarded_roles] hasRequiredRole_manager [THEN guarded_roles]
  hasRequiredRole_anyone [THEN guarded_roles]

lemma route_guard:
  assumes "\<not> public_route rt"
  shows "case caller W r of
      None \<Rightarrow> \<exists>m. serve_http W D rt r w = (RespondErrorEnvelope 401 ''UNAUTHORIZED'' m, w)
    | Some claims \<Rightarrow>
        if tc_Role claims \<in> allowed_roles rt then serve_http W D rt r w = handler_of W D rt (with_caller claims r) w
        else \<exists>m. serve_http W D rt r w = (RespondErrorEnvelope 403 ''FORBIDDEN'' m, w)"
proof (cases rt)
  case (OrderRoute o_rt)
  then show ?thesis
    by (cases o_rt; simp only: serve_http.simps RegisterServiceOrderRoutes.simps handler_of.simps allowed_roles.simps)
      (rule guarded_lists)+
next
  case (BillingRoute b_rt)
  with assms have "b_rt \<in> {GET_service_order_payment, POST_retry_payment}"
    by (cases b_rt) (simp_all add: public_route_def)
  with BillingRoute show ?thesis
    by (elim insertE emptyE; simp only: serve_http.simps RegisterBillingRoutes.simps handler_of.simps allowed_roles.simps)
      (rule guarded_lists)+
qed

text \<open>Every route but the two public ones is either refused without effect or run for a caller.\<close>

lemma serve_http_cases:
  obtains (refused) n c m where "serve_http W D rt r w = (RespondErrorEnvelope n c m, w)" "n = 401 \<or> n = 403"
  | (handled) r' where "serve_http W D rt r w = handler_of W D rt r' w"
proof (cases "public_route rt")
  case True
  then have "serve_http W D rt r w = handler_of W D rt r w" by (auto simp: public_route_def)
  with handled show ?thesis .
next
  case False
  from route_guard [OF this, where W = W and r = r and D = D and w = w] show ?thesis
    using refused handled by (auto split: option.splits if_splits)
qed

subsection \<open>A request is at most one event\<close>

text \<open>A use case of a handler either is not called or leaves the world its event leaves.\<close>

lemma execute_snd: "snd (execute m k w) = snd (m w)"
  by (auto simp: execute_def split: prod.split sum.split)

lemma respond_snd [simp]: "snd (respond x w) = w"
  by (simp add: respond_def)

lemma handler_event:
  "snd (handler_of W D rt r w) = w \<or> (\<exists>e. snd (handler_of W D rt r w) = serve J D e w)"
proof (cases rt)
  case (OrderRoute o_rt)
  show ?thesis
  proof (cases o_rt)
    case POST_service_orders
    have "snd (handle_CreateServiceOrder W D r w) = w \<or>
        (\<exists>i. snd (handle_CreateServiceOrder W D r w) = serve J D (CreateEvent i) w)"
      by (auto simp: handle_CreateServiceOrder_def execute_snd split: option.split)
    with OrderRoute POST_service_orders show ?thesis by (auto simp del: serve.simps)
  next
    case GET_service_orders
    have "snd (handle_GetAllServiceOrders W D r w) = w \<or>
        (\<exists>i. snd (handle_GetAllServiceOrders W D r w) = serve J D (GetAllEvent i) w)"
      by (auto simp: handle_GetAllServiceOrders_def Let_def execute_snd)
    with OrderRoute GET_service_orders show ?thesis by (auto simp del: serve.simps)
  next
    case GET_service_order
    have "snd (handle_GetServiceOrder W D r w) = w \<or>
        (\<exists>i. snd (handle_GetServiceOrder W D r w) = serve J D (GetEvent i) w)"
      by (auto simp: handle_GetServiceOrder_def Let_def execute_snd)
    with OrderRoute GET_service_order show ?thesis by (auto simp del: serve.simps)
  next
    case GET_service_order_history
    have "snd (handle_GetServiceOrderHistory W D r w) = w \<or>
        (\<exists>i. snd (handle_GetServiceOrderHistory W D r w) = serve J D (GetHistoryEvent i) w)"
      by (auto simp: handle_GetServiceOrderHistory_def Let_def execute_snd)
    with OrderRoute GET_service_order_history show ?thesis by (auto simp del: serve.simps)
  next
    case PUT_service_order
    have "snd (handle_UpdateServiceOrder W D r w) = w \<or>
        (\<exists>i. snd (handle_UpdateServiceOrder W D r w) = serve J D (UpdateEvent i) w)"
      by (auto simp: handle_UpdateServiceOrder_def Let_def execute_snd split: option.split)
    with OrderRoute PUT_service_order show ?thesis by (auto simp del: serve.simps)
  next
    case POST_advance
    have "snd (handle_AdvanceServiceOrderStatus W D r w) = w \<or>
        (\<exists>i. snd (handle_AdvanceServiceOrderStatus W D r w) = serve J D (AdvanceEvent i) w)"
      by (auto simp: handle_AdvanceServiceOrderStatus_def Let_def execute_snd)
    with OrderRoute POST_advance show ?thesis by (auto simp del: serve.simps)
  next
    case POST_authorize
    have "snd (handle_AuthorizeServiceOrder W D r w) = w \<or>
        (\<exists>i. snd (handle_AuthorizeServiceOrder W D r w) = serve J D (RespondEvent i) w)"
      by (auto simp: handle_AuthorizeServiceOrder_def Let_def execute_snd split: option.split)
    with OrderRoute POST_authorize show ?thesis by (auto simp del: serve.simps)
  next
    case DELETE_service_order
    have "snd (handle_DeleteServiceOrder W D r w) = w \<or>
        (\<exists>i n. snd (handle_DeleteServiceOrder W D r w) = serve J D (DeleteEvent i n) w)"
      by (auto simp: handle_DeleteServiceOrder_def Let_def execute_snd)
    with OrderRoute DELETE_service_order show ?thesis by (auto simp del: serve.simps)
  qed
next
  case (BillingRoute b_rt)
  show ?thesis
  proof (cases b_rt)
    case POST_mp_webhook
    have "snd (handle_webhook W D r w) = w \<or>
        (\<exists>i. snd (handle_webhook W D r w) = serve J D (WebhookEvent i) w)"
      by (auto simp: handle_webhook_def Let_def execute_snd split: option.split)
    with BillingRoute POST_mp_webhook show ?thesis by (auto simp del: serve.simps)
  next
    case GET_payments_result
    with BillingRoute show ?thesis by (simp add: handle_result_def Let_def)
  next
    case GET_service_order_payment
    have "snd (handle_GetServiceOrderPayment W D r w) = w \<or>
        snd (handle_GetServiceOrderPayment W D r w) = snd (GetPaymentStatus D (rq_PathValue r ''id'') w)"
      by (auto simp: handle_GetServiceOrderPayment_def Let_def split: prod.split sum.split)
    then have "snd (handle_GetServiceOrderPayment W D r w) = w \<or>
        (\<exists>i. snd (handle_GetServiceOrderPayment W D r w) = serve J D (GetPaymentStatusEvent i) w)"
      by auto
    with BillingRoute GET_service_order_payment show ?thesis by (auto simp del: serve.simps)
  next
    case POST_retry_payment
    have "snd (handle_RetryPayment W True D r w) = w \<or>
        (\<exists>i. snd (handle_RetryPayment W True D r w) = serve J D (RetryPaymentEvent i) w)"
      by (auto simp: handle_RetryPayment_def Let_def execute_snd)
    with BillingRoute POST_retry_payment show ?thesis by (auto simp del: serve.simps)
  qed
qed

lemma request_event:
  "snd (serve_http W D rt r w) = w \<or> (\<exists>e. snd (serve_http W D rt r w) = serve J D e w)"
proof (cases rule: serve_http_cases [of W D rt r w])
  case (handled r')
  with handler_event [of W D rt r' w J] show ?thesis by simp
qed simp

subsection \<open>The service behind its routes\<close>

text \<open>
  What reaches the service from outside: requests, the answers of its queues, and its own start.
\<close>

datatype input =
    HttpInput route Request
  | QueueInput event
  | StartInput

fun internal :: "event \<Rightarrow> bool" where
  "internal (SucceededQueue _) = True"
| "internal (FailedQueue _) = True"
| "internal (CustomerDeletedQueue _) = True"
| "internal _ = False"

fun react :: "web \<Rightarrow> json_parser \<Rightarrow> 'db deps \<Rightarrow> input \<Rightarrow> 'db world \<Rightarrow> 'db world" where
  "react W J D (HttpInput rt r) w = snd (serve_http W D rt r w)"
| "react W J D (QueueInput e) w = (if internal e then serve J D e w else w)"
| "react W J D StartInput w = serve J D Startup w"

fun react_all :: "web \<Rightarrow> json_parser \<Rightarrow> 'db deps \<Rightarrow> input list \<Rightarrow> 'db world \<Rightarrow> 'db world" where
  "react_all W J D [] w = w"
| "react_all W J D (i # is) w = react_all W J D is (react W J D i w)"

lemma react_reachable:
  assumes "reachable J D w0 w"
  shows "reachable J D w0 (react W J D i w)"
proof (cases i)
  case (HttpInput rt r)
  with request_event [of W D rt r w J] assms show ?thesis by (auto intro: reachable.event)
next
  case (QueueInput e)
  with assms show ?thesis by (auto intro: reachable.event)
next
  case StartInput
  have "reachable J D w0 (serve J D Startup w)" using assms by (rule reachable.event)
  with StartInput show ?thesis by simp
qed

lemma react_all_reachable: "reachable J D w0 w \<Longrightarrow> reachable J D w0 (react_all W J D is w)"
  by (induction "is" arbitrary: w) (simp_all add: react_reachable)

end
