(* ===== verification/Validators_Correct.thy ===== *)
theory Validators_Correct
  imports Http_Dto
begin

text \<open>
  What the validator accepts: its regular expressions as sets of texts, and the requests of the order
  routes that pass, written out as predicates.
\<close>

subsection \<open>The regular expressions\<close>

lemma map_length_5:
  "map length ps = [l1, l2, l3, l4, l5] \<longleftrightarrow>
     (\<exists>a b c d e. ps = [a, b, c, d, e] \<and> length a = l1 \<and> length b = l2 \<and> length c = l3 \<and> length d = l4 \<and> length e = l5)"
  by (cases ps; cases "tl ps"; cases "tl (tl ps)"; cases "tl (tl (tl ps))"; cases "tl (tl (tl (tl ps)))"; cases "tl (tl (tl (tl (tl ps))))")
    auto

lemma hex_no_dash: "list_all is_hex a \<Longrightarrow> CHR ''-'' \<notin> set a"
  by (auto simp: list_all_iff is_hex_def is_digit_def)

text \<open>Eight, four, four, four and twelve hexadecimal digits with dashes between them.\<close>

lemma uuidRegex_iff:
  "uuidRegex s \<longleftrightarrow> (\<exists>a b c d e.
     s = a @ ''-'' @ b @ ''-'' @ c @ ''-'' @ d @ ''-'' @ e \<and> length a = 8 \<and> length b = 4 \<and> length c = 4 \<and>
     length d = 4 \<and> length e = 12 \<and> list_all (list_all is_hex) [a, b, c, d, e])"
proof
  assume "uuidRegex s"
  then obtain a b c d e where parts: "strings_Split (CHR ''-'') s = [a, b, c, d, e]" and
    rest: "length a = 8" "length b = 4" "length c = 4" "length d = 4" "length e = 12"
      "list_all (list_all is_hex) [a, b, c, d, e]"
    by (auto simp: uuidRegex_def Let_def map_length_5)
  have "s = a @ ''-'' @ b @ ''-'' @ c @ ''-'' @ d @ ''-'' @ e"
    using Join_Split [of "CHR ''-''" s] parts by simp
  with rest show "\<exists>a b c d e.
     s = a @ ''-'' @ b @ ''-'' @ c @ ''-'' @ d @ ''-'' @ e \<and> length a = 8 \<and> length b = 4 \<and> length c = 4 \<and>
     length d = 4 \<and> length e = 12 \<and> list_all (list_all is_hex) [a, b, c, d, e]" by blast
next
  assume "\<exists>a b c d e.
     s = a @ ''-'' @ b @ ''-'' @ c @ ''-'' @ d @ ''-'' @ e \<and> length a = 8 \<and> length b = 4 \<and> length c = 4 \<and>
     length d = 4 \<and> length e = 12 \<and> list_all (list_all is_hex) [a, b, c, d, e]"
  then obtain a b c d e where s: "s = a @ ''-'' @ b @ ''-'' @ c @ ''-'' @ d @ ''-'' @ e" and
    lens: "length a = 8" "length b = 4" "length c = 4" "length d = 4" "length e = 12" and
    hex: "list_all (list_all is_hex) [a, b, c, d, e]" by blast
  have "strings_Split (CHR ''-'') s = [a, b, c, d, e]"
    using hex by (simp add: s hex_no_dash Split_at Split_none)
  with lens hex show "uuidRegex s" by (simp add: uuidRegex_def)
qed

lemma uuidRegex_not_empty: "uuidRegex s \<Longrightarrow> s \<noteq> ''''"
  by (auto simp: uuidRegex_iff)

lemma last_split: "CHR ''.'' \<notin> set l \<Longrightarrow> strings_Split (CHR ''.'') (h @ ''.'' @ l) = strings_Split (CHR ''.'') h @ [l]"
  by (induction h) (auto simp: Split_none split: list.split)

lemma letters_no_dot: "list_all is_letter l \<Longrightarrow> CHR ''.'' \<notin> set l"
  by (auto simp: list_all_iff is_letter_def)

lemma local_no_at: "list_all local_char l \<Longrightarrow> CHR ''@'' \<notin> set l"
  by (auto simp: list_all_iff local_char_def is_letter_def is_digit_def)

lemma Join_snoc: "ps \<noteq> [] \<Longrightarrow> strings_Join sep (ps @ [p]) = strings_Join sep ps @ sep @ p"
  by (induction sep ps rule: strings_Join.induct) (auto simp: neq_Nil_conv)

text \<open>A local part, an at sign, and a host that ends in a dot and two or more letters.\<close>

lemma emailRegex_iff:
  "emailRegex s \<longleftrightarrow> (\<exists>l h t. s = l @ ''@'' @ h @ ''.'' @ t \<and> l \<noteq> [] \<and> list_all local_char l \<and>
     h \<noteq> [] \<and> list_all host_char h \<and> 2 \<le> length t \<and> list_all is_letter t)"
proof
  assume e: "emailRegex s"
  define l where "l = takeWhile (\<lambda>c. c \<noteq> CHR ''@'') s"
  define d where "d = tl (dropWhile (\<lambda>c. c \<noteq> CHR ''@'') s)"
  define ps where "ps = strings_Split (CHR ''.'') d"
  define h where "h = strings_Join ''.'' (butlast ps)"
  have at: "CHR ''@'' \<in> set s" and rest: "l \<noteq> []" "list_all local_char l" "2 \<le> length ps" "h \<noteq> []"
      "list_all host_char h" "list_all is_letter (last ps)" "2 \<le> length (last ps)"
    using e by (auto simp: emailRegex_def strings_Cut_def l_def d_def ps_def h_def Let_def split: if_splits)
  have "dropWhile (\<lambda>c. c \<noteq> CHR ''@'') s \<noteq> []" using at by (auto simp: dropWhile_eq_Nil_conv)
  with hd_dropWhile [OF this] have "dropWhile (\<lambda>c. c \<noteq> CHR ''@'') s = CHR ''@'' # d"
    unfolding d_def by (cases "dropWhile (\<lambda>c. c \<noteq> CHR ''@'') s") simp_all
  then have s: "s = l @ ''@'' @ d"
    using takeWhile_dropWhile_id [of "\<lambda>c. c \<noteq> CHR ''@''" s] by (simp add: l_def)
  have "ps \<noteq> []" by (simp add: ps_def)
  then have ps: "butlast ps @ [last ps] = ps" by (rule append_butlast_last_id)
  have "butlast ps \<noteq> []" using rest(3) by (cases ps rule: rev_cases) auto
  then have "d = h @ ''.'' @ last ps"
    using Join_Split [of "CHR ''.''" d] Join_snoc [of "butlast ps" "''.''" "last ps"]
    unfolding ps h_def by (simp add: ps_def)
  with s rest show "\<exists>l h t. s = l @ ''@'' @ h @ ''.'' @ t \<and> l \<noteq> [] \<and> list_all local_char l \<and>
     h \<noteq> [] \<and> list_all host_char h \<and> 2 \<le> length t \<and> list_all is_letter t" by blast
next
  assume "\<exists>l h t. s = l @ ''@'' @ h @ ''.'' @ t \<and> l \<noteq> [] \<and> list_all local_char l \<and>
     h \<noteq> [] \<and> list_all host_char h \<and> 2 \<le> length t \<and> list_all is_letter t"
  then obtain l h t where s: "s = l @ ''@'' @ h @ ''.'' @ t" and l: "l \<noteq> []" "list_all local_char l" and
    h: "h \<noteq> []" "list_all host_char h" and t: "2 \<le> length t" "list_all is_letter t" by blast
  have cut: "strings_Cut (CHR ''@'') s = (l, h @ ''.'' @ t, True)"
    using strings_Cut_found [OF local_no_at [OF l(2)]] by (simp add: s)
  have "strings_Split (CHR ''.'') (h @ ''.'' @ t) = strings_Split (CHR ''.'') h @ [t]"
    by (rule last_split [OF letters_no_dot [OF t(2)]])
  with cut l h t show "emailRegex s"
    by (simp add: emailRegex_def Join_Split [of "CHR ''.''", simplified] Suc_le_eq)
qed

subsection \<open>The tags of the requests\<close>

lemma tag_parts:
  "strings_Split (CHR '','') ''required,uuid'' = [''required'', ''uuid'']"
  "strings_Split (CHR '','') ''omitempty,uuid'' = [''omitempty'', ''uuid'']"
  "strings_Split (CHR '','') ''omitempty,dive'' = [''omitempty'', ''dive'']"
  "strings_Split (CHR '','') ''dive'' = [''dive'']"
  "strings_Split (CHR '','') ''required,min=1'' = [''required'', ''min=1'']"
  "strings_Split (CHR '','') ''required,oneof=PRODUCT SERVICE'' = [''required'', ''oneof=PRODUCT SERVICE'']"
  by code_simp+

lemma rule_trimmed:
  "strings_TrimSpace ''required'' = ''required''" "strings_TrimSpace ''uuid'' = ''uuid''"
  "strings_TrimSpace ''omitempty'' = ''omitempty''" "strings_TrimSpace ''dive'' = ''dive''"
  "strings_TrimSpace ''min=1'' = ''min=1''"
  "strings_TrimSpace ''oneof=PRODUCT SERVICE'' = ''oneof=PRODUCT SERVICE''"
  "strings_TrimSpace ''PRODUCT'' = ''PRODUCT''" "strings_TrimSpace ''SERVICE'' = ''SERVICE''"
  by (rule TrimSpace_plain, simp add: plain_def)+

lemma rule_parts:
  "strings_Split (CHR ''='') ''required'' = [''required'']" "strings_Split (CHR ''='') ''uuid'' = [''uuid'']"
  "strings_Split (CHR ''='') ''omitempty'' = [''omitempty'']" "strings_Split (CHR ''='') ''dive'' = [''dive'']"
  "strings_Split (CHR ''='') ''min=1'' = [''min'', ''1'']"
  "strings_Split (CHR ''='') ''oneof=PRODUCT SERVICE'' = [''oneof'', ''PRODUCT SERVICE'']"
  "strings_Split (CHR '' '') ''PRODUCT SERVICE'' = [''PRODUCT'', ''SERVICE'']"
  by code_simp+

lemma Atoi_1: "strconv_Atoi ''1'' = Some 1"
  by code_simp

lemmas tag_simps = tag_parts rule_trimmed rule_parts Atoi_1

text \<open>Single rules on values of the types the requests have.\<close>

lemma required_string:
  "applyRule n (VString s) ''required'' = None \<longleftrightarrow> strings_TrimSpace s \<noteq> ''''"
  by (simp add: rule_parts apply_plain_def)

lemma uuid_string:
  "applyRule n (VString s) ''uuid'' = None \<longleftrightarrow> strings_TrimSpace s = '''' \<or> uuidRegex (strings_TrimSpace s)"
  by (simp add: rule_parts apply_plain_def Let_def)

lemma oneof_string:
  "applyRule n (VString s) ''oneof=PRODUCT SERVICE'' = None \<longleftrightarrow>
     strings_TrimSpace s \<in> {'''', ''PRODUCT'', ''SERVICE''}"
  by (auto simp add: rule_parts rule_trimmed apply_plain_def Let_def)

lemma required_int: "applyRule n (VInt i) ''required'' = None \<longleftrightarrow> i \<noteq> 0"
  by (simp add: rule_parts apply_plain_def)

lemma min_int: "applyRule n (VInt i) ''min=1'' = None \<longleftrightarrow> i = 0 \<or> 1 \<le> sint i"
  by (auto simp add: rule_parts apply_plain_def validateMin_def Atoi_1 Let_def)

lemma uuid_pointer:
  "applyRule n (VPointer (map_option VString p)) ''uuid'' = None \<longleftrightarrow>
     (\<forall>s. p = Some s \<longrightarrow> strings_TrimSpace s = '''' \<or> uuidRegex (strings_TrimSpace s))"
  by (cases p) (simp_all add: rule_parts apply_plain_def Let_def)

lemma omitempty_any: "applyRule n v ''omitempty'' = None"
  by (simp add: rule_parts apply_plain_def)

lemma dive_slice: "applyRule n (VSlice xs) ''dive'' = validateDive n 0 xs"
  by (simp add: rule_parts)

declare applyRule.simps [simp del]

lemmas rule_simps = required_string uuid_string oneof_string required_int min_int uuid_pointer omitempty_any dive_slice

lemma apply_rules_None: "apply_rules n v rs = None \<longleftrightarrow> list_all (\<lambda>r. applyRule n v (strings_TrimSpace r) = None) rs"
  by (induction rs) (auto split: option.split)

lemma validate_fields_None:
  "validate_fields members = None \<longleftrightarrow>
     list_all (\<lambda>(f, v). sf_validate f \<noteq> '''' \<and> sf_validate f \<noteq> ''-'' \<longrightarrow>
       apply_rules (getFieldName f) v (strings_Split (CHR '','') (sf_validate f)) = None) members"
  by (induction members) (auto split: option.splits if_splits)

declare apply_rules.simps [simp del] validate_fields.simps [simp del] ValidateStruct.simps [simp del]

lemma validateDive_structs:
  "(\<And>x. x \<in> set xs \<Longrightarrow> \<exists>m. x = VStruct m) \<Longrightarrow>
     validateDive n i xs = None \<longleftrightarrow> (\<forall>x \<in> set xs. ValidateStruct x = None)"
proof (induction xs arbitrary: i)
  case (Cons x xs)
  from Cons.prems obtain m where "x = VStruct m" by auto
  with Cons.IH [of "Suc i"] Cons.prems show ?case by (auto split: option.splits)
qed simp

subsection \<open>The requests that pass\<close>

definition item_request_ok :: "dto_ItemInput \<Rightarrow> bool" where
  "item_request_ok item \<longleftrightarrow>
     (strings_TrimSpace (di_ItemType item) = ''PRODUCT'' \<or> strings_TrimSpace (di_ItemType item) = ''SERVICE'') \<and>
     uuidRegex (strings_TrimSpace (di_ReferenceID item)) \<and> 1 \<le> sint (di_Quantity item)"

definition items_request_ok :: "dto_ItemInput list option \<Rightarrow> bool" where
  "items_request_ok items \<longleftrightarrow> (case items of None \<Rightarrow> True | Some is \<Rightarrow> list_all item_request_ok is)"

definition create_request_ok :: "CreateServiceOrderRequest \<Rightarrow> bool" where
  "create_request_ok req \<longleftrightarrow>
     uuidRegex (strings_TrimSpace (cr_CustomerID req)) \<and> uuidRegex (strings_TrimSpace (cr_VehicleID req)) \<and>
     items_request_ok (cr_Items req)"

definition update_request_ok :: "UpdateServiceOrderRequest \<Rightarrow> bool" where
  "update_request_ok req \<longleftrightarrow>
     (\<forall>s \<in> set_option (ur_CustomerID req). strings_TrimSpace s = '''' \<or> uuidRegex (strings_TrimSpace s)) \<and>
     (\<forall>s \<in> set_option (ur_VehicleID req). strings_TrimSpace s = '''' \<or> uuidRegex (strings_TrimSpace s)) \<and>
     items_request_ok (ur_Items req)"

lemma ValidateStruct_item: "ValidateStruct (reflect_item item) = None \<longleftrightarrow> item_request_ok item"
  by (auto simp: reflect_item_def ValidateStruct.simps validate_fields_None apply_rules_None tagged_def tag_simps rule_simps
      item_request_ok_def dest: uuidRegex_not_empty)

lemma ValidateStruct_items:
  "validateDive n i (case items of None \<Rightarrow> [] | Some is \<Rightarrow> map reflect_item is) = None \<longleftrightarrow> items_request_ok items"
proof (cases items)
  case (Some xs)
  have "validateDive n i (map reflect_item xs) = None \<longleftrightarrow> (\<forall>x \<in> set (map reflect_item xs). ValidateStruct x = None)"
    by (rule validateDive_structs) (auto simp: reflect_item_def)
  with Some show ?thesis by (simp add: items_request_ok_def list_all_iff ValidateStruct_item)
qed (simp add: items_request_ok_def)

lemma ValidateStruct_create:
  "ValidateStruct (VPointer (Some (reflect_create req))) = None \<longleftrightarrow> create_request_ok req"
  by (auto simp: reflect_create_def reflect_items_def ValidateStruct.simps validate_fields_None apply_rules_None tagged_def tag_simps rule_simps
      ValidateStruct_items create_request_ok_def dest: uuidRegex_not_empty)

lemma ValidateStruct_update:
  "ValidateStruct (VPointer (Some (reflect_update req))) = None \<longleftrightarrow> update_request_ok req"
  by (auto simp: reflect_update_def reflect_items_def ValidateStruct.simps validate_fields_None apply_rules_None tagged_def tag_simps rule_simps
      ValidateStruct_items update_request_ok_def)

subsection \<open>Identifiers and page bounds\<close>

text \<open>Every positive number of 32 bits is accepted as it is printed, and nothing else yields a number.\<close>

lemma ValidateID_printed: "0 < n \<Longrightarrow> n < 2 ^ 32 \<Longrightarrow> ValidateID (nat_text n) = Inr n"
proof -
  assume n: "0 < n" "n < 2 ^ 32"
  have d: "list_all is_digit (nat_text n)" "nat_text n \<noteq> []" "digits_value (nat_text n) = int n"
    using nat_text_digits [of n] by simp_all
  then have "strings_TrimSpace (nat_text n) = nat_text n" by (intro digits_plain)
  moreover have "int n < 4294967296" using n by simp
  ultimately show ?thesis using n d by (simp add: ValidateID_def ParseUint32_def)
qed

lemma ValidateID_range: "ValidateID s = Inr n \<Longrightarrow> 0 < n \<and> n < 2 ^ 32"
  by (auto simp: ValidateID_def ParseUint32_def split: if_splits option.splits)

lemma ValidateQueryParams_accepts:
  "ValidateQueryParams params = None \<longleftrightarrow>
     (\<forall>s. params ''limit'' = Some s \<longrightarrow> (\<exists>i. int_value s = Some i \<and> 1 \<le> i \<and> i \<le> 1000)) \<and>
     (\<forall>s. params ''offset'' = Some s \<longrightarrow> (\<exists>i. int_value s = Some i \<and> 0 \<le> i))"
proof -
  have none: "strconv_Atoi s = None \<longleftrightarrow> int_value s = None" for s by (simp add: strconv_Atoi_def)
  show ?thesis
    by (cases "params ''limit''"; cases "params ''offset''")
      (auto simp: ValidateQueryParams_def Let_def none dest: sint_Atoi split: option.splits if_splits)
qed

end
