(* ===== verification/Http_Correct.thy ===== *)
theory Http_Correct
  imports Routes Validators_Correct
begin

text \<open>
  Lemmas about the handlers behind the routes: which responses are failures and what a failed request has
  done, when a request creates an order, what a listing holds, and which notifications are acted on.
\<close>

subsection \<open>Failed responses\<close>

definition failed :: "response \<Rightarrow> bool" where
  "failed resp \<longleftrightarrow> (case statusOf resp of None \<Rightarrow> True | Some s \<Rightarrow> 400 \<le> s)"

lemma failed_simps [simp]:
  "failed (RespondSuccess n p) \<longleftrightarrow> 400 \<le> n" "failed (RespondErrorEnvelope n c m) \<longleftrightarrow> 400 \<le> n"
  "failed (Response n b) \<longleftrightarrow> 400 \<le> n" "failed Aborted"
  by (simp_all add: failed_def)

lemma error_status_if:
  "400 \<le> em_StatusCode x \<Longrightarrow> 400 \<le> em_StatusCode y \<Longrightarrow> 400 \<le> em_StatusCode (if b then x else y)"
  by simp

lemma MapDomainText_status: "400 \<le> em_StatusCode (MapDomainText t)"
  unfolding MapDomainText_def by (intro error_status_if) (simp_all add: mapped_def)

lemma failed_respond_mapped [simp]: "failed (respond_mapped e)"
  using MapDomainText_status [of "Error e"] by (simp add: respond_mapped_def MapDomainError_def Let_def)

lemma execute_cases:
  assumes "execute m k w = (resp, w')"
  obtains (refused) e where "m w = (Inl e, w')" and "resp = respond_mapped e"
  | (answered) x where "m w = (Inr x, w')" and "resp = k x"
  using assms by (auto simp: execute_def split: prod.splits sum.splits)

lemma execute_output:
  assumes "execute m k w = (resp, w')" and "\<not> failed resp"
  obtains x where "m w = (Inr x, w')" and "resp = k x"
  using assms(1)
proof (cases rule: execute_cases)
  case (refused e)
  with assms(2) show ?thesis by simp
qed (rule that)

lemma fails_execute:
  assumes "fails_by view S m" and "execute m k w = (resp, w')" and "failed resp" and "\<And>x. \<not> failed (k x)"
  shows "S (view (w_db w)) (view (w_db w'))"
  using assms(2)
proof (cases rule: execute_cases)
  case (refused e)
  with assms(1) show ?thesis unfolding fails_by_def by blast
next
  case (answered x)
  with assms(3,4) show ?thesis by simp
qed

lemma not_failed_answers [simp]:
  "\<not> failed (saga_started a b c d)"
  by (simp add: saga_started_def)

lemma not_failed_advance [simp]: "\<not> failed (advance_answer W out)"
  by (simp add: advance_answer_def split: option.split)

context service_env
begin

lemma read_fails: "reads view m Q \<Longrightarrow> fails_by view unchanged_or_stranded m"
  by (erule fails_by_reads) simp

lemmas usecases_fail =
  Create_fails [THEN fails_by_eq] Update_fails [THEN fails_by_eq] RetryPayment_fails [THEN fails_by_eq]
  webhook_fails [THEN fails_by_eq] Advance_fails Respond_fails Delete_fails
  reads_GetServiceOrder [THEN read_fails] reads_GetServiceOrderHistory [THEN read_fails]
  reads_GetAllServiceOrders [THEN read_fails]

lemma handler_failed:
  assumes "handler_of W D rt r w = (resp, w')" and "failed resp"
  shows "unchanged_or_stranded (view (w_db w)) (view (w_db w'))"
proof (cases rt)
  case (OrderRoute o_rt)
  with assms show ?thesis
    by (cases o_rt)
      (auto simp: handle_CreateServiceOrder_def handle_GetServiceOrder_def handle_GetAllServiceOrders_def
        handle_GetServiceOrderHistory_def handle_UpdateServiceOrder_def handle_DeleteServiceOrder_def
        handle_AdvanceServiceOrderStatus_def handle_AuthorizeServiceOrder_def Let_def respond_def
        split: option.splits if_splits
        elim!: usecases_fail [THEN fails_execute])
next
  case (BillingRoute b_rt)
  have get: "GetPaymentStatus D i w = (x, w1) \<Longrightarrow> view (w_db w1) = view (w_db w)" for i x w1
    using reads_GetPaymentStatus [of i] unfolding reads_def by blast
  from BillingRoute assms show ?thesis
    by (cases b_rt)
      (auto simp: handle_webhook_def handle_result_def handle_GetServiceOrderPayment_def handle_RetryPayment_def
        Let_def respond_def split: option.splits if_splits prod.splits sum.splits
        elim!: usecases_fail [THEN fails_execute] dest: get)
qed

lemma request_failed:
  assumes "serve_http W D rt r w = (resp, w')" and "failed resp"
  shows "unchanged_or_stranded (view (w_db w)) (view (w_db w'))"
proof (cases rule: serve_http_cases [of W D rt r w])
  case (handled r')
  with assms show ?thesis by (auto intro: handler_failed)
qed (use assms in simp)

subsection \<open>Creating an order\<close>

lemma create_handled:
  assumes run: "handle_CreateServiceOrder W D r w = (resp, w')"
  shows "if failed resp then view (w_db w') = view (w_db w)
    else \<exists>req out s ids. Option.bind (rq_Body r) (decode_create (web_json W)) = Some req \<and> create_request_ok req \<and>
      resp = RespondSuccess 201 (OrderPayload (created_response W out)) \<and>
      new_order D (create_input req) s \<and> canon (co_ID out) = Some (co_ID out) \<and> view (w_db w) (co_ID out) = None \<and>
      view (w_db w') = (view (w_db w))(co_ID out \<mapsto> persist canon ((abs_order s)\<lparr>v_line_ids := ids\<rparr>))"
proof (cases "Option.bind (rq_Body r) (decode_create (web_json W))")
  case None
  with run show ?thesis by (auto simp: handle_CreateServiceOrder_def respond_def invalid_body_def)
next
  case (Some req)
  show ?thesis
  proof (cases "create_request_ok req")
    case False
    then obtain e where "ValidateStruct (VPointer (Some (reflect_create req))) = Some e"
      using ValidateStruct_create [of req] by auto
    with run Some show ?thesis by (auto simp: handle_CreateServiceOrder_def respond_def)
  next
    case True
    then have "ValidateStruct (VPointer (Some (reflect_create req))) = None" by (simp only: ValidateStruct_create)
    with run Some have exe: "execute (CreateServiceOrder D (create_input req))
        (\<lambda>output. RespondSuccess 201 (OrderPayload (created_response W output))) w = (resp, w')"
      by (simp add: handle_CreateServiceOrder_def)
    then show ?thesis
    proof (cases rule: execute_cases)
      case (refused e)
      with Create_failed show ?thesis by auto
    next
      case (answered out)
      with Create_run [OF answered(1)] Some True show ?thesis by auto
    qed
  qed
qed

end

subsection \<open>Listing orders\<close>

lemma mapE_all2:
  assumes "\<And>x w y w'. f x w = (Inr y, w') \<Longrightarrow> P x y" and "mapE f xs w = (Inr ys, w')"
  shows "list_all2 P xs ys"
  using assms(2)
proof (induction xs arbitrary: w ys)
  case (Cons x xs)
  obtain y w1 where y: "f x w = (Inr y, w1)"
    using Cons.prems by (auto simp: bindE_def split: prod.splits sum.splits)
  obtain zs where zs: "mapE f xs w1 = (Inr zs, w')" "ys = y # zs"
    using Cons.prems y by (auto simp: bindE_def split: prod.splits sum.splits)
  with Cons.IH [OF zs(1)] assms(1) [OF y] show ?case by simp
qed simp

lemma list_all2_in_set1: "list_all2 P xs ys \<Longrightarrow> x \<in> set xs \<Longrightarrow> \<exists>y \<in> set ys. P x y"
  by (induction xs ys rule: list_all2_induct) auto

lemma list_all2_in_set2: "list_all2 P xs ys \<Longrightarrow> y \<in> set ys \<Longrightarrow> \<exists>x \<in> set xs. P x y"
  by (induction xs ys rule: list_all2_induct) auto

definition shows_order :: "ServiceOrder \<Rightarrow> ServiceOrderSummary \<Rightarrow> bool" where
  "shows_order s out \<longleftrightarrow> go_ID out = so_id s \<and> go_CustomerID out = so_customerID s \<and>
     go_Status out = status_String (so_status s)"

lemma summary_shows: "summary_of D s w = (Inr out, w') \<Longrightarrow> shows_order s out"
  unfolding summary_of_def Let_def shows_order_def by (drule lookups_bind) auto

definition listing_status :: "GetAllServiceOrdersInput \<Rightarrow> error + OrderStatus option" where
  "listing_status inp =
     (case gi_Status inp of
        None \<Rightarrow> Inr None
      | Some st \<Rightarrow> if st \<noteq> '''' then map_sum id Some (NewOrderStatus st) else Inr None)"

lemma listing_status_eq:
  "(case gi_Status inp of None \<Rightarrow> returnE None
    | Some st \<Rightarrow> if st \<noteq> '''' then bindE (liftE (NewOrderStatus st)) (\<lambda>s. returnE (Some s)) else returnE None)
   = liftE (listing_status inp)"
  by (auto simp: listing_status_def bindE_def fun_eq_iff split: option.split sum.split)

lemma listing_status_valid: "listing_status inp = Inr (Some s) \<Longrightarrow> status_IsValid s"
  by (auto simp: listing_status_def NewOrderStatus_def Let_def split: option.splits if_splits)

lemma GetAll_steps:
  assumes "GetAllServiceOrders D inp w = (Inr outs, w')"
  obtains st ss db1 where "listing_status inp = Inr st"
    and "repo_FindAllWithFilters (orderRepo D) \<lparr>f_CustomerID = gi_CustomerID inp, f_Status = st,
           f_SortByStatus = gi_SortByStatus inp, f_HideCompleted = gi_HideCompleted inp\<rparr> (w_db w) = (Inr ss, db1)"
    and "list_all2 shows_order (filter (\<lambda>s. \<not> IsDeleted s) ss) outs"
proof -
  from assms obtain st where st: "listing_status inp = Inr st"
    unfolding GetAllServiceOrders_def listing_status_eq by (auto simp: bindE_def split: sum.splits)
  with assms obtain ss w1 where
    find: "FindAllWithFilters D \<lparr>f_CustomerID = gi_CustomerID inp, f_Status = st,
           f_SortByStatus = gi_SortByStatus inp, f_HideCompleted = gi_HideCompleted inp\<rparr> w = (Inr ss, w1)" and
    out: "mapE (summary_of D) (filter (\<lambda>s. \<not> IsDeleted s) ss) w1 = (Inr outs, w')"
    unfolding GetAllServiceOrders_def listing_status_eq by (auto simp: bindE_def split: prod.splits sum.splits)
  have "repo_FindAllWithFilters (orderRepo D) \<lparr>f_CustomerID = gi_CustomerID inp, f_Status = st,
      f_SortByStatus = gi_SortByStatus inp, f_HideCompleted = gi_HideCompleted inp\<rparr> (w_db w) = (Inr ss, w_db w1)"
    using find by (auto simp: FindAllWithFilters_def on_db_def split: prod.splits)
  moreover have "list_all2 shows_order (filter (\<lambda>s. \<not> IsDeleted s) ss) outs"
    by (rule mapE_all2 [OF summary_shows out])
  ultimately show ?thesis by (rule that [OF st])
qed

context gorm_db
begin

lemma filters_list_loaded:
  assumes "repo_impl_FindAllWithFilters U G fs db = (Inr ss, db')" and "s \<in> set ss"
  shows "loaded s"
proof (rule filters_query [OF assms(1)])
  fix c assume "load_orders U G \<lparr>q_customer_id = c, q_status = map_option status_String (f_Status fs),
       q_status_not_in = (if f_HideCompleted fs then hidden_statuses else []), q_saga_status = None,
       q_Order = (if f_SortByStatus fs then [StatusRank_ASC, CreatedAt_ASC] else [CreatedAt_DESC])\<rparr> db = (Inr ss, db')"
  from load_orders_run(2) [OF this refl] assms(2) show ?thesis by blast
qed

text \<open>The listing of one customer's orders holds them and no other, all of them when no filter is on.\<close>

lemma customer_listing:
  assumes D: "orderRepo D = ServiceOrderRepositoryImpl U G"
    and run: "GetAllServiceOrders D inp w = (Inr outs, w')" and c: "gi_CustomerID inp = Some c" "c \<noteq> ''''"
  shows "(\<forall>out \<in> set outs. \<exists>v. stored_view U (orders (w_db w)) (items (w_db w)) (go_ID out) = Some v \<and>
      go_CustomerID out = v_customerID v \<and> go_Status out = status_String (v_status v) \<and>
      uuid_canon U c = Some (v_customerID v)) \<and>
    (gi_Status inp = None \<longrightarrow> \<not> gi_HideCompleted inp \<longrightarrow>
      (\<forall>j v. stored_view U (orders (w_db w)) (items (w_db w)) j = Some v \<longrightarrow>
        uuid_canon U c = Some (v_customerID v) \<longrightarrow> (\<exists>out \<in> set outs. go_ID out = j)))"
  using run
proof (rule GetAll_steps)
  fix st ss db1
  let ?fs = "\<lparr>f_CustomerID = gi_CustomerID inp, f_Status = st, f_SortByStatus = gi_SortByStatus inp,
    f_HideCompleted = gi_HideCompleted inp\<rparr>"
  let ?stored = "stored_view U (orders (w_db w)) (items (w_db w))"
  assume st: "listing_status inp = Inr st" and
    found: "repo_FindAllWithFilters (orderRepo D) ?fs (w_db w) = (Inr ss, db1)" and
    shown: "list_all2 shows_order (filter (\<lambda>s. \<not> IsDeleted s) ss) outs"
  have find: "repo_impl_FindAllWithFilters U G ?fs (w_db w) = (Inr ss, db1)"
    using found by (simp add: D ServiceOrderRepositoryImpl_def)
  have "\<forall>x. f_Status ?fs = Some x \<longrightarrow> status_IsValid x" using st listing_status_valid [of inp] by simp
  with filters_list_run [OF find]
  have exact: "(?stored j = Some v \<and> filtered (uuid_canon U) ?fs v) \<longleftrightarrow> (\<exists>s \<in> set ss. so_id s = j \<and> abs_order s = v)"
    for j v by simp
  have all: "filter (\<lambda>s. \<not> IsDeleted s) ss = ss"
    using filters_list_loaded [OF find] by (auto simp: filter_id_conv loaded_def storable_def IsDeleted_def)
  have "\<exists>v. ?stored (go_ID out) = Some v \<and> go_CustomerID out = v_customerID v \<and>
      go_Status out = status_String (v_status v) \<and> uuid_canon U c = Some (v_customerID v)" if "out \<in> set outs" for out
  proof -
    note listed = that
    obtain s where s: "s \<in> set ss" "shows_order s out"
      using list_all2_in_set2 [OF shown [unfolded all] listed] by blast
    have "?stored (so_id s) = Some (abs_order s) \<and> filtered (uuid_canon U) ?fs (abs_order s)"
      using exact s(1) by blast
    with s(2) c show ?thesis by (auto simp: shows_order_def filtered_def abs_order_def)
  qed
  moreover have "\<exists>out \<in> set outs. go_ID out = j"
    if "gi_Status inp = None" "\<not> gi_HideCompleted inp" "?stored j = Some v"
      "uuid_canon U c = Some (v_customerID v)" for j v
  proof -
    have "st = None" using st that(1) by (simp add: listing_status_def)
    with that c have "filtered (uuid_canon U) ?fs v" by (simp add: filtered_def)
    with exact that(3) obtain s where s: "s \<in> set ss" "so_id s = j" by blast
    then obtain out where "out \<in> set outs" "shows_order s out"
      using list_all2_in_set1 [OF shown [unfolded all]] by blast
    with s(2) show ?thesis by (auto simp: shows_order_def)
  qed
  ultimately show ?thesis by blast
qed

end

end
