(* ===== verification/Http_Properties.thy ===== *)
theory Http_Properties
  imports Http_Correct System_Properties
begin

text \<open>
  The properties of the service as its callers see it, request by request.
\<close>

subsection \<open>Sample requests\<close>

definition id_a :: string where "id_a = ''aaaaaaaa-0000-4000-8000-00000000000a''"
definition id_b :: string where "id_b = ''bbbbbbbb-0000-4000-8000-00000000000b''"
definition id_c :: string where "id_c = ''cccccccc-0000-4000-8000-00000000000c''"

definition sample_claims :: "string \<Rightarrow> string \<Rightarrow> jwtClaims" where
  "sample_claims user role = \<lparr>jwt_UserID = '''', jwt_Email = ''mail'', jwt_Role = role, jwt_Subject = user\<rparr>"

definition sample_web :: web where
  "sample_web =
     \<lparr>web_json = (\<lambda>s. if s = ''create'' then Some (JObject [(''customer_id'', JString id_a), (''Vehicle_ID'', JString id_b),
          (''items'', JArray [JObject [(''item_type'', JString ''PRODUCT''), (''reference_id'', JString id_c),
             (''quantity'', JNumber ''2'')]])])
        else if s = ''yes'' then Some (JObject [(''approved'', JBool True)]) else None),
      web_unmarshal = (\<lambda>s. if s = ''notice'' then Some (JObject [(''type'', JString ''payment''),
          (''data'', JObject [(''id'', JString ''pay'')]), (''external_reference'', JString ''os'')]) else None),
      web_format = (\<lambda>t. ''time''), web_uuid_ok = (\<lambda>s. s \<noteq> ''''), web_secret = NewJWTService '''',
      web_ParseWithClaims = (\<lambda>key token.
        case key True of None \<Rightarrow> None
        | Some _ \<Rightarrow> if token = ''customer'' then Some (sample_claims ''u'' ''CUSTOMER'', True)
                   else if token = ''manager'' then Some (sample_claims ''m'' ''MANAGER'', True) else None),
      web_webhookSecret = ''secret'', web_mac = (\<lambda>key message. ''0a''), web_ToLower = strings_ToLower,
      web_ParseFloat = Some, web_Sprint = (\<lambda>_. Some '''')\<rparr>"

definition sample_request :: "string \<Rightarrow> string \<Rightarrow> string \<Rightarrow> Request" where
  "sample_request token i text =
     \<lparr>rq_Header = (\<lambda>h. if h = ''Authorization'' then ''Bearer '' @ token else ''''), rq_Path = '''',
      rq_PathValue = (\<lambda>_. i), rq_Query = (\<lambda>_. ''''), rq_Body = Some text,
      rq_UserID = None, rq_UserRole = None, rq_UserEmail = None\<rparr>"

lemma sample_callers:
  "caller sample_web (sample_request ''customer'' i b) = Some \<lparr>tc_UserID = ''u'', tc_Email = ''mail'', tc_Role = ''CUSTOMER''\<rparr>"
  "caller sample_web (sample_request ''manager'' i b) = Some \<lparr>tc_UserID = ''m'', tc_Email = ''mail'', tc_Role = ''MANAGER''\<rparr>"
  "caller sample_web (sample_request ''nobody'' i b) = None"
  by (simp_all add: caller_def sample_request_def sample_web_def ValidateToken_def key_for_def sample_claims_def)

subsection \<open>Who gets through\<close>

text \<open>
  Claim C6. Apart from the notification of Mercado Pago and the page after a payment, a request without a
  valid token is answered with 401 and has no effect, and one whose caller's role is not enough with 403
  and has no effect; every other request runs its handler with the identity and the role of its token.
  Customers get through to the listing and to the answer of an authorization only, and only managers and
  administrators may delete.
\<close>

theorem routes_guarded:
  assumes "\<not> public_route rt"
  shows "case caller W r of
      None \<Rightarrow> \<exists>m. serve_http W D rt r w = (RespondErrorEnvelope 401 ''UNAUTHORIZED'' m, w)
    | Some claims \<Rightarrow>
        if tc_Role claims \<in> allowed_roles rt then serve_http W D rt r w = handler_of W D rt (with_caller claims r) w
        else \<exists>m. serve_http W D rt r w = (RespondErrorEnvelope 403 ''FORBIDDEN'' m, w)"
  using assms by (rule route_guard)

theorem routes_guarded_witness:
  "(\<exists>m. serve_http sample_web (mem_deps '''') (OrderRoute DELETE_service_order) (sample_request ''customer'' ''os'' '''')
      (idle_world StatusReceived) = (RespondErrorEnvelope 403 ''FORBIDDEN'' m, idle_world StatusReceived)) \<and>
   (\<exists>m. serve_http sample_web (mem_deps '''') (BillingRoute POST_retry_payment) (sample_request ''nobody'' ''os'' '''')
      (idle_world StatusReceived) = (RespondErrorEnvelope 401 ''UNAUTHORIZED'' m, idle_world StatusReceived))"
  using routes_guarded [of "OrderRoute DELETE_service_order", where W = sample_web and r = "sample_request ''customer'' ''os'' ''''"
      and D = "mem_deps ''''" and w = "idle_world StatusReceived"]
    routes_guarded [of "BillingRoute POST_retry_payment", where W = sample_web and r = "sample_request ''nobody'' ''os'' ''''"
      and D = "mem_deps ''''" and w = "idle_world StatusReceived"]
  by (simp add: sample_callers public_route_def)

subsection \<open>Customers\<close>

text \<open>
  Claim C7. A customer who lists orders is shown their own orders and no other, whatever customer the query
  names, over any database that keeps the contract of \<^verbatim>\<open>gorm\<close>: each order shown is stored with the
  customer of the token, and without a filter every such order is shown.
\<close>

theorem customer_sees_own_orders:
  assumes "gorm_db U G orders items" and "orderRepo D = ServiceOrderRepositoryImpl U G"
    and "caller W r = Some claims" and "tc_Role claims = ''CUSTOMER''"
    and "serve_http W D (OrderRoute GET_service_orders) r w = (Response 200 (Envelope (Some (OrdersPayload shown)) []), w')"
  shows "(\<forall>o_resp \<in> set shown. \<exists>v. stored_view U (orders (w_db w)) (items (w_db w)) (sr_ID o_resp) = Some v \<and>
      sr_CustomerID o_resp = v_customerID v \<and> sr_Status o_resp = status_String (v_status v) \<and>
      uuid_canon U (tc_UserID claims) = Some (v_customerID v)) \<and>
    (rq_Query r ''status'' = '''' \<longrightarrow> rq_Query r ''hide_completed'' \<noteq> ''true'' \<longrightarrow>
      (\<forall>j v. stored_view U (orders (w_db w)) (items (w_db w)) j = Some v \<longrightarrow>
        uuid_canon U (tc_UserID claims) = Some (v_customerID v) \<longrightarrow> (\<exists>o_resp \<in> set shown. sr_ID o_resp = j)))"
proof -
  let ?i = "tc_UserID claims"
  let ?inp = "\<lparr>gi_CustomerID = Some ?i, gi_Status = (if rq_Query r ''status'' \<noteq> '''' then Some (rq_Query r ''status'') else None),
      gi_SortByStatus = (rq_Query r ''sort_by_status'' = ''true''), gi_HideCompleted = (rq_Query r ''hide_completed'' = ''true'')\<rparr>"
  have i: "?i \<noteq> ''''" using assms(3) ValidateToken_claims
    by (auto simp: caller_def split: list.splits if_splits)
  have "serve_http W D (OrderRoute GET_service_orders) r w = handle_GetAllServiceOrders W D (with_caller claims r) w"
    using route_guard [of "OrderRoute GET_service_orders", where W = W and r = r and D = D and w = w] assms(3,4)
    by (simp add: public_route_def)
  with assms(4,5) have "execute (GetAllServiceOrders D ?inp) (\<lambda>out. RespondSuccess 200 (OrdersPayload (map (order_response W) out))) w
      = (Response 200 (Envelope (Some (OrdersPayload shown)) []), w')"
    using i by (auto simp: handle_GetAllServiceOrders_def with_caller_def Let_def respond_def RespondErrorEnvelope_def split: if_splits)
  then obtain outs where run: "GetAllServiceOrders D ?inp w = (Inr outs, w')" and shown: "shown = map (order_response W) outs"
    by (rule execute_output) (simp_all add: RespondSuccess_def)
  from gorm_db.customer_listing [OF assms(1,2) run _ i] show ?thesis
    by (auto simp: shown order_response_def)
qed

theorem customer_sees_own_orders_witness:
  "\<exists>shown w'. serve_http sample_web gorm_deps (OrderRoute GET_service_orders) (sample_request ''customer'' '''' '''') gorm_world
      = (Response 200 (Envelope (Some (OrdersPayload shown)) []), w') \<and> shown \<noteq> [] \<and> sr_CustomerID (hd shown) = ''u''"
proof -
  let ?run = "serve_http sample_web gorm_deps (OrderRoute GET_service_orders) (sample_request ''customer'' '''' '''') gorm_world"
  have runs: "case fst ?run of Response n (Envelope (Some (OrdersPayload (s # ss))) es) \<Rightarrow> n = 200 \<and> es = [] | _ \<Rightarrow> False"
    by code_simp
  obtain x w' where x: "?run = (x, w')" by fastforce
  with runs obtain s ss where run: "?run = (Response 200 (Envelope (Some (OrdersPayload (s # ss))) []), w')"
    by (auto split: response.splits body.splits option.splits payload.splits list.splits)
  have repo: "orderRepo gorm_deps = ServiceOrderRepositoryImpl mem_uuid mem_gorm" by (simp add: gorm_deps_def)
  from customer_sees_own_orders [OF mem_gorm.gorm_db_axioms repo sample_callers(1) _ run]
  have "uuid_canon mem_uuid ''u'' = Some (sr_CustomerID s)" by auto
  moreover have "uuid_canon mem_uuid ''u'' = Some ''u''" by code_simp
  ultimately show ?thesis using run by simp
qed

text \<open>
  Claim C8. A customer cannot answer the authorization of somebody else's order: the request is not
  answered with success, and no order, no record and no message comes of it.
\<close>

theorem customer_cannot_answer_for_others:
  assumes "service_env D canon view" and "caller W r = Some claims" and "tc_Role claims = ''CUSTOMER''"
    and "canon (rq_PathValue r ''id'') = Some j" and "view (w_db w) j = Some v" and "v_customerID v \<noteq> tc_UserID claims"
    and "serve_http W D (OrderRoute POST_authorize) r w = (resp, w')"
  shows "failed resp \<and> view (w_db w') = view (w_db w) \<and> w_log w' = w_log w"
proof -
  have "serve_http W D (OrderRoute POST_authorize) r w = handle_AuthorizeServiceOrder W D (with_caller claims r) w"
    using route_guard [of "OrderRoute POST_authorize", where W = W and r = r and D = D and w = w] assms(2,3)
    by (simp add: public_route_def)
  with assms(7) have run: "handle_AuthorizeServiceOrder W D (with_caller claims r) w = (resp, w')" by simp
  show ?thesis
  proof (cases "web_uuid_ok W (rq_PathValue r ''id'')")
    case False
    with run show ?thesis by (auto simp: handle_AuthorizeServiceOrder_def with_caller_def respond_def invalid_id_def)
  next
    case True
    show ?thesis
    proof (cases "Option.bind (rq_Body r) (decode_authorize (web_json W))")
      case None
      with True run show ?thesis by (auto simp: handle_AuthorizeServiceOrder_def with_caller_def respond_def invalid_body_def)
    next
      case (Some req)
      let ?inp = "\<lparr>rai_ServiceOrderID = rq_PathValue r ''id'', rai_Approved = ar_Approved req, rai_Observation = ar_Notes req,
          rai_CallerID = tc_UserID claims, rai_CallerRole = tc_Role claims\<rparr>"
      obtain k where exe: "execute (RespondToAuthorization D ?inp) k w = (resp, w')"
        using run True Some by (auto simp: handle_AuthorizeServiceOrder_def with_caller_def Let_def)
      obtain x w1 where use: "RespondToAuthorization D ?inp w = (x, w1)" by fastforce
      have "(\<exists>e. x = Inl e) \<and> view (w_db w1) = view (w_db w) \<and> w_log w1 = w_log w"
        by (rule service_env.Respond_refused [OF assms(1) use _ assms(5)]) (use assms(3,4,6) in simp_all)
      with exe use show ?thesis by (auto simp: execute_def)
    qed
  qed
qed

theorem customer_cannot_answer_for_others_witness:
  "\<exists>resp w'. serve_http sample_web (mem_deps '''') (OrderRoute POST_authorize) (sample_request ''customer'' ''os'' ''yes'')
      (idle_world StatusPendingAuthorization) = (resp, w') \<and> failed resp \<and> w_log w' = []"
proof -
  obtain resp w' where run: "serve_http sample_web (mem_deps '''') (OrderRoute POST_authorize)
      (sample_request ''customer'' ''os'' ''yes'') (idle_world StatusPendingAuthorization) = (resp, w')" by fastforce
  from customer_cannot_answer_for_others [OF mem_env sample_callers(1) _ _ idle_world_view _ run] run show ?thesis
    by (auto simp: mem_canon_def sample_request_def sample_order_def abs_order_def idle_world_def world_with_def)
qed

subsection \<open>Failed requests\<close>

text \<open>
  Claim C9. A request that is not answered with success has changed no stored order, whatever the route and
  whatever went wrong, but for one order that may be left waiting for a saga.
\<close>

theorem failed_request_changes_nothing:
  assumes "service_env D canon view" and "serve_http W D rt r w = (resp, w')" and "failed resp"
  shows "unchanged_or_stranded (view (w_db w)) (view (w_db w'))"
  using assms by (rule service_env.request_failed)

theorem failed_request_changes_nothing_witness:
  "\<exists>resp w'. serve_http sample_web (mem_deps '''') (OrderRoute POST_advance) (sample_request ''manager'' ''os'' '''')
      (idle_world StatusDelivered) = (resp, w') \<and> statusOf resp = Some 409 \<and>
     unchanged_or_stranded (mem_view (w_db (idle_world StatusDelivered))) (mem_view (w_db w'))"
proof -
  let ?run = "serve_http sample_web (mem_deps '''') (OrderRoute POST_advance) (sample_request ''manager'' ''os'' '''')
    (idle_world StatusDelivered)"
  have status: "statusOf (fst ?run) = Some 409" by code_simp
  obtain resp w' where run: "?run = (resp, w')" by fastforce
  with status have "failed resp" by (simp add: failed_def)
  from failed_request_changes_nothing [OF mem_env run this] run status show ?thesis by auto
qed

subsection \<open>Requests that change orders\<close>

text \<open>
  Claim C10. A request to create an order is answered with 201 exactly when it has created one: then its
  caller is no customer, its body could be read and passed the validator, exactly one new order is stored,
  made from the body as read, and the answer carries its identifier. Otherwise no order has changed.
\<close>

theorem create_request_correct:
  assumes "service_env D canon view" and "serve_http W D (OrderRoute POST_service_orders) r w = (resp, w')"
  shows "if failed resp then view (w_db w') = view (w_db w)
    else \<exists>claims req out s ids. caller W r = Some claims \<and> tc_Role claims \<in> {''USER'', ''MANAGER'', ''ADMIN''} \<and>
      Option.bind (rq_Body r) (decode_create (web_json W)) = Some req \<and> create_request_ok req \<and>
      resp = RespondSuccess 201 (OrderPayload (created_response W out)) \<and>
      new_order D (create_input req) s \<and> view (w_db w) (co_ID out) = None \<and>
      view (w_db w') = (view (w_db w))(co_ID out \<mapsto> persist canon ((abs_order s)\<lparr>v_line_ids := ids\<rparr>))"
proof (cases "caller W r")
  case None
  with assms(2) route_guard [of "OrderRoute POST_service_orders", where W = W and r = r and D = D and w = w]
  show ?thesis by (auto simp: public_route_def)
next
  case (Some claims)
  show ?thesis
  proof (cases "tc_Role claims \<in> {''USER'', ''MANAGER'', ''ADMIN''}")
    case False
    with Some assms(2) route_guard [of "OrderRoute POST_service_orders", where W = W and r = r and D = D and w = w]
    show ?thesis by (auto simp: public_route_def)
  next
    case True
    with Some assms(2) route_guard [of "OrderRoute POST_service_orders", where W = W and r = r and D = D and w = w]
    have run: "handle_CreateServiceOrder W D (with_caller claims r) w = (resp, w')" by (simp add: public_route_def)
    have body: "rq_Body (with_caller claims r) = rq_Body r" by (simp add: with_caller_def)
    from service_env.create_handled [OF assms(1) run] Some True show ?thesis
      unfolding body by (auto split: if_splits)
  qed
qed

definition deps_of_owner :: "mem_db deps" where
  "deps_of_owner = (mem_deps '''')\<lparr>VehicleAdapter_Get := (\<lambda>t i. Inr (sample_vehicle\<lparr>veh_CustomerID := id_a\<rparr>))\<rparr>"

lemma owner_env: "service_env deps_of_owner mem_canon mem_view"
  using mem_env [of "''''"] by (simp add: service_env_def service_env_axioms_def deps_of_owner_def)

lemma sample_creation_request:
  obtains req where "decode_create (web_json sample_web) ''create'' = Some req" and "create_request_ok req"
    and "succeeds (CreateServiceOrder deps_of_owner (create_input req) (idle_world StatusReceived))"
proof -
  have "decode_create (web_json sample_web) ''create'' \<noteq> None" by code_simp
  then obtain req where req: "decode_create (web_json sample_web) ''create'' = Some req" by blast
  have "case decode_create (web_json sample_web) ''create'' of None \<Rightarrow> False | Some q \<Rightarrow> create_request_ok q" by code_simp
  moreover have "case decode_create (web_json sample_web) ''create'' of None \<Rightarrow> False
    | Some q \<Rightarrow> succeeds (CreateServiceOrder deps_of_owner (create_input q) (idle_world StatusReceived))" by code_simp
  ultimately show ?thesis using that req by simp
qed

theorem create_request_correct_witness:
  "\<exists>resp w' out v. serve_http sample_web deps_of_owner (OrderRoute POST_service_orders) (sample_request ''manager'' '''' ''create'')
      (idle_world StatusReceived) = (resp, w') \<and>
     resp = RespondSuccess 201 (OrderPayload (created_response sample_web out)) \<and>
     mem_view (w_db (idle_world StatusReceived)) (co_ID out) = None \<and> mem_view (w_db w') (co_ID out) = Some v \<and>
     v_status v = StatusReceived"
proof -
  let ?run = "serve_http sample_web deps_of_owner (OrderRoute POST_service_orders) (sample_request ''manager'' '''' ''create'')
    (idle_world StatusReceived)"
  obtain req where req: "decode_create (web_json sample_web) ''create'' = Some req" "create_request_ok req"
    "succeeds (CreateServiceOrder deps_of_owner (create_input req) (idle_world StatusReceived))"
    by (rule sample_creation_request)
  have passes: "ValidateStruct (VPointer (Some (reflect_create req))) = None"
    using req(2) by (simp only: ValidateStruct_create)
  obtain resp w' where run: "?run = (resp, w')" by fastforce
  have "?run = handle_CreateServiceOrder sample_web deps_of_owner
      (with_caller \<lparr>tc_UserID = ''m'', tc_Email = ''mail'', tc_Role = ''MANAGER''\<rparr> (sample_request ''manager'' '''' ''create''))
      (idle_world StatusReceived)"
    using route_guard [of "OrderRoute POST_service_orders", where W = sample_web and D = deps_of_owner
        and r = "sample_request ''manager'' '''' ''create''" and w = "idle_world StatusReceived"]
    by (simp add: public_route_def sample_callers)
  moreover have "rq_Body (with_caller c (sample_request ''manager'' '''' ''create'')) = Some ''create''" for c
    by (simp add: with_caller_def sample_request_def)
  ultimately have "?run = execute (CreateServiceOrder deps_of_owner (create_input req))
      (\<lambda>out. RespondSuccess 201 (OrderPayload (created_response sample_web out))) (idle_world StatusReceived)"
    using req(1) passes by (simp add: handle_CreateServiceOrder_def del: ValidateStruct.simps)
  with run req(3) have "\<not> failed resp" by (auto simp: execute_def elim!: succeedsE)
  with create_request_correct [OF owner_env run] run show ?thesis
    by (auto simp: new_order_def fresh_view_def)
qed

subsection \<open>Checks of requests and texts of errors\<close>

text \<open>
  Claim C26. The tags of the requests mean what they say: the interpreter of the tags accepts a request to
  create an order exactly when customer and vehicle are UUIDs and every line is a product or a service with
  the UUID of what it refers to and a positive quantity, and a request to update one exactly when what it
  gives is of this kind, up to white space around each text.
\<close>

theorem validator_accepts:
  "(ValidateStruct (VPointer (Some (reflect_create req))) = None \<longleftrightarrow> create_request_ok req) \<and>
   (ValidateStruct (VPointer (Some (reflect_update upd))) = None \<longleftrightarrow> update_request_ok upd)"
  by (simp only: ValidateStruct_create ValidateStruct_update)

lemmas error_rules = status_404 [unfolded ball_simps] status_409 [unfolded ball_simps] status_400 [unfolded ball_simps]
  status_500_order [unfolded ball_simps] status_500_items [unfolded ball_simps] status_500_history [unfolded ball_simps]

text \<open>
  The errors of the domain reach the caller with these codes and statuses: 404 for what is not
  found, 409 for what the order's status forbids, 400 for a vehicle of somebody else and for stock, 403 for
  somebody else's order. All the others are reported as internal errors with 500: a status in a query that
  is none, an item type or a quantity the domain refuses, a saga in flight, and every error of payments.
\<close>

theorem domain_errors_mapped:
  "map (\<lambda>e. MapDomainError (Some e)) [ErrInvalidCustomerID, ErrInvalidVehicleID, ErrServiceOrderNotFound, ErrItemNotFound,
      ErrProductNotFound, ErrServiceNotFound, ErrProductInventoryNotFound] = replicate 7 (mapped ''NOT_FOUND'' 404) \<and>
   map (\<lambda>e. MapDomainError (Some e)) [ErrInvalidStatusTransition, ErrNoNextStatus, ErrCannotModifyClosedOrder,
      ErrCannotModifyItemsAfterPending] = replicate 4 (mapped ''VALIDATION_FAILED'' 409) \<and>
   map (\<lambda>e. MapDomainError (Some e)) [ErrVehicleDoesNotBelongToCustomer, ErrInsufficientReservedStock,
      ErrInventoryOperationFailed] = replicate 3 (mapped ''VALIDATION_FAILED'' 400) \<and>
   MapDomainError (Some ErrForbiddenAccess) = mapped ''UNAUTHORIZED'' 403 \<and>
   map (\<lambda>e. MapDomainError (Some e)) [ErrInvalidServiceOrderID, ErrInvalidStatus, ErrServiceOrderDeleted,
      ErrInvalidItemType, ErrInvalidReferenceID, ErrInvalidItemName, ErrInvalidQuantity, ErrInvalidUnitPrice, ErrInvalidSagaID,
      ErrSagaAlreadyInProgress, PaymentErr e] = replicate 11 (mapped ''INTERNAL_ERROR'' 500)"
  by (simp only: list.map error_rules status_403 status_500_payment numeral_nat replicate.simps nat.simps arith_simps)

end
