(* ===== verification/Webhook_Properties.thy ===== *)
theory Webhook_Properties
  imports Http_Properties Billing_Properties
begin

text \<open>
  The notifications of Mercado Pago as requests, their signature, and what the answers of the billing and
  the order routes show.
\<close>

subsection \<open>Notifications\<close>

text \<open>What a request tells the use case, \<open>None\<close> when it is to be left alone.\<close>

definition notification :: "web \<Rightarrow> Request \<Rightarrow> HandlePaymentWebhookInput option" where
  "notification W r =
     Option.bind (Option.bind (rq_Body r) (decode_webhook W)) (\<lambda>payload.
       let i = (if rq_Query r ''data.id'' = '''' then stringifyID W (hook_ID payload) else rq_Query r ''data.id'') in
       if hook_Type payload \<in> {'''', ''order'', ''payment''} \<and> rq_Query r ''topic'' = '''' \<and> i \<noteq> ''''
       then Some \<lparr>hpi_MPOrderID = i, hpi_ExternalReference = hook_ExternalReference payload\<rparr> else None)"

definition notified :: "HandlePaymentWebhookOutput \<Rightarrow> response" where
  "notified out = RespondSuccess 200 (MapPayload
     [''processed'' \<mapsto> JBool (hpo_Processed out), ''status'' \<mapsto> JString (hpo_Status out),
      ''order_id'' \<mapsto> JString (hpo_OrderID out)])"

lemma webhook_notification:
  "case notification W r of
     None \<Rightarrow> \<exists>resp \<in> {Response 200 EmptyBody, malformed_webhook}. handle_webhook W D r w = (resp, w)
   | Some inp \<Rightarrow> handle_webhook W D r w = execute (HandlePaymentWebhook D inp) notified w"
proof (cases "Option.bind (rq_Body r) (decode_webhook W)")
  case None
  then show ?thesis
    by (cases "rq_Body r") (auto simp: notification_def handle_webhook_def respond_def)
next
  case (Some payload)
  then obtain raw where "rq_Body r = Some raw" "decode_webhook W raw = Some payload" by (cases "rq_Body r") auto
  then show ?thesis
    by (auto simp: notification_def handle_webhook_def respond_def Let_def notified_def [abs_def])
qed

subsection \<open>Requests as events\<close>

text \<open>
  The use case a request is for and its input, \<open>None\<close> when it is for none: what its route, its caller, its path, its query and its
  body say. Only a caller with a valid token and a role of the route gets through, an identifier has to be one, and a body
  has to be readable and within its limits.
\<close>

fun order_event :: "web \<Rightarrow> order_route \<Rightarrow> TokenClaims \<Rightarrow> Request \<Rightarrow> event option" where
  "order_event W POST_service_orders claims r =
     (case Option.bind (rq_Body r) (decode_create (web_json W)) of
        None \<Rightarrow> None
      | Some req \<Rightarrow> if create_request_ok req then Some (CreateEvent (create_input req)) else None)"
| "order_event W GET_service_orders claims r =
     (let customer = (if tc_Role claims = ''CUSTOMER'' then tc_UserID claims else rq_Query r ''customer_id'') in
      if customer \<noteq> '''' \<and> \<not> web_uuid_ok W customer then None
      else Some (GetAllEvent
        \<lparr>gi_CustomerID = (if customer = '''' then None else Some customer),
         gi_Status = (if rq_Query r ''status'' = '''' then None else Some (rq_Query r ''status'')),
         gi_SortByStatus = (rq_Query r ''sort_by_status'' = ''true''),
         gi_HideCompleted = (rq_Query r ''hide_completed'' = ''true'')\<rparr>))"
| "order_event W rt claims r =
     (let i = rq_PathValue r ''id'' in
      if \<not> web_uuid_ok W i then None
      else case rt of
        GET_service_order \<Rightarrow> Some (GetEvent i)
      | GET_service_order_history \<Rightarrow> Some (GetHistoryEvent i)
      | PUT_service_order \<Rightarrow>
          (case Option.bind (rq_Body r) (decode_update (web_json W)) of
             None \<Rightarrow> None
           | Some req \<Rightarrow> if update_request_ok req then Some (UpdateEvent (update_input i req)) else None)
      | POST_advance \<Rightarrow> Some (AdvanceEvent i)
      | POST_authorize \<Rightarrow>
          map_option (\<lambda>req. RespondEvent
            \<lparr>rai_ServiceOrderID = i, rai_Approved = ar_Approved req, rai_Observation = ar_Notes req,
             rai_CallerID = tc_UserID claims, rai_CallerRole = tc_Role claims\<rparr>)
            (Option.bind (rq_Body r) (decode_authorize (web_json W)))
      | DELETE_service_order \<Rightarrow> Some (DeleteEvent i None))"

fun billing_event :: "web \<Rightarrow> billing_route \<Rightarrow> Request \<Rightarrow> event option" where
  "billing_event W GET_service_order_payment r =
     (let i = rq_PathValue r ''id'' in if web_uuid_ok W i then Some (GetPaymentStatusEvent i) else None)"
| "billing_event W POST_retry_payment r =
     (let i = rq_PathValue r ''id'' in if web_uuid_ok W i then Some (RetryPaymentEvent i) else None)"
| "billing_event W POST_mp_webhook r = map_option WebhookEvent (notification W r)"
| "billing_event W GET_payments_result r = None"

fun request_event_of :: "web \<Rightarrow> route \<Rightarrow> Request \<Rightarrow> event option" where
  "request_event_of W rt r =
     (if public_route rt then (case rt of BillingRoute b \<Rightarrow> billing_event W b r | OrderRoute _ \<Rightarrow> None)
      else case caller W r of
        None \<Rightarrow> None
      | Some claims \<Rightarrow>
          if tc_Role claims \<notin> allowed_roles rt then None
          else (case rt of OrderRoute rt' \<Rightarrow> order_event W rt' claims r | BillingRoute b \<Rightarrow> billing_event W b r))"

fun input_event :: "web \<Rightarrow> input \<Rightarrow> event option" where
  "input_event W (HttpInput rt r) = request_event_of W rt r"
| "input_event W (QueueInput e) = (if internal e then Some e else None)"
| "input_event W StartInput = Some Startup"

definition served :: "json_parser \<Rightarrow> 'db deps \<Rightarrow> event option \<Rightarrow> 'db world \<Rightarrow> 'db world" where
  "served J D e w = (case e of None \<Rightarrow> w | Some e \<Rightarrow> serve J D e w)"

lemma with_caller_simps [simp]:
  "rq_Body (with_caller claims r) = rq_Body r" "rq_PathValue (with_caller claims r) = rq_PathValue r"
  "rq_Query (with_caller claims r) = rq_Query r" "rq_Header (with_caller claims r) = rq_Header r"
  "rq_UserID (with_caller claims r) = Some (tc_UserID claims)" "rq_UserRole (with_caller claims r) = Some (tc_Role claims)"
  by (simp_all add: with_caller_def)

lemma order_handler_event:
  "snd (handler_of W D (OrderRoute rt) (with_caller claims r) w) = served J D (order_event W rt claims r) w"
proof (cases rt)
  case POST_service_orders
  show ?thesis
  proof (cases "Option.bind (rq_Body r) (decode_create (web_json W))")
    case (Some req)
    show ?thesis
    proof (cases "create_request_ok req")
      case True
      then have "ValidateStruct (VPointer (Some (reflect_create req))) = None" by (simp only: ValidateStruct_create)
      with Some True POST_service_orders show ?thesis
        by (simp add: handle_CreateServiceOrder_def execute_snd served_def del: ValidateStruct.simps)
    next
      case False
      then obtain e where "ValidateStruct (VPointer (Some (reflect_create req))) = Some e" using ValidateStruct_create by auto
      with Some False POST_service_orders show ?thesis
        by (simp add: handle_CreateServiceOrder_def served_def del: ValidateStruct.simps)
    qed
  qed (simp add: POST_service_orders handle_CreateServiceOrder_def served_def)
next
  case PUT_service_order
  show ?thesis
  proof (cases "Option.bind (rq_Body r) (decode_update (web_json W))")
    case (Some req)
    show ?thesis
    proof (cases "update_request_ok req")
      case True
      then have "ValidateStruct (VPointer (Some (reflect_update req))) = None" by (simp only: ValidateStruct_update)
      with Some True PUT_service_order show ?thesis
        by (simp add: handle_UpdateServiceOrder_def execute_snd served_def Let_def del: ValidateStruct.simps)
    next
      case False
      then obtain e where "ValidateStruct (VPointer (Some (reflect_update req))) = Some e" using ValidateStruct_update by auto
      with Some False PUT_service_order show ?thesis
        by (simp add: handle_UpdateServiceOrder_def served_def Let_def del: ValidateStruct.simps)
    qed
  qed (simp add: PUT_service_order handle_UpdateServiceOrder_def served_def Let_def)
qed (simp_all add: handle_GetAllServiceOrders_def handle_GetServiceOrder_def handle_GetServiceOrderHistory_def
    handle_AdvanceServiceOrderStatus_def handle_AuthorizeServiceOrder_def handle_DeleteServiceOrder_def Let_def
    execute_snd served_def split: option.split)

lemma billing_handler_event:
  "snd (handler_of W D (BillingRoute rt) (with_caller claims r) w) = served J D (billing_event W rt r) w" if "\<not> public_route (BillingRoute rt)"
  using that
  by (cases rt)
    (auto simp: public_route_def handle_GetServiceOrderPayment_def handle_RetryPayment_def Let_def execute_snd served_def
      split: prod.split sum.split)

lemma public_event:
  assumes "public_route rt"
  shows "snd (serve_http W D rt r w) = served J D (request_event_of W rt r) w"
proof -
  from assms consider "rt = BillingRoute POST_mp_webhook" | "rt = BillingRoute GET_payments_result"
    by (auto simp: public_route_def)
  then show ?thesis
  proof cases
    case 1
    with webhook_notification [where W = W and r = r and D = D and w = w] show ?thesis
      by (auto simp: served_def public_route_def execute_snd split: option.splits)
  next
    case 2
    then show ?thesis by (simp add: served_def public_route_def handle_result_def Let_def)
  qed
qed

lemma request_served: "snd (serve_http W D rt r w) = served J D (request_event_of W rt r) w"
proof (cases "public_route rt")
  case False
  note guard = route_guard [OF False, where W = W and r = r and D = D and w = w]
  show ?thesis
  proof (cases "caller W r")
    case None
    with guard False show ?thesis by (auto simp: served_def)
  next
    case (Some claims)
    with guard False show ?thesis
      by (cases rt) (auto simp: served_def order_handler_event [unfolded served_def, where J = J]
        billing_handler_event [unfolded served_def, where J = J] simp del: handler_of.simps serve.simps)
  qed
qed (rule public_event)

text \<open>
  Claim C5. What reaches the service has exactly the effect of the use cases it asks for: whatever requests, queue messages and
  starts reach it, in any order, its world afterwards is the one that the events they stand for leave, one after the
  other. A request stands for the use case of its route with the input that its path, query and body and the identity in its
  token give; one without a valid token, without a role of its route, or with an identifier or a body that is not well
  formed stands for nothing.
\<close>

theorem routes_refine_service:
  "react_all W J D ins w = serve_all J D (List.map_filter (input_event W) ins) w"
proof (induction ins arbitrary: w)
  case (Cons i ins)
  have "react W J D i w = served J D (input_event W i) w"
    by (cases i) (simp_all add: request_served [where J = J] served_def del: serve.simps request_event_of.simps)
  with Cons.IH show ?case by (cases "input_event W i") (simp_all add: served_def map_filter_simps)
qed (simp add: map_filter_simps)

subsection \<open>What a notification does\<close>

text \<open>
  Claim C11. A notification request is acted on exactly when its body can be read, it is about an order or a
  payment in the present format and it names a payment; any other is answered with 200 or 400 and has no
  effect. One that is acted on and answered with success has had the effect that the payment's status, as
  Mercado Pago tells it when asked, has on the order; one answered with a failure has changed no order.
  Whether the signature of the request is valid plays no part: the code only logs that it is not, where the documents
  of the repository say that the notification is refused.
\<close>

theorem webhook_request_correct:
  assumes "service_env D canon view" and "serve_http W D (BillingRoute POST_mp_webhook) r w = (resp, w')"
  shows "case notification W r of
      None \<Rightarrow> w' = w \<and> (resp = Response 200 EmptyBody \<or> resp = malformed_webhook)
    | Some inp \<Rightarrow>
        if failed resp then view (w_db w') = view (w_db w)
        else \<exists>out pm. resp = notified out \<and> MP_GetPayment D (w_tick w) (hpi_MPOrderID inp) = Inr pm \<and>
          (let ref = (if mpp_ExternalReference pm = '''' then hpi_ExternalReference inp else mpp_ExternalReference pm)
           in if mpp_Status pm \<in> {''approved'', ''rejected'', ''cancelled'', ''canceled'', ''refunded''}
              then webhook_effect canon view ref (mpp_Status pm) (mpp_ID pm) out w w'
              else \<not> hpo_Processed out \<and> view (w_db w') = view (w_db w) \<and> w_log w' = w_log w)"
proof (cases "notification W r")
  case None
  with assms(2) webhook_notification [where W = W and r = r and D = D and w = w] show ?thesis by auto
next
  case (Some inp)
  with assms(2) webhook_notification [where W = W and r = r and D = D and w = w]
  have exe: "execute (HandlePaymentWebhook D inp) notified w = (resp, w')" by simp
  show ?thesis
  proof (cases "failed resp")
    case True
    from fails_execute [OF service_env.webhook_fails [OF assms(1)] exe True] Some True
    show ?thesis by (simp add: notified_def)
  next
    case False
    from execute_output [OF exe False] obtain out where
      "HandlePaymentWebhook D inp w = (Inr out, w')" "resp = notified out" by blast
    note out = this
    from service_env.HandlePaymentWebhook_run [OF assms(1) out(1)] obtain pm where
      pm: "MP_GetPayment D (w_tick w) (hpi_MPOrderID inp) = Inr pm"
        "let ref = (if mpp_ExternalReference pm = '''' then hpi_ExternalReference inp else mpp_ExternalReference pm)
         in ref \<noteq> '''' \<and> (if mpp_Status pm \<in> {''approved'', ''rejected'', ''cancelled'', ''canceled'', ''refunded''}
              then webhook_effect canon view ref (mpp_Status pm) (mpp_ID pm) out w w'
              else \<not> hpo_Processed out \<and> view (w_db w') = view (w_db w) \<and> w_log w' = w_log w)" by blast
    show ?thesis unfolding Some option.case Let_def using False out(2) pm(1) pm(2) [unfolded Let_def, THEN conjunct2]
      by (simp only: if_False) blast
  qed
qed

theorem webhook_request_correct_witness:
  "\<exists>resp w' out v. serve_http sample_web (mem_deps ''approved'') (BillingRoute POST_mp_webhook)
      (sample_request '''' '''' ''notice'') payment_world = (resp, w') \<and>
     resp = notified out \<and> hpo_Processed out \<and> mem_view (w_db w') ''os'' = Some v \<and> v_status v = StatusPaid"
proof -
  obtain resp w' where run: "serve_http sample_web (mem_deps ''approved'') (BillingRoute POST_mp_webhook)
      (sample_request '''' '''' ''notice'') payment_world = (resp, w')" by fastforce
  have n: "notification sample_web (sample_request '''' '''' ''notice'') = Some sample_notification" by code_simp
  have "statusOf (fst (serve_http sample_web (mem_deps ''approved'') (BillingRoute POST_mp_webhook)
      (sample_request '''' '''' ''notice'') payment_world)) = Some 200"
  proof -
    obtain out w1 where "HandlePaymentWebhook (mem_deps ''approved'') sample_notification payment_world = (Inr out, w1)"
      by (rule webhook_runs)
    with webhook_notification [where W = sample_web and r = "sample_request '''' '''' ''notice''"
        and D = "mem_deps ''approved''" and w = payment_world] n
    show ?thesis by (simp add: execute_def notified_def)
  qed
  with run have ok: "\<not> failed resp" by (simp add: failed_def)
  from webhook_request_correct [OF mem_env run] n ok obtain out where
    out: "resp = notified out" and eff: "webhook_effect mem_canon mem_view ''os'' ''approved'' ''pay'' out payment_world w'"
    by (auto simp: mem_deps_def sample_payment_def sample_notification_def Let_def)
  have st: "so_status (sample_order StatusAwaitingPayment SagaStatusAwaitingPayment None None) =
      StatusAwaitingPayment" by (simp add: sample_order_def)
  from eff payment_world_view st have "hpo_Processed out \<and> (\<exists>v. mem_view (w_db w') ''os'' = Some v \<and> v_status v = StatusPaid)"
    by (auto simp: webhook_effect_def mem_canon_def webhook_move_def split: if_splits)
  with run out show ?thesis by blast
qed

text \<open>
  The signature has no part in it: with any headers at all a notification is answered and acted on in the
  same way.
\<close>

theorem webhook_ignores_signature:
  "serve_http W D (BillingRoute POST_mp_webhook) (r\<lparr>rq_Header := headers\<rparr>) w =
   serve_http W D (BillingRoute POST_mp_webhook) r w"
  unfolding serve_http.simps RegisterBillingRoutes.simps handle_webhook_def Let_def
  by (simp split: option.split)

subsection \<open>Signatures\<close>

lemma hex_plain: "list_all is_hex s \<Longrightarrow> strings_TrimSpace s = s"
  by (erule all_plain) (auto simp: plain_def is_hex_def is_digit_def)

lemma parse_signature:
  assumes "list_all is_digit ts" and "list_all is_hex v1"
  shows "parseSignatureHeader (''ts='' @ ts @ '',v1='' @ v1) = (ts, v1, ts \<noteq> '''' \<and> v1 \<noteq> '''')"
proof -
  have comma: "CHR '','' \<notin> set (''ts='' @ ts)" "CHR '','' \<notin> set (''v1='' @ v1)"
    using assms by (auto simp: list_all_iff is_hex_def is_digit_def)
  have "strings_Split (CHR '','') (''ts='' @ ts @ '',v1='' @ v1) = [''ts='' @ ts, ''v1='' @ v1]"
    using Split_at [OF comma(1), of "''v1='' @ v1"] Split_none [OF comma(2)] by simp
  moreover have "strings_Cut (CHR ''='') (''ts='' @ ts) = (''ts'', ts, True)"
    using strings_Cut_found [of "CHR ''=''" "''ts''" ts] by simp
  moreover have "strings_Cut (CHR ''='') (''v1='' @ v1) = (''v1'', v1, True)"
    using strings_Cut_found [of "CHR ''=''" "''v1''" v1] by simp
  moreover have "strings_TrimSpace ''ts'' = ''ts''" "strings_TrimSpace ''v1'' = ''v1''"
    by (rule TrimSpace_plain, simp add: plain_def)+
  ultimately show ?thesis
    by (simp add: parseSignatureHeader_def digits_plain [OF assms(1)] hex_plain [OF assms(2)])
qed

text \<open>
  Claim C27. The validator of signatures accepts the header Mercado Pago is documented to send, a time and
  the code of the manifest under the shared secret, and of all headers of this form that one only.
\<close>

theorem signature_roundtrip:
  assumes "strings_TrimSpace (web_webhookSecret W) \<noteq> ''''" and "paymentID \<noteq> ''''" and "ts \<noteq> ''''"
    and "list_all is_digit ts" and "v1 \<noteq> ''''" and "list_all is_hex v1"
  shows "Validate_signature W (''ts='' @ ts @ '',v1='' @ v1) requestID paymentID = None \<longleftrightarrow>
    v1 = web_mac W (strings_TrimSpace (web_webhookSecret W))
      (''id:'' @ web_ToLower W paymentID @ '';'' @
       (if requestID = '''' then '''' else ''request-id:'' @ requestID @ '';'') @ ''ts:'' @ ts @ '';'')"
  using assms parse_signature [OF assms(4,6)]
  by (auto simp: Validate_signature_def NewSignatureValidator_def signature_manifest_def Let_def)

theorem signature_roundtrip_witness:
  "Validate_signature sample_web ''ts=17,v1=0a'' ''req'' ''pay'' = None \<and>
   Validate_signature sample_web ''ts=17,v1=0b'' ''req'' ''pay'' \<noteq> None"
proof -
  have secret: "strings_TrimSpace (web_webhookSecret sample_web) \<noteq> ''''" by code_simp
  have digits: "list_all is_digit ''17''" and hex: "list_all is_hex ''0a''" "list_all is_hex ''0b''" by code_simp+
  from signature_roundtrip [OF secret _ _ digits _ hex(1), of "''pay''" "''req''"]
    signature_roundtrip [OF secret _ _ digits _ hex(2), of "''pay''" "''req''"]
  show ?thesis by (simp add: sample_web_def)
qed

subsection \<open>What answers show\<close>

text \<open>The page after a payment holds whatever text the address gives for the order, as it is.\<close>

theorem result_page_verbatim:
  assumes "rq_Query r ''status'' \<in> {''success'', ''pending'', ''failure''}"
  shows "\<exists>a b. handle_result r w = (Response 200 (HtmlBody (a @ ''<strong>'' @ rq_Query r ''order'' @ ''</strong>'' @ b)), w)"
proof -
  have page: "\<exists>a b. resultHTML t c h (x @ ''<strong>'' @ q @ ''</strong>'' @ y) l = a @ ''<strong>'' @ q @ ''</strong>'' @ b"
    for t c h x q y l
    by (rule exI [of _ "page_part0 @ t @ page_part1 @ c @ page_part2 @ h @ page_part3 @ x"],
        rule exI [of _ "y @ page_part4 @ l @ page_part5"]) (simp add: resultHTML_def)
  show ?thesis using assms
    by (elim insertE emptyE) (simp_all add: handle_result_def respond_def Let_def page del: append.simps pt.simps)
qed

text \<open>The answer to an advance at once shows neither the lines of the order nor their sum.\<close>

theorem advance_answer_without_items:
  assumes "serve_http W D (OrderRoute POST_advance) r w = (Response 200 (Envelope (Some (OrderPayload shown)) []), w')"
  shows "sr_Items shown = None \<and> sr_TotalAmount shown = 0"
proof (cases rule: serve_http_cases [of W D "OrderRoute POST_advance" r w])
  case (refused n c m)
  with assms show ?thesis by (simp add: RespondErrorEnvelope_def)
next
  case (handled r')
  with assms have run: "handle_AdvanceServiceOrderStatus W D r' w =
      (Response 200 (Envelope (Some (OrderPayload shown)) []), w')" by simp
  then have "execute (AdvanceServiceOrderStatus D (rq_PathValue r' ''id'')) (advance_answer W) w =
      (Response 200 (Envelope (Some (OrderPayload shown)) []), w')"
    by (auto simp: handle_AdvanceServiceOrderStatus_def Let_def respond_def invalid_id_def RespondErrorEnvelope_def
        split: if_splits)
  then obtain out where "Response 200 (Envelope (Some (OrderPayload shown)) []) = advance_answer W out"
    by (rule execute_output) auto
  then have "shown = advanced_response W out"
    by (auto simp: advance_answer_def saga_started_def RespondSuccess_def split: if_splits option.splits)
  then show ?thesis by (simp add: advanced_response_def)
qed

end
