(* ===== verification/Http_Client.thy ===== *)
theory Http_Client
  imports Routes
begin

text \<open>
  \<^verbatim>\<open>shared/http_clients\<close>: the client by which the service reads customers and vehicles from MS1 and products
  and services from MS3, and the adapters of \<^verbatim>\<open>so/infra/adapters/implementations\<close>. The network, the parser of
  JSON and the texts of the errors of \<^verbatim>\<open>net/http\<close> and \<^verbatim>\<open>encoding/json\<close> are the fields of \<open>network\<close>. Tracing is
  left out.
\<close>

subsection \<open>The network\<close>

text \<open>
  \<open>rp_Body\<close> is \<open>Inl\<close> of an error when the body cannot be read to its end. \<open>net_Do\<close> is given the moment of the
  call, the attempt, the address and the \<^verbatim>\<open>Authorization\<close> header, and answers an error of the transport or
  a reply. \<open>net_Done\<close> is the error of the context when it ends during the wait after an attempt.
  \<open>net_NewRequest\<close> is the error of \<^verbatim>\<open>http.NewRequestWithContext\<close> for an address, \<open>net_decode_error\<close> the text of
  the error of \<^verbatim>\<open>json.Unmarshal\<close> for a body that cannot be read.
\<close>

record reply =
  rp_StatusCode :: nat
  rp_Body :: "string + string"

record network =
  net_json :: json_parser
  net_NewRequest :: "string \<Rightarrow> string option"
  net_Do :: "nat \<Rightarrow> nat \<Rightarrow> string \<Rightarrow> string option \<Rightarrow> string + reply"
  net_Done :: "nat \<Rightarrow> nat \<Rightarrow> string option"
  net_decode_error :: "string \<Rightarrow> string"

text \<open>What a call does on the network: the requests it sends and the milliseconds it waits.\<close>

datatype client_event =
    Sent string "string option"
  | Waited nat

text \<open>\<open>Retryable\<close> is \<^verbatim>\<open>retryableStatusError\<close>, \<open>Plain\<close> any other error.\<close>

datatype client_error =
    Retryable nat
  | Plain string

fun client_Error :: "client_error \<Rightarrow> string" where
  "client_Error (Retryable status) = ''upstream returned retryable status '' @ nat_text status"
| "client_Error (Plain text) = text"

fun shouldRetry :: "client_error \<Rightarrow> bool" where
  "shouldRetry (Retryable _) \<longleftrightarrow> True"
| "shouldRetry (Plain _) \<longleftrightarrow> False"

definition TrimRight_slashes :: "string \<Rightarrow> string" where
  "TrimRight_slashes s = rev (dropWhile (\<lambda>c. c = CHR ''/'') (rev s))"

definition newRESTClient :: "string \<Rightarrow> string" where
  "newRESTClient baseURL = TrimRight_slashes baseURL"

subsection \<open>Reading a reply\<close>

text \<open>
  The envelope of the other services. \<^verbatim>\<open>data\<close> is a \<^verbatim>\<open>json.RawMessage\<close>, so any value is kept, \<^verbatim>\<open>null\<close> too; the
  errors have to be a list of details or \<^verbatim>\<open>null\<close>. When the body is no envelope, or has no data, it is read
  itself.
\<close>

fun error_detail_ok :: "json \<Rightarrow> bool" where
  "error_detail_ok JNull \<longleftrightarrow> True"
| "error_detail_ok (JObject members) \<longleftrightarrow>
     string_field ''code'' '''' members \<noteq> None \<and> string_field ''message'' '''' members \<noteq> None"
| "error_detail_ok _ \<longleftrightarrow> False"

fun errors_ok :: "(string \<times> json) list \<Rightarrow> bool" where
  "errors_ok [] \<longleftrightarrow> True"
| "errors_ok ((k, x) # members) \<longleftrightarrow>
     (fold_name k = ''errors'' \<longrightarrow>
        (case x of JNull \<Rightarrow> True | JArray details \<Rightarrow> list_all error_detail_ok details | _ \<Rightarrow> False)) \<and>
     errors_ok members"

fun last_data :: "json option \<Rightarrow> (string \<times> json) list \<Rightarrow> json option" where
  "last_data v [] = v"
| "last_data v ((k, x) # members) = last_data (if fold_name k = ''data'' then Some x else v) members"

definition unwrap :: "json \<Rightarrow> json" where
  "unwrap v =
     (case v of
        JObject members \<Rightarrow>
          if errors_ok members then (case last_data None members of Some d \<Rightarrow> d | None \<Rightarrow> v) else v
      | _ \<Rightarrow> v)"

definition decode_CustomerDTO :: "json \<Rightarrow> CustomerDTO option" where
  "decode_CustomerDTO v =
     Option.bind (object_fields v) (\<lambda>members.
     Option.bind (string_field ''id'' '''' members) (\<lambda>i.
     Option.bind (string_field ''name'' '''' members) (\<lambda>n.
     Option.bind (string_field ''email'' '''' members) (\<lambda>e.
     Option.bind (string_field ''phone'' '''' members) (\<lambda>p.
     Some \<lparr>cust_ID = i, cust_Name = n, cust_Email = e, cust_Phone = p\<rparr>)))))"

definition decode_VehicleDTO :: "json \<Rightarrow> VehicleDTO option" where
  "decode_VehicleDTO v =
     Option.bind (object_fields v) (\<lambda>members.
     Option.bind (string_field ''id'' '''' members) (\<lambda>i.
     Option.bind (string_field ''customer_id'' '''' members) (\<lambda>c.
     Option.bind (string_field ''license_plate'' '''' members) (\<lambda>p.
     Option.bind (string_field ''brand'' '''' members) (\<lambda>b.
     Option.bind (string_field ''model'' '''' members) (\<lambda>m.
     Option.bind (int_field ''model_year'' 0 members) (\<lambda>my.
     Option.bind (int_field ''manufacture_year'' 0 members) (\<lambda>fy.
     Some \<lparr>veh_ID = i, veh_CustomerID = c, veh_LicensePlate = p, veh_Brand = b, veh_Model = m,
           veh_ModelYear = my, veh_ManufactureYear = fy\<rparr>))))))))"

definition decode_ProductDTO :: "json \<Rightarrow> ProductDTO option" where
  "decode_ProductDTO v =
     Option.bind (object_fields v) (\<lambda>members.
     Option.bind (string_field ''id'' '''' members) (\<lambda>i.
     Option.bind (string_field ''name'' '''' members) (\<lambda>n.
     Option.bind (string_field ''description'' '''' members) (\<lambda>d.
     Option.bind (int_field ''price'' 0 members) (\<lambda>p.
     Option.bind (string_field ''product_type'' '''' members) (\<lambda>t.
     Some \<lparr>prod_ID = i, prod_Name = n, prod_Description = d, prod_Price = p, prod_ProductType = t\<rparr>))))))"

definition decode_ServiceDTO :: "json \<Rightarrow> ServiceDTO option" where
  "decode_ServiceDTO v =
     Option.bind (object_fields v) (\<lambda>members.
     Option.bind (string_field ''id'' '''' members) (\<lambda>i.
     Option.bind (string_field ''name'' '''' members) (\<lambda>n.
     Option.bind (string_field ''description'' '''' members) (\<lambda>d.
     Option.bind (int_field ''price'' 0 members) (\<lambda>p.
     Some \<lparr>serv_ID = i, serv_Name = n, serv_Description = d, serv_Price = p\<rparr>)))))"

subsection \<open>One attempt and the loop over the attempts\<close>

definition read_reply :: "network \<Rightarrow> (json \<Rightarrow> 'a option) \<Rightarrow> reply \<Rightarrow> client_error + 'a" where
  "read_reply N decode resp =
     (if rp_StatusCode resp = 200 then
        (case rp_Body resp of
           Inl err \<Rightarrow> Inl (Plain err)
         | Inr raw \<Rightarrow>
             (case Option.bind (net_json N raw) (\<lambda>v. decode (unwrap v)) of
                None \<Rightarrow> Inl (Plain (net_decode_error N raw))
              | Some x \<Rightarrow> Inr x))
      else if rp_StatusCode resp = 404 then Inl (Plain ''resource not found'')
      else if rp_StatusCode resp = 401 then Inl (Plain ''unauthorized'')
      else if 500 \<le> rp_StatusCode resp then Inl (Retryable (rp_StatusCode resp))
      else Inl (Plain (''upstream returned status '' @ nat_text (rp_StatusCode resp))))"

text \<open>\<open>authorization\<close> is what the context holds under \<^verbatim>\<open>AuthorizationKey\<close>.\<close>

definition doGet ::
  "network \<Rightarrow> nat \<Rightarrow> string \<Rightarrow> string option \<Rightarrow> string \<Rightarrow> (json \<Rightarrow> 'a option) \<Rightarrow> nat \<Rightarrow>
   (client_error + 'a) \<times> client_event list" where
  "doGet N t baseURL authorization path decode attempt =
     (let url = baseURL @ path in
      case net_NewRequest N url of
        Some err \<Rightarrow> (Inl (Plain err), [])
      | None \<Rightarrow>
          let header = (case authorization of None \<Rightarrow> None | Some a \<Rightarrow> if a \<noteq> '''' then Some a else None) in
          (case net_Do N t attempt url header of
             Inl err \<Rightarrow> Inl (Plain err)
           | Inr resp \<Rightarrow> read_reply N decode resp,
           [Sent url header]))"

definition maxAttempts :: nat where
  "maxAttempts = 3"

definition backoffs :: "nat list" where
  "backoffs = [100, 250, 500]"

text \<open>The loop of \<^verbatim>\<open>get\<close> from an attempt on; \<open>lastErr\<close> is the error of the attempt before.\<close>

function get_from ::
  "network \<Rightarrow> nat \<Rightarrow> string \<Rightarrow> string option \<Rightarrow> string \<Rightarrow> (json \<Rightarrow> 'a option) \<Rightarrow> nat \<Rightarrow> string \<Rightarrow>
   (error + 'a) \<times> client_event list" where
  "get_from N t baseURL authorization path decode attempt lastErr =
     (if attempt < maxAttempts then
        (case doGet N t baseURL authorization path decode attempt of
           (Inr x, events) \<Rightarrow> (Inr x, events)
         | (Inl err, events) \<Rightarrow>
             if \<not> shouldRetry err \<or> attempt = maxAttempts - 1 then (Inl (ErrorString (client_Error err)), events)
             else case net_Done N t attempt of
                 Some done_err \<Rightarrow> (Inl (ErrorString done_err), events)
               | None \<Rightarrow>
                   (case get_from N t baseURL authorization path decode (Suc attempt) (client_Error err) of
                      (result, later) \<Rightarrow> (result, events @ Waited (backoffs ! attempt) # later)))
      else (Inl (ErrorString lastErr), []))"
  by pat_completeness auto
termination
  by (relation "measure (\<lambda>(N, t, baseURL, authorization, path, decode, attempt, lastErr). maxAttempts - attempt)") auto

declare get_from.simps [simp del]

definition client_get ::
  "network \<Rightarrow> nat \<Rightarrow> string \<Rightarrow> string option \<Rightarrow> string \<Rightarrow> (json \<Rightarrow> 'a option) \<Rightarrow>
   (error + 'a) \<times> client_event list" where
  "client_get N t baseURL authorization path decode = get_from N t baseURL authorization path decode 0 ''''"

subsection \<open>The clients and the adapters\<close>

text \<open>\<open>env\<close> is the variable \<^verbatim>\<open>MS1_BASE_URL\<close> or \<^verbatim>\<open>MS3_BASE_URL\<close>, empty when it is not set.\<close>

definition NewMS1Client :: "string \<Rightarrow> string" where
  "NewMS1Client env = newRESTClient (if env = '''' then ''http://localhost:8081'' else env)"

definition NewMS3Client :: "string \<Rightarrow> string" where
  "NewMS3Client env = newRESTClient (if env = '''' then ''http://localhost:8083'' else env)"

definition ms1_GetCustomerByID ::
  "network \<Rightarrow> string \<Rightarrow> string option \<Rightarrow> nat \<Rightarrow> string \<Rightarrow> (error + CustomerDTO) \<times> client_event list" where
  "ms1_GetCustomerByID N base authorization t i =
     client_get N t base authorization (''/customers/'' @ i) decode_CustomerDTO"

definition ms1_GetVehicleByID ::
  "network \<Rightarrow> string \<Rightarrow> string option \<Rightarrow> nat \<Rightarrow> string \<Rightarrow> (error + VehicleDTO) \<times> client_event list" where
  "ms1_GetVehicleByID N base authorization t i =
     client_get N t base authorization (''/vehicles/'' @ i) decode_VehicleDTO"

definition ms3_GetProductByID ::
  "network \<Rightarrow> string \<Rightarrow> string option \<Rightarrow> nat \<Rightarrow> string \<Rightarrow> (error + ProductDTO) \<times> client_event list" where
  "ms3_GetProductByID N base authorization t i =
     client_get N t base authorization (''/products/'' @ i) decode_ProductDTO"

definition ms3_GetServiceByID ::
  "network \<Rightarrow> string \<Rightarrow> string option \<Rightarrow> nat \<Rightarrow> string \<Rightarrow> (error + ServiceDTO) \<times> client_event list" where
  "ms3_GetServiceByID N base authorization t i =
     client_get N t base authorization (''/services/'' @ i) decode_ServiceDTO"

text \<open>The four adapters hand a call on to its client.\<close>

record service_urls =
  url_MS1 :: string
  url_MS3 :: string

definition with_clients :: "network \<Rightarrow> service_urls \<Rightarrow> string option \<Rightarrow> 'db deps \<Rightarrow> 'db deps" where
  "with_clients N urls authorization D =
     D\<lparr>CustomerAdapter_Get := (\<lambda>t i. fst (ms1_GetCustomerByID N (NewMS1Client (url_MS1 urls)) authorization t i)),
       VehicleAdapter_Get := (\<lambda>t i. fst (ms1_GetVehicleByID N (NewMS1Client (url_MS1 urls)) authorization t i)),
       ProductAdapter_Get := (\<lambda>t i. fst (ms3_GetProductByID N (NewMS3Client (url_MS3 urls)) authorization t i)),
       ServiceAdapter_Get := (\<lambda>t i. fst (ms3_GetServiceByID N (NewMS3Client (url_MS3 urls)) authorization t i))\<rparr>"

text \<open>
  \<^verbatim>\<open>Authenticate\<close> puts the header of a request whose token is valid into the context, so the clients send it
  on; the context of a public route, of a consumer and of the start has none.
\<close>

definition context_authorization :: "route \<Rightarrow> Request \<Rightarrow> string option" where
  "context_authorization rt r = (if public_route rt then None else Some (rq_Header r ''Authorization''))"

definition serve_connected :: "web \<Rightarrow> network \<Rightarrow> service_urls \<Rightarrow> 'db deps \<Rightarrow> route \<Rightarrow> 'db handler" where
  "serve_connected W N urls D rt r w = serve_http W (with_clients N urls (context_authorization rt r) D) rt r w"

end
