(* ===== verification/Client_Properties.thy ===== *)
theory Client_Properties
  imports Http_Client Http_Properties
begin

text \<open>
  The properties of the client of the other services: what it does on the network, what it makes of a reply,
  and what of a failure reaches the caller of a route.
\<close>

subsection \<open>The attempts\<close>

definition sent_by :: "network \<Rightarrow> string \<Rightarrow> string option \<Rightarrow> string \<Rightarrow> client_event list" where
  "sent_by N baseURL authorization path =
     (if net_NewRequest N (baseURL @ path) = None
      then [Sent (baseURL @ path) (case authorization of None \<Rightarrow> None | Some a \<Rightarrow> if a \<noteq> '''' then Some a else None)]
      else [])"

lemma snd_doGet [simp]: "snd (doGet N t b a p d n) = sent_by N b a p"
  by (simp add: doGet_def sent_by_def Let_def split: option.split)

lemma doGet_sent: "doGet N t b a p d n = (x, events) \<Longrightarrow> events = sent_by N b a p"
  by (metis snd_conv snd_doGet)

text \<open>What became of the last attempt.\<close>

definition outcome :: "network \<Rightarrow> nat \<Rightarrow> nat \<Rightarrow> client_error + 'a \<Rightarrow> error + 'a \<Rightarrow> bool" where
  "outcome N t k answer result =
     (case answer of
        Inr x \<Rightarrow> result = Inr x
      | Inl e \<Rightarrow>
          if \<not> shouldRetry e \<or> k = 2 then result = Inl (ErrorString (client_Error e))
          else \<exists>d. net_Done N t k = Some d \<and> result = Inl (ErrorString d))"

definition attempts_before :: "network \<Rightarrow> string \<Rightarrow> string option \<Rightarrow> string \<Rightarrow> nat \<Rightarrow> nat \<Rightarrow> client_event list" where
  "attempts_before N b a p n k = concat (map (\<lambda>j. sent_by N b a p @ [Waited (backoffs ! j)]) [n..<k])"

lemma retryable_status: "fst (doGet N t b a p d n) = Inl e \<Longrightarrow> shouldRetry e \<Longrightarrow> \<exists>s\<ge>500. e = Retryable s"
  by (auto simp: doGet_def read_reply_def Let_def split: option.splits sum.splits if_splits)

lemma get_from_run:
  assumes "get_from N t b a p d n le = (result, events)" and "n \<le> 2"
  shows "\<exists>k. n \<le> k \<and> k \<le> 2 \<and> (\<forall>j\<in>{n..<k}. \<exists>s\<ge>500. fst (doGet N t b a p d j) = Inl (Retryable s)) \<and>
    outcome N t k (fst (doGet N t b a p d k)) result \<and> events = attempts_before N b a p n k @ sent_by N b a p"
  using assms
proof (induction "2 - n" arbitrary: n le result events)
  case 0
  then have n: "n = 2" by simp
  with 0(2) show ?case
    by (intro exI [of _ 2])
      (auto simp: get_from.simps [of _ _ _ _ _ _ 2] maxAttempts_def outcome_def attempts_before_def
        split: prod.splits sum.splits dest: doGet_sent)
next
  case (Suc m)
  then have n: "n < 2" by simp
  have sent: "snd (doGet N t b a p d n) = sent_by N b a p" by simp
  show ?case
  proof (cases "\<exists>e. fst (doGet N t b a p d n) = Inl e \<and> shouldRetry e \<and> net_Done N t n = None")
    case False
    with Suc.prems n sent show ?thesis
      by (intro exI [of _ n])
        (auto simp: get_from.simps [of _ _ _ _ _ _ n] maxAttempts_def outcome_def attempts_before_def
          split: prod.splits sum.splits if_splits option.splits dest: doGet_sent)
  next
    case True
    then obtain e where e: "fst (doGet N t b a p d n) = Inl e" "shouldRetry e" "net_Done N t n = None" by blast
    obtain s where s: "500 \<le> s" "e = Retryable s" using retryable_status [OF e(1,2)] by blast
    obtain later where run: "get_from N t b a p d (Suc n) (client_Error e) = (result, later)"
      and ev: "events = sent_by N b a p @ Waited (backoffs ! n) # later"
      using Suc.prems n sent e
      by (auto simp: get_from.simps [of _ _ _ _ _ _ n] maxAttempts_def split: prod.splits dest: doGet_sent)
    have "m = 2 - Suc n" using Suc.hyps(2) by simp
    from Suc.hyps(1) [OF this run] n obtain k where k: "Suc n \<le> k" "k \<le> 2"
      "\<forall>j\<in>{Suc n..<k}. \<exists>s\<ge>500. fst (doGet N t b a p d j) = Inl (Retryable s)"
      "outcome N t k (fst (doGet N t b a p d k)) result" "later = attempts_before N b a p (Suc n) k @ sent_by N b a p"
      by auto
    have "[n..<k] = n # [Suc n..<k]" using k(1) by (simp add: upt_conv_Cons)
    then have "events = attempts_before N b a p n k @ sent_by N b a p"
      unfolding ev k(5) attempts_before_def by simp
    moreover have "\<forall>j\<in>{n..<k}. \<exists>s\<ge>500. fst (doGet N t b a p d j) = Inl (Retryable s)"
      using k(3) e(1) s by (metis atLeastLessThan_iff le_eq_less_or_eq Suc_leI)
    ultimately show ?thesis using k by (intro exI [of _ k]) simp
  qed
qed

text \<open>
  Claim C35. A read of another service always returns. It makes one attempt more than there were answers with a
  status of 500 or above before, three at most; only such answers are followed by another attempt, after 100
  and then 250 milliseconds. Each attempt sends one request to the same address with the caller's own
  authorization. The result is that of the last attempt, or the error of the caller's context when it ended
  during a wait.
\<close>

theorem client_get_bounded:
  assumes "client_get N t baseURL authorization path decode = (result, events)"
  shows "\<exists>k\<le>2. (\<forall>j<k. \<exists>s\<ge>500. fst (doGet N t baseURL authorization path decode j) = Inl (Retryable s)) \<and>
    outcome N t k (fst (doGet N t baseURL authorization path decode k)) result \<and>
    events = concat (map (\<lambda>ms. sent_by N baseURL authorization path @ [Waited ms]) (take k [100, 250])) @
      sent_by N baseURL authorization path"
proof -
  from get_from_run [OF assms [unfolded client_get_def]] obtain k where k: "k \<le> 2"
    "\<forall>j\<in>{0..<k}. \<exists>s\<ge>500. fst (doGet N t baseURL authorization path decode j) = Inl (Retryable s)"
    "outcome N t k (fst (doGet N t baseURL authorization path decode k)) result"
    "events = attempts_before N baseURL authorization path 0 k @ sent_by N baseURL authorization path" by auto
  have "map (\<lambda>j. backoffs ! j) [0..<k] = take k [100, 250]"
    using k(1) by (cases k rule: nat.exhaust) (auto simp: backoffs_def le_Suc_eq numeral_2_eq_2)
  then have "map (\<lambda>j. sent_by N baseURL authorization path @ [Waited (backoffs ! j)]) [0..<k] =
      map (\<lambda>ms. sent_by N baseURL authorization path @ [Waited ms]) (take k [100, 250])"
    by (metis (no_types, lifting) comp_apply map_eq_conv map_map)
  with k show ?thesis by (intro exI [of _ k]) (simp add: attempts_before_def)
qed

definition sample_reply :: "nat \<Rightarrow> string \<Rightarrow> reply" where
  "sample_reply status raw = \<lparr>rp_StatusCode = status, rp_Body = Inr raw\<rparr>"

text \<open>A network whose first answer is 503 and whose others are a customer in an envelope.\<close>

definition sample_network :: "nat list \<Rightarrow> network" where
  "sample_network statuses =
     \<lparr>net_json = (\<lambda>raw. if raw = ''body'' then Some (JObject [(''data'', JObject [(''id'', JString id_a), (''Name'', JString ''n'')])])
        else None),
      net_NewRequest = (\<lambda>_. None),
      net_Do = (\<lambda>t attempt url header. Inr (sample_reply (statuses ! attempt) ''body'')),
      net_Done = (\<lambda>_ _. None), net_decode_error = (\<lambda>_. ''error'')\<rparr>"

theorem client_get_bounded_witness:
  "\<exists>c. ms1_GetCustomerByID (sample_network [503, 200]) ''http://ms1'' (Some ''Bearer t'') 0 ''u'' =
     (Inr c, [Sent ''http://ms1/customers/u'' (Some ''Bearer t''), Waited 100,
              Sent ''http://ms1/customers/u'' (Some ''Bearer t'')]) \<and> cust_ID c = id_a"
proof -
  let ?N = "sample_network [503, 200]" and ?d = decode_CustomerDTO
  obtain result events where run: "client_get ?N 0 ''http://ms1'' (Some ''Bearer t'') ''/customers/u'' ?d = (result, events)"
    by fastforce
  have a0: "fst (doGet ?N 0 ''http://ms1'' (Some ''Bearer t'') ''/customers/u'' ?d 0) = Inl (Retryable 503)" by code_simp
  have a1: "fst (doGet ?N 0 ''http://ms1'' (Some ''Bearer t'') ''/customers/u'' ?d 1) =
      Inr \<lparr>cust_ID = id_a, cust_Name = ''n'', cust_Email = '''', cust_Phone = ''''\<rparr>" by code_simp
  have none: "net_Done ?N 0 j = None" for j by (simp add: sample_network_def)
  from client_get_bounded [OF run] obtain k where k: "k \<le> 2"
    "\<forall>j<k. \<exists>s\<ge>500. fst (doGet ?N 0 ''http://ms1'' (Some ''Bearer t'') ''/customers/u'' ?d j) = Inl (Retryable s)"
    "outcome ?N 0 k (fst (doGet ?N 0 ''http://ms1'' (Some ''Bearer t'') ''/customers/u'' ?d k)) result"
    "events = concat (map (\<lambda>ms. sent_by ?N ''http://ms1'' (Some ''Bearer t'') ''/customers/u'' @ [Waited ms]) (take k [100, 250])) @
      sent_by ?N ''http://ms1'' (Some ''Bearer t'') ''/customers/u''" by blast
  have "k \<noteq> 0"
  proof
    assume "k = 0"
    with k(3) a0 show False by (simp add: outcome_def none)
  qed
  moreover have "k \<noteq> 2"
  proof
    assume "k = 2"
    with k(2) have "\<exists>s\<ge>500. fst (doGet ?N 0 ''http://ms1'' (Some ''Bearer t'') ''/customers/u'' ?d 1) = Inl (Retryable s)"
      by (auto elim!: allE [of _ 1])
    with a1 show False by simp
  qed
  ultimately have "k = 1" using k(1) by simp
  with k(3,4) a1 run show ?thesis
    by (auto simp: outcome_def sent_by_def ms1_GetCustomerByID_def sample_network_def)
qed

subsection \<open>The data of a reply\<close>

text \<open>How the other services write their entities, bare or in an envelope.\<close>

definition number :: "goint \<Rightarrow> json" where
  "number i = JNumber (int_text (sint i))"

definition customer_json :: "CustomerDTO \<Rightarrow> json" where
  "customer_json c = JObject [(''id'', JString (cust_ID c)), (''name'', JString (cust_Name c)),
     (''email'', JString (cust_Email c)), (''phone'', JString (cust_Phone c))]"

definition vehicle_json :: "VehicleDTO \<Rightarrow> json" where
  "vehicle_json v = JObject [(''id'', JString (veh_ID v)), (''customer_id'', JString (veh_CustomerID v)),
     (''license_plate'', JString (veh_LicensePlate v)), (''brand'', JString (veh_Brand v)),
     (''model'', JString (veh_Model v)), (''model_year'', number (veh_ModelYear v)),
     (''manufacture_year'', number (veh_ManufactureYear v))]"

definition product_json :: "ProductDTO \<Rightarrow> json" where
  "product_json p = JObject [(''id'', JString (prod_ID p)), (''name'', JString (prod_Name p)),
     (''description'', JString (prod_Description p)), (''price'', number (prod_Price p)),
     (''product_type'', JString (prod_ProductType p))]"

definition service_json :: "ServiceDTO \<Rightarrow> json" where
  "service_json s = JObject [(''id'', JString (serv_ID s)), (''name'', JString (serv_Name s)),
     (''description'', JString (serv_Description s)), (''price'', number (serv_Price s))]"

definition enveloped :: "json \<Rightarrow> json" where
  "enveloped d = JObject [(''data'', d), (''errors'', JArray [])]"

lemma Atoi_number [simp]: "strconv_Atoi (int_text (sint i)) = Some i"
  by (simp add: strconv_Atoi_def Atoi_int_text)

lemmas json_defs = customer_json_def vehicle_json_def product_json_def service_json_def enveloped_def number_def
  decode_CustomerDTO_def decode_VehicleDTO_def decode_ProductDTO_def decode_ServiceDTO_def unwrap_def

text \<open>
  Claim C36. A customer, a vehicle, a product and a service that another service writes, bare or in the envelope
  of this system, is read back exactly.
\<close>

theorem upstream_entities_roundtrip:
  "decode_CustomerDTO (unwrap (customer_json c)) = Some c \<and> decode_CustomerDTO (unwrap (enveloped (customer_json c))) = Some c \<and>
   decode_VehicleDTO (unwrap (vehicle_json v)) = Some v \<and> decode_VehicleDTO (unwrap (enveloped (vehicle_json v))) = Some v \<and>
   decode_ProductDTO (unwrap (product_json p)) = Some p \<and> decode_ProductDTO (unwrap (enveloped (product_json p))) = Some p \<and>
   decode_ServiceDTO (unwrap (service_json s)) = Some s \<and> decode_ServiceDTO (unwrap (enveloped (service_json s))) = Some s"
  by (simp add: json_defs)

text \<open>
  An envelope whose data is \<^verbatim>\<open>null\<close> is no error: an entity with empty fields is read out of it, so the
  existence of a customer is not checked.
\<close>

lemma null_data_accepted:
  "net_json N raw = Some (JObject [(''data'', JNull)]) \<Longrightarrow>
   read_reply N decode_CustomerDTO \<lparr>rp_StatusCode = 200, rp_Body = Inr raw\<rparr> =
     Inr \<lparr>cust_ID = '''', cust_Name = '''', cust_Email = '''', cust_Phone = ''''\<rparr>"
  by (simp add: read_reply_def json_defs)

subsection \<open>Failures of another service\<close>

lemma Contains_digits:
  assumes "list_all is_digit ds" and "kw \<noteq> []" and "list_all (\<lambda>c. \<not> is_digit c) kw"
  shows "strings_Contains (p @ ds) kw = strings_Contains p kw"
proof
  assume "strings_Contains (p @ ds) kw"
  then obtain l r where "p @ ds = (l @ kw) @ r" by (auto simp: strings_Contains_iff)
  then obtain us where "p = (l @ kw) @ us \<and> us @ ds = r \<or> p @ us = l @ kw \<and> ds = us @ r"
    unfolding append_eq_append_conv2 [of p] by blast
  then consider "p = (l @ kw) @ us" | "l @ kw = p @ us" "ds = us @ r" by metis
  then show "strings_Contains p kw"
  proof cases
    case 1
    then show ?thesis by (auto simp: strings_Contains_iff)
  next
    case 2
    have "us = []"
    proof (rule ccontr)
      assume us: "us \<noteq> []"
      then have "last kw = last us" using 2(1) assms(2) by (metis last_appendR)
      moreover have "is_digit (last us)" using us 2(2) assms(1) by (simp add: list_all_iff)
      ultimately show False using assms(2,3) last_in_set by (metis list_all_iff)
    qed
    with 2 show ?thesis by (metis append_Nil2 append.assoc strings_Contains_iff)
  qed
next
  assume "strings_Contains p kw"
  then show "strings_Contains (p @ ds) kw" by (metis strings_Contains_iff append.assoc)
qed

definition ascii :: "char \<Rightarrow> bool" where
  "ascii c \<longleftrightarrow> (of_char c :: nat) < 128"

lemma ToLower_ascii: "list_all ascii s \<Longrightarrow> strings_ToLower s = map lower_char s"
  by (induction s rule: strings_ToLower.induct) (auto simp: ascii_def)

lemma lower_digits: "list_all is_digit ds \<Longrightarrow> map lower_char ds = ds \<and> list_all ascii ds"
  by (induction ds) (auto simp: is_digit_def lower_char_def ascii_def)

text \<open>The texts of the client's errors are in no rule of the mapping.\<close>

definition exact_texts :: "string list" where
  "exact_texts = not_found_texts @
     [''resource not found'', ''unauthorized'', pt ''saga de estoque ainda n~ao implementada'',
      pt ''ve/iculo n~ao pertence ao cliente da ordem de servi+co'', pt ''n~ao h/a pr/oximo status dispon/ivel'',
      pt ''transi+c~ao de status inv/alida'', pt ''n~ao /e poss/ivel modificar ordem fechada'',
      pt ''n~ao /e poss/ivel modificar itens ap/os status PENDING_AUTHORIZATION'', ''estoque reservado insuficiente'',
      pt ''opera+c~ao de estoque falhou'', ''invalid credentials'', pt ''credenciais inv/alidas'',
      pt ''acesso n~ao autorizado a esta ordem de servi+co'', pt ''ordem de servi+co n~ao est/a aguardando autoriza+c~ao'']"

lemma MapDomainText_unknown:
  assumes "list_all is_digit ds" and "list_all ascii p" and "list_all (\<lambda>x. take 8 x \<noteq> take 8 (p @ ds)) exact_texts"
    and "\<not> strings_Contains p ''already exists''"
    and "list_all (\<lambda>kw. \<not> strings_Contains (map lower_char p) kw) validationKeywords"
  shows "MapDomainText (p @ ds) = mapped ''INTERNAL_ERROR'' 500"
proof -
  obtain e where e: "e = p @ ds" by blast
  have "e \<notin> set exact_texts" using assms(3) e by (auto simp: list_all_iff)
  note exact = this [unfolded exact_texts_def set_append list.set Un_iff insert_iff de_Morgan_disj]
  have "list_all (\<lambda>kw. kw \<noteq> [] \<and> list_all (\<lambda>c. \<not> is_digit c) kw) (''already exists'' # validationKeywords)"
    by code_simp
  then have words: "kw \<noteq> [] \<and> list_all (\<lambda>c. \<not> is_digit c) kw" if "kw \<in> set (''already exists'' # validationKeywords)" for kw
    using that unfolding list_all_iff by blast
  have kw: "strings_Contains (q @ ds) kw = strings_Contains q kw"
    if "kw \<in> set (''already exists'' # validationKeywords)" for q kw
    using Contains_digits [OF assms(1)] words [OF that] by blast
  have "strings_ToLower e = map lower_char p @ ds"
    using ToLower_ascii [of e] lower_digits [OF assms(1)] assms(2) e by simp
  then have lower: "\<not> list_ex (strings_Contains (strings_ToLower e)) validationKeywords"
    using assms(5) kw by (auto simp: list_all_iff list_ex_iff)
  have exists: "\<not> strings_Contains e ''already exists''" using kw assms(4) e by simp
  show ?thesis unfolding e [symmetric] MapDomainText_def using exact lower exists by (simp only: if_False simp_thms)
qed

definition upstream_answer :: "nat \<Rightarrow> response" where
  "upstream_answer status =
     (if status = 404 then RespondErrorEnvelope 404 ''NOT_FOUND'' ''resource not found''
      else if status = 401 then RespondErrorEnvelope 401 ''UNAUTHORIZED'' ''unauthorized''
      else RespondErrorEnvelope 500 ''INTERNAL_ERROR''
        ((if 500 \<le> status then ''upstream returned retryable status '' else ''upstream returned status '') @ nat_text status))"

lemma status_texts:
  "MapDomainText (''upstream returned retryable status '' @ nat_text s) = mapped ''INTERNAL_ERROR'' 500"
  "MapDomainText (''upstream returned status '' @ nat_text s) = mapped ''INTERNAL_ERROR'' 500"
  "MapDomainText ''resource not found'' = mapped ''NOT_FOUND'' 404"
  "MapDomainText ''unauthorized'' = mapped ''UNAUTHORIZED'' 401"
proof -
  have ds: "list_all is_digit (nat_text s)" using nat_text_digits by blast
  have t: "list_all (\<lambda>x. take 8 x \<noteq> ''upstream'') exact_texts" by code_simp
  show "MapDomainText (''upstream returned retryable status '' @ nat_text s) = mapped ''INTERNAL_ERROR'' 500"
  proof (rule MapDomainText_unknown [OF ds])
    show "list_all (\<lambda>x. take 8 x \<noteq> take 8 (''upstream returned retryable status '' @ nat_text s)) exact_texts"
      using t by simp
  qed code_simp+
  show "MapDomainText (''upstream returned status '' @ nat_text s) = mapped ''INTERNAL_ERROR'' 500"
  proof (rule MapDomainText_unknown [OF ds])
    show "list_all (\<lambda>x. take 8 x \<noteq> take 8 (''upstream returned status '' @ nat_text s)) exact_texts"
      using t by simp
  qed code_simp+
  show "MapDomainText ''resource not found'' = mapped ''NOT_FOUND'' 404"
    and "MapDomainText ''unauthorized'' = mapped ''UNAUTHORIZED'' 401"
    by (simp_all add: MapDomainText_def)
qed

definition upstream_text :: "nat \<Rightarrow> string" where
  "upstream_text s = (if s = 404 then ''resource not found'' else if s = 401 then ''unauthorized''
     else (if 500 \<le> s then ''upstream returned retryable status '' else ''upstream returned status '') @ nat_text s)"

lemma upstream_mapped: "respond_mapped (ErrorString (upstream_text s)) = upstream_answer s"
  unfolding respond_mapped_def MapDomainError_def option.case Error.simps upstream_text_def upstream_answer_def
  by (simp add: status_texts mapped_def Let_def del: append.simps)

lemma client_get_status:
  assumes "net_NewRequest N (b @ p) = None" and "\<forall>j. net_Done N t j = None"
    and "\<forall>j u h. \<exists>raw. net_Do N t j u h = Inr \<lparr>rp_StatusCode = s, rp_Body = raw\<rparr>" and "s \<noteq> 200"
  shows "fst (client_get N t b a p d) = Inl (ErrorString (upstream_text s))"
proof -
  obtain result events where run: "client_get N t b a p d = (result, events)" by fastforce
  from get_from_run [OF run [unfolded client_get_def]] obtain k where k: "outcome N t k (fst (doGet N t b a p d k)) result" by auto
  let ?h = "case a of None \<Rightarrow> None | Some x \<Rightarrow> if x \<noteq> '''' then Some x else None"
  obtain raw where raw: "net_Do N t k (b @ p) ?h = Inr \<lparr>rp_StatusCode = s, rp_Body = raw\<rparr>" using assms(3) by blast
  have ans: "fst (doGet N t b a p d k) = read_reply N d \<lparr>rp_StatusCode = s, rp_Body = raw\<rparr>"
    unfolding doGet_def Let_def assms(1) option.case fst_conv raw by simp
  from k show ?thesis
    unfolding ans run fst_conv using assms(2,4) by (auto simp: read_reply_def outcome_def upstream_text_def split: if_splits simp del: append.simps)
qed

text \<open>
  Claim C31. When the service that keeps the customers fails, the caller who wants to create an order is told
  so and no order is created: an unknown customer is answered with 404, a token that service refuses with 401,
  any other failure, after the attempts, with 500.
\<close>

theorem upstream_failure_reported:
  assumes "caller W r = Some claims" and "tc_Role claims \<in> {''USER'', ''MANAGER'', ''ADMIN''}"
    and "Option.bind (rq_Body r) (decode_create (web_json W)) = Some req" and "create_request_ok req"
    and "net_NewRequest N (NewMS1Client (url_MS1 urls) @ ''/customers/'' @ cr_CustomerID req) = None"
    and "\<forall>j. net_Done N (w_tick w) j = None"
    and "\<forall>j u h. \<exists>raw. net_Do N (w_tick w) j u h = Inr \<lparr>rp_StatusCode = s, rp_Body = raw\<rparr>" and "s \<noteq> 200"
  shows "serve_connected W N urls D (OrderRoute POST_service_orders) r w =
    (upstream_answer s, w\<lparr>w_tick := Suc (w_tick w)\<rparr>)"
proof -
  let ?D = "with_clients N urls (Some (rq_Header r ''Authorization'')) D"
  have "fst (client_get N (w_tick w) (NewMS1Client (url_MS1 urls)) (Some (rq_Header r ''Authorization''))
      (''/customers/'' @ cr_CustomerID req) decode_CustomerDTO) = Inl (ErrorString (upstream_text s))"
    by (rule client_get_status) (use assms(5-8) in simp_all)
  then have get: "CustomerAdapter_Get ?D (w_tick w) (ci_CustomerID (create_input req)) = Inl (ErrorString (upstream_text s))"
    by (simp add: with_clients_def ms1_GetCustomerByID_def create_input_def)
  have use: "CreateServiceOrder ?D (create_input req) w = (Inl (ErrorString (upstream_text s)),
     w\<lparr>w_tick := Suc (w_tick w)\<rparr>)"
    unfolding CreateServiceOrder_def bindE_def GetCustomerByID_def external_def get by simp
  have passes: "ValidateStruct (VPointer (Some (reflect_create req))) = None"
    using assms(4) by (simp only: ValidateStruct_create)
  have "serve_http W ?D (OrderRoute POST_service_orders) r w = handle_CreateServiceOrder W ?D (with_caller claims r) w"
    using route_guard [of "OrderRoute POST_service_orders", where W = W and r = r and D = ?D and w = w] assms(1,2)
    by (simp add: public_route_def)
  moreover have "rq_Body (with_caller claims r) = rq_Body r" by (simp add: with_caller_def)
  ultimately have "serve_http W ?D (OrderRoute POST_service_orders) r w =
      execute (CreateServiceOrder ?D (create_input req))
        (\<lambda>output. RespondSuccess 201 (OrderPayload (created_response W output))) w"
    using assms(3) passes by (simp add: handle_CreateServiceOrder_def del: ValidateStruct.simps)
  also have "\<dots> = (upstream_answer s, w\<lparr>w_tick := Suc (w_tick w)\<rparr>)"
    unfolding execute_def use by (simp add: upstream_mapped)
  finally show ?thesis by (simp add: serve_connected_def context_authorization_def public_route_def)
qed

theorem upstream_failure_reported_witness:
  "serve_connected sample_web (sample_network (replicate 3 404)\<lparr>net_Do := (\<lambda>t j u h. Inr (sample_reply 404 ''''))\<rparr>)
      \<lparr>url_MS1 = '''', url_MS3 = ''''\<rparr> (mem_deps '''') (OrderRoute POST_service_orders)
      (sample_request ''manager'' '''' ''create'') (idle_world StatusReceived) =
     (RespondErrorEnvelope 404 ''NOT_FOUND'' ''resource not found'', (idle_world StatusReceived)\<lparr>w_tick := Suc (w_tick (idle_world StatusReceived))\<rparr>)"
proof -
  let ?N = "sample_network (replicate 3 404)\<lparr>net_Do := (\<lambda>t j u h. Inr (sample_reply 404 ''''))\<rparr>"
  obtain req where req: "decode_create (web_json sample_web) ''create'' = Some req" "create_request_ok req"
    by (rule sample_creation_request)
  have body: "Option.bind (rq_Body (sample_request ''manager'' '''' ''create'')) (decode_create (web_json sample_web)) = Some req"
    using req(1) by (simp add: sample_request_def)
  show ?thesis
    using upstream_failure_reported [OF sample_callers(2) _ body req(2), where N = ?N
        and urls = "\<lparr>url_MS1 = '''', url_MS3 = ''''\<rparr>" and s = 404 and D = "mem_deps ''''" and w = "idle_world StatusReceived"]
    by (simp add: sample_network_def sample_reply_def upstream_answer_def)
qed

end
