(* ===== verification/Mercado_Pago.thy ===== *)
theory Mercado_Pago
  imports Http_Client
begin

text \<open>
  \<^verbatim>\<open>modules/billing/infra/mercado_pago\<close>: the client that talks to Mercado Pago through its SDK, the client used
  without credentials, the requester that rewrites addresses, and the choice between the clients in
  \<^verbatim>\<open>modules/billing/module.go\<close>. The SDK, the network and the printing of quoted texts are the fields of \<open>mp_sdk\<close>.
\<close>

subsection \<open>Texts\<close>

text \<open>The rune a text begins with and its width in bytes; a byte that begins none is \<^verbatim>\<open>U+FFFD\<close> of width 1.\<close>

definition continuation :: "char \<Rightarrow> bool" where
  "continuation c \<longleftrightarrow> 0x80 \<le> (of_char c :: nat) \<and> (of_char c :: nat) < 0xC0"

definition low_bits :: "char \<Rightarrow> nat" where
  "low_bits c = of_char c mod 0x40"

fun rune_at :: "string \<Rightarrow> nat \<times> nat" where
  "rune_at [] = (0xFFFD, 0)"
| "rune_at (a # s) =
     (let n = of_char a :: nat in
      if n < 0x80 then (n, 1)
      else if 0xC2 \<le> n \<and> n \<le> 0xDF then
        (case s of
           b # _ \<Rightarrow> if continuation b then ((n mod 0x20) * 0x40 + low_bits b, 2) else (0xFFFD, 1)
         | [] \<Rightarrow> (0xFFFD, 1))
      else if 0xE0 \<le> n \<and> n \<le> 0xEF then
        (case s of
           b # c # _ \<Rightarrow>
             if continuation b \<and> continuation c \<and> (n = 0xE0 \<longrightarrow> 0xA0 \<le> (of_char b :: nat)) \<and>
                (n = 0xED \<longrightarrow> (of_char b :: nat) \<le> 0x9F)
             then ((n mod 0x10) * 0x1000 + low_bits b * 0x40 + low_bits c, 3) else (0xFFFD, 1)
         | _ \<Rightarrow> (0xFFFD, 1))
      else if 0xF0 \<le> n \<and> n \<le> 0xF4 then
        (case s of
           b # c # d # _ \<Rightarrow>
             if continuation b \<and> continuation c \<and> continuation d \<and> (n = 0xF0 \<longrightarrow> 0x90 \<le> (of_char b :: nat)) \<and>
                (n = 0xF4 \<longrightarrow> (of_char b :: nat) \<le> 0x8F)
             then ((n mod 8) * 0x40000 + low_bits b * 0x1000 + low_bits c * 0x40 + low_bits d, 4) else (0xFFFD, 1)
         | _ \<Rightarrow> (0xFFFD, 1))
      else (0xFFFD, 1))"

text \<open>\<^verbatim>\<open>unicode.IsDigit\<close>: the category Nd, in blocks of ten.\<close>

definition digit_blocks :: "nat list" where
  "digit_blocks =
     [0x30, 0x660, 0x6F0, 0x7C0, 0x966, 0x9E6, 0xA66, 0xAE6, 0xB66, 0xBE6, 0xC66, 0xCE6, 0xD66, 0xDE6, 0xE50, 0xED0,
      0xF20, 0x1040, 0x1090, 0x17E0, 0x1810, 0x1946, 0x19D0, 0x1A80, 0x1A90, 0x1B50, 0x1BB0, 0x1C40, 0x1C50, 0xA620,
      0xA8D0, 0xA900, 0xA9D0, 0xA9F0, 0xAA50, 0xABF0, 0xFF10, 0x104A0, 0x10D30, 0x11066, 0x110F0, 0x11136, 0x111D0,
      0x112F0, 0x11450, 0x114D0, 0x11650, 0x116C0, 0x11730, 0x118E0, 0x11950, 0x11C50, 0x11D50, 0x11DA0, 0x11F50,
      0x16A60, 0x16AC0, 0x16B50, 0x1D7CE, 0x1D7D8, 0x1D7E2, 0x1D7EC, 0x1D7F6, 0x1E140, 0x1E2F0, 0x1E4F0, 0x1E950,
      0x1FBF0]"

definition unicode_IsDigit :: "nat \<Rightarrow> bool" where
  "unicode_IsDigit r \<longleftrightarrow> list_ex (\<lambda>b. b \<le> r \<and> r < b + 10) digit_blocks"

function digitsOnly :: "string \<Rightarrow> string" where
  "digitsOnly s =
     (case s of
        [] \<Rightarrow> []
      | c # t \<Rightarrow>
          (case rune_at s of
             (r, width) \<Rightarrow>
               (if unicode_IsDigit r then take width s else []) @ digitsOnly (drop (width - 1) t)))"
  by auto
termination by (relation "measure length") auto

declare digitsOnly.simps [simp del]

definition taxIDType :: "string \<Rightarrow> string" where
  "taxIDType taxID = (if length (digitsOnly taxID) = 14 then ''CNPJ'' else ''CPF'')"

definition firstWord :: "string \<Rightarrow> string" where
  "firstWord s = takeWhile (\<lambda>c. c \<noteq> CHR '' '') s"

definition restWords :: "string \<Rightarrow> string" where
  "restWords s =
     (case dropWhile (\<lambda>c. c \<noteq> CHR '' '') s of [] \<Rightarrow> '''' | rest \<Rightarrow> strings_TrimSpace rest)"

subsection \<open>The SDK\<close>

record preference_item =
  pi_Title :: string
  pi_Description :: string
  pi_Quantity :: goint
  pi_UnitPrice :: float64
  pi_CurrencyID :: string

record payer_request =
  pr_Email :: string
  pr_Name :: string
  pr_Surname :: string
  pr_Identification :: "(string \<times> string) option"

record preference_request =
  pq_ExternalReference :: string
  pq_Items :: "preference_item list"
  pq_Payer :: payer_request
  pq_Success :: string
  pq_Pending :: string
  pq_Failure :: string
  pq_NotificationURL :: string

record preference_response =
  pp_ID :: string
  pp_InitPoint :: string
  pp_SandboxInitPoint :: string
  pp_ExternalReference :: string

text \<open>
  \<open>sdk_Config\<close> is the error of \<^verbatim>\<open>config.New\<close> for a token; \<open>sdk_Preference\<close>, \<open>sdk_Refund\<close> and \<open>sdk_PartialRefund\<close> are
  the calls of the SDK's clients at a moment, \<open>sdk_ParseFloat\<close> and \<open>sdk_Quote\<close> \<^verbatim>\<open>strconv.ParseFloat\<close> and \<^verbatim>\<open>strconv.Quote\<close>,
  the rest the plain request by which a payment is read. A decoder reads the first value of a body: \<open>sdk_json\<close> is that
  value, and the body is \<open>Inl\<close> of an error when the connection breaks before its end.
\<close>

record mp_sdk =
  sdk_Config :: "string \<Rightarrow> string option"
  sdk_Preference :: "nat \<Rightarrow> preference_request \<Rightarrow> string + preference_response"
  sdk_Refund :: "nat \<Rightarrow> goint \<Rightarrow> string option"
  sdk_PartialRefund :: "nat \<Rightarrow> goint \<Rightarrow> string \<Rightarrow> string option"
  sdk_ParseFloat :: "string \<Rightarrow> string option"
  sdk_Quote :: "string \<Rightarrow> string"
  sdk_NewRequest :: "string \<Rightarrow> string option"
  sdk_Do :: "nat \<Rightarrow> string \<Rightarrow> string \<Rightarrow> string + reply"
  sdk_json :: json_parser
  sdk_decode_error :: "string \<Rightarrow> string"

record SDKClient =
  mpc_notificationURL :: string
  mpc_callbackBaseURL :: string
  mpc_accessToken :: string
  mpc_apiBaseURL :: string
  mpc_isSandbox :: bool

definition NewSDKClient :: "mp_sdk \<Rightarrow> string \<Rightarrow> string \<Rightarrow> string \<Rightarrow> error + SDKClient" where
  "NewSDKClient K accessToken notificationURL callbackBaseURL =
     (if accessToken = '''' then Inl (PaymentErr ErrMissingAccessToken)
      else case sdk_Config K accessToken of
        Some err \<Rightarrow> Inl (ErrorString (''mp sdk config: '' @ err))
      | None \<Rightarrow> Inr
          \<lparr>mpc_notificationURL = notificationURL, mpc_callbackBaseURL = TrimRight_slashes callbackBaseURL,
           mpc_accessToken = accessToken, mpc_apiBaseURL = ''https://api.mercadopago.com'',
           mpc_isSandbox = strings_HasPrefix accessToken ''TEST-''\<rparr>)"

text \<open>\<open>env\<close> is \<^verbatim>\<open>os.Getenv\<close>. The requester for \<^verbatim>\<open>MP_BASE_URL\<close> only changes where the SDK's own calls go.\<close>

definition NewSDKClientFromEnv :: "mp_sdk \<Rightarrow> (string \<Rightarrow> string) \<Rightarrow> error + SDKClient" where
  "NewSDKClientFromEnv K env =
     (let accessToken = strings_TrimSpace (env ''MP_ACCESS_TOKEN'');
          notificationURL = strings_TrimSpace (env ''MP_NOTIFICATION_URL'');
          callbackBaseURL = strings_TrimSpace (env ''MP_CALLBACK_BASE_URL'');
          baseURL = strings_TrimSpace (env ''MP_BASE_URL'') in
      case NewSDKClient K accessToken notificationURL callbackBaseURL of
        Inl err \<Rightarrow> Inl err
      | Inr client \<Rightarrow>
          let client = (if baseURL \<noteq> '''' then client\<lparr>mpc_apiBaseURL := TrimRight_slashes baseURL\<rparr> else client) in
          Inr (if env ''MP_SANDBOX'' = ''true'' then client\<lparr>mpc_isSandbox := True\<rparr> else client))"

definition preference_item_of :: "OrderItem \<Rightarrow> preference_item" where
  "preference_item_of item =
     \<lparr>pi_Title = oi_Title item, pi_Description = oi_Description item, pi_Quantity = oi_Quantity item,
      pi_UnitPrice = oi_UnitPrice item, pi_CurrencyID = ''BRL''\<rparr>"

definition preference_of :: "SDKClient \<Rightarrow> OrderItem list \<Rightarrow> PayerInfo \<Rightarrow> string \<Rightarrow> preference_request" where
  "preference_of C items payer externalRef =
     (let email = (if mpc_isSandbox C then ''test.buyer@testuser.com'' else payer_Email payer);
          cpf = digitsOnly (payer_CPF payer) in
      \<lparr>pq_ExternalReference = externalRef, pq_Items = map preference_item_of items,
       pq_Payer =
         \<lparr>pr_Email = email, pr_Name = firstWord (payer_Name payer), pr_Surname = restWords (payer_Name payer),
          pr_Identification = (if cpf \<noteq> '''' then Some (taxIDType (payer_CPF payer), cpf) else None)\<rparr>,
       pq_Success = mpc_callbackBaseURL C @ ''/v1/payments/result?status=success'',
       pq_Pending = mpc_callbackBaseURL C @ ''/v1/payments/result?status=pending'',
       pq_Failure = mpc_callbackBaseURL C @ ''/v1/payments/result?status=failure'',
       pq_NotificationURL = mpc_notificationURL C\<rparr>)"

definition empty_order :: mp_Order where
  "empty_order =
     \<lparr>mpo_ID = '''', mpo_Status = '''', mpo_RedirectURL = '''', mpo_ExternalReference = '''', mpo_PaymentID = '''',
      mpo_PaymentStatus = '''', mpo_PaymentStatusDetail = ''''\<rparr>"

definition sdk_CreateOrder ::
  "mp_sdk \<Rightarrow> SDKClient \<Rightarrow> nat \<Rightarrow> OrderItem list \<Rightarrow> PayerInfo \<Rightarrow> string \<Rightarrow> error + mp_Order" where
  "sdk_CreateOrder K C t items payer externalRef =
     (case sdk_Preference K t (preference_of C items payer externalRef) of
        Inl err \<Rightarrow> Inl (ErrorString (payment_Error ErrOrderCreationFailed @ '': '' @ err))
      | Inr resp \<Rightarrow> Inr (empty_order
          \<lparr>mpo_ID := pp_ID resp, mpo_Status := ''created'',
           mpo_RedirectURL := (if mpc_isSandbox C then pp_SandboxInitPoint resp else pp_InitPoint resp),
           mpo_ExternalReference := pp_ExternalReference resp\<rparr>))"

definition sdk_GetOrder :: "string \<Rightarrow> error + mp_Order" where
  "sdk_GetOrder mpOrderID = Inl (PaymentErr ErrOrderNotFound)"

definition sdk_CancelOrder :: "nat \<Rightarrow> string \<Rightarrow> error + mp_Order" where
  "sdk_CancelOrder t mpOrderID = Inr (empty_order\<lparr>mpo_ID := mpOrderID, mpo_Status := ''cancelled''\<rparr>)"

text \<open>\<open>partial\<close> is the amount of a partial refund; the program only asks for full ones.\<close>

definition sdk_RefundOrder :: "mp_sdk \<Rightarrow> nat \<Rightarrow> string \<Rightarrow> string option \<Rightarrow> error + mp_Order" where
  "sdk_RefundOrder K t paymentID partial =
     (if paymentID = '''' then Inr empty_order
      else case strconv_Atoi paymentID of
        None \<Rightarrow> Inl (ErrorString (payment_Error ErrOrderNotRefundable @ pt '': payment ID inv/alido '' @ sdk_Quote K paymentID))
      | Some pid \<Rightarrow>
          (case partial of
             Some a \<Rightarrow>
               (case sdk_ParseFloat K a of
                  None \<Rightarrow> Inl (ErrorString (payment_Error ErrOrderNotRefundable @ pt '': amount inv/alido '' @ sdk_Quote K a))
                | Some amt \<Rightarrow>
                    (case sdk_PartialRefund K t pid amt of
                       Some err \<Rightarrow> Inl (ErrorString (payment_Error ErrOrderNotRefundable @ '': '' @ err))
                     | None \<Rightarrow> Inr (empty_order\<lparr>mpo_ID := paymentID, mpo_Status := ''refunded''\<rparr>)))
           | None \<Rightarrow>
               (case sdk_Refund K t pid of
                  Some err \<Rightarrow> Inl (ErrorString (payment_Error ErrOrderNotRefundable @ '': '' @ err))
                | None \<Rightarrow> Inr (empty_order\<lparr>mpo_ID := paymentID, mpo_Status := ''refunded''\<rparr>))))"

definition payment_of :: "string \<Rightarrow> json \<Rightarrow> mp_Payment option" where
  "payment_of paymentID v =
     Option.bind (object_fields v) (\<lambda>members.
     Option.bind (string_field ''status'' '''' members) (\<lambda>st.
     Option.bind (string_field ''status_detail'' '''' members) (\<lambda>det.
     Option.bind (string_field ''external_reference'' '''' members) (\<lambda>ref.
     Some \<lparr>mpp_ID = paymentID, mpp_Status = st, mpp_StatusDetail = det, mpp_ExternalReference = ref\<rparr>))))"

definition sdk_GetPayment :: "mp_sdk \<Rightarrow> SDKClient \<Rightarrow> nat \<Rightarrow> string \<Rightarrow> error + mp_Payment" where
  "sdk_GetPayment K C t paymentID =
     (let url = mpc_apiBaseURL C @ ''/v1/payments/'' @ paymentID in
      case sdk_NewRequest K url of
        Some err \<Rightarrow> Inl (ErrorString err)
      | None \<Rightarrow>
          (case sdk_Do K t url (''Bearer '' @ mpc_accessToken C) of
             Inl err \<Rightarrow> Inl (ErrorString err)
           | Inr resp \<Rightarrow>
               if rp_StatusCode resp = 404 then Inl (PaymentErr ErrOrderNotFound)
               else if 400 \<le> rp_StatusCode resp
               then Inl (ErrorString (''get payment '' @ paymentID @ '': HTTP '' @ nat_text (rp_StatusCode resp)))
               else
                 (case rp_Body resp of
                    Inl err \<Rightarrow> Inl (ErrorString err)
                  | Inr raw \<Rightarrow>
                      (case Option.bind (sdk_json K raw) (payment_of paymentID) of
                         None \<Rightarrow> Inl (ErrorString (sdk_decode_error K raw))
                       | Some p \<Rightarrow> Inr p))))"

subsection \<open>The client without credentials\<close>

definition noop_CreateOrder :: "nat \<Rightarrow> OrderItem list \<Rightarrow> PayerInfo \<Rightarrow> string \<Rightarrow> error + mp_Order" where
  "noop_CreateOrder t items payer externalRef =
     (let mockID = ''mock-order-'' @ externalRef in
      Inr (empty_order
        \<lparr>mpo_ID := mockID, mpo_Status := ''created'',
         mpo_RedirectURL := ''https://sandbox.mercadopago.com.br/mock/checkout/'' @ mockID,
         mpo_PaymentID := ''mock-pay-'' @ externalRef\<rparr>))"

definition noop_GetOrder :: "string \<Rightarrow> error + mp_Order" where
  "noop_GetOrder mpOrderID =
     Inr (empty_order\<lparr>mpo_ID := mpOrderID, mpo_Status := ''processed'', mpo_PaymentID := ''mock-pay-'' @ mpOrderID\<rparr>)"

definition noop_CancelOrder :: "nat \<Rightarrow> string \<Rightarrow> error + mp_Order" where
  "noop_CancelOrder t mpOrderID = Inr (empty_order\<lparr>mpo_ID := mpOrderID, mpo_Status := ''cancelled''\<rparr>)"

definition noop_RefundOrder :: "nat \<Rightarrow> string \<Rightarrow> error + mp_Order" where
  "noop_RefundOrder t mpOrderID = Inr (empty_order\<lparr>mpo_ID := mpOrderID, mpo_Status := ''refunded''\<rparr>)"

definition noop_GetPayment :: "nat \<Rightarrow> string \<Rightarrow> error + mp_Payment" where
  "noop_GetPayment t paymentID =
     Inr \<lparr>mpp_ID = paymentID, mpp_Status = ''approved'', mpp_StatusDetail = '''', mpp_ExternalReference = ''''\<rparr>"

subsection \<open>Rewriting addresses\<close>

text \<open>An HTTP request of the SDK as far as the requester touches it, and the rest of it.\<close>

record 'rest http_request =
  hq_Scheme :: string
  hq_URLHost :: string
  hq_Host :: string
  hq_rest :: 'rest

text \<open>\<open>url_Parse\<close> is \<^verbatim>\<open>url.Parse\<close>: the scheme and the host of a text, \<open>None\<close> for an error.\<close>

definition NewRewritingRequester :: "(string \<Rightarrow> (string \<times> string) option) \<Rightarrow> string \<Rightarrow> (string \<times> string) option" where
  "NewRewritingRequester url_Parse baseURL =
     (case url_Parse (TrimRight_slashes baseURL) of
        None \<Rightarrow> None
      | Some (scheme, host) \<Rightarrow> if host = '''' then None else Some (scheme, host))"

text \<open>\<open>None\<close> is the plain client that changes nothing.\<close>

definition rewritten :: "(string \<times> string) option \<Rightarrow> 'rest http_request \<Rightarrow> 'rest http_request" where
  "rewritten requester req =
     (case requester of
        None \<Rightarrow> req
      | Some (scheme, host) \<Rightarrow> req\<lparr>hq_Scheme := scheme, hq_URLHost := host, hq_Host := host\<rparr>)"

subsection \<open>The choice of the client\<close>

datatype mp_client =
    SDK SDKClient
  | NoOpClient

text \<open>\<open>Inl\<close> is \<^verbatim>\<open>log.Fatalf\<close>, which ends the process. The space around a token is trimmed only later.\<close>

definition NewModule_client :: "mp_sdk \<Rightarrow> (string \<Rightarrow> string) \<Rightarrow> error + mp_client" where
  "NewModule_client K env =
     (if env ''MP_ACCESS_TOKEN'' \<noteq> ''''
      then (case NewSDKClientFromEnv K env of Inl err \<Rightarrow> Inl err | Inr client \<Rightarrow> Inr (SDK client))
      else Inr NoOpClient)"

fun with_mp :: "mp_sdk \<Rightarrow> mp_client \<Rightarrow> 'db deps \<Rightarrow> 'db deps" where
  "with_mp K (SDK C) D =
     D\<lparr>MP_CreateOrder := sdk_CreateOrder K C, MP_CancelOrder := sdk_CancelOrder,
       MP_RefundOrder := (\<lambda>t i. sdk_RefundOrder K t i None), MP_GetPayment := sdk_GetPayment K C\<rparr>"
| "with_mp K NoOpClient D =
     D\<lparr>MP_CreateOrder := noop_CreateOrder, MP_CancelOrder := noop_CancelOrder, MP_RefundOrder := noop_RefundOrder,
       MP_GetPayment := noop_GetPayment\<rparr>"

end
