(* ===== verification/Payment_Client_Properties.thy ===== *)
theory Payment_Client_Properties
  imports Client_Properties Mercado_Pago Webhook_Properties Usecases_Status_Properties
begin

text \<open>
  The use cases over the client of Mercado Pago: what is charged, what a notification takes to mark an order as
  paid, and which payments can be refunded.
\<close>

subsection \<open>The dependencies with a client\<close>

lemma with_mp_simps [simp]:
  "orderRepo (with_mp K c D) = orderRepo D" "uuid_NewV7 (with_mp K c D) = uuid_NewV7 D"
  "refundPaymentOrder_wired (with_mp K c D) = refundPaymentOrder_wired D"
  by (cases c; simp)+

lemma service_env_with_mp: "service_env D canon view \<Longrightarrow> service_env (with_mp K c D) canon view"
  by (simp add: service_env_def service_env_axioms_def)

subsection \<open>What is charged\<close>

text \<open>
  Claim C33. The preference that is created for an order charges the amount of its lines, in reais: as long as every
  price is at most \<open>2 ^ 50\<close> cents, each price that is sent, a \<^verbatim>\<open>float64\<close> that has been rounded twice, is less than half a
  cent from the line's, and to the cent the quantities and prices add up to the amount. It
  carries the order's identifier; the identifier and the link that come back, the link of the sandbox when
  the client is for the sandbox, are the ones the order is given.
\<close>

theorem preference_charges_order:
  assumes "CreatePaymentPreference (with_mp K (SDK C) D) order w = (Inr out, w')"
    and "\<forall>i \<in> set (so_items order). \<not> item_IsDeleted i \<longrightarrow> \<bar>sint (item_unitPrice i)\<bar> \<le> 2 ^ 50"
  shows "\<exists>req resp. sdk_Preference K (w_tick w) req = Inr resp \<and>
    (\<Sum>i\<leftarrow>pq_Items req. sint (pi_Quantity i) * to_cents (pi_UnitPrice i)) = amount (so_items order) \<and>
    (\<forall>i \<in> set (pq_Items req). pi_CurrencyID i = ''BRL'') \<and> pq_ExternalReference req = so_id order \<and>
    mpo_ID out = pp_ID resp \<and>
    mpo_RedirectURL out = (if mpc_isSandbox C then pp_SandboxInitPoint resp else pp_InitPoint resp) \<and>
    w_log w' = w_log w @ [MPOrderCreated (BuildOrderItems order) (buildPayerInfo order) (so_id order)]"
proof -
  let ?req = "preference_of C (BuildOrderItems order) (buildPayerInfo order) (so_id order)"
  from assms(1) obtain resp where resp: "sdk_Preference K (w_tick w) ?req = Inr resp"
    and out: "mpo_ID out = pp_ID resp"
      "mpo_RedirectURL out = (if mpc_isSandbox C then pp_SandboxInitPoint resp else pp_InitPoint resp)"
      "w_log w' = w_log w @ [MPOrderCreated (BuildOrderItems order) (buildPayerInfo order) (so_id order)]"
    by (auto simp: CreatePaymentPreference_def CreateOrder_def external_def sdk_CreateOrder_def empty_order_def
        split: sum.splits)
  have "(\<Sum>i\<leftarrow>pq_Items ?req. sint (pi_Quantity i) * to_cents (pi_UnitPrice i)) = charged_amount (BuildOrderItems order)"
    by (simp add: preference_of_def Let_def preference_item_of_def charged_amount_def comp_def)
  also have "\<dots> = amount (so_items order)"
    using assms(2) by (intro charged_amount_BuildOrderItems) (simp add: payable_def active_def)
  finally show ?thesis using resp out
    by (intro exI [of _ ?req] exI [of _ resp]) (auto simp: preference_of_def Let_def preference_item_of_def)
qed

definition sample_sdk :: mp_sdk where
  "sample_sdk =
     \<lparr>sdk_Config = (\<lambda>_. None),
      sdk_Preference = (\<lambda>t req. Inr \<lparr>pp_ID = ''pref'', pp_InitPoint = ''live'', pp_SandboxInitPoint = ''test'',
        pp_ExternalReference = pq_ExternalReference req\<rparr>),
      sdk_Refund = (\<lambda>t i. None), sdk_PartialRefund = (\<lambda>t i a. None), sdk_ParseFloat = Some, sdk_Quote = (\<lambda>s. s),
      sdk_NewRequest = (\<lambda>_. None),
      sdk_Do = (\<lambda>t url header. Inr (if url = ''https://api.mercadopago.com/v1/payments/pay'' \<and> header = ''Bearer TEST-1''
        then sample_reply 200 ''approved'' else sample_reply 404 '''')),
      sdk_json = (\<lambda>raw. if raw = ''approved''
        then Some (JObject [(''status'', JString ''approved''), (''external_reference'', JString ''os'')]) else None),
      sdk_decode_error = (\<lambda>_. ''error'')\<rparr>"

definition sample_env :: "string \<Rightarrow> string" where
  "sample_env k = (if k = ''MP_ACCESS_TOKEN'' then '' TEST-1'' else '''')"

definition sample_client :: SDKClient where
  "sample_client =
     \<lparr>mpc_notificationURL = '''', mpc_callbackBaseURL = '''', mpc_accessToken = ''TEST-1'',
      mpc_apiBaseURL = ''https://api.mercadopago.com'', mpc_isSandbox = True\<rparr>"

lemma sample_client_chosen: "NewModule_client sample_sdk sample_env = Inr (SDK sample_client)"
  by code_simp

theorem preference_charges_order_witness:
  "\<exists>out w'. CreatePaymentPreference (with_mp sample_sdk (SDK sample_client) (mem_deps ''''))
      (sample_order StatusCompleted SagaStatusIdle None None) (idle_world StatusCompleted) = (Inr out, w') \<and>
     mpo_ID out = ''pref'' \<and> mpo_RedirectURL out = ''test''"
proof -
  have "succeeds (CreatePaymentPreference (with_mp sample_sdk (SDK sample_client) (mem_deps ''''))
      (sample_order StatusCompleted SagaStatusIdle None None) (idle_world StatusCompleted))"
    by (simp add: succeeds_def CreatePaymentPreference_def CreateOrder_def external_def sdk_CreateOrder_def sample_sdk_def)
  then obtain out w' where run: "CreatePaymentPreference (with_mp sample_sdk (SDK sample_client) (mem_deps ''''))
      (sample_order StatusCompleted SagaStatusIdle None None) (idle_world StatusCompleted) = (Inr out, w')"
    by (rule succeedsE)
  have small: "\<forall>i \<in> set (so_items (sample_order StatusCompleted SagaStatusIdle None None)).
      \<not> item_IsDeleted i \<longrightarrow> \<bar>sint (item_unitPrice i)\<bar> \<le> 2 ^ 50" by (simp add: sample_order_def sample_line_def)
  from preference_charges_order [OF run small] run show ?thesis
    by (auto simp: sample_sdk_def sample_client_def)
qed

subsection \<open>Notifications\<close>

text \<open>What Mercado Pago answers when it confirms a payment of the order \<open>j\<close>.\<close>

definition confirmed_by_mp ::
  "mp_sdk \<Rightarrow> SDKClient \<Rightarrow> (string \<Rightarrow> string option) \<Rightarrow> 'db world \<Rightarrow> HandlePaymentWebhookInput \<Rightarrow> string \<Rightarrow> bool" where
  "confirmed_by_mp K C canon w inp j \<longleftrightarrow> (\<exists>n raw pm.
     sdk_Do K (w_tick w) (mpc_apiBaseURL C @ ''/v1/payments/'' @ hpi_MPOrderID inp) (''Bearer '' @ mpc_accessToken C) =
       Inr \<lparr>rp_StatusCode = n, rp_Body = Inr raw\<rparr> \<and> n < 400 \<and>
     Option.bind (sdk_json K raw) (payment_of (hpi_MPOrderID inp)) = Some pm \<and> mpp_Status pm = ''approved'' \<and>
     canon (if mpp_ExternalReference pm = '''' then hpi_ExternalReference inp else mpp_ExternalReference pm) = Some j)"

lemma sdk_confirms:
  assumes "sdk_GetPayment K C (w_tick w) (hpi_MPOrderID inp) = Inr pm" and "mpp_Status pm = ''approved''"
    and "canon (if mpp_ExternalReference pm = '''' then hpi_ExternalReference inp else mpp_ExternalReference pm) = Some j"
  shows "confirmed_by_mp K C canon w inp j"
proof -
  from assms(1) obtain rp raw where "sdk_Do K (w_tick w) (mpc_apiBaseURL C @ ''/v1/payments/'' @ hpi_MPOrderID inp)
      (''Bearer '' @ mpc_accessToken C) = Inr rp" "rp_Body rp = Inr raw" "rp_StatusCode rp < 400"
      "Option.bind (sdk_json K raw) (payment_of (hpi_MPOrderID inp)) = Some pm"
    unfolding sdk_GetPayment_def Let_def by (auto split: option.splits sum.splits if_splits)
  with assms(2,3) show ?thesis unfolding confirmed_by_mp_def
    by (intro exI [of _ "rp_StatusCode rp"] exI [of _ raw] exI [of _ pm]) (cases rp; simp)
qed

lemma NewSDKClientFromEnv_token:
  "NewSDKClientFromEnv K env = Inr C \<Longrightarrow> mpc_accessToken C = strings_TrimSpace (env ''MP_ACCESS_TOKEN'')"
  by (auto simp: NewSDKClientFromEnv_def NewSDKClient_def Let_def split: sum.splits option.splits if_splits)

lemma paid_by_notification:
  assumes "service_env D canon view" and "serve_http W D (BillingRoute POST_mp_webhook) r w = (resp, w')"
    and "view (w_db w) j = Some v" and "view (w_db w') j = Some v'"
    and "v_status v \<noteq> StatusPaid" and "v_status v' = StatusPaid"
  shows "\<exists>inp pm. notification W r = Some inp \<and> MP_GetPayment D (w_tick w) (hpi_MPOrderID inp) = Inr pm \<and>
    mpp_Status pm = ''approved'' \<and>
    canon (if mpp_ExternalReference pm = '''' then hpi_ExternalReference inp else mpp_ExternalReference pm) = Some j"
proof -
  have moved: "view (w_db w') \<noteq> view (w_db w)" using assms(3-6) by auto
  have "handle_webhook W D r w = (resp, w')" using assms(2) by simp
  from webhook_notification [where W = W and r = r and D = D and w = w] this moved obtain inp where
    inp: "notification W r = Some inp" and exe: "execute (HandlePaymentWebhook D inp) notified w = (resp, w')"
    by (cases "notification W r") auto
  obtain x where use: "HandlePaymentWebhook D inp w = (x, w')"
    using exe by (auto simp: execute_def split: prod.splits sum.splits)
  from service_env.webhook_fails [OF assms(1)] use moved obtain out where x: "x = Inr out"
    unfolding fails_by_def by (cases x) auto
  from service_env.HandlePaymentWebhook_run [OF assms(1) use [unfolded x]] obtain pm where
    pm: "MP_GetPayment D (w_tick w) (hpi_MPOrderID inp) = Inr pm" and
    eff: "let ref = (if mpp_ExternalReference pm = '''' then hpi_ExternalReference inp else mpp_ExternalReference pm)
       in ref \<noteq> '''' \<and> (if mpp_Status pm \<in> {''approved'', ''rejected'', ''cancelled'', ''canceled'', ''refunded''}
            then webhook_effect canon view ref (mpp_Status pm) (mpp_ID pm) out w w'
            else \<not> hpo_Processed out \<and> view (w_db w') = view (w_db w) \<and> w_log w' = w_log w)" by blast
  let ?ref = "if mpp_ExternalReference pm = '''' then hpi_ExternalReference inp else mpp_ExternalReference pm"
  have "webhook_effect canon view ?ref (mpp_Status pm) (mpp_ID pm) out w w'"
    using eff moved unfolding Let_def by (simp only: split: if_split_asm) (simp_all only: simp_thms)
  then obtain k u u' where k: "canon ?ref = Some k" "view (w_db w) k = Some u"
    "webhook_move (mpp_Status pm) (mpp_ID pm) u = Some u'" "view (w_db w') = (view (w_db w))(k \<mapsto> u')"
    using moved unfolding webhook_effect_def by (auto split: option.splits)
  have "k = j" using k(4) assms(3-6) by (cases "k = j") auto
  then have "v_status u' = StatusPaid" using k(4) assms(4,6) by simp
  with k(3) have "mpp_Status pm = ''approved''" unfolding webhook_move_def by (clarsimp split: if_split_asm)
  with inp pm k(1) \<open>k = j\<close> show ?thesis by blast
qed

text \<open>
  Claim C32. When the service has been given a token of Mercado Pago, no notification, signed or not, makes an order paid
  unless Mercado Pago itself, asked for the payment the notification names and with that token, answers that
  it is approved: the reply has a status below 400, its body gives the status \<^verbatim>\<open>approved\<close> and, as its reference or the
  notification's where it has none, this order. Only a service without a token, whose client approves every payment,
  takes a notification's word, and then for the order the notification names.
\<close>

theorem paid_only_if_confirmed:
  assumes "service_env D canon view" and "NewModule_client K env = Inr c"
    and "serve_http W (with_mp K c D) (BillingRoute POST_mp_webhook) r w = (resp, w')"
    and "view (w_db w) j = Some v" and "view (w_db w') j = Some v'"
    and "v_status v \<noteq> StatusPaid" and "v_status v' = StatusPaid"
  shows "\<exists>inp. notification W r = Some inp \<and>
    (if env ''MP_ACCESS_TOKEN'' = '''' then c = NoOpClient \<and> canon (hpi_ExternalReference inp) = Some j
     else \<exists>C. c = SDK C \<and> mpc_accessToken C = strings_TrimSpace (env ''MP_ACCESS_TOKEN'') \<and>
       confirmed_by_mp K C canon w inp j)"
proof -
  obtain inp pm where inp: "notification W r = Some inp" and get: "MP_GetPayment (with_mp K c D) (w_tick w) (hpi_MPOrderID inp) = Inr pm"
    and approved: "mpp_Status pm = ''approved''"
    and ref: "canon (if mpp_ExternalReference pm = '''' then hpi_ExternalReference inp else mpp_ExternalReference pm) = Some j"
    using paid_by_notification [OF service_env_with_mp [OF assms(1)] assms(3-7)] by blast
  show ?thesis
  proof (cases c)
    case NoOpClient
    with assms(2) have "env ''MP_ACCESS_TOKEN'' = ''''" by (auto simp: NewModule_client_def split: if_splits sum.splits)
    moreover have "mpp_ExternalReference pm = ''''" using get NoOpClient by (auto simp: noop_GetPayment_def)
    ultimately show ?thesis using inp ref NoOpClient by simp
  next
    case (SDK C)
    with assms(2) have token: "env ''MP_ACCESS_TOKEN'' \<noteq> ''''" "NewSDKClientFromEnv K env = Inr C"
      by (auto simp: NewModule_client_def split: if_splits sum.splits)
    have "sdk_GetPayment K C (w_tick w) (hpi_MPOrderID inp) = Inr pm" using get SDK by simp
    then have "confirmed_by_mp K C canon w inp j" using approved ref by (rule sdk_confirms)
    with SDK token inp NewSDKClientFromEnv_token [OF token(2)] show ?thesis by simp
  qed
qed

theorem paid_only_if_confirmed_witness:
  "\<exists>resp w' v. serve_http sample_web (with_mp sample_sdk (SDK sample_client) (mem_deps '''')) (BillingRoute POST_mp_webhook)
      (sample_request '''' '''' ''notice'') payment_world = (resp, w') \<and>
     mem_view (w_db w') ''os'' = Some v \<and> v_status v = StatusPaid \<and>
     (\<exists>inp. notification sample_web (sample_request '''' '''' ''notice'') = Some inp \<and> hpi_MPOrderID inp = ''pay'')"
proof -
  let ?D = "with_mp sample_sdk (SDK sample_client) (mem_deps '''')"
  have env: "service_env ?D mem_canon mem_view" using mem_env by (rule service_env_with_mp)
  have n: "notification sample_web (sample_request '''' '''' ''notice'') = Some sample_notification" by code_simp
  have "succeeds (HandlePaymentWebhook ?D sample_notification payment_world)" by code_simp
  then obtain out w' where use: "HandlePaymentWebhook ?D sample_notification payment_world = (Inr out, w')"
    by (rule succeedsE)
  have run: "serve_http sample_web ?D (BillingRoute POST_mp_webhook) (sample_request '''' '''' ''notice'') payment_world =
      (notified out, w')"
    using webhook_notification [where W = sample_web and r = "sample_request '''' '''' ''notice''" and D = ?D and w = payment_world] n use
    by (simp add: execute_def)
  have st: "so_status (sample_order StatusAwaitingPayment SagaStatusAwaitingPayment None None) =
      StatusAwaitingPayment" by (simp add: sample_order_def)
  have get: "MP_GetPayment ?D t ''pay'' = Inr (sample_payment ''approved'')" for t by code_simp
  from service_env.HandlePaymentWebhook_run [OF env use]
  have "webhook_effect mem_canon mem_view ''os'' ''approved'' ''pay'' out payment_world w'"
    using get by (auto simp: sample_notification_def sample_payment_def Let_def)
  with payment_world_view st obtain v where v: "mem_view (w_db w') ''os'' = Some v" "v_status v = StatusPaid"
    by (auto simp: webhook_effect_def mem_canon_def webhook_move_def split: if_splits)
  from paid_only_if_confirmed [OF mem_env sample_client_chosen run payment_world_view v(1) _ v(2)] st v run n show ?thesis
    by (auto simp: sample_notification_def)
qed

subsection \<open>Refunds\<close>

text \<open>
  Claim C34. An order whose payment is stored under an identifier that is no number of 64 bits cannot be canceled
  any more: the refund is refused before Mercado Pago is asked, the cancellation fails, and nothing has changed.
\<close>

theorem refund_needs_number:
  assumes "service_env D canon view" and "canon i = Some j" and "view (w_db w) j = Some v"
    and "v_status v = StatusPaid" and "v_mpPaymentID v = Some p" and "p \<noteq> ''''" and "int_value p = None"
    and "refundPaymentOrder_wired D"
    and "DeleteServiceOrder (with_mp K (SDK C) D) i remarks w = (x, w')"
  shows "(\<exists>e. x = Inl e) \<and> view (w_db w') = view (w_db w) \<and> w_log w' = w_log w"
proof -
  let ?D = "with_mp K (SDK C) D"
  have env: "service_env ?D canon view" using assms(1) by (rule service_env_with_mp)
  obtain y w1 where find: "FindByID ?D i w = (y, w1)" by fastforce
  note f = service_env.FindByID_run [OF env find]
  show ?thesis
  proof (cases y)
    case (Inl e)
    with assms(9) find f(1,2) show ?thesis by (auto simp: DeleteServiceOrder_def bindE_def)
  next
    case (Inr s)
    have "so_id s = j" using f(3) [OF Inr] assms(2) by simp
    then have "v = abs_order s" using f(5) [OF Inr] assms(3) by simp
    then have s: "so_status s = StatusPaid" "so_mpPaymentID s = Some p" using assms(4,5) by simp_all
    have "strconv_Atoi p = None" using assms(7) by (simp add: strconv_Atoi_def)
    then obtain e where settle: "settle_payment ?D s w1 = (Inl e, w1\<lparr>w_tick := Suc (w_tick w1)\<rparr>)"
      using s assms(6,8)
      by (simp add: settle_payment_def RefundPaymentOrder_def mp_RefundOrder_def external_def bindE_def sdk_RefundOrder_def)
    show ?thesis
    proof (cases "IsDeleted s")
      case True
      with assms(9) find Inr f(1,2) show ?thesis by (auto simp: DeleteServiceOrder_def bindE_def)
    next
      case False
      with assms(9) find Inr f(1,2) settle show ?thesis by (auto simp: DeleteServiceOrder_def bindE_def)
    qed
  qed
qed

theorem refund_needs_number_witness:
  "\<exists>e w'. DeleteServiceOrder (with_mp sample_sdk (SDK sample_client) (mem_deps '''')) ''os'' None (idle_world StatusPaid) =
     (Inl e, w') \<and> w_log w' = [] \<and>
     mem_view (w_db w') ''os'' = Some (abs_order (sample_order StatusPaid SagaStatusIdle None None))"
proof -
  obtain x w' where run: "DeleteServiceOrder (with_mp sample_sdk (SDK sample_client) (mem_deps '''')) ''os'' None
      (idle_world StatusPaid) = (x, w')" by fastforce
  have view: "mem_view (w_db (idle_world StatusPaid)) ''os'' = Some (abs_order (sample_order StatusPaid SagaStatusIdle None None))"
    by (rule idle_world_view) simp
  have no: "int_value ''pay'' = None" by code_simp
  have canon: "mem_canon ''os'' = Some ''os''" by (simp add: mem_canon_def)
  from refund_needs_number [OF mem_env canon view _ _ _ no _ run] run view show ?thesis
    by (auto simp: sample_order_def mem_deps_def)
qed

end
