(* ===== verification/Module_Facade.thy ===== *)
theory Module_Facade
  imports Usecases_Status Usecases_Read
begin

text \<open>
  \<^verbatim>\<open>modules/service_order/module.go\<close>: the facade by which other modules of the process may use the orders, with
  its own errors and the transfer objects of \<^verbatim>\<open>shared/dto/service_order_dto.go\<close>. The use cases wrap none of the
  errors the facade looks for, so \<^verbatim>\<open>errors.Is\<close> is a comparison.
\<close>

subsection \<open>Errors and transfer objects\<close>

text \<open>\<open>Passed\<close> is an error of the domain that is handed on as it is.\<close>

datatype facade_error =
    FacadeErrNotFound
  | FacadeErrInvalidInput
  | FacadeErrHistoryNotFound
  | Passed error

record ServiceOrderDTO =
  sod_ID :: string
  sod_CustomerID :: string
  sod_VehicleID :: string
  sod_Status :: string
  sod_TotalAmount :: goint
  sod_ClosedAt :: "time option"
  sod_CreatedAt :: time
  sod_UpdatedAt :: time

record HistoryDTO =
  hid_ID :: string
  hid_ServiceOrderID :: string
  hid_Status :: string
  hid_Metadata :: metadata
  hid_CreatedAt :: time

record ServiceOrderItemDTO =
  sid_ID :: string
  sid_ItemType :: string
  sid_ReferenceID :: string
  sid_Name :: string
  sid_Quantity :: goint
  sid_UnitPrice :: goint
  sid_Subtotal :: goint

type_synonym ('db, 'a) facade = "'db world \<Rightarrow> (facade_error + 'a) \<times> 'db world"

definition run_facade :: "(error \<Rightarrow> facade_error) \<Rightarrow> ('a \<Rightarrow> 'b) \<Rightarrow> ('db, 'a) io \<Rightarrow> ('db, 'b) facade" where
  "run_facade err_of out_of m = (\<lambda>w.
     case m w of
       (Inl e, w') \<Rightarrow> (Inl (err_of e), w')
     | (Inr x, w') \<Rightarrow> (Inr (out_of x), w'))"

subsection \<open>The operations\<close>

definition order_read_error :: "error \<Rightarrow> facade_error" where
  "order_read_error err =
     (if err = ErrServiceOrderNotFound then FacadeErrNotFound
      else if err = ErrInvalidServiceOrderID then FacadeErrInvalidInput
      else Passed err)"

text \<open>The total is not among the fields that are set.\<close>

definition order_dto :: "GetServiceOrderOutput \<Rightarrow> ServiceOrderDTO" where
  "order_dto out =
     \<lparr>sod_ID = go_ID out, sod_CustomerID = go_CustomerID out, sod_VehicleID = go_VehicleID out,
      sod_Status = go_Status out, sod_TotalAmount = 0, sod_ClosedAt = go_ClosedAt out,
      sod_CreatedAt = go_CreatedAt out, sod_UpdatedAt = go_UpdatedAt out\<rparr>"

definition module_GetServiceOrderByID :: "'db deps \<Rightarrow> string \<Rightarrow> ('db, ServiceOrderDTO) facade" where
  "module_GetServiceOrderByID D i = run_facade order_read_error order_dto (GetServiceOrder D i)"

definition created_dto :: "CreateServiceOrderOutput \<Rightarrow> ServiceOrderDTO" where
  "created_dto out =
     \<lparr>sod_ID = co_ID out, sod_CustomerID = co_CustomerID out, sod_VehicleID = co_VehicleID out,
      sod_Status = co_Status out, sod_TotalAmount = 0, sod_ClosedAt = None,
      sod_CreatedAt = co_CreatedAt out, sod_UpdatedAt = co_UpdatedAt out\<rparr>"

definition module_CreateServiceOrder :: "'db deps \<Rightarrow> string \<Rightarrow> string \<Rightarrow> ('db, ServiceOrderDTO) facade" where
  "module_CreateServiceOrder D customerID vehicleID =
     run_facade Passed created_dto (CreateServiceOrder D
       \<lparr>ci_CustomerID = customerID, ci_VehicleID = vehicleID, ci_Description = '''', ci_Items = []\<rparr>)"

definition summary_dto :: "ServiceOrderSummary \<Rightarrow> ServiceOrderDTO" where
  "summary_dto order =
     \<lparr>sod_ID = go_ID order, sod_CustomerID = go_CustomerID order, sod_VehicleID = go_VehicleID order,
      sod_Status = go_Status order, sod_TotalAmount = go_TotalAmount order, sod_ClosedAt = go_ClosedAt order,
      sod_CreatedAt = go_CreatedAt order, sod_UpdatedAt = go_UpdatedAt order\<rparr>"

definition module_GetServiceOrdersByCustomerID :: "'db deps \<Rightarrow> string \<Rightarrow> ('db, ServiceOrderDTO list) facade" where
  "module_GetServiceOrdersByCustomerID D customerID =
     run_facade (\<lambda>err. if err = ErrInvalidCustomerID then FacadeErrInvalidInput else Passed err) (map summary_dto)
       (GetAllServiceOrders D
         \<lparr>gi_CustomerID = Some customerID, gi_Status = None, gi_SortByStatus = False, gi_HideCompleted = False\<rparr>)"

definition history_dto :: "HistoryOutput \<Rightarrow> HistoryDTO" where
  "history_dto h =
     \<lparr>hid_ID = ho_ID h, hid_ServiceOrderID = ho_ServiceOrderID h, hid_Status = ho_Status h,
      hid_Metadata = ho_Metadata h, hid_CreatedAt = ho_CreatedAt h\<rparr>"

definition module_GetServiceOrderHistory :: "'db deps \<Rightarrow> string \<Rightarrow> ('db, HistoryDTO list) facade" where
  "module_GetServiceOrderHistory D serviceOrderID =
     run_facade (\<lambda>err. if err = ErrHistoryNotFound then FacadeErrHistoryNotFound else order_read_error err)
       (map history_dto) (GetServiceOrderHistory D serviceOrderID)"

definition item_dto :: "ServiceOrderItemOutput \<Rightarrow> ServiceOrderItemDTO" where
  "item_dto item =
     \<lparr>sid_ID = io_ID item, sid_ItemType = io_ItemType item, sid_ReferenceID = io_ReferenceID item,
      sid_Name = io_Name item, sid_Quantity = io_Quantity item, sid_UnitPrice = io_UnitPrice item,
      sid_Subtotal = io_Subtotal item\<rparr>"

definition module_GetServiceOrderItems :: "'db deps \<Rightarrow> string \<Rightarrow> ('db, ServiceOrderItemDTO list) facade" where
  "module_GetServiceOrderItems D serviceOrderID =
     run_facade order_read_error (\<lambda>out. map item_dto (go_Items out)) (GetServiceOrder D serviceOrderID)"

text \<open>The input names no caller.\<close>

definition module_RespondToAuthorization ::
  "'db deps \<Rightarrow> string \<Rightarrow> bool \<Rightarrow> string option \<Rightarrow> ('db, string) facade" where
  "module_RespondToAuthorization D serviceOrderID approved observation =
     run_facade
       (\<lambda>err. if err = ErrServiceOrderNotFound then FacadeErrNotFound
              else if err = ErrInvalidServiceOrderID then FacadeErrInvalidInput
              else if err = ErrInvalidStatusTransition then FacadeErrInvalidInput
              else Passed err)
       rao_Status
       (RespondToAuthorization D
         \<lparr>rai_ServiceOrderID = serviceOrderID, rai_Approved = approved, rai_Observation = observation,
          rai_CallerID = '''', rai_CallerRole = ''''\<rparr>)"

end
