(* ===== verification/Facade_Properties.thy ===== *)
theory Facade_Properties
  imports Module_Facade Usecases_Read_Properties Usecases_Status_Properties
begin

text \<open>What the facade tells about an order, and who may answer for a customer through it.\<close>

lemma run_facade_Inr:
  "run_facade f g m w = (Inr y, w') \<longleftrightarrow> (\<exists>x. m w = (Inr x, w') \<and> y = g x)"
  by (auto simp: run_facade_def split: prod.splits sum.splits)

lemma run_facade_Inl:
  "run_facade f g m w = (Inl y, w') \<longleftrightarrow> (\<exists>e. m w = (Inl e, w') \<and> y = f e)"
  by (auto simp: run_facade_def split: prod.splits sum.splits)

lemma GetServiceOrder_subtotals:
  assumes "GetServiceOrder D i w = (Inr out, w')" and "x \<in> set (go_Items out)"
  shows "io_Subtotal x = io_Quantity x * io_UnitPrice x"
  using assms by (auto simp: GetServiceOrder_def Let_def bindE_def attemptE_def returnE_def throwE_def read_item_def
      Subtotal_def split: prod.splits sum.splits if_splits)

definition dto_view :: "ServiceOrderItemDTO \<Rightarrow> item_view" where
  "dto_view item =
     \<lparr>iv_itemType = ItemType_of (sid_ItemType item), iv_referenceID = sid_ReferenceID item,
      iv_name = sid_Name item, iv_quantity = sid_Quantity item, iv_unitPrice = sid_UnitPrice item\<rparr>"

lemma dto_view_item: "dto_view (item_dto x) = shown_view x"
  by (simp add: dto_view_def item_dto_def shown_view_def)

lemma subtotals_amount:
  assumes "\<forall>x \<in> set items. sid_Subtotal x = sid_Quantity x * sid_UnitPrice x"
  shows "sum_list (map sid_Subtotal items) = word_of_int (v_amount (mset (map dto_view items)))"
  using assms
  by (induction items) (auto simp: v_amount_def dto_view_def wi_hom_add [symmetric] wi_hom_mult [symmetric])

text \<open>
  Claim C37. The facade tells the lines of a stored order, each once with its quantity and price, and their subtotals
  add up to the order's amount; asked for the order itself it tells its customer and status, and a total of
  0 whatever the amount is. Both reads succeed on the same orders, and neither changes anything.
\<close>

theorem facade_reads_order:
  assumes "service_env D canon view"
    and "module_GetServiceOrderItems D i w = (r, w')" and "module_GetServiceOrderByID D i w = (r2, w2)"
  shows "w2 = w' \<and> view (w_db w') = view (w_db w) \<and> w_log w' = w_log w \<and>
    ((\<exists>items. r = Inr items) \<longleftrightarrow> (\<exists>order. r2 = Inr order)) \<and>
    (\<forall>items order. r = Inr items \<longrightarrow> r2 = Inr order \<longrightarrow>
      (\<exists>v. canon i = Some (sod_ID order) \<and> view (w_db w) (sod_ID order) = Some v \<and>
         sod_Status order = status_String (v_status v) \<and> mset (map dto_view items) = v_items v \<and>
         sum_list (map sid_Subtotal items) = word_of_int (v_amount (v_items v)) \<and> sod_TotalAmount order = 0))"
proof -
  obtain x w1 where get: "GetServiceOrder D i w = (x, w1)" by fastforce
  note c = GetServiceOrder_correct [OF assms(1) get]
  have w: "w' = w1" "w2 = w1"
    using assms(2,3) get
    by (auto simp: module_GetServiceOrderItems_def module_GetServiceOrderByID_def run_facade_def split: sum.splits)
  show ?thesis
  proof (cases x)
    case (Inl e)
    with assms(2,3) get c w show ?thesis
      by (auto simp: module_GetServiceOrderItems_def module_GetServiceOrderByID_def run_facade_def)
  next
    case (Inr out)
    with assms(2,3) get have r: "r = Inr (map item_dto (go_Items out))" "r2 = Inr (order_dto out)"
      by (auto simp: module_GetServiceOrderItems_def module_GetServiceOrderByID_def run_facade_def)
    from c Inr obtain v where v: "canon i = Some (go_ID out)" "view (w_db w) (go_ID out) = Some v"
      "go_Status out = status_String (v_status v)" "mset (map shown_view (go_Items out)) = v_items v" by blast
    have m: "mset (map dto_view (map item_dto (go_Items out))) = v_items v"
      using v(4) by (simp add: comp_def dto_view_item)
    have "\<forall>y \<in> set (map item_dto (go_Items out)). sid_Subtotal y = sid_Quantity y * sid_UnitPrice y"
      using GetServiceOrder_subtotals [OF get [unfolded Inr]] by (auto simp: item_dto_def)
    from subtotals_amount [OF this]
    have "sum_list (map sid_Subtotal (map item_dto (go_Items out))) = word_of_int (v_amount (v_items v))"
      unfolding m .
    moreover have "view (w_db w1) = view (w_db w)" "w_log w1 = w_log w" using c by blast+
    ultimately show ?thesis using w r v(1-3) m by (auto simp: order_dto_def simp del: mset_map map_map)
  qed
qed

theorem facade_reads_order_witness:
  "\<exists>items order w'. module_GetServiceOrderItems (mem_deps '''') ''os'' (idle_world StatusInProgress) = (Inr items, w') \<and>
     module_GetServiceOrderByID (mem_deps '''') ''os'' (idle_world StatusInProgress) = (Inr order, w') \<and>
     sum_list (map sid_Subtotal items) = 1000 \<and> sod_TotalAmount order = 0"
proof -
  let ?D = "mem_deps ''''" and ?w = "idle_world StatusInProgress"
  have "succeeds (GetServiceOrder ?D ''os'' ?w)" by code_simp
  then obtain out w' where get: "GetServiceOrder ?D ''os'' ?w = (Inr out, w')" by (rule succeedsE)
  then have run: "module_GetServiceOrderItems ?D ''os'' ?w = (Inr (map item_dto (go_Items out)), w')"
    "module_GetServiceOrderByID ?D ''os'' ?w = (Inr (order_dto out), w')"
    by (simp_all add: module_GetServiceOrderItems_def module_GetServiceOrderByID_def run_facade_def)
  have "v_amount (v_items (abs_order (sample_order StatusInProgress SagaStatusIdle None None))) = 1000"
    by (simp add: v_amount_def sample_order_def sample_line_def abs_items_def abs_item_def item_IsDeleted_def)
  with facade_reads_order [OF mem_env run] idle_world_view [of StatusInProgress] run show ?thesis
    by (auto simp: mem_canon_def order_dto_def)
qed

text \<open>
  The answer to an authorization through the facade carries no caller, so nobody is asked whose order it is:
  an approval authorizes the order of any customer.
\<close>

lemma facade_answers_for_anyone:
  assumes "service_env D canon view" and "module_RespondToAuthorization D i True obs w = (Inr st, w')"
  shows "\<exists>j v. canon i = Some j \<and> view (w_db w) j = Some v \<and> v_status v = StatusPendingAuthorization \<and>
    view (w_db w') = (view (w_db w))(j \<mapsto> v_set_status StatusAuthorized v)"
proof -
  from assms(2) obtain out where "RespondToAuthorization D \<lparr>rai_ServiceOrderID = i, rai_Approved = True,
      rai_Observation = obs, rai_CallerID = '''', rai_CallerRole = ''''\<rparr> w = (Inr out, w')"
    by (auto simp: module_RespondToAuthorization_def run_facade_Inr)
  from service_env.Respond_run [OF assms(1) this] show ?thesis by auto
qed

end
