(* ===== verification/Go_Time.thy ===== *)
theory Go_Time
  imports Go_Text
begin

text \<open>
  What the program uses of Go's package \<^verbatim>\<open>time\<close> beside the check of \<open>Consumers\<close>: a moment printed by
  \<^verbatim>\<open>UTC().Format\<close> with the layouts \<^verbatim>\<open>time.RFC3339\<close> and \<^verbatim>\<open>time.RFC3339Nano\<close>, and the moment \<^verbatim>\<open>time.Parse\<close> reads. A moment is
  the number of nanoseconds since the beginning of 1970 in UTC; years before 0 do not occur.
\<close>

subsection \<open>The calendar\<close>

definition year_length :: "nat \<Rightarrow> nat" where
  "year_length y = (if leap_year y then 366 else 365)"

text \<open>The days before a year since the beginning of the year 0, and before a month of a year.\<close>

definition days_before_year :: "nat \<Rightarrow> nat" where
  "days_before_year y = 365 * y + (y + 3) div 4 + (y + 399) div 400 - (y + 99) div 100"

definition days_before_month :: "nat \<Rightarrow> nat \<Rightarrow> nat" where
  "days_before_month y m = sum_list (map (\<lambda>k. days_in k y) [1..<m])"

function year_from :: "nat \<Rightarrow> nat \<Rightarrow> nat \<times> nat" where
  "year_from y r = (if r < year_length y then (y, r) else year_from (Suc y) (r - year_length y))"
  by pat_completeness auto
termination by (relation "measure snd") (auto simp: year_length_def)

declare year_from.simps [simp del]

text \<open>The year and the day in the year of a day since the beginning of the year 0; 146097 days are 400 years.\<close>

definition year_day :: "nat \<Rightarrow> nat \<times> nat" where
  "year_day d = (case year_from 0 (d mod 146097) of (y, r) \<Rightarrow> (400 * (d div 146097) + y, r))"

function month_from :: "nat \<Rightarrow> nat \<Rightarrow> nat \<Rightarrow> nat \<times> nat" where
  "month_from y m r =
     (if r < days_in m y \<or> 12 \<le> m then (m, Suc r) else month_from y (Suc m) (r - days_in m y))"
  by pat_completeness auto
termination by (relation "measure (\<lambda>(y, m, r). 12 - m)") auto

declare month_from.simps [simp del]

subsection \<open>Printing\<close>

fun digits_of :: "nat \<Rightarrow> nat \<Rightarrow> string" where
  "digits_of 0 n = []"
| "digits_of (Suc k) n = digits_of k (n div 10) @ [char_of (48 + n mod 10)]"

definition year_text :: "nat \<Rightarrow> string" where
  "year_text y = (if y < 10000 then digits_of 4 y else nat_text y)"

text \<open>The nine digits of the nanoseconds without the zeros at their end.\<close>

definition fraction_digits :: "nat \<Rightarrow> string" where
  "fraction_digits ns = rev (dropWhile (\<lambda>c. c = CHR ''0'') (rev (digits_of 9 ns)))"

definition fraction_text :: "nat \<Rightarrow> string" where
  "fraction_text ns = (if fraction_digits ns = [] then [] else CHR ''.'' # fraction_digits ns)"

definition unix_days :: int where
  "unix_days = 719528"

definition format_with :: "(nat \<Rightarrow> string) \<Rightarrow> time \<Rightarrow> string" where
  "format_with fraction t =
     (let seconds = t div 1000000000; ns = nat (t mod 1000000000);
          days = nat (seconds div 86400 + unix_days); s = nat (seconds mod 86400) in
      case year_day days of (y, r) \<Rightarrow>
      case month_from y 1 r of (m, d) \<Rightarrow>
        year_text y @ ''-'' @ digits_of 2 m @ ''-'' @ digits_of 2 d @ ''T'' @ digits_of 2 (s div 3600) @ '':'' @
        digits_of 2 (s div 60 mod 60) @ '':'' @ digits_of 2 (s mod 60) @ fraction ns @ ''Z'')"

definition format_RFC3339 :: "time \<Rightarrow> string" where
  "format_RFC3339 = format_with (\<lambda>ns. [])"

definition format_RFC3339Nano :: "time \<Rightarrow> string" where
  "format_RFC3339Nano = format_with fraction_text"

subsection \<open>Reading\<close>

text \<open>A fraction of a second in nanoseconds: nine digits count, more are dropped.\<close>

definition fraction_value :: "string \<Rightarrow> nat" where
  "fraction_value ds = (let ds = take 9 ds in nat (digits_value ds) * 10 ^ (9 - length ds))"

fun get_fraction :: "string \<Rightarrow> nat \<times> string" where
  "get_fraction (p # d # ds) =
     (if (p = CHR ''.'' \<or> p = CHR '','') \<and> is_digit d
      then (fraction_value (takeWhile is_digit (d # ds)), dropWhile is_digit ds) else (0, p # d # ds))"
| "get_fraction cs = (0, cs)"

text \<open>The seconds by which a zone is ahead of UTC.\<close>

definition zone_offset :: "string \<Rightarrow> int" where
  "zone_offset zone =
     (case zone of
        [c, h1, h2, colon, m1, m2] \<Rightarrow>
          (let s = int ((10 * digit_of h1 + digit_of h2) * 3600 + (10 * digit_of m1 + digit_of m2) * 60) in
           if c = CHR ''-'' then - s else s)
      | _ \<Rightarrow> 0)"

text \<open>Both layouts read the same texts: a fraction may be there or not.\<close>

definition time_Parse :: "string \<Rightarrow> time option" where
  "time_Parse text =
     (case (do { (y, s) \<leftarrow> getyear text; s \<leftarrow> skip_char (CHR ''-'') s;
                 (m, s) \<leftarrow> getnum True s; s \<leftarrow> skip_char (CHR ''-'') s;
                 (d, s) \<leftarrow> getnum True s; s \<leftarrow> skip_char (CHR ''T'') s;
                 (h, s) \<leftarrow> getnum False s; s \<leftarrow> skip_char (CHR '':'') s;
                 (mi, s) \<leftarrow> getnum True s; s \<leftarrow> skip_char (CHR '':'') s;
                 (sec, s) \<leftarrow> getnum True s;
                 Some (y, m, d, h, mi, sec, get_fraction s) }) of
        None \<Rightarrow> None
      | Some (y, m, d, h, mi, sec, ns, zone) \<Rightarrow>
          if 1 \<le> m \<and> m \<le> 12 \<and> 1 \<le> d \<and> d \<le> days_in m y \<and> h < 24 \<and> mi < 60 \<and> sec < 60 \<and> zone_ok zone
          then Some (((int (days_before_year y + days_before_month y m + (d - 1)) - unix_days) * 86400 +
                 int (h * 3600 + mi * 60 + sec) - zone_offset zone) * 1000000000 + int ns)
          else None)"

subsection \<open>What is printed is read back\<close>

lemma div_up: "0 < k \<Longrightarrow> (y + (k - 1)) div k = y div k + (if y mod k = 0 then 0 else 1)" for y k :: nat
proof -
  assume k: "0 < k"
  have "y + (k - 1) = y div k * k + (y mod k + (k - 1))" by simp
  then have "(y + (k - 1)) div k = (y div k * k + (y mod k + (k - 1))) div k" by (rule arg_cong)
  also have "\<dots> = y div k + (y mod k + (k - 1)) div k" using k by (intro div_mult_self3) simp
  finally have eq: "(y + (k - 1)) div k = y div k + (y mod k + (k - 1)) div k" .
  show ?thesis
  proof (cases "y mod k = 0")
    case True
    with eq k show ?thesis by simp
  next
    case False
    with mod_less_divisor [OF k, of y] have "k \<le> y mod k + (k - 1)" "y mod k + (k - 1) < k + k" by linarith+
    then have "(y mod k + (k - 1)) div k = 1" using k by (intro div_nat_eqI) simp_all
    with eq False show ?thesis by simp
  qed
qed

lemma Suc_div_up: "0 < k \<Longrightarrow> (Suc y + (k - 1)) div k = (y + (k - 1)) div k + (if y mod k = 0 then 1 else 0)" for y k :: nat
proof -
  assume k: "0 < k"
  then have "(Suc y + (k - 1)) div k = (y + k) div k" by simp
  also have "\<dots> = y div k + 1" using k by (intro div_add_self2) simp
  finally show ?thesis using div_up [OF k] by simp
qed

lemma leap_days:
  fixes A B C y :: nat
  assumes "B \<le> y" and "r \<Longrightarrow> q" and "q \<Longrightarrow> p"
  shows "365 * Suc y + (A + (if p then 1 else 0)) + (C + (if r then 1 else 0)) - (B + (if q then 1 else 0)) =
    365 * y + A + C - B + (if p \<and> (\<not> q \<or> r) then 366 else 365)"
  using assms by (cases p; cases q; cases r; simp)

lemma days_before_Suc_year: "days_before_year (Suc y) = days_before_year y + year_length y"
proof -
  have a: "(Suc y + 3) div 4 = (y + 3) div 4 + (if y mod 4 = 0 then 1 else 0)"
    using Suc_div_up [of 4 y] by simp
  have b: "(Suc y + 99) div 100 = (y + 99) div 100 + (if y mod 100 = 0 then 1 else 0)"
    using Suc_div_up [of 100 y] by simp
  have c: "(Suc y + 399) div 400 = (y + 399) div 400 + (if y mod 400 = 0 then 1 else 0)"
    using Suc_div_up [of 400 y] by simp
  have le: "(y + 99) div 100 \<le> y" using div_up [of 100 y] div_le_dividend [of y 100] by (cases "y < 100") auto
  have m: "y mod 400 = 0 \<Longrightarrow> y mod 100 = 0" "y mod 100 = 0 \<Longrightarrow> y mod 4 = 0"
    using dvd_trans [of 100 400 y] dvd_trans [of 4 100 y] by (simp_all add: dvd_eq_mod_eq_0)
  show ?thesis unfolding days_before_year_def year_length_def leap_year_def a b c
    by (rule leap_days [OF le m])
qed

lemma year_from_props:
  "year_from y r = (y', r') \<Longrightarrow> days_before_year y + r = days_before_year y' + r' \<and> r' < year_length y' \<and> y \<le> y'"
proof (induction y r rule: year_from.induct)
  case (1 y r)
  show ?case
  proof (cases "r < year_length y")
    case True
    with "1.prems" show ?thesis by (simp add: year_from.simps)
  next
    case False
    with "1.prems" have "year_from (Suc y) (r - year_length y) = (y', r')" by (simp add: year_from.simps)
    from "1.IH" [OF False this] False show ?thesis by (simp add: days_before_Suc_year)
  qed
qed

lemma leap_year_cycle: "leap_year (400 * c + y) = leap_year y"
proof -
  have "(400 * c + y) mod 4 = y mod 4" "(400 * c + y) mod 100 = y mod 100" "(400 * c + y) mod 400 = y mod 400"
    using mod_mult_self4 [of 4 "100 * c" y] mod_mult_self4 [of 100 "4 * c" y] mod_mult_self4 [of 400 c y] by simp_all
  then show ?thesis by (simp add: leap_year_def)
qed

lemma days_before_cycle: "days_before_year (400 * c + y) = 146097 * c + days_before_year y"
proof (induction y)
  case 0
  have "(400 * c + 3) div 4 = 100 * c" "(400 * c + 99) div 100 = 4 * c" "(400 * c + 399) div 400 = c"
    using div_mult_self4 [of 4 "100 * c" 3] div_mult_self4 [of 100 "4 * c" 99] div_mult_self4 [of 400 c 399] by simp_all
  then show ?case by (simp add: days_before_year_def)
next
  case (Suc y)
  have "days_before_year (Suc (400 * c + y)) = days_before_year (400 * c + y) + year_length y"
    by (simp add: days_before_Suc_year year_length_def leap_year_cycle)
  with Suc.IH show ?case by (simp add: days_before_Suc_year)
qed

lemma year_day_props:
  assumes "year_day d = (y, r)"
  shows "d = days_before_year y + r" and "r < year_length y"
proof -
  obtain y0 where y0: "year_from 0 (d mod 146097) = (y0, r)" "y = 400 * (d div 146097) + y0"
    using assms by (auto simp: year_day_def split: prod.splits)
  note p = year_from_props [OF y0(1)]
  have "d mod 146097 = days_before_year y0 + r" using p by (simp add: days_before_year_def)
  then show "d = days_before_year y + r"
    using div_mult_mod_eq [of d 146097] unfolding y0(2) days_before_cycle by linarith
  show "r < year_length y" using p by (simp add: y0(2) year_length_def leap_year_cycle)
qed

lemma days_before_Suc_month: "1 \<le> m \<Longrightarrow> days_before_month y (Suc m) = days_before_month y m + days_in m y"
  by (simp add: days_before_month_def)

lemma days_before_13: "days_before_month y 13 = year_length y"
proof -
  have "[1..<13] = [1, 2, 3, 4, 5, 6, 7, 8, 9, 10, 11, 12 :: nat]" by code_simp
  then show ?thesis by (simp add: days_before_month_def days_in_def year_length_def)
qed

lemma month_from_props:
  "month_from y m r = (m', d) \<Longrightarrow> 1 \<le> m \<Longrightarrow> m \<le> 12 \<Longrightarrow> days_before_month y m + r < year_length y \<Longrightarrow>
   days_before_month y m + r = days_before_month y m' + (d - 1) \<and> 1 \<le> d \<and> d \<le> days_in m' y \<and> 1 \<le> m' \<and> m' \<le> 12"
proof (induction y m r rule: month_from.induct)
  case (1 y m r)
  show ?case
  proof (cases "r < days_in m y \<or> 12 \<le> m")
    case True
    then have "m' = m" "d = Suc r" using "1.prems"(1) by (auto simp: month_from.simps)
    moreover have "r < days_in m y"
    proof (cases "12 \<le> m")
      case True
      then have "m = 12" using "1.prems" by simp
      with "1.prems"(4) days_before_13 [of y] days_before_Suc_month [of 12 y] show ?thesis by (simp add: numeral_eq_Suc)
    qed (use True in simp)
    ultimately show ?thesis using "1.prems" by simp
  next
    case False
    then have "month_from y (Suc m) (r - days_in m y) = (m', d)" using "1.prems"(1) by (simp add: month_from.simps)
    from "1.IH" [OF False this] False "1.prems" show ?thesis by (simp add: days_before_Suc_month)
  qed
qed

lemma digits_of_numeral:
  "digits_of (numeral k) n = digits_of (pred_numeral k) (n div 10) @ [char_of (48 + n mod 10)]"
  by (simp only: numeral_eq_Suc [of k] digits_of.simps)

lemma digits_of_2: "digits_of 2 n = [char_of (48 + n div 10 mod 10), char_of (48 + n mod 10)]"
  by (simp add: numeral_2_eq_2)

lemma digits_of_4:
  "digits_of 4 n = [char_of (48 + n div 10 div 10 div 10 mod 10), char_of (48 + n div 10 div 10 mod 10),
     char_of (48 + n div 10 mod 10), char_of (48 + n mod 10)]"
proof -
  have "(4 :: nat) = Suc (Suc (Suc (Suc 0)))" by simp
  then show ?thesis by (simp only: digits_of.simps append.simps)
qed

lemma digit_chars [simp]: "n < 10 \<Longrightarrow> is_digit (char_of (48 + n))" "n < 10 \<Longrightarrow> digit_of (char_of (48 + n)) = n"
  using digit_char [of n] by simp_all

lemma getnum_digits: "n < 100 \<Longrightarrow> getnum fixed (digits_of 2 n @ cs) = Some (n, cs)"
proof -
  assume "n < 100"
  then have "n div 10 < 10" by simp
  then show ?thesis by (simp add: digits_of_2)
qed

lemma place_values:
  "n = 10 * a + r \<Longrightarrow> a = 10 * b + s \<Longrightarrow> b = 10 * c + t \<Longrightarrow> 1000 * c + 100 * t + 10 * s + r = (n :: nat)"
  by simp

lemma getyear_digits: "n < 10000 \<Longrightarrow> getyear (digits_of 4 n @ cs) = Some (n, cs)"
proof -
  assume n: "n < 10000"
  define a b c where "a = n div 10" and "b = a div 10" and "c = b div 10"
  have "n = 10 * a + n mod 10" "a = 10 * b + a mod 10" "b = 10 * c + b mod 10"
    unfolding a_def b_def c_def by (simp_all only: mult_div_mod_eq)
  from place_values [OF this] n have sum: "1000 * c + 100 * (b mod 10) + 10 * (a mod 10) + n mod 10 = n" "c < 10" by simp_all
  then show ?thesis unfolding digits_of_4 a_def [symmetric] b_def [symmetric] c_def [symmetric] by simp
qed

lemma digits_value_snoc: "digits_value (ds @ [c]) = 10 * digits_value ds + int (digit_of c)"
  by (simp add: digits_value_def)

lemma digits_of_props: "length (digits_of k n) = k \<and> list_all is_digit (digits_of k n) \<and> digits_value (digits_of k n) = int (n mod 10 ^ k)"
proof (induction k arbitrary: n)
  case 0
  show ?case by (simp add: digits_value_def)
next
  case (Suc k)
  have "10 * (n div 10 mod 10 ^ k) + n mod 10 = n mod (10 * 10 ^ k)" by (simp add: mod_mult2_eq)
  then have "10 * int (n div 10 mod 10 ^ k) + int (n mod 10) = int (n mod (10 * 10 ^ k))" by linarith
  with Suc.IH [of "n div 10"] show ?case by (simp add: digits_value_snoc)
qed

lemma digits_value_zeros: "digits_value (ds @ replicate z (CHR ''0'')) = digits_value ds * 10 ^ z"
proof (induction z)
  case (Suc z)
  have "ds @ replicate (Suc z) (CHR ''0'') = (ds @ replicate z (CHR ''0'')) @ [CHR ''0'']"
    by (simp add: replicate_append_same)
  with Suc show ?case by (simp only: digits_value_snoc) (simp add: digit_of_def)
qed simp

lemma digits_value_nonneg: "0 \<le> digits_value ds"
proof (induction ds rule: rev_induct)
  case (snoc c ds)
  then show ?case by (simp add: digits_value_snoc)
qed (simp add: digits_value_def)

lemma fraction_digits_props:
  assumes "ns < 1000000000"
  shows "fraction_value (fraction_digits ns) = ns" and "list_all is_digit (fraction_digits ns)" and "length (fraction_digits ns) \<le> 9"
proof -
  let ?z = "takeWhile (\<lambda>c. c = CHR ''0'') (rev (digits_of 9 ns))"
  note d = digits_of_props [of 9 ns]
  have "rev (digits_of 9 ns) = ?z @ rev (fraction_digits ns)" by (simp add: fraction_digits_def)
  moreover have "?z = replicate (length ?z) (CHR ''0'')" by (intro replicate_eqI) (auto dest: set_takeWhileD)
  ultimately obtain z where "rev (digits_of 9 ns) = replicate z (CHR ''0'') @ rev (fraction_digits ns)" by metis
  then have split: "digits_of 9 ns = fraction_digits ns @ replicate z (CHR ''0'')"
    by (metis rev_append rev_rev_ident rev_replicate)
  from d have len: "length (fraction_digits ns) + z = 9" and dig: "list_all is_digit (fraction_digits ns)"
    and val: "digits_value (fraction_digits ns) * 10 ^ z = int ns"
    using assms unfolding split by (simp_all add: digits_value_zeros)
  have "fraction_value (fraction_digits ns) = nat (digits_value (fraction_digits ns)) * 10 ^ z"
  proof -
    have "9 - length (fraction_digits ns) = z" "length (fraction_digits ns) \<le> 9" using len by linarith+
    then show ?thesis by (simp add: fraction_value_def Let_def)
  qed
  also have "\<dots> = nat (digits_value (fraction_digits ns) * 10 ^ z)"
    by (simp add: nat_mult_distrib digits_value_nonneg nat_power_eq)
  finally show "fraction_value (fraction_digits ns) = ns" by (simp add: val)
  show "list_all is_digit (fraction_digits ns)" by (rule dig)
  show "length (fraction_digits ns) \<le> 9" using len by simp
qed

lemma get_fraction_text:
  assumes "ns < 1000000000"
  shows "get_fraction (fraction_text ns @ ''Z'') = (ns, ''Z'')"
proof (cases "fraction_digits ns")
  case Nil
  with fraction_digits_props(1) [OF assms] have "ns = 0" by (simp add: fraction_value_def digits_value_def)
  with Nil show ?thesis by (simp add: fraction_text_def)
next
  case (Cons d ds)
  have z: "\<not> is_digit (CHR ''Z'')" by (simp add: is_digit_def)
  have "is_digit d" "\<forall>c \<in> set ds. is_digit c" using fraction_digits_props(2) [OF assms] Cons by (simp_all add: list_all_iff)
  with z have "takeWhile is_digit (ds @ ''Z'') = ds" "dropWhile is_digit (ds @ ''Z'') = ''Z''"
    by (simp_all add: takeWhile_append2 dropWhile_append2)
  with \<open>is_digit d\<close> Cons fraction_digits_props(1) [OF assms] show ?thesis by (simp add: fraction_text_def)
qed

lemma days_before_mono: "y \<le> y' \<Longrightarrow> days_before_year y \<le> days_before_year y'"
  by (rule lift_Suc_mono_le) (simp_all add: days_before_Suc_year)

lemma clock_parts: "s div 3600 * 3600 + s div 60 mod 60 * 60 + s mod 60 = (s :: nat)"
proof -
  have "s div 3600 = s div 60 div 60" by (simp add: div_mult2_eq [symmetric])
  then have "s div 3600 * 60 + s div 60 mod 60 = s div 60" by (simp only: div_mult_mod_eq)
  then have "s div 3600 * 3600 + s div 60 mod 60 * 60 = s div 60 * 60" by linarith
  then show ?thesis using div_mult_mod_eq [of s 60] by linarith
qed

text \<open>The moments of the years from 0 to 9999.\<close>

definition four_digit_year :: "time \<Rightarrow> bool" where
  "four_digit_year t \<longleftrightarrow>
     - unix_days * 86400 * 1000000000 \<le> t \<and> t < (3652425 - unix_days) * 86400 * 1000000000"

lemma div_bounds:
  fixes a b k t :: int
  assumes "0 < k" and "a * k \<le> t" and "t < b * k"
  shows "a \<le> t div k" and "t div k < b"
proof -
  show "a \<le> t div k" using zdiv_mono1 [OF assms(2,1)] assms(1) by simp
  show "t div k < b"
  proof (rule ccontr)
    assume "\<not> t div k < b"
    then have "b * k \<le> t div k * k" using assms(1) by (intro mult_right_mono) simp_all
    also have "\<dots> \<le> t" using assms(1) div_mult_mod_eq [of t k] pos_mod_sign [OF assms(1), of t] by linarith
    finally show False using assms(3) by simp
  qed
qed

lemma parse_format_with:
  assumes "four_digit_year t" and "get_fraction (fraction (nat (t mod 1000000000)) @ ''Z'') = (v, ''Z'')"
  shows "time_Parse (format_with fraction t) = Some (t - t mod 1000000000 + int v)"
proof -
  define seconds where "seconds = t div 1000000000"
  define ns where "ns = nat (t mod 1000000000)"
  define days where "days = nat (seconds div 86400 + unix_days)"
  define s where "s = nat (seconds mod 86400)"
  obtain y r where yr: "year_day days = (y, r)" by fastforce
  obtain m d where md: "month_from y 1 r = (m, d)" by fastforce
  note y = year_day_props [OF yr]
  have "days_before_month y 1 = 0" by (simp add: days_before_month_def)
  with month_from_props [OF md] y(2) have m: "r = days_before_month y m + (d - 1)" "1 \<le> d" "d \<le> days_in m y" "1 \<le> m" "m \<le> 12"
    by simp_all
  have secs: "- unix_days * 86400 \<le> seconds" "seconds < (3652425 - unix_days) * 86400"
    using assms(1) div_bounds [of 1000000000 "- unix_days * 86400" t "(3652425 - unix_days) * 86400"]
    by (simp_all add: four_digit_year_def seconds_def)
  then have range: "- unix_days \<le> seconds div 86400" "seconds div 86400 < 3652425 - unix_days"
    using div_bounds [of 86400 "- unix_days" seconds "3652425 - unix_days"] by simp_all
  then have int_days: "int days = seconds div 86400 + unix_days" "days < 3652425" by (simp_all add: days_def)
  have y4: "y < 10000"
  proof (rule ccontr)
    assume "\<not> y < 10000"
    then have "days_before_year 10000 \<le> days_before_year y" by (intro days_before_mono) simp
    then show False using y(1) int_days(2) by (simp add: days_before_year_def)
  qed
  have d100: "d < 100" "m < 100" using m by (auto simp: days_in_def split: if_splits)
  have s: "s < 86400" "int s = seconds mod 86400" by (simp_all add: s_def nat_less_iff)
  have hms: "s div 3600 < 24" "s div 60 mod 60 < 60" "s mod 60 < 60" using s(1) by (simp_all add: less_mult_imp_div_less)
  have zone: "zone_ok ''Z''" "zone_offset ''Z'' = 0" by (simp_all add: zone_offset_def)
  have fmt: "format_with fraction t =
      digits_of 4 y @ ''-'' @ digits_of 2 m @ ''-'' @ digits_of 2 d @ ''T'' @ digits_of 2 (s div 3600) @ '':'' @
      digits_of 2 (s div 60 mod 60) @ '':'' @ digits_of 2 (s mod 60) @ fraction ns @ ''Z''"
    using yr md y4 by (simp add: format_with_def Let_def year_text_def seconds_def ns_def days_def s_def)
  have "time_Parse (format_with fraction t) =
      Some (((int (days_before_year y + days_before_month y m + (d - 1)) - unix_days) * 86400 + int s) * 1000000000 + int v)"
    unfolding fmt time_Parse_def
    using hms m y4 d100 zone assms(2) clock_parts [of s]
    by (simp add: getyear_digits getnum_digits ns_def)
  also have "int (days_before_year y + days_before_month y m + (d - 1)) = seconds div 86400 + unix_days"
    using y(1) m(1) int_days(1) by simp
  also have "(seconds div 86400 + unix_days - unix_days) * 86400 + int s = seconds"
    using s(2) by simp
  also have "seconds * 1000000000 = t - t mod 1000000000"
    unfolding seconds_def by (simp add: minus_mod_eq_div_mult)
  finally show ?thesis .
qed

lemma parse_format_nano:
  assumes "four_digit_year t"
  shows "time_Parse (format_RFC3339Nano t) = Some t"
  using parse_format_with [OF assms, of fraction_text] get_fraction_text [of "nat (t mod 1000000000)"]
  by (simp add: format_RFC3339Nano_def nat_less_iff)

lemma parse_format_seconds:
  assumes "four_digit_year t"
  shows "time_Parse (format_RFC3339 t) = Some (t - t mod 1000000000)"
  using parse_format_with [OF assms, of "\<lambda>ns. []"] by (simp add: format_RFC3339_def)

text \<open>The check of the consumers accepts exactly the texts that can be read.\<close>

lemma get_fraction_rest: "snd (get_fraction s) = skip_fraction s"
  by (cases s rule: skip_fraction.cases) simp_all

lemma time_check_iff: "time_Parse_RFC3339 s \<longleftrightarrow> time_Parse s \<noteq> None"
  unfolding time_Parse_RFC3339_def time_Parse_def get_fraction_rest [symmetric]
  by (auto simp: case_prod_unfold split: Option.bind_splits option.splits if_splits)

lemma printed_time_accepted: "four_digit_year t \<Longrightarrow> time_Parse_RFC3339 (format_RFC3339 t)"
  by (simp add: time_check_iff parse_format_seconds)

end
