(* ===== verification/History_Store.thy ===== *)
theory History_Store
  imports Persistence Go_Time
begin

text \<open>
  The two stores of history records of \<^verbatim>\<open>so/infra/persistence\<close>: \<^verbatim>\<open>history_dynamo_repository.go\<close>, which the program uses,
  over a record of the calls of DynamoDB and of the package \<^verbatim>\<open>attributevalue\<close>, and
  \<^verbatim>\<open>service_order_history_repository.go\<close> with \<^verbatim>\<open>service_order_history_model.go\<close> over \<^verbatim>\<open>gorm\<close>. What DynamoDB documents of
  these calls is the locale \<open>dynamo_table\<close>.
\<close>

subsection \<open>Records in DynamoDB\<close>

text \<open>A nil map of metadata is \<open>None\<close>.\<close>

record dynamoHistoryItem =
  dhi_OrderID :: string
  dhi_OccurredAt :: string
  dhi_ID :: string
  dhi_Status :: string
  dhi_Metadata :: "metadata option"
  dhi_CreatedAt :: string

text \<open>
  \<open>'raw\<close> is a map of attributes. \<open>dyn_Query\<close> is given the table and the order and answers the items of one page in
  descending order, \<open>dyn_Scan\<close> the table, the identifier that is asked for and the limit.
\<close>

record ('raw, 'tbl) dynamo =
  dyn_NewV7 :: "'tbl \<Rightarrow> string"
  dyn_Marshal :: "dynamoHistoryItem \<Rightarrow> string + 'raw"
  dyn_Unmarshal :: "'raw \<Rightarrow> string + dynamoHistoryItem"
  dyn_PutItem :: "string \<Rightarrow> 'raw \<Rightarrow> 'tbl \<Rightarrow> string option \<times> 'tbl"
  dyn_Query :: "string \<Rightarrow> string \<Rightarrow> 'tbl \<Rightarrow> (string + 'raw list) \<times> 'tbl"
  dyn_Scan :: "string \<Rightarrow> string \<Rightarrow> nat \<Rightarrow> 'tbl \<Rightarrow> (string + 'raw list) \<times> 'tbl"

definition OrderHistoryTableName :: string where
  "OrderHistoryTableName = ''order_history''"

text \<open>A call of DynamoDB whose error is wrapped.\<close>

definition dynamo_call :: "string \<Rightarrow> ('tbl \<Rightarrow> (string + 'a) \<times> 'tbl) \<Rightarrow> ('tbl, 'a) prog" where
  "dynamo_call what f = (\<lambda>tbl.
     case f tbl of
       (Inl err, tbl') \<Rightarrow> (Inl (ErrorString (what @ '': '' @ err)), tbl')
     | (Inr x, tbl') \<Rightarrow> (Inr x, tbl'))"

definition toDynamoHistoryItem :: "History \<Rightarrow> dynamoHistoryItem" where
  "toDynamoHistoryItem history =
     (let occurredAt = format_RFC3339Nano (h_createdAt history) in
      \<lparr>dhi_OrderID = h_serviceOrderID history, dhi_OccurredAt = occurredAt, dhi_ID = h_id history,
       dhi_Status = status_String (h_status history), dhi_Metadata = Some (h_metadata history),
       dhi_CreatedAt = occurredAt\<rparr>)"

text \<open>The second attempt, with the layout \<^verbatim>\<open>time.RFC3339\<close>, reads what the first reads; its error is the one reported.\<close>

definition fromDynamoHistoryMap :: "('raw, 'tbl) dynamo \<Rightarrow> 'raw \<Rightarrow> error + History" where
  "fromDynamoHistoryMap Y raw =
     (case dyn_Unmarshal Y raw of
        Inl err \<Rightarrow> Inl (ErrorString (''unmarshal history item: '' @ err))
      | Inr item \<Rightarrow>
          (case time_Parse (dhi_CreatedAt item) of
             None \<Rightarrow> Inl (ErrorString ''parse history timestamp'')
           | Some createdAt \<Rightarrow>
               andThen (NewOrderStatus (dhi_Status item)) (\<lambda>status.
               Inr (ReconstructHistory (dhi_ID item) (dhi_OrderID item)
                 (case dhi_Metadata item of None \<Rightarrow> Map.empty | Some m \<Rightarrow> m) status createdAt))))"

definition dynamo_store :: "('raw, 'tbl) dynamo \<Rightarrow> History \<Rightarrow> ('tbl, string) prog" where
  "dynamo_store Y history =
     bindE (dynamo_call ''marshal history item'' (\<lambda>tbl. (dyn_Marshal Y (toDynamoHistoryItem history), tbl))) (\<lambda>item.
     bindE (dynamo_call ''put history item'' (\<lambda>tbl.
              case dyn_PutItem Y OrderHistoryTableName item tbl of (None, tbl') \<Rightarrow> (Inr (), tbl') | (Some err, tbl') \<Rightarrow> (Inl err, tbl'))) (\<lambda>_.
     returnE (h_id history)))"

text \<open>The identifier that is answered is the one the record has been given.\<close>

definition dynamo_Save :: "('raw, 'tbl) dynamo \<Rightarrow> History \<Rightarrow> ('tbl, string) prog" where
  "dynamo_Save Y history =
     bindE (if h_id history = '''' then (\<lambda>tbl. (history_SetID (dyn_NewV7 Y tbl) history, tbl)) else returnE history)
       (dynamo_store Y)"

definition dynamo_FindByServiceOrderID :: "('raw, 'tbl) dynamo \<Rightarrow> string \<Rightarrow> ('tbl, History list) prog" where
  "dynamo_FindByServiceOrderID Y serviceOrderID =
     bindE (dynamo_call ''query order history'' (dyn_Query Y OrderHistoryTableName serviceOrderID)) (\<lambda>raws.
     liftE (mapR (fromDynamoHistoryMap Y) raws))"

definition dynamo_FindByID :: "('raw, 'tbl) dynamo \<Rightarrow> string \<Rightarrow> ('tbl, History) prog" where
  "dynamo_FindByID Y i =
     bindE (dynamo_call ''scan order history by id'' (dyn_Scan Y OrderHistoryTableName i 1)) (\<lambda>raws.
     case raws of [] \<Rightarrow> throwE ErrHistoryNotFound | raw # _ \<Rightarrow> liftE (fromDynamoHistoryMap Y raw))"

text \<open>
  The history as a dependency of the use cases: the table is in the state \<open>tbl t\<close> at the moment \<open>t\<close>, whatever
  other processes do to it.
\<close>

definition with_dynamo :: "('raw, 'tbl) dynamo \<Rightarrow> (nat \<Rightarrow> 'tbl) \<Rightarrow> 'db deps \<Rightarrow> 'db deps" where
  "with_dynamo Y tbl D =
     D\<lparr>HistoryRepository_Save := (\<lambda>t h. fst (dynamo_Save Y h (tbl t))),
       HistoryRepository_Find := (\<lambda>t i. fst (dynamo_FindByServiceOrderID Y i (tbl t)))\<rparr>"

subsection \<open>Rows in the database\<close>

record 'u ServiceOrderHistoryModel =
  hm_ID :: 'u
  hm_ServiceOrderID :: 'u
  hm_Metadata :: string
  hm_Status :: string
  hm_CreatedAt :: time

datatype gorm_error =
    ErrRecordNotFound
  | GormFailure string

text \<open>
  The statements of the repository on its table, and \<^verbatim>\<open>encoding/json\<close> on metadata, which answers \<open>None\<close> for an error.
  \<open>hg_Find\<close> is the query by order, newest first, \<open>hg_First\<close> the one by identifier.
\<close>

record ('db, 'u) history_gorm =
  hg_Marshal :: "metadata \<Rightarrow> string option"
  hg_Unmarshal :: "string \<Rightarrow> metadata option"
  hg_NewV7 :: "'db \<Rightarrow> 'u \<times> 'db"
  hg_Create :: "'u ServiceOrderHistoryModel \<Rightarrow> 'db \<Rightarrow> gorm_error option \<times> 'db"
  hg_Save :: "'u ServiceOrderHistoryModel \<Rightarrow> 'db \<Rightarrow> gorm_error option \<times> 'db"
  hg_Find :: "'u \<Rightarrow> 'db \<Rightarrow> (gorm_error + 'u ServiceOrderHistoryModel list) \<times> 'db"
  hg_First :: "'u \<Rightarrow> 'db \<Rightarrow> (gorm_error + 'u ServiceOrderHistoryModel) \<times> 'db"

definition history_ToDomain ::
  "'u uuid_lib \<Rightarrow> ('db, 'u) history_gorm \<Rightarrow> 'u ServiceOrderHistoryModel \<Rightarrow> error + History" where
  "history_ToDomain U H m =
     andThen (if hm_Metadata m \<noteq> ''''
              then (case hg_Unmarshal H (hm_Metadata m) of None \<Rightarrow> Inl ErrInvalidMetadata | Some md \<Rightarrow> Inr md)
              else Inr Map.empty) (\<lambda>metadata.
     andThen (NewOrderStatus (hm_Status m)) (\<lambda>status.
     Inr (ReconstructHistory (uuid_String U (hm_ID m)) (uuid_String U (hm_ServiceOrderID m)) metadata status (hm_CreatedAt m))))"

definition FromDomainHistory ::
  "'u uuid_lib \<Rightarrow> ('db, 'u) history_gorm \<Rightarrow> History \<Rightarrow> error + 'u ServiceOrderHistoryModel" where
  "FromDomainHistory U H history =
     andThen (if h_id history \<noteq> '''' then uuid_Parse U (h_id history) else Inr (uuid_Nil U)) (\<lambda>i.
     andThen (uuid_Parse U (h_serviceOrderID history)) (\<lambda>serviceOrderID.
     case hg_Marshal H (h_metadata history) of
       None \<Rightarrow> Inl ErrInvalidMetadata
     | Some metadataJSON \<Rightarrow> Inr \<lparr>hm_ID = i, hm_ServiceOrderID = serviceOrderID, hm_Metadata = metadataJSON,
           hm_Status = status_String (h_status history), hm_CreatedAt = h_createdAt history\<rparr>))"

fun history_mapGormError :: "gorm_error \<Rightarrow> error" where
  "history_mapGormError ErrRecordNotFound = ErrHistoryNotFound"
| "history_mapGormError (GormFailure err) = ErrorString err"

definition history_statement :: "('db \<Rightarrow> gorm_error option \<times> 'db) \<Rightarrow> ('db, unit) prog" where
  "history_statement f = (\<lambda>db.
     case f db of (None, db') \<Rightarrow> (Inr (), db') | (Some err, db') \<Rightarrow> (Inl (history_mapGormError err), db'))"

definition history_query :: "('db \<Rightarrow> (gorm_error + 'a) \<times> 'db) \<Rightarrow> ('db, 'a) prog" where
  "history_query f = (\<lambda>db.
     case f db of (Inr x, db') \<Rightarrow> (Inr x, db') | (Inl err, db') \<Rightarrow> (Inl (history_mapGormError err), db'))"

definition history_repo_Save ::
  "'u uuid_lib \<Rightarrow> ('db, 'u) history_gorm \<Rightarrow> History \<Rightarrow> ('db, History) prog" where
  "history_repo_Save U H history =
     bindE (liftE (FromDomainHistory U H history)) (\<lambda>model.
     if h_id history = '''' then
       bindE (\<lambda>db. case hg_NewV7 H db of (u, db') \<Rightarrow> (Inr u, db')) (\<lambda>u.
       let model = model\<lparr>hm_ID := u\<rparr> in
       bindE (history_statement (hg_Create H model)) (\<lambda>_.
       liftE (history_SetID (uuid_String U (hm_ID model)) history)))
     else bindE (history_statement (hg_Save H model)) (\<lambda>_. returnE history))"

text \<open>An error of \<^verbatim>\<open>uuid.Parse\<close> is wrapped; its text is left out, as in the order repository.\<close>

definition parsed_or :: "string \<Rightarrow> error + 'u \<Rightarrow> error + 'u" where
  "parsed_or what r = (case r of Inl _ \<Rightarrow> Inl (ErrorString what) | Inr u \<Rightarrow> Inr u)"

definition history_repo_FindByServiceOrderID ::
  "'u uuid_lib \<Rightarrow> ('db, 'u) history_gorm \<Rightarrow> string \<Rightarrow> ('db, History list) prog" where
  "history_repo_FindByServiceOrderID U H serviceOrderID =
     bindE (liftE (parsed_or ''invalid service order UUID'' (uuid_Parse U serviceOrderID))) (\<lambda>uid.
     bindE (history_query (hg_Find H uid)) (\<lambda>models.
     liftE (mapR (history_ToDomain U H) models)))"

definition history_repo_FindByID ::
  "'u uuid_lib \<Rightarrow> ('db, 'u) history_gorm \<Rightarrow> string \<Rightarrow> ('db, History) prog" where
  "history_repo_FindByID U H i =
     bindE (liftE (parsed_or ''invalid history UUID'' (uuid_Parse U i))) (\<lambda>uid.
     bindE (history_query (hg_First H uid)) (\<lambda>model.
     liftE (history_ToDomain U H model)))"

end
