(* ===== verification/History_Store_Correct.thy ===== *)
theory History_Store_Correct
  imports History_Store Order_Status
begin

text \<open>
  What the store of the history relies on of DynamoDB, as the locale \<open>dynamo_table\<close>, and the refinement: through the
  store the table is a map from order and time of the record to record. \<open>Mem_dynamo\<close> is a table that keeps the contract.
\<close>

subsection \<open>The order of texts\<close>

text \<open>The order of the sort key, byte by byte.\<close>

fun bytes_less :: "string \<Rightarrow> string \<Rightarrow> bool" where
  "bytes_less s [] \<longleftrightarrow> False"
| "bytes_less [] (b # t) \<longleftrightarrow> True"
| "bytes_less (a # s) (b # t) \<longleftrightarrow> (of_char a :: nat) < of_char b \<or> a = b \<and> bytes_less s t"

lemma bytes_less_irrefl: "\<not> bytes_less s s"
  by (induction s) auto

lemma bytes_less_trans: "bytes_less s t \<Longrightarrow> bytes_less t u \<Longrightarrow> bytes_less s u"
proof (induction s t arbitrary: u rule: bytes_less.induct)
  case (2 b t)
  then show ?case by (cases u) auto
next
  case (3 a s b t)
  then show ?case by (cases u) auto
qed simp

lemma bytes_less_total: "s \<noteq> t \<Longrightarrow> bytes_less s t \<or> bytes_less t s"
proof (induction s t rule: bytes_less.induct)
  case (1 s)
  then show ?case by (cases s) auto
next
  case (3 a s b t)
  then show ?case by (auto simp: not_less dest: le_neq_implies_less)
qed simp

abbreviation newest_first :: "string list \<Rightarrow> bool" where
  "newest_first \<equiv> sorted_wrt (\<lambda>a b. bytes_less b a)"

subsection \<open>The contract\<close>

text \<open>
  \<open>rows\<close> is the table: order and sort key to item; \<open>item_of\<close> is what was marshalled into an item, \<open>raw_size\<close> its size.
  An item that is put replaces the one under its key, and one whose put fails may have been stored all the same. A
  page of a query ends after a megabyte at the latest. A map of metadata comes back as \<open>meta_back\<close> makes of it: numbers
  lose their types.
\<close>

definition put_row :: "string \<Rightarrow> string \<Rightarrow> 'raw \<Rightarrow> (string \<Rightarrow> string \<rightharpoonup> 'raw) \<Rightarrow> string \<Rightarrow> string \<rightharpoonup> 'raw" where
  "put_row i stamp raw R = R(i := (R i)(stamp \<mapsto> raw))"

locale dynamo_table =
  fixes Y :: "('raw, 'tbl) dynamo"
    and rows :: "'tbl \<Rightarrow> string \<Rightarrow> string \<rightharpoonup> 'raw"
    and item_of :: "'raw \<Rightarrow> dynamoHistoryItem"
    and raw_size :: "'raw \<Rightarrow> nat"
    and meta_back :: "metadata option \<Rightarrow> metadata option"
  assumes marshal: "dyn_Marshal Y item = Inr raw \<Longrightarrow> item_of raw = item"
    and unmarshal: "dyn_Unmarshal Y raw = Inr ((item_of raw)\<lparr>dhi_Metadata := meta_back (dhi_Metadata (item_of raw))\<rparr>)"
    and put: "dyn_PutItem Y OrderHistoryTableName raw tbl = (None, tbl') \<Longrightarrow>
      rows tbl' = put_row (dhi_OrderID (item_of raw)) (dhi_OccurredAt (item_of raw)) raw (rows tbl)"
    and put_fails: "dyn_PutItem Y OrderHistoryTableName raw tbl = (Some err, tbl') \<Longrightarrow>
      rows tbl' = rows tbl \<or>
      rows tbl' = put_row (dhi_OrderID (item_of raw)) (dhi_OccurredAt (item_of raw)) raw (rows tbl)"
    and query: "dyn_Query Y OrderHistoryTableName i tbl = (Inr raws, tbl') \<Longrightarrow> rows tbl' = rows tbl \<and>
      (\<exists>ats n. newest_first ats \<and> set ats = dom (rows tbl i) \<and> raws = map (\<lambda>stamp. the (rows tbl i stamp)) (take n ats) \<and>
         (sum_list (map (\<lambda>stamp. raw_size (the (rows tbl i stamp))) ats) \<le> 1048576 \<longrightarrow> length ats \<le> n))"
    and query_fails: "dyn_Query Y OrderHistoryTableName i tbl = (Inl err, tbl') \<Longrightarrow> rows tbl' = rows tbl"

subsection \<open>The refinement\<close>

text \<open>A record as it is read: its metadata has been through the table.\<close>

definition reread :: "(metadata option \<Rightarrow> metadata option) \<Rightarrow> History \<Rightarrow> History" where
  "reread back h = h\<lparr>h_metadata := (case back (Some (h_metadata h)) of None \<Rightarrow> Map.empty | Some m \<Rightarrow> m)\<rparr>"

definition storable_history :: "History \<Rightarrow> bool" where
  "storable_history h \<longleftrightarrow> h_id h \<noteq> '''' \<and> status_IsValid (h_status h) \<and> four_digit_year (h_createdAt h)"

text \<open>The key a record is stored under, and the map a table is: the records that were written under its keys.\<close>

definition key_of :: "History \<Rightarrow> string \<times> string" where
  "key_of h = (h_serviceOrderID h, format_RFC3339Nano (h_createdAt h))"

type_synonym history_map = "string \<Rightarrow> string \<rightharpoonup> History"

definition put_history :: "History \<Rightarrow> history_map \<Rightarrow> history_map" where
  "put_history h M = put_row (h_serviceOrderID h) (format_RFC3339Nano (h_createdAt h)) h M"

context dynamo_table
begin

definition holds_history :: "'raw \<Rightarrow> History \<Rightarrow> bool" where
  "holds_history raw h \<longleftrightarrow> storable_history h \<and> item_of raw = toDynamoHistoryItem h"

definition represents :: "'tbl \<Rightarrow> history_map \<Rightarrow> bool" where
  "represents tbl M \<longleftrightarrow> (\<forall>i. rel_fun (=) (rel_option holds_history) (rows tbl i) (M i)) \<and>
     (\<forall>i stamp h. M i stamp = Some h \<longrightarrow> key_of h = (i, stamp))"

lemma fromDynamo_held:
  assumes "holds_history raw h"
  shows "fromDynamoHistoryMap Y raw = Inr (reread meta_back h)"
  using assms
  by (auto simp: holds_history_def storable_history_def fromDynamoHistoryMap_def unmarshal toDynamoHistoryItem_def Let_def
      parse_format_nano NewOrderStatus_String andThen_def ReconstructHistory_def reread_def split: option.split)

lemma represents_put:
  assumes "represents tbl M" and "storable_history h" and "item_of raw = toDynamoHistoryItem h"
    and "rows tbl' = put_row (h_serviceOrderID h) (format_RFC3339Nano (h_createdAt h)) raw (rows tbl)"
  shows "represents tbl' (put_history h M)"
  using assms by (auto simp: represents_def put_history_def put_row_def rel_fun_def holds_history_def key_of_def)

lemma dynamo_Save_run:
  assumes "dynamo_Save Y history tbl = (r, tbl')" and "represents tbl M" and "status_IsValid (h_status history)"
    and "four_digit_year (h_createdAt history)"
  shows "case r of
      Inr i \<Rightarrow> i \<noteq> '''' \<and> (h_id history \<noteq> '''' \<longrightarrow> i = h_id history) \<and> represents tbl' (put_history (history\<lparr>h_id := i\<rparr>) M)
    | Inl e \<Rightarrow> represents tbl' M \<or> (\<exists>i. represents tbl' (put_history (history\<lparr>h_id := i\<rparr>) M))"
proof -
  define i where "i = (if h_id history = '''' then dyn_NewV7 Y tbl else h_id history)"
  let ?h = "history\<lparr>h_id := i\<rparr>"
  show ?thesis
  proof (cases "i = ''''")
    case True
    then have "dyn_NewV7 Y tbl = ''''" "h_id history = ''''" by (auto simp: i_def split: if_splits)
    with assms(1) have "r = Inl ErrInvalidHistoryID" "tbl' = tbl"
      by (auto simp: dynamo_Save_def bindE_def history_SetID_def)
    with assms(2) show ?thesis by simp
  next
    case False
    have "h_id history \<noteq> '''' \<Longrightarrow> ?h = history" by (simp add: i_def)
    with False assms(1) have store: "dynamo_store Y ?h tbl = (r, tbl')"
      by (cases "h_id history = ''''") (auto simp: dynamo_Save_def bindE_def history_SetID_def i_def returnE_def)
    have st: "storable_history ?h" using assms(3,4) False by (simp add: storable_history_def)
    show ?thesis
    proof (cases "dyn_Marshal Y (toDynamoHistoryItem ?h)")
      case (Inl err)
      with store assms(2) show ?thesis by (auto simp: dynamo_store_def bindE_def dynamo_call_def)
    next
      case (Inr raw)
      note item = marshal [OF Inr]
      obtain e tbl1 where p: "dyn_PutItem Y OrderHistoryTableName raw tbl = (e, tbl1)" by fastforce
      have key: "dhi_OrderID (item_of raw) = h_serviceOrderID ?h"
        "dhi_OccurredAt (item_of raw) = format_RFC3339Nano (h_createdAt ?h)"
        by (simp_all add: item toDynamoHistoryItem_def Let_def)
      note put_rep = represents_put [OF assms(2) st item]
      show ?thesis
      proof (cases e)
        case None
        with store Inr p have r: "r = Inr i" "tbl' = tbl1" by (auto simp: dynamo_store_def bindE_def dynamo_call_def returnE_def)
        from put [OF p [unfolded None]] put_rep [of tbl1] key have "represents tbl1 (put_history ?h M)" by simp
        with r False show ?thesis by (simp add: i_def)
      next
        case (Some err)
        with store Inr p have r: "\<exists>e. r = Inl e" "tbl' = tbl1" by (auto simp: dynamo_store_def bindE_def dynamo_call_def)
        from put_fails [OF p [unfolded Some]] put_rep [of tbl1] key assms(2)
        have "represents tbl1 M \<or> represents tbl1 (put_history ?h M)" by (auto simp: represents_def)
        with r show ?thesis by auto
      qed
    qed
  qed
qed

lemma mapR_held:
  assumes "\<forall>stamp \<in> set ats. holds_history (the (R stamp)) (the (M stamp))"
  shows "mapR (fromDynamoHistoryMap Y) (map (\<lambda>stamp. the (R stamp)) ats) = Inr (map (\<lambda>stamp. reread meta_back (the (M stamp))) ats)"
  using assms
proof (induction ats)
  case (Cons stamp ats)
  then have "fromDynamoHistoryMap Y (the (R stamp)) = Inr (reread meta_back (the (M stamp)))" by (intro fromDynamo_held) simp
  with Cons show ?case by (simp add: andThen_def)
qed simp

lemma dynamo_Find_run:
  assumes "dynamo_FindByServiceOrderID Y i tbl = (r, tbl')" and "represents tbl M"
  shows "represents tbl' M \<and>
    (\<forall>hs. r = Inr hs \<longrightarrow> (\<exists>ats n. newest_first ats \<and> set ats = dom (M i) \<and>
       hs = map (\<lambda>stamp. reread meta_back (the (M i stamp))) (take n ats) \<and>
       (sum_list (map (\<lambda>stamp. raw_size (the (rows tbl i stamp))) ats) \<le> 1048576 \<longrightarrow> length ats \<le> n)))" (is "?run")
    and "(\<exists>raws. fst (dyn_Query Y OrderHistoryTableName i tbl) = Inr raws) \<Longrightarrow> \<exists>hs. r = Inr hs"
proof -
  obtain x tbl1 where q: "dyn_Query Y OrderHistoryTableName i tbl = (x, tbl1)" by fastforce
  have "?run \<and> ((\<exists>raws. fst (dyn_Query Y OrderHistoryTableName i tbl) = Inr raws) \<longrightarrow> (\<exists>hs. r = Inr hs))"
  proof (cases x)
    case (Inl err)
    with assms(1) q query_fails [of i tbl err tbl1] assms(2) show ?thesis
      by (auto simp: dynamo_FindByServiceOrderID_def bindE_def dynamo_call_def represents_def)
  next
    case (Inr raws)
    from query [OF q [unfolded Inr]] obtain ats n where rows1: "rows tbl1 = rows tbl" and a: "newest_first ats"
      "set ats = dom (rows tbl i)" "raws = map (\<lambda>stamp. the (rows tbl i stamp)) (take n ats)"
      "sum_list (map (\<lambda>stamp. raw_size (the (rows tbl i stamp))) ats) \<le> 1048576 \<longrightarrow> length ats \<le> n" by blast
    have rel: "rel_option holds_history (rows tbl i stamp) (M i stamp)" for stamp
      using assms(2) by (auto simp: represents_def rel_fun_def)
    have domM: "dom (M i) = dom (rows tbl i)"
      using rel by (auto simp: dom_def) (metis option_rel_Some1 option_rel_Some2)+
    have "\<forall>stamp \<in> set (take n ats). holds_history (the (rows tbl i stamp)) (the (M i stamp))"
    proof
      fix stamp assume "stamp \<in> set (take n ats)"
      then have "stamp \<in> dom (rows tbl i)" using a(2) by (auto dest: in_set_takeD)
      then show "holds_history (the (rows tbl i stamp)) (the (M i stamp))" using rel [of stamp] by (auto simp: option_rel_Some1)
    qed
    from mapR_held [OF this]
    have read: "mapR (fromDynamoHistoryMap Y) raws = Inr (map (\<lambda>stamp. reread meta_back (the (M i stamp))) (take n ats))"
      by (simp add: a(3))
    then have "r = Inr (map (\<lambda>stamp. reread meta_back (the (M i stamp))) (take n ats))" "tbl' = tbl1"
      using assms(1) q Inr by (auto simp: dynamo_FindByServiceOrderID_def bindE_def dynamo_call_def liftE_def)
    moreover have "represents tbl1 M" using assms(2) rows1 by (simp add: represents_def)
    ultimately show ?thesis using a domM by auto
  qed
  then show ?run and "(\<exists>raws. fst (dyn_Query Y OrderHistoryTableName i tbl) = Inr raws) \<Longrightarrow> \<exists>hs. r = Inr hs" by blast+
qed

end

end
