(* ===== verification/History_Store_Properties.thy ===== *)
theory History_Store_Properties
  imports History_Store_Correct
begin

text \<open>What the history of an order is, as the program stores and reads it.\<close>

subsection \<open>A table in memory\<close>

text \<open>The items in the order they were put, the later ones in front; a query sorts the keys.\<close>

type_synonym mem_items = "dynamoHistoryItem list"

definition mem_rows :: "mem_items \<Rightarrow> string \<Rightarrow> string \<rightharpoonup> dynamoHistoryItem" where
  "mem_rows tbl i stamp = find (\<lambda>r. dhi_OrderID r = i \<and> dhi_OccurredAt r = stamp) tbl"

fun insert_newest :: "string \<Rightarrow> string list \<Rightarrow> string list" where
  "insert_newest stamp [] = [stamp]"
| "insert_newest stamp (b # bs) =
     (if stamp = b then b # bs else if bytes_less b stamp then stamp # b # bs else b # insert_newest stamp bs)"

definition mem_keys :: "mem_items \<Rightarrow> string \<Rightarrow> string list" where
  "mem_keys tbl i = foldr insert_newest (map dhi_OccurredAt (filter (\<lambda>r. dhi_OrderID r = i) tbl)) []"

definition mem_dynamo :: "(dynamoHistoryItem, mem_items) dynamo" where
  "mem_dynamo =
     \<lparr>dyn_NewV7 = (\<lambda>tbl. replicate (Suc (length tbl)) (CHR ''h'')), dyn_Marshal = Inr, dyn_Unmarshal = Inr,
      dyn_PutItem = (\<lambda>table raw tbl. (None, raw # tbl)),
      dyn_Query = (\<lambda>table i tbl. (Inr (map (\<lambda>stamp. the (mem_rows tbl i stamp)) (mem_keys tbl i)), tbl)),
      dyn_Scan = (\<lambda>table i limit tbl. (Inr (filter (\<lambda>r. dhi_ID r = i) (take limit tbl)), tbl))\<rparr>"

lemma set_insert_newest [simp]: "set (insert_newest stamp bs) = insert stamp (set bs)"
  by (induction bs) auto

lemma insert_newest_sorted: "newest_first bs \<Longrightarrow> newest_first (insert_newest stamp bs)"
proof (induction bs)
  case (Cons b bs)
  then show ?case using bytes_less_total [of stamp b] by (auto intro: bytes_less_trans)
qed simp

lemma mem_keys_props: "newest_first (mem_keys tbl i) \<and> set (mem_keys tbl i) = dom (mem_rows tbl i)"
proof
  have "newest_first (foldr insert_newest xs [])" for xs by (induction xs) (simp_all add: insert_newest_sorted)
  then show "newest_first (mem_keys tbl i)" by (simp add: mem_keys_def)
  have "set (foldr insert_newest xs []) = set xs" for xs by (induction xs) simp_all
  then show "set (mem_keys tbl i) = dom (mem_rows tbl i)"
    by (auto simp: mem_keys_def mem_rows_def find_Some_iff dom_def find_None_iff not_None_eq [symmetric] simp del: not_None_eq)
qed

interpretation mem_dynamo: dynamo_table mem_dynamo mem_rows "\<lambda>r. r" "\<lambda>r. 0" "\<lambda>m. m"
proof
  fix i tbl raws tbl'
  assume "dyn_Query mem_dynamo OrderHistoryTableName i tbl = (Inr raws, tbl')"
  then show "mem_rows tbl' = mem_rows tbl \<and>
      (\<exists>ats n. newest_first ats \<and> set ats = dom (mem_rows tbl i) \<and> raws = map (\<lambda>stamp. the (mem_rows tbl i stamp)) (take n ats) \<and>
         (sum_list (map (\<lambda>stamp. 0) ats) \<le> 1048576 \<longrightarrow> length ats \<le> n))"
    using mem_keys_props [of tbl i]
    by (intro conjI exI [of _ "mem_keys tbl i"] exI [of _ "length (mem_keys tbl i)"]) (auto simp: mem_dynamo_def)
qed (auto simp: mem_dynamo_def put_row_def mem_rows_def fun_eq_iff)

subsection \<open>Properties\<close>

text \<open>Records as they are saved one after the other, with the identifiers they are given.\<close>

definition save_all :: "('raw, 'tbl) dynamo \<Rightarrow> History list \<Rightarrow> ('tbl, History list) prog" where
  "save_all Y hs = mapE (\<lambda>h. bindE (dynamo_Save Y h) (\<lambda>i. returnE (h\<lparr>h_id := i\<rparr>))) hs"

definition history_of :: "History list \<Rightarrow> history_map \<Rightarrow> history_map" where
  "history_of hs M = foldl (\<lambda>M h. put_history h M) M hs"

lemma history_of_Some:
  assumes "distinct (map key_of hs)"
  shows "history_of hs M i stamp = Some h \<longleftrightarrow>
    (h \<in> set hs \<and> key_of h = (i, stamp)) \<or> M i stamp = Some h \<and> (i, stamp) \<notin> key_of ` set hs"
  using assms
proof (induction hs arbitrary: M)
  case Nil
  then show ?case by (simp add: history_of_def)
next
  case (Cons g hs)
  then have "history_of (g # hs) M i stamp = Some h \<longleftrightarrow>
      (h \<in> set hs \<and> key_of h = (i, stamp)) \<or> put_history g M i stamp = Some h \<and> (i, stamp) \<notin> key_of ` set hs"
    by (simp add: history_of_def)
  with Cons.prems show ?case by (auto simp: put_history_def put_row_def key_of_def split: if_splits)
qed

context dynamo_table
begin

lemma save_all_run:
  assumes "save_all Y hs tbl0 = (Inr saved, tbl)" and "represents tbl0 M"
    and "\<forall>h \<in> set hs. status_IsValid (h_status h) \<and> four_digit_year (h_createdAt h)"
  shows "represents tbl (history_of saved M) \<and>
    list_all2 (\<lambda>h s. \<exists>i. i \<noteq> '''' \<and> (h_id h \<noteq> '''' \<longrightarrow> i = h_id h) \<and> s = h\<lparr>h_id := i\<rparr>) hs saved"
  using assms
proof (induction hs arbitrary: tbl0 M saved)
  case Nil
  then show ?case by (simp add: save_all_def history_of_def returnE_def)
next
  case (Cons h hs)
  then obtain i tbl1 rest where s: "dynamo_Save Y h tbl0 = (Inr i, tbl1)" "save_all Y hs tbl1 = (Inr rest, tbl)"
    "saved = h\<lparr>h_id := i\<rparr> # rest"
    by (auto simp: save_all_def bindE_Inr_iff returnE_def)
  from dynamo_Save_run [OF s(1) Cons.prems(2)] Cons.prems(3)
  have i: "i \<noteq> ''''" "h_id h \<noteq> '''' \<longrightarrow> i = h_id h" "represents tbl1 (put_history (h\<lparr>h_id := i\<rparr>) M)" by simp_all
  from Cons.IH [OF s(2) i(3)] Cons.prems(3) i(1,2) show ?case by (auto simp: s(3) history_of_def)
qed

lemma represents_empty: "\<forall>i. rows tbl i = Map.empty \<Longrightarrow> represents tbl (\<lambda>_. Map.empty)"
  by (simp add: represents_def rel_fun_def)

lemma found_history:
  assumes empty: "\<forall>i. rows tbl0 i = Map.empty" and save: "save_all Y hs tbl0 = (Inr saved, tbl)"
    and valid: "\<forall>h \<in> set hs. status_IsValid (h_status h) \<and> four_digit_year (h_createdAt h)"
    and find: "dynamo_FindByServiceOrderID Y i tbl = (Inr found, tbl')" and keys: "distinct (map key_of saved)"
    and page: "(\<Sum>stamp \<in> dom (rows tbl i). raw_size (the (rows tbl i stamp))) \<le> 1048576"
  shows "mset found = mset (map (reread meta_back) (filter (\<lambda>h. h_serviceOrderID h = i) saved)) \<and>
    newest_first (map (\<lambda>h. format_RFC3339Nano (h_createdAt h)) found)"
proof -
  let ?M = "history_of saved (\<lambda>_. Map.empty)"
  have rep: "represents tbl ?M" using save_all_run [OF save represents_empty [OF empty] valid] by blast
  from dynamo_Find_run(1) [OF find rep] obtain ats n where a: "newest_first ats" "set ats = dom (?M i)"
    "found = map (\<lambda>stamp. reread meta_back (the (?M i stamp))) (take n ats)"
    "sum_list (map (\<lambda>stamp. raw_size (the (rows tbl i stamp))) ats) \<le> 1048576 \<longrightarrow> length ats \<le> n" by blast
  have dist: "distinct ats" using a(1) bytes_less_irrefl by (induction ats) auto
  have rel: "rel_option holds_history (rows tbl i stamp) (?M i stamp)" for stamp
    using rep by (auto simp: represents_def rel_fun_def)
  have "dom (rows tbl i) = dom (?M i)"
    using rel by (auto simp: dom_def) (metis option_rel_Some1 option_rel_Some2)+
  then have "length ats \<le> n" using a(2,4) page dist by (simp add: sum_list_distinct_conv_sum_set)
  then have found: "found = map (reread meta_back) (map (\<lambda>stamp. the (?M i stamp)) ats)" using a(3) by simp
  have stamp: "?M i stamp = Some (the (?M i stamp)) \<and> key_of (the (?M i stamp)) = (i, stamp)" if "stamp \<in> set ats" for stamp
    using that a(2) history_of_Some [OF keys, of "\<lambda>_. Map.empty" i stamp "the (?M i stamp)"] by auto
  have inj: "distinct (map (\<lambda>stamp. the (?M i stamp)) ats)"
    using dist stamp by (auto simp: distinct_map inj_on_def) (metis prod.inject)
  have "set (map (\<lambda>stamp. the (?M i stamp)) ats) = set (filter (\<lambda>h. h_serviceOrderID h = i) saved)"
  proof (intro set_eqI iffI)
    fix h assume "h \<in> set (map (\<lambda>stamp. the (?M i stamp)) ats)"
    then obtain t where "t \<in> set ats" "h = the (?M i t)" by auto
    with stamp [of t] history_of_Some [OF keys, of "\<lambda>_. Map.empty" i t h]
    show "h \<in> set (filter (\<lambda>h. h_serviceOrderID h = i) saved)" by (auto simp: key_of_def)
  next
    fix h assume "h \<in> set (filter (\<lambda>h. h_serviceOrderID h = i) saved)"
    then have "?M i (format_RFC3339Nano (h_createdAt h)) = Some h"
      using history_of_Some [OF keys, of "\<lambda>_. Map.empty" i "format_RFC3339Nano (h_createdAt h)" h] by (auto simp: key_of_def)
    with a(2) show "h \<in> set (map (\<lambda>stamp. the (?M i stamp)) ats)" by (force simp: image_iff dom_def)
  qed
  moreover have "distinct (filter (\<lambda>h. h_serviceOrderID h = i) saved)"
    using keys by (simp add: distinct_map)
  ultimately have "mset (map (\<lambda>stamp. the (?M i stamp)) ats) = mset (filter (\<lambda>h. h_serviceOrderID h = i) saved)"
    using inj set_eq_iff_mset_eq_distinct by blast
  then have "mset found = mset (map (reread meta_back) (filter (\<lambda>h. h_serviceOrderID h = i) saved))"
    unfolding found by (simp only: mset_map)
  moreover have "map (\<lambda>h. format_RFC3339Nano (h_createdAt h)) found = ats"
    unfolding found map_map using stamp by (intro map_idI) (auto simp: reread_def key_of_def)
  ultimately show ?thesis using a(1) by simp
qed

end

text \<open>
  Claim C40. The history of an order is what was saved for it: after any records of orders have been saved into an empty
  table, no two of one order at one moment, reading an order's history answers each of its records once and
  nothing else, each with the moment to the nanosecond, the status and the identifier it was saved with, in descending
  order of the printed moments. It does so as long as the order's history fits in one page of a query.
\<close>

theorem history_store_correct:
  assumes "dynamo_table Y rows item_of raw_size back" and "\<forall>i. rows tbl0 i = Map.empty"
    and "save_all Y hs tbl0 = (Inr saved, tbl)"
    and "\<forall>h \<in> set hs. status_IsValid (h_status h) \<and> four_digit_year (h_createdAt h)"
    and "dynamo_FindByServiceOrderID Y i tbl = (Inr found, tbl')" and "distinct (map key_of saved)"
    and "(\<Sum>stamp \<in> dom (rows tbl i). raw_size (the (rows tbl i stamp))) \<le> 1048576"
  shows "mset found = mset (map (reread back) (filter (\<lambda>h. h_serviceOrderID h = i) saved)) \<and>
    newest_first (map (\<lambda>h. format_RFC3339Nano (h_createdAt h)) found) \<and>
    list_all2 (\<lambda>h s. \<exists>j. j \<noteq> '''' \<and> (h_id h \<noteq> '''' \<longrightarrow> j = h_id h) \<and> s = h\<lparr>h_id := j\<rparr>) hs saved"
  using dynamo_table.found_history [OF assms(1-7)]
    dynamo_table.save_all_run [OF assms(1,3) dynamo_table.represents_empty [OF assms(1,2)] assms(4)] by blast

text \<open>The first moments of the year 2000.\<close>

definition year_2000 :: time where
  "year_2000 = 946684800000000000"

definition sample_record :: "string \<Rightarrow> time \<Rightarrow> OrderStatus \<Rightarrow> History" where
  "sample_record i t st =
     \<lparr>h_id = '''', h_serviceOrderID = i, h_metadata = BuildStatusOnlyMetadata StatusReceived st, h_status = st,
      h_createdAt = t\<rparr>"

definition sample_records :: "History list" where
  "sample_records =
     [sample_record ''os'' year_2000 StatusDiagnosing, sample_record ''other'' year_2000 StatusCanceled,
      sample_record ''os'' (year_2000 + 1500000000) StatusPendingAuthorization]"

lemma mem_dynamo_Save: "\<exists>i. dynamo_Save mem_dynamo h tbl = (Inr i, toDynamoHistoryItem (h\<lparr>h_id := i\<rparr>) # tbl)"
  by (cases "h_id h = ''''")
    (simp_all add: dynamo_Save_def dynamo_store_def bindE_def returnE_def dynamo_call_def history_SetID_def mem_dynamo_def)

lemma mem_save_all: "\<exists>saved tbl'. save_all mem_dynamo hs tbl = (Inr saved, tbl')"
proof (induction hs arbitrary: tbl)
  case Nil
  show ?case by (simp add: save_all_def returnE_def)
next
  case (Cons h hs)
  obtain i where "dynamo_Save mem_dynamo h tbl = (Inr i, toDynamoHistoryItem (h\<lparr>h_id := i\<rparr>) # tbl)"
    using mem_dynamo_Save by blast
  with Cons.IH [of "toDynamoHistoryItem (h\<lparr>h_id := i\<rparr>) # tbl"] show ?case
    by (auto simp: save_all_def bindE_def returnE_def)
qed

lemma printed_moments_differ:
  assumes "format_RFC3339Nano t = format_RFC3339Nano t'" and "four_digit_year t" and "four_digit_year t'"
  shows "t = t'"
proof -
  have "Some t = Some t'"
    using arg_cong [OF assms(1), of time_Parse] unfolding parse_format_nano [OF assms(2)] parse_format_nano [OF assms(3)] .
  then show ?thesis by simp
qed

lemma saved_keys:
  "list_all2 (\<lambda>h s. \<exists>j. j \<noteq> '''' \<and> (h_id h \<noteq> '''' \<longrightarrow> j = h_id h) \<and> s = h\<lparr>h_id := j\<rparr>) hs saved \<Longrightarrow>
   map key_of saved = map key_of hs"
  by (induction rule: list_all2_induct) (auto simp: key_of_def)

theorem history_store_correct_witness:
  "\<exists>saved tbl found tbl'. save_all mem_dynamo sample_records [] = (Inr saved, tbl) \<and>
     dynamo_FindByServiceOrderID mem_dynamo ''os'' tbl = (Inr found, tbl') \<and> length found = 2"
proof -
  obtain saved tbl where run: "save_all mem_dynamo sample_records [] = (Inr saved, tbl)" using mem_save_all by blast
  obtain r tbl' where find: "dynamo_FindByServiceOrderID mem_dynamo ''os'' tbl = (r, tbl')" by fastforce
  have years: "four_digit_year year_2000" "four_digit_year (year_2000 + 1500000000)"
    by (simp_all add: year_2000_def four_digit_year_def unix_days_def)
  then have valid: "\<forall>h \<in> set sample_records. status_IsValid (h_status h) \<and> four_digit_year (h_createdAt h)"
    by (simp add: sample_records_def sample_record_def)
  have empty: "\<forall>i. mem_rows [] i = Map.empty" by (simp add: mem_rows_def fun_eq_iff)
  note all = mem_dynamo.save_all_run [OF run mem_dynamo.represents_empty [OF empty] valid]
  from mem_dynamo.dynamo_Find_run(2) [OF find conjunct1 [OF all]] obtain found where found: "r = Inr found"
    by (auto simp: mem_dynamo_def)
  have keys: "map key_of saved = map key_of sample_records" by (rule saved_keys [OF conjunct2 [OF all]])
  have "distinct (map key_of sample_records)"
    using printed_moments_differ [OF _ years] by (auto simp: sample_records_def sample_record_def key_of_def)
  with keys have dist: "distinct (map key_of saved)" by simp
  from history_store_correct [OF mem_dynamo.dynamo_table_axioms empty run valid find [unfolded found] dist]
  have "mset found = mset (map (reread (\<lambda>m. m)) (filter (\<lambda>h. h_serviceOrderID h = ''os'') saved))" by simp
  then have "length found = length (filter (\<lambda>h. h_serviceOrderID h = ''os'') saved)"
    by (metis length_map mset_eq_length)
  also have "\<dots> = length (filter (\<lambda>k. fst k = ''os'') (map key_of saved))" by (simp add: filter_map comp_def key_of_def)
  also have "\<dots> = 2" unfolding keys by (simp add: sample_records_def sample_record_def key_of_def)
  finally show ?thesis using run find found by blast
qed

text \<open>
  The printed moments are not in the order of the moments: a fraction loses the zeros at its end, and the letter that
  ends a text comes after the digits. Of two records of the same second the earlier can be read as the newer.
\<close>

lemma year_day_2000: "year_day 730485 = (2000, 0)"
  by (simp add: year_day_def year_from.simps year_length_def leap_year_def)

lemma month_2000: "month_from 2000 (Suc 0) 0 = (1, 1)"
  by (simp add: month_from.simps days_in_def)

lemma frac_2000: "fraction_text 120000000 = ''.12''" "fraction_text 100000000 = ''.1''"
  by (simp_all add: fraction_text_def fraction_digits_def digits_of_numeral char_of_def bit_0)

lemma printed_year_2000:
  "format_RFC3339Nano (year_2000 + 120000000) = ''2000-01-01T00:00:00.12Z''"
  "format_RFC3339Nano (year_2000 + 100000000) = ''2000-01-01T00:00:00.1Z''"
  by (simp_all add: year_2000_def format_RFC3339Nano_def format_with_def unix_days_def year_day_2000 month_2000
      year_text_def frac_2000 digits_of_numeral char_of_def bit_0)

lemma printed_order_is_not_time:
  "bytes_less (format_RFC3339Nano (year_2000 + 120000000)) (format_RFC3339Nano (year_2000 + 100000000))"
  by (simp add: printed_year_2000)

text \<open>A second record of an order at the same moment replaces the first.\<close>

lemma same_moment_replaces:
  "history_of [h, h\<lparr>h_id := i\<rparr>] M = history_of [h\<lparr>h_id := i\<rparr>] M"
  by (simp add: history_of_def put_history_def put_row_def fun_eq_iff)

text \<open>The limit of a scan counts the items before they are filtered, so that only one item is looked at.\<close>

lemma record_not_found_by_id:
  "fst (bindE (save_all mem_dynamo sample_records) (\<lambda>saved. dynamo_FindByID mem_dynamo (h_id (hd saved))) []) =
   Inl ErrHistoryNotFound"
  by (simp add: save_all_def sample_records_def sample_record_def dynamo_Save_def dynamo_store_def bindE_def returnE_def
      throwE_def dynamo_call_def history_SetID_def mem_dynamo_def dynamo_FindByID_def toDynamoHistoryItem_def Let_def)

end
