(* ===== verification/Infrastructure.thy ===== *)
theory Infrastructure
  imports Mercado_Pago History_Store
begin

text \<open>
  What the service is built from at its start and talks to: the queues (\<^verbatim>\<open>shared/infra/sqs/client.go\<close>), the publisher of
  requests (\<^verbatim>\<open>messaging/publishers\<close>), the table of the history (\<^verbatim>\<open>shared/infra/dynamodb/client.go\<close>), the database
  (\<^verbatim>\<open>shared/infra/database\<close>), the configuration of AWS (\<^verbatim>\<open>shared/infra/awsconfig\<close>) and the e-mails
  (\<^verbatim>\<open>shared/infra/email\<close>). The calls of the libraries are the fields of records; \<open>env\<close> is \<^verbatim>\<open>os.Getenv\<close>. An operation
  that creates something answers the events too.
\<close>

type_synonym environment = "string \<Rightarrow> string"

datatype infra_event =
    QueueCreated string "(string \<times> string) list"
  | TableCreated string

subsection \<open>Queues\<close>

text \<open>
  The answer of \<^verbatim>\<open>GetQueueUrl\<close>: the address, which may be a nil pointer, the error that there is no such queue,
  or another error.
\<close>

datatype queue_lookup =
    QueueAnswer "string option"
  | QueueDoesNotExist
  | QueueFailure string

text \<open>
  \<open>sqs_Marshal\<close> is the text \<^verbatim>\<open>json.Marshal\<close> writes for a value, \<open>sqs_SendMessage\<close> the error of a message that is not
  taken at a moment.
\<close>

record queue_service =
  sqs_Marshal :: "json \<Rightarrow> string"
  sqs_SendMessage :: "nat \<Rightarrow> string \<Rightarrow> string \<Rightarrow> string option"
  sqs_GetQueueUrl :: "string \<Rightarrow> queue_lookup"
  sqs_CreateQueue :: "string \<Rightarrow> (string \<times> string) list \<Rightarrow> string + string option"
  sqs_GetQueueAttributes :: "string option \<Rightarrow> string + (string \<rightharpoonup> string)"

text \<open>\<^verbatim>\<open>aws.ToString\<close>.\<close>

definition aws_ToString :: "string option \<Rightarrow> string" where
  "aws_ToString p = (case p of None \<Rightarrow> '''' | Some s \<Rightarrow> s)"

text \<open>\<^verbatim>\<open>strings.ToUpper\<close> for the names of the queues, which are ASCII.\<close>

definition upper_char :: "char \<Rightarrow> char" where
  "upper_char c =
     (if 97 \<le> (of_char c :: nat) \<and> (of_char c :: nat) \<le> 122 then char_of ((of_char c :: nat) - 32) else c)"

definition queueURLEnv :: "environment \<Rightarrow> string \<Rightarrow> string" where
  "queueURLEnv env name =
     env (map upper_char (map (\<lambda>c. if c = CHR ''-'' then CHR ''_'' else c) name) @ ''_QUEUE_URL'')"

definition createQueueWithDLQ :: "queue_service \<Rightarrow> string \<Rightarrow> (error + string) \<times> infra_event list" where
  "createQueueWithDLQ Q name =
     (let dlqName = name @ ''-dlq''; dlqAttributes = [(''MessageRetentionPeriod'', ''1209600'')] in
      case sqs_CreateQueue Q dlqName dlqAttributes of
        Inl err \<Rightarrow> (Inl (ErrorString (''create SQS DLQ '' @ dlqName @ '': '' @ err)), [])
      | Inr dlqURL \<Rightarrow>
          (case sqs_GetQueueAttributes Q dlqURL of
             Inl err \<Rightarrow> (Inl (ErrorString (''get SQS DLQ attributes '' @ dlqName @ '': '' @ err)),
                         [QueueCreated dlqName dlqAttributes])
           | Inr attrs \<Rightarrow>
               let redrive = sqs_Marshal Q (JObject
                     [(''deadLetterTargetArn'', JString (aws_ToString (attrs ''QueueArn''))), (''maxReceiveCount'', JNumber ''3'')]);
                   attributes = [(''VisibilityTimeout'', ''30''), (''MessageRetentionPeriod'', ''1209600''),
                     (''RedrivePolicy'', redrive)] in
               (case sqs_CreateQueue Q name attributes of
                  Inl err \<Rightarrow> (Inl (ErrorString (''create SQS queue '' @ name @ '': '' @ err)),
                              [QueueCreated dlqName dlqAttributes])
                | Inr url \<Rightarrow> (Inr (aws_ToString url),
                              [QueueCreated dlqName dlqAttributes, QueueCreated name attributes]))))"

text \<open>An answer without an address has no error to wrap, which \<^verbatim>\<open>fmt\<close> prints as \<^verbatim>\<open>%!w(<nil>)\<close>.\<close>

definition ResolveQueueURL :: "queue_service \<Rightarrow> environment \<Rightarrow> string \<Rightarrow> (error + string) \<times> infra_event list" where
  "ResolveQueueURL Q env name =
     (if queueURLEnv env name \<noteq> '''' then (Inr (queueURLEnv env name), [])
      else case sqs_GetQueueUrl Q name of
        QueueAnswer (Some url) \<Rightarrow> (Inr url, [])
      | QueueAnswer None \<Rightarrow> (Inl (ErrorString (''get SQS queue '' @ name @ '': %!w(<nil>)'')), [])
      | QueueFailure err \<Rightarrow> (Inl (ErrorString (''get SQS queue '' @ name @ '': '' @ err)), [])
      | QueueDoesNotExist \<Rightarrow>
          if env ''AWS_ENDPOINT_URL'' = '''' \<and> env ''SQS_AUTO_CREATE_QUEUES'' \<noteq> ''true''
          then (Inl (ErrorString (''SQS queue '' @ name @ '' does not exist'')), [])
          else createQueueWithDLQ Q name)"

fun resolve_from ::
  "queue_service \<Rightarrow> environment \<Rightarrow> (string \<rightharpoonup> string) \<Rightarrow> string list \<Rightarrow>
   (error + (string \<rightharpoonup> string)) \<times> infra_event list" where
  "resolve_from Q env urls [] = (Inr urls, [])"
| "resolve_from Q env urls (name # names) =
     (case ResolveQueueURL Q env name of
        (Inl err, created) \<Rightarrow> (Inl err, created)
      | (Inr url, created) \<Rightarrow>
          (case resolve_from Q env (urls(name \<mapsto> url)) names of
             (result, later) \<Rightarrow> (result, created @ later)))"

definition ResolveQueueURLs ::
  "queue_service \<Rightarrow> environment \<Rightarrow> string list \<Rightarrow> (error + (string \<rightharpoonup> string)) \<times> infra_event list" where
  "ResolveQueueURLs Q env names = resolve_from Q env Map.empty names"

subsection \<open>Requests to the stock service\<close>

record OrderInventoryOperationRequested =
  eq_Event :: string
  eq_SagaID :: string
  eq_OrderID :: string
  eq_Operation :: string
  eq_Items :: "InventoryItem list"
  eq_OccurredAt :: string

definition item_json :: "InventoryItem \<Rightarrow> json" where
  "item_json item =
     JObject [(''product_id'', JString (inv_ProductID item)), (''quantity'', JNumber (int_text (sint (inv_Quantity item))))]"

definition request_json :: "OrderInventoryOperationRequested \<Rightarrow> json" where
  "request_json event =
     JObject [(''event'', JString (eq_Event event)), (''saga_id'', JString (eq_SagaID event)),
       (''order_id'', JString (eq_OrderID event)), (''operation'', JString (eq_Operation event)),
       (''items'', JArray (map item_json (eq_Items event))), (''occurred_at'', JString (eq_OccurredAt event))]"

text \<open>The request is dated \<open>now\<close>. Marshalling strings and numbers does not fail.\<close>

definition publish_request ::
  "queue_service \<Rightarrow> string \<Rightarrow> time \<Rightarrow> nat \<Rightarrow> string \<Rightarrow> string \<Rightarrow> StockOperationType \<Rightarrow> InventoryItem list \<Rightarrow>
   error + unit" where
  "publish_request Q queueURL now t sagaID orderID operation items =
     (let payload = sqs_Marshal Q (request_json
        \<lparr>eq_Event = ''OrderInventoryOperationRequested'', eq_SagaID = sagaID, eq_OrderID = orderID,
         eq_Operation = op_string operation, eq_Items = items, eq_OccurredAt = format_RFC3339 now\<rparr>) in
      case sqs_SendMessage Q t queueURL payload of
        Some err \<Rightarrow> Inl (ErrorString (''publish inventory operation request: '' @ err))
      | None \<Rightarrow> Inr ())"

subsection \<open>The table of the history\<close>

datatype table_lookup =
    TableFound
  | TableNotFound
  | TableFailure string

datatype table_creation =
    TableMade
  | TableInUse
  | TableRefused string

record table_service =
  ddb_DescribeTable :: "string \<Rightarrow> table_lookup"
  ddb_CreateTable :: "string \<Rightarrow> (string \<times> string) list \<Rightarrow> table_creation"
  ddb_Wait :: "string \<Rightarrow> string option"

text \<open>The key of the table: the order, and the time the record was made, as texts.\<close>

definition history_key :: "(string \<times> string) list" where
  "history_key = [(''order_id'', ''HASH''), (''occurred_at'', ''RANGE'')]"

definition EnsureOrderHistoryTable :: "table_service \<Rightarrow> (error + unit) \<times> infra_event list" where
  "EnsureOrderHistoryTable T =
     (let wait = (case ddb_Wait T OrderHistoryTableName of
            Some err \<Rightarrow> Inl (ErrorString (''wait DynamoDB table '' @ OrderHistoryTableName @ '': '' @ err))
          | None \<Rightarrow> Inr ()) in
      case ddb_DescribeTable T OrderHistoryTableName of
        TableFound \<Rightarrow> (Inr (), [])
      | TableFailure err \<Rightarrow>
          (Inl (ErrorString (''describe DynamoDB table '' @ OrderHistoryTableName @ '': '' @ err)), [])
      | TableNotFound \<Rightarrow>
          (case ddb_CreateTable T OrderHistoryTableName history_key of
             TableRefused err \<Rightarrow>
               (Inl (ErrorString (''create DynamoDB table '' @ OrderHistoryTableName @ '': '' @ err)), [])
           | TableInUse \<Rightarrow> (wait, [])
           | TableMade \<Rightarrow> (wait, [TableCreated OrderHistoryTableName])))"

subsection \<open>Configuration of AWS\<close>

record aws_options =
  aws_Region :: string
  aws_Credentials :: "(string \<times> string) option"
  aws_BaseEndpoint :: "string option"

fun firstNonEmpty :: "string list \<Rightarrow> string" where
  "firstNonEmpty [] = ''''"
| "firstNonEmpty (v # vs) = (if v \<noteq> '''' then v else firstNonEmpty vs)"

text \<open>The options given to \<^verbatim>\<open>config.LoadDefaultConfig\<close>.\<close>

definition Load_options :: "environment \<Rightarrow> aws_options" where
  "Load_options env =
     (let region = firstNonEmpty [env ''AWS_REGION'', env ''AWS_DEFAULT_REGION'', ''us-east-1''];
          endpointURL = env ''AWS_ENDPOINT_URL'' in
      \<lparr>aws_Region = region,
       aws_Credentials = (if endpointURL \<noteq> '''' then Some (''test'', ''test'') else None),
       aws_BaseEndpoint = (if endpointURL \<noteq> '''' then Some endpointURL else None)\<rparr>)"

subsection \<open>The database\<close>

definition BuildDSN :: "environment \<Rightarrow> string" where
  "BuildDSN env =
     (let sslmode = (if env ''DB_SSLMODE'' = '''' then ''disable'' else env ''DB_SSLMODE'') in
      ''host='' @ env ''DB_HOST'' @ '' user='' @ env ''DB_USER'' @ '' password='' @ env ''DB_PASSWORD'' @
      '' dbname='' @ env ''DB_NAME'' @ '' port='' @ env ''DB_PORT'' @ '' sslmode='' @ sslmode)"

definition GetModelsToMigrate :: "string list" where
  "GetModelsToMigrate = [''ServiceOrderModel'', ''ServiceOrderItemModel'', ''ServiceOrderHistoryModel'']"

record 'h db_opener =
  dbo_Open :: "string \<Rightarrow> string + 'h"
  dbo_Use :: "'h \<Rightarrow> string option"
  dbo_AutoMigrate :: "'h \<Rightarrow> string list \<Rightarrow> string option"

definition ConnectWithDependencies :: "environment \<Rightarrow> 'h db_opener \<Rightarrow> error + 'h" where
  "ConnectWithDependencies env opener =
     (case dbo_Open opener (BuildDSN env) of
        Inl err \<Rightarrow> Inl (ErrorString (''failed to connect to database: '' @ err))
      | Inr db \<Rightarrow>
          (case dbo_Use opener db of
             Some err \<Rightarrow> Inl (ErrorString (''failed to register OTel plugin: '' @ err))
           | None \<Rightarrow>
               (case dbo_AutoMigrate opener db GetModelsToMigrate of
                  Some err \<Rightarrow> Inl (ErrorString (''failed to migrate database: '' @ err))
                | None \<Rightarrow> Inr db)))"

subsection \<open>E-mails\<close>

record SMTPEmailService =
  smtp_host :: string
  smtp_port :: string
  smtp_username :: string
  smtp_password :: string
  smtp_from :: string

definition email_getEnv :: "environment \<Rightarrow> string \<Rightarrow> string \<Rightarrow> string" where
  "email_getEnv env key defaultValue = (if env key = '''' then defaultValue else strings_TrimSpace (env key))"

definition NewSMTPEmailService :: "environment \<Rightarrow> SMTPEmailService" where
  "NewSMTPEmailService env =
     \<lparr>smtp_host = email_getEnv env ''SMTP_HOST'' ''smtp.gmail.com'', smtp_port = email_getEnv env ''SMTP_PORT'' ''587'',
      smtp_username = email_getEnv env ''SMTP_USERNAME'' '''', smtp_password = email_getEnv env ''SMTP_PASSWORD'' '''',
      smtp_from = email_getEnv env ''SMTP_FROM'' ''noreply@oficinatech.com''\<rparr>"

text \<open>The accents are written as in \<open>Error_Mapping\<close>.\<close>

definition statusMessages :: "string \<rightharpoonup> string" where
  "statusMessages = map_of
     [(''RECEIVED'', ''Recebida - Sua ordem foi registrada em nosso sistema''),
      (''DIAGNOSING'', pt ''Em Diagn/ostico - Estamos avaliando o ve/iculo''),
      (''PENDING_AUTHORIZATION'', pt ''Aguardando Autoriza+c~ao - Or+camento dispon/ivel para aprova+c~ao''),
      (''AUTHORIZED'', pt ''Autorizada - Iniciando os servi+cos''),
      (''IN_PROGRESS'', pt ''Em Andamento - Servi+cos sendo executados''),
      (''COMPLETED'', pt ''Conclu/ida - Servi+cos finalizados''),
      (''AWAITING_PAYMENT'', pt ''Aguardando Pagamento - Link de pagamento dispon/ivel''),
      (''READY_FOR_PICKUP'', pt ''Pronta para Retirada - Ve/iculo dispon/ivel''),
      (''PAID'', ''Paga - Pagamento confirmado''),
      (''DELIVERED'', pt ''Entregue - Ve/iculo retirado''),
      (''CANCELED'', ''Cancelada - Ordem cancelada''),
      (''AUTHORIZATION_DENIED'', pt ''Autoriza+c~ao Negada - Or+camento n~ao aprovado'')]"

definition newline :: string where
  "newline = [CHR 0x0A]"

definition crlf :: string where
  "crlf = [CHR 0x0D, CHR 0x0A]"

definition buildStatusUpdateEmailBody :: "string \<Rightarrow> string \<Rightarrow> string \<Rightarrow> string \<Rightarrow> string" where
  "buildStatusUpdateEmailBody customerName serviceOrderID oldStatus newStatus =
     (let newStatusMsg = (case statusMessages newStatus of Some m \<Rightarrow> m | None \<Rightarrow> newStatus) in
      pt ''Ol/a '' @ customerName @ '','' @ newline @ newline @
      pt ''A sua Ordem de Servi+co #'' @ serviceOrderID @ '' teve o status atualizado.'' @ newline @ newline @
      ''Status Anterior: '' @ oldStatus @ newline @ ''Novo Status: '' @ newStatus @ newline @ newline @
      newStatusMsg @ newline @ newline @
      pt ''Para mais informa+c~oes, entre em contato conosco.'' @ newline @ newline @
      ''Atenciosamente,'' @ newline @ ''Equipe Oficina Tech'' @ newline)"

text \<open>
  A message handed to \<^verbatim>\<open>smtp.SendMail\<close>: the address of the server, the user and the password, the sender, the
  receivers and the text.
\<close>

record mail =
  mail_addr :: string
  mail_auth :: "string \<times> string \<times> string"
  mail_from :: string
  mail_to :: "string list"
  mail_msg :: string

definition sendEmail ::
  "(mail \<Rightarrow> string option) \<Rightarrow> SMTPEmailService \<Rightarrow> string \<Rightarrow> string \<Rightarrow> string \<Rightarrow> (error + unit) \<times> mail list" where
  "sendEmail smtp_SendMail s to subject text_body =
     (let m = \<lparr>mail_addr = smtp_host s @ '':'' @ smtp_port s,
            mail_auth = (smtp_username s, smtp_password s, smtp_host s), mail_from = smtp_from s, mail_to = [to],
            mail_msg = ''From: '' @ smtp_from s @ crlf @ ''To: '' @ to @ crlf @ ''Subject: '' @ subject @ crlf @
              ''Content-Type: text/plain; charset=UTF-8'' @ crlf @ crlf @ text_body @ crlf\<rparr> in
      (case smtp_SendMail m of
         Some err \<Rightarrow> Inl (ErrorString (''falha ao enviar email: '' @ err))
       | None \<Rightarrow> Inr (), [m]))"

text \<open>Without a user or a password the message is only printed.\<close>

definition smtp_SendStatusUpdateEmail ::
  "(mail \<Rightarrow> string option) \<Rightarrow> SMTPEmailService \<Rightarrow> string \<Rightarrow> string \<Rightarrow> string \<Rightarrow> string \<Rightarrow> string \<Rightarrow>
   (error + unit) \<times> mail list" where
  "smtp_SendStatusUpdateEmail smtp_SendMail s customerEmail customerName serviceOrderID oldStatus newStatus =
     (if smtp_username s = '''' \<or> smtp_password s = '''' then (Inr (), [])
      else sendEmail smtp_SendMail s customerEmail (pt ''Atualiza+c~ao da Ordem de Servi+co #'' @ serviceOrderID)
        (buildStatusUpdateEmailBody customerName serviceOrderID oldStatus newStatus))"

definition noop_SendStatusUpdateEmail :: "nat \<Rightarrow> string \<Rightarrow> string \<Rightarrow> string \<Rightarrow> string \<Rightarrow> string \<Rightarrow> error + unit" where
  "noop_SendStatusUpdateEmail t customerEmail customerName serviceOrderID oldStatus newStatus = Inr ()"

subsection \<open>The publisher as a dependency\<close>

definition with_publisher :: "queue_service \<Rightarrow> string \<Rightarrow> 'db deps \<Rightarrow> 'db deps" where
  "with_publisher Q queueURL D =
     D\<lparr>Publisher_PublishRequest := (\<lambda>t sagaID orderID operation items.
         publish_request Q queueURL (time_Now D t) t sagaID orderID operation items)\<rparr>"

lemma with_publisher_simps [simp]:
  "orderRepo (with_publisher Q u D) = orderRepo D" "uuid_NewV7 (with_publisher Q u D) = uuid_NewV7 D"
  "time_Now (with_publisher Q u D) = time_Now D"
  by (simp_all add: with_publisher_def)

end
