(* ===== verification/Delivery_Properties.thy ===== *)
theory Delivery_Properties
  imports Infrastructure Consumers_Properties
begin

text \<open>
  The conversation with the stock service: the requests as they are written to the queue, and the way from a started
  saga to its end when the request is answered.
\<close>

subsection \<open>Requests as they are sent\<close>

lemma service_env_with_publisher: "service_env D canon view \<Longrightarrow> service_env (with_publisher Q u D) canon view"
  by (simp add: service_env_def service_env_axioms_def)

text \<open>The text a request is sent as.\<close>

definition request_text ::
  "queue_service \<Rightarrow> time \<Rightarrow> string \<Rightarrow> string \<Rightarrow> StockOperationType \<Rightarrow> InventoryItem list \<Rightarrow> string" where
  "request_text Q now sagaID orderID operation items =
     sqs_Marshal Q (request_json
        \<lparr>eq_Event = ''OrderInventoryOperationRequested'', eq_SagaID = sagaID, eq_OrderID = orderID,
         eq_Operation = op_string operation, eq_Items = items, eq_OccurredAt = format_RFC3339 now\<rparr>)"

lemma publish_with_publisher:
  "PublishRequest (with_publisher Q u D) sagaID orderID operation items w = (Inr (), w') \<longleftrightarrow>
   sqs_SendMessage Q (w_tick w) u (request_text Q (time_Now D (w_tick w)) sagaID orderID operation items) = None \<and>
   w' = w\<lparr>w_log := w_log w @ [InventoryRequested sagaID orderID operation items], w_tick := Suc (w_tick w)\<rparr>"
  by (auto simp: PublishRequest_def external_def with_publisher_def publish_request_def request_text_def Let_def
      split: option.split)

subsection \<open>An outside that answers\<close>

text \<open>
  The stores take what they are given and find what they hold, and the queue deletes: what it takes for the service
  not to be stopped by its surroundings. A save is of a stored order whose lines and parties are as they are stored.
\<close>

definition answering ::
  "'db deps \<Rightarrow> (string \<Rightarrow> string option) \<Rightarrow> ('db \<Rightarrow> string \<Rightarrow> order_view option) \<Rightarrow> bool" where
  "answering D canon view \<longleftrightarrow>
     (\<forall>i j v db. canon i = Some j \<longrightarrow> view db j = Some v \<longrightarrow> (\<exists>s. fst (repo_FindByID (orderRepo D) i db) = Inr s)) \<and>
     (\<forall>s v db. held canon s (view db) \<longrightarrow> view db (so_id s) = Some v \<longrightarrow> view_wf v \<longrightarrow>
        v_items (abs_order s) = v_items v \<longrightarrow> so_customerID s = v_customerID v \<longrightarrow> so_vehicleID s = v_vehicleID v \<longrightarrow>
        active (so_items s) = so_items s \<longrightarrow> (\<exists>s'. fst (repo_Save (orderRepo D) s db) = Inr s')) \<and>
     (\<forall>t h. \<exists>i. HistoryRepository_Save D t h = Inr i) \<and> (\<forall>t r. SQS_DeleteMessage D t r = Inr ())"

lemma answering_mem: "answering (mem_deps st) mem_canon mem_view"
proof -
  have find: "\<exists>s. fst (mem_FindByID i db) = Inr s" if "mem_canon i = Some j" "mem_view db j = Some v" for i j v db
    using that by (auto simp: mem_FindByID_def mem_view_def mem_canon_def split: if_splits option.splits)
  have save: "\<exists>s'. fst (mem_Save s db) = Inr s'"
    if h: "held mem_canon s (mem_view db)" and v: "mem_view db (so_id s) = Some v" and wf: "view_wf v"
      and eq: "v_items (abs_order s) = v_items v" "so_customerID s = v_customerID v" "so_vehicleID s = v_vehicleID v"
      and act: "active (so_items s) = so_items s" for s v db
  proof -
    from v obtain s0 where "v = abs_order s0" "mem_readable (so_id s) s0"
      by (auto simp: mem_view_def mem_lookup_def split: option.splits if_splits)
    then have parties: "so_customerID s \<noteq> ''''" "so_vehicleID s \<noteq> ''''" using eq by (simp_all add: mem_readable_def loaded_def)
    have "item_referenceID i \<noteq> ''''" if "i \<in> set (so_items s)" for i
    proof -
      have "abs_item i \<in># v_items (abs_order s)" using that act by (simp add: set_abs_items)
      then have "item_view_wf (abs_item i)" using wf eq(1) by (simp add: view_wf_def)
      then show ?thesis by (simp add: item_view_wf_def abs_item_def)
    qed
    with h parties show ?thesis by (simp add: mem_Save_def held_def Let_def)
  qed
  show ?thesis
    unfolding answering_def using find save by (simp add: mem_deps_def mem_repo_def)
qed

lemma fst_Inr: "fst p = Inr x \<Longrightarrow> \<exists>w. p = (Inr x, w)"
  by (cases p) auto

context service_env
begin

lemma FindByID_answers:
  assumes "answering D canon view" and "canon i = Some j" and "view (w_db w) j = Some v"
  shows "\<exists>s w'. FindByID D i w = (Inr s, w') \<and> so_id s = j \<and> abs_order s = v \<and> loaded s \<and>
    view (w_db w') = view (w_db w) \<and> w_log w' = w_log w \<and> held canon s (view (w_db w'))"
proof -
  from assms obtain s where "fst (repo_FindByID (orderRepo D) i (w_db w)) = Inr s" unfolding answering_def by blast
  from fst_Inr [OF this] obtain w' where run: "FindByID D i w = (Inr s, w')" by (auto simp: FindByID_def on_db_def)
  from FindByID_run [OF this] run assms(2,3) show ?thesis by (intro exI [of _ s] exI [of _ w']) auto
qed

lemma saveHistory_answers:
  assumes "answering D canon view" and "so_id s \<noteq> ''''"
  shows "\<exists>w'. saga_saveHistory D s a b op sid fr nts w = (Inr (), w')"
proof -
  obtain i where "HistoryRepository_Save D (Suc (Suc (w_tick w))) h = Inr (i h)" for h
    using assms(1) unfolding answering_def by metis
  with assms(2) show ?thesis
    by (simp add: saga_saveHistory_def NewHistoryE_def clock_bind NewHistory_def liftE_def bindE_def history_Save_def
        external_def returnE_def Now_def)
qed

lemma transitionLocal_answers:
  assumes ans: "answering D canon view" and held: "held canon s (view (w_db w))"
    and v: "view (w_db w) (so_id s) = Some (abs_order s)" "view_wf (abs_order s)" and act: "active (so_items s) = so_items s"
    and t: "t \<noteq> StatusAwaitingPayment" "so_status s = t \<or> CanTransitionTo (so_status s) t"
  shows "\<exists>x w'. transitionLocal D s t op sid remarks w = (Inr x, w')"
proof -
  let ?move = "if so_status s \<noteq> t then UpdateStatusE D t s else returnE s"
  obtain r1 w1 where m: "?move w = (r1, w1)" by fastforce
  have "\<exists>s1. r1 = Inr s1"
    using m t(2) by (cases "so_status s = t") (auto simp: returnE_def UpdateStatus_Inr_iff UpdateStatus_Inl_iff
      dest!: UpdateStatusE_run intro: sum.exhaust [of r1])
  then obtain s1 where m1: "?move w = (Inr s1, w1)" using m by blast
  note mv = maybe_update_run [OF m1]
  have held1: "held canon s1 (view (w_db w))"
    using m1 t(1) held_UpdateStatus [OF held _ t(1)] held by (auto simp: returnE_def dest!: UpdateStatusE_run split: if_splits)
  obtain r2 w2 where c: "CompleteSagaE D s1 w1 = (r2, w2)" by fastforce
  from CompleteSagaE_run [OF this] obtain n where s2: "r2 = Inr (CompleteSaga n s1)" and q2: "quiet w1 w2" by blast
  let ?s2 = "CompleteSaga n s1"
  have "so_id ?s2 \<noteq> ''''" using held1 by (simp add: held_def)
  then obtain w3 where h: "saga_saveHistory D ?s2 (so_status s) t op sid None remarks w2 = (Inr (), w3)"
    using saveHistory_answers [OF ans] by blast
  have view3: "view (w_db w3) = view (w_db w)"
    using mv(1) q2 saga_saveHistory_run(1) [OF h] by (simp add: quiet_def)
  have held2: "held canon ?s2 (view (w_db w3))" using held_CompleteSaga [OF held1] by (simp add: view3)
  have items: "so_items s1 = so_items s" by (rule mv(5))
  have "so_customerID s1 = so_customerID s" "so_vehicleID s1 = so_vehicleID s"
    using arg_cong [OF mv(3), of v_customerID] arg_cong [OF mv(3), of v_vehicleID] by (auto split: if_splits)
  then have "\<exists>s'. fst (repo_Save (orderRepo D) ?s2 (w_db w3)) = Inr s'"
    using ans held2 v act items mv(2) view3 unfolding answering_def
    by (elim conjE allE [of _ ?s2] allE [of _ "abs_order s"] allE [of _ "w_db w3"])
      (simp add: CompleteSaga_def)
  then obtain s' w4 where sv: "Save D ?s2 w3 = (Inr s', w4)" by (auto simp: Save_def on_db_def dest!: fst_Inr)
  obtain u w5 where mail: "saga_sendStatusUpdateEmail D s' (so_status s) t w4 = (Inr u, w5)"
    using sure_emails(1) [of D s' "so_status s" t] unfolding sure_def by blast
  show ?thesis
    unfolding transitionLocal_def Let_def
    using m1 c [unfolded s2] h sv mail by (simp add: bindE_def returnE_def)
qed

lemma HandleSucceeded_answers:
  assumes ans: "answering D canon view" and j: "canon (es_OrderID ev) = Some j" and v: "view (w_db w) j = Some v"
    and wf: "view_wf v" and saga: "current_saga (es_SagaID ev) v" "v_sagaTargetStatus v = Some t" "saga_target t"
    and move: "v_status v = t \<or> CanTransitionTo (v_status v) t"
  shows "\<exists>w'. HandleSucceeded D ev w = (Inr (), w')"
proof -
  from FindByID_answers [OF ans j v] obtain s w1 where s: "FindByID D (es_OrderID ev) w = (Inr s, w1)" "so_id s = j"
    "abs_order s = v" "loaded s" "view (w_db w1) = view (w_db w)" "held canon s (view (w_db w1))" by blast
  have target: "targetStatusForSuccess s op = Inr t" for op
    using saga(2) s(3) by (auto simp: targetStatusForSuccess_def)
  have "t \<noteq> StatusAwaitingPayment" using saga(3) by (auto simp: saga_target_def)
  then have "\<exists>x w2. transitionLocal D s t (StockOperationType_of (es_Operation ev)) (es_SagaID ev) (so_sagaNotes s) w1 = (Inr x, w2)"
    by (intro transitionLocal_answers [OF ans s(6)]) (use s v wf move in \<open>auto simp: loaded_def\<close>)
  then obtain x w2 where
    tr: "transitionLocal D s t (StockOperationType_of (es_Operation ev)) (es_SagaID ev) (so_sagaNotes s) w1 = (Inr x, w2)" by blast
  have "CanProcessSaga (es_SagaID ev) s" using saga(1) s(3) by (simp add: CanProcessSaga_abs)
  with s(1) target tr show ?thesis by (simp add: HandleSucceeded_alt bindE_def liftE_def returnE_def)
qed

lemma success_message_answers:
  assumes ans: "answering D canon view" and dec: "decodeSucceeded J m = Inr ev" and rc: "msg_ReceiptHandle m = Some rc"
    and j: "canon (es_OrderID ev) = Some j" and v: "view (w_db w) j = Some v" and wf: "wf_store (view (w_db w))"
    and saga: "current_saga (es_SagaID ev) v" "v_sagaTargetStatus v = Some t" "saga_target t"
    and move: "v_status v = t \<or> CanTransitionTo (v_status v) t"
  shows "\<exists>w'. HandleMessage_succeeded J D m w = (Inr (), w') \<and> view (w_db w') = (view (w_db w))(j \<mapsto> settled t v) \<and>
    last (w_log w') = MessageDeleted rc"
proof -
  from FindByID_answers [OF ans j v] obtain s w1 where s: "FindByID D (es_OrderID ev) w = (Inr s, w1)"
    "abs_order s = v" "view (w_db w1) = view (w_db w)" by blast
  have current: "IsCurrentSaga D (es_OrderID ev) (es_SagaID ev) w = (Inr True, w1)"
    using s(1,2) saga(1) by (simp add: IsCurrentSaga_def bindE_def returnE_def CanProcessSaga_abs)
  have vwf: "view_wf v" using wf v by (simp add: wf_store_def)
  have v1: "view (w_db w1) j = Some v" using v by (simp add: s(3))
  from HandleSucceeded_answers [OF ans j v1 vwf saga move] obtain w2 where
    hs: "HandleSucceeded D ev w1 = (Inr (), w2)" by blast
  have wf1: "wf_store (view (w_db w1))" using wf by (simp add: s(3))
  from HandleSucceeded_run [OF hs wf1] j v1 saga(1,2) have eff: "view (w_db w2) = (view (w_db w))(j \<mapsto> settled t v)"
    by (auto simp: s(3))
  have del: "deleteMessage D m w2 = (Inr (), w2\<lparr>w_log := w_log w2 @ [MessageDeleted rc], w_tick := Suc (w_tick w2)\<rparr>)"
    using ans rc by (simp add: deleteMessage_def DeleteMessage_def external_def answering_def)
  show ?thesis using dec current hs del eff by (simp add: HandleMessage_succeeded_def bindE_def liftE_def)
qed

lemma started_saga_completes:
  assumes ans: "answering D canon view" and start: "StartSaga D i op t remarks w = (Inr r, w1)" and t: "saga_target t"
    and wf: "wf_store (view (w_db w))" and async: "sr_Async r"
    and j: "canon i = Some j" "view (w_db w) j = Some v" and move: "v_status v = t \<or> CanTransitionTo (v_status v) t"
    and dec: "decodeSucceeded J m = Inr ev" "es_SagaID ev = sr_SagaID r" "es_OrderID ev = j"
    and rc: "msg_ReceiptHandle m = Some rc"
  shows "\<exists>w2. HandleMessage_succeeded J D m w1 = (Inr (), w2) \<and>
    view (w_db w2) = (view (w_db w))(j \<mapsto> settled t v) \<and> last (w_log w2) = MessageDeleted rc"
proof -
  let ?u = "v_set_saga SagaStatusAwaitingInventory (Some (sr_SagaID r)) (Some t) remarks v"
  from StartSaga_run [OF start t] j async have view1: "view (w_db w1) = (view (w_db w))(j \<mapsto> ?u)"
    by (auto split: if_splits)
  have "evolves (view (w_db w)) (view (w_db w1))"
    using advances_StartSaga [OF t, where i = i and op = op and nts = remarks and P = "\<lambda>_. True"] start unfolding advances_def by blast
  then have wf1: "wf_store (view (w_db w1))" using wf by (rule evolves_wf)
  have "canon j = Some j" using canon_idem [OF j(1)] by simp
  with success_message_answers [OF ans dec(1) rc, of j w1 ?u t] wf1 view1 dec(2,3) t move
  obtain w2 where "HandleMessage_succeeded J D m w1 = (Inr (), w2)" "view (w_db w2) = (view (w_db w1))(j \<mapsto> settled t ?u)"
    "last (w_log w2) = MessageDeleted rc" by (auto simp: current_saga_def)
  moreover have "settled t ?u = settled t v" by (simp add: settled_def v_set_saga_def v_set_status_def)
  ultimately show ?thesis by (simp add: view1)
qed

end

subsection \<open>From the request to the end of the saga\<close>

lemma async_request:
  assumes "StartSaga D i op t remarks w = (Inr r, w1)" and "sr_Async r"
  shows "\<exists>k items w0. PublishRequest D (sr_SagaID r) k op items w0 = (Inr (), w1)"
  using assms unfolding StartSaga_def Let_def bindE_Inr_iff
  by (elim exE conjE) (force simp: bindE_Inr_iff returnE_def throwE_def split: if_split_asm)

text \<open>The answer of the stock service as \<^verbatim>\<open>events.OrderInventoryOperationSucceeded\<close> is written.\<close>

definition answer_json :: "string \<Rightarrow> string \<Rightarrow> string \<Rightarrow> string \<Rightarrow> json" where
  "answer_json sagaID orderID operation occurredAt =
     JObject [(''event'', JString ''OrderInventoryOperationSucceeded''), (''saga_id'', JString sagaID),
       (''order_id'', JString orderID), (''operation'', JString operation), (''occurred_at'', JString occurredAt)]"

lemma decode_answer:
  assumes "msg_Body m = Some body" and "J body = Some (answer_json sid j opn (format_RFC3339 stamp))" and "four_digit_year stamp"
  shows "decodeSucceeded J m = Inr \<lparr>es_Event = ''OrderInventoryOperationSucceeded'', es_SagaID = sid, es_OrderID = j,
    es_Operation = opn, es_OccurredAt = format_RFC3339 stamp\<rparr>"
  using assms(1,2) printed_time_accepted [OF assms(3)]
  by (simp add: decodeSucceeded_def decode_strings_def answer_json_def)

text \<open>
  Claim C39. A saga the stock service answers comes to its end: when a saga has been started for a change the workflow
  allows, the one request that was sent carries the saga's and the order's identifiers, the operation and the product
  lines, and once the message that reports its success is delivered the order has the status the saga aims at, the
  saga is over and the message is gone - as long as the stores and the queue answer.
\<close>

theorem answered_saga_completes:
  assumes "service_env D canon view" and "answering D canon view" and "wf_store (view (w_db w))"
    and "StartSaga (with_publisher Q q D) i op t remarks w = (Inr r, w1)" and "sr_Async r" and "saga_target t"
    and "canon i = Some j" and "view (w_db w) j = Some v" and "CanTransitionTo (v_status v) t"
    and "msg_Body m = Some body" and "msg_ReceiptHandle m = Some rc" and "four_digit_year stamp"
    and "J body = Some (answer_json (sr_SagaID r) j (op_string op) (format_RFC3339 stamp))"
  shows "\<exists>items t1 n1 w2. mset items = image_mset stock_item (product_lines v) \<and>
    requests (w_log w1) = requests (w_log w) @ [(sr_SagaID r, j, op, items)] \<and>
    sqs_SendMessage Q t1 q (request_text Q n1 (sr_SagaID r) j op items) = None \<and>
    HandleMessage_succeeded J (with_publisher Q q D) m w1 = (Inr (), w2) \<and>
    view (w_db w2) = (view (w_db w))(j \<mapsto> settled t v) \<and> last (w_log w2) = MessageDeleted rc"
proof -
  let ?P = "with_publisher Q q D"
  have env: "service_env ?P canon view" using assms(1) by (rule service_env_with_publisher)
  have ans: "answering ?P canon view" using assms(2) by (simp add: answering_def with_publisher_def)
  note dec = decode_answer [where m = m and J = J and sid = "sr_SagaID r" and j = j and opn = "op_string op" and stamp = stamp,
      OF assms(10,13,12)]
  from service_env.started_saga_completes [OF env ans assms(4,6,3,5,7,8) disjI2 [OF assms(9)] dec _ _ assms(11)]
  obtain w2 where w2: "HandleMessage_succeeded J ?P m w1 = (Inr (), w2)"
    "view (w_db w2) = (view (w_db w))(j \<mapsto> settled t v)" "last (w_log w2) = MessageDeleted rc" by auto
  from service_env.StartSaga_run [OF env assms(4,6)] assms(5,7,8)
  obtain items where items: "mset items = image_mset stock_item (product_lines v)"
    "requests (w_log w1) = requests (w_log w) @ [(sr_SagaID r, j, op, items)]" by (auto split: if_splits)
  from async_request [OF assms(4,5)] obtain k its wb where
    pub: "PublishRequest ?P (sr_SagaID r) k op its wb = (Inr (), w1)" by blast
  then have "requests (w_log w1) = requests (w_log wb) @ [(sr_SagaID r, k, op, its)]"
    by (auto dest: PublishRequest_run)
  with items(2) have "k = j" "its = items" by simp_all
  with pub have "sqs_SendMessage Q (w_tick wb) q (request_text Q (time_Now D (w_tick wb)) (sr_SagaID r) j op items) = None"
    by (simp add: publish_with_publisher)
  with w2 items show ?thesis by blast
qed

definition sample_queues :: queue_service where
  "sample_queues =
     \<lparr>sqs_Marshal = (\<lambda>v. ''request''), sqs_SendMessage = (\<lambda>t q text. if q = ''stock'' then None else Some ''no queue''),
      sqs_GetQueueUrl = (\<lambda>name. QueueAnswer (Some name)), sqs_CreateQueue = (\<lambda>name attributes. Inr (Some name)),
      sqs_GetQueueAttributes = (\<lambda>url. Inr Map.empty)\<rparr>"

theorem answered_saga_completes_witness:
  "\<exists>r w1 w2 v. StartSaga (with_publisher sample_queues ''stock'' (mem_deps '''')) ''os'' StockOpReserve StatusPendingAuthorization
      None (idle_world StatusDiagnosing) = (Inr r, w1) \<and>
     HandleMessage_succeeded (\<lambda>_. Some (answer_json (sr_SagaID r) ''os'' ''RESERVE'' (format_RFC3339 0)))
       (with_publisher sample_queues ''stock'' (mem_deps '''')) \<lparr>msg_Body = Some ''answer'', msg_ReceiptHandle = Some ''receipt''\<rparr> w1 =
       (Inr (), w2) \<and>
     mem_view (w_db w2) ''os'' = Some v \<and> v_status v = StatusPendingAuthorization"
proof -
  let ?P = "with_publisher sample_queues ''stock'' (mem_deps '''')"
  let ?s = "sample_order StatusDiagnosing SagaStatusIdle None None"
  have same: "?P = mem_deps ''''"
    by (simp add: with_publisher_def publish_request_def sample_queues_def mem_deps_def)
  have "succeeds (StartSaga (mem_deps '''') ''os'' StockOpReserve StatusPendingAuthorization None (idle_world StatusDiagnosing))"
    by code_simp
  then have "succeeds (StartSaga ?P ''os'' StockOpReserve StatusPendingAuthorization None (idle_world StatusDiagnosing))"
    by (simp only: same)
  then obtain r w1 where run: "StartSaga ?P ''os'' StockOpReserve StatusPendingAuthorization None (idle_world StatusDiagnosing) =
      (Inr r, w1)" by (rule succeedsE)
  have target: "saga_target StatusPendingAuthorization" by (simp add: saga_target_def)
  have view: "mem_view (w_db (idle_world StatusDiagnosing)) ''os'' = Some (abs_order ?s)" by (rule idle_world_view) simp
  have "product_lines (abs_order ?s) \<noteq> {#}"
    by (simp add: inventoryItems_Nil_iff inventoryItems_def GetProductItems_def sample_order_def sample_line_def item_IsDeleted_def)
  with service_env.StartSaga_run [OF service_env_with_publisher [OF mem_env] run target] view
  have async: "sr_Async r" by (auto simp: mem_canon_def split: if_splits)
  have move: "CanTransitionTo (v_status (abs_order ?s)) StatusPendingAuthorization" by (simp add: sample_order_def) code_simp
  have canon: "mem_canon ''os'' = Some ''os''" by (simp add: mem_canon_def)
  have year: "four_digit_year 0" by (simp add: four_digit_year_def unix_days_def)
  from answered_saga_completes [OF mem_env answering_mem idle_world_wf run async target canon view move _ _ year, where
      m = "\<lparr>msg_Body = Some ''answer'', msg_ReceiptHandle = Some ''receipt''\<rparr>" and body = "''answer''" and rc = "''receipt''"
      and J = "\<lambda>_. Some (answer_json (sr_SagaID r) ''os'' ''RESERVE'' (format_RFC3339 0))"]
  obtain w2 where "HandleMessage_succeeded (\<lambda>_. Some (answer_json (sr_SagaID r) ''os'' ''RESERVE'' (format_RFC3339 0))) ?P
      \<lparr>msg_Body = Some ''answer'', msg_ReceiptHandle = Some ''receipt''\<rparr> w1 = (Inr (), w2)"
    "mem_view (w_db w2) ''os'' = Some (settled StatusPendingAuthorization (abs_order ?s))" by auto
  with run show ?thesis by (intro exI conjI) auto
qed

end
