(* ===== verification/Wiring.thy ===== *)
theory Wiring
  imports Http_Client Infrastructure System Routes
begin

text \<open>
  The start of the program (\<^verbatim>\<open>src/cmd/api/main.go\<close>): what it connects to and in which order, what it puts in the place of
  the dependencies of its use cases, and how it runs from then on: its requests, each with the header the clients send on, its
  workers, its restarts. The logger, the tracer, the metrics and the signal that ends the process are left out.
\<close>

subsection \<open>What the program runs on\<close>

text \<open>
  \<open>'h\<close> is the handle of the database and \<open>out_gorm\<close> its methods; \<open>out_tbl\<close> is the state of the table of the history at a moment.
\<close>

record ('db, 'u, 'h, 'raw, 'tbl) outside =
  out_env :: environment
  out_opener :: "'h db_opener"
  out_uuid :: "'u uuid_lib"
  out_gorm :: "'h \<Rightarrow> ('db, 'u) gorm"
  out_LoadDefaultConfig :: "aws_options \<Rightarrow> string option"
  out_tables :: table_service
  out_dynamo :: "('raw, 'tbl) dynamo"
  out_tbl :: "nat \<Rightarrow> 'tbl"
  out_queues :: queue_service
  out_network :: network
  out_sdk :: mp_sdk

definition getEnv :: "environment \<Rightarrow> string \<Rightarrow> string \<Rightarrow> string" where
  "getEnv env key fallback = (let value = env key in if value = '''' then fallback else value)"

definition server_Addr :: "environment \<Rightarrow> string" where
  "server_Addr env = '':'' @ getEnv env ''PORT'' ''8082''"

definition queueOrderInventoryRequested :: string where
  "queueOrderInventoryRequested = ''order-inventory-op-requested''"

definition queueNames :: "string list" where
  "queueNames = [queueOrderInventoryRequested, ''order-inventory-op-succeeded'', ''order-inventory-op-failed'', ''customer-deleted'']"

subsection \<open>Health\<close>

text \<open>The handle of the database is nil until \<^verbatim>\<open>Connect\<close> has returned; the server answers from before that on.\<close>

definition healthHandler ::
  "environment \<Rightarrow> bool \<Rightarrow> string \<Rightarrow> 'h option \<Rightarrow> nat \<times> (string \<rightharpoonup> string)" where
  "healthHandler env otelInitialized uptime DB =
     (let version = getEnv env ''APP_VERSION'' ''dev'';
          otelStatus = (if otelInitialized then ''active'' else ''inactive'');
          payload = [''status'' \<mapsto> ''healthy'', ''database'' \<mapsto> ''connected'', ''version'' \<mapsto> version, ''uptime'' \<mapsto> uptime,
            ''otel'' \<mapsto> otelStatus] in
      if DB = None then (503, payload(''status'' \<mapsto> ''unhealthy'', ''database'' \<mapsto> ''not initialized''))
      else (200, payload))"

subsection \<open>Connections\<close>

record 'h connections =
  cn_DB :: 'h
  cn_queueURLs :: "string \<rightharpoonup> string"
  cn_client :: mp_client

text \<open>What \<^verbatim>\<open>main\<close> does between \<^verbatim>\<open>database.Connect\<close> and its recovery: the configuration, the table, the queues, the client.\<close>

definition connect ::
  "('db, 'u, 'h, 'raw, 'tbl) outside \<Rightarrow> 'h \<Rightarrow> (error + 'h connections) \<times> infra_event list" where
  "connect X db =
     (case out_LoadDefaultConfig X (Load_options (out_env X)) of
        Some err \<Rightarrow> (Inl (ErrorString err), [])
      | None \<Rightarrow>
          (case EnsureOrderHistoryTable (out_tables X) of
             (Inl err, made) \<Rightarrow> (Inl err, made)
           | (Inr _, made) \<Rightarrow>
               (case ResolveQueueURLs (out_queues X) (out_env X) queueNames of
                  (Inl err, created) \<Rightarrow> (Inl err, made @ created)
                | (Inr urls, created) \<Rightarrow>
                    (case NewModule_client (out_sdk X) (out_env X) of
                       Inl err \<Rightarrow> (Inl err, made @ created)
                     | Inr client \<Rightarrow> (Inr \<lparr>cn_DB = db, cn_queueURLs = urls, cn_client = client\<rparr>, made @ created)))))"

text \<open>
  The dependencies of the use cases. \<open>D\<close> has what the program takes from the runtime: the clock, the generator of identifiers
  and the call that deletes a message. \<open>authorization\<close> is the header the context of the call carries.
\<close>

definition registerServiceOrderRoutes ::
  "('db, 'u, 'h, 'raw, 'tbl) outside \<Rightarrow> 'h connections \<Rightarrow> string option \<Rightarrow> 'db deps \<Rightarrow> 'db deps" where
  "registerServiceOrderRoutes X c authorization D =
     (let env = out_env X;
          queueURL = (case cn_queueURLs c queueOrderInventoryRequested of None \<Rightarrow> '''' | Some url \<Rightarrow> url) in
      with_clients (out_network X) \<lparr>url_MS1 = env ''MS1_BASE_URL'', url_MS3 = env ''MS3_BASE_URL''\<rparr> authorization
        (with_mp (out_sdk X) (cn_client c)
          (with_publisher (out_queues X) queueURL
            (with_dynamo (out_dynamo X) (out_tbl X)
              (D\<lparr>orderRepo := ServiceOrderRepositoryImpl (out_uuid X) (out_gorm X (cn_DB c)),
                 EmailService_Send := noop_SendStatusUpdateEmail, notifier_wired := True,
                 cancelPaymentOrder_wired := True, refundPaymentOrder_wired := True\<rparr>)))))"

subsection \<open>The program\<close>

text \<open>
  The process as it is at a moment. The server listens from the first, with \<^verbatim>\<open>GET /health\<close> alone; the database is
  connected; then the routes are registered and answer, and the sagas in flight are asked for again; when that has gone well
  the workers run. Each step that fails ends the process.
\<close>

datatype ('db, 'u, 'h, 'raw, 'tbl) process =
    Stopped
  | Starting "('db, 'u, 'h, 'raw, 'tbl) outside" "'h option"
  | Serving "('db, 'u, 'h, 'raw, 'tbl) outside" "'h connections" bool

text \<open>The variable \<^verbatim>\<open>database.DB\<close>.\<close>

fun database_DB :: "('db, 'u, 'h, 'raw, 'tbl) process \<Rightarrow> 'h option" where
  "database_DB Stopped = None"
| "database_DB (Starting X DB) = DB"
| "database_DB (Serving X c ready) = Some (cn_DB c)"

text \<open>
  The answer to a request for an order or billing route: \<open>None\<close> when no handler answers, because nothing listens or the
  multiplexer does not know the pattern yet and answers 404 itself.
\<close>

fun answer ::
  "web \<Rightarrow> 'db deps \<Rightarrow> ('db, 'u, 'h, 'raw, 'tbl) process \<Rightarrow> route \<Rightarrow> Request \<Rightarrow> 'db world \<Rightarrow>
   response option \<times> 'db world" where
  "answer W D (Serving X c ready) rt r w =
     (case serve_http W (registerServiceOrderRoutes X c (context_authorization rt r) D) rt r w of
        (resp, w') \<Rightarrow> (Some resp, w'))"
| "answer W D _ rt r w = (None, w)"

text \<open>
  A run of the program: it is started, again and again, on what the outside is at that moment; it connects, registers its
  routes and recovers, the recovery in one step; it serves requests as soon as its routes are registered, before the
  recovery and after it, and polls its queues once it has recovered.
\<close>

inductive running ::
  "web \<Rightarrow> json_parser \<Rightarrow> 'db deps \<Rightarrow> ('db, 'u, 'h, 'raw, 'tbl) outside set \<Rightarrow> 'db world \<Rightarrow>
   ('db, 'u, 'h, 'raw, 'tbl) process \<Rightarrow> 'db world \<Rightarrow> bool"
  for W :: web and J :: json_parser and D :: "'db deps" and XS :: "('db, 'u, 'h, 'raw, 'tbl) outside set" and w0 :: "'db world"
  where
  installed: "running W J D XS w0 Stopped w0"
| started: "running W J D XS w0 p w \<Longrightarrow> X \<in> XS \<Longrightarrow> running W J D XS w0 (Starting X None) w"
| database: "running W J D XS w0 (Starting X None) w \<Longrightarrow> ConnectWithDependencies (out_env X) (out_opener X) = Inr db \<Longrightarrow>
    running W J D XS w0 (Starting X (Some db)) w"
| no_database: "running W J D XS w0 (Starting X None) w \<Longrightarrow> ConnectWithDependencies (out_env X) (out_opener X) = Inl err \<Longrightarrow>
    running W J D XS w0 Stopped w"
| registered: "running W J D XS w0 (Starting X (Some db)) w \<Longrightarrow> connect X db = (Inr c, made) \<Longrightarrow>
    running W J D XS w0 (Serving X c False) w"
| not_connected: "running W J D XS w0 (Starting X (Some db)) w \<Longrightarrow> connect X db = (Inl err, made) \<Longrightarrow>
    running W J D XS w0 Stopped w"
| recovered: "running W J D XS w0 (Serving X c False) w \<Longrightarrow>
    startup (registerServiceOrderRoutes X c None D) w = (Inr u, w') \<Longrightarrow> running W J D XS w0 (Serving X c True) w'"
| not_recovered: "running W J D XS w0 (Serving X c False) w \<Longrightarrow>
    startup (registerServiceOrderRoutes X c None D) w = (Inl err, w') \<Longrightarrow> running W J D XS w0 Stopped w'"
| request: "running W J D XS w0 p w \<Longrightarrow> answer W D p rt r w = (resp, w') \<Longrightarrow> running W J D XS w0 p w'"
| worker: "running W J D XS w0 (Serving X c True) w \<Longrightarrow>
    running W J D XS w0 (Serving X c True) (react W J (registerServiceOrderRoutes X c None D) (QueueInput e) w)"

end
