(* ===== verification/Wiring_Properties.thy ===== *)
theory Wiring_Properties
  imports Wiring Delivery_Properties History_Store_Properties Payment_Client_Properties Http_Properties
begin

text \<open>
  The program as it is wired: what it has when it has started, and that it keeps the workflow over its real repository,
  its real clients and any number of restarts.
\<close>

subsection \<open>The start\<close>

lemma resolved:
  assumes "resolve_from Q env urls names = (r, created)"
  shows "\<And>e. e \<in> set created \<Longrightarrow> \<exists>name \<in> set names. e \<in> set (snd (ResolveQueueURL Q env name)) \<and>
      set (snd (ResolveQueueURL Q env name)) \<subseteq> set created"
    and "\<And>found. r = Inr found \<Longrightarrow> (\<forall>name \<in> set names. \<exists>url. found name = Some url \<and>
      fst (ResolveQueueURL Q env name) = Inr url) \<and> (\<forall>name. name \<notin> set names \<longrightarrow> found name = urls name)"
  using assms
proof (induction Q env urls names arbitrary: r created rule: resolve_from.induct)
  case (1 Q env urls)
  { case 1 then show ?case by simp next case 2 then show ?case by simp }
next
  case (2 Q env urls name names)
  obtain u c where one: "ResolveQueueURL Q env name = (u, c)" by fastforce
  { case (1 e)
    show ?case
    proof (cases u)
      case (Inl err)
      with one 1 show ?thesis by auto
    next
      case (Inr url)
      obtain r' c' where rest: "resolve_from Q env (urls(name \<mapsto> url)) names = (r', c')" by fastforce
      with 1 one Inr have "created = c @ c'" by simp
      show ?thesis
      proof (cases "e \<in> set c")
        case True
        with one \<open>created = c @ c'\<close> show ?thesis by auto
      next
        case False
        with 1(1) \<open>created = c @ c'\<close> have "e \<in> set c'" by simp
        from "2.IH"(1) [OF one [symmetric] Inr this rest] obtain q where "q \<in> set names"
          "e \<in> set (snd (ResolveQueueURL Q env q))" "set (snd (ResolveQueueURL Q env q)) \<subseteq> set c'" by blast
        with \<open>created = c @ c'\<close> show ?thesis by (intro bexI [of _ q]) auto
      qed
    qed
  next
    case (2 found)
    show ?case
    proof (cases u)
      case (Inl err)
      with one 2 show ?thesis by auto
    next
      case (Inr url)
      obtain r' c' where rest: "resolve_from Q env (urls(name \<mapsto> url)) names = (r', c')" by fastforce
      with 2 one Inr have "r' = Inr found" by simp
      from "2.IH"(2) [OF one [symmetric] Inr this rest] one Inr show ?thesis
        by (cases "name \<in> set names") (auto split: if_splits)
    qed }
qed

lemma connect_Inr:
  assumes "connect X db = (Inr c, made)"
  shows "cn_DB c = db \<and> (\<exists>a. EnsureOrderHistoryTable (out_tables X) = (Inr (), a)) \<and>
    (\<exists>b. ResolveQueueURLs (out_queues X) (out_env X) queueNames = (Inr (cn_queueURLs c), b))"
  using assms by (auto simp: connect_def split: sum.splits option.splits prod.splits)

lemma connect_made:
  assumes "connect X db = (r, made)"
  shows "\<exists>a b. made = a @ b \<and> (a = [] \<or> a = snd (EnsureOrderHistoryTable (out_tables X))) \<and>
    (b = [] \<or> b = snd (ResolveQueueURLs (out_queues X) (out_env X) queueNames))"
  using assms by (auto simp: connect_def split: sum.splits option.splits prod.splits)

lemma table_events: "set (snd (EnsureOrderHistoryTable T)) \<subseteq> {TableCreated OrderHistoryTableName}"
  "TableCreated n \<in> set (snd (EnsureOrderHistoryTable T)) \<Longrightarrow> ddb_DescribeTable T n = TableNotFound"
  by (auto simp: EnsureOrderHistoryTable_def Let_def split: table_lookup.splits table_creation.splits)

lemma queue_events: "e \<in> set (snd (ResolveQueueURL Q env name)) \<Longrightarrow> \<exists>n attributes. e = QueueCreated n attributes"
  by (auto simp: ResolveQueueURL_def createQueueWithDLQ_def Let_def
      split: if_split_asm queue_lookup.splits option.splits sum.splits)

text \<open>
  What there is when the program is ready to serve, in the answers of the libraries: the database has been opened, watched and
  migrated for all three tables; the table of the history was found, or has been made or was being made, and
  the wait for it has ended well; each queue has an address, the one that is configured, the one that was found, or
  the one of the queue that was made after its dead-letter queue, whose address is in its redrive policy.
\<close>

definition database_ready :: "('db, 'u, 'h, 'raw, 'tbl) outside \<Rightarrow> 'h \<Rightarrow> bool" where
  "database_ready X db \<longleftrightarrow> dbo_Open (out_opener X) (BuildDSN (out_env X)) = Inr db \<and> dbo_Use (out_opener X) db = None \<and>
     dbo_AutoMigrate (out_opener X) db [''ServiceOrderModel'', ''ServiceOrderItemModel'', ''ServiceOrderHistoryModel''] = None"

definition table_ready :: "table_service \<Rightarrow> bool" where
  "table_ready T \<longleftrightarrow> ddb_DescribeTable T ''order_history'' = TableFound \<or>
     ddb_DescribeTable T ''order_history'' = TableNotFound \<and>
     ddb_CreateTable T ''order_history'' [(''order_id'', ''HASH''), (''occurred_at'', ''RANGE'')] \<in> {TableMade, TableInUse} \<and>
     ddb_Wait T ''order_history'' = None"

text \<open>The queue has been made, after its dead-letter queue.\<close>

definition queue_made :: "queue_service \<Rightarrow> string \<Rightarrow> (string \<times> string) list \<Rightarrow> string option \<Rightarrow> bool" where
  "queue_made Q name attributes made \<longleftrightarrow> sqs_CreateQueue Q name attributes = Inr made \<and>
     (\<exists>dlq arns. sqs_CreateQueue Q (name @ ''-dlq'') [(''MessageRetentionPeriod'', ''1209600'')] = Inr dlq \<and>
        sqs_GetQueueAttributes Q dlq = Inr arns \<and>
        map_of attributes ''RedrivePolicy'' = Some (sqs_Marshal Q (JObject
          [(''deadLetterTargetArn'', JString (aws_ToString (arns ''QueueArn''))), (''maxReceiveCount'', JNumber ''3'')])))"

definition may_make_queue :: "queue_service \<Rightarrow> environment \<Rightarrow> string \<Rightarrow> bool" where
  "may_make_queue Q env name \<longleftrightarrow> queueURLEnv env name = '''' \<and> sqs_GetQueueUrl Q name = QueueDoesNotExist \<and>
     (env ''AWS_ENDPOINT_URL'' \<noteq> '''' \<or> env ''SQS_AUTO_CREATE_QUEUES'' = ''true'')"

definition queue_ready :: "queue_service \<Rightarrow> environment \<Rightarrow> string \<Rightarrow> string \<Rightarrow> bool" where
  "queue_ready Q env name url \<longleftrightarrow> url \<noteq> '''' \<and> url = queueURLEnv env name \<or>
     queueURLEnv env name = '''' \<and> sqs_GetQueueUrl Q name = QueueAnswer (Some url) \<or>
     may_make_queue Q env name \<and> (\<exists>attributes made. queue_made Q name attributes made \<and> url = aws_ToString made)"

definition prepared :: "('db, 'u, 'h, 'raw, 'tbl) outside \<Rightarrow> 'h connections \<Rightarrow> bool" where
  "prepared X c \<longleftrightarrow> database_ready X (cn_DB c) \<and> table_ready (out_tables X) \<and>
     (\<forall>q \<in> {''order-inventory-op-requested'', ''order-inventory-op-succeeded'', ''order-inventory-op-failed'', ''customer-deleted''}.
        \<exists>url. cn_queueURLs c q = Some url \<and> queue_ready (out_queues X) (out_env X) q url)"

lemma ConnectWithDependencies_ready:
  "ConnectWithDependencies (out_env X) (out_opener X) = Inr db \<Longrightarrow> database_ready X db"
  by (auto simp: ConnectWithDependencies_def database_ready_def GetModelsToMigrate_def split: sum.splits option.splits)

lemma EnsureOrderHistoryTable_ready: "EnsureOrderHistoryTable T = (Inr (), made) \<Longrightarrow> table_ready T"
  by (auto simp: EnsureOrderHistoryTable_def table_ready_def Let_def OrderHistoryTableName_def history_key_def
      split: table_lookup.splits table_creation.splits option.splits)

lemma createQueueWithDLQ_made:
  "fst (createQueueWithDLQ Q name) = Inr url \<Longrightarrow> \<exists>attributes made. queue_made Q name attributes made \<and> url = aws_ToString made"
  unfolding createQueueWithDLQ_def queue_made_def Let_def
  by (auto split: sum.splits) (rule exI, rule exI, rule conjI, assumption, simp)

lemma ResolveQueueURL_ready: "fst (ResolveQueueURL Q env name) = Inr url \<Longrightarrow> queue_ready Q env name url"
  by (auto simp: ResolveQueueURL_def queue_ready_def may_make_queue_def dest!: createQueueWithDLQ_made
      split: if_split_asm queue_lookup.splits option.splits)

lemma connect_prepared:
  assumes "connect X db = (Inr c, made)" and "database_ready X db"
  shows "prepared X c"
proof -
  from connect_Inr [OF assms(1)] obtain a b where parts: "cn_DB c = db" "EnsureOrderHistoryTable (out_tables X) = (Inr (), a)"
    "resolve_from (out_queues X) (out_env X) Map.empty queueNames = (Inr (cn_queueURLs c), b)"
    by (auto simp: ResolveQueueURLs_def)
  have "\<exists>url. cn_queueURLs c q = Some url \<and> queue_ready (out_queues X) (out_env X) q url" if "q \<in> set queueNames" for q
    using resolved(2) [OF parts(3) refl] that ResolveQueueURL_ready by blast
  with parts(1,2) assms(2) EnsureOrderHistoryTable_ready show ?thesis
    by (auto simp: prepared_def queueNames_def queueOrderInventoryRequested_def)
qed

lemma createQueueWithDLQ_created:
  "QueueCreated n attributes \<in> set (snd (createQueueWithDLQ Q name)) \<Longrightarrow>
   n = name @ ''-dlq'' \<or> n = name \<and> (\<exists>made. queue_made Q n attributes made)"
  unfolding createQueueWithDLQ_def queue_made_def Let_def by (auto split: sum.split_asm)

lemma queue_created_made:
  "QueueCreated n attributes \<in> set (snd (ResolveQueueURL Q env name)) \<Longrightarrow>
   may_make_queue Q env name \<and> (n = name @ ''-dlq'' \<or> n = name \<and> (\<exists>made. queue_made Q n attributes made))"
  using createQueueWithDLQ_created [of n attributes Q name]
  by (auto simp: ResolveQueueURL_def may_make_queue_def split: if_split_asm queue_lookup.split_asm option.split_asm)

lemma connect_makes_missing:
  assumes "connect X db = (r, made)"
  shows "(\<forall>n. TableCreated n \<in> set made \<longrightarrow> ddb_DescribeTable (out_tables X) n = TableNotFound) \<and>
    (\<forall>n attributes. QueueCreated n attributes \<in> set made \<longrightarrow> (\<exists>q \<in> set queueNames.
       may_make_queue (out_queues X) (out_env X) q \<and>
       (n = q @ ''-dlq'' \<or> n = q \<and> (\<exists>u. queue_made (out_queues X) n attributes u))))"
proof (intro conjI allI impI)
  fix n attributes
  from connect_made [OF assms] obtain a b where ab: "made = a @ b" "a = [] \<or> a = snd (EnsureOrderHistoryTable (out_tables X))"
    "b = [] \<or> b = snd (ResolveQueueURLs (out_queues X) (out_env X) queueNames)" by blast
  have from_queue: "\<exists>q \<in> set queueNames. e \<in> set (snd (ResolveQueueURL (out_queues X) (out_env X) q))" if "e \<in> set b" for e
  proof -
    have b: "resolve_from (out_queues X) (out_env X) Map.empty queueNames =
        (fst (ResolveQueueURLs (out_queues X) (out_env X) queueNames), b)"
      using that ab(3) by (auto simp: ResolveQueueURLs_def)
    show ?thesis using resolved(1) [OF b that] by blast
  qed
  { assume "TableCreated n \<in> set made"
    with ab from_queue queue_events show "ddb_DescribeTable (out_tables X) n = TableNotFound"
      by (fastforce dest: table_events(2)) }
  { assume "QueueCreated n attributes \<in> set made"
    with ab(1,2) have "QueueCreated n attributes \<in> set b" using table_events(1) [of "out_tables X"] by auto
    from from_queue [OF this] obtain q where q: "q \<in> set queueNames"
      "QueueCreated n attributes \<in> set (snd (ResolveQueueURL (out_queues X) (out_env X) q))" by blast
    from q(1) queue_created_made [OF q(2)] show "\<exists>q \<in> set queueNames. may_make_queue (out_queues X) (out_env X) q \<and>
       (n = q @ ''-dlq'' \<or> n = q \<and> (\<exists>u. queue_made (out_queues X) n attributes u))" by (rule bexI [rotated]) }
qed

lemma running_prepared:
  assumes "running W J D XS w0 p w"
  shows "case p of Stopped \<Rightarrow> True | Starting X DB \<Rightarrow> X \<in> XS \<and> (\<forall>db. DB = Some db \<longrightarrow> database_ready X db)
    | Serving X c ready \<Rightarrow> X \<in> XS \<and> prepared X c \<and> (ready \<longrightarrow> (\<exists>w1 u w2. running W J D XS w0 (Serving X c False) w1 \<and>
        startup (registerServiceOrderRoutes X c None D) w1 = (Inr u, w2)))"
  using assms
proof (induction rule: running.induct)
  case (registered X db w c made)
  then show ?case using connect_prepared by auto
qed (auto intro: ConnectWithDependencies_ready)

text \<open>
  Claim C38. The program has what it needs before it uses it. At every moment of its runs: a request for an order or billing
  route is answered by a handler only by a process for which the database is open and migrated, the table of the
  history exists and each of its four queues has an address; a process that polls its queues has, besides, asked
  again for the sagas in flight; and the health check, which is answered from the first, says 200 only when the
  database is open and migrated. What the start makes was missing: a table only when it was not found, a queue only when no
  address is configured, none was found and making queues is allowed, and then not without a dead-letter queue that its
  redrive policy names.
\<close>

theorem start_complete:
  assumes "running W J D XS w0 p w"
  shows "(\<forall>rt r resp. fst (answer W D p rt r w) = Some resp \<longrightarrow> (\<exists>X c ready. p = Serving X c ready \<and> X \<in> XS \<and> prepared X c)) \<and>
    (\<forall>X c. p = Serving X c True \<longrightarrow> (\<exists>w1 u w2. running W J D XS w0 (Serving X c False) w1 \<and>
       startup (registerServiceOrderRoutes X c None D) w1 = (Inr u, w2))) \<and>
    (\<forall>env otel uptime. fst (healthHandler env otel uptime (database_DB p)) = 200 \<longrightarrow>
       (\<exists>X \<in> XS. \<exists>db. database_DB p = Some db \<and> database_ready X db)) \<and>
    (\<forall>X db made n. snd (connect X db) = made \<longrightarrow> TableCreated n \<in> set made \<longrightarrow>
       ddb_DescribeTable (out_tables X) n = TableNotFound) \<and>
    (\<forall>X db made n attributes. snd (connect X db) = made \<longrightarrow> QueueCreated n attributes \<in> set made \<longrightarrow>
       (\<exists>q \<in> set queueNames. may_make_queue (out_queues X) (out_env X) q \<and>
          (n = q @ ''-dlq'' \<or> n = q \<and> (\<exists>u. queue_made (out_queues X) n attributes u))))"
proof (intro conjI)
  note inv = running_prepared [OF assms]
  show "\<forall>rt r resp. fst (answer W D p rt r w) = Some resp \<longrightarrow> (\<exists>X c ready. p = Serving X c ready \<and> X \<in> XS \<and> prepared X c)"
    using inv by (cases p) auto
  show "\<forall>X c. p = Serving X c True \<longrightarrow> (\<exists>w1 u w2. running W J D XS w0 (Serving X c False) w1 \<and>
       startup (registerServiceOrderRoutes X c None D) w1 = (Inr u, w2))"
    using inv by auto
  show "\<forall>env otel uptime. fst (healthHandler env otel uptime (database_DB p)) = 200 \<longrightarrow>
       (\<exists>X \<in> XS. \<exists>db. database_DB p = Some db \<and> database_ready X db)"
    using inv by (cases p) (auto simp: healthHandler_def Let_def prepared_def split: if_splits)
  show "\<forall>X db made n. snd (connect X db) = made \<longrightarrow> TableCreated n \<in> set made \<longrightarrow>
       ddb_DescribeTable (out_tables X) n = TableNotFound"
    using connect_makes_missing by (metis prod.collapse)
  show "\<forall>X db made n attributes. snd (connect X db) = made \<longrightarrow> QueueCreated n attributes \<in> set made \<longrightarrow>
       (\<exists>q \<in> set queueNames. may_make_queue (out_queues X) (out_env X) q \<and>
          (n = q @ ''-dlq'' \<or> n = q \<and> (\<exists>u. queue_made (out_queues X) n attributes u)))"
    using connect_makes_missing by (metis prod.collapse)
qed

subsection \<open>A start in memory\<close>

lemma wired_simps [simp]:
  "orderRepo (registerServiceOrderRoutes X c a D) = ServiceOrderRepositoryImpl (out_uuid X) (out_gorm X (cn_DB c))"
  "uuid_NewV7 (registerServiceOrderRoutes X c a D) = uuid_NewV7 D"
  by (simp_all add: registerServiceOrderRoutes_def Let_def with_clients_def with_dynamo_def)

text \<open>A start on services that have nothing yet, and on the tables of an order.\<close>

definition fresh_queues :: queue_service where
  "fresh_queues = sample_queues\<lparr>sqs_SendMessage := (\<lambda>t q text. None), sqs_GetQueueUrl := (\<lambda>name. QueueDoesNotExist),
     sqs_GetQueueAttributes := (\<lambda>url. Inr [''QueueArn'' \<mapsto> ''arn''])\<rparr>"

definition memory_outside :: "(mem_tables, nat, unit, dynamoHistoryItem, mem_items) outside" where
  "memory_outside =
     \<lparr>out_env = (\<lambda>key. if key = ''AWS_ENDPOINT_URL'' then ''http://localstack'' else ''''),
      out_opener = \<lparr>dbo_Open = (\<lambda>_. Inr ()), dbo_Use = (\<lambda>_. None), dbo_AutoMigrate = (\<lambda>_ _. None)\<rparr>,
      out_uuid = mem_uuid, out_gorm = (\<lambda>_. mem_gorm), out_LoadDefaultConfig = (\<lambda>_. None),
      out_tables = \<lparr>ddb_DescribeTable = (\<lambda>_. TableNotFound), ddb_CreateTable = (\<lambda>_ _. TableMade), ddb_Wait = (\<lambda>_. None)\<rparr>,
      out_dynamo = mem_dynamo, out_tbl = (\<lambda>_. []), out_queues = fresh_queues, out_network = sample_network [200],
      out_sdk = sample_sdk\<rparr>"

definition memory_connections :: "unit connections" where
  "memory_connections = \<lparr>cn_DB = (), cn_queueURLs = map_of (map (\<lambda>q. (q, q)) queueNames), cn_client = NoOpClient\<rparr>"

lemma memory_connect: "\<exists>made. connect memory_outside () = (Inr memory_connections, made)"
  by (simp add: connect_def EnsureOrderHistoryTable_def memory_outside_def Let_def memory_connections_def aws_ToString_def
      ResolveQueueURLs_def queueNames_def ResolveQueueURL_def createQueueWithDLQ_def fresh_queues_def sample_queues_def
      queueURLEnv_def upper_char_def queueOrderInventoryRequested_def NewModule_client_def fun_eq_iff)

lemma startup_eq:
  "orderRepo D' = orderRepo D \<Longrightarrow> Publisher_PublishRequest D' = Publisher_PublishRequest D \<Longrightarrow> startup D' = startup D"
proof -
  assume same: "orderRepo D' = orderRepo D" "Publisher_PublishRequest D' = Publisher_PublishRequest D"
  then have "PublishRequest D' = PublishRequest D" by (simp add: PublishRequest_def fun_eq_iff)
  with same(1) show ?thesis
    by (simp add: startup_def RecoverAwaitingSagas_def logAwaitingPaymentOrders_def FindBySagaStatus_def cong: option.case_cong)
qed

lemma memory_ready:
  obtains w' where "running sample_web (\<lambda>_. None) gorm_deps {memory_outside} gorm_world
    (Serving memory_outside memory_connections True) w'"
proof -
  let ?D = "registerServiceOrderRoutes memory_outside memory_connections None gorm_deps"
  let ?run = "running sample_web (\<lambda>_. None) gorm_deps {memory_outside} gorm_world"
  have "Publisher_PublishRequest ?D = Publisher_PublishRequest gorm_deps"
    by (simp add: registerServiceOrderRoutes_def Let_def with_clients_def with_publisher_def publish_request_def
        memory_outside_def memory_connections_def fresh_queues_def gorm_deps_def)
  then have same: "startup ?D = startup gorm_deps" by (intro startup_eq) (simp_all add: memory_outside_def gorm_deps_def)
  have "succeeds (startup gorm_deps gorm_world)" by code_simp
  then obtain u w' where up: "startup ?D gorm_world = (Inr u, w')" unfolding same by (rule succeedsE)
  have "?run (Starting memory_outside None) gorm_world" by (rule running.started [OF running.installed]) simp
  moreover have "ConnectWithDependencies (out_env memory_outside) (out_opener memory_outside) = Inr ()"
    by (simp add: ConnectWithDependencies_def memory_outside_def)
  ultimately have "?run (Starting memory_outside (Some ())) gorm_world" by (rule running.database)
  then have "?run (Serving memory_outside memory_connections False) gorm_world"
    using memory_connect by (auto intro: running.registered)
  from running.recovered [OF this up] that show ?thesis by blast
qed

theorem start_complete_witness:
  "prepared memory_outside memory_connections \<and>
   (\<exists>q \<in> set queueNames. may_make_queue fresh_queues (out_env memory_outside) q)"
proof -
  obtain w' where "running sample_web (\<lambda>_. None) gorm_deps {memory_outside} gorm_world
    (Serving memory_outside memory_connections True) w'" by (rule memory_ready)
  note complete = start_complete [OF this]
  have "fst (answer sample_web gorm_deps (Serving memory_outside memory_connections True)
      (BillingRoute GET_payments_result) (sample_request '''' '''' '''') w') =
    Some (fst (serve_http sample_web (registerServiceOrderRoutes memory_outside memory_connections
      (context_authorization (BillingRoute GET_payments_result) (sample_request '''' '''' '''')) gorm_deps)
      (BillingRoute GET_payments_result) (sample_request '''' '''' '''') w'))"
    by (simp only: answer.simps split_beta fst_conv)
  from conjunct1 [OF complete, rule_format, OF this] have "prepared memory_outside memory_connections" by auto
  moreover have "may_make_queue fresh_queues (out_env memory_outside) queueOrderInventoryRequested"
    by (simp add: may_make_queue_def fresh_queues_def memory_outside_def queueURLEnv_def queueOrderInventoryRequested_def
        upper_char_def)
  ultimately show ?thesis by (auto simp: queueNames_def)
qed

subsection \<open>The workflow\<close>

text \<open>What the outside has to keep: the methods of the database its contract, on the tables that are there, and the identifiers.\<close>

definition proper_outside ::
  "'u uuid_lib \<Rightarrow> ('db \<Rightarrow> 'u \<Rightarrow> 'u ServiceOrderModel option) \<Rightarrow> ('db \<Rightarrow> 'u \<Rightarrow> 'u ServiceOrderItemModel option) \<Rightarrow>
   'db deps \<Rightarrow> ('db, 'u, 'h, 'raw, 'tbl) outside set \<Rightarrow> bool" where
  "proper_outside U orders items D XS \<longleftrightarrow>
     (\<forall>t. \<exists>u. uuid_NewV7 D t = uuid_String U u) \<and>
     (\<forall>X \<in> XS. out_uuid X = U \<and> (\<forall>h. gorm_db U (out_gorm X h) orders items))"

lemma wired_env:
  assumes "proper_outside U orders items D XS" and "X \<in> XS"
  shows "service_env (registerServiceOrderRoutes X c a D) (uuid_canon U) (\<lambda>db. stored_view U (orders db) (items db))"
proof -
  have gorm: "gorm_db U (out_gorm X (cn_DB c)) orders items" and "out_uuid X = U"
    using assms by (auto simp: proper_outside_def)
  moreover have "uuid_canon U (uuid_NewV7 D t) = Some (uuid_NewV7 D t)" for t
    using assms(1) gorm_db.parse_String [OF gorm] by (auto simp: uuid_canon_def proper_outside_def dest: spec [of _ t])
  ultimately show ?thesis using gorm_db.implements [OF gorm] by (simp add: service_env_def service_env_axioms_def)
qed

lemma running_evolves:
  assumes "proper_outside U orders items D XS" and "running W J D XS w0 p w"
    and "wf_store (stored_view U (orders (w_db w0)) (items (w_db w0)))"
  shows "evolves (stored_view U (orders (w_db w0)) (items (w_db w0))) (stored_view U (orders (w_db w)) (items (w_db w)))"
  using assms(2)
proof (induction rule: running.induct)
  let ?view = "\<lambda>db. stored_view U (orders db) (items db)"
  have step: "evolves (?view (w_db w0)) (?view (w_db (react W J (registerServiceOrderRoutes X c a D) i w)))"
    if "X \<in> XS" "evolves (?view (w_db w0)) (?view (w_db w))" for X c a i w
  proof -
    have "wf_store (?view (w_db w))" using that(2) assms(3) by (rule evolves_wf)
    from service_env.reachable_evolves [OF wired_env [OF assms(1) that(1)] react_reachable [OF reachable.initial] this]
    show ?thesis using evolves_trans [OF that(2)] by blast
  qed
  have boot: "evolves (?view (w_db w0)) (?view (w_db w'))"
    if "startup (registerServiceOrderRoutes X c None D) w = (r, w')" "X \<in> XS" "evolves (?view (w_db w0)) (?view (w_db w))"
    for X c r w w'
    using step [OF that(2,3), of c None StartInput] that(1) by simp
  { case installed show ?case by simp
  next case (recovered X c w u w') then show ?case using boot running_prepared by fastforce
  next case (not_recovered X c w err w') then show ?case using boot running_prepared by fastforce
  next
    case (request p w rt r resp w')
    show ?case
    proof (cases p)
      case (Serving X c ready)
      with request have "w' = react W J (registerServiceOrderRoutes X c (context_authorization rt r) D) (HttpInput rt r) w"
        by (auto split: prod.splits)
      moreover have "X \<in> XS" using running_prepared [OF request(1)] Serving by simp
      ultimately show ?thesis using step request by blast
    qed (use request in simp_all)
  next
    case (worker X c w e)
    moreover have "X \<in> XS" using running_prepared [OF worker(1)] by simp
    ultimately show ?case using step by blast }
qed auto

text \<open>
  Claim C2. The whole program keeps the workflow. However often it is started, over its real repository on a database that
  keeps the contract of \<^verbatim>\<open>gorm\<close>, with its real clients, publisher and store of the history, whatever these answer, and
  whichever requests, with whichever headers, and messages reach it: the stored orders stay well formed, none is
  lost, their statuses go along the workflow only, and a new order has come from a newly received one.
\<close>

theorem program_keeps_workflow:
  assumes "proper_outside U orders items D XS" and "running W J D XS w0 p w"
    and "wf_store (stored_view U (orders (w_db w0)) (items (w_db w0)))"
  shows "wf_store (stored_view U (orders (w_db w)) (items (w_db w))) \<and>
    (\<forall>j v. stored_view U (orders (w_db w0)) (items (w_db w0)) j = Some v \<longrightarrow>
       (\<exists>v'. stored_view U (orders (w_db w)) (items (w_db w)) j = Some v' \<and> workflow\<^sup>*\<^sup>* (v_status v) (v_status v'))) \<and>
    (\<forall>j v'. stored_view U (orders (w_db w0)) (items (w_db w0)) j = None \<longrightarrow>
       stored_view U (orders (w_db w)) (items (w_db w)) j = Some v' \<longrightarrow> workflow\<^sup>*\<^sup>* StatusReceived (v_status v'))"
  using running_evolves [OF assms] assms(3) evolves_invariant by blast

lemma memory_proper: "proper_outside mem_uuid mt_order mt_item gorm_deps {memory_outside}"
  using mem_gorm.gorm_db_axioms by (auto simp: proper_outside_def memory_outside_def gorm_deps_def mem_uuid_def)

lemma gorm_env: "service_env gorm_deps (uuid_canon mem_uuid) (\<lambda>db. stored_view mem_uuid (mt_order db) (mt_item db))"
  using wired_env [OF memory_proper, of memory_outside] by (simp add: service_env_def service_env_axioms_def memory_outside_def gorm_deps_def)

lemma gorm_world_wf: "wf_store (stored_view mem_uuid (mt_order (w_db gorm_world)) (mt_item (w_db gorm_world)))"
proof -
  let ?w0 = "\<lparr>w_db = no_tables, w_log = [], w_tick = 0\<rparr>"
  have "reachable (\<lambda>_. None) gorm_deps ?w0 gorm_world"
    unfolding gorm_world_def by (intro reachable_serve_all reachable.initial)
  moreover have "wf_store (stored_view mem_uuid (mt_order (w_db ?w0)) (mt_item (w_db ?w0)))"
    by (simp add: wf_store_def stored_view_def no_tables_def mt_order_def split: sum.split)
  ultimately show ?thesis using service_env.reachable_invariant [OF gorm_env] by blast
qed

theorem program_keeps_workflow_witness:
  "\<exists>w1 resp w2 v v'. answer sample_web gorm_deps (Serving memory_outside memory_connections True) (OrderRoute POST_advance)
       (sample_request ''manager'' ''u0'' '''') w1 = (resp, w2) \<and>
     running sample_web (\<lambda>_. None) gorm_deps {memory_outside} gorm_world (Serving memory_outside memory_connections True) w1 \<and>
     stored_view mem_uuid (mt_order (w_db gorm_world)) (mt_item (w_db gorm_world)) ''u0'' = Some v \<and>
     stored_view mem_uuid (mt_order (w_db w2)) (mt_item (w_db w2)) ''u0'' = Some v' \<and>
     workflow\<^sup>*\<^sup>* (v_status v) (v_status v')"
proof -
  obtain w1 where ready: "running sample_web (\<lambda>_. None) gorm_deps {memory_outside} gorm_world
    (Serving memory_outside memory_connections True) w1" by (rule memory_ready)
  obtain resp w2 where ans: "answer sample_web gorm_deps (Serving memory_outside memory_connections True)
    (OrderRoute POST_advance) (sample_request ''manager'' ''u0'' '''') w1 = (resp, w2)" by fastforce
  have "succeeds (repo_impl_FindByID mem_uuid mem_gorm ''u0'' (w_db gorm_world))" by code_simp
  then obtain s db where run: "repo_impl_FindByID mem_uuid mem_gorm ''u0'' (w_db gorm_world) = (Inr s, db)" by (rule succeedsE)
  have "so_id s = ''u0''" using mem_gorm.find_run(2) [OF run refl]
    by (simp add: uuid_canon_def mem_uuid_def mem_uuid_Parse_def mem_uuid_String_def)
  then have v: "stored_view mem_uuid (mt_order (w_db gorm_world)) (mt_item (w_db gorm_world)) ''u0'' = Some (abs_order s)"
    using mem_gorm.find_run(2) [OF run refl] by simp
  from program_keeps_workflow [OF memory_proper running.request [OF ready ans] gorm_world_wf] ready ans v
  show ?thesis by blast
qed

end
