(* ===== verification/Spec2Isabelle.thy ===== *)
theory Spec2Isabelle
  imports Saga_Properties Order_Properties Billing_Properties Usecases_Status_Properties Status_Properties
    Usecases_Edit_Properties Usecases_Read_Properties Consumers_Properties Persistence_Properties System_Properties
    Webhook_Properties Payment_Client_Properties Facade_Properties History_Store_Properties
    Delivery_Properties Wiring_Properties
begin

text \<open>
  A verification development for the order service of a car workshop (the microservice of the repository,
  written in Go). The service keeps service orders, moves them through a workflow of twelve statuses, asks a
  stock service for reservations and their undoing by messages (a saga per order), asks Mercado Pago for
  payments and refunds, and answers both services' messages.

  \<^bold>\<open>The program and the theories.\<close> Paths are under \<^verbatim>\<open>src/internal\<close>; \<^verbatim>\<open>so\<close> stands for
  \<^verbatim>\<open>modules/service_order\<close>.

  \<^item> \<open>Prelude\<close>: machine integers (Go's \<^verbatim>\<open>int\<close> is a \<open>64 word\<close>), the type of errors, and programs as functions
    from a world to an error or a result and the new world, with their composition and their Hoare rules.
  \<^item> \<open>Order_Status\<close>: \<^verbatim>\<open>so/domain/service_order/order_status.go\<close>, \<^verbatim>\<open>inventory_operation_type.go\<close>.
  \<^item> \<open>Order_Item\<close>, \<open>Service_Order\<close>, \<open>History\<close>: \<^verbatim>\<open>service_order_item.go\<close>, \<^verbatim>\<open>service_order.go\<close>, \<^verbatim>\<open>history.go\<close> of the
    same package. A struct is a record with its fields, a method that mutates its receiver returns the new
    value, a reading of the clock is an argument.
  \<^item> \<open>Order_Lines\<close>: what the operations on the lines of an order do, as facts about quantities and amounts.
  \<^item> \<open>Order_View\<close>: the abstract specification. An order is seen as \<open>order_view\<close> (status, saga, payment, lines as
    a multiset; no times), and the moves an order may make are the relation \<open>order_step\<close>; its invariant is
    \<open>view_wf\<close>. Every method of the order refines a sequence of moves.
  \<^item> \<open>Ports\<close>: the outside as one record of functions (\<open>deps\<close>), the world (database, log of the calls that
    succeeded, moment), the calls. What a call answers may depend on the moment in any way.
  \<^item> \<open>Repository_Contract\<close>: the locales \<open>order_repository\<close> and \<open>service_env\<close>, what the application relies on of
    its repository and of the generator of identifiers.
  \<^item> \<open>Handler_Calculus\<close>, \<open>Execution\<close>: how handlers are reasoned about under the contract: rules by which a
    program changes stored orders along the abstract machine only, and what is known after each call.
  \<^item> \<open>Memory_Repository\<close>, \<open>Samples\<close>: a repository over a list and concrete worlds, for the witnesses.
  \<^item> \<open>Persistence\<close>: \<^verbatim>\<open>so/infra/persistence\<close>: the rows of the two tables, their conversion and every method of the
    order repository, over records of the calls of \<^verbatim>\<open>gorm\<close> and \<^verbatim>\<open>google/uuid\<close>. \<open>Gorm_Contract\<close> is the locale of
    what these libraries document, \<open>Persistence_Correct\<close> the refinement: the repository obeys
    \<open>order_repository\<close>. \<open>Memory_Gorm\<close> is a database of two lists that keeps the contract.
  \<^item> \<open>Saga\<close>: \<^verbatim>\<open>so/application/saga/saga_orchestrator.go\<close>, every method.
  \<^item> \<open>Go_Float\<close>: Go's \<^verbatim>\<open>float64\<close>, for prices: conversion and division with their rounding to 53 bits.
    \<open>Billing\<close>: \<^verbatim>\<open>modules/billing/application/usecases\<close>, every use case.
  \<^item> \<open>Usecases_Status\<close>, \<open>Usecases_Edit\<close>, \<open>Usecases_Read\<close>: \<^verbatim>\<open>so/application/usecases\<close>, every use case.
  \<^item> \<open>Consumers\<close>: \<^verbatim>\<open>messaging/consumers\<close>: decoding and handling of messages and the polling loop.
    \<open>Emissions\<close>: what a program adds to the log of its calls.
  \<^item> \<open>Go_Text\<close>: what the program uses of Go's packages \<^verbatim>\<open>strings\<close>, \<^verbatim>\<open>strconv\<close> and \<^verbatim>\<open>fmt\<close>. \<open>Validators\<close>:
    \<^verbatim>\<open>shared/validators/validator.go\<close>, the interpreter of validation tags over values seen by reflection.
    \<open>Http_Dto\<close>: \<^verbatim>\<open>so/infra/http/dto\<close>, the bodies of requests and responses, how they are read and what the
    validator sees of them. \<open>Error_Mapping\<close>: the texts of the errors and \<^verbatim>\<open>shared/utils/error_mapper.go\<close>.
  \<^item> \<open>Http\<close>: requests, responses, \<^verbatim>\<open>shared/utils/http_response.go\<close>, the check of a token
    (\<^verbatim>\<open>access_control/infra/auth/jwt_service.go\<close>) and of a role (\<^verbatim>\<open>shared/infra/http/middleware\<close>). \<open>Order_Http\<close>,
    \<open>Billing_Http\<close>: every handler of the order and the billing routes. \<open>Routes\<close>: which checks and which handler
    answer which pattern. A handler is a function from a request and a world to a response and a world.
  \<^item> \<open>Http_Client\<close>: \<^verbatim>\<open>shared/http_clients\<close> and the adapters: the reading of customers, vehicles, products and
    services, with the retries of a request. \<open>Mercado_Pago\<close>: \<^verbatim>\<open>modules/billing/infra/mercado_pago\<close>: the client over
    the SDK, the client without credentials, the requester, and their choice in \<^verbatim>\<open>modules/billing/module.go\<close>.
    \<open>with_clients\<close> and \<open>with_mp\<close> put them in the place of the dependencies the use cases are written against;
    \<open>Client_Properties\<close> and \<open>Payment_Client_Properties\<close> are about the service with them.
  \<^item> \<open>Module_Facade\<close>: \<^verbatim>\<open>so/module.go\<close>, the facade for other modules, with \<open>Facade_Properties\<close>.
  \<^item> \<open>Failures\<close>: what a use case that fails leaves behind. \<open>System\<close>: the service as a whole, an inductive relation
    with one event per call of a use case, run of a consumer or start of \<^verbatim>\<open>src/cmd/api/main.go\<close>. \<open>Webhook_Properties\<close>
    names the event each request stands for and shows that the routes do what these events do.
  \<^item> \<open>Go_Time\<close>: moments as counted by the calendar, and \<^verbatim>\<open>time.RFC3339\<close>, printing and reading, with the round trip.
    \<open>History_Store\<close>: \<^verbatim>\<open>history_dynamo_repository.go\<close>, the store of the history the program uses, and the one over \<^verbatim>\<open>gorm\<close>;
    \<open>History_Store_Correct\<close> has the locale \<open>dynamo_table\<close> of what DynamoDB documents and the refinement to a map,
    \<open>History_Store_Properties\<close> a table in memory that keeps it.
  \<^item> \<open>Infrastructure\<close>: \<^verbatim>\<open>shared/infra/sqs\<close>, \<^verbatim>\<open>dynamodb\<close>, \<^verbatim>\<open>database\<close>, \<^verbatim>\<open>awsconfig\<close>, \<^verbatim>\<open>email\<close> and \<^verbatim>\<open>messaging/publishers\<close>:
    what the start looks up, makes or refuses, the request to the stock service as it is written, the e-mails.
    \<open>Delivery_Properties\<close> follows a saga from its request on the queue to its end.
  \<^item> \<open>Wiring\<close>: \<^verbatim>\<open>src/cmd/api/main.go\<close>: a \<open>process\<close> listens with its health check alone, is connected to the database and
    then (\<open>connect\<close>) to everything else, has its routes registered and answers them, recovers, and polls its queues;
    \<open>registerServiceOrderRoutes\<close> puts every real dependency into \<open>deps\<close>, \<open>running\<close> is the inductive relation of a program
    that goes through these phases again and again. \<open>Wiring_Properties\<close> shows what is there before it is used, and
    that the program keeps the workflow.
  \<^item> \<open>X_Correct\<close> proves what the handlers of \<open>X\<close> do under the contract, \<open>X_Properties\<close> states the properties.

  \<^bold>\<open>What the lemmas show.\<close> For each handler: which order it changes and to what, that it changes no other,
  what it records in the history, and what it asks of the stock service and of Mercado Pago, on every branch,
  failures included; that every handler moves stored orders along the abstract machine only; for the domain:
  the workflow, the exactness of amounts and quantities, the comparison and the copy of orders.

  \<^bold>\<open>Bounds.\<close> Loops over slices are structural recursions; no fuel is used. A consumer's endless loop is run on
  the finite list of answers of the queue observed so far.

  \<^bold>\<open>Not modelled.\<close> Concurrency between handlers (a handler runs alone, and so does the recovery), crashes between two calls, panics of
  the runtime except the nil dereference noted in \<open>Usecases_Edit\<close>, tracing, metrics and logging, the
  constructors of the libraries' clients, the shutdown by a signal. The other services, the queue, the clock, the generator of
  identifiers, the parser of JSON, the checks of \<^verbatim>\<open>golang-jwt\<close>, \<^verbatim>\<open>google/uuid\<close> and HMAC, the printing of the
  times of responses and of floating-point numbers are parameters (the prices themselves are computed); the times of requests and of the history are printed. The multiplexer's matching of paths with patterns and the writing of
  JSON are the library's: a request comes with the pattern it matched, a response is the value that is written.
\<close>

end
